(* ===== verification/Prelude.thy ===== *)
theory Prelude
  imports Complex_Main "HOL-Library.Word" "HOL-Library.Sublist"
begin

text \<open>
  Shared vocabulary of the development: Rust's fixed-width integers and their saturating
  operations, \<open>Result\<close> as a sum, error values with their chain of contexts, and the generic
  lemmas on lists, maps and words that the component theories use through the simplifier.
  The collections \<open>sat_simps\<close>, \<open>res_simps\<close> and \<open>text_simps\<close> gather what the proofs of a
  component usually need.
\<close>

named_theorems sat_simps
named_theorems res_simps
named_theorems text_simps

section \<open>Machine integers\<close>

type_synonym u8 = "8 word"
type_synonym u32 = "32 word"
type_synonym u64 = "64 word"

text \<open>\<open>saturating_add\<close>, \<open>saturating_sub\<close> and \<open>saturating_mul\<close> of Rust's unsigned integers.\<close>

definition saturating_add :: "'a::len word \<Rightarrow> 'a word \<Rightarrow> 'a word" where
  "saturating_add a b = (if unat a + unat b < 2 ^ LENGTH('a) then a + b else - 1)"

definition saturating_sub :: "'a::len word \<Rightarrow> 'a word \<Rightarrow> 'a word" where
  "saturating_sub a b = (if b \<le> a then a - b else 0)"

definition saturating_mul :: "'a::len word \<Rightarrow> 'a word \<Rightarrow> 'a word" where
  "saturating_mul a b = (if unat a * unat b < 2 ^ LENGTH('a) then a * b else - 1)"

lemma unat_minus_one_max: "unat (- 1 :: 'a::len word) = 2 ^ LENGTH('a) - 1"
  by (simp add: unsigned_minus_1_eq_mask mask_eq_exp_minus_1)

lemma unat_saturating_add [sat_simps]:
  "unat (saturating_add a (b :: 'a::len word)) = min (unat a + unat b) (2 ^ LENGTH('a) - 1)"
proof -
  have "unat (a + b) = unat a + unat b" if "unat a + unat b < 2 ^ LENGTH('a)"
    using that by (simp add: unat_word_ariths)
  then show ?thesis
    by (auto simp: saturating_add_def unat_minus_one_max)
qed

lemma unat_saturating_sub [sat_simps]: "unat (saturating_sub a b) = unat a - unat b"
  by (auto simp: saturating_sub_def unat_sub word_le_nat_alt)

lemma unat_saturating_mul [sat_simps]:
  "unat (saturating_mul a (b :: 'a::len word)) = min (unat a * unat b) (2 ^ LENGTH('a) - 1)"
proof -
  have "unat (a * b) = unat a * unat b" if "unat a * unat b < 2 ^ LENGTH('a)"
    using that by (simp add: unat_word_ariths)
  then show ?thesis
    by (auto simp: saturating_mul_def unat_minus_one_max)
qed

lemma saturating_add_ge [simp]: "a \<le> saturating_add a (b :: 'a::len word)"
proof -
  have "unat a \<le> 2 ^ LENGTH('a) - 1"
    using unsigned_less [of a, where 'a = nat] by linarith
  then show ?thesis by (simp add: word_le_nat_alt sat_simps)
qed

lemma saturating_add_0 [simp]: "saturating_add a 0 = a"
  using unsigned_less [of a] by (simp add: saturating_add_def)

lemma saturating_sub_0 [simp]: "saturating_sub a 0 = a"
  by (simp add: saturating_sub_def)

lemma saturating_sub_self [simp]: "saturating_sub a a = 0"
  by (simp add: saturating_sub_def)

lemma saturating_add_sub:
  assumes "unat a + unat (b :: 'a::len word) < 2 ^ LENGTH('a)"
  shows "saturating_sub (saturating_add a b) a = b"
  using assms by (intro unsigned_word_eqI [where 'a = nat]) (simp add: sat_simps)

lemma unat_u32_bound: "unat (x :: u32) < 4294967296"
  using unsigned_less [of x, where 'a = nat] by simp

lemma unat_u64_bound: "unat (x :: u64) < 18446744073709551616"
  using unsigned_less [of x, where 'a = nat] by simp

section \<open>Results and errors\<close>

text \<open>
  \<open>Result<T, E>\<close> is the sum type with the error on the left. An \<open>anyhow::Error\<close> is the chain of
  its messages, outermost context first; \<open>{:#}\<close> prints them joined by a colon and a space. The
  I/O error kind at the bottom of the chain is what \<open>downcast_ref::<io::Error>\<close> finds.
\<close>

type_synonym ('e, 'a) result = "'e + 'a"

datatype io_kind = NotFound | ConnectionRefused | BrokenPipe | OtherKind

record anyhow =
  chain :: "string list"
  io_kind_of :: "io_kind option"

definition anyhow_msg :: "string \<Rightarrow> anyhow" where
  "anyhow_msg m = \<lparr>chain = [m], io_kind_of = None\<rparr>"

definition with_context :: "string \<Rightarrow> (anyhow, 'a) result \<Rightarrow> (anyhow, 'a) result" where
  "with_context m r = (case r of Inl e \<Rightarrow> Inl (e\<lparr>chain := m # chain e\<rparr>) | Inr x \<Rightarrow> Inr x)"

definition res_bind :: "('e, 'a) result \<Rightarrow> ('a \<Rightarrow> ('e, 'b) result) \<Rightarrow> ('e, 'b) result" where
  "res_bind r f = (case r of Inl e \<Rightarrow> Inl e | Inr x \<Rightarrow> f x)"

definition res_ok :: "('e, 'a) result \<Rightarrow> 'a option" where
  "res_ok r = (case r of Inl _ \<Rightarrow> None | Inr x \<Rightarrow> Some x)"

lemma res_bind_simps [simp]:
  "res_bind (Inl e) f = Inl e" "res_bind (Inr x) f = f x"
  by (simp_all add: res_bind_def)

lemma res_ok_simps [simp]: "res_ok (Inl e) = None" "res_ok (Inr x) = Some x"
  by (simp_all add: res_ok_def)

lemma with_context_simps [simp]:
  "with_context m (Inr x) = Inr x"
  "with_context m (Inl e) = Inl (e\<lparr>chain := m # chain e\<rparr>)"
  by (simp_all add: with_context_def)

lemma res_bind_eq_Inr [res_simps]:
  "res_bind r f = Inr y \<longleftrightarrow> (\<exists>x. r = Inr x \<and> f x = Inr y)"
  by (cases r) auto

lemma with_context_eq_Inr [res_simps]: "with_context m r = Inr y \<longleftrightarrow> r = Inr y"
  by (cases r) auto

end
