(* ===== verification/Text.thy ===== *)
theory Text
  imports Prelude
begin

text \<open>
  The parts of Rust's \<open>str\<close> that the program uses. A string is a list of characters, each one
  byte and one code point (ASCII text, which is what \<open>tc\<close>, \<open>ss\<close>, sysctl files and the module
  index contain); \<open>char::is_whitespace\<close> and \<open>u8::is_ascii_whitespace\<close> differ on the vertical tab
  and both are kept. Splitting, trimming, line iteration, joining, integer parsing and integer
  formatting follow the standard library.
\<close>

section \<open>Characters\<close>

definition is_whitespace :: "char \<Rightarrow> bool" where
  "is_whitespace c = (let n = (of_char c :: nat) in n = 32 \<or> (9 \<le> n \<and> n \<le> 13))"

definition is_ascii_whitespace :: "char \<Rightarrow> bool" where
  "is_ascii_whitespace c = (let n = (of_char c :: nat) in n = 32 \<or> n = 9 \<or> n = 10 \<or> n = 12 \<or> n = 13)"

definition is_ascii_digit :: "char \<Rightarrow> bool" where
  "is_ascii_digit c = (let n = (of_char c :: nat) in 48 \<le> n \<and> n \<le> 57)"

definition is_ascii_lower :: "char \<Rightarrow> bool" where
  "is_ascii_lower c = (let n = (of_char c :: nat) in 97 \<le> n \<and> n \<le> 122)"

definition is_ascii_upper :: "char \<Rightarrow> bool" where
  "is_ascii_upper c = (let n = (of_char c :: nat) in 65 \<le> n \<and> n \<le> 90)"

definition is_ascii_alphabetic :: "char \<Rightarrow> bool" where
  "is_ascii_alphabetic c = (is_ascii_lower c \<or> is_ascii_upper c)"

definition is_ascii_alphanumeric :: "char \<Rightarrow> bool" where
  "is_ascii_alphanumeric c = (is_ascii_alphabetic c \<or> is_ascii_digit c)"

definition to_ascii_lowercase_char :: "char \<Rightarrow> char" where
  "to_ascii_lowercase_char c = (if is_ascii_upper c then char_of ((of_char c :: nat) + 32) else c)"

definition to_ascii_lowercase :: "string \<Rightarrow> string" where
  "to_ascii_lowercase s = map to_ascii_lowercase_char s"

abbreviation newline :: char where "newline \<equiv> CHR 0x0A"

section \<open>Splitting and joining\<close>

text \<open>\<open>split\<close>: one piece more than there are separators, empty pieces included.\<close>

fun split_on :: "(char \<Rightarrow> bool) \<Rightarrow> string \<Rightarrow> string list" where
  "split_on p [] = [[]]"
| "split_on p (c # cs) =
     (if p c then [] # split_on p cs
      else (case split_on p cs of [] \<Rightarrow> [[c]] | w # ws \<Rightarrow> (c # w) # ws))"

definition split_char :: "char \<Rightarrow> string \<Rightarrow> string list" where
  "split_char d s = split_on (\<lambda>c. c = d) s"

definition split_whitespace :: "string \<Rightarrow> string list" where
  "split_whitespace s = filter (\<lambda>w. w \<noteq> []) (split_on is_whitespace s)"

text \<open>\<open>str::lines\<close>: terminated by a newline, one carriage return before it dropped, no last
  empty line.\<close>

definition strip_cr :: "string \<Rightarrow> string" where
  "strip_cr l = (if l \<noteq> [] \<and> last l = CHR 0x0D then butlast l else l)"

definition lines :: "string \<Rightarrow> string list" where
  "lines s = (let ps = split_char newline s
              in map strip_cr (butlast ps) @ (if last ps = [] then [] else [last ps]))"

fun join :: "string \<Rightarrow> string list \<Rightarrow> string" where
  "join sep [] = []"
| "join sep [x] = x"
| "join sep (x # y # xs) = x @ sep @ join sep (y # xs)"

definition trim :: "string \<Rightarrow> string" where
  "trim s = rev (dropWhile is_whitespace (rev (dropWhile is_whitespace s)))"

definition trim_end :: "string \<Rightarrow> string" where
  "trim_end s = rev (dropWhile is_whitespace (rev s))"

fun split_once :: "char \<Rightarrow> string \<Rightarrow> (string \<times> string) option" where
  "split_once d [] = None"
| "split_once d (c # cs) =
     (if c = d then Some ([], cs)
      else map_option (\<lambda>(a, b). (c # a, b)) (split_once d cs))"

definition rsplit_once :: "char \<Rightarrow> string \<Rightarrow> (string \<times> string) option" where
  "rsplit_once d s = map_option (\<lambda>(a, b). (rev b, rev a)) (split_once d (rev s))"

definition strip_prefix_str :: "string \<Rightarrow> string \<Rightarrow> string option" where
  "strip_prefix_str p s = (if take (length p) s = p then Some (drop (length p) s) else None)"

definition strip_suffix_str :: "string \<Rightarrow> string \<Rightarrow> string option" where
  "strip_suffix_str p s =
     (if length p \<le> length s \<and> drop (length s - length p) s = p
      then Some (take (length s - length p) s) else None)"

definition starts_with :: "string \<Rightarrow> string \<Rightarrow> bool" where
  "starts_with s p = (take (length p) s = p)"

definition ends_with :: "string \<Rightarrow> string \<Rightarrow> bool" where
  "ends_with s p = (length p \<le> length s \<and> drop (length s - length p) s = p)"

fun contains_str :: "string \<Rightarrow> string \<Rightarrow> bool" where
  "contains_str [] p = (p = [])"
| "contains_str (c # cs) p = (starts_with (c # cs) p \<or> contains_str cs p)"

section \<open>Integers as text\<close>

definition digit_char :: "nat \<Rightarrow> char" where
  "digit_char d = char_of (if d < 10 then 48 + d else 87 + d)"

fun digits_base :: "nat \<Rightarrow> nat \<Rightarrow> string" where
  "digits_base b n = (if n < b \<or> b < 2 then [digit_char n]
                      else digits_base b (n div b) @ [digit_char (n mod b)])"

declare digits_base.simps [simp del]

definition dec :: "nat \<Rightarrow> string" where
  "dec n = digits_base 10 n"

definition hex :: "nat \<Rightarrow> string" where
  "hex n = digits_base 16 n"

definition digit_val :: "nat \<Rightarrow> char \<Rightarrow> nat option" where
  "digit_val b c =
     (let n = (of_char c :: nat);
          v = (if 48 \<le> n \<and> n \<le> 57 then n - 48
               else if 97 \<le> n \<and> n \<le> 122 then n - 87
               else if 65 \<le> n \<and> n \<le> 90 then n - 55 else 36)
      in if v < b then Some v else None)"

fun parse_digits :: "nat \<Rightarrow> nat \<Rightarrow> string \<Rightarrow> nat option" where
  "parse_digits b acc [] = Some acc"
| "parse_digits b acc (c # cs) =
     (case digit_val b c of None \<Rightarrow> None | Some v \<Rightarrow> parse_digits b (acc * b + v) cs)"

text \<open>\<open>from_str_radix\<close> of an unsigned type: an optional plus sign, at least one digit, and a value
  below the bound.\<close>

definition parse_radix :: "nat \<Rightarrow> nat \<Rightarrow> string \<Rightarrow> nat option" where
  "parse_radix b bound s =
     (let ds = (case s of [] \<Rightarrow> [] | c # cs \<Rightarrow> if c = CHR ''+'' then cs else s)
      in if ds = [] then None
         else (case parse_digits b 0 ds of None \<Rightarrow> None
               | Some n \<Rightarrow> if n < bound then Some n else None))"

definition parse_u64 :: "string \<Rightarrow> u64 option" where
  "parse_u64 s = map_option word_of_nat (parse_radix 10 (2 ^ 64) s)"

definition parse_u32 :: "string \<Rightarrow> u32 option" where
  "parse_u32 s = map_option word_of_nat (parse_radix 10 (2 ^ 32) s)"

section \<open>UTF-8\<close>

definition continuation :: "nat \<Rightarrow> bool" where
  "continuation b = (128 \<le> b \<and> b < 192)"

text \<open>\<open>str::from_utf8\<close>: no overlong forms, no surrogates, nothing above U+10FFFF.\<close>

fun utf8_bytes :: "nat list \<Rightarrow> bool" where
  "utf8_bytes [] = True"
| "utf8_bytes (b # bs) =
     (if b < 128 then utf8_bytes bs
      else if 194 \<le> b \<and> b < 224 then
        (case bs of c # rest \<Rightarrow> continuation c \<and> utf8_bytes rest | _ \<Rightarrow> False)
      else if 224 \<le> b \<and> b < 240 then
        (case bs of
           c # d # rest \<Rightarrow>
             continuation c \<and> continuation d \<and> (b = 224 \<longrightarrow> 160 \<le> c) \<and> (b = 237 \<longrightarrow> c < 160) \<and> utf8_bytes rest
         | _ \<Rightarrow> False)
      else if 240 \<le> b \<and> b < 245 then
        (case bs of
           c # d # f # rest \<Rightarrow>
             continuation c \<and> continuation d \<and> continuation f \<and> (b = 240 \<longrightarrow> 144 \<le> c) \<and> (b = 244 \<longrightarrow> c < 144)
             \<and> utf8_bytes rest
         | _ \<Rightarrow> False)
      else False)"

definition from_utf8 :: "string \<Rightarrow> bool" where
  "from_utf8 s = utf8_bytes (map of_char s)"

section \<open>Facts about text\<close>

lemma split_on_nonempty [simp]: "split_on p s \<noteq> []"
  by (induction s) (auto split: list.splits)

lemma split_on_no_sep: "(\<forall>c \<in> set s. \<not> p c) \<Longrightarrow> split_on p s = [s]"
  by (induction s) auto

lemma split_on_append_sep:
  assumes "\<forall>c \<in> set w. \<not> p c" and "p d"
  shows "split_on p (w @ d # s) = w # split_on p s"
  using assms by (induction w) (auto split: list.splits)

lemma split_on_pieces: "w \<in> set (split_on p s) \<Longrightarrow> c \<in> set w \<Longrightarrow> \<not> p c"
  by (induction s arbitrary: w) (force split: if_splits list.splits)+

lemma split_whitespace_word [text_simps]:
  assumes "w \<noteq> []" and "\<forall>c \<in> set w. \<not> is_whitespace c"
  shows "split_whitespace (w @ CHR '' '' # s) = w # split_whitespace s"
    and "split_whitespace w = [w]"
  using assms
  by (simp_all add: split_whitespace_def split_on_append_sep split_on_no_sep is_whitespace_def)

lemma split_whitespace_Nil [simp]: "split_whitespace [] = []"
  by (simp add: split_whitespace_def)

lemma split_whitespace_pieces: "w \<in> set (split_whitespace s) \<Longrightarrow> w \<noteq> [] \<and> (\<forall>c \<in> set w. \<not> is_whitespace c)"
  by (auto simp: split_whitespace_def dest: split_on_pieces)

lemma split_whitespace_join:
  assumes "\<forall>w \<in> set ws. w \<noteq> [] \<and> (\<forall>c \<in> set w. \<not> is_whitespace c)"
  shows "split_whitespace (join '' '' ws) = ws"
  using assms
  by (induction "'' ''" ws rule: join.induct) (simp_all add: text_simps)

lemma lines_terminated:
  assumes "newline \<notin> set l" and "l = [] \<or> last l \<noteq> CHR 0x0D"
  shows "lines (l @ newline # s) = l # lines s"
proof -
  have "split_char newline (l @ newline # s) = l # split_char newline s"
    using assms(1) by (auto simp: split_char_def intro!: split_on_append_sep)
  moreover have "split_char newline s \<noteq> []"
    by (simp add: split_char_def)
  ultimately show ?thesis
    using assms(2) by (auto simp: lines_def Let_def strip_cr_def)
qed

lemma lines_Nil [simp]: "lines [] = []"
  by (simp add: lines_def split_char_def)

lemma lines_concat:
  assumes "\<forall>l \<in> set ls. newline \<notin> set l \<and> (l = [] \<or> last l \<noteq> CHR 0x0D)"
  shows "lines (concat (map (\<lambda>l. l @ [newline]) ls)) = ls"
  using assms by (induction ls) (simp_all add: lines_terminated)

lemma split_once_Some:
  "split_once d s = Some (a, b) \<Longrightarrow> s = a @ d # b \<and> d \<notin> set a"
  by (induction s arbitrary: a) (auto split: if_splits)

lemma split_once_append: "d \<notin> set a \<Longrightarrow> split_once d (a @ d # b) = Some (a, b)"
  by (induction a) auto

lemma split_once_None: "split_once d s = None \<longleftrightarrow> d \<notin> set s"
  by (induction s) auto

lemma parse_digits_append:
  "parse_digits b acc (xs @ ys) =
     (case parse_digits b acc xs of None \<Rightarrow> None | Some v \<Rightarrow> parse_digits b v ys)"
  by (induction xs arbitrary: acc) (auto split: option.splits)

lemma digit_val_digit_char: "d < b \<Longrightarrow> b \<le> 36 \<Longrightarrow> digit_val b (digit_char d) = Some d"
  by (auto simp: digit_val_def digit_char_def Let_def)

lemma digits_base_nonempty [simp]: "digits_base b n \<noteq> []"
  by (subst digits_base.simps) simp

lemma parse_digits_base:
  "2 \<le> b \<Longrightarrow> b \<le> 36 \<Longrightarrow> parse_digits b 0 (digits_base b n) = Some n"
proof (induction b n rule: digits_base.induct)
  case (1 b n)
  show ?case
  proof (cases "n < b")
    case True
    with "1.prems" show ?thesis
      by (simp add: digits_base.simps [of b n] digit_val_digit_char)
  next
    case False
    with "1.prems" have "parse_digits b 0 (digits_base b (n div b)) = Some (n div b)"
      by (intro "1.IH") auto
    with False "1.prems" show ?thesis
      by (simp add: digits_base.simps [of b n] parse_digits_append digit_val_digit_char)
  qed
qed

lemma of_char_digit_char:
  "d < 16 \<Longrightarrow> (of_char (digit_char d) :: nat) = (if d < 10 then 48 + d else 87 + d)"
  by (simp add: digit_char_def)

lemma digits_base_chars:
  "2 \<le> b \<Longrightarrow> b \<le> 16 \<Longrightarrow> c \<in> set (digits_base b n) \<Longrightarrow> \<exists>d < b. c = digit_char d"
proof (induction b n rule: digits_base.induct)
  case (1 b n)
  show ?case
  proof (cases "n < b")
    case True
    with "1.prems" show ?thesis by (auto simp: digits_base.simps [of b n])
  next
    case False
    with "1.prems" have "c \<in> set (digits_base b (n div b)) \<or> c = digit_char (n mod b)"
      by (auto simp: digits_base.simps [of b n])
    then show ?thesis
    proof
      assume "c \<in> set (digits_base b (n div b))"
      with "1.IH" False "1.prems" show ?thesis by simp
    next
      assume "c = digit_char (n mod b)"
      moreover have "n mod b < b" using "1.prems" by simp
      ultimately show ?thesis by blast
    qed
  qed
qed

lemma digit_char_plain:
  assumes "d < 16"
  shows "\<not> is_whitespace (digit_char d)" and "digit_char d \<noteq> CHR '':''" and "digit_char d \<noteq> CHR ''+''"
    and "digit_char d \<noteq> newline" and "digit_char d \<noteq> CHR 0x0D"
proof -
  have n: "(of_char (digit_char d) :: nat) = (if d < 10 then 48 + d else 87 + d)"
    using assms by (rule of_char_digit_char)
  show "\<not> is_whitespace (digit_char d)"
    using n by (auto simp: is_whitespace_def Let_def)
  show "digit_char d \<noteq> CHR '':''" "digit_char d \<noteq> CHR ''+''" "digit_char d \<noteq> newline"
       "digit_char d \<noteq> CHR 0x0D"
    using n by (auto dest!: arg_cong [where f = "of_char :: char \<Rightarrow> nat"] split: if_splits)
qed

lemma hex_plain:
  "c \<in> set (hex n) \<Longrightarrow> \<not> is_whitespace c \<and> c \<noteq> CHR '':'' \<and> c \<noteq> newline \<and> c \<noteq> CHR 0x0D \<and> c \<noteq> CHR ''+''"
  using digits_base_chars [of 16 c n] digit_char_plain by (fastforce simp: hex_def)

lemma dec_digits: "c \<in> set (dec n) \<Longrightarrow> is_ascii_digit c"
  using digits_base_chars [of 10 c n] by (auto simp: dec_def is_ascii_digit_def Let_def of_char_digit_char)

lemma hex_not_Nil [simp]: "hex n \<noteq> []" by (simp add: hex_def)

lemma dec_not_Nil [simp]: "dec n \<noteq> []" by (simp add: dec_def)

text \<open>Printing a number and parsing it back gives the number, in either base.\<close>

lemma parse_radix_digits_base:
  assumes "2 \<le> b" "b \<le> 16" "n < bound"
  shows "parse_radix b bound (digits_base b n) = Some n"
proof -
  obtain c cs where cs: "digits_base b n = c # cs"
    using digits_base_nonempty by (meson neq_Nil_conv)
  then obtain d where "d < b" "c = digit_char d"
    using digits_base_chars [of b c n] assms by auto
  then have "c \<noteq> CHR ''+''"
    using digit_char_plain(3) [of d] assms by simp
  moreover have "parse_digits b 0 (c # cs) = Some n"
    using parse_digits_base [of b n] assms cs by simp
  ultimately show ?thesis
    using assms(3) cs by (simp add: parse_radix_def del: parse_digits.simps)
qed

lemmas parse_radix_hex = parse_radix_digits_base [of 16, folded hex_def, simplified]
lemmas parse_radix_dec = parse_radix_digits_base [of 10, folded dec_def, simplified]

lemma set_join: "set (join sep ws) \<subseteq> set sep \<union> (\<Union>w \<in> set ws. set w)"
  by (induction sep ws rule: join.induct) auto

lemma set_join_ge: "w \<in> set ws \<Longrightarrow> set w \<subseteq> set (join sep ws)"
  by (induction sep ws rule: join.induct) auto

lemma join_nonempty: "ws \<noteq> [] \<Longrightarrow> last ws \<noteq> [] \<Longrightarrow> join sep ws \<noteq> []"
  by (induction sep ws rule: join.induct) (auto split: if_splits)

lemma last_join: "ws \<noteq> [] \<Longrightarrow> last ws \<noteq> [] \<Longrightarrow> last (join sep ws) = last (last ws)"
proof (induction sep ws rule: join.induct)
  case (3 sep x y xs)
  then have "join sep (y # xs) \<noteq> []" by (intro join_nonempty) auto
  with 3 show ?case by simp
qed auto

text \<open>A word: what \<open>split_whitespace\<close> yields.\<close>

definition is_word :: "string \<Rightarrow> bool" where
  "is_word w = (w \<noteq> [] \<and> (\<forall>c \<in> set w. \<not> is_whitespace c))"

lemma words_line:
  assumes "\<forall>w \<in> set ws. is_word w"
  shows "split_whitespace (join '' '' ws) = ws" and "newline \<notin> set (join '' '' ws)"
    and "join '' '' ws = [] \<or> last (join '' '' ws) \<noteq> CHR 0x0D"
proof -
  show "split_whitespace (join '' '' ws) = ws"
    using assms by (intro split_whitespace_join) (auto simp: is_word_def)
  have w: "c \<notin> set w" if "is_whitespace c" "w \<in> set ws" for c w
    using assms that by (auto simp: is_word_def)
  show "newline \<notin> set (join '' '' ws)"
    using set_join [of "'' ''" ws] w [of newline] by (auto simp: is_whitespace_def Let_def)
  show "join '' '' ws = [] \<or> last (join '' '' ws) \<noteq> CHR 0x0D"
  proof (cases "ws = []")
    case False
    then have l: "last ws \<in> set ws" "last ws \<noteq> []" using assms by (auto simp: is_word_def)
    then have "last (last ws) \<noteq> CHR 0x0D"
      using w [of "CHR 0x0D" "last ws"] last_in_set [OF l(2)]
      by (auto simp: is_whitespace_def Let_def simp del: last_in_set)
    with False l show ?thesis by (simp add: last_join)
  qed simp
qed

lemma is_word_hex: "is_word (hex n)" "is_word (hex n @ '':'')"
  by (auto simp: is_word_def dest: hex_plain) (auto simp: is_whitespace_def Let_def)

lemma trim_inner:
  assumes "\<not> is_whitespace (hd w)" "\<not> is_whitespace (last w)" "w \<noteq> []" "list_all is_whitespace sp"
  shows "trim (sp @ w) = w"
proof -
  have "dropWhile is_whitespace (sp @ w) = w"
    using assms by (cases w) (auto simp: list_all_iff dropWhile_append2)
  moreover have "dropWhile is_whitespace (rev w) = rev w"
    using assms(2,3) by (cases w rule: rev_cases) auto
  ultimately show ?thesis by (simp add: trim_def)
qed

lemma trim_plain:
  assumes "list_all (\<lambda>c. \<not> is_whitespace c) s" "list_all is_whitespace tail"
  shows "trim (s @ tail) = s"
proof -
  have rs: "dropWhile is_whitespace (rev s) = rev s"
    using assms(1) by (cases s rule: rev_cases) auto
  have tl: "dropWhile is_whitespace (rev tail @ r) = dropWhile is_whitespace r" for r
    using assms(2) by (intro dropWhile_append2) (auto simp: list_all_iff)
  show ?thesis
  proof (cases s)
    case Nil
    then show ?thesis using assms(2) using tl [of "[]"] by (simp add: trim_def list_all_iff dropWhile_eq_Nil_conv) (use set_dropWhileD in fast)
  next
    case (Cons c cs)
    then have "dropWhile is_whitespace (s @ tail) = s @ tail" using assms(1) by simp
    then show ?thesis using rs tl [of "rev s"] by (simp add: trim_def)
  qed
qed

lemma split_on_append: "p d \<Longrightarrow> split_on p (a @ d # b) = split_on p a @ split_on p b"
proof (induction a)
  case (Cons c a)
  then show ?case using split_on_nonempty [of p a] by (cases "split_on p a") auto
qed simp

lemma join_append: "xs \<noteq> [] \<Longrightarrow> ys \<noteq> [] \<Longrightarrow> join sep (xs @ ys) = join sep xs @ sep @ join sep ys"
proof (induction sep xs rule: join.induct)
  case (2 sep x)
  then show ?case by (cases ys) auto
qed auto

lemma join_Cons: "ys \<noteq> [] \<Longrightarrow> join sep (y # ys) = y @ sep @ join sep ys"
  by (cases ys) auto

lemma split_char_append: "split_char d (a @ d # b) = split_char d a @ split_char d b"
  by (simp add: split_char_def split_on_append)

lemma split_char_none: "d \<notin> set s \<Longrightarrow> split_char d s = [s]"
  unfolding split_char_def by (rule split_on_no_sep) auto

lemma split_join:
  assumes "ps \<noteq> []" "\<forall>p \<in> set ps. d \<notin> set p"
  shows "split_char d (join [d] ps) = ps"
  using assms
  by (induction "[d]" ps rule: join.induct) (simp_all add: split_char_append split_char_none)

lemma join_split: "join [d] (split_char d s) = s"
proof (induction s)
  case (Cons c s)
  have "split_char d s \<noteq> []" by (simp add: split_char_def)
  with Cons show ?case
    by (cases "split_char d s" rule: list.exhaust [case_product list.exhaust [of "tl (split_char d s)"]])
      (auto simp: split_char_def split: list.splits)
qed (simp add: split_char_def)

end
