(* ===== verification/Floats.thy ===== *)
theory Floats
  imports Text
begin

text \<open>
  Rust's \<open>f64\<close>: an IEEE 754 binary64 value as not-a-number, an infinity with its sign, or a
  rational. A finite result is the exact result rounded to the nearest value with a 53-bit
  significand and an exponent of at least \<open>-1074\<close>, ties to even, and overflows to an infinity.
  Zero carries no sign, since nothing the program does with these values tells the two zeros
  apart. Conversions to integers truncate and saturate as the \<open>as\<close> operator does.
\<close>

datatype f64 = NaN | Infinite bool | Finite rat

definition pow2 :: "int \<Rightarrow> rat" where
  "pow2 k = (if 0 \<le> k then 2 ^ nat k else 1 / 2 ^ nat (- k))"

fun ilog2 :: "nat \<Rightarrow> nat" where
  "ilog2 n = (if n < 2 then 0 else Suc (ilog2 (n div 2)))"

declare ilog2.simps [simp del]

text \<open>The binary exponent of a positive rational: the largest \<open>k\<close> with \<open>pow2 k \<le> q\<close>.\<close>

definition clog2 :: "nat \<Rightarrow> nat" where
  "clog2 c = (if c \<le> 1 then 0 else Suc (ilog2 (c - 1)))"

definition rat_log2 :: "rat \<Rightarrow> int" where
  "rat_log2 q = (if 1 \<le> q then int (ilog2 (nat \<lfloor>q\<rfloor>)) else - int (clog2 (nat \<lceil>1 / q\<rceil>)))"

definition round_half_even :: "rat \<Rightarrow> int" where
  "round_half_even x =
     (let f = \<lfloor>x\<rfloor>; d = x - of_int f
      in if d < 1 / 2 then f else if 1 / 2 < d then f + 1 else if even f then f else f + 1)"

definition ulp_exp :: "rat \<Rightarrow> int" where
  "ulp_exp q = (if q = 0 then -1074 else max (-1074) (rat_log2 \<bar>q\<bar> - 52))"

definition f64_of_rat :: "rat \<Rightarrow> f64" where
  "f64_of_rat q =
     (let e = ulp_exp q; r = of_int (round_half_even (q / pow2 e)) * pow2 e
      in if pow2 1024 \<le> \<bar>r\<bar> then Infinite (r < 0) else Finite r)"

definition is_finite :: "f64 \<Rightarrow> bool" where
  "is_finite x = (case x of Finite _ \<Rightarrow> True | _ \<Rightarrow> False)"

definition f64_mul :: "f64 \<Rightarrow> f64 \<Rightarrow> f64" where
  "f64_mul x y =
     (case (x, y) of
        (NaN, _) \<Rightarrow> NaN
      | (_, NaN) \<Rightarrow> NaN
      | (Infinite s, Infinite t) \<Rightarrow> Infinite (s \<noteq> t)
      | (Infinite s, Finite b) \<Rightarrow> if b = 0 then NaN else Infinite (s \<noteq> (b < 0))
      | (Finite a, Infinite t) \<Rightarrow> if a = 0 then NaN else Infinite ((a < 0) \<noteq> t)
      | (Finite a, Finite b) \<Rightarrow> f64_of_rat (a * b))"

text \<open>Division of finite values by a finite non-zero one, which is all the program divides by.\<close>

definition f64_div :: "f64 \<Rightarrow> f64 \<Rightarrow> f64" where
  "f64_div x y =
     (case (x, y) of
        (NaN, _) \<Rightarrow> NaN
      | (_, NaN) \<Rightarrow> NaN
      | (Infinite s, Infinite t) \<Rightarrow> NaN
      | (Infinite s, Finite b) \<Rightarrow> Infinite (s \<noteq> (b < 0))
      | (Finite a, Infinite t) \<Rightarrow> Finite 0
      | (Finite a, Finite b) \<Rightarrow>
          if b = 0 then (if a = 0 then NaN else Infinite (a < 0)) else f64_of_rat (a / b))"

definition f64_le :: "f64 \<Rightarrow> f64 \<Rightarrow> bool" where
  "f64_le x y =
     (case (x, y) of
        (NaN, _) \<Rightarrow> False
      | (_, NaN) \<Rightarrow> False
      | (Infinite s, Infinite t) \<Rightarrow> s \<or> \<not> t
      | (Infinite s, Finite _) \<Rightarrow> s
      | (Finite _, Infinite t) \<Rightarrow> \<not> t
      | (Finite a, Finite b) \<Rightarrow> a \<le> b)"

definition f64_lt :: "f64 \<Rightarrow> f64 \<Rightarrow> bool" where
  "f64_lt x y =
     (case (x, y) of
        (NaN, _) \<Rightarrow> False
      | (_, NaN) \<Rightarrow> False
      | (Infinite s, Infinite t) \<Rightarrow> s \<and> \<not> t
      | (Infinite s, Finite _) \<Rightarrow> s
      | (Finite _, Infinite t) \<Rightarrow> \<not> t
      | (Finite a, Finite b) \<Rightarrow> a < b)"

text \<open>\<open>(lo..=hi).contains(&x)\<close>.\<close>

definition in_range :: "f64 \<Rightarrow> f64 \<Rightarrow> f64 \<Rightarrow> bool" where
  "in_range lo hi x = (f64_le lo x \<and> f64_le x hi)"

text \<open>\<open>f64::round\<close> rounds half away from zero; the result is an integer and exact.\<close>

definition round_away :: "rat \<Rightarrow> int" where
  "round_away q = (if 0 \<le> q then \<lfloor>q + 1 / 2\<rfloor> else - \<lfloor>- q + 1 / 2\<rfloor>)"

definition f64_round :: "f64 \<Rightarrow> f64" where
  "f64_round x = (case x of Finite q \<Rightarrow> Finite (of_int (round_away q)) | _ \<Rightarrow> x)"

definition f64_clamp :: "f64 \<Rightarrow> f64 \<Rightarrow> f64 \<Rightarrow> f64" where
  "f64_clamp lo hi x = (if f64_lt x lo then lo else if f64_lt hi x then hi else x)"

definition rat_trunc :: "rat \<Rightarrow> int" where
  "rat_trunc q = (if 0 \<le> q then \<lfloor>q\<rfloor> else - \<lfloor>- q\<rfloor>)"

text \<open>\<open>x as u32\<close> and \<open>x as u64\<close>: truncation, saturating, 0 for not-a-number.\<close>

definition f64_as_unsigned :: "nat \<Rightarrow> f64 \<Rightarrow> nat" where
  "f64_as_unsigned maxv x =
     (case x of
        NaN \<Rightarrow> 0
      | Infinite neg \<Rightarrow> if neg then 0 else maxv
      | Finite q \<Rightarrow> min maxv (nat (rat_trunc q)))"

definition f64_as_u32 :: "f64 \<Rightarrow> u32" where
  "f64_as_u32 x = word_of_nat (f64_as_unsigned 4294967295 x)"

definition f64_as_u64 :: "f64 \<Rightarrow> u64" where
  "f64_as_u64 x = word_of_nat (f64_as_unsigned 18446744073709551615 x)"

definition f64_of_nat :: "nat \<Rightarrow> f64" where
  "f64_of_nat n = f64_of_rat (of_nat n)"

section \<open>Decimal text\<close>

text \<open>
  \<open>f64::from_str\<close>: an optional sign, then \<open>inf\<close>, \<open>infinity\<close> or \<open>nan\<close> in either case, or decimal digits
  with an optional fraction and exponent, at least one digit in the significand and one in a
  present exponent. The value is the exact decimal, rounded once.
\<close>

definition strip_sign :: "string \<Rightarrow> bool \<times> string" where
  "strip_sign s =
     (case s of [] \<Rightarrow> (False, [])
      | c # cs \<Rightarrow> if c = CHR ''-'' then (True, cs) else if c = CHR ''+'' then (False, cs) else (False, s))"

definition span_digits :: "string \<Rightarrow> string \<times> string" where
  "span_digits s = (takeWhile is_ascii_digit s, dropWhile is_ascii_digit s)"

definition digits_value :: "string \<Rightarrow> nat" where
  "digits_value ds = (case parse_digits 10 0 ds of None \<Rightarrow> 0 | Some n \<Rightarrow> n)"

definition parse_exponent :: "string \<Rightarrow> int option" where
  "parse_exponent s =
     (case s of [] \<Rightarrow> Some 0
      | c # cs \<Rightarrow>
          if to_ascii_lowercase_char c = CHR ''e''
          then (let (neg, ds) = strip_sign cs
                in if ds \<noteq> [] \<and> list_all is_ascii_digit ds
                   then Some ((if neg then -1 else 1) * int (digits_value ds)) else None)
          else None)"

definition pow10 :: "int \<Rightarrow> rat" where
  "pow10 k = (if 0 \<le> k then 10 ^ nat k else 1 / 10 ^ nat (- k))"

definition parse_decimal :: "string \<Rightarrow> rat option" where
  "parse_decimal s =
     (let (whole, rest) = span_digits s;
          (frac, rest') = (case rest of c # cs \<Rightarrow> if c = CHR ''.'' then span_digits cs else ([], rest) | [] \<Rightarrow> ([], []))
      in if whole = [] \<and> frac = [] then None
         else map_option (\<lambda>k. of_nat (digits_value (whole @ frac)) * pow10 (k - int (length frac))) (parse_exponent rest'))"

definition parse_f64 :: "string \<Rightarrow> f64 option" where
  "parse_f64 s =
     (let (neg, body) = strip_sign s; word = to_ascii_lowercase body
      in if word = ''nan'' then Some NaN
         else if word = ''inf'' \<or> word = ''infinity'' then Some (Infinite neg)
         else map_option (\<lambda>q. f64_of_rat (if neg then - q else q)) (parse_decimal body))"

text \<open>Unfolding these evaluates a closed floating-point term.\<close>

lemma ilog2_rec: "2 \<le> n \<Longrightarrow> ilog2 n = Suc (ilog2 (n div 2))" "n < 2 \<Longrightarrow> ilog2 n = 0"
  by (simp_all add: ilog2.simps [of n])

lemma floor_frac:
  "\<lfloor>numeral a / numeral b :: rat\<rfloor> = numeral a div numeral b"
  "\<lfloor>1 / numeral b :: rat\<rfloor> = 1 div numeral b"
  using floor_divide_of_int_eq [of "numeral a" "numeral b", where 'a = rat]
    floor_divide_of_int_eq [of 1 "numeral b", where 'a = rat] by simp_all

lemma ceiling_frac:
  "\<lceil>numeral a / numeral b :: rat\<rceil> = - (- numeral a div numeral b)"
  using floor_divide_of_int_eq [of "- numeral a" "numeral b", where 'a = rat]
  by (simp add: ceiling_def)

lemmas f64_eval = floor_frac ceiling_frac f64_of_rat_def ulp_exp_def rat_log2_def clog2_def ilog2_rec pow2_def
  round_half_even_def Let_def round_away_def f64_mul_def f64_div_def f64_round_def f64_clamp_def
  f64_lt_def f64_le_def in_range_def is_finite_def f64_as_u32_def f64_as_u64_def
  f64_as_unsigned_def rat_trunc_def f64_of_nat_def

section \<open>Rounding respects integer bounds\<close>

lemma pow2_pos [simp]: "0 < pow2 k"
  by (simp add: pow2_def)

lemma pow2_nonzero [simp]: "pow2 k \<noteq> 0"
  using pow2_pos [of k] by linarith

lemma pow2_neg: "k \<le> 0 \<Longrightarrow> of_int n / pow2 k = (of_int (n * 2 ^ nat (- k)) :: rat)"
  by (auto simp: pow2_def)

lemma round_half_even_le: "x \<le> of_int n \<Longrightarrow> round_half_even x \<le> n"
proof -
  assume h: "x \<le> of_int n"
  then have f: "\<lfloor>x\<rfloor> \<le> n" by (simp add: floor_le_iff)
  show ?thesis
  proof (cases "\<lfloor>x\<rfloor> = n")
    case True
    with h have "x = of_int n"
      by (metis dual_order.eq_iff of_int_floor_le)
    then show ?thesis by (simp add: round_half_even_def)
  next
    case False
    with f show ?thesis by (auto simp: round_half_even_def Let_def)
  qed
qed

lemma round_half_even_ge: "of_int n \<le> x \<Longrightarrow> n \<le> round_half_even x"
proof -
  assume "of_int n \<le> x"
  then have "n \<le> \<lfloor>x\<rfloor>" by (simp add: le_floor_iff)
  then show ?thesis by (auto simp: round_half_even_def Let_def)
qed

lemma ilog2_le: "0 < n \<Longrightarrow> 2 ^ ilog2 n \<le> n"
proof (induction n rule: ilog2.induct)
  case (1 n)
  then show ?case
    by (cases "n < 2") (auto simp: ilog2.simps [of n])
qed

lemma ilog2_less: "n < 2 ^ Suc (ilog2 n)"
proof (induction n rule: ilog2.induct)
  case (1 n)
  then show ?case
    by (cases "n < 2") (auto simp: ilog2.simps [of n])
qed

lemma pow2_add: "pow2 (a + b) = pow2 a * pow2 b"
proof -
  have *: "pow2 k = 2 powi k" for k
    by (simp add: pow2_def power_int_def field_simps)
  show ?thesis by (simp add: * power_int_add)
qed

lemma pow2_mono: "a \<le> b \<Longrightarrow> pow2 a \<le> pow2 b"
proof -
  assume "a \<le> b"
  then obtain n where "b = a + int n"
    using zle_iff_zadd by blast
  moreover have "1 \<le> pow2 (int n)" by (simp add: pow2_def)
  moreover have "pow2 a * 1 \<le> pow2 a * pow2 (int n)" if "1 \<le> pow2 (int n)"
    using that by (intro mult_left_mono) (simp_all add: less_imp_le)
  ultimately show ?thesis by (simp add: pow2_add)
qed

lemma le_clog2: "c \<le> 2 ^ clog2 c"
  using ilog2_less [of "c - 1"] by (auto simp: clog2_def)

lemma rat_log2_le:
  assumes "0 < q"
  shows "pow2 (rat_log2 q) \<le> q"
proof (cases "1 \<le> q")
  case True
  let ?n = "nat \<lfloor>q\<rfloor>"
  have "1 \<le> \<lfloor>q\<rfloor>" using True by (simp add: le_floor_iff)
  then have "2 ^ ilog2 ?n \<le> ?n" by (intro ilog2_le) simp
  then have "(2 ^ ilog2 ?n :: rat) \<le> of_nat ?n"
    by (metis of_nat_le_iff of_nat_numeral of_nat_power)
  also have "\<dots> \<le> q"
    using \<open>1 \<le> \<lfloor>q\<rfloor>\<close> of_int_floor_le [of q] by simp
  finally show ?thesis using True by (simp add: rat_log2_def pow2_def)
next
  case False
  let ?c = "nat \<lceil>1 / q\<rceil>"
  have "1 / q \<le> of_nat ?c"
    using le_of_int_ceiling [of "1 / q"] assms by (simp add: less_imp_le)
  also have "\<dots> \<le> (2 ^ clog2 ?c :: rat)"
    by (metis le_clog2 of_nat_le_iff of_nat_numeral of_nat_power)
  finally have "1 / 2 ^ clog2 ?c \<le> q"
    using assms by (simp add: field_simps)
  moreover have "pow2 (- int n) = 1 / 2 ^ n" for n
    by (cases "n = 0") (simp_all add: pow2_def)
  ultimately show ?thesis using False by (simp add: rat_log2_def)
qed

lemma ulp_exp_nonpos:
  assumes "\<bar>q\<bar> < 2 ^ 53"
  shows "ulp_exp q \<le> 0"
proof (rule ccontr)
  assume h: "\<not> ulp_exp q \<le> 0"
  then have q: "q \<noteq> 0" and "53 \<le> rat_log2 \<bar>q\<bar>" by (auto simp: ulp_exp_def split: if_splits)
  then have "pow2 53 \<le> \<bar>q\<bar>"
    using rat_log2_le [of "\<bar>q\<bar>"] pow2_mono [of 53 "rat_log2 \<bar>q\<bar>"] by simp
  with assms show False by (simp add: pow2_def)
qed

text \<open>A value between two integers of at most 53 bits rounds to a value between them.\<close>

lemma f64_of_rat_between:
  assumes lo: "of_int l \<le> q" and hi: "q \<le> of_int h" and l: "0 \<le> l" and h: "h < 2 ^ 53"
  shows "\<exists>r. f64_of_rat q = Finite r \<and> of_int l \<le> r \<and> r \<le> of_int h"
proof -
  let ?e = "ulp_exp q" and ?n = "round_half_even (q / pow2 (ulp_exp q))"
  have "0 \<le> q" using lo l by (meson of_int_0_le_iff order_trans)
  have "q < 2 ^ 53" using hi h
    by (metis le_less_trans of_int_less_iff of_int_numeral of_int_power)
  with \<open>0 \<le> q\<close> have e: "?e \<le> 0" by (intro ulp_exp_nonpos) simp
  let ?k = "2 ^ nat (- ?e) :: int"
  have "of_int l / pow2 ?e \<le> q / pow2 ?e" "q / pow2 ?e \<le> of_int h / pow2 ?e"
    using lo hi by (simp_all add: divide_right_mono less_imp_le)
  then have b: "l * ?k \<le> ?n" "?n \<le> h * ?k"
    using e by (simp_all only: pow2_neg round_half_even_ge round_half_even_le)
  have k: "of_int (m * ?k) * pow2 ?e = of_int m" for m
    using e by (auto simp: pow2_def)
  have lr: "of_int l \<le> of_int ?n * pow2 ?e"
    using b(1) k [of l] by (metis mult_right_mono of_int_le_iff less_imp_le pow2_pos)
  have rh: "of_int ?n * pow2 ?e \<le> of_int h"
    using b(2) k [of h] by (metis mult_right_mono of_int_le_iff less_imp_le pow2_pos)
  have "of_int h < pow2 1024"
  proof -
    have "(of_int h :: rat) < 2 ^ 53" using h
      by (metis of_int_less_iff of_int_numeral of_int_power)
    also have "\<dots> = pow2 53" by (simp add: pow2_def)
    also have "\<dots> \<le> pow2 1024" by (rule pow2_mono) simp
    finally show ?thesis .
  qed
  moreover have "0 \<le> of_int ?n * pow2 ?e"
    using lr l by (meson of_int_0_le_iff order_trans)
  ultimately have "\<not> pow2 1024 \<le> \<bar>of_int ?n * pow2 ?e\<bar>"
    using rh by linarith
  with lr rh show ?thesis
    by (simp add: f64_of_rat_def Let_def)
qed

lemma round_away_between: "of_int l \<le> q \<Longrightarrow> q \<le> of_int h \<Longrightarrow> 0 \<le> l \<Longrightarrow> l \<le> round_away q \<and> round_away q \<le> h"
proof -
  assume a: "of_int l \<le> q" "q \<le> of_int h" "0 \<le> l"
  then have "0 \<le> q" by (meson of_int_0_le_iff order_trans)
  moreover have "of_int l \<le> q + 1 / 2" "q + 1 / 2 < of_int h + 1" using a by linarith+
  ultimately show ?thesis
    by (auto simp: round_away_def le_floor_iff floor_le_iff)
qed


lemma f64_of_int_exact:
  assumes "0 \<le> n" "n < 2 ^ 53"
  shows "f64_of_rat (of_int n) = Finite (of_int n)"
  using f64_of_rat_between [of n "of_int n" n] assms by auto

lemma list_all_digits_dec [simp]: "list_all is_ascii_digit (dec n)"
  by (auto simp: list_all_iff dec_digits)

lemma dec_head: "dec n = c # cs \<Longrightarrow> is_ascii_digit c"
  using dec_digits [of c n] by simp

lemma digits_value_dec [simp]: "digits_value (dec n) = n"
  by (simp add: digits_value_def dec_def parse_digits_base)

lemma span_digits_dec [simp]: "span_digits (dec n) = (dec n, [])"
  by (simp add: span_digits_def takeWhile_eq_all_conv dec_digits dropWhile_eq_Nil_conv)

lemma parse_decimal_dec [simp]: "parse_decimal (dec n) = Some (of_nat n)"
  by (simp add: parse_decimal_def parse_exponent_def pow10_def)

lemma strip_sign_dec [simp]: "strip_sign (dec n) = (False, dec n)"
  using dec_head [of n] by (cases "dec n") (auto simp: strip_sign_def is_ascii_digit_def Let_def)

lemma lowercase_dec [simp]: "to_ascii_lowercase (dec n) = dec n"
proof -
  have "to_ascii_lowercase_char c = c" if "c \<in> set (dec n)" for c
    using dec_digits [OF that]
    by (simp add: to_ascii_lowercase_char_def is_ascii_upper_def is_ascii_digit_def Let_def)
  then show ?thesis by (simp add: to_ascii_lowercase_def map_idI)
qed

lemma parse_f64_dec [simp]: "parse_f64 (dec n) = Some (f64_of_rat (of_nat n))"
  using dec_head [of n]
  by (auto simp: parse_f64_def is_ascii_digit_def Let_def)

end
