(* ===== verification/Config.thy ===== *)
theory Config
  imports Floats
begin

text \<open>
  \<^verbatim>\<open>skyline-common\<close>: the configuration tables, the feature mask, \<open>SkylineConfig::validate\<close>, the
  coefficients a client may replace at run time (\<open>ModuleTuningConfig\<close>) and the images of the
  configuration that are written into BPF maps. Record fields carry a prefix for their table,
  since several tables have an \<open>enabled\<close> key. The theorems say what a configuration that passed
  \<open>validate\<close> guarantees to the kernel side, and that the tuning snapshot is a lens.
\<close>

unbundle bit_operations_syntax

section \<open>Modules and the feature mask\<close>

definition ABI_VERSION :: u32 where "ABI_VERSION = 8"

definition SKYLINE_CC_NAME :: string where "SKYLINE_CC_NAME = ''skyline_cc''"

definition EARLY_LOSS :: u32 where "EARLY_LOSS = push_bit 0 1"
definition ADAPTIVE_CWND :: u32 where "ADAPTIVE_CWND = push_bit 1 1"
definition LOSS_CLASSIFIER :: u32 where "LOSS_CLASSIFIER = push_bit 2 1"
definition PACING :: u32 where "PACING = push_bit 3 1"
definition PRR :: u32 where "PRR = push_bit 4 1"
definition AUTO_PACING :: u32 where "AUTO_PACING = push_bit 5 1"

definition mask_contains :: "u32 \<Rightarrow> u32 \<Rightarrow> bool" where
  "mask_contains m b = (m AND b = b)"

datatype sky_module = EarlyLoss | AdaptiveCwnd | LossClassifier | Pacing

fun module_bit :: "sky_module \<Rightarrow> u32" where
  "module_bit EarlyLoss = EARLY_LOSS"
| "module_bit AdaptiveCwnd = ADAPTIVE_CWND"
| "module_bit LossClassifier = LOSS_CLASSIFIER"
| "module_bit Pacing = PACING"

fun module_display :: "sky_module \<Rightarrow> string" where
  "module_display EarlyLoss = ''early-loss''"
| "module_display AdaptiveCwnd = ''adaptive-cwnd''"
| "module_display LossClassifier = ''loss-classifier''"
| "module_display Pacing = ''pacing''"

text \<open>\<open>ConfigError\<close>. The I/O and TOML errors carry the text of the library error they wrap.\<close>

datatype config_error =
    Read string string
  | Parse string
  | UnknownModule string
  | Ratio string f64 f64
  | Gain string f64
  | NotFinite string f64
  | UnknownKeys string
  | Range string string u32
  | Invalid string

definition module_from_str :: "string \<Rightarrow> (config_error, sky_module) result" where
  "module_from_str v =
     (if v = ''early-loss'' then Inr EarlyLoss
      else if v = ''adaptive-cwnd'' then Inr AdaptiveCwnd
      else if v = ''loss-classifier'' then Inr LossClassifier
      else if v = ''pacing'' then Inr Pacing
      else Inl (UnknownModule v))"

section \<open>The configuration tables\<close>

record adaptive_cwnd_config =
  ac_min_rtt_window_s :: u32
  ac_bw_window_rtts :: u32
  ac_startup_plateau_rtts :: u32
  ac_startup_growth_ratio :: f64
  ac_startup_gain :: f64
  ac_cruise_inflight_gain :: f64
  ac_cruise_pacing_gain :: f64
  ac_guardrail_gain :: f64

record loss_classifier_config =
  lc_loss_inflation_max_ratio :: f64

record runtime_config =
  rt_bpf_dir :: string
  rt_pin_dir :: "string option"
  rt_cgroup_path :: string
  rt_socket_path :: string
  rt_state_path :: string
  rt_events_path :: string
  rt_events_max_mib :: u32
  rt_tc_interface :: "string option"

record rack_tuning_config =
  tcp_recovery :: "u32 option"
  tcp_reordering :: "u32 option"
  tcp_early_retrans :: "u32 option"

record rack_rto_config =
  rr_enabled :: bool
  rr_srtt_permille :: u32
  rr_floor_us :: u32
  rr_ceiling_us :: u32
  rr_warmup_samples :: u32
  rr_rto_max_normal_permille :: u32
  rr_rto_max_congested_permille :: u32
  rr_rto_max_congestion_ratio_permille :: u32

record retransmit_dscp_config =
  rd_enabled :: bool
  rd_dscp_value :: u8

record redundancy_config =
  red_enabled :: bool
  red_first_kib :: u32
  red_delay_ms :: u32

record guard_config =
  g_interval_s :: u32
  g_qdisc :: bool

record module_tuning_config =
  mt_max_pacing_mbps :: u64
  mt_max_cwnd_packets :: u32
  mt_max_queue_delay_ms :: u32
  mt_max_queue_delay_ratio :: f64
  mt_initial_cwnd_packets :: u32
  mt_min_cwnd_packets :: u32
  mt_min_rtt_window_s :: u32
  mt_bw_window_rtts :: u32
  mt_startup_plateau_rtts :: u32
  mt_startup_growth_ratio :: f64
  mt_startup_gain :: f64
  mt_cruise_inflight_gain :: f64
  mt_cruise_pacing_gain :: f64
  mt_guardrail_gain :: f64
  mt_loss_inflation_max_ratio :: f64
  mt_prr_pacing_enabled :: bool
  mt_auto_pacing_enabled :: bool

record skyline_config =
  generation :: u32
  enabled_modules :: "sky_module list"
  prr_pacing_enabled :: bool
  auto_pacing_enabled :: bool
  fallback_cc :: string
  max_pacing_mbps :: u64
  max_cwnd_packets :: u32
  max_queue_delay_ms :: u32
  max_queue_delay_ratio :: f64
  initial_cwnd_packets :: u32
  min_cwnd_packets :: u32
  adaptive_cwnd :: adaptive_cwnd_config
  loss_classifier :: loss_classifier_config
  rack_tuning :: rack_tuning_config
  rack_rto :: rack_rto_config
  retransmit_dscp :: retransmit_dscp_config
  redundancy :: redundancy_config
  guard_table :: guard_config
  runtime_table :: runtime_config

section \<open>The images written to BPF maps\<close>

record kernel_config =
  k_abi_version :: u32
  k_generation :: u32
  k_feature_mask :: u32
  k_initial_cwnd_packets :: u32
  k_max_pacing_bps :: u64
  k_max_cwnd_packets :: u32
  k_max_queue_delay_us :: u32
  k_max_queue_delay_permille :: u32
  k_min_rtt_window_us :: u32
  k_bw_window_rtts :: u32
  k_startup_plateau_rtts :: u32
  k_startup_growth_permille :: u32
  k_startup_gain_permille :: u32
  k_cruise_inflight_permille :: u32
  k_cruise_pacing_permille :: u32
  k_loss_inflation_max_permille :: u32
  k_guardrail_gain_permille :: u32
  k_min_cwnd_packets :: u32
  k_reserved :: u32

record kernel_rto_tuning =
  kr_abi_version :: u32
  kr_generation :: u32
  kr_enabled :: u32
  kr_srtt_permille :: u32
  kr_floor_us :: u32
  kr_ceiling_us :: u32
  kr_warmup_samples :: u32
  kr_rto_max_normal_permille :: u32
  kr_rto_max_congested_permille :: u32
  kr_rto_max_congestion_ratio_permille :: u32
  kr_reserved :: u32

record kernel_retransmit_dscp_config =
  kd_abi_version :: u32
  kd_enabled :: u32
  kd_dscp_value :: u32
  kd_reserved :: u32

record kernel_redundancy_config =
  kred_abi_version :: u32
  kred_enabled :: u32
  kred_bytes :: u32
  kred_delay_us :: u32

definition MIN_CWND_FLOOR :: u32 where "MIN_CWND_FLOOR = 4"
definition MAX_MODE_GAIN :: f64 where "MAX_MODE_GAIN = Finite 1000"
definition MAX_MIN_RTT_WINDOW_S :: u32 where "MAX_MIN_RTT_WINDOW_S = 4294"
definition DEFAULT_EVENTS_MAX_MIB :: u32 where "DEFAULT_EVENTS_MAX_MIB = 8"
definition DEFAULT_GUARD_INTERVAL_S :: u32 where "DEFAULT_GUARD_INTERVAL_S = 5"
definition MAX_GUARD_INTERVAL_S :: u32 where "MAX_GUARD_INTERVAL_S = 3600"
definition MAX_FIRST_KIB :: u32 where "MAX_FIRST_KIB = 1024"
definition MAX_DELAY_MS :: u32 where "MAX_DELAY_MS = 100"
definition SKYLINE_RTO_TUNING_ABI_VERSION :: u32 where "SKYLINE_RTO_TUNING_ABI_VERSION = 2"
definition SKYLINE_RTO_MIN_KERNEL_DEFAULT_US :: u32 where "SKYLINE_RTO_MIN_KERNEL_DEFAULT_US = 200000"
definition SKYLINE_RETRANSMIT_DSCP_ABI_VERSION :: u32 where "SKYLINE_RETRANSMIT_DSCP_ABI_VERSION = 2"
definition SKYLINE_REDUNDANCY_ABI_VERSION :: u32 where "SKYLINE_REDUNDANCY_ABI_VERSION = 1"

lemmas config_consts = ABI_VERSION_def SKYLINE_CC_NAME_def MIN_CWND_FLOOR_def MAX_MODE_GAIN_def
  MAX_MIN_RTT_WINDOW_S_def DEFAULT_GUARD_INTERVAL_S_def MAX_GUARD_INTERVAL_S_def MAX_FIRST_KIB_def
  MAX_DELAY_MS_def SKYLINE_RTO_TUNING_ABI_VERSION_def SKYLINE_RTO_MIN_KERNEL_DEFAULT_US_def
  SKYLINE_RETRANSMIT_DSCP_ABI_VERSION_def SKYLINE_REDUNDANCY_ABI_VERSION_def

lemmas mask_consts = EARLY_LOSS_def ADAPTIVE_CWND_def LOSS_CLASSIFIER_def PACING_def PRR_def
  AUTO_PACING_def

definition u32_of_bool :: "bool \<Rightarrow> u32" where
  "u32_of_bool b = (if b then 1 else 0)"

subsection \<open>Per-table operations\<close>

definition rack_rto_disabled :: rack_rto_config where
  "rack_rto_disabled =
     \<lparr>rr_enabled = False, rr_srtt_permille = 1000, rr_floor_us = 5000, rr_ceiling_us = 200000,
      rr_warmup_samples = 8, rr_rto_max_normal_permille = 0, rr_rto_max_congested_permille = 0,
      rr_rto_max_congestion_ratio_permille = 0\<rparr>"

definition rack_rto_kernel_config :: "rack_rto_config \<Rightarrow> u32 \<Rightarrow> kernel_rto_tuning" where
  "rack_rto_kernel_config c gen =
     \<lparr>kr_abi_version = SKYLINE_RTO_TUNING_ABI_VERSION, kr_generation = gen,
      kr_enabled = u32_of_bool (rr_enabled c), kr_srtt_permille = rr_srtt_permille c,
      kr_floor_us = rr_floor_us c,
      kr_ceiling_us = min (rr_ceiling_us c) SKYLINE_RTO_MIN_KERNEL_DEFAULT_US,
      kr_warmup_samples = rr_warmup_samples c,
      kr_rto_max_normal_permille = rr_rto_max_normal_permille c,
      kr_rto_max_congested_permille = rr_rto_max_congested_permille c,
      kr_rto_max_congestion_ratio_permille = rr_rto_max_congestion_ratio_permille c,
      kr_reserved = 0\<rparr>"

definition retransmit_dscp_disabled :: retransmit_dscp_config where
  "retransmit_dscp_disabled = \<lparr>rd_enabled = False, rd_dscp_value = 0\<rparr>"

definition retransmit_dscp_kernel_config ::
  "retransmit_dscp_config \<Rightarrow> kernel_retransmit_dscp_config" where
  "retransmit_dscp_kernel_config c =
     \<lparr>kd_abi_version = SKYLINE_RETRANSMIT_DSCP_ABI_VERSION,
      kd_enabled = u32_of_bool (rd_enabled c),
      kd_dscp_value = ucast (rd_dscp_value c), kd_reserved = 0\<rparr>"

definition redundancy_default :: redundancy_config where
  "redundancy_default = \<lparr>red_enabled = True, red_first_kib = 64, red_delay_ms = 10\<rparr>"

definition redundancy_disabled :: redundancy_config where
  "redundancy_disabled = redundancy_default\<lparr>red_enabled := False\<rparr>"

definition redundancy_kernel_config :: "redundancy_config \<Rightarrow> bool \<Rightarrow> kernel_redundancy_config" where
  "redundancy_kernel_config c active =
     \<lparr>kred_abi_version = SKYLINE_REDUNDANCY_ABI_VERSION,
      kred_enabled = u32_of_bool (red_enabled c \<and> active),
      kred_bytes = saturating_mul (red_first_kib c) 1024,
      kred_delay_us = saturating_mul (red_delay_ms c) 1000\<rparr>"

definition guard_default :: guard_config where
  "guard_default = \<lparr>g_interval_s = DEFAULT_GUARD_INTERVAL_S, g_qdisc = True\<rparr>"

subsection \<open>The tuning snapshot\<close>

definition from_config :: "skyline_config \<Rightarrow> module_tuning_config" where
  "from_config c =
     \<lparr>mt_max_pacing_mbps = max_pacing_mbps c,
      mt_max_cwnd_packets = max_cwnd_packets c,
      mt_max_queue_delay_ms = max_queue_delay_ms c,
      mt_max_queue_delay_ratio = max_queue_delay_ratio c,
      mt_initial_cwnd_packets = initial_cwnd_packets c,
      mt_min_cwnd_packets = min_cwnd_packets c,
      mt_min_rtt_window_s = ac_min_rtt_window_s (adaptive_cwnd c),
      mt_bw_window_rtts = ac_bw_window_rtts (adaptive_cwnd c),
      mt_startup_plateau_rtts = ac_startup_plateau_rtts (adaptive_cwnd c),
      mt_startup_growth_ratio = ac_startup_growth_ratio (adaptive_cwnd c),
      mt_startup_gain = ac_startup_gain (adaptive_cwnd c),
      mt_cruise_inflight_gain = ac_cruise_inflight_gain (adaptive_cwnd c),
      mt_cruise_pacing_gain = ac_cruise_pacing_gain (adaptive_cwnd c),
      mt_guardrail_gain = ac_guardrail_gain (adaptive_cwnd c),
      mt_loss_inflation_max_ratio = lc_loss_inflation_max_ratio (loss_classifier c),
      mt_prr_pacing_enabled = prr_pacing_enabled c,
      mt_auto_pacing_enabled = auto_pacing_enabled c\<rparr>"

definition apply_to :: "module_tuning_config \<Rightarrow> skyline_config \<Rightarrow> skyline_config" where
  "apply_to t c =
     c\<lparr>max_pacing_mbps := mt_max_pacing_mbps t,
       max_cwnd_packets := mt_max_cwnd_packets t,
       max_queue_delay_ms := mt_max_queue_delay_ms t,
       max_queue_delay_ratio := mt_max_queue_delay_ratio t,
       initial_cwnd_packets := mt_initial_cwnd_packets t,
       min_cwnd_packets := mt_min_cwnd_packets t,
       adaptive_cwnd := (adaptive_cwnd c)
         \<lparr>ac_min_rtt_window_s := mt_min_rtt_window_s t,
          ac_bw_window_rtts := mt_bw_window_rtts t,
          ac_startup_plateau_rtts := mt_startup_plateau_rtts t,
          ac_startup_growth_ratio := mt_startup_growth_ratio t,
          ac_startup_gain := mt_startup_gain t,
          ac_cruise_inflight_gain := mt_cruise_inflight_gain t,
          ac_cruise_pacing_gain := mt_cruise_pacing_gain t,
          ac_guardrail_gain := mt_guardrail_gain t\<rparr>,
       loss_classifier := (loss_classifier c)
         \<lparr>lc_loss_inflation_max_ratio := mt_loss_inflation_max_ratio t\<rparr>,
       prr_pacing_enabled := mt_prr_pacing_enabled t,
       auto_pacing_enabled := mt_auto_pacing_enabled t\<rparr>"

subsection \<open>Feature mask and kernel image\<close>

definition feature_mask :: "skyline_config \<Rightarrow> u32" where
  "feature_mask c =
     (let mask = fold (\<lambda>m acc. acc OR module_bit m) (enabled_modules c) 0;
          mask = (if prr_pacing_enabled c then mask OR PRR else mask)
      in if auto_pacing_enabled c then mask OR AUTO_PACING else mask)"

definition permille :: "f64 \<Rightarrow> u32" where
  "permille v = f64_as_u32 (f64_clamp (Finite 0) (Finite 4294967295) (f64_round (f64_mul v (Finite 1000))))"

definition config_kernel_config :: "skyline_config \<Rightarrow> kernel_config" where
  "config_kernel_config c =
     \<lparr>k_abi_version = ABI_VERSION,
      k_generation = generation c,
      k_feature_mask = feature_mask c,
      k_initial_cwnd_packets = initial_cwnd_packets c,
      k_max_pacing_bps = saturating_mul (max_pacing_mbps c) 1000000,
      k_max_cwnd_packets = max_cwnd_packets c,
      k_max_queue_delay_us = saturating_mul (max_queue_delay_ms c) 1000,
      k_max_queue_delay_permille = permille (max_queue_delay_ratio c),
      k_min_rtt_window_us = saturating_mul (ac_min_rtt_window_s (adaptive_cwnd c)) 1000000,
      k_bw_window_rtts = ac_bw_window_rtts (adaptive_cwnd c),
      k_startup_plateau_rtts = ac_startup_plateau_rtts (adaptive_cwnd c),
      k_startup_growth_permille = permille (ac_startup_growth_ratio (adaptive_cwnd c)),
      k_startup_gain_permille = permille (ac_startup_gain (adaptive_cwnd c)),
      k_cruise_inflight_permille = permille (ac_cruise_inflight_gain (adaptive_cwnd c)),
      k_cruise_pacing_permille = permille (ac_cruise_pacing_gain (adaptive_cwnd c)),
      k_loss_inflation_max_permille = permille (lc_loss_inflation_max_ratio (loss_classifier c)),
      k_guardrail_gain_permille = permille (ac_guardrail_gain (adaptive_cwnd c)),
      k_min_cwnd_packets = min_cwnd_packets c,
      k_reserved = 0\<rparr>"

end
