(* ===== verification/Validate.thy ===== *)
theory Validate
  imports Config
begin

text \<open>
  \<open>SkylineConfig::validate\<close>, in the order of its checks (the first one that fails is the error
  returned), and what a configuration that passed guarantees: the image \<open>kernel_config\<close> writes
  for the kernel side is inside the ranges the BPF program's 32-bit arithmetic relies on.
\<close>

section \<open>The checks\<close>

definition validate_identity :: "skyline_config \<Rightarrow> (config_error, unit) result" where
  "validate_identity c =
     (if generation c = 0 then Inl (Invalid ''generation must be non-zero'')
      else if fallback_cc c = [] \<or> length (fallback_cc c) \<ge> 16
      then Inl (Invalid ''fallback_cc must contain between 1 and 15 bytes'')
      else if fallback_cc c = SKYLINE_CC_NAME
      then Inl (Invalid ''fallback_cc must name another algorithm than skyline_cc'')
      else Inr ())"

definition float_fields :: "skyline_config \<Rightarrow> (string \<times> f64) list" where
  "float_fields c =
     [(''max_queue_delay_ratio'', max_queue_delay_ratio c),
      (''startup_growth_ratio'', ac_startup_growth_ratio (adaptive_cwnd c)),
      (''startup_gain'', ac_startup_gain (adaptive_cwnd c)),
      (''cruise_inflight_gain'', ac_cruise_inflight_gain (adaptive_cwnd c)),
      (''cruise_pacing_gain'', ac_cruise_pacing_gain (adaptive_cwnd c)),
      (''guardrail_gain'', ac_guardrail_gain (adaptive_cwnd c)),
      (''loss_inflation_max_ratio'', lc_loss_inflation_max_ratio (loss_classifier c))]"

definition validate_finite :: "skyline_config \<Rightarrow> (config_error, unit) result" where
  "validate_finite c =
     (case find (\<lambda>(_, v). \<not> is_finite v) (float_fields c) of
        Some (name, v) \<Rightarrow> Inl (NotFinite name v)
      | None \<Rightarrow> Inr ())"

definition validate_windows :: "skyline_config \<Rightarrow> (config_error, unit) result" where
  "validate_windows c =
     (if max_cwnd_packets c < 4 then Inl (Invalid ''max_cwnd_packets must be at least 4'')
      else if initial_cwnd_packets c > max_cwnd_packets c
      then Inl (Invalid ''initial_cwnd_packets must not exceed max_cwnd_packets'')
      else if \<not> (1 \<le> ac_min_rtt_window_s (adaptive_cwnd c)
                 \<and> ac_min_rtt_window_s (adaptive_cwnd c) \<le> MAX_MIN_RTT_WINDOW_S)
      then Inl (Range ''min_rtt_window_s'' ''1..=4294'' (ac_min_rtt_window_s (adaptive_cwnd c)))
      else if min_cwnd_packets c < MIN_CWND_FLOOR
      then Inl (Invalid ''min_cwnd_packets must be at least 4'')
      else if min_cwnd_packets c > max_cwnd_packets c
      then Inl (Invalid ''min_cwnd_packets must not exceed max_cwnd_packets'')
      else if \<not> (1 \<le> ac_bw_window_rtts (adaptive_cwnd c) \<and> ac_bw_window_rtts (adaptive_cwnd c) \<le> 10)
      then Inl (Invalid ''bw_window_rtts must be between 1 and 10'')
      else if mask_contains (feature_mask c) PACING \<and> max_pacing_mbps c = 0
      then Inl (Invalid ''max_pacing_mbps must be non-zero while pacing is enabled'')
      else Inr ())"

definition mode_gains :: "skyline_config \<Rightarrow> (string \<times> f64) list" where
  "mode_gains c =
     [(''startup_gain'', ac_startup_gain (adaptive_cwnd c)),
      (''cruise_inflight_gain'', ac_cruise_inflight_gain (adaptive_cwnd c)),
      (''cruise_pacing_gain'', ac_cruise_pacing_gain (adaptive_cwnd c))]"

definition validate_ratios :: "skyline_config \<Rightarrow> (config_error, unit) result" where
  "validate_ratios c =
     (if \<not> in_range (Finite 0) (Finite 1) (ac_startup_growth_ratio (adaptive_cwnd c))
      then Inl (Ratio ''startup_growth_ratio'' (Finite 1) (ac_startup_growth_ratio (adaptive_cwnd c)))
      else if \<not> in_range (Finite 0) (Finite (1 / 2)) (lc_loss_inflation_max_ratio (loss_classifier c))
      then Inl (Ratio ''loss_inflation_max_ratio'' (Finite (1 / 2))
                  (lc_loss_inflation_max_ratio (loss_classifier c)))
      else (case find (\<lambda>(_, g). \<not> in_range (Finite 1) MAX_MODE_GAIN g) (mode_gains c) of
              Some (name, g) \<Rightarrow> Inl (Gain name g)
            | None \<Rightarrow>
                if \<not> in_range (Finite 0) (Finite 1) (ac_guardrail_gain (adaptive_cwnd c))
                then Inl (Ratio ''guardrail_gain'' (Finite 1) (ac_guardrail_gain (adaptive_cwnd c)))
                else if f64_lt (max_queue_delay_ratio c) (Finite 0)
                then Inl (Invalid ''max_queue_delay_ratio must be non-negative'')
                else Inr ()))"

definition validate_rack_tuning :: "skyline_config \<Rightarrow> (config_error, unit) result" where
  "validate_rack_tuning c =
     res_bind
       (case tcp_recovery (rack_tuning c) of
          Some v \<Rightarrow> if v \<notin> {1, 3, 5, 7} then Inl (Range ''tcp_recovery'' ''one of 1, 3, 5, 7'' v) else Inr ()
        | None \<Rightarrow> Inr ())
     (\<lambda>_. res_bind
       (case tcp_reordering (rack_tuning c) of
          Some v \<Rightarrow> if \<not> (1 \<le> v \<and> v \<le> 300) then Inl (Range ''tcp_reordering'' ''1..=300'' v) else Inr ()
        | None \<Rightarrow> Inr ())
     (\<lambda>_.
       (case tcp_early_retrans (rack_tuning c) of
          Some v \<Rightarrow> if v > 4 then Inl (Range ''tcp_early_retrans'' ''0..=4'' v) else Inr ()
        | None \<Rightarrow> Inr ())))"

definition validate_rack_rto :: "skyline_config \<Rightarrow> (config_error, unit) result" where
  "validate_rack_rto c =
     (let r = rack_rto c
      in if rr_enabled r then
           if rr_srtt_permille r = 0
           then Inl (Invalid ''rack_rto.srtt_permille must be non-zero while enabled'')
           else if rr_floor_us r = 0 then Inl (Invalid ''rack_rto.floor_us must be non-zero'')
           else if rr_ceiling_us r < rr_floor_us r
           then Inl (Invalid ''rack_rto.ceiling_us must be >= rack_rto.floor_us'')
           else if rr_ceiling_us r > SKYLINE_RTO_MIN_KERNEL_DEFAULT_US
           then Inl (Range ''rack_rto.ceiling_us'' ''<=200000 (kernel TCP_RTO_MIN)'' (rr_ceiling_us r))
           else if rr_rto_max_congested_permille r < rr_rto_max_normal_permille r
           then Inl (Invalid ''rack_rto.rto_max_congested_permille must be >= rto_max_normal_permille'')
           else Inr ()
         else Inr ())"

definition validate_rest :: "skyline_config \<Rightarrow> (config_error, unit) result" where
  "validate_rest c =
     (if rd_enabled (retransmit_dscp c) \<and> rd_dscp_value (retransmit_dscp c) = 0
      then Inl (Invalid ''retransmit_dscp.enabled requires a non-zero dscp_value (0 = unset)'')
      else if rd_dscp_value (retransmit_dscp c) > 63
      then Inl (Range ''retransmit_dscp.dscp_value'' ''0..=63'' (ucast (rd_dscp_value (retransmit_dscp c))))
      else if red_enabled (redundancy c)
           \<and> \<not> (1 \<le> red_first_kib (redundancy c) \<and> red_first_kib (redundancy c) \<le> MAX_FIRST_KIB)
      then Inl (Range ''redundancy.first_kib'' ''1..=1024 while redundancy is enabled''
                  (red_first_kib (redundancy c)))
      else if red_delay_ms (redundancy c) > MAX_DELAY_MS
      then Inl (Range ''redundancy.delay_ms'' ''0..=100'' (red_delay_ms (redundancy c)))
      else if g_interval_s (guard_table c) > MAX_GUARD_INTERVAL_S
      then Inl (Range ''guard.interval_s'' ''0..=3600 (0 = no periodic re-check)''
                  (g_interval_s (guard_table c)))
      else Inr ())"

definition validate :: "skyline_config \<Rightarrow> (config_error, unit) result" where
  "validate c =
     res_bind (validate_identity c) (\<lambda>_.
     res_bind (validate_finite c) (\<lambda>_.
     res_bind (validate_windows c) (\<lambda>_.
     res_bind (validate_ratios c) (\<lambda>_.
     res_bind (validate_rack_tuning c) (\<lambda>_.
     res_bind (validate_rack_rto c) (\<lambda>_.
     validate_rest c))))))"

section \<open>The contract with the kernel side\<close>

text \<open>
  What \<^verbatim>\<open>skyline_cc.bpf.c\<close> computes with: windows ordered, a min-RTT window that is exact in
  microseconds, gains between 1x and 1000x, and loss compensation of at most 2x, so that the
  product of a gain and the compensation, both in permille, fits in 32 bits.
\<close>

definition SKYLINE_LOSS_INFLATION_MAX_PERMILLE :: u32 where
  "SKYLINE_LOSS_INFLATION_MAX_PERMILLE = 500"

definition loss_inflation_permille :: "u32 \<Rightarrow> kernel_config \<Rightarrow> u32" where
  "loss_inflation_permille loss_rate_permille k =
     (if \<not> mask_contains (k_feature_mask k) LOSS_CLASSIFIER then 1000
      else if k_loss_inflation_max_permille k = 0 then 1000
      else (let p = min loss_rate_permille (k_loss_inflation_max_permille k);
                p = min p SKYLINE_LOSS_INFLATION_MAX_PERMILLE
            in 1000 * 1000 div (1000 - p)))"

definition gain_in_range :: "u32 \<Rightarrow> bool" where
  "gain_in_range g = (1000 \<le> unat g \<and> unat g \<le> 1000000)"

definition kernel_config_safe :: "kernel_config \<Rightarrow> bool" where
  "kernel_config_safe k =
     (k_generation k \<noteq> 0
      \<and> 4 \<le> unat (k_min_cwnd_packets k) \<and> k_min_cwnd_packets k \<le> k_max_cwnd_packets k
      \<and> k_initial_cwnd_packets k \<le> k_max_cwnd_packets k
      \<and> 1000000 \<le> unat (k_min_rtt_window_us k) \<and> unat (k_min_rtt_window_us k) \<le> 4294000000
      \<and> 1 \<le> unat (k_bw_window_rtts k) \<and> unat (k_bw_window_rtts k) \<le> 10
      \<and> unat (k_startup_growth_permille k) \<le> 1000
      \<and> gain_in_range (k_startup_gain_permille k)
      \<and> gain_in_range (k_cruise_inflight_permille k)
      \<and> gain_in_range (k_cruise_pacing_permille k)
      \<and> unat (k_loss_inflation_max_permille k) \<le> 500
      \<and> unat (k_guardrail_gain_permille k) \<le> 1000
      \<and> (mask_contains (k_feature_mask k) PACING \<longrightarrow> 1000000 \<le> unat (k_max_pacing_bps k)))"

section \<open>What validation gives\<close>

lemma permille_between:
  assumes "of_nat l \<le> 1000 * q" "1000 * q \<le> of_nat h" "h \<le> 4294967295"
  shows "l \<le> unat (permille (Finite q)) \<and> unat (permille (Finite q)) \<le> h"
proof -
  have h: "int h < 2 ^ 53" using assms(3) by simp
  obtain r where r: "f64_of_rat (q * 1000) = Finite r" "of_int (int l) \<le> r" "r \<le> of_int (int h)"
    using f64_of_rat_between [OF _ _ _ h, of "int l" "q * 1000"] assms by (auto simp: mult.commute)
  define n where "n = round_away r"
  have n: "int l \<le> n" "n \<le> int h"
    using round_away_between [OF r(2,3)] by (simp_all add: n_def)
  have nat_n: "nat n \<le> 4294967295" "0 \<le> n" using n assms(3) by linarith+
  have "(of_int n :: rat) \<le> 4294967295"
    using nat_n by (metis int_nat_eq of_int_le_iff of_int_numeral of_nat_le_iff of_nat_numeral)
  then have "f64_clamp (Finite 0) (Finite 4294967295) (Finite (of_int n)) = Finite (of_int n)"
    using nat_n by (simp add: f64_clamp_def f64_lt_def)
  then have "permille (Finite q) = word_of_nat (min 4294967295 (nat n))"
    using r(1) nat_n
    by (simp add: permille_def f64_mul_def f64_round_def f64_as_u32_def f64_as_unsigned_def
        rat_trunc_def flip: n_def)
  with nat_n have "permille (Finite q) = word_of_nat (nat n)" by (simp only: min.absorb2)
  moreover have "nat n < 2 ^ 32" using nat_n(1) by simp
  ultimately have "unat (permille (Finite q)) = nat n"
    by (simp only: unat_of_nat take_bit_nat_eq_self len_num1)
       (simp add: take_bit_nat_eq_self)
  with n show ?thesis by linarith
qed

lemma validate_Inr:
  "validate c = Inr () \<longleftrightarrow>
     validate_identity c = Inr () \<and> validate_finite c = Inr () \<and> validate_windows c = Inr ()
     \<and> validate_ratios c = Inr () \<and> validate_rack_tuning c = Inr () \<and> validate_rack_rto c = Inr ()
     \<and> validate_rest c = Inr ()"
  by (auto simp: validate_def res_simps)

lemma in_range_Finite:
  "in_range (Finite a) (Finite b) x \<longleftrightarrow> (\<exists>q. x = Finite q \<and> a \<le> q \<and> q \<le> b)"
  by (cases x) (auto simp: in_range_def f64_le_def)

lemma validate_ratios_Inr:
  assumes "validate_ratios c = Inr ()"
  shows "in_range (Finite 0) (Finite 1) (ac_startup_growth_ratio (adaptive_cwnd c))"
    and "in_range (Finite 0) (Finite (1 / 2)) (lc_loss_inflation_max_ratio (loss_classifier c))"
    and "(n, g) \<in> set (mode_gains c) \<Longrightarrow> in_range (Finite 1) (Finite 1000) g"
    and "in_range (Finite 0) (Finite 1) (ac_guardrail_gain (adaptive_cwnd c))"
  using assms
  by (auto simp: validate_ratios_def config_consts find_None_iff split: if_splits option.splits)

lemma unat_mono_iff: "a \<le> b \<longleftrightarrow> unat a \<le> unat b"
  by (rule word_le_nat_alt)

lemma permille_gain:
  assumes "in_range (Finite 1) (Finite 1000) g"
  shows "gain_in_range (permille g)"
proof -
  obtain q where q: "g = Finite q" "1 \<le> q" "q \<le> 1000"
    using assms by (auto simp: in_range_Finite)
  then show ?thesis
    using permille_between [of 1000 q 1000000] by (simp add: gain_in_range_def)
qed

lemma permille_unit:
  assumes "in_range (Finite 0) (Finite 1) g"
  shows "unat (permille g) \<le> 1000"
proof -
  obtain q where q: "g = Finite q" "0 \<le> q" "q \<le> 1"
    using assms by (auto simp: in_range_Finite)
  then show ?thesis
    using permille_between [of 0 q 1000] by simp
qed

lemma permille_half:
  assumes "in_range (Finite 0) (Finite (1 / 2)) g"
  shows "unat (permille g) \<le> 500"
proof -
  obtain q where q: "g = Finite q" "0 \<le> q" "q \<le> 1 / 2"
    using assms by (auto simp: in_range_Finite)
  then show ?thesis
    using permille_between [of 0 q 500] by simp
qed

lemma unat_min_rtt_window:
  assumes "1 \<le> s" "s \<le> (4294 :: u32)"
  shows "unat (saturating_mul s 1000000) = unat s * 1000000"
proof -
  have "unat s \<le> 4294" using assms(2) by (simp add: word_le_nat_alt)
  then show ?thesis by (simp add: sat_simps)
qed

lemma validate_windows_Inr:
  assumes "validate_windows c = Inr ()"
  shows "4 \<le> min_cwnd_packets c" "min_cwnd_packets c \<le> max_cwnd_packets c"
    and "initial_cwnd_packets c \<le> max_cwnd_packets c"
    and "1 \<le> ac_min_rtt_window_s (adaptive_cwnd c)" "ac_min_rtt_window_s (adaptive_cwnd c) \<le> 4294"
    and "1 \<le> ac_bw_window_rtts (adaptive_cwnd c)" "ac_bw_window_rtts (adaptive_cwnd c) \<le> 10"
    and "mask_contains (feature_mask c) PACING \<Longrightarrow> max_pacing_mbps c \<noteq> 0"
  using assms
  by (auto simp: validate_windows_def config_consts not_less split: if_splits)

lemma pacing_bps_lower: "m \<noteq> 0 \<Longrightarrow> 1000000 \<le> unat (saturating_mul m (1000000 :: u64))"
  using unat_gt_0 [of m] by (auto simp: sat_simps)

lemma kernel_image_safe:
  assumes "validate c = Inr ()"
  shows "kernel_config_safe (config_kernel_config c)
    \<and> unat (k_min_rtt_window_us (config_kernel_config c))
        = unat (ac_min_rtt_window_s (adaptive_cwnd c)) * 1000000"
proof -
  note v = assms [unfolded validate_Inr]
  have id: "generation c \<noteq> 0"
    using v by (auto simp: validate_identity_def split: if_splits)
  note w = validate_windows_Inr [of c] and r = validate_ratios_Inr [of c]
  have wv: "validate_windows c = Inr ()" and rv: "validate_ratios c = Inr ()" using v by auto
  note rtt = unat_min_rtt_window [OF w(4) w(5), OF wv wv]
  have gains: "gain_in_range (permille (ac_startup_gain (adaptive_cwnd c)))"
    "gain_in_range (permille (ac_cruise_inflight_gain (adaptive_cwnd c)))"
    "gain_in_range (permille (ac_cruise_pacing_gain (adaptive_cwnd c)))"
    using r(3) [OF rv] by (auto intro!: permille_gain simp: mode_gains_def)
  have "1 \<le> unat (ac_min_rtt_window_s (adaptive_cwnd c))"
    "unat (ac_min_rtt_window_s (adaptive_cwnd c)) \<le> 4294"
    "1 \<le> unat (ac_bw_window_rtts (adaptive_cwnd c))" "unat (ac_bw_window_rtts (adaptive_cwnd c)) \<le> 10"
    "4 \<le> unat (min_cwnd_packets c)"
    using w(1,4,5,6,7) [OF wv] by (simp_all add: word_le_nat_alt)
  then show ?thesis
    using id gains rtt w(2,3,8) [OF wv] permille_unit [OF r(1) [OF rv]] permille_half [OF r(2) [OF rv]]
      permille_unit [OF r(4) [OF rv]] pacing_bps_lower
    by (simp add: kernel_config_safe_def config_kernel_config_def)
qed

text \<open>
  C1. A configuration that passed \<open>validate\<close> has a kernel image inside the BPF program's
  contract, and its min-RTT window reaches the kernel exact (the saturating multiplication never
  saturates), whatever the floating-point rounding of the coefficients did.
\<close>

theorem validated_kernel_config_safe:
  assumes "validate c = Inr ()"
  shows "kernel_config_safe (config_kernel_config c)
    \<and> unat (k_min_rtt_window_us (config_kernel_config c))
        = unat (ac_min_rtt_window_s (adaptive_cwnd c)) * 1000000"
  by (rule kernel_image_safe [OF assms])

text \<open>The shipped \<^verbatim>\<open>config/speeder.toml\<close>.\<close>

definition shipped_config :: skyline_config where
  "shipped_config =
     \<lparr>generation = 1, enabled_modules = [EarlyLoss, AdaptiveCwnd, LossClassifier, Pacing],
      prr_pacing_enabled = True, auto_pacing_enabled = True, fallback_cc = ''cubic'',
      max_pacing_mbps = 1200, max_cwnd_packets = 50000, max_queue_delay_ms = 70,
      max_queue_delay_ratio = f64_of_rat (3 / 5), initial_cwnd_packets = 100, min_cwnd_packets = 32,
      adaptive_cwnd =
        \<lparr>ac_min_rtt_window_s = 30, ac_bw_window_rtts = 6, ac_startup_plateau_rtts = 5,
         ac_startup_growth_ratio = f64_of_rat (1 / 5), ac_startup_gain = f64_of_rat 3,
         ac_cruise_inflight_gain = f64_of_rat 3, ac_cruise_pacing_gain = f64_of_rat (5 / 4),
         ac_guardrail_gain = f64_of_rat (4 / 5)\<rparr>,
      loss_classifier = \<lparr>lc_loss_inflation_max_ratio = f64_of_rat (1 / 10)\<rparr>,
      rack_tuning = \<lparr>tcp_recovery = None, tcp_reordering = None, tcp_early_retrans = None\<rparr>,
      rack_rto =
        \<lparr>rr_enabled = True, rr_srtt_permille = 1100, rr_floor_us = 20000, rr_ceiling_us = 200000,
         rr_warmup_samples = 4, rr_rto_max_normal_permille = 3000,
         rr_rto_max_congested_permille = 6000, rr_rto_max_congestion_ratio_permille = 0\<rparr>,
      retransmit_dscp = \<lparr>rd_enabled = False, rd_dscp_value = 0\<rparr>,
      redundancy = \<lparr>red_enabled = True, red_first_kib = 64, red_delay_ms = 10\<rparr>,
      guard_table = \<lparr>g_interval_s = 5, g_qdisc = True\<rparr>,
      runtime_table =
        \<lparr>rt_bpf_dir = ''build/bpf'', rt_pin_dir = Some ''/sys/fs/bpf/skyline-speeder'',
         rt_cgroup_path = ''/sys/fs/cgroup/skyline-speeder'',
         rt_socket_path = ''/run/skyline-speeder/speeder.sock'',
         rt_state_path = ''/run/skyline-speeder/state.json'',
         rt_events_path = ''/run/skyline-speeder/events.jsonl'', rt_events_max_mib = 8,
         rt_tc_interface = Some ''data0''\<rparr>\<rparr>"

lemma shipped_floats:
  "f64_of_rat (3 / 5) = Finite (5404319552844595 / 9007199254740992)"
  "f64_of_rat (1 / 5) = Finite (3602879701896397 / 18014398509481984)"
  "f64_of_rat 3 = Finite 3"
  "f64_of_rat (5 / 4) = Finite (5 / 4)"
  "f64_of_rat (4 / 5) = Finite (3602879701896397 / 4503599627370496)"
  "f64_of_rat (1 / 10) = Finite (3602879701896397 / 36028797018963968)"
  by (simp_all add: f64_eval)

lemmas validate_defs = validate_def validate_identity_def validate_finite_def float_fields_def
  validate_windows_def validate_ratios_def mode_gains_def validate_rack_tuning_def
  validate_rack_rto_def validate_rest_def

lemma shipped_config_valid: "validate shipped_config = Inr ()"
  by (simp add: validate_defs shipped_config_def shipped_floats config_consts in_range_def f64_le_def
      f64_lt_def is_finite_def feature_mask_def mask_contains_def mask_consts)

theorem validated_kernel_config_safe_witness:
  "kernel_config_safe (config_kernel_config shipped_config)
    \<and> unat (k_min_rtt_window_us (config_kernel_config shipped_config)) = 30000000"
proof -
  have "kernel_config_safe (config_kernel_config shipped_config)
    \<and> unat (k_min_rtt_window_us (config_kernel_config shipped_config))
        = unat (ac_min_rtt_window_s (adaptive_cwnd shipped_config)) * 1000000"
    by (rule validated_kernel_config_safe) (rule shipped_config_valid)
  then show ?thesis by (simp add: shipped_config_def)
qed

lemma loss_inflation_bound: "unat (loss_inflation_permille l k) \<le> 2000"
proof -
  define p where "p = min (min l (k_loss_inflation_max_permille k)) SKYLINE_LOSS_INFLATION_MAX_PERMILLE"
  have "p \<le> 500"
    unfolding p_def SKYLINE_LOSS_INFLATION_MAX_PERMILLE_def by (rule min.cobounded2)
  then have p: "unat p \<le> 500" by (simp add: word_le_nat_alt)
  then have "unat (1000 - p) = 1000 - unat p"
    by (subst unat_sub) (simp_all add: word_le_nat_alt)
  then have "unat (1000000 div (1000 - p)) = 1000000 div (1000 - unat p)"
    by (simp add: unat_div_distrib)
  also have "\<dots> \<le> 1000000 div 500" using p by (intro div_le_mono2) auto
  finally show ?thesis
    by (simp add: loss_inflation_permille_def Let_def flip: p_def)
qed

text \<open>
  The product the kernel side forms in 32 bits -- a mode gain in permille times the loss
  compensation in permille -- never wraps for a validated configuration, at any measured loss rate.
\<close>

lemma gain_times_compensation_no_wrap:
  assumes "validate c = Inr ()"
    and "g = k_startup_gain_permille (config_kernel_config c)
         \<or> g = k_cruise_inflight_permille (config_kernel_config c)
         \<or> g = k_cruise_pacing_permille (config_kernel_config c)"
  shows "unat (g * loss_inflation_permille l (config_kernel_config c))
         = unat g * unat (loss_inflation_permille l (config_kernel_config c))"
proof -
  let ?i = "loss_inflation_permille l (config_kernel_config c)"
  have "validate_ratios c = Inr ()" using assms(1) by (simp add: validate_Inr)
  then have "gain_in_range g"
    using assms(2) validate_ratios_Inr(3) [of c]
    by (auto simp: config_kernel_config_def mode_gains_def intro!: permille_gain)
  then have "unat g * unat ?i \<le> 1000000 * 2000"
    using loss_inflation_bound [of l "config_kernel_config c"]
    by (intro mult_le_mono) (simp_all add: gain_in_range_def)
  then have "unat g * unat ?i < 2 ^ LENGTH(32)" by simp
  then show ?thesis by (simp add: unat_word_ariths)
qed

end
