(* ===== verification/Metrics.thy ===== *)
theory Metrics
  imports Prelude "HOL-Library.Multiset"
begin

text \<open>
  The counters the BPF programs keep per CPU and what the daemon makes of them: the sums over
  CPUs (\<open>read_metrics\<close>, \<open>rto_stats\<close>, \<open>redundancy_stats\<close>, \<open>retransmit_dscp_stats\<close>, \<open>tc_stats\<close>),
  \<open>SkylineMetrics::accumulate\<close> and \<open>since\<close>, and the sampler's bounded history with the window of
  about a minute that \<open>status\<close> reports. An \<open>Instant\<close> and a \<open>Duration\<close> are nanoseconds. The five
  sums share one interface, a record of saturating 64-bit counters.
\<close>

section \<open>The counter records\<close>

record sky_metrics =
  ack_events :: u64
  delivered_packets :: u64
  loss_events :: u64
  state_transitions :: u64
  pacing_updates :: u64
  guardrail_hits :: u64
  hypothetical_early_loss :: u64
  prr_adjustments :: u64
  guardrail_rounds :: u64
  cwnd_cap_hits :: u64

record tc_stats_rec =
  ts_packets :: u64
  ts_bytes :: u64
  ts_gso_packets :: u64

record redundancy_stats_rec =
  rs_packets :: u64
  rs_bytes :: u64
  rs_handshakes :: u64
  rs_clone_failed :: u64
  rs_abi_mismatch :: u64

record retransmit_dscp_stats_rec =
  ds_packets_seen :: u64
  ds_retransmits_detected :: u64
  ds_retransmits_marked :: u64
  ds_csum_fixups :: u64
  ds_abi_mismatch :: u64
  ds_ipv6_marked :: u64
  ds_ipv6_chain_bailout :: u64

record rack_rto_stats_rec =
  rtt_callbacks :: u64
  rto_applied :: u64
  rto_rejected :: u64
  skipped_warmup :: u64
  rto_unchanged :: u64
  established_cb :: u64
  subscribe_ok :: u64
  subscribe_err :: u64
  rto_max_applied :: u64
  rto_max_rejected :: u64
  rto_max_unchanged :: u64
  rto_max_congested :: u64

section \<open>SkylineMetrics\<close>

text \<open>\<open>counters\<close> is the record seen as an array of 64-bit words; \<open>metrics_of\<close> writes one back.\<close>

definition counters :: "sky_metrics \<Rightarrow> u64 list" where
  "counters m =
     [ack_events m, delivered_packets m, loss_events m, state_transitions m, pacing_updates m,
      guardrail_hits m, hypothetical_early_loss m, prr_adjustments m, guardrail_rounds m,
      cwnd_cap_hits m]"

definition metrics_of :: "u64 list \<Rightarrow> sky_metrics" where
  "metrics_of v =
     \<lparr>ack_events = v ! 0, delivered_packets = v ! 1, loss_events = v ! 2,
      state_transitions = v ! 3, pacing_updates = v ! 4, guardrail_hits = v ! 5,
      hypothetical_early_loss = v ! 6, prr_adjustments = v ! 7, guardrail_rounds = v ! 8,
      cwnd_cap_hits = v ! 9\<rparr>"

definition metrics_default :: sky_metrics where
  "metrics_default = metrics_of (replicate 10 0)"

definition accumulate :: "sky_metrics \<Rightarrow> sky_metrics \<Rightarrow> sky_metrics" where
  "accumulate m other = metrics_of (map2 saturating_add (counters m) (counters other))"

definition since :: "sky_metrics \<Rightarrow> sky_metrics \<Rightarrow> sky_metrics" where
  "since now earlier = metrics_of (map2 saturating_sub (counters now) (counters earlier))"

section \<open>Sums over CPUs\<close>

text \<open>
  A per-CPU lookup gives one value per CPU, or nothing when the map or the key is not there; a
  value whose size is not the record's is passed over.
\<close>

definition sum_percpu :: "('s \<Rightarrow> 's \<Rightarrow> 's) \<Rightarrow> 's \<Rightarrow> 's option list option \<Rightarrow> 's option" where
  "sum_percpu acc zero lookup =
     map_option (\<lambda>values. fold (\<lambda>v t. case v of Some s \<Rightarrow> acc t s | None \<Rightarrow> t) values zero) lookup"

definition read_metrics :: "sky_metrics option list option \<Rightarrow> sky_metrics option" where
  "read_metrics = sum_percpu accumulate metrics_default"

definition tc_stats_add :: "tc_stats_rec \<Rightarrow> tc_stats_rec \<Rightarrow> tc_stats_rec" where
  "tc_stats_add t s =
     \<lparr>ts_packets = saturating_add (ts_packets t) (ts_packets s),
      ts_bytes = saturating_add (ts_bytes t) (ts_bytes s),
      ts_gso_packets = saturating_add (ts_gso_packets t) (ts_gso_packets s)\<rparr>"

definition tc_stats :: "tc_stats_rec option list option \<Rightarrow> tc_stats_rec option" where
  "tc_stats = sum_percpu tc_stats_add \<lparr>ts_packets = 0, ts_bytes = 0, ts_gso_packets = 0\<rparr>"

definition redundancy_stats_add ::
  "redundancy_stats_rec \<Rightarrow> redundancy_stats_rec \<Rightarrow> redundancy_stats_rec" where
  "redundancy_stats_add t s =
     \<lparr>rs_packets = saturating_add (rs_packets t) (rs_packets s),
      rs_bytes = saturating_add (rs_bytes t) (rs_bytes s),
      rs_handshakes = saturating_add (rs_handshakes t) (rs_handshakes s),
      rs_clone_failed = saturating_add (rs_clone_failed t) (rs_clone_failed s),
      rs_abi_mismatch = saturating_add (rs_abi_mismatch t) (rs_abi_mismatch s)\<rparr>"

definition redundancy_stats :: "redundancy_stats_rec option list option \<Rightarrow> redundancy_stats_rec option" where
  "redundancy_stats = sum_percpu redundancy_stats_add
     \<lparr>rs_packets = 0, rs_bytes = 0, rs_handshakes = 0, rs_clone_failed = 0, rs_abi_mismatch = 0\<rparr>"

definition retransmit_dscp_stats_add ::
  "retransmit_dscp_stats_rec \<Rightarrow> retransmit_dscp_stats_rec \<Rightarrow> retransmit_dscp_stats_rec" where
  "retransmit_dscp_stats_add t s =
     \<lparr>ds_packets_seen = saturating_add (ds_packets_seen t) (ds_packets_seen s),
      ds_retransmits_detected = saturating_add (ds_retransmits_detected t) (ds_retransmits_detected s),
      ds_retransmits_marked = saturating_add (ds_retransmits_marked t) (ds_retransmits_marked s),
      ds_csum_fixups = saturating_add (ds_csum_fixups t) (ds_csum_fixups s),
      ds_abi_mismatch = saturating_add (ds_abi_mismatch t) (ds_abi_mismatch s),
      ds_ipv6_marked = saturating_add (ds_ipv6_marked t) (ds_ipv6_marked s),
      ds_ipv6_chain_bailout = saturating_add (ds_ipv6_chain_bailout t) (ds_ipv6_chain_bailout s)\<rparr>"

definition retransmit_dscp_stats ::
  "retransmit_dscp_stats_rec option list option \<Rightarrow> retransmit_dscp_stats_rec option" where
  "retransmit_dscp_stats = sum_percpu retransmit_dscp_stats_add
     \<lparr>ds_packets_seen = 0, ds_retransmits_detected = 0, ds_retransmits_marked = 0,
      ds_csum_fixups = 0, ds_abi_mismatch = 0, ds_ipv6_marked = 0, ds_ipv6_chain_bailout = 0\<rparr>"

definition rto_stats_add :: "rack_rto_stats_rec \<Rightarrow> rack_rto_stats_rec \<Rightarrow> rack_rto_stats_rec" where
  "rto_stats_add t s =
     \<lparr>rtt_callbacks = saturating_add (rtt_callbacks t) (rtt_callbacks s),
      rto_applied = saturating_add (rto_applied t) (rto_applied s),
      rto_rejected = saturating_add (rto_rejected t) (rto_rejected s),
      skipped_warmup = saturating_add (skipped_warmup t) (skipped_warmup s),
      rto_unchanged = saturating_add (rto_unchanged t) (rto_unchanged s),
      established_cb = saturating_add (established_cb t) (established_cb s),
      subscribe_ok = saturating_add (subscribe_ok t) (subscribe_ok s),
      subscribe_err = saturating_add (subscribe_err t) (subscribe_err s),
      rto_max_applied = saturating_add (rto_max_applied t) (rto_max_applied s),
      rto_max_rejected = saturating_add (rto_max_rejected t) (rto_max_rejected s),
      rto_max_unchanged = saturating_add (rto_max_unchanged t) (rto_max_unchanged s),
      rto_max_congested = saturating_add (rto_max_congested t) (rto_max_congested s)\<rparr>"

definition rto_stats :: "rack_rto_stats_rec option list option \<Rightarrow> rack_rto_stats_rec option" where
  "rto_stats = sum_percpu rto_stats_add
     \<lparr>rtt_callbacks = 0, rto_applied = 0, rto_rejected = 0, skipped_warmup = 0, rto_unchanged = 0,
      established_cb = 0, subscribe_ok = 0, subscribe_err = 0, rto_max_applied = 0,
      rto_max_rejected = 0, rto_max_unchanged = 0, rto_max_congested = 0\<rparr>"

section \<open>The sampler's history\<close>

abbreviation secs :: "nat \<Rightarrow> nat" where "secs n \<equiv> n * 1000000000"

definition METRICS_SAMPLE_EVERY :: nat where "METRICS_SAMPLE_EVERY = secs 5"
definition METRICS_RECENT_WINDOW :: nat where "METRICS_RECENT_WINDOW = secs 60"

type_synonym readings = "(nat \<times> sky_metrics) list"

fun pop_front_to :: "nat \<Rightarrow> 'a list \<Rightarrow> 'a list" where
  "pop_front_to keep [] = []"
| "pop_front_to keep (x # xs) = (if length (x # xs) > keep then pop_front_to keep xs else x # xs)"

definition samples_push :: "nat \<Rightarrow> sky_metrics \<Rightarrow> readings \<Rightarrow> readings" where
  "samples_push at_ns metrics readings =
     pop_front_to
       ((METRICS_RECENT_WINDOW div secs 1) div (METRICS_SAMPLE_EVERY div secs 1) + 2)
       (readings @ [(at_ns, metrics)])"

record metrics_window =
  mw_seconds :: u64
  mw_metrics :: sky_metrics

definition samples_window :: "nat \<Rightarrow> sky_metrics \<Rightarrow> readings \<Rightarrow> metrics_window option" where
  "samples_window now current readings =
     map_option
       (\<lambda>(at_ns, then_m). \<lparr>mw_seconds = word_of_nat ((now - at_ns) div secs 1), mw_metrics = since current then_m\<rparr>)
       (case find (\<lambda>(at_ns, _). METRICS_RECENT_WINDOW \<le> now - at_ns) (rev readings) of
          Some r \<Rightarrow> Some r
        | None \<Rightarrow> (case readings of [] \<Rightarrow> None | r # _ \<Rightarrow> Some r))"

text \<open>One turn of the sampler thread's loop at time \<open>now\<close>; \<open>read\<close> is what \<open>read_metrics\<close> gave.\<close>

definition sampler_turn :: "nat \<Rightarrow> sky_metrics option \<Rightarrow> nat \<times> readings \<Rightarrow> nat \<times> readings" where
  "sampler_turn now read s =
     (case s of (next_at, readings) \<Rightarrow>
        if next_at \<le> now
        then (now + METRICS_SAMPLE_EVERY,
              (case read of Some m \<Rightarrow> samples_push now m readings | None \<Rightarrow> readings))
        else s)"

definition sampler_run :: "nat \<Rightarrow> (nat \<times> sky_metrics option) list \<Rightarrow> nat \<times> readings" where
  "sampler_run start turns = fold (\<lambda>(now, read). sampler_turn now read) turns (start, [])"

section \<open>Saturating counters\<close>

definition sum_all :: "('s \<Rightarrow> 's \<Rightarrow> 's) \<Rightarrow> 's \<Rightarrow> 's list \<Rightarrow> 's" where
  "sum_all add zero ss = fold (\<lambda>s t. add t s) ss zero"

locale counter_record =
  fixes view :: "'s \<Rightarrow> u64 list" and width :: nat and zero :: 's and add :: "'s \<Rightarrow> 's \<Rightarrow> 's"
  assumes view_length: "length (view s) = width"
    and view_zero: "view zero = replicate width 0"
    and view_add: "view (add a b) = map2 saturating_add (view a) (view b)"
    and view_inj: "view a = view b \<Longrightarrow> a = b"
begin

lemma nth_add: "i < width \<Longrightarrow> view (add a b) ! i = saturating_add (view a ! i) (view b ! i)"
  by (simp add: view_add view_length)

lemma nth_fold:
  "i < width \<Longrightarrow> unat (view (fold (\<lambda>s t. add t s) ss z) ! i)
     = min (unat (view z ! i) + (\<Sum>s\<leftarrow>ss. unat (view s ! i))) (2 ^ 64 - 1)"
proof (induction ss arbitrary: z)
  case Nil
  have "unat (view z ! i) \<le> 2 ^ 64 - 1"
    using unat_u64_bound [of "view z ! i"] by simp
  then show ?case by (simp add: min_absorb1)
next
  case (Cons s ss)
  then show ?case by (simp add: nth_add sat_simps)
qed

text \<open>Every counter of the sum is the exact sum over the CPUs, held at the maximum of 64 bits.\<close>

lemma nth_sum_all:
  "i < width \<Longrightarrow> unat (view (sum_all add zero ss) ! i) = min (\<Sum>s\<leftarrow>ss. unat (view s ! i)) (2 ^ 64 - 1)"
  by (simp add: sum_all_def nth_fold view_zero)

text \<open>So the order in which the CPUs are visited does not matter.\<close>

lemma sum_all_perm:
  assumes "mset ss = mset ss'"
  shows "sum_all add zero ss = sum_all add zero ss'"
proof (rule view_inj, rule nth_equalityI)
  fix i assume i: "i < length (view (sum_all add zero ss))"
  have "(\<Sum>s\<leftarrow>ss. unat (view s ! i)) = (\<Sum>s\<leftarrow>ss'. unat (view s ! i))"
    using assms by (simp flip: sum_mset_sum_list)
  with i have "unat (view (sum_all add zero ss) ! i) = unat (view (sum_all add zero ss') ! i)"
    by (simp add: nth_sum_all view_length)
  then show "view (sum_all add zero ss) ! i = view (sum_all add zero ss') ! i"
    by (rule unsigned_word_eqI)
qed (simp add: view_length)

lemma sum_percpu_sum_all:
  "sum_percpu add zero lookup = map_option (\<lambda>vs. sum_all add zero (List.map_filter id vs)) lookup"
proof -
  have "fold (\<lambda>v t. case v of Some s \<Rightarrow> add t s | None \<Rightarrow> t) vs z
      = fold (\<lambda>s t. add t s) (List.map_filter id vs) z" for vs z
    by (induction vs arbitrary: z) (auto split: option.splits)
  then show ?thesis by (simp add: sum_percpu_def sum_all_def)
qed

end

lemmas counter_views = counters_def metrics_of_def metrics_default_def accumulate_def

interpretation metrics_sum: counter_record counters 10 metrics_default accumulate
  by unfold_locales (auto simp: counter_views eval_nat_numeral)

text \<open>The counter arrays of the other four records, in declaration order.\<close>

definition tc_counters :: "tc_stats_rec \<Rightarrow> u64 list" where
  "tc_counters s = [ts_packets s, ts_bytes s, ts_gso_packets s]"

definition redundancy_counters :: "redundancy_stats_rec \<Rightarrow> u64 list" where
  "redundancy_counters s =
     [rs_packets s, rs_bytes s, rs_handshakes s, rs_clone_failed s, rs_abi_mismatch s]"

definition dscp_counters :: "retransmit_dscp_stats_rec \<Rightarrow> u64 list" where
  "dscp_counters s =
     [ds_packets_seen s, ds_retransmits_detected s, ds_retransmits_marked s, ds_csum_fixups s,
      ds_abi_mismatch s, ds_ipv6_marked s, ds_ipv6_chain_bailout s]"

definition rto_counters :: "rack_rto_stats_rec \<Rightarrow> u64 list" where
  "rto_counters s =
     [rtt_callbacks s, rto_applied s, rto_rejected s, skipped_warmup s, rto_unchanged s,
      established_cb s, subscribe_ok s, subscribe_err s, rto_max_applied s, rto_max_rejected s,
      rto_max_unchanged s, rto_max_congested s]"

interpretation tc_sum: counter_record tc_counters 3
    "\<lparr>ts_packets = 0, ts_bytes = 0, ts_gso_packets = 0\<rparr>" tc_stats_add
  by unfold_locales (auto simp: tc_counters_def tc_stats_add_def eval_nat_numeral)

interpretation redundancy_sum: counter_record redundancy_counters 5
    "\<lparr>rs_packets = 0, rs_bytes = 0, rs_handshakes = 0, rs_clone_failed = 0, rs_abi_mismatch = 0\<rparr>"
    redundancy_stats_add
  by unfold_locales (auto simp: redundancy_counters_def redundancy_stats_add_def eval_nat_numeral)

interpretation dscp_sum: counter_record dscp_counters 7
    "\<lparr>ds_packets_seen = 0, ds_retransmits_detected = 0, ds_retransmits_marked = 0,
      ds_csum_fixups = 0, ds_abi_mismatch = 0, ds_ipv6_marked = 0, ds_ipv6_chain_bailout = 0\<rparr>"
    retransmit_dscp_stats_add
  by unfold_locales (auto simp: dscp_counters_def retransmit_dscp_stats_add_def eval_nat_numeral)

interpretation rto_sum: counter_record rto_counters 12
    "\<lparr>rtt_callbacks = 0, rto_applied = 0, rto_rejected = 0, skipped_warmup = 0, rto_unchanged = 0,
      established_cb = 0, subscribe_ok = 0, subscribe_err = 0, rto_max_applied = 0,
      rto_max_rejected = 0, rto_max_unchanged = 0, rto_max_congested = 0\<rparr>"
    rto_stats_add
  by unfold_locales (auto simp: rto_counters_def rto_stats_add_def eval_nat_numeral)

text \<open>
  What \<open>read_metrics\<close> reports is, counter by counter, the sum of the per-CPU copies that could
  be read, held at the largest 64-bit value instead of wrapping, in whatever order the CPUs come.
\<close>

lemma read_metrics_sum:
  assumes "i < 10"
  shows "\<exists>m. read_metrics (Some values) = Some m
    \<and> unat (counters m ! i)
        = min (\<Sum>s\<leftarrow>List.map_filter id values. unat (counters s ! i)) (2 ^ 64 - 1)
    \<and> (\<forall>values'. mset values' = mset values \<longrightarrow> read_metrics (Some values') = Some m)"
proof (intro exI conjI allI impI)
  let ?m = "sum_all accumulate metrics_default (List.map_filter id values)"
  show "read_metrics (Some values) = Some ?m"
    by (simp add: read_metrics_def metrics_sum.sum_percpu_sum_all)
  show "unat (counters ?m ! i)
      = min (\<Sum>s\<leftarrow>List.map_filter id values. unat (counters s ! i)) (2 ^ 64 - 1)"
    using assms by (rule metrics_sum.nth_sum_all)
  fix values' assume "mset values' = mset values"
  then have "mset (List.map_filter id values') = mset (List.map_filter id values)"
    by (simp add: List.map_filter_def)
  from metrics_sum.sum_all_perm [OF this] show "read_metrics (Some values') = Some ?m"
    by (simp only: read_metrics_def metrics_sum.sum_percpu_sum_all option.map)
qed

section \<open>Increments\<close>

lemma metrics_of_counters [simp]: "metrics_of (counters m) = m"
  by (simp add: counters_def metrics_of_def)

lemma counters_metrics_of: "length v = 10 \<Longrightarrow> counters (metrics_of v) = v"
  by (auto simp: counters_def metrics_of_def length_Suc_conv eval_nat_numeral)

lemma counters_length [simp]: "length (counters m) = 10"
  by (simp add: counters_def)

lemma nth_since: "i < 10 \<Longrightarrow> counters (since a b) ! i = saturating_sub (counters a ! i) (counters b ! i)"
  by (simp add: since_def counters_metrics_of)

text \<open>
  \<open>since\<close> undoes \<open>accumulate\<close>: the increment over a reading is exactly what was counted after
  it as long as no counter reached its maximum, and a counter that started over reads 0, never a
  wrapped difference.
\<close>

lemma since_accumulate:
  assumes "\<forall>i < 10. unat (counters m ! i) + unat (counters d ! i) < 2 ^ 64"
  shows "since (accumulate m d) m = d
    \<and> (\<forall>i < 10. counters now ! i \<le> counters m ! i \<longrightarrow> counters (since now m) ! i = 0)"
proof (intro conjI allI impI)
  show "since (accumulate m d) m = d"
  proof (rule metrics_sum.view_inj, rule nth_equalityI)
    fix i assume "i < length (counters (since (accumulate m d) m))"
    then have i: "i < 10" by simp
    then show "counters (since (accumulate m d) m) ! i = counters d ! i"
      using assms saturating_add_sub [of "counters m ! i" "counters d ! i"]
      by (simp add: nth_since metrics_sum.nth_add)
  qed simp
  fix i assume "i < (10 :: nat)" "counters now ! i \<le> counters m ! i"
  then show "counters (since now m) ! i = 0"
    by (auto simp: nth_since saturating_sub_def)
qed

section \<open>The window loses nothing to the bound\<close>

lemma pop_front_to_drop: "pop_front_to keep xs = drop (length xs - keep) xs"
  by (induction xs) (auto simp: Suc_diff_le not_less)

lemma samples_push_drop:
  "samples_push t m rs = drop (length rs + 1 - 14) (rs @ [(t, m)])"
  by (simp add: samples_push_def pop_front_to_drop METRICS_RECENT_WINDOW_def METRICS_SAMPLE_EVERY_def)

lemma samples_push_suffix:
  "samples_push t m (drop (length h - 14) h) = drop (length (h @ [(t, m)]) - 14) (h @ [(t, m)])"
proof -
  have "length h - (length h - 14 + 13) + (length h - 14) = length h - 13" by simp
  then show ?thesis by (simp add: samples_push_drop)
qed

text \<open>The unbounded history: every reading the sampler took, oldest first.\<close>

definition history_turn :: "nat \<Rightarrow> sky_metrics option \<Rightarrow> nat \<times> readings \<Rightarrow> nat \<times> readings" where
  "history_turn now read s =
     (case s of (next_at, readings) \<Rightarrow>
        if next_at \<le> now
        then (now + METRICS_SAMPLE_EVERY,
              (case read of Some m \<Rightarrow> readings @ [(now, m)] | None \<Rightarrow> readings))
        else s)"

definition history_run :: "nat \<Rightarrow> (nat \<times> sky_metrics option) list \<Rightarrow> nat \<times> readings" where
  "history_run start turns = fold (\<lambda>(now, read). history_turn now read) turns (start, [])"

definition gapped :: "readings \<Rightarrow> bool" where
  "gapped rs = sorted_wrt (\<lambda>a b. fst a + METRICS_SAMPLE_EVERY \<le> fst b) rs"

text \<open>The simulation: the bounded history is the last 14 readings of the unbounded one.\<close>

definition sampler_sim :: "nat \<times> readings \<Rightarrow> nat \<times> readings \<Rightarrow> bool" where
  "sampler_sim s h =
     (fst s = fst h \<and> snd s = drop (length (snd h) - 14) (snd h) \<and> gapped (snd h)
      \<and> (\<forall>r \<in> set (snd h). fst r + METRICS_SAMPLE_EVERY \<le> fst h))"

lemma sampler_sim_turn:
  "sampler_sim s h \<Longrightarrow> sampler_sim (sampler_turn now read s) (history_turn now read h)"
  by (cases s; cases h)
     (auto simp: sampler_sim_def sampler_turn_def history_turn_def samples_push_suffix gapped_def
       sorted_wrt_append split: option.splits intro: order_trans)

lemma sampler_sim_run: "sampler_sim (sampler_run start turns) (history_run start turns)"
proof -
  have "sampler_sim s h \<Longrightarrow>
      sampler_sim (fold (\<lambda>(now, read). sampler_turn now read) turns s)
        (fold (\<lambda>(now, read). history_turn now read) turns h)" for s h
  proof (induction turns arbitrary: s h)
    case (Cons x xs)
    then show ?case by (cases x) (simp add: sampler_sim_turn)
  qed simp
  moreover have "sampler_sim (start, []) (start, [])"
    by (simp add: sampler_sim_def gapped_def)
  ultimately show ?thesis
    unfolding sampler_run_def history_run_def by blast
qed

lemma gapped_span:
  "gapped rs \<Longrightarrow> rs \<noteq> [] \<Longrightarrow> fst (hd rs) + (length rs - 1) * METRICS_SAMPLE_EVERY \<le> fst (last rs)"
proof (induction rs rule: rev_induct)
  case (snoc r rs)
  show ?case
  proof (cases "rs = []")
    case False
    with snoc have "fst (hd rs) + (length rs - 1) * METRICS_SAMPLE_EVERY \<le> fst (last rs)"
      and "fst (last rs) + METRICS_SAMPLE_EVERY \<le> fst r"
      by (auto simp: gapped_def sorted_wrt_append)
    with False show ?thesis
      by (cases rs) (auto simp: algebra_simps)
  qed simp
qed simp

lemma find_append: "find P (xs @ ys) = (case find P xs of Some x \<Rightarrow> Some x | None \<Rightarrow> find P ys)"
  by (induction xs) auto

lemma samples_window_suffix:
  assumes "find (\<lambda>(t, _). METRICS_RECENT_WINDOW \<le> now - t) (rev ys) \<noteq> None"
  shows "samples_window now current (xs @ ys) = samples_window now current ys"
  using assms by (auto simp: samples_window_def find_append split: option.splits)

text \<open>
  C23. Keeping only 14 readings never changes the window that is reported: after any sequence of
  sampler turns, the window computed from the bounded history equals the one computed from every
  reading ever taken, at any time not before the last reading; and at most 14 are held.
\<close>

theorem bounded_history_exact:
  assumes "\<forall>r \<in> set (snd (history_run start turns)). fst r \<le> now"
  shows "samples_window now current (snd (sampler_run start turns))
           = samples_window now current (snd (history_run start turns))
    \<and> length (snd (sampler_run start turns)) \<le> 14"
proof -
  let ?h = "snd (history_run start turns)" and ?s = "snd (sampler_run start turns)"
  let ?old = "take (length ?h - 14) ?h"
  have sim: "?s = drop (length ?h - 14) ?h" and g: "gapped ?h"
    using sampler_sim_run [of start turns] by (simp_all add: sampler_sim_def)
  have split: "?h = ?old @ ?s" by (simp add: sim)
  have "samples_window now current ?h = samples_window now current ?s"
  proof (cases "length ?h \<le> 14")
    case True
    then show ?thesis by (simp add: sim)
  next
    case False
    then have len: "length ?s = 14" and ne: "?s \<noteq> []" by (auto simp: sim)
    have "gapped ?s" using g by (simp add: sim gapped_def sorted_wrt_drop)
    from gapped_span [OF this ne] have "fst (hd ?s) + 13 * METRICS_SAMPLE_EVERY \<le> fst (last ?s)"
      by (simp add: len)
    moreover have "last ?s \<in> set ?h"
      using ne last_in_set [OF ne] by (auto simp: sim dest: in_set_dropD)
    ultimately have "METRICS_RECENT_WINDOW \<le> now - fst (hd ?s)"
      using assms by (auto simp: METRICS_RECENT_WINDOW_def METRICS_SAMPLE_EVERY_def)
    then have "find (\<lambda>(t, _). METRICS_RECENT_WINDOW \<le> now - t) (rev ?s) \<noteq> None"
      using hd_in_set [OF ne] unfolding find_None_iff by (metis case_prod_unfold set_rev)
    then show ?thesis
      using samples_window_suffix [of now ?s current ?old] split by simp
  qed
  then show ?thesis by (simp add: sim)
qed

theorem bounded_history_exact_witness:
  "samples_window (secs 3) metrics_default (snd (sampler_run 0 [(0, Some metrics_default)]))
     = samples_window (secs 3) metrics_default (snd (history_run 0 [(0, Some metrics_default)]))
   \<and> length (snd (sampler_run 0 [(0, Some metrics_default)])) \<le> 14"
  by (rule bounded_history_exact) (simp add: history_run_def history_turn_def)

text \<open>
  The window is taken against the newest reading that is at least a minute old, and against
  the oldest reading while there is none; the seconds reported are that reading's age.
\<close>

lemma window_reading:
  assumes "older @ (t, m) # newer = rs"
    and "\<forall>r \<in> set newer. now - fst r < METRICS_RECENT_WINDOW"
    and "METRICS_RECENT_WINDOW \<le> now - t \<or> older = []"
  shows "samples_window now current rs
    = Some \<lparr>mw_seconds = word_of_nat ((now - t) div secs 1), mw_metrics = since current m\<rparr>"
proof -
  have "find (\<lambda>(t, _). METRICS_RECENT_WINDOW \<le> now - t) (rev newer) = None"
    using assms(2) by (auto simp: find_None_iff not_le)
  moreover have "find (\<lambda>(t, _). METRICS_RECENT_WINDOW \<le> now - t) (rev (older @ [(t, m)])) = Some (t, m)
      \<or> older = [] \<and> \<not> METRICS_RECENT_WINDOW \<le> now - t"
    using assms(3) by auto
  moreover have "rev rs = rev newer @ rev (older @ [(t, m)])" using assms(1) by auto
  ultimately show ?thesis
    using assms(1) by (auto simp: samples_window_def find_append simp del: rev_append)
qed

end
