(* ===== verification/Controller.thy ===== *)
theory Controller
  imports Validate Metrics
begin

text \<open>
  The congestion controller \<^verbatim>\<open>bpf/skyline_cc.bpf.c\<close>: its per-connection state
  \<open>struct skyline_flow_state\<close>, the model of the path it keeps, pacing, the window target of M2, the
  CUBIC core with PRR of the M2-off path, and the \<open>struct_ops\<close> handlers. All arithmetic is on words
  of the width C computes it in. The kernel is a record of what its helpers return at each call, in
  order, so that two readings of the clock or of the sequence number in one handler may differ; the
  four kernel functions the object calls (\<open>tcp_slow_start\<close> and its kin) are parameters.
\<close>

unbundle bit_operations_syntax

section \<open>Data\<close>

type_synonym s32 = "32 word"
type_synonym s64 = "64 word"

definition SKYLINE_CUBIC_C_PERMILLE :: u64 where "SKYLINE_CUBIC_C_PERMILLE = 400"
definition SKYLINE_CUBIC_BETA_PERMILLE :: u32 where "SKYLINE_CUBIC_BETA_PERMILLE = 700"
definition SKYLINE_MIN_CWND :: u32 where "SKYLINE_MIN_CWND = 4"
definition SKYLINE_CUBIC_STALLED_WEIGHT_SCALE :: u32 where "SKYLINE_CUBIC_STALLED_WEIGHT_SCALE = 100"
definition SKYLINE_FLAG_SND_UNA_ADVANCED :: s32 where "SKYLINE_FLAG_SND_UNA_ADVANCED = 0x400"
definition USEC_PER_SEC :: u64 where "USEC_PER_SEC = 1000000"

definition SKYLINE_MODE_STARTUP :: u32 where "SKYLINE_MODE_STARTUP = 0"
definition SKYLINE_MODE_CRUISE :: u32 where "SKYLINE_MODE_CRUISE = 1"

definition SKYLINE_EVENT_STATE :: u32 where "SKYLINE_EVENT_STATE = 1"
definition SKYLINE_EVENT_LOSS :: u32 where "SKYLINE_EVENT_LOSS = 2"
definition SKYLINE_EVENT_GUARDRAIL :: u32 where "SKYLINE_EVENT_GUARDRAIL = 9"
definition SKYLINE_EVENT_UNDO_CWND :: u32 where "SKYLINE_EVENT_UNDO_CWND = 10"
definition SKYLINE_EVENT_GENERATION_SWITCH :: u32 where "SKYLINE_EVENT_GENERATION_SWITCH = 11"

text \<open>The kernel's congestion states, pacing states and congestion events the object names.\<close>

datatype tcp_ca_state = TCP_CA_Open | TCP_CA_Disorder | TCP_CA_CWR | TCP_CA_Recovery | TCP_CA_Loss

datatype sk_pacing = SK_PACING_NONE | SK_PACING_NEEDED | SK_PACING_FQ

datatype tcp_ca_event = CA_EVENT_TX_START | CA_EVENT_OTHER

text \<open>
  The members of \<open>struct tcp_sock\<close>, and of the \<open>struct sock\<close> and \<open>struct inet_connection_sock\<close> it
  begins with, that the object reads or writes.
\<close>

record tcp_sock =
  sk_cookie :: u64
  sk_pacing_rate :: u64
  sk_max_pacing_rate :: u64
  sk_pacing_status :: sk_pacing
  sk_wmem_alloc :: s32
  icsk_ca_state :: tcp_ca_state
  tp_srtt_us :: u32
  tp_snd_cwnd :: u32
  tp_snd_ssthresh :: u32
  tp_packets_out :: u32
  tp_sacked_out :: u32
  tp_lost_out :: u32
  tp_retrans_out :: u32
  tp_prr_out :: u32
  tp_max_packets_out :: u32
  tp_is_cwnd_limited :: bool
  tp_delivered :: u32
  tp_delivered_ce :: u32
  tp_lost :: u32
  tp_app_limited :: u32
  tp_mss_cache :: u32
  tp_write_seq :: u32
  tp_snd_nxt :: u32

text \<open>The members of the kernel's \<open>struct rate_sample\<close> the object reads; signed ones are read with \<open>sint\<close>.\<close>

record rate_sample =
  rs_prior_mstamp :: u64
  rs_prior_delivered :: u32
  rs_delivered :: s32
  rs_interval_us :: s64
  rs_rtt_us :: s64
  rs_losses :: s32
  rs_acked_sacked :: u32
  rs_is_app_limited :: bool
  rs_is_retrans :: bool

record skyline_flow_state =
  fs_config_seq :: u32
  fs_mode :: u32
  fs_counted :: u32
  fs_plateau_rounds :: u32
  fs_prior_cwnd :: u32
  fs_w_max :: u32
  fs_last_delivered_ce :: u32
  fs_last_loss_delivered :: u32
  fs_min_rtt_us :: u64
  fs_min_rtt_stamp_us :: u64
  fs_min_srtt_us :: u64
  fs_min_srtt_stamp_us :: u64
  fs_bw_bps :: u64
  fs_prior_round_bw_bps :: u64
  fs_round_rate_bps :: u64
  fs_bw_samples :: "u64 list"
  fs_epoch_k_ms :: u32
  fs_next_round_delivered :: u64
  fs_epoch_start_ns :: u64
  fs_prr_delivered :: u32
  fs_tcp_cwnd :: u32
  fs_ack_cnt :: u32
  fs_recovery_active :: u32
  fs_loss_rate_permille :: u32
  fs_last_lost :: u32
  fs_last_loss_rate_delivered :: u32
  fs_queue_clamped :: u32
  fs_config :: kernel_config

record skyline_event =
  se_timestamp_ns :: u64
  se_socket_cookie :: u64
  se_type :: u32
  se_state :: u32
  se_value_a :: u64
  se_value_b :: u64

text \<open>
  What the helpers give, by the number of the interaction: the clock, whether the ring has room,
  whether socket storage could be created, the value of \<open>config_seq\<close> and the contents of
  \<open>config_slots\<close> (written by the daemon meanwhile). A map lookup that finds nothing is \<open>None\<close>. The
  counters of this CPU, the flow count and the events submitted so far, newest first, are the part
  the object changes.
\<close>

record kernel =
  kn_step :: nat
  kn_clock :: "nat \<Rightarrow> u64"
  kn_ring :: "nat \<Rightarrow> bool"
  kn_storage :: "nat \<Rightarrow> bool"
  kn_has_seq :: bool
  kn_seq :: "nat \<Rightarrow> u32"
  kn_slots :: "nat \<Rightarrow> u32 \<Rightarrow> kernel_config option"
  kn_metrics :: "sky_metrics option"
  kn_flow_count :: "u64 option"
  kn_events :: "skyline_event list"

text \<open>A connection: its socket and, once created, its element of the map \<open>flow_states\<close>.\<close>

record conn =
  c_tp :: tcp_sock
  c_flow :: "skyline_flow_state option"

text \<open>The kernel functions declared \<open>__ksym\<close>, and the two sizes the loader relocates.\<close>

record ksyms =
  tcp_slow_start :: "u32 \<Rightarrow> tcp_sock \<Rightarrow> u32 \<times> tcp_sock"
  tcp_cong_avoid_ai :: "u32 \<Rightarrow> u32 \<Rightarrow> tcp_sock \<Rightarrow> tcp_sock"
  tcp_reno_undo_cwnd :: "tcp_sock \<Rightarrow> u32"
  tcp_reno_cong_avoid :: "u32 \<Rightarrow> u32 \<Rightarrow> tcp_sock \<Rightarrow> tcp_sock"
  sizeof_sk_buff :: u32
  sizeof_skb_shared_info :: u32

section \<open>Helpers\<close>

definition kn_tick :: "kernel \<Rightarrow> kernel" where
  "kn_tick k = k\<lparr>kn_step := Suc (kn_step k)\<rparr>"

definition bpf_ktime_get_ns :: "kernel \<Rightarrow> u64 \<times> kernel" where
  "bpf_ktime_get_ns k = (kn_clock k (kn_step k), kn_tick k)"

definition read_config_seq :: "kernel \<Rightarrow> u32 \<times> kernel" where
  "read_config_seq k = (kn_seq k (kn_step k), kn_tick k)"

definition metric_add :: "(sky_metrics \<Rightarrow> sky_metrics) \<Rightarrow> kernel \<Rightarrow> kernel" where
  "metric_add f k = k\<lparr>kn_metrics := map_option f (kn_metrics k)\<rparr>"

definition has_feature :: "kernel_config \<Rightarrow> u32 \<Rightarrow> bool" where
  "has_feature config bits = (k_feature_mask config AND bits \<noteq> 0)"

definition skyline_has_config :: "skyline_flow_state \<Rightarrow> bool" where
  "skyline_has_config flow = (k_abi_version (fs_config flow) = ABI_VERSION)"

text \<open>
  The copy of the slot is one interaction; that a copy taken word by word while the daemon writes
  is whole whenever the number has not moved is shown in theory \<open>Publish\<close>.
\<close>

definition skyline_adopt_config :: "kernel \<Rightarrow> skyline_flow_state \<Rightarrow> bool \<times> kernel \<times> skyline_flow_state" where
  "skyline_adopt_config k flow =
     (if \<not> kn_has_seq k then (False, k, flow)
      else (let (seq, k) = read_config_seq k;
                slot = seq AND 1
            in case kn_slots k (kn_step k) slot of
                 None \<Rightarrow> (False, kn_tick k, flow)
               | Some copy \<Rightarrow>
                   (let (again, k) = read_config_seq (kn_tick k)
                    in if again \<noteq> seq \<or> k_abi_version copy \<noteq> ABI_VERSION then (False, k, flow)
                       else (True, k, flow\<lparr>fs_config := copy, fs_config_seq := seq\<rparr>))))"

text \<open>Socket storage is zeroed when it is created.\<close>

definition zero_config :: kernel_config where
  "zero_config =
     \<lparr>k_abi_version = 0, k_generation = 0, k_feature_mask = 0, k_initial_cwnd_packets = 0, k_max_pacing_bps = 0,
      k_max_cwnd_packets = 0, k_max_queue_delay_us = 0, k_max_queue_delay_permille = 0, k_min_rtt_window_us = 0,
      k_bw_window_rtts = 0, k_startup_plateau_rtts = 0, k_startup_growth_permille = 0, k_startup_gain_permille = 0,
      k_cruise_inflight_permille = 0, k_cruise_pacing_permille = 0, k_loss_inflation_max_permille = 0,
      k_guardrail_gain_permille = 0, k_min_cwnd_packets = 0, k_reserved = 0\<rparr>"

definition zero_flow :: skyline_flow_state where
  "zero_flow =
     \<lparr>fs_config_seq = 0, fs_mode = 0, fs_counted = 0, fs_plateau_rounds = 0, fs_prior_cwnd = 0, fs_w_max = 0,
      fs_last_delivered_ce = 0, fs_last_loss_delivered = 0, fs_min_rtt_us = 0, fs_min_rtt_stamp_us = 0,
      fs_min_srtt_us = 0, fs_min_srtt_stamp_us = 0, fs_bw_bps = 0, fs_prior_round_bw_bps = 0, fs_round_rate_bps = 0,
      fs_bw_samples = replicate 10 0, fs_epoch_k_ms = 0, fs_next_round_delivered = 0, fs_epoch_start_ns = 0,
      fs_prr_delivered = 0, fs_tcp_cwnd = 0, fs_ack_cnt = 0, fs_recovery_active = 0, fs_loss_rate_permille = 0,
      fs_last_lost = 0, fs_last_loss_rate_delivered = 0, fs_queue_clamped = 0, fs_config = zero_config\<rparr>"

definition skyline_flow_get :: "kernel \<Rightarrow> conn \<Rightarrow> skyline_flow_state option \<times> kernel" where
  "skyline_flow_get k c =
     (case c_flow c of
        Some flow \<Rightarrow> (Some flow, kn_tick k)
      | None \<Rightarrow> (if kn_storage k (kn_step k) then Some zero_flow else None, kn_tick k))"

definition skyline_flow_lookup :: "conn \<Rightarrow> skyline_flow_state option" where
  "skyline_flow_lookup c = c_flow c"

definition skyline_emit :: "tcp_sock \<Rightarrow> u32 \<Rightarrow> u32 \<Rightarrow> u64 \<Rightarrow> u64 \<Rightarrow> kernel \<Rightarrow> kernel" where
  "skyline_emit sk type state value_a value_b k =
     (if \<not> kn_ring k (kn_step k) then kn_tick k
      else (let (now, k) = bpf_ktime_get_ns (kn_tick k)
            in k\<lparr>kn_events :=
                 \<lparr>se_timestamp_ns = now, se_socket_cookie = sk_cookie sk, se_type = type, se_state = state,
                  se_value_a = value_a, se_value_b = value_b\<rparr> # kn_events k\<rparr>))"

section \<open>The cubic curve\<close>

fun cube_root_steps :: "nat \<Rightarrow> u64 \<Rightarrow> u64 \<Rightarrow> u64 \<Rightarrow> u64 \<times> u64" where
  "cube_root_steps 0 value low high = (low, high)"
| "cube_root_steps (Suc n) value low high =
     (let middle = low + drop_bit 1 (high - low);
          square = middle * middle;
          cube = square * middle
      in if cube \<le> value then cube_root_steps n value (middle + 1) high
         else cube_root_steps n value low middle)"

definition skyline_cube_root :: "u64 \<Rightarrow> u64" where
  "skyline_cube_root value =
     (let (low, high) = cube_root_steps 10 value 0 135722
      in if low \<noteq> 0 then low - 1 else 0)"

definition cubic_epoch :: "skyline_flow_state \<Rightarrow> u32 \<Rightarrow> u64 \<Rightarrow> skyline_flow_state" where
  "cubic_epoch flow cwnd now_ns =
     (if fs_epoch_start_ns flow \<noteq> 0 then flow
      else (let flow = flow\<lparr>fs_epoch_start_ns := now_ns\<rparr>;
                flow = (if fs_w_max flow = 0 then flow\<lparr>fs_w_max := cwnd\<rparr> else flow);
                difference = (if fs_w_max flow > cwnd then ucast (fs_w_max flow - cwnd) else 0) :: u64;
                difference = min difference 1000000
            in flow\<lparr>fs_epoch_k_ms := ucast (skyline_cube_root (difference * 2500000000))\<rparr>))"

definition skyline_cubic_target :: "skyline_flow_state \<Rightarrow> u32 \<Rightarrow> u64 \<Rightarrow> u32 \<times> skyline_flow_state" where
  "skyline_cubic_target flow cwnd now_ns =
     (let flow = cubic_epoch flow cwnd now_ns;
          elapsed_ms = (now_ns - fs_epoch_start_ns flow) div 1000000;
          k_ms = ucast (fs_epoch_k_ms flow) :: u64;
          w_max = ucast (fs_w_max flow) :: u64;
          offset = (if elapsed_ms > k_ms then elapsed_ms - k_ms else k_ms - elapsed_ms);
          offset = (if offset > 100000 then 100000 else offset);
          cubic_delta = SKYLINE_CUBIC_C_PERMILLE * offset * offset * offset;
          cubic_delta = cubic_delta div 1000000000000
      in (if elapsed_ms < k_ms
          then (if w_max > cubic_delta then ucast (w_max - cubic_delta) else SKYLINE_MIN_CWND)
          else ucast (w_max + cubic_delta), flow))"

section \<open>Rounds and the model of the path\<close>

definition skyline_round_reached :: "rate_sample \<Rightarrow> u64 \<Rightarrow> bool" where
  "skyline_round_reached sample nxt =
     (rs_prior_mstamp sample \<noteq> 0 \<and> 0 \<le> sint (rs_prior_delivered sample - ucast nxt :: s32))"

definition skyline_new_round :: "tcp_sock \<Rightarrow> skyline_flow_state \<Rightarrow> rate_sample \<Rightarrow> bool \<times> skyline_flow_state" where
  "skyline_new_round tp flow sample =
     (if \<not> skyline_round_reached sample (fs_next_round_delivered flow) then (False, flow)
      else (True, flow\<lparr>fs_next_round_delivered := ucast (tp_delivered tp + tp_packets_out tp)\<rparr>))"

definition skyline_rate_sample_bps :: "tcp_sock \<Rightarrow> rate_sample \<Rightarrow> u64" where
  "skyline_rate_sample_bps tp sample =
     (if sint (rs_delivered sample) \<le> 0 \<or> sint (rs_interval_us sample) \<le> 0 then 0
      else (let bytes = scast (rs_delivered sample) * ucast (max (tp_mss_cache tp) 1);
                interval = rs_interval_us sample
            in bytes * 8 * USEC_PER_SEC div interval))"

definition skyline_reset_generation :: "skyline_flow_state \<Rightarrow> tcp_sock \<Rightarrow> kernel \<Rightarrow> skyline_flow_state \<times> kernel" where
  "skyline_reset_generation flow tp k =
     (let (now, k) = bpf_ktime_get_ns k
      in (flow\<lparr>fs_mode := SKYLINE_MODE_STARTUP, fs_plateau_rounds := 0, fs_prior_cwnd := tp_snd_cwnd tp,
            fs_w_max := tp_snd_cwnd tp, fs_last_delivered_ce := tp_delivered_ce tp,
            fs_last_loss_delivered := tp_delivered tp, fs_min_rtt_us := 0, fs_min_rtt_stamp_us := 0,
            fs_min_srtt_us := 0, fs_min_srtt_stamp_us := 0, fs_bw_bps := 0, fs_prior_round_bw_bps := 0,
            fs_round_rate_bps := 0, fs_bw_samples := replicate 10 0,
            fs_next_round_delivered := ucast (tp_delivered tp), fs_epoch_start_ns := now, fs_epoch_k_ms := 0,
            fs_prr_delivered := 0, fs_tcp_cwnd := tp_snd_cwnd tp, fs_ack_cnt := 0, fs_recovery_active := 0,
            fs_loss_rate_permille := 0, fs_last_lost := tp_lost tp,
            fs_last_loss_rate_delivered := tp_delivered tp, fs_queue_clamped := 0\<rparr>, k))"

definition skyline_transition :: "tcp_sock \<Rightarrow> u32 \<Rightarrow> kernel \<Rightarrow> skyline_flow_state \<Rightarrow> kernel \<times> skyline_flow_state" where
  "skyline_transition sk next_mode k flow =
     (if fs_mode flow = next_mode then (k, flow)
      else (let k = skyline_emit sk SKYLINE_EVENT_STATE next_mode (ucast (fs_mode flow)) (ucast next_mode) k
            in (metric_add (\<lambda>m. m\<lparr>state_transitions := state_transitions m + 1\<rparr>) k, flow\<lparr>fs_mode := next_mode\<rparr>)))"

definition skyline_base_rtt_us :: "skyline_flow_state \<Rightarrow> u64" where
  "skyline_base_rtt_us flow = max (fs_min_rtt_us flow) (fs_min_srtt_us flow)"

definition skyline_max_queue_delay_us :: "skyline_flow_state \<Rightarrow> kernel_config \<Rightarrow> u64" where
  "skyline_max_queue_delay_us flow config =
     (if k_max_queue_delay_permille config = 0 then ucast (k_max_queue_delay_us config)
      else (let relative = skyline_base_rtt_us flow * ucast (k_max_queue_delay_permille config) div 1000
            in max (ucast (k_max_queue_delay_us config)) relative))"

definition skyline_queue_delay_us :: "tcp_sock \<Rightarrow> skyline_flow_state \<Rightarrow> u64" where
  "skyline_queue_delay_us tp flow =
     (let srtt = ucast (drop_bit 3 (tp_srtt_us tp));
          base = skyline_base_rtt_us flow
      in if srtt > base then srtt - base else 0)"

definition skyline_loss_inflation_permille :: "skyline_flow_state \<Rightarrow> kernel_config \<Rightarrow> u32" where
  "skyline_loss_inflation_permille flow config = loss_inflation_permille (fs_loss_rate_permille flow) config"

definition skyline_sample_measures_path :: "tcp_sock \<Rightarrow> rate_sample \<Rightarrow> bool" where
  "skyline_sample_measures_path tp sample =
     (let srtt_us = ucast (drop_bit 3 (tp_srtt_us tp)) :: u64
      in srtt_us = 0 \<or> rs_interval_us sample \<le> 2 * srtt_us)"

definition SKYLINE_SKB_DATA_ALIGN :: "u32 \<Rightarrow> u32" where
  "SKYLINE_SKB_DATA_ALIGN x = (x + 63) AND NOT 63"

definition skyline_mark_app_limited :: "ksyms \<Rightarrow> tcp_sock \<Rightarrow> tcp_sock" where
  "skyline_mark_app_limited kf tp =
     (let queued = sk_wmem_alloc tp - 1;
          truesize_one = 1 + SKYLINE_SKB_DATA_ALIGN (sizeof_sk_buff kf)
            + SKYLINE_SKB_DATA_ALIGN (sizeof_skb_shared_info kf)
      in if tp_write_seq tp - tp_snd_nxt tp \<ge> tp_mss_cache tp then tp
         else if sint queued \<ge> sint truesize_one then tp
         else (let in_flight = tp_packets_out tp - (tp_sacked_out tp + tp_lost_out tp) + tp_retrans_out tp
               in if in_flight \<ge> tp_snd_cwnd tp then tp
                  else tp\<lparr>tp_app_limited :=
                         (if tp_delivered tp + in_flight \<noteq> 0 then tp_delivered tp + in_flight else 1)\<rparr>))"

text \<open>\<open>skyline_update_model\<close>, in the order of its blocks.\<close>

definition model_min_rtt :: "u64 \<Rightarrow> kernel_config \<Rightarrow> rate_sample \<Rightarrow> skyline_flow_state \<Rightarrow> skyline_flow_state" where
  "model_min_rtt now_us config sample flow =
     (if sint (rs_rtt_us sample) > 0
         \<and> (fs_min_rtt_us flow = 0 \<or> rs_rtt_us sample < fs_min_rtt_us flow
            \<or> now_us - fs_min_rtt_stamp_us flow > ucast (k_min_rtt_window_us config))
      then flow\<lparr>fs_min_rtt_us := rs_rtt_us sample, fs_min_rtt_stamp_us := now_us\<rparr>
      else flow)"

definition model_min_srtt :: "u64 \<Rightarrow> kernel_config \<Rightarrow> tcp_sock \<Rightarrow> skyline_flow_state \<Rightarrow> skyline_flow_state" where
  "model_min_srtt now_us config tp flow =
     (if tp_srtt_us tp > 0
      then (let srtt = ucast (drop_bit 3 (tp_srtt_us tp))
            in if fs_min_srtt_us flow = 0 \<or> srtt < fs_min_srtt_us flow
                  \<or> now_us - fs_min_srtt_stamp_us flow > ucast (k_min_rtt_window_us config)
               then flow\<lparr>fs_min_srtt_us := srtt, fs_min_srtt_stamp_us := now_us\<rparr>
               else flow)
      else flow)"

definition model_close_round :: "bool \<Rightarrow> kernel_config \<Rightarrow> skyline_flow_state \<Rightarrow> bool \<times> skyline_flow_state" where
  "model_close_round new_round config flow =
     (if new_round \<and> fs_round_rate_bps flow \<noteq> 0
      then (let window = min (k_bw_window_rtts config) 10;
                samples = fs_round_rate_bps flow # take 9 (fs_bw_samples flow);
                maximum = fold (\<lambda>offset m. if offset < unat window \<and> samples ! offset > m then samples ! offset else m)
                            [0..<10] 0
            in (True, flow\<lparr>fs_bw_samples := samples, fs_round_rate_bps := 0, fs_bw_bps := maximum\<rparr>))
      else (False, flow))"

definition model_take_sample :: "tcp_sock \<Rightarrow> rate_sample \<Rightarrow> skyline_flow_state \<Rightarrow> skyline_flow_state" where
  "model_take_sample tp sample flow =
     (let rate_bps = skyline_rate_sample_bps tp sample
      in if rate_bps \<noteq> 0 \<and> \<not> rs_is_app_limited sample \<and> skyline_sample_measures_path tp sample
            \<and> (fs_bw_bps flow \<noteq> 0 \<or> \<not> rs_is_retrans sample)
         then (let flow = (if rate_bps > fs_round_rate_bps flow then flow\<lparr>fs_round_rate_bps := rate_bps\<rparr> else flow)
               in if rate_bps > fs_bw_bps flow then flow\<lparr>fs_bw_bps := rate_bps\<rparr> else flow)
         else flow)"

definition model_loss_rate :: "bool \<Rightarrow> tcp_sock \<Rightarrow> skyline_flow_state \<Rightarrow> skyline_flow_state" where
  "model_loss_rate new_round tp flow =
     (if new_round
      then (let lost_delta = tp_lost tp - fs_last_lost flow;
                delivered_delta = tp_delivered tp - fs_last_loss_rate_delivered flow;
                total = lost_delta + delivered_delta;
                sample_permille = (if total \<noteq> 0 then 1000 * lost_delta div total else 0)
            in flow\<lparr>fs_loss_rate_permille := (fs_loss_rate_permille flow * 3 + sample_permille) div 4,
                 fs_last_lost := tp_lost tp, fs_last_loss_rate_delivered := tp_delivered tp\<rparr>)
      else flow)"

definition model_plateau :: "bool \<Rightarrow> kernel_config \<Rightarrow> skyline_flow_state \<Rightarrow> skyline_flow_state" where
  "model_plateau measured_round config flow =
     (if measured_round
      then (if fs_prior_round_bw_bps flow \<noteq> 0
               \<and> fs_bw_bps flow * 1000 < fs_prior_round_bw_bps flow * ucast (1000 + k_startup_growth_permille config)
            then flow\<lparr>fs_plateau_rounds := fs_plateau_rounds flow + 1\<rparr>
            else flow\<lparr>fs_plateau_rounds := 0\<rparr>)
      else flow)"

definition model_guardrail ::
  "bool \<Rightarrow> bool \<Rightarrow> tcp_sock \<Rightarrow> kernel_config \<Rightarrow> kernel \<Rightarrow> skyline_flow_state \<Rightarrow> kernel \<times> skyline_flow_state" where
  "model_guardrail new_round measured_round tp config k flow =
     (if new_round \<and> has_feature config ADAPTIVE_CWND
      then (let queue_delay = skyline_queue_delay_us tp flow;
                max_queue_delay = skyline_max_queue_delay_us flow config;
                fresh_ce = (tp_delivered_ce tp \<noteq> fs_last_delivered_ce flow);
                clamped = (max_queue_delay \<noteq> 0 \<and> queue_delay > max_queue_delay) \<or> fresh_ce;
                flow = flow\<lparr>fs_queue_clamped := of_bool clamped\<rparr>;
                k = metric_add (\<lambda>m. m\<lparr>guardrail_rounds := guardrail_rounds m + 1\<rparr>) k;
                k = (if clamped
                     then skyline_emit tp SKYLINE_EVENT_GUARDRAIL (fs_mode flow) queue_delay max_queue_delay
                            (metric_add (\<lambda>m. m\<lparr>guardrail_hits := guardrail_hits m + 1\<rparr>) k)
                     else k);
                (k, flow) =
                  (if fs_mode flow = SKYLINE_MODE_STARTUP
                   then (let flow = model_plateau measured_round config flow
                         in if fs_plateau_rounds flow \<ge> k_startup_plateau_rtts config \<or> fs_queue_clamped flow \<noteq> 0
                            then skyline_transition tp SKYLINE_MODE_CRUISE k flow
                            else (k, flow))
                   else (k, flow))
            in (k, flow\<lparr>fs_prior_round_bw_bps := fs_bw_bps flow, fs_last_delivered_ce := tp_delivered_ce tp\<rparr>))
      else (k, flow))"

definition skyline_update_model ::
  "tcp_sock \<Rightarrow> kernel_config \<Rightarrow> rate_sample \<Rightarrow> kernel \<Rightarrow> skyline_flow_state \<Rightarrow> bool \<times> kernel \<times> skyline_flow_state" where
  "skyline_update_model tp config sample k flow =
     (let (now_ns, k) = bpf_ktime_get_ns k;
          now_us = now_ns div 1000;
          (new_round, flow) = skyline_new_round tp flow sample;
          flow = model_min_rtt now_us config sample flow;
          flow = model_min_srtt now_us config tp flow;
          (measured_round, flow) = model_close_round new_round config flow;
          flow = model_take_sample tp sample flow;
          flow = model_loss_rate new_round tp flow;
          (k, flow) = model_guardrail new_round measured_round tp config k flow
      in (new_round, k, flow))"

end
