(* ===== verification/CongControl.thy ===== *)
theory CongControl
  imports Controller
begin

text \<open>
  The rest of \<^verbatim>\<open>bpf/skyline_cc.bpf.c\<close>: the pacing rate (M4, and the kernel's own rule when M4 is
  off), the window target of M2, growth and PRR of the M2-off path, and the \<open>struct_ops\<close> handlers
  with every guard and early return. A handler takes the kernel and the connection and returns both.
\<close>

unbundle bit_operations_syntax

section \<open>Pacing\<close>

definition skyline_min_cwnd :: "kernel_config \<Rightarrow> u32" where
  "skyline_min_cwnd config = max (k_min_cwnd_packets config) SKYLINE_MIN_CWND"

definition skyline_cwnd_limited :: "tcp_sock \<Rightarrow> bool" where
  "skyline_cwnd_limited tp =
     (if tp_is_cwnd_limited tp then True
      else if tp_snd_cwnd tp < tp_snd_ssthresh tp then tp_snd_cwnd tp < 2 * tp_max_packets_out tp
      else False)"

definition skyline_bdp_packets :: "tcp_sock \<Rightarrow> skyline_flow_state \<Rightarrow> kernel_config \<Rightarrow> u32 \<Rightarrow> u32" where
  "skyline_bdp_packets tp flow config gain_permille =
     (if fs_bw_bps flow = 0 \<or> fs_min_rtt_us flow = 0 then tp_snd_cwnd tp
      else (let base_rtt = skyline_base_rtt_us flow;
                bytes = fs_bw_bps flow * base_rtt;
                bytes = bytes div (8 * USEC_PER_SEC);
                bytes = bytes * ucast gain_permille div 1000;
                inflation = skyline_loss_inflation_permille flow config;
                bytes = bytes * ucast inflation div 1000;
                packets = bytes div ucast (max (tp_mss_cache tp) 1)
            in max (ucast packets) (skyline_min_cwnd config)))"

definition skyline_apply_auto_pacing_rate :: "tcp_sock \<Rightarrow> tcp_sock" where
  "skyline_apply_auto_pacing_rate tp =
     (if tp_srtt_us tp = 0 then tp
      else (let ratio = (if tp_snd_cwnd tp < tp_snd_ssthresh tp div 2 then 200 else 120) :: u32;
                basis = max (tp_snd_cwnd tp) (tp_packets_out tp);
                rate = ucast (max (tp_mss_cache tp) 1) * 80000 * ucast ratio * ucast basis :: u64;
                rate = rate div ucast (tp_srtt_us tp);
                rate = (if rate > sk_max_pacing_rate tp then sk_max_pacing_rate tp else rate)
            in tp\<lparr>sk_pacing_status := SK_PACING_NEEDED, sk_pacing_rate := rate\<rparr>))"

definition skyline_pacing_floor_bps :: "tcp_sock \<Rightarrow> skyline_flow_state \<Rightarrow> kernel_config \<Rightarrow> u64" where
  "skyline_pacing_floor_bps tp flow config =
     (let rtt_us = skyline_base_rtt_us flow;
          packets = (if has_feature config ADAPTIVE_CWND then skyline_min_cwnd config else SKYLINE_MIN_CWND);
          rtt_us = (if rtt_us = 0 then ucast (drop_bit 3 (tp_srtt_us tp)) else rtt_us)
      in if rtt_us = 0 then 0
         else ucast packets * ucast (max (tp_mss_cache tp) 1) * 8 * USEC_PER_SEC div rtt_us)"

definition pacing_gain :: "skyline_flow_state \<Rightarrow> kernel_config \<Rightarrow> u32" where
  "pacing_gain flow config =
     (let gain = (if has_feature config ADAPTIVE_CWND \<and> fs_mode flow = SKYLINE_MODE_STARTUP
                  then k_startup_gain_permille config else k_cruise_pacing_permille config);
          gain = gain * skyline_loss_inflation_permille flow config div 1000
      in if fs_queue_clamped flow \<noteq> 0
         then (if k_guardrail_gain_permille config \<noteq> 0 then k_guardrail_gain_permille config else 1000)
         else gain)"

definition skyline_apply_pacing ::
  "skyline_flow_state \<Rightarrow> kernel_config \<Rightarrow> kernel \<Rightarrow> tcp_sock \<Rightarrow> kernel \<times> tcp_sock" where
  "skyline_apply_pacing flow config k tp =
     (if \<not> has_feature config PACING
      then (if has_feature config AUTO_PACING then (k, skyline_apply_auto_pacing_rate tp)
            else (k, tp\<lparr>sk_pacing_rate := sk_max_pacing_rate tp\<rparr>))
      else if fs_bw_bps flow = 0 then (k, tp)
      else (let rate = fs_bw_bps flow * ucast (pacing_gain flow config) div 1000;
                floor_bps = skyline_pacing_floor_bps tp flow config;
                rate = (if rate < floor_bps then floor_bps else rate);
                rate = (if k_max_pacing_bps config \<noteq> 0 \<and> rate > k_max_pacing_bps config
                        then k_max_pacing_bps config else rate);
                rate = rate div 8;
                rate = (if rate > sk_max_pacing_rate tp then sk_max_pacing_rate tp else rate)
            in (metric_add (\<lambda>m. m\<lparr>pacing_updates := pacing_updates m + 1\<rparr>) k,
                tp\<lparr>sk_pacing_status := SK_PACING_NEEDED, sk_pacing_rate := rate\<rparr>)))"

section \<open>The window\<close>

definition cwnd_cap :: "kernel_config \<Rightarrow> tcp_sock \<Rightarrow> tcp_sock" where
  "cwnd_cap config tp =
     (if k_max_cwnd_packets config \<noteq> 0 \<and> tp_snd_cwnd tp > k_max_cwnd_packets config
      then tp\<lparr>tp_snd_cwnd := k_max_cwnd_packets config\<rparr> else tp)"

definition window_gain :: "skyline_flow_state \<Rightarrow> kernel_config \<Rightarrow> u32" where
  "window_gain flow config =
     (if fs_queue_clamped flow \<noteq> 0
      then (if k_guardrail_gain_permille config \<noteq> 0 then k_guardrail_gain_permille config else 1000)
      else if fs_mode flow = SKYLINE_MODE_STARTUP then k_startup_gain_permille config
      else k_cruise_inflight_permille config)"

definition skyline_set_cwnd_target ::
  "ksyms \<Rightarrow> skyline_flow_state \<Rightarrow> kernel_config \<Rightarrow> u32 \<Rightarrow> bool \<Rightarrow> tcp_sock \<Rightarrow> tcp_sock" where
  "skyline_set_cwnd_target kf flow config acked after_rto tp =
     (if fs_bw_bps flow = 0 \<or> fs_min_rtt_us flow = 0
      then (let tp = (if acked \<noteq> 0 \<and> tp_snd_cwnd tp < tp_snd_ssthresh tp then snd (tcp_slow_start kf acked tp) else tp);
                tp = cwnd_cap config tp
            in if after_rto \<and> tp_snd_cwnd tp < skyline_min_cwnd config
               then tp\<lparr>tp_snd_cwnd := skyline_min_cwnd config\<rparr> else tp)
      else (let tp = tp\<lparr>tp_snd_cwnd := skyline_bdp_packets tp flow config (window_gain flow config)\<rparr>;
                tp = cwnd_cap config tp
            in if tp_snd_cwnd tp < skyline_min_cwnd config
               then tp\<lparr>tp_snd_cwnd := skyline_min_cwnd config\<rparr> else tp))"

text \<open>The Reno estimate and the weight of \<open>skyline_grow_cwnd\<close>.\<close>

definition friendly_estimate :: "bool \<Rightarrow> u32 \<Rightarrow> u32 \<Rightarrow> skyline_flow_state \<Rightarrow> skyline_flow_state" where
  "friendly_estimate fresh_epoch cwnd acked flow =
     (let flow = (if fresh_epoch then flow\<lparr>fs_tcp_cwnd := cwnd, fs_ack_cnt := acked\<rparr>
                  else flow\<lparr>fs_ack_cnt := fs_ack_cnt flow + acked\<rparr>);
          delta = ucast cwnd * 15 div 8 :: u64
      in if delta = 0 then flow
         else (let incr = ucast (ucast (fs_ack_cnt flow) div delta) :: u32
               in if incr = 0 then flow
                  else flow\<lparr>fs_tcp_cwnd := fs_tcp_cwnd flow + incr,
                         fs_ack_cnt := fs_ack_cnt flow - incr * ucast delta\<rparr>))"

definition growth_weight :: "u32 \<Rightarrow> u32 \<Rightarrow> skyline_flow_state \<Rightarrow> u32" where
  "growth_weight target cwnd flow =
     (let weight = (if target > cwnd then max (cwnd div (target - cwnd)) 2
                    else max (cwnd * SKYLINE_CUBIC_STALLED_WEIGHT_SCALE) 2);
          weight = (if fs_tcp_cwnd flow > cwnd
                    then (let friendly_gap = fs_tcp_cwnd flow - cwnd;
                              friendly_weight = max (cwnd div friendly_gap) 1
                          in if weight > friendly_weight then friendly_weight else weight)
                    else weight)
      in max weight 2)"

definition grow_past_slow_start ::
  "ksyms \<Rightarrow> kernel_config \<Rightarrow> u32 \<Rightarrow> kernel \<Rightarrow> tcp_sock \<Rightarrow> skyline_flow_state \<Rightarrow> kernel \<times> tcp_sock \<times> skyline_flow_state" where
  "grow_past_slow_start kf config acked k tp flow =
     (let fresh_epoch = (fs_epoch_start_ns flow = 0);
          (now, k) = bpf_ktime_get_ns k;
          (target, flow) = skyline_cubic_target flow (tp_snd_cwnd tp) now;
          flow = friendly_estimate fresh_epoch (tp_snd_cwnd tp) acked flow;
          tp = tcp_cong_avoid_ai kf (growth_weight target (tp_snd_cwnd tp) flow) acked tp;
          tp = cwnd_cap config tp;
          tp = (if tp_snd_cwnd tp < SKYLINE_MIN_CWND then tp\<lparr>tp_snd_cwnd := SKYLINE_MIN_CWND\<rparr> else tp)
      in (k, tp, flow))"

definition skyline_grow_cwnd ::
  "ksyms \<Rightarrow> kernel_config \<Rightarrow> u32 \<Rightarrow> kernel \<Rightarrow> tcp_sock \<Rightarrow> skyline_flow_state \<Rightarrow> kernel \<times> tcp_sock \<times> skyline_flow_state" where
  "skyline_grow_cwnd kf config acked k tp flow =
     (if acked = 0 then (k, tp, flow)
      else if \<not> skyline_cwnd_limited tp then (k, tp, flow)
      else if tp_snd_cwnd tp < tp_snd_ssthresh tp
      then (let (acked, tp) = tcp_slow_start kf acked tp
            in if acked = 0 then (k, cwnd_cap config tp, flow)
               else grow_past_slow_start kf config acked k tp flow)
      else grow_past_slow_start kf config acked k tp flow)"

definition prr_sndcnt :: "tcp_sock \<Rightarrow> skyline_flow_state \<Rightarrow> rate_sample \<Rightarrow> s32 \<Rightarrow> u32 \<Rightarrow> s64 \<Rightarrow> s64" where
  "prr_sndcnt tp flow sample flag newly_acked packets_in_flight =
     (let delta = ucast (tp_snd_ssthresh tp) - packets_in_flight;
          sndcnt =
            (if delta <s 0
             then (let dividend = ucast (tp_snd_ssthresh tp) * ucast (fs_prr_delivered flow)
                         + ucast (fs_prior_cwnd flow) - 1 :: u64
                   in dividend div ucast (fs_prior_cwnd flow) - ucast (tp_prr_out tp))
             else (let sndcnt = ucast (fs_prr_delivered flow) - ucast (tp_prr_out tp);
                       sndcnt = (if sndcnt <s ucast newly_acked then ucast newly_acked else sndcnt);
                       sndcnt = (if flag AND SKYLINE_FLAG_SND_UNA_ADVANCED \<noteq> 0 \<and> sint (rs_losses sample) \<le> 0
                                 then sndcnt + 1 else sndcnt)
                   in if delta <s sndcnt then delta else sndcnt));
          least = (if tp_prr_out tp \<noteq> 0 then 0 else 1);
          sndcnt = (if sndcnt <s least then least else sndcnt)
      in if sndcnt <s 0 then 0 else sndcnt)"

definition skyline_apply_prr ::
  "rate_sample \<Rightarrow> s32 \<Rightarrow> kernel \<Rightarrow> tcp_sock \<Rightarrow> skyline_flow_state \<Rightarrow> kernel \<times> tcp_sock \<times> skyline_flow_state" where
  "skyline_apply_prr sample flag k tp flow =
     (let newly_acked = rs_acked_sacked sample
      in if newly_acked = 0 \<or> fs_prior_cwnd flow = 0 then (k, tp, flow)
         else (let flow = flow\<lparr>fs_prr_delivered := fs_prr_delivered flow + newly_acked\<rparr>;
                   in_flight = ucast (tp_packets_out tp) - ucast (tp_sacked_out tp) - ucast (tp_lost_out tp)
                     + ucast (tp_retrans_out tp) :: s64;
                   in_flight = (if in_flight <s 0 then 0 else in_flight);
                   new_cwnd = ucast (in_flight + prr_sndcnt tp flow sample flag newly_acked in_flight) :: u32
               in (metric_add (\<lambda>m. m\<lparr>prr_adjustments := prr_adjustments m + 1\<rparr>) k,
                   tp\<lparr>tp_snd_cwnd := max new_cwnd SKYLINE_MIN_CWND\<rparr>, flow)))"

section \<open>The handlers\<close>

definition skyline_init :: "kernel \<Rightarrow> conn \<Rightarrow> kernel \<times> conn" where
  "skyline_init k c =
     (case skyline_flow_get k c of
        (None, k) \<Rightarrow> (k, c)
      | (Some flow, k) \<Rightarrow>
          (let (k, flow) = (if fs_counted flow = 0
                            then (k\<lparr>kn_flow_count := map_option (\<lambda>n. n + 1) (kn_flow_count k)\<rparr>,
                                  flow\<lparr>fs_counted := 1\<rparr>)
                            else (k, flow));
               (adopted, k, flow) = skyline_adopt_config k flow
           in if \<not> adopted then (k, c\<lparr>c_flow := Some flow\<rparr>)
              else (let tp = c_tp c;
                        tp = (if k_initial_cwnd_packets (fs_config flow) \<noteq> 0
                              then tp\<lparr>tp_snd_cwnd := k_initial_cwnd_packets (fs_config flow)\<rparr> else tp);
                        (flow, k) = skyline_reset_generation flow tp k
                    in (k, c\<lparr>c_tp := tp\<lparr>tp_snd_ssthresh := 0x7fffffff\<rparr>, c_flow := Some flow\<rparr>))))"

text \<open>
  The configuration a flow runs this ACK on. \<open>None\<close> is a flow without one that could not adopt one
  either.
\<close>

definition ack_config ::
  "rate_sample \<Rightarrow> tcp_sock \<Rightarrow> kernel \<Rightarrow> skyline_flow_state \<Rightarrow> bool \<times> kernel \<times> skyline_flow_state" where
  "ack_config sample tp k flow =
     (if \<not> skyline_has_config flow
      then (let (adopted, k, flow) = skyline_adopt_config k flow
            in if \<not> adopted then (False, k, flow)
               else (let (flow, k) = skyline_reset_generation flow tp k in (True, k, flow)))
      else if skyline_round_reached sample (fs_next_round_delivered flow) \<and> kn_has_seq k
      then (let (seq, k) = read_config_seq k
            in if seq \<noteq> fs_config_seq flow
               then (let old_generation = k_generation (fs_config flow);
                         prior_mode = fs_mode flow;
                         (adopted, k, flow) = skyline_adopt_config k flow
                     in if adopted
                        then (let (flow, k) = skyline_reset_generation flow tp k
                              in (True, skyline_emit tp SKYLINE_EVENT_GENERATION_SWITCH prior_mode
                                          (ucast old_generation) (ucast (k_generation (fs_config flow))) k, flow))
                        else (True, k, flow))
               else (True, k, flow))
      else (True, k, flow))"

definition ack_losses ::
  "rate_sample \<Rightarrow> tcp_sock \<Rightarrow> kernel_config \<Rightarrow> kernel \<Rightarrow> skyline_flow_state \<Rightarrow> kernel \<times> skyline_flow_state" where
  "ack_losses sample tp config k flow =
     (if sint (rs_losses sample) > 0 \<and> tp_delivered tp \<noteq> fs_last_loss_delivered flow
      then (let flow = flow\<lparr>fs_last_loss_delivered := tp_delivered tp\<rparr>;
                k = metric_add (\<lambda>m. m\<lparr>loss_events := loss_events m + 1\<rparr>) k;
                k = (if has_feature config EARLY_LOSS
                     then metric_add (\<lambda>m. m\<lparr>hypothetical_early_loss := hypothetical_early_loss m + 1\<rparr>) k else k)
            in (skyline_emit tp SKYLINE_EVENT_LOSS (fs_mode flow) (scast (rs_losses sample)) 0 k, flow))
      else (k, flow))"

definition ack_window ::
  "ksyms \<Rightarrow> s32 \<Rightarrow> rate_sample \<Rightarrow> kernel_config \<Rightarrow> kernel \<Rightarrow> tcp_sock \<Rightarrow> skyline_flow_state
    \<Rightarrow> kernel \<times> tcp_sock \<times> skyline_flow_state" where
  "ack_window kf flag sample config k tp flow =
     (if has_feature config ADAPTIVE_CWND
      then (k, skyline_set_cwnd_target kf flow config (rs_acked_sacked sample) (icsk_ca_state tp = TCP_CA_Loss) tp, flow)
      else if icsk_ca_state tp = TCP_CA_CWR \<or> icsk_ca_state tp = TCP_CA_Recovery
      then (if has_feature config PRR then skyline_apply_prr sample flag k tp flow else (k, tp, flow))
      else skyline_grow_cwnd kf config (rs_acked_sacked sample) k tp flow)"

definition ack_metrics :: "rate_sample \<Rightarrow> tcp_sock \<Rightarrow> kernel_config \<Rightarrow> kernel \<Rightarrow> kernel" where
  "ack_metrics sample tp config k =
     metric_add (\<lambda>m.
       (let m = m\<lparr>ack_events := ack_events m + 1,
                 delivered_packets := delivered_packets m
                   + (if sint (rs_delivered sample) > 0 then scast (rs_delivered sample) else 0)\<rparr>
        in if k_max_cwnd_packets config \<noteq> 0 \<and> tp_snd_cwnd tp \<ge> k_max_cwnd_packets config
           then m\<lparr>cwnd_cap_hits := cwnd_cap_hits m + 1\<rparr> else m)) k"

definition skyline_cong_control ::
  "ksyms \<Rightarrow> u32 \<Rightarrow> s32 \<Rightarrow> rate_sample option \<Rightarrow> kernel \<Rightarrow> conn \<Rightarrow> kernel \<times> conn" where
  "skyline_cong_control kf ack flag sample_ptr k c =
     (case skyline_flow_get k c of
        (None, k) \<Rightarrow> (k, c)
      | (Some flow, k) \<Rightarrow>
          (case sample_ptr of
             None \<Rightarrow> (k, c\<lparr>c_flow := Some flow\<rparr>)
           | Some sample \<Rightarrow>
               (let tp = c_tp c;
                    (ready, k, flow) = ack_config sample tp k flow
                in if \<not> ready
                   then (k, c\<lparr>c_tp := tcp_reno_cong_avoid kf ack (rs_acked_sacked sample) tp, c_flow := Some flow\<rparr>)
                   else (let config = fs_config flow;
                             (new_round, k, flow) = skyline_update_model tp config sample k flow;
                             (k, flow) = ack_losses sample tp config k flow;
                             (k, tp) = skyline_apply_pacing flow config k tp;
                             (k, tp, flow) = ack_window kf flag sample config k tp flow;
                             tp = (if has_feature config (ADAPTIVE_CWND OR PACING)
                                   then skyline_mark_app_limited kf tp else tp)
                         in (ack_metrics sample tp config k, c\<lparr>c_tp := tp, c_flow := Some flow\<rparr>)))))"

definition cubic_beta_cut :: "tcp_sock \<Rightarrow> u32" where
  "cubic_beta_cut tp = max (tp_snd_cwnd tp * SKYLINE_CUBIC_BETA_PERMILLE div 1000) 2"

definition skyline_ssthresh :: "kernel \<Rightarrow> conn \<Rightarrow> u32 \<times> kernel \<times> conn" where
  "skyline_ssthresh k c =
     (case skyline_flow_get k c of
        (None, k) \<Rightarrow> (cubic_beta_cut (c_tp c), k, c)
      | (Some flow, k) \<Rightarrow>
          (if \<not> skyline_has_config flow then (cubic_beta_cut (c_tp c), k, c\<lparr>c_flow := Some flow\<rparr>)
           else (let tp = c_tp c;
                     flow = flow\<lparr>fs_prior_cwnd := tp_snd_cwnd tp, fs_w_max := tp_snd_cwnd tp, fs_epoch_start_ns := 0\<rparr>
                 in (if has_feature (fs_config flow) ADAPTIVE_CWND then max (tp_snd_cwnd tp) 2 else cubic_beta_cut tp,
                     k, c\<lparr>c_flow := Some flow\<rparr>))))"

definition skyline_undo_cwnd :: "ksyms \<Rightarrow> kernel \<Rightarrow> conn \<Rightarrow> u32 \<times> kernel \<times> conn" where
  "skyline_undo_cwnd kf k c =
     (let (flow_ptr, k) = skyline_flow_get k c;
          reno = tcp_reno_undo_cwnd kf (c_tp c)
      in case flow_ptr of
           None \<Rightarrow> (reno, k, c)
         | Some flow \<Rightarrow>
             (let restored = max (fs_prior_cwnd flow) reno
              in (restored, skyline_emit (c_tp c) SKYLINE_EVENT_UNDO_CWND (fs_mode flow)
                              (ucast (fs_prior_cwnd flow)) (ucast restored) k,
                  c\<lparr>c_flow := Some flow\<rparr>)))"

definition skyline_set_state :: "tcp_ca_state \<Rightarrow> kernel \<Rightarrow> conn \<Rightarrow> kernel \<times> conn" where
  "skyline_set_state new_state k c =
     (case skyline_flow_get k c of
        (None, k) \<Rightarrow> (k, c)
      | (Some flow, k) \<Rightarrow>
          (case new_state of
             TCP_CA_Loss \<Rightarrow> (k, c\<lparr>c_flow := Some (flow\<lparr>fs_recovery_active := 1\<rparr>)\<rparr>)
           | TCP_CA_Recovery \<Rightarrow> (k, c\<lparr>c_flow := Some (flow\<lparr>fs_prr_delivered := 0, fs_recovery_active := 1\<rparr>)\<rparr>)
           | TCP_CA_CWR \<Rightarrow> (k, c\<lparr>c_flow := Some (flow\<lparr>fs_prr_delivered := 0, fs_recovery_active := 1\<rparr>)\<rparr>)
           | _ \<Rightarrow>
               (if fs_recovery_active flow = 0 then (k, c\<lparr>c_flow := Some flow\<rparr>)
                else (let flow = flow\<lparr>fs_recovery_active := 0\<rparr>
                      in if skyline_has_config flow \<and> \<not> has_feature (fs_config flow) ADAPTIVE_CWND
                         then (k, c\<lparr>c_tp := (c_tp c)\<lparr>tp_snd_cwnd := max (tp_snd_ssthresh (c_tp c)) SKYLINE_MIN_CWND\<rparr>,
                                   c_flow := Some flow\<rparr>)
                         else (k, c\<lparr>c_flow := Some flow\<rparr>)))))"

definition skyline_tx_start :: "kernel \<Rightarrow> conn \<Rightarrow> kernel \<times> conn" where
  "skyline_tx_start k c =
     (case skyline_flow_get k c of
        (None, k) \<Rightarrow> (k, c)
      | (Some flow, k) \<Rightarrow>
          (let (now, k) = bpf_ktime_get_ns k in (k, c\<lparr>c_flow := Some (flow\<lparr>fs_epoch_start_ns := now\<rparr>)\<rparr>)))"

definition skyline_cwnd_event :: "tcp_ca_event \<Rightarrow> kernel \<Rightarrow> conn \<Rightarrow> kernel \<times> conn" where
  "skyline_cwnd_event event k c = (if event = CA_EVENT_TX_START then skyline_tx_start k c else (k, c))"

definition skyline_cwnd_event_tx_start :: "kernel \<Rightarrow> conn \<Rightarrow> kernel \<times> conn" where
  "skyline_cwnd_event_tx_start k c = skyline_tx_start k c"

definition skyline_release :: "kernel \<Rightarrow> conn \<Rightarrow> kernel \<times> conn" where
  "skyline_release k c =
     (case skyline_flow_lookup c of
        None \<Rightarrow> (k, c)
      | Some flow \<Rightarrow>
          (if fs_counted flow = 0 then (k, c)
           else (k\<lparr>kn_flow_count := map_option (\<lambda>n. n - 1) (kn_flow_count k)\<rparr>,
                 c\<lparr>c_flow := Some (flow\<lparr>fs_counted := 0\<rparr>)\<rparr>)))"

end
