(* ===== verification/CongLaws.thy ===== *)
theory CongLaws
  imports CongControl
begin

text \<open>
  What the handlers of the controller keep of a connection's state. The invariant \<open>flow_wf\<close> of
  \<open>struct skyline_flow_state\<close>, the frame of every step of a handler, and the locale \<open>struct_op\<close>: the
  contract of a \<open>struct_ops\<close> handler other than \<open>init\<close> and \<open>release\<close>, which keeps the invariant and
  counts no connection. It is interpreted on each of them.
\<close>

unbundle bit_operations_syntax

named_theorems cc_frame
named_theorems cc_defs

section \<open>What the kernel keeps\<close>

lemma kernel_frame [cc_frame]:
  "kn_flow_count (kn_tick k) = kn_flow_count k" "kn_slots (kn_tick k) = kn_slots k"
  "kn_flow_count (metric_add g k) = kn_flow_count k" "kn_slots (metric_add g k) = kn_slots k"
  "kn_flow_count (skyline_emit sk ty st a b k) = kn_flow_count k" "kn_slots (skyline_emit sk ty st a b k) = kn_slots k"
  "kn_step (metric_add g k) = kn_step k" "kn_has_seq (kn_tick k) = kn_has_seq k" "kn_seq (kn_tick k) = kn_seq k"
  by (simp_all add: kn_tick_def metric_add_def skyline_emit_def bpf_ktime_get_ns_def Let_def)

lemma ktime_frame [cc_frame]:
  "kn_flow_count (snd (bpf_ktime_get_ns k)) = kn_flow_count k" "kn_slots (snd (bpf_ktime_get_ns k)) = kn_slots k"
  by (simp_all add: bpf_ktime_get_ns_def cc_frame)

section \<open>The invariant of a flow\<close>

text \<open>
  What the daemon promises of \<open>config_slots\<close>: whatever carries this ABI's version is the image of a
  configuration that passed validation.
\<close>

definition from_daemon :: "kernel_config \<Rightarrow> bool" where
  "from_daemon cfg = (\<exists>c. validate c = Inr () \<and> cfg = config_kernel_config c)"

definition slots_valid :: "kernel \<Rightarrow> bool" where
  "slots_valid k = (\<forall>n b cfg. kn_slots k n b = Some cfg \<longrightarrow> k_abi_version cfg = ABI_VERSION \<longrightarrow> from_daemon cfg)"

definition windowed_max :: "kernel_config \<Rightarrow> u64 list \<Rightarrow> u64" where
  "windowed_max config samples = fold max (take (unat (min (k_bw_window_rtts config) 10)) samples) 0"

definition flow_wf :: "skyline_flow_state \<Rightarrow> bool" where
  "flow_wf flow =
     (fs_mode flow \<in> {SKYLINE_MODE_STARTUP, SKYLINE_MODE_CRUISE}
      \<and> length (fs_bw_samples flow) = 10
      \<and> fs_counted flow \<in> {0, 1} \<and> fs_recovery_active flow \<in> {0, 1} \<and> fs_queue_clamped flow \<in> {0, 1}
      \<and> (skyline_has_config flow \<longrightarrow> from_daemon (fs_config flow))
      \<and> (fs_mode flow = SKYLINE_MODE_CRUISE \<or> fs_queue_clamped flow = 1
          \<longrightarrow> skyline_has_config flow \<and> has_feature (fs_config flow) ADAPTIVE_CWND)
      \<and> fs_bw_bps flow = max (fs_round_rate_bps flow) (windowed_max (fs_config flow) (fs_bw_samples flow)))"

definition conn_wf :: "conn \<Rightarrow> bool" where
  "conn_wf c = (case c_flow c of None \<Rightarrow> True | Some flow \<Rightarrow> flow_wf flow)"

lemma windowed_max_zero [simp]: "windowed_max config (replicate n 0) = 0"
proof -
  have "fold max (replicate m (0 :: u64)) 0 = 0" for m
    by (induction m) simp_all
  then show ?thesis by (simp add: windowed_max_def take_replicate)
qed

lemma zero_flow_wf [simp]: "flow_wf zero_flow"
proof -
  have "windowed_max zero_config (replicate 10 0) = 0" by (rule windowed_max_zero)
  then have "windowed_max (fs_config zero_flow) (fs_bw_samples zero_flow) = 0"
    by (simp only: zero_flow_def skyline_flow_state.select_convs)
  then show ?thesis
    by (simp add: flow_wf_def skyline_has_config_def ABI_VERSION_def)
       (simp add: zero_flow_def zero_config_def SKYLINE_MODE_STARTUP_def SKYLINE_MODE_CRUISE_def)
qed

lemma zero_flow_fields [simp]: "fs_counted zero_flow = 0" "fs_mode zero_flow = SKYLINE_MODE_STARTUP"
  by (simp_all add: zero_flow_def SKYLINE_MODE_STARTUP_def)

section \<open>Adopting a configuration\<close>

lemma adopt_config_cases:
  obtains k' where "skyline_adopt_config k flow = (False, k', flow)"
      "kn_flow_count k' = kn_flow_count k" "kn_slots k' = kn_slots k"
  | k' n b cfg where "kn_slots k n b = Some cfg" "k_abi_version cfg = ABI_VERSION"
      "skyline_adopt_config k flow = (True, k', flow\<lparr>fs_config := cfg, fs_config_seq := kn_seq k (kn_step k)\<rparr>)"
      "kn_flow_count k' = kn_flow_count k" "kn_slots k' = kn_slots k"
proof (cases "kn_has_seq k")
  case False
  then show ?thesis using that(1) [of k] by (simp add: skyline_adopt_config_def)
next
  case has: True
  define k1 where "k1 = kn_tick k"
  define seq where "seq = kn_seq k (kn_step k)"
  show ?thesis
  proof (cases "kn_slots k1 (kn_step k1) (seq AND 1)")
    case None
    with has show ?thesis
      using that(1) [of "kn_tick k1"]
      by (simp add: skyline_adopt_config_def read_config_seq_def Let_def k1_def seq_def cc_frame)
  next
    case (Some cfg)
    define k2 where "k2 = kn_tick (kn_tick k1)"
    define again where "again = kn_seq (kn_tick k1) (kn_step (kn_tick k1))"
    have eq: "skyline_adopt_config k flow =
        (if again \<noteq> seq \<or> k_abi_version cfg \<noteq> ABI_VERSION then (False, k2, flow)
         else (True, k2, flow\<lparr>fs_config := cfg, fs_config_seq := seq\<rparr>))"
      using has Some
      by (simp add: skyline_adopt_config_def read_config_seq_def Let_def k1_def seq_def k2_def again_def)
    have k2: "kn_flow_count k2 = kn_flow_count k" "kn_slots k2 = kn_slots k"
      by (simp_all add: k2_def k1_def cc_frame)
    have slot: "kn_slots k (kn_step k1) (seq AND 1) = Some cfg" using Some by (simp add: k1_def cc_frame)
    show ?thesis
    proof (cases "again \<noteq> seq \<or> k_abi_version cfg \<noteq> ABI_VERSION")
      case True
      with eq k2 show ?thesis using that(1) [of k2] by simp
    next
      case False
      with eq k2 slot show ?thesis using that(2) [of "kn_step k1" "seq AND 1" cfg k2] by (simp add: seq_def)
    qed
  qed
qed

lemma reset_generation_wf:
  assumes "flow_wf flow" "from_daemon cfg" "k_abi_version cfg = ABI_VERSION"
  shows "flow_wf (fst (skyline_reset_generation (flow\<lparr>fs_config := cfg, fs_config_seq := q\<rparr>) tp k))"
proof -
  have "windowed_max cfg (replicate 10 0) = 0" by (rule windowed_max_zero)
  then show ?thesis
    using assms
    by (simp add: flow_wf_def skyline_reset_generation_def bpf_ktime_get_ns_def skyline_has_config_def
        SKYLINE_MODE_STARTUP_def SKYLINE_MODE_CRUISE_def)
qed

lemma reset_generation_frame [cc_frame]:
  "fs_counted (fst (skyline_reset_generation flow tp k)) = fs_counted flow"
  "fs_config (fst (skyline_reset_generation flow tp k)) = fs_config flow"
  "fs_config_seq (fst (skyline_reset_generation flow tp k)) = fs_config_seq flow"
  "kn_flow_count (snd (skyline_reset_generation flow tp k)) = kn_flow_count k"
  "kn_slots (snd (skyline_reset_generation flow tp k)) = kn_slots k"
  by (simp_all add: skyline_reset_generation_def Let_def split_beta cc_frame)

section \<open>The model of the path\<close>

text \<open>
  \<open>model_keeps\<close>: the parts of a flow that no block of \<open>skyline_update_model\<close> touches.
\<close>

definition model_keeps :: "skyline_flow_state \<Rightarrow> skyline_flow_state \<Rightarrow> bool" where
  "model_keeps flow flow' =
     (fs_counted flow' = fs_counted flow \<and> fs_recovery_active flow' = fs_recovery_active flow
      \<and> fs_config flow' = fs_config flow \<and> fs_config_seq flow' = fs_config_seq flow
      \<and> fs_prior_cwnd flow' = fs_prior_cwnd flow \<and> fs_epoch_start_ns flow' = fs_epoch_start_ns flow)"

lemma model_keeps_refl [simp]: "model_keeps flow flow"
  by (simp add: model_keeps_def)

lemma model_keeps_trans [trans]: "model_keeps a b \<Longrightarrow> model_keeps b c \<Longrightarrow> model_keeps a c"
  by (simp add: model_keeps_def)

lemma fold_window_max:
  assumes "w \<le> length xs" "w \<le> n"
  shows "fold (\<lambda>i m. if i < w \<and> xs ! i > m then xs ! i else m) [0..<n] (0 :: u64) = fold max (take w xs) 0"
proof -
  have upto: "fold (\<lambda>i m. if i < w \<and> xs ! i > m then xs ! i else m) [0..<j] 0 = fold max (take j xs) 0" if "j \<le> w" for j
    using that
  proof (induction j)
    case (Suc j)
    then have "j < w" "take (Suc j) xs = take j xs @ [xs ! j]"
      using assms(1) by (simp_all add: take_Suc_conv_app_nth)
    with Suc show ?case by (auto simp: max_def)
  qed simp
  have "fold (\<lambda>i m. if i < w \<and> xs ! i > m then xs ! i else m) [w..<n] a = a" for a
    by (rule fold_invariant [where Q = "\<lambda>i. w \<le> i" and P = "\<lambda>x. x = a"]) auto
  moreover have "[0..<n] = [0..<w] @ [w..<n]" using assms(2) upt_add_eq_append [of 0 w "n - w"] by simp
  ultimately show ?thesis using upto [of w] by simp
qed

lemma min_word_10: "unat (min (x :: u32) 10) \<le> 10"
  by (simp add: min_def word_le_nat_alt)

lemma close_round_fields:
  assumes "length (fs_bw_samples flow) = 10"
    and "fs_bw_bps flow = max (fs_round_rate_bps flow) (windowed_max config (fs_bw_samples flow))"
    and "model_close_round nr config flow = (m, flow')"
  shows "length (fs_bw_samples flow') = 10"
    and "fs_bw_bps flow' = max (fs_round_rate_bps flow') (windowed_max config (fs_bw_samples flow'))"
    and "model_keeps flow flow'" "fs_mode flow' = fs_mode flow" "fs_queue_clamped flow' = fs_queue_clamped flow"
    and "fs_loss_rate_permille flow' = fs_loss_rate_permille flow"
    and "fs_last_lost flow' = fs_last_lost flow" "fs_last_loss_rate_delivered flow' = fs_last_loss_rate_delivered flow"
proof -
  define xs where "xs = fs_round_rate_bps flow # take 9 (fs_bw_samples flow)"
  have len: "length xs = 10" using assms(1) by (simp add: xs_def)
  have eq: "flow' = (if nr \<and> fs_round_rate_bps flow \<noteq> 0
      then flow\<lparr>fs_bw_samples := xs, fs_round_rate_bps := 0, fs_bw_bps := windowed_max config xs\<rparr> else flow)"
    using assms(3) len fold_window_max [of "unat (min (k_bw_window_rtts config) 10)" xs 10]
      min_word_10 [of "k_bw_window_rtts config"]
    by (auto simp: model_close_round_def Let_def windowed_max_def simp flip: xs_def split: if_splits)
  show "length (fs_bw_samples flow') = 10"
    and "fs_bw_bps flow' = max (fs_round_rate_bps flow') (windowed_max config (fs_bw_samples flow'))"
    and "model_keeps flow flow'" "fs_mode flow' = fs_mode flow" "fs_queue_clamped flow' = fs_queue_clamped flow"
    and "fs_loss_rate_permille flow' = fs_loss_rate_permille flow"
    and "fs_last_lost flow' = fs_last_lost flow" "fs_last_loss_rate_delivered flow' = fs_last_loss_rate_delivered flow"
    using assms(1,2) len by (simp_all add: eq model_keeps_def)
qed

lemma model_small_blocks:
  "model_keeps flow (snd (skyline_new_round tp flow sample))"
  "model_keeps flow (model_min_rtt now config sample flow)"
  "model_keeps flow (model_min_srtt now config tp flow)"
  "model_keeps flow (model_take_sample tp sample flow)"
  "model_keeps flow (model_loss_rate nr tp flow)"
  by (simp_all add: model_keeps_def skyline_new_round_def model_min_rtt_def model_min_srtt_def
      model_take_sample_def model_loss_rate_def Let_def)

text \<open>The fields the invariant speaks of: the mode, the clamp and the filter.\<close>

lemma model_blocks_mode [cc_frame]:
  "fs_mode (snd (skyline_new_round tp flow sample)) = fs_mode flow"
  "fs_mode (model_min_rtt now config sample flow) = fs_mode flow"
  "fs_mode (model_min_srtt now config tp flow) = fs_mode flow"
  "fs_mode (model_take_sample tp sample flow) = fs_mode flow"
  "fs_mode (model_loss_rate nr tp flow) = fs_mode flow"
  "fs_queue_clamped (snd (skyline_new_round tp flow sample)) = fs_queue_clamped flow"
  "fs_queue_clamped (model_min_rtt now config sample flow) = fs_queue_clamped flow"
  "fs_queue_clamped (model_min_srtt now config tp flow) = fs_queue_clamped flow"
  "fs_queue_clamped (model_take_sample tp sample flow) = fs_queue_clamped flow"
  "fs_queue_clamped (model_loss_rate nr tp flow) = fs_queue_clamped flow"
  by (simp_all add: skyline_new_round_def model_min_rtt_def model_min_srtt_def
      model_take_sample_def model_loss_rate_def Let_def)

lemma model_blocks_filter [cc_frame]:
  "fs_bw_samples (snd (skyline_new_round tp flow sample)) = fs_bw_samples flow"
  "fs_bw_samples (model_min_rtt now config sample flow) = fs_bw_samples flow"
  "fs_bw_samples (model_min_srtt now config tp flow) = fs_bw_samples flow"
  "fs_bw_samples (model_take_sample tp sample flow) = fs_bw_samples flow"
  "fs_bw_samples (model_loss_rate nr tp flow) = fs_bw_samples flow"
  "fs_bw_bps (snd (skyline_new_round tp flow sample)) = fs_bw_bps flow"
  "fs_bw_bps (model_min_rtt now config sample flow) = fs_bw_bps flow"
  "fs_bw_bps (model_min_srtt now config tp flow) = fs_bw_bps flow"
  "fs_bw_bps (model_loss_rate nr tp flow) = fs_bw_bps flow"
  "fs_round_rate_bps (snd (skyline_new_round tp flow sample)) = fs_round_rate_bps flow"
  "fs_round_rate_bps (model_min_rtt now config sample flow) = fs_round_rate_bps flow"
  "fs_round_rate_bps (model_min_srtt now config tp flow) = fs_round_rate_bps flow"
  "fs_round_rate_bps (model_loss_rate nr tp flow) = fs_round_rate_bps flow"
  by (simp_all add: skyline_new_round_def model_min_rtt_def model_min_srtt_def
      model_take_sample_def model_loss_rate_def Let_def)

lemma take_sample_filter:
  assumes "fs_bw_bps flow = max (fs_round_rate_bps flow) (b :: u64)"
  shows "fs_bw_bps (model_take_sample tp sample flow) = max (fs_round_rate_bps (model_take_sample tp sample flow)) b"
  using assms by (auto simp: model_take_sample_def Let_def max_def)

text \<open>
  The flow before the guardrail's block, and what is left of the invariant to show for that block.
\<close>

definition model_before_guardrail ::
  "u64 \<Rightarrow> tcp_sock \<Rightarrow> kernel_config \<Rightarrow> rate_sample \<Rightarrow> skyline_flow_state \<Rightarrow> bool \<times> skyline_flow_state" where
  "model_before_guardrail now_us tp config sample flow =
     (let (new_round, flow) = skyline_new_round tp flow sample;
          flow = model_min_srtt now_us config tp (model_min_rtt now_us config sample flow);
          (measured_round, flow) = model_close_round new_round config flow
      in (measured_round, model_loss_rate new_round tp (model_take_sample tp sample flow)))"

lemma update_model_alt:
  "skyline_update_model tp config sample k flow =
     (let (measured, f) = model_before_guardrail (kn_clock k (kn_step k) div 1000) tp config sample flow;
          nr = skyline_round_reached sample (fs_next_round_delivered flow);
          (k, f) = model_guardrail nr measured tp config (kn_tick k) f
      in (nr, k, f))"
  by (simp add: skyline_update_model_def model_before_guardrail_def bpf_ktime_get_ns_def skyline_new_round_def
      Let_def split_beta)

lemma before_guardrail_fields:
  assumes "length (fs_bw_samples flow) = 10"
    and "fs_bw_bps flow = max (fs_round_rate_bps flow) (windowed_max config (fs_bw_samples flow))"
    and "model_before_guardrail now_us tp config sample flow = (m, flow')"
  shows "length (fs_bw_samples flow') = 10"
    and "fs_bw_bps flow' = max (fs_round_rate_bps flow') (windowed_max config (fs_bw_samples flow'))"
    and "model_keeps flow flow'" "fs_mode flow' = fs_mode flow" "fs_queue_clamped flow' = fs_queue_clamped flow"
proof -
  define nr where "nr = fst (skyline_new_round tp flow sample)"
  define f1 where "f1 = snd (skyline_new_round tp flow sample)"
  define f2 where "f2 = model_min_srtt now_us config tp (model_min_rtt now_us config sample f1)"
  define f3 where "f3 = snd (model_close_round nr config f2)"
  have flow': "flow' = model_loss_rate nr tp (model_take_sample tp sample f3)"
    using assms(3)
    by (simp add: model_before_guardrail_def Let_def split_beta f1_def f2_def f3_def nr_def)
  have f2: "length (fs_bw_samples f2) = 10"
    "fs_bw_bps f2 = max (fs_round_rate_bps f2) (windowed_max config (fs_bw_samples f2))"
    using assms(1,2) by (simp_all add: f2_def f1_def cc_frame)
  have f3': "model_close_round nr config f2 = (fst (model_close_round nr config f2), f3)" by (simp add: f3_def)
  show "length (fs_bw_samples flow') = 10"
    using close_round_fields(1) [OF f2 f3'] by (simp add: flow' cc_frame)
  show "fs_bw_bps flow' = max (fs_round_rate_bps flow') (windowed_max config (fs_bw_samples flow'))"
    using take_sample_filter [OF close_round_fields(2) [OF f2 f3']] by (simp add: flow' cc_frame)
  show "fs_mode flow' = fs_mode flow" "fs_queue_clamped flow' = fs_queue_clamped flow"
    using close_round_fields(4,5) [OF f2 f3'] by (simp_all add: flow' f2_def f1_def cc_frame)
  have "model_keeps flow f2" unfolding f2_def f1_def by (blast intro: model_small_blocks model_keeps_trans)
  also have "model_keeps f2 f3" by (rule close_round_fields(3) [OF f2 f3'])
  also have "model_keeps f3 flow'" unfolding flow' by (blast intro: model_small_blocks model_keeps_trans)
  finally show "model_keeps flow flow'" .
qed

section \<open>The guardrail and the end of STARTUP\<close>

definition queue_tripped :: "tcp_sock \<Rightarrow> kernel_config \<Rightarrow> skyline_flow_state \<Rightarrow> bool" where
  "queue_tripped tp config flow =
     ((skyline_max_queue_delay_us flow config \<noteq> 0
       \<and> skyline_queue_delay_us tp flow > skyline_max_queue_delay_us flow config)
      \<or> tp_delivered_ce tp \<noteq> fs_last_delivered_ce flow)"

lemma model_plateau_frame [cc_frame]:
  "model_keeps flow (model_plateau m config flow)"
  "fs_mode (model_plateau m config flow) = fs_mode flow"
  "fs_queue_clamped (model_plateau m config flow) = fs_queue_clamped flow"
  "fs_bw_samples (model_plateau m config flow) = fs_bw_samples flow"
  "fs_bw_bps (model_plateau m config flow) = fs_bw_bps flow"
  "fs_round_rate_bps (model_plateau m config flow) = fs_round_rate_bps flow"
  "fs_loss_rate_permille (model_plateau m config flow) = fs_loss_rate_permille flow"
  "fs_min_rtt_us (model_plateau m config flow) = fs_min_rtt_us flow"
  by (simp_all add: model_plateau_def model_keeps_def)

lemma transition_cruise:
  assumes "fs_mode flow = SKYLINE_MODE_STARTUP"
  obtains k' where "skyline_transition sk SKYLINE_MODE_CRUISE k flow = (k', flow\<lparr>fs_mode := SKYLINE_MODE_CRUISE\<rparr>)"
    "kn_flow_count k' = kn_flow_count k" "kn_slots k' = kn_slots k"
  using assms that
  by (simp add: skyline_transition_def Let_def SKYLINE_MODE_STARTUP_def SKYLINE_MODE_CRUISE_def cc_frame)

lemma guardrail_off:
  "\<not> (nr \<and> has_feature config ADAPTIVE_CWND) \<Longrightarrow> model_guardrail nr m tp config k flow = (k, flow)"
  unfolding model_guardrail_def by (rule if_not_P)

text \<open>
  With M2 on, at the end of a round: the clamp is what this round shows, and STARTUP ends exactly
  when the plateau is long enough or the clamp is on.
\<close>

lemma guardrail_on:
  assumes "nr" "has_feature config ADAPTIVE_CWND"
  obtains k' where "kn_flow_count k' = kn_flow_count k" "kn_slots k' = kn_slots k"
    and "model_guardrail nr m tp config k flow =
      (k', (let f = flow\<lparr>fs_queue_clamped := of_bool (queue_tripped tp config flow)\<rparr>;
                f = (if fs_mode flow = SKYLINE_MODE_STARTUP then model_plateau m config f else f);
                f = (if fs_mode flow = SKYLINE_MODE_STARTUP
                        \<and> (fs_plateau_rounds f \<ge> k_startup_plateau_rtts config \<or> queue_tripped tp config flow)
                     then f\<lparr>fs_mode := SKYLINE_MODE_CRUISE\<rparr> else f)
            in f\<lparr>fs_prior_round_bw_bps := fs_bw_bps flow, fs_last_delivered_ce := tp_delivered_ce tp\<rparr>))"
proof -
  define tripped where "tripped = queue_tripped tp config flow"
  define k0 where "k0 = metric_add (\<lambda>m. m\<lparr>guardrail_rounds := guardrail_rounds m + 1\<rparr>) k"
  define k1 where "k1 = (if tripped then skyline_emit tp SKYLINE_EVENT_GUARDRAIL (fs_mode flow)
      (skyline_queue_delay_us tp flow) (skyline_max_queue_delay_us flow config)
      (metric_add (\<lambda>m. m\<lparr>guardrail_hits := guardrail_hits m + 1\<rparr>) k0) else k0)"
  have k1: "kn_flow_count k1 = kn_flow_count k" "kn_slots k1 = kn_slots k"
    by (simp_all add: k1_def k0_def cc_frame)
  define f where "f = flow\<lparr>fs_queue_clamped := of_bool tripped\<rparr>"
  define g where "g = model_plateau m config f"
  have eq: "model_guardrail nr m tp config k flow =
      (let (k, f) = (if fs_mode flow = SKYLINE_MODE_STARTUP
                     then (if fs_plateau_rounds g \<ge> k_startup_plateau_rtts config \<or> fs_queue_clamped g \<noteq> 0
                           then skyline_transition tp SKYLINE_MODE_CRUISE k1 g else (k1, g))
                     else (k1, f))
       in (k, f\<lparr>fs_prior_round_bw_bps := fs_bw_bps f, fs_last_delivered_ce := tp_delivered_ce tp\<rparr>))"
    using assms
    by (simp add: model_guardrail_def Let_def queue_tripped_def tripped_def f_def g_def k0_def k1_def)
  have f_mode: "fs_mode f = fs_mode flow" by (simp add: f_def)
  have g: "fs_mode g = fs_mode flow" "fs_queue_clamped g = of_bool tripped" "fs_bw_bps g = fs_bw_bps flow"
    by (simp_all add: g_def f_def cc_frame)
  obtain k2 where k2: "fs_mode flow = SKYLINE_MODE_STARTUP \<Longrightarrow>
      skyline_transition tp SKYLINE_MODE_CRUISE k1 g = (k2, g\<lparr>fs_mode := SKYLINE_MODE_CRUISE\<rparr>)"
    "kn_flow_count k2 = kn_flow_count k" "kn_slots k2 = kn_slots k"
  proof (cases "fs_mode flow = SKYLINE_MODE_STARTUP")
    case True
    then have "fs_mode g = SKYLINE_MODE_STARTUP" using g(1) by simp
    then show ?thesis using transition_cruise [of g tp k1] that k1 by auto
  next
    case False
    then show ?thesis using that [of k] by simp
  qed
  consider "fs_mode flow = SKYLINE_MODE_STARTUP" "fs_plateau_rounds g \<ge> k_startup_plateau_rtts config \<or> tripped"
    | "fs_mode flow = SKYLINE_MODE_STARTUP" "\<not> (fs_plateau_rounds g \<ge> k_startup_plateau_rtts config \<or> tripped)"
    | "fs_mode flow \<noteq> SKYLINE_MODE_STARTUP" by blast
  then show ?thesis
  proof cases
    case 1
    then show ?thesis
      using that [OF k2(2,3)] eq k2(1) g
      by (simp add: Let_def flip: tripped_def f_def g_def)
  next
    case 2
    then have "model_guardrail nr m tp config k flow =
        (k1, g\<lparr>fs_prior_round_bw_bps := fs_bw_bps flow, fs_last_delivered_ce := tp_delivered_ce tp\<rparr>)"
      using eq g by simp
    moreover have "\<not> tripped" "\<not> k_startup_plateau_rtts config \<le> fs_plateau_rounds (model_plateau m config f)"
      using 2(2) by (simp_all add: g_def)
    ultimately show ?thesis
      by (intro that [OF k1]) (use 2(1) in \<open>simp add: Let_def g_def f_def flip: tripped_def\<close>)
  next
    case 3
    then show ?thesis
      using that [OF k1] eq
      by (simp add: Let_def f_def flip: tripped_def)
  qed
qed

lemma guardrail_fields:
  assumes "model_guardrail nr m tp config k flow = (k', flow')"
  shows "kn_flow_count k' = kn_flow_count k \<and> kn_slots k' = kn_slots k \<and> model_keeps flow flow'
    \<and> fs_bw_samples flow' = fs_bw_samples flow \<and> fs_bw_bps flow' = fs_bw_bps flow
    \<and> fs_round_rate_bps flow' = fs_round_rate_bps flow \<and> fs_min_rtt_us flow' = fs_min_rtt_us flow
    \<and> fs_loss_rate_permille flow' = fs_loss_rate_permille flow"
proof (cases "nr \<and> has_feature config ADAPTIVE_CWND")
  case True
  then obtain k'' where k'': "kn_flow_count k'' = kn_flow_count k" "kn_slots k'' = kn_slots k"
    and eq: "model_guardrail nr m tp config k flow =
      (k'', (let f = flow\<lparr>fs_queue_clamped := of_bool (queue_tripped tp config flow)\<rparr>;
                f = (if fs_mode flow = SKYLINE_MODE_STARTUP then model_plateau m config f else f);
                f = (if fs_mode flow = SKYLINE_MODE_STARTUP
                        \<and> (fs_plateau_rounds f \<ge> k_startup_plateau_rtts config \<or> queue_tripped tp config flow)
                     then f\<lparr>fs_mode := SKYLINE_MODE_CRUISE\<rparr> else f)
            in f\<lparr>fs_prior_round_bw_bps := fs_bw_bps flow, fs_last_delivered_ce := tp_delivered_ce tp\<rparr>))"
    using guardrail_on by blast
  have "flow' = snd (model_guardrail nr m tp config k flow)" "k' = k''" using assms eq by auto
  then show ?thesis
    using k'' unfolding eq
    by (simp add: Let_def model_keeps_def cc_frame cc_frame(1) [unfolded model_keeps_def] model_plateau_def)
next
  case False
  then show ?thesis using assms by (auto simp: guardrail_off)
qed

text \<open>The mode and the clamp after the guardrail, as a function of what the round showed.\<close>

lemma guardrail_mode:
  assumes "model_guardrail nr m tp config k flow = (k', flow')"
  shows "fs_mode flow' =
      (if nr \<and> has_feature config ADAPTIVE_CWND \<and> fs_mode flow = SKYLINE_MODE_STARTUP
          \<and> (fs_plateau_rounds flow' \<ge> k_startup_plateau_rtts config \<or> queue_tripped tp config flow)
       then SKYLINE_MODE_CRUISE else fs_mode flow)
    \<and> fs_queue_clamped flow' =
      (if nr \<and> has_feature config ADAPTIVE_CWND then of_bool (queue_tripped tp config flow) else fs_queue_clamped flow)"
proof (cases "nr \<and> has_feature config ADAPTIVE_CWND")
  case True
  then have on: nr "has_feature config ADAPTIVE_CWND" by simp_all
  obtain k'' where eq: "model_guardrail nr m tp config k flow =
      (k'', (let f = flow\<lparr>fs_queue_clamped := of_bool (queue_tripped tp config flow)\<rparr>;
                f = (if fs_mode flow = SKYLINE_MODE_STARTUP then model_plateau m config f else f);
                f = (if fs_mode flow = SKYLINE_MODE_STARTUP
                        \<and> (fs_plateau_rounds f \<ge> k_startup_plateau_rtts config \<or> queue_tripped tp config flow)
                     then f\<lparr>fs_mode := SKYLINE_MODE_CRUISE\<rparr> else f)
            in f\<lparr>fs_prior_round_bw_bps := fs_bw_bps flow, fs_last_delivered_ce := tp_delivered_ce tp\<rparr>))"
    using guardrail_on [OF on] by blast
  have "flow' = snd (model_guardrail nr m tp config k flow)" using assms by simp
  then show ?thesis unfolding eq using on by (simp add: Let_def cc_frame)
next
  case False
  then show ?thesis using assms by (auto simp: guardrail_off)
qed

text \<open>What the count of flat rounds and the comparison with the round before become.\<close>

lemma model_blocks_count [cc_frame]:
  "fs_plateau_rounds (snd (skyline_new_round tp flow sample)) = fs_plateau_rounds flow"
  "fs_plateau_rounds (model_min_rtt now config sample flow) = fs_plateau_rounds flow"
  "fs_plateau_rounds (model_min_srtt now config tp flow) = fs_plateau_rounds flow"
  "fs_plateau_rounds (snd (model_close_round nr config flow)) = fs_plateau_rounds flow"
  "fs_plateau_rounds (model_take_sample tp sample flow) = fs_plateau_rounds flow"
  "fs_plateau_rounds (model_loss_rate nr tp flow) = fs_plateau_rounds flow"
  "fs_prior_round_bw_bps (snd (skyline_new_round tp flow sample)) = fs_prior_round_bw_bps flow"
  "fs_prior_round_bw_bps (model_min_rtt now config sample flow) = fs_prior_round_bw_bps flow"
  "fs_prior_round_bw_bps (model_min_srtt now config tp flow) = fs_prior_round_bw_bps flow"
  "fs_prior_round_bw_bps (snd (model_close_round nr config flow)) = fs_prior_round_bw_bps flow"
  "fs_prior_round_bw_bps (model_take_sample tp sample flow) = fs_prior_round_bw_bps flow"
  "fs_prior_round_bw_bps (model_loss_rate nr tp flow) = fs_prior_round_bw_bps flow"
  "fs_last_delivered_ce (snd (skyline_new_round tp flow sample)) = fs_last_delivered_ce flow"
  "fs_last_delivered_ce (model_min_rtt now config sample flow) = fs_last_delivered_ce flow"
  "fs_last_delivered_ce (model_min_srtt now config tp flow) = fs_last_delivered_ce flow"
  "fs_last_delivered_ce (snd (model_close_round nr config flow)) = fs_last_delivered_ce flow"
  "fs_last_delivered_ce (model_take_sample tp sample flow) = fs_last_delivered_ce flow"
  "fs_last_delivered_ce (model_loss_rate nr tp flow) = fs_last_delivered_ce flow"
  by (simp_all add: skyline_new_round_def model_min_rtt_def model_min_srtt_def model_close_round_def
      model_take_sample_def model_loss_rate_def Let_def)

lemma before_guardrail_evidence:
  assumes "model_before_guardrail now tp cfg sample flow = (m, g)"
  shows "m \<longleftrightarrow> skyline_round_reached sample (fs_next_round_delivered flow) \<and> fs_round_rate_bps flow \<noteq> 0"
    and "fs_plateau_rounds g = fs_plateau_rounds flow" "fs_prior_round_bw_bps g = fs_prior_round_bw_bps flow"
    and "fs_last_delivered_ce g = fs_last_delivered_ce flow"
proof -
  define f where "f = model_min_srtt now cfg tp (model_min_rtt now cfg sample (snd (skyline_new_round tp flow sample)))"
  define nr where "nr = skyline_round_reached sample (fs_next_round_delivered flow)"
  have f: "fs_plateau_rounds f = fs_plateau_rounds flow" "fs_prior_round_bw_bps f = fs_prior_round_bw_bps flow"
    "fs_last_delivered_ce f = fs_last_delivered_ce flow" "fs_round_rate_bps f = fs_round_rate_bps flow"
    by (simp_all add: f_def cc_frame)
  have new: "fst (skyline_new_round tp flow sample) = nr" by (simp add: skyline_new_round_def nr_def)
  have eq: "(m, g) = (fst (model_close_round nr cfg f), model_loss_rate nr tp (model_take_sample tp sample (snd (model_close_round nr cfg f))))"
    using assms by (simp add: model_before_guardrail_def Let_def split_beta f_def new)
  then show "m \<longleftrightarrow> skyline_round_reached sample (fs_next_round_delivered flow) \<and> fs_round_rate_bps flow \<noteq> 0"
    using f by (simp add: model_close_round_def Let_def nr_def)
  show "fs_plateau_rounds g = fs_plateau_rounds flow" "fs_prior_round_bw_bps g = fs_prior_round_bw_bps flow"
    "fs_last_delivered_ce g = fs_last_delivered_ce flow"
    using eq f by (simp_all add: cc_frame)
qed

lemma guardrail_evidence:
  assumes "model_guardrail nr m tp cfg k flow = (k', flow')" "has_feature cfg ADAPTIVE_CWND"
  shows "fs_plateau_rounds flow' =
      (if nr \<and> fs_mode flow = SKYLINE_MODE_STARTUP then fs_plateau_rounds (model_plateau m cfg flow) else fs_plateau_rounds flow)"
    and "fs_prior_round_bw_bps flow' = (if nr then fs_bw_bps flow else fs_prior_round_bw_bps flow)"
    and "fs_min_srtt_us flow' = fs_min_srtt_us flow"
proof -
  have "fs_plateau_rounds flow' =
      (if nr \<and> fs_mode flow = SKYLINE_MODE_STARTUP then fs_plateau_rounds (model_plateau m cfg flow) else fs_plateau_rounds flow)
    \<and> fs_prior_round_bw_bps flow' = (if nr then fs_bw_bps flow else fs_prior_round_bw_bps flow)
    \<and> fs_min_srtt_us flow' = fs_min_srtt_us flow"
  proof (cases nr)
    case True
    obtain k'' where eq: "model_guardrail nr m tp cfg k flow =
      (k'', (let f = flow\<lparr>fs_queue_clamped := of_bool (queue_tripped tp cfg flow)\<rparr>;
                f = (if fs_mode flow = SKYLINE_MODE_STARTUP then model_plateau m cfg f else f);
                f = (if fs_mode flow = SKYLINE_MODE_STARTUP
                        \<and> (fs_plateau_rounds f \<ge> k_startup_plateau_rtts cfg \<or> queue_tripped tp cfg flow)
                     then f\<lparr>fs_mode := SKYLINE_MODE_CRUISE\<rparr> else f)
            in f\<lparr>fs_prior_round_bw_bps := fs_bw_bps flow, fs_last_delivered_ce := tp_delivered_ce tp\<rparr>))"
      using guardrail_on [OF True assms(2)] by blast
    have "flow' = snd (model_guardrail nr m tp cfg k flow)" using assms(1) by simp
    then show ?thesis unfolding eq using True by (simp add: Let_def model_plateau_def)
  next
    case False
    then show ?thesis using assms(1) guardrail_off [of nr cfg m tp k flow] by simp
  qed
  then show "fs_plateau_rounds flow' =
      (if nr \<and> fs_mode flow = SKYLINE_MODE_STARTUP then fs_plateau_rounds (model_plateau m cfg flow) else fs_plateau_rounds flow)"
    and "fs_prior_round_bw_bps flow' = (if nr then fs_bw_bps flow else fs_prior_round_bw_bps flow)"
    and "fs_min_srtt_us flow' = fs_min_srtt_us flow" by simp_all
qed

lemma update_model_wf:
  assumes "flow_wf flow" "skyline_has_config flow"
    and "skyline_update_model tp (fs_config flow) sample k flow = (nr, k', flow')"
  shows "flow_wf flow' \<and> skyline_has_config flow' \<and> model_keeps flow flow'
    \<and> kn_flow_count k' = kn_flow_count k \<and> kn_slots k' = kn_slots k"
proof -
  let ?cfg = "fs_config flow"
  define now where "now = kn_clock k (kn_step k) div 1000"
  obtain m f where f: "model_before_guardrail now tp ?cfg sample flow = (m, f)" by fastforce
  have g: "model_guardrail nr m tp ?cfg (kn_tick k) f = (k', flow')"
    using assms(3) f by (auto simp: update_model_alt Let_def now_def split: prod.splits)
  have wf: "length (fs_bw_samples flow) = 10"
    "fs_bw_bps flow = max (fs_round_rate_bps flow) (windowed_max ?cfg (fs_bw_samples flow))"
    using assms(1) by (simp_all add: flow_wf_def)
  note b = before_guardrail_fields [OF wf f] and c = guardrail_fields [OF g] and d = guardrail_mode [OF g]
  have keeps: "model_keeps flow flow'" using b(3) c by (blast intro: model_keeps_trans)
  then have cfg: "fs_config flow' = ?cfg" by (simp add: model_keeps_def)
  then have has: "skyline_has_config flow'" using assms(2) by (simp add: skyline_has_config_def)
  moreover have "flow_wf flow'"
    using assms(1,2) b c d keeps cfg has
    by (auto simp: flow_wf_def model_keeps_def)
  ultimately show ?thesis using keeps c by (simp add: cc_frame)
qed

section \<open>Windows and pacing leave the model alone\<close>

definition wf_same :: "skyline_flow_state \<Rightarrow> skyline_flow_state \<Rightarrow> bool" where
  "wf_same flow flow' =
     (fs_mode flow' = fs_mode flow \<and> fs_bw_samples flow' = fs_bw_samples flow
      \<and> fs_counted flow' = fs_counted flow \<and> fs_recovery_active flow' = fs_recovery_active flow
      \<and> fs_queue_clamped flow' = fs_queue_clamped flow \<and> fs_config flow' = fs_config flow
      \<and> fs_config_seq flow' = fs_config_seq flow \<and> fs_bw_bps flow' = fs_bw_bps flow
      \<and> fs_round_rate_bps flow' = fs_round_rate_bps flow \<and> fs_min_rtt_us flow' = fs_min_rtt_us flow
      \<and> fs_min_srtt_us flow' = fs_min_srtt_us flow \<and> fs_plateau_rounds flow' = fs_plateau_rounds flow
      \<and> fs_loss_rate_permille flow' = fs_loss_rate_permille flow
      \<and> fs_prior_round_bw_bps flow' = fs_prior_round_bw_bps flow)"

lemma wf_same_refl [simp]: "wf_same flow flow"
  by (simp add: wf_same_def)

lemma wf_same_trans [trans]: "wf_same a b \<Longrightarrow> wf_same b c \<Longrightarrow> wf_same a c"
  by (simp add: wf_same_def)

lemma wf_same_wf: "wf_same flow flow' \<Longrightarrow> flow_wf flow' = flow_wf flow"
  by (simp add: wf_same_def flow_wf_def skyline_has_config_def)

lemma wf_same_has_config: "wf_same flow flow' \<Longrightarrow> skyline_has_config flow' = skyline_has_config flow"
  by (simp add: wf_same_def skyline_has_config_def)

lemma cubic_target_same: "wf_same flow (snd (skyline_cubic_target flow cwnd now))"
  by (simp add: wf_same_def skyline_cubic_target_def cubic_epoch_def Let_def)

lemma friendly_same: "wf_same flow (friendly_estimate fresh cwnd acked flow)"
  by (simp add: wf_same_def friendly_estimate_def Let_def)

lemma grow_past_same:
  assumes "grow_past_slow_start kf config acked k tp flow = (k', tp', flow')"
  shows "wf_same flow flow' \<and> kn_flow_count k' = kn_flow_count k \<and> kn_slots k' = kn_slots k"
proof -
  have "wf_same (snd (skyline_cubic_target flow (tp_snd_cwnd tp) (fst (bpf_ktime_get_ns k)))) flow'"
    and "k' = snd (bpf_ktime_get_ns k)"
    using assms by (auto simp: grow_past_slow_start_def Let_def split_beta friendly_same)
  then show ?thesis using wf_same_trans [OF cubic_target_same] by (simp add: cc_frame)
qed

lemma grow_same:
  assumes "skyline_grow_cwnd kf config acked k tp flow = (k', tp', flow')"
  shows "wf_same flow flow' \<and> kn_flow_count k' = kn_flow_count k \<and> kn_slots k' = kn_slots k"
  using assms by (auto simp: skyline_grow_cwnd_def split: if_splits prod.splits dest: grow_past_same)

lemma prr_same:
  assumes "skyline_apply_prr sample flag k tp flow = (k', tp', flow')"
  shows "wf_same flow flow' \<and> kn_flow_count k' = kn_flow_count k \<and> kn_slots k' = kn_slots k"
  using assms by (auto simp: skyline_apply_prr_def Let_def wf_same_def cc_frame split: if_splits)

lemma ack_window_same:
  assumes "ack_window kf flag sample config k tp flow = (k', tp', flow')"
  shows "wf_same flow flow' \<and> kn_flow_count k' = kn_flow_count k \<and> kn_slots k' = kn_slots k"
  using assms grow_same [of kf config "rs_acked_sacked sample" k tp flow k' tp' flow']
    prr_same [of sample flag k tp flow k' tp' flow']
  by (auto simp: ack_window_def split: if_splits)

lemma ack_losses_same:
  assumes "ack_losses sample tp config k flow = (k', flow')"
  shows "wf_same flow flow' \<and> kn_flow_count k' = kn_flow_count k \<and> kn_slots k' = kn_slots k"
  using assms by (auto simp: ack_losses_def Let_def wf_same_def cc_frame split: if_splits)

lemma apply_pacing_frame [cc_frame]:
  "kn_flow_count (fst (skyline_apply_pacing flow config k tp)) = kn_flow_count k"
  "kn_slots (fst (skyline_apply_pacing flow config k tp)) = kn_slots k"
  by (simp_all add: skyline_apply_pacing_def Let_def cc_frame)

lemma ack_metrics_frame [cc_frame]:
  "kn_flow_count (ack_metrics sample tp config k) = kn_flow_count k" "kn_slots (ack_metrics sample tp config k) = kn_slots k"
  by (simp_all add: ack_metrics_def cc_frame)

section \<open>One ACK\<close>

lemma ack_config_wf:
  assumes "flow_wf flow" "slots_valid k" and "ack_config sample tp k flow = (ready, k', flow')"
  shows "flow_wf flow' \<and> fs_counted flow' = fs_counted flow \<and> skyline_has_config flow' = ready
    \<and> kn_flow_count k' = kn_flow_count k \<and> kn_slots k' = kn_slots k"
proof -
  have adopted: "flow_wf (fst (skyline_reset_generation g tp k2)) \<and> fs_counted g = fs_counted flow
      \<and> skyline_has_config g \<and> kn_flow_count k1 = kn_flow_count k0 \<and> kn_slots k1 = kn_slots k0"
    if "skyline_adopt_config k0 flow = (True, k1, g)" "kn_slots k0 = kn_slots k" for k0 k1 k2 g
    using that
  proof (cases rule: adopt_config_cases [of k0 flow])
    case (2 k' n b cfg)
    then show ?thesis
      using that assms(1,2) reset_generation_wf [of flow cfg]
      by (auto simp: slots_valid_def skyline_has_config_def)
  qed simp
  have failed: "g = flow \<and> kn_flow_count k1 = kn_flow_count k0 \<and> kn_slots k1 = kn_slots k0"
    if "skyline_adopt_config k0 flow = (False, k1, g)" for k0 k1 g
    using that by (cases rule: adopt_config_cases [of k0 flow]) auto
  obtain a k1 g where ad: "skyline_adopt_config k flow = (a, k1, g)" using prod_cases3 by blast
  obtain a2 k2 g2 where ad2: "skyline_adopt_config (kn_tick k) flow = (a2, k2, g2)" using prod_cases3 by blast
  have fst_reset: "skyline_has_config (fst (skyline_reset_generation g tp k)) = skyline_has_config g" for g k
    by (simp add: skyline_has_config_def cc_frame)
  show ?thesis
    using assms(1,3) adopted [of k k1 g] adopted [of "kn_tick k" k2 g2] failed [of k k1 g] failed [of "kn_tick k" k2 g2] ad ad2
    by (cases a; cases a2)
       (auto simp: ack_config_def read_config_seq_def Let_def split_beta cc_frame fst_reset split: if_splits)
qed

lemma flow_get_cases:
  obtains "skyline_flow_get k c = (None, kn_tick k)" "c_flow c = None"
  | flow where "skyline_flow_get k c = (Some flow, kn_tick k)" "c_flow c = Some flow"
  | "skyline_flow_get k c = (Some zero_flow, kn_tick k)" "c_flow c = None"
  by (cases "c_flow c"; cases "kn_storage k (kn_step k)") (auto simp: skyline_flow_get_def)

lemma cong_control_ready:
  assumes "skyline_flow_get k c = (Some flow, k0)" "ack_config sample (c_tp c) k0 flow = (True, k1, f1)"
    and "skyline_update_model (c_tp c) (fs_config f1) sample k1 f1 = (nr, k2, f2)"
    and "ack_losses sample (c_tp c) (fs_config f1) k2 f2 = (k3, f3)"
    and "skyline_apply_pacing f3 (fs_config f1) k3 (c_tp c) = (k4, tp4)"
    and "ack_window kf flag sample (fs_config f1) k4 tp4 f3 = (k5, tp5, f5)"
    and "tp6 = (if has_feature (fs_config f1) (ADAPTIVE_CWND OR PACING) then skyline_mark_app_limited kf tp5 else tp5)"
  shows "skyline_cong_control kf ack flag (Some sample) k c =
    (ack_metrics sample tp6 (fs_config f1) k5, c\<lparr>c_tp := tp6, c_flow := Some f5\<rparr>)"
  using assms by (simp add: skyline_cong_control_def Let_def)

lemma cong_control_run:
  assumes "skyline_flow_get k c = (Some flow, k0)" "ack_config sample (c_tp c) k0 flow = (True, k1, f1)"
  obtains nr k2 f2 k3 f3 k4 tp4 k5 tp5 f5 tp6 where
    "skyline_update_model (c_tp c) (fs_config f1) sample k1 f1 = (nr, k2, f2)"
    "ack_losses sample (c_tp c) (fs_config f1) k2 f2 = (k3, f3)"
    "skyline_apply_pacing f3 (fs_config f1) k3 (c_tp c) = (k4, tp4)"
    "ack_window kf flag sample (fs_config f1) k4 tp4 f3 = (k5, tp5, f5)"
    "tp6 = (if has_feature (fs_config f1) (ADAPTIVE_CWND OR PACING) then skyline_mark_app_limited kf tp5 else tp5)"
    "skyline_cong_control kf ack flag (Some sample) k c =
      (ack_metrics sample tp6 (fs_config f1) k5, c\<lparr>c_tp := tp6, c_flow := Some f5\<rparr>)"
proof -
  obtain nr k2 f2 where 1: "skyline_update_model (c_tp c) (fs_config f1) sample k1 f1 = (nr, k2, f2)" by (rule prod_cases3)
  obtain k3 f3 where 2: "ack_losses sample (c_tp c) (fs_config f1) k2 f2 = (k3, f3)" by fastforce
  obtain k4 tp4 where 3: "skyline_apply_pacing f3 (fs_config f1) k3 (c_tp c) = (k4, tp4)" by fastforce
  obtain k5 tp5 f5 where 4: "ack_window kf flag sample (fs_config f1) k4 tp4 f3 = (k5, tp5, f5)" by (rule prod_cases3)
  show ?thesis by (rule that [OF 1 2 3 4 refl cong_control_ready [OF assms 1 2 3 4 refl]])
qed

section \<open>The contract of a handler\<close>

definition counted :: "conn \<Rightarrow> bool" where
  "counted c = (case c_flow c of None \<Rightarrow> False | Some flow \<Rightarrow> fs_counted flow \<noteq> 0)"

lemma counted_simps [simp]:
  "c_flow c = None \<Longrightarrow> \<not> counted c" "c_flow c = Some flow \<Longrightarrow> counted c = (fs_counted flow \<noteq> 0)"
  by (simp_all add: counted_def)

lemma conn_wf_simps [simp]:
  "c_flow c = None \<Longrightarrow> conn_wf c" "c_flow c = Some flow \<Longrightarrow> conn_wf c = flow_wf flow"
  by (simp_all add: conn_wf_def)

locale struct_op =
  fixes op :: "kernel \<Rightarrow> conn \<Rightarrow> kernel \<times> conn"
  assumes keeps_wf: "slots_valid k \<Longrightarrow> conn_wf c \<Longrightarrow> op k c = (k', c') \<Longrightarrow> conn_wf c'"
    and keeps_counted: "slots_valid k \<Longrightarrow> conn_wf c \<Longrightarrow> op k c = (k', c') \<Longrightarrow> counted c' = counted c"
    and keeps_count: "slots_valid k \<Longrightarrow> conn_wf c \<Longrightarrow> op k c = (k', c') \<Longrightarrow> kn_flow_count k' = kn_flow_count k"
begin

lemma keeps_counted_sockets:
  assumes "slots_valid k" "conn_wf (s i)" "op k (s i) = (k', c')"
  shows "{j. counted ((s(i := c')) j)} = {j. counted (s j)}"
  using keeps_counted [OF assms] by auto

lemma keeps_all_wf:
  assumes "slots_valid k" "\<forall>j. conn_wf (s j)" "op k (s i) = (k', c')"
  shows "\<forall>j. conn_wf ((s(i := c')) j)"
  using keeps_wf [OF assms(1) _ assms(3)] assms(2) by simp

end

text \<open>
  A handler that changes only fields outside the invariant of the flow it gets, or creates.
\<close>

lemma flow_only_op:
  assumes "skyline_flow_get k c = (Some flow, kn_tick k)" "conn_wf c"
    and "wf_same flow g \<or> (flow_wf g \<and> fs_counted g = fs_counted flow)"
  shows "conn_wf (c'\<lparr>c_flow := Some g\<rparr>) \<and> counted (c'\<lparr>c_flow := Some g\<rparr>) = counted c"
proof -
  have "flow_wf flow \<and> counted c = (fs_counted flow \<noteq> 0)"
    using assms(1,2) by (cases rule: flow_get_cases [of k c]) auto
  then show ?thesis using assms(3) wf_same_wf [of flow g] by (auto simp: wf_same_def)
qed

lemma cong_control_contract:
  assumes "slots_valid k" "conn_wf c" "skyline_cong_control kf ack flag s k c = (k', c')"
  shows "conn_wf c' \<and> counted c' = counted c \<and> kn_flow_count k' = kn_flow_count k"
proof (cases "fst (skyline_flow_get k c)")
  case None
  then have "skyline_flow_get k c = (None, kn_tick k)" by (cases rule: flow_get_cases [of k c]) auto
  then show ?thesis using assms(2,3) by (auto simp: skyline_cong_control_def cc_frame)
next
  case (Some flow)
  then have get: "skyline_flow_get k c = (Some flow, kn_tick k)" by (cases rule: flow_get_cases [of k c]) auto
  have wf: "flow_wf flow" using get assms(2) by (cases rule: flow_get_cases [of k c]) auto
  show ?thesis
  proof (cases s)
    case None
    then show ?thesis
      using assms(3) get flow_only_op [OF get assms(2), of flow c]
      by (auto simp: skyline_cong_control_def cc_frame)
  next
    case (Some sample)
    obtain ready k1 f1 where cfg: "ack_config sample (c_tp c) (kn_tick k) flow = (ready, k1, f1)" by (rule prod_cases3)
    have a: "flow_wf f1" "fs_counted f1 = fs_counted flow" "skyline_has_config f1 = ready"
        "kn_flow_count k1 = kn_flow_count k" "kn_slots k1 = kn_slots k"
      using ack_config_wf [OF wf _ cfg] assms(1) by (auto simp: slots_valid_def cc_frame)
    show ?thesis
    proof (cases ready)
      case False
      then show ?thesis
        using assms(3) get cfg a Some
          flow_only_op [OF get assms(2), of f1 "c\<lparr>c_tp := tcp_reno_cong_avoid kf ack (rs_acked_sacked sample) (c_tp c)\<rparr>"]
        by (auto simp: skyline_cong_control_def Let_def)
    next
      case True
      with cfg have cfg': "ack_config sample (c_tp c) (kn_tick k) flow = (True, k1, f1)" by simp
      obtain nr k2 f2 k3 f3 k4 tp4 k5 tp5 f5 tp6 where r:
        "skyline_update_model (c_tp c) (fs_config f1) sample k1 f1 = (nr, k2, f2)"
        "ack_losses sample (c_tp c) (fs_config f1) k2 f2 = (k3, f3)"
        "skyline_apply_pacing f3 (fs_config f1) k3 (c_tp c) = (k4, tp4)"
        "ack_window kf flag sample (fs_config f1) k4 tp4 f3 = (k5, tp5, f5)"
        "skyline_cong_control kf ack flag (Some sample) k c =
          (ack_metrics sample tp6 (fs_config f1) k5, c\<lparr>c_tp := tp6, c_flow := Some f5\<rparr>)"
        by (rule cong_control_run [OF get cfg'])
      have u: "flow_wf f2" "model_keeps f1 f2" "kn_flow_count k2 = kn_flow_count k1"
        using update_model_wf [OF a(1) _ r(1)] a(3) True by auto
      have s: "wf_same f2 f5" "kn_flow_count k5 = kn_flow_count k4" "kn_flow_count k3 = kn_flow_count k2"
        using ack_losses_same [OF r(2)] ack_window_same [OF r(4)] wf_same_trans by blast+
      have "kn_flow_count k4 = kn_flow_count k3" using r(3) apply_pacing_frame(1) [of f3 "fs_config f1" k3 "c_tp c"] by simp
      moreover have "flow_wf f5" "fs_counted f5 = fs_counted flow"
        using u s(1) a(2) wf_same_wf [OF s(1)] by (simp_all add: wf_same_def model_keeps_def)
      ultimately show ?thesis
        using assms(3) r(5) Some a(4) u(3) s flow_only_op [OF get assms(2), of f5 "c\<lparr>c_tp := tp6\<rparr>"]
        by (auto simp: cc_frame)
    qed
  qed
qed

interpretation cong_control: struct_op "skyline_cong_control kf ack flag s" for kf ack flag s
  using cong_control_contract by unfold_locales blast+

lemma flow_upd_wf:
  "flow_wf flow \<Longrightarrow> flow_wf (flow\<lparr>fs_recovery_active := of_bool b\<rparr>)"
  "flow_wf (flow\<lparr>fs_prr_delivered := p\<rparr>) = flow_wf flow"
  "flow_wf (flow\<lparr>fs_epoch_start_ns := e\<rparr>) = flow_wf flow"
  "flow_wf (flow\<lparr>fs_prior_cwnd := p\<rparr>) = flow_wf flow"
  "flow_wf (flow\<lparr>fs_w_max := p\<rparr>) = flow_wf flow"
  "flow_wf flow \<Longrightarrow> flow_wf (flow\<lparr>fs_counted := of_bool b\<rparr>)"
  by (auto simp: flow_wf_def skyline_has_config_def)

lemmas flow_upd_wf_01 = flow_upd_wf(1) [of _ True, simplified] flow_upd_wf(1) [of _ False, simplified]
  flow_upd_wf(6) [of _ True, simplified] flow_upd_wf(6) [of _ False, simplified]

lemma flow_get_wf:
  assumes "conn_wf c" "skyline_flow_get k c = (Some flow, k')"
  shows "flow_wf flow" "counted c = (fs_counted flow \<noteq> 0)" "k' = kn_tick k"
  using assms by (cases rule: flow_get_cases [of k c]; auto)+

lemma flow_get_ok:
  assumes "conn_wf c"
  obtains "skyline_flow_get k c = (None, kn_tick k)"
  | flow where "skyline_flow_get k c = (Some flow, kn_tick k)" "flow_wf flow" "counted c = (fs_counted flow \<noteq> 0)"
proof (cases rule: flow_get_cases [of k c])
  case 1
  then show ?thesis using that(1) by blast
next
  case (2 flow)
  show ?thesis by (rule that(2) [OF 2(1) flow_get_wf(1,2) [OF assms 2(1)]])
next
  case 3
  show ?thesis by (rule that(2) [OF 3(1) flow_get_wf(1,2) [OF assms 3(1)]])
qed

text \<open>Enough to show of a handler, with its result written out.\<close>

lemma struct_opI:
  assumes "\<And>k c. skyline_flow_get k c = (None, kn_tick k) \<Longrightarrow> conn_wf c \<Longrightarrow> op k c = (kn_tick k, c)"
    and "\<And>k c flow. skyline_flow_get k c = (Some flow, kn_tick k) \<Longrightarrow> flow_wf flow \<Longrightarrow>
      (\<exists>g. c_flow (snd (op k c)) = Some g \<and> flow_wf g \<and> fs_counted g = fs_counted flow)
      \<and> kn_flow_count (fst (op k c)) = kn_flow_count k"
  shows "struct_op op"
proof -
  have "conn_wf c' \<and> counted c' = counted c \<and> kn_flow_count k' = kn_flow_count k"
    if wf: "conn_wf c" and run: "op k c = (k', c')" for k c k' c'
    using wf
  proof (cases rule: flow_get_ok [of c k])
    case 1
    then show ?thesis using assms(1) [OF 1 wf] run wf by (simp add: cc_frame)
  next
    case (2 flow)
    from assms(2) [OF 2(1,2)] obtain g where "c_flow c' = Some g" "flow_wf g" "fs_counted g = fs_counted flow"
      "kn_flow_count k' = kn_flow_count k" unfolding run by auto
    then show ?thesis using 2(3) by simp
  qed
  then show ?thesis by unfold_locales blast+
qed

interpretation set_state: struct_op "skyline_set_state st" for st
  by (rule struct_opI; cases st)
     (simp_all add: skyline_set_state_def Let_def flow_upd_wf flow_upd_wf_01 cc_frame)

lemma tx_start_op: "struct_op skyline_tx_start"
  by (rule struct_opI) (simp_all add: skyline_tx_start_def bpf_ktime_get_ns_def flow_upd_wf cc_frame)

interpretation cwnd_event: struct_op "skyline_cwnd_event ev" for ev
proof -
  have "struct_op (\<lambda>k c. (k, c))" by unfold_locales auto
  then show "struct_op (skyline_cwnd_event ev)"
    using tx_start_op unfolding skyline_cwnd_event_def by (cases ev) (simp_all add: eta_contract_eq)
qed

interpretation cwnd_event_tx_start: struct_op skyline_cwnd_event_tx_start
  using tx_start_op unfolding skyline_cwnd_event_tx_start_def [abs_def] .

text \<open>\<open>ssthresh\<close> and \<open>undo_cwnd\<close> return a window; the contract is about the rest.\<close>

interpretation ssthresh: struct_op "\<lambda>k c. snd (skyline_ssthresh k c)"
  by (rule struct_opI) (simp_all add: skyline_ssthresh_def Let_def flow_upd_wf cc_frame)

interpretation undo_cwnd: struct_op "\<lambda>k c. snd (skyline_undo_cwnd kf k c)" for kf
  by (rule struct_opI) (simp_all add: skyline_undo_cwnd_def Let_def cc_frame)

section \<open>The two handlers that count\<close>

lemma init_contract:
  assumes "slots_valid k" "conn_wf c" "skyline_init k c = (k', c')"
  shows "conn_wf c'"
    and "counted c' = (counted c \<or> fst (skyline_flow_get k c) \<noteq> None)"
    and "kn_flow_count k' = (if counted c' \<and> \<not> counted c then map_option (\<lambda>n. n + 1) (kn_flow_count k) else kn_flow_count k)"
proof -
  have all: "conn_wf c' \<and> counted c' = (counted c \<or> fst (skyline_flow_get k c) \<noteq> None)
    \<and> kn_flow_count k' = (if counted c' \<and> \<not> counted c then map_option (\<lambda>n. n + 1) (kn_flow_count k) else kn_flow_count k)"
  proof (cases "fst (skyline_flow_get k c)")
    case None
    then have "skyline_flow_get k c = (None, kn_tick k)" by (cases rule: flow_get_cases [of k c]) auto
    then show ?thesis using assms(2,3) by (auto simp: skyline_init_def cc_frame)
  next
    case (Some flow)
    then have get: "skyline_flow_get k c = (Some flow, kn_tick k)" by (cases rule: flow_get_cases [of k c]) auto
    note f = flow_get_wf(1,2) [OF assms(2) get]
    define g where "g = flow\<lparr>fs_counted := 1\<rparr>"
    define k1 where "k1 = (if fs_counted flow = 0
      then (kn_tick k)\<lparr>kn_flow_count := map_option (\<lambda>n. n + 1) (kn_flow_count k)\<rparr> else kn_tick k)"
    have g: "flow_wf g" using f(1) by (simp add: g_def flow_upd_wf_01)
    have same: "(if fs_counted flow = 0 then g else flow) = g"
      using f(1) by (auto simp: g_def flow_wf_def)
    have k1: "kn_slots k1 = kn_slots k" by (simp add: k1_def cc_frame)
    obtain a k2 h where ad: "skyline_adopt_config k1 g = (a, k2, h)" by (rule prod_cases3)
    have eq: "skyline_init k c =
        (if \<not> a then (k2, c\<lparr>c_flow := Some h\<rparr>)
         else (let tp = (if k_initial_cwnd_packets (fs_config h) \<noteq> 0
                         then (c_tp c)\<lparr>tp_snd_cwnd := k_initial_cwnd_packets (fs_config h)\<rparr> else c_tp c);
                   (h, k2) = skyline_reset_generation h tp k2
               in (k2, c\<lparr>c_tp := tp\<lparr>tp_snd_ssthresh := 0x7fffffff\<rparr>, c_flow := Some h\<rparr>)))"
      using get ad same by (simp add: skyline_init_def Let_def k1_def g_def cc_frame split: if_splits)
    from ad show ?thesis
    proof (cases rule: adopt_config_cases [of k1 g])
      case (1 k'')
      then show ?thesis using eq assms(3) ad g f(2) Some by (auto simp: k1_def g_def cc_frame split: if_splits)
    next
      case (2 k'' n b cfg)
      have "from_daemon cfg" using 2(1,2) assms(1) k1 by (simp add: slots_valid_def)
      then have "flow_wf (fst (skyline_reset_generation h tp k2))" for tp
        using reset_generation_wf [OF g] 2 ad by simp
      then show ?thesis
        using eq assms(3) ad 2 f(2) Some by (auto simp: Let_def split_beta k1_def g_def cc_frame split: if_splits)
    qed
  qed
  then show "conn_wf c'" "counted c' = (counted c \<or> fst (skyline_flow_get k c) \<noteq> None)"
    "kn_flow_count k' = (if counted c' \<and> \<not> counted c then map_option (\<lambda>n. n + 1) (kn_flow_count k) else kn_flow_count k)"
    by blast+
qed

lemma release_contract:
  assumes "conn_wf c" "skyline_release k c = (k', c')"
  shows "conn_wf c'" "\<not> counted c'"
    and "kn_flow_count k' = (if counted c then map_option (\<lambda>n. n - 1) (kn_flow_count k) else kn_flow_count k)"
  using assms
  by (auto simp: skyline_release_def skyline_flow_lookup_def flow_upd_wf_01 split: option.splits if_splits)

end
