(* ===== verification/CongProps.thy ===== *)
theory CongProps
  imports CongLaws
begin

text \<open>
  What the controller guarantees over any run of its handlers on any number of sockets: the state of
  every connection stays well formed and runs on a validated configuration, the flow count is the
  number of sockets that hold the algorithm, the window and the pacing rate stay within the limits
  of the configuration file, and STARTUP ends on evidence and only on evidence.
\<close>

unbundle bit_operations_syntax

section \<open>Runs of the handlers\<close>

text \<open>
  Sockets are numbered. A step is one handler on one socket; a socket that is destroyed is released
  first and loses its storage; between two handlers the kernel and the daemon change whatever is
  theirs -- the fields of sockets, clocks, the published configuration, counters -- but neither the
  flow count nor the storage of a connection.
\<close>

inductive cc_step :: "ksyms \<Rightarrow> kernel \<times> (nat \<Rightarrow> conn) \<Rightarrow> kernel \<times> (nat \<Rightarrow> conn) \<Rightarrow> bool" for kf where
  do_init: "slots_valid k \<Longrightarrow> skyline_init k (s i) = (k', c') \<Longrightarrow> cc_step kf (k, s) (k', s(i := c'))"
| do_cong_control: "slots_valid k \<Longrightarrow> skyline_cong_control kf ack flag sample k (s i) = (k', c') \<Longrightarrow>
    cc_step kf (k, s) (k', s(i := c'))"
| do_ssthresh: "slots_valid k \<Longrightarrow> skyline_ssthresh k (s i) = (r, k', c') \<Longrightarrow> cc_step kf (k, s) (k', s(i := c'))"
| do_undo_cwnd: "slots_valid k \<Longrightarrow> skyline_undo_cwnd kf k (s i) = (r, k', c') \<Longrightarrow> cc_step kf (k, s) (k', s(i := c'))"
| do_set_state: "slots_valid k \<Longrightarrow> skyline_set_state st k (s i) = (k', c') \<Longrightarrow> cc_step kf (k, s) (k', s(i := c'))"
| do_cwnd_event: "slots_valid k \<Longrightarrow> skyline_cwnd_event ev k (s i) = (k', c') \<Longrightarrow> cc_step kf (k, s) (k', s(i := c'))"
| do_tx_start: "slots_valid k \<Longrightarrow> skyline_cwnd_event_tx_start k (s i) = (k', c') \<Longrightarrow> cc_step kf (k, s) (k', s(i := c'))"
| do_release: "skyline_release k (s i) = (k', c') \<Longrightarrow> cc_step kf (k, s) (k', s(i := c'))"
| do_destroy: "skyline_release k (s i) = (k', c') \<Longrightarrow> cc_step kf (k, s) (k', s(i := c'\<lparr>c_flow := None\<rparr>))"
| others_move: "kn_flow_count k' = kn_flow_count k \<Longrightarrow> (\<And>j. c_flow (s' j) = c_flow (s j)) \<Longrightarrow> cc_step kf (k, s) (k', s')"

inductive cc_run :: "ksyms \<Rightarrow> kernel \<times> (nat \<Rightarrow> conn) \<Rightarrow> kernel \<times> (nat \<Rightarrow> conn) \<Rightarrow> bool" for kf where
  cc_stop: "cc_run kf x x"
| cc_more: "cc_run kf x y \<Longrightarrow> cc_step kf y z \<Longrightarrow> cc_run kf x z"

definition fresh :: "kernel \<times> (nat \<Rightarrow> conn) \<Rightarrow> bool" where
  "fresh x = (kn_flow_count (fst x) = Some 0 \<and> (\<forall>i. c_flow (snd x i) = None))"

definition cc_inv :: "kernel \<times> (nat \<Rightarrow> conn) \<Rightarrow> bool" where
  "cc_inv x =
     ((\<forall>i. conn_wf (snd x i)) \<and> finite {i. counted (snd x i)}
      \<and> kn_flow_count (fst x) = Some (word_of_nat (card {i. counted (snd x i)})))"

lemma count_up:
  assumes "finite {j. counted (s j)}" "counted c'" "\<not> counted (s i)"
  shows "finite {j. counted ((s(i := c')) j)}" "card {j. counted ((s(i := c')) j)} = Suc (card {j. counted (s j)})"
proof -
  have "{j. counted ((s(i := c')) j)} = insert i {j. counted (s j)}" using assms by auto
  then show "finite {j. counted ((s(i := c')) j)}" "card {j. counted ((s(i := c')) j)} = Suc (card {j. counted (s j)})"
    using assms by simp_all
qed

lemma count_down:
  assumes "finite {j. counted (s j)}" "\<not> counted c'" "counted (s i)"
  shows "finite {j. counted ((s(i := c')) j)}" "card {j. counted (s j)} = Suc (card {j. counted ((s(i := c')) j)})"
proof -
  have eq: "{j. counted ((s(i := c')) j)} = {j. counted (s j)} - {i}" using assms by auto
  then show "finite {j. counted ((s(i := c')) j)}" using assms by simp
  show "card {j. counted (s j)} = Suc (card {j. counted ((s(i := c')) j)})"
    unfolding eq using assms card_Suc_Diff1 [of "{j. counted (s j)}" i] by simp
qed

lemma count_same:
  assumes "counted c' = counted (s i)"
  shows "{j. counted ((s(i := c')) j)} = {j. counted (s j)}"
  using assms by auto

lemma cc_inv_op:
  assumes "struct_op op" "slots_valid k" "cc_inv (k, s)" "op k (s i) = (k', c')"
  shows "cc_inv (k', s(i := c'))"
proof -
  have wf: "\<forall>j. conn_wf (s j)" using assms(3) by (simp add: cc_inv_def)
  then have wf_i: "conn_wf (s i)" by simp
  show ?thesis
    using struct_op.keeps_all_wf [where s = s and i = i, OF assms(1,2) wf assms(4)] struct_op.keeps_count [OF assms(1,2) wf_i assms(4)]
      struct_op.keeps_counted_sockets [where s = s and i = i, OF assms(1,2) wf_i assms(4)] assms(3)
    by (simp add: cc_inv_def)
qed

lemma cc_inv_release:
  assumes "cc_inv (k, s)" "skyline_release k (s i) = (k', c0)" "conn_wf c'" "\<not> counted c'"
  shows "cc_inv (k', s(i := c'))"
proof -
  have inv: "\<forall>j. conn_wf (s j)" "finite {j. counted (s j)}" "kn_flow_count k = Some (word_of_nat (card {j. counted (s j)}))"
    using assms(1) by (simp_all add: cc_inv_def)
  note r = release_contract(3) [OF _ assms(2)]
  show ?thesis
  proof (cases "counted (s i)")
    case True
    then show ?thesis
      using inv r count_down [OF inv(2) assms(4) True] assms(3) by (simp add: cc_inv_def)
  next
    case False
    then show ?thesis
      using inv r count_same [of c' s i] assms(3,4) by (simp add: cc_inv_def)
  qed
qed

lemma cc_inv_init:
  assumes "cc_inv (k, s)" "slots_valid k" "skyline_init k (s i) = (k', c')"
  shows "cc_inv (k', s(i := c'))"
proof -
  have inv: "\<forall>j. conn_wf (s j)" "finite {j. counted (s j)}" "kn_flow_count k = Some (word_of_nat (card {j. counted (s j)}))"
    using assms(1) by (simp_all add: cc_inv_def)
  note c = init_contract [OF assms(2) _ assms(3)]
  show ?thesis
  proof (cases "counted (s i)")
    case True
    then show ?thesis using inv c count_same [of c' s i] by (simp add: cc_inv_def)
  next
    case False
    then show ?thesis
      using inv c count_same [of c' s i] count_up [OF inv(2) _ False, of c']
      by (cases "counted c'") (simp_all add: cc_inv_def add.commute)
  qed
qed

lemma cc_step_inv:
  assumes "cc_step kf x y" "cc_inv x"
  shows "cc_inv y"
  using assms
proof (cases rule: cc_step.cases)
  case (do_init k s i k' c')
  then show ?thesis using cc_inv_init assms(2) by simp
next
  case (do_cong_control k ack flag sample s i k' c')
  then show ?thesis using cc_inv_op [OF cong_control.struct_op_axioms, of k s kf ack flag sample i k' c'] assms(2) by simp
next
  case (do_ssthresh k s i r k' c')
  then show ?thesis using cc_inv_op [OF ssthresh.struct_op_axioms, of k s i k' c'] assms(2) by simp
next
  case (do_undo_cwnd k s i r k' c')
  then show ?thesis using cc_inv_op [OF undo_cwnd.struct_op_axioms, of k s kf i k' c'] assms(2) by simp
next
  case (do_set_state k st s i k' c')
  then show ?thesis using cc_inv_op [OF set_state.struct_op_axioms, of k s st i k' c'] assms(2) by simp
next
  case (do_cwnd_event k ev s i k' c')
  then show ?thesis using cc_inv_op [OF cwnd_event.struct_op_axioms, of k s ev i k' c'] assms(2) by simp
next
  case (do_tx_start k s i k' c')
  then show ?thesis using cc_inv_op [OF cwnd_event_tx_start.struct_op_axioms, of k s i k' c'] assms(2) by simp
next
  case (do_release k s i k' c')
  then have "conn_wf (s i)" using assms(2) by (simp add: cc_inv_def)
  then have "conn_wf c'" "\<not> counted c'" using release_contract(1,2) do_release by blast+
  then show ?thesis using cc_inv_release [of k s i k' c' c'] assms(2) do_release by simp
next
  case (do_destroy k s i k' c')
  then show ?thesis using cc_inv_release [of k s i k' c' "c'\<lparr>c_flow := None\<rparr>"] assms(2) by simp
next
  case (others_move k' k s' s)
  then show ?thesis using assms(2) by (simp add: cc_inv_def counted_def conn_wf_def)
qed

lemma cc_run_inv: "cc_run kf x y \<Longrightarrow> fresh x \<Longrightarrow> cc_inv y"
proof (induction rule: cc_run.induct)
  case (cc_stop x)
  then show ?case by (simp add: fresh_def cc_inv_def)
next
  case (cc_more x y z)
  then show ?case using cc_step_inv by blast
qed

section \<open>Concrete runs\<close>

text \<open>
  A kernel and a socket to run the handlers on: one published configuration, a clock that stands
  still, a full ring; the kernel functions as Linux documents them. \<open>sending\<close> is a connection in
  the middle of a transfer.
\<close>

definition calm_kernel :: "kernel_config \<Rightarrow> kernel" where
  "calm_kernel cfg =
     \<lparr>kn_step = 0, kn_clock = (\<lambda>_. 1000000000), kn_ring = (\<lambda>_. False), kn_storage = (\<lambda>_. True), kn_has_seq = True,
      kn_seq = (\<lambda>_. 7), kn_slots = (\<lambda>_ _. Some cfg), kn_metrics = None, kn_flow_count = Some 0, kn_events = []\<rparr>"

definition linux_ksyms :: ksyms where
  "linux_ksyms =
     \<lparr>tcp_slow_start = (\<lambda>acked tp. let cwnd = min (tp_snd_cwnd tp + acked) (tp_snd_ssthresh tp)
                                 in (acked - (cwnd - tp_snd_cwnd tp), tp\<lparr>tp_snd_cwnd := cwnd\<rparr>)),
      tcp_cong_avoid_ai = (\<lambda>w acked tp. tp\<lparr>tp_snd_cwnd := tp_snd_cwnd tp + acked div w\<rparr>),
      tcp_reno_undo_cwnd = tp_snd_cwnd,
      tcp_reno_cong_avoid = (\<lambda>ack acked tp. tp\<lparr>tp_snd_cwnd := tp_snd_cwnd tp + 1\<rparr>),
      sizeof_sk_buff = 232, sizeof_skb_shared_info = 320\<rparr>"

definition idle_sock :: tcp_sock where
  "idle_sock =
     \<lparr>sk_cookie = 1, sk_pacing_rate = 0, sk_max_pacing_rate = - 1, sk_pacing_status = SK_PACING_FQ, sk_wmem_alloc = 1,
      icsk_ca_state = TCP_CA_Open, tp_srtt_us = 800000, tp_snd_cwnd = 100, tp_snd_ssthresh = 0x7fffffff,
      tp_packets_out = 100, tp_sacked_out = 0, tp_lost_out = 0, tp_retrans_out = 0, tp_prr_out = 0,
      tp_max_packets_out = 100, tp_is_cwnd_limited = True, tp_delivered = 200, tp_delivered_ce = 0, tp_lost = 10,
      tp_app_limited = 0, tp_mss_cache = 1448, tp_write_seq = 5000000, tp_snd_nxt = 1000000\<rparr>"

definition full_sample :: rate_sample where
  "full_sample =
     \<lparr>rs_prior_mstamp = 1, rs_prior_delivered = 200, rs_delivered = 100, rs_interval_us = 100000, rs_rtt_us = 100000,
      rs_losses = 0, rs_acked_sacked = 2, rs_is_app_limited = False, rs_is_retrans = False\<rparr>"

abbreviation shipped_image :: kernel_config where "shipped_image \<equiv> config_kernel_config shipped_config"

abbreviation fresh_conn :: conn where "fresh_conn \<equiv> \<lparr>c_tp = idle_sock, c_flow = None\<rparr>"

lemma calm_kernel_simps [simp]:
  "kn_clock (calm_kernel cfg) = (\<lambda>_. 1000000000)" "kn_ring (calm_kernel cfg) = (\<lambda>_. False)" "kn_has_seq (calm_kernel cfg)"
  "kn_storage (calm_kernel cfg) = (\<lambda>_. True)" "kn_seq (calm_kernel cfg) = (\<lambda>_. 7)" "kn_metrics (calm_kernel cfg) = None"
  "kn_slots (calm_kernel cfg) = (\<lambda>_ _. Some cfg)" "kn_flow_count (calm_kernel cfg) = Some 0"
  by (simp_all add: calm_kernel_def)

lemma shipped_slots_valid: "kn_slots k = (\<lambda>_ _. Some shipped_image) \<Longrightarrow> slots_valid k"
  using shipped_config_valid by (auto simp: slots_valid_def from_daemon_def)

lemma calm_fresh: "fresh (calm_kernel cfg, \<lambda>_. fresh_conn)"
  by (simp add: fresh_def)

definition started :: "kernel \<times> conn" where
  "started = skyline_init (calm_kernel shipped_image) fresh_conn"

lemma started_run:
  "cc_run kf (calm_kernel shipped_image, \<lambda>_. fresh_conn) (fst started, (\<lambda>_. fresh_conn)(0 := snd started))"
proof -
  have "cc_step kf (calm_kernel shipped_image, \<lambda>_. fresh_conn) (fst started, (\<lambda>_. fresh_conn)(0 := snd started))"
    by (rule do_init) (simp_all add: shipped_slots_valid started_def)
  then show ?thesis by (blast intro: cc_stop cc_more)
qed

lemma shipped_abi [simp]: "k_abi_version (config_kernel_config c) = ABI_VERSION"
  by (simp add: config_kernel_config_def)

lemma started_flow:
  obtains flow where "c_flow (snd started) = Some flow" "fs_config flow = shipped_image" "fs_counted flow = 1"
    "fs_bw_bps flow = 0" "fs_round_rate_bps flow = 0" "fs_min_rtt_us flow = 0" "fs_min_srtt_us flow = 0"
    "fs_next_round_delivered flow = 200" "fs_config_seq flow = 7" "fs_mode flow = SKYLINE_MODE_STARTUP"
  by (simp add: started_def skyline_init_def skyline_flow_get_def skyline_adopt_config_def read_config_seq_def kn_tick_def
      skyline_reset_generation_def bpf_ktime_get_ns_def Let_def idle_sock_def)

section \<open>Well-formed state and the flow count\<close>



text \<open>
  C12. The flow count \<open>skyline_init\<close> and \<open>skyline_release\<close> keep, which the daemon reports and which
  \<open>drain\<close> waits for, is at every moment the number of sockets that are counted as holding the
  algorithm; with fewer than 2^64 of them it is zero exactly when there is none.
\<close>

theorem flow_count_exact:
  assumes "cc_run kf x (k, s)" "fresh x"
  shows "kn_flow_count k = Some (word_of_nat (card {i. counted (s i)})) \<and> finite {i. counted (s i)}
    \<and> (card {i. counted (s i)} < 2 ^ 64 \<longrightarrow> (kn_flow_count k = Some 0 \<longleftrightarrow> (\<forall>i. \<not> counted (s i))))"
proof -
  have inv: "finite {i. counted (s i)}" "kn_flow_count k = Some (word_of_nat (card {i. counted (s i)}))"
    using cc_run_inv [OF assms] by (simp_all add: cc_inv_def)
  have "(word_of_nat n :: u64) = 0 \<longleftrightarrow> n = 0" if "n < 2 ^ 64" for n
    using that nat_dvd_not_less [of n "2 ^ 64"] by (auto simp: word_of_nat_eq_0_iff)
  then show ?thesis using inv by auto
qed

theorem flow_count_exact_witness:
  "kn_flow_count (fst started) = Some 1 \<and> counted (snd started)"
proof -
  let ?s = "(\<lambda>_ :: nat. fresh_conn)(0 := snd started)"
  obtain flow where "c_flow (snd started) = Some flow" "fs_counted flow = 1" using started_flow by blast
  then have c: "counted (snd started)" by simp
  then have "{i. counted (?s i)} = {0}" by auto
  then show ?thesis using flow_count_exact [OF started_run [of linux_ksyms] calm_fresh] c by simp
qed

section \<open>The limits of the configuration\<close>

lemma and_single_bit: "(m :: u32) AND push_bit n 1 = (if bit m n then push_bit n 1 else 0)"
  by (rule bit_eqI) (auto simp: bit_simps)

lemma has_feature_mask:
  assumes "(b :: u32) = push_bit n 1" "n < 32"
  shows "has_feature cfg b = mask_contains (k_feature_mask cfg) b"
proof -
  have "bit b n" using assms by (simp add: bit_simps)
  then have "b \<noteq> 0" by auto
  then have "push_bit n 1 \<noteq> (0 :: u32)" unfolding assms(1) .
  then show ?thesis unfolding has_feature_def mask_contains_def assms(1) and_single_bit by simp
qed

lemmas pacing_mask = has_feature_mask [OF PACING_def, simplified]

lemma cap_bound: "k_max_cwnd_packets cfg \<noteq> 0 \<Longrightarrow> tp_snd_cwnd (cwnd_cap cfg tp) \<le> k_max_cwnd_packets cfg"
  by (auto simp: cwnd_cap_def)

lemma target_within:
  assumes "4 \<le> k_min_cwnd_packets cfg" "k_min_cwnd_packets cfg \<le> k_max_cwnd_packets cfg"
  shows "tp_snd_cwnd (skyline_set_cwnd_target kf flow cfg acked rto tp) \<le> k_max_cwnd_packets cfg"
    and "fs_bw_bps flow \<noteq> 0 \<Longrightarrow> fs_min_rtt_us flow \<noteq> 0 \<Longrightarrow>
      k_min_cwnd_packets cfg \<le> tp_snd_cwnd (skyline_set_cwnd_target kf flow cfg acked rto tp)"
proof -
  have nz: "k_max_cwnd_packets cfg \<noteq> 0" using assms by auto
  have floor: "skyline_min_cwnd cfg = k_min_cwnd_packets cfg"
    using assms(1) by (simp add: skyline_min_cwnd_def SKYLINE_MIN_CWND_def max_def)
  show "tp_snd_cwnd (skyline_set_cwnd_target kf flow cfg acked rto tp) \<le> k_max_cwnd_packets cfg"
    using cap_bound [OF nz] assms(2) by (simp add: skyline_set_cwnd_target_def Let_def floor)
  show "k_min_cwnd_packets cfg \<le> tp_snd_cwnd (skyline_set_cwnd_target kf flow cfg acked rto tp)"
    if "fs_bw_bps flow \<noteq> 0" "fs_min_rtt_us flow \<noteq> 0"
    using that by (simp add: skyline_set_cwnd_target_def Let_def floor not_less)
qed

lemma target_keeps_pacing:
  assumes "fs_bw_bps flow \<noteq> 0" "fs_min_rtt_us flow \<noteq> 0"
  shows "sk_pacing_rate (skyline_set_cwnd_target kf flow cfg acked rto tp) = sk_pacing_rate tp"
  using assms by (simp add: skyline_set_cwnd_target_def Let_def cwnd_cap_def)

lemma pacing_within:
  assumes "has_feature cfg PACING" "fs_bw_bps flow \<noteq> 0" "k_max_pacing_bps cfg \<noteq> 0"
  shows "sk_pacing_rate (snd (skyline_apply_pacing flow cfg k tp)) \<le> k_max_pacing_bps cfg div 8"
    and "sk_pacing_rate (snd (skyline_apply_pacing flow cfg k tp)) \<le> sk_max_pacing_rate tp"
proof -
  define rate where "rate = (let rate = fs_bw_bps flow * ucast (pacing_gain flow cfg) div 1000;
                floor_bps = skyline_pacing_floor_bps tp flow cfg;
                rate = (if rate < floor_bps then floor_bps else rate)
    in if rate > k_max_pacing_bps cfg then k_max_pacing_bps cfg else rate)"
  have cap: "rate \<le> k_max_pacing_bps cfg" by (auto simp: rate_def Let_def)
  have "sk_pacing_rate (snd (skyline_apply_pacing flow cfg k tp)) =
      (if rate div 8 > sk_max_pacing_rate tp then sk_max_pacing_rate tp else rate div 8)"
    using assms by (simp add: skyline_apply_pacing_def Let_def rate_def)
  moreover have "rate div 8 \<le> k_max_pacing_bps cfg div 8"
    using cap by (simp add: word_le_nat_alt unat_div_distrib div_le_mono)
  ultimately show "sk_pacing_rate (snd (skyline_apply_pacing flow cfg k tp)) \<le> k_max_pacing_bps cfg div 8"
    "sk_pacing_rate (snd (skyline_apply_pacing flow cfg k tp)) \<le> sk_max_pacing_rate tp"
    by auto
qed

lemma mark_app_limited_keeps [simp]:
  "tp_snd_cwnd (skyline_mark_app_limited kf tp) = tp_snd_cwnd tp"
  "sk_pacing_rate (skyline_mark_app_limited kf tp) = sk_pacing_rate tp"
  by (simp_all add: skyline_mark_app_limited_def Let_def)

lemma image_limits:
  assumes "validate c = Inr ()"
  defines "cfg \<equiv> config_kernel_config c"
  shows "4 \<le> k_min_cwnd_packets cfg" "k_min_cwnd_packets cfg \<le> k_max_cwnd_packets cfg"
    and "has_feature cfg PACING \<Longrightarrow> k_max_pacing_bps cfg \<noteq> 0"
    and "unat (k_max_pacing_bps cfg) \<le> unat (max_pacing_mbps c) * 1000000"
proof -
  have safe: "kernel_config_safe cfg" using kernel_image_safe [OF assms(1)] by (simp add: cfg_def)
  then show "4 \<le> k_min_cwnd_packets cfg" "k_min_cwnd_packets cfg \<le> k_max_cwnd_packets cfg"
    by (simp_all add: kernel_config_safe_def word_le_nat_alt)
  show "k_max_pacing_bps cfg \<noteq> 0" if "has_feature cfg PACING"
    using safe that by (auto simp: kernel_config_safe_def pacing_mask)
  show "unat (k_max_pacing_bps cfg) \<le> unat (max_pacing_mbps c) * 1000000"
    by (simp add: cfg_def config_kernel_config_def sat_simps)
qed

text \<open>What an ACK with M2 on leaves in the socket.\<close>

lemma m2_ack:
  assumes "slots_valid k" "conn_wf c" "skyline_cong_control kf ack flag (Some sample) k c = (k', c')"
    and "c_flow c' = Some flow" "skyline_has_config flow" "has_feature (fs_config flow) ADAPTIVE_CWND"
  obtains f0 k1 f1 nr k2 f2 f3 k3 tp4 where "skyline_flow_get k c = (Some f0, kn_tick k)"
    "ack_config sample (c_tp c) (kn_tick k) f0 = (True, k1, f1)"
    "skyline_update_model (c_tp c) (fs_config f1) sample k1 f1 = (nr, k2, f2)" "fs_config f1 = fs_config flow"
    "wf_same f2 f3" "wf_same f3 flow" "tp4 = snd (skyline_apply_pacing f3 (fs_config flow) k3 (c_tp c))"
    "tp_snd_cwnd (c_tp c') = tp_snd_cwnd (skyline_set_cwnd_target kf f3 (fs_config flow) (rs_acked_sacked sample)
        (icsk_ca_state tp4 = TCP_CA_Loss) tp4)"
    "sk_pacing_rate (c_tp c') = sk_pacing_rate (skyline_set_cwnd_target kf f3 (fs_config flow) (rs_acked_sacked sample)
        (icsk_ca_state tp4 = TCP_CA_Loss) tp4)"
proof (cases rule: flow_get_ok [OF assms(2), of k])
  case 1
  then have "c_flow c = Some flow" using assms(3,4) by (auto simp: skyline_cong_control_def)
  then have False using 1 by (simp add: skyline_flow_get_def)
  then show ?thesis ..
next
  case (2 f0)
  obtain ready k1 f1 where cfg: "ack_config sample (c_tp c) (kn_tick k) f0 = (ready, k1, f1)" by (rule prod_cases3)
  have a: "flow_wf f1" "skyline_has_config f1 = ready"
    using ack_config_wf [OF 2(2) _ cfg] assms(1) by (auto simp: slots_valid_def cc_frame)
  have ready: ready
  proof (rule ccontr)
    assume "\<not> ready"
    then have "flow = f1" using 2 cfg assms(3,4) by (auto simp: skyline_cong_control_def Let_def)
    then show False using a(2) assms(5) \<open>\<not> ready\<close> by simp
  qed
  with cfg have cfg': "ack_config sample (c_tp c) (kn_tick k) f0 = (True, k1, f1)" by simp
  obtain nr k2 f2 k3 f3 k4 tp4 k5 tp5 f5 tp6 where r:
    "skyline_update_model (c_tp c) (fs_config f1) sample k1 f1 = (nr, k2, f2)"
    "ack_losses sample (c_tp c) (fs_config f1) k2 f2 = (k3, f3)"
    "skyline_apply_pacing f3 (fs_config f1) k3 (c_tp c) = (k4, tp4)"
    "ack_window kf flag sample (fs_config f1) k4 tp4 f3 = (k5, tp5, f5)"
    "tp6 = (if has_feature (fs_config f1) (ADAPTIVE_CWND OR PACING) then skyline_mark_app_limited kf tp5 else tp5)"
    "skyline_cong_control kf ack flag (Some sample) k c =
      (ack_metrics sample tp6 (fs_config f1) k5, c\<lparr>c_tp := tp6, c_flow := Some f5\<rparr>)"
    by (rule cong_control_run [OF 2(1) cfg'])
  have "flow = f5" "c_tp c' = tp6" using r(6) assms(3,4) by auto
  moreover have "model_keeps f1 f2" using update_model_wf [OF a(1) _ r(1)] a(2) ready by simp
  moreover have same: "wf_same f2 f3" "wf_same f3 f5" using ack_losses_same [OF r(2)] ack_window_same [OF r(4)] by auto
  ultimately have cfg_eq: "fs_config f1 = fs_config flow" by (simp add: model_keeps_def wf_same_def)
  then have "tp5 = skyline_set_cwnd_target kf f3 (fs_config flow) (rs_acked_sacked sample) (icsk_ca_state tp4 = TCP_CA_Loss) tp4"
    using r(4) assms(6) by (auto simp: ack_window_def)
  then show ?thesis
    using that [OF 2(1) cfg' r(1) cfg_eq same(1), of tp4 k3] r(3,5) cfg_eq same(2) \<open>flow = f5\<close> \<open>c_tp c' = tp6\<close> by simp
qed

text \<open>
  C2. Whenever the controller has handled an ACK with M2 on, in any reachable state, the window is
  at most \<open>max_cwnd_packets\<close> of a configuration that passed validation; once there is an estimate it
  is at least \<open>min_cwnd_packets\<close>, and with M4 on the pacing rate is at most \<open>max_pacing_mbps\<close> and at
  most what the application allowed -- whatever the estimate, the loss rate and the kernel's
  functions returned, and through every wrap-around of the products.
\<close>

theorem window_within_limits:
  assumes "cc_run kf x (k, s)" "fresh x" "slots_valid k"
    and "skyline_cong_control kf ack flag (Some sample) k (s i) = (k', c')"
    and "c_flow c' = Some flow" "skyline_has_config flow" "has_feature (fs_config flow) ADAPTIVE_CWND"
  shows "\<exists>c. validate c = Inr () \<and> fs_config flow = config_kernel_config c
    \<and> tp_snd_cwnd (c_tp c') \<le> max_cwnd_packets c
    \<and> (fs_bw_bps flow \<noteq> 0 \<and> fs_min_rtt_us flow \<noteq> 0 \<longrightarrow>
        min_cwnd_packets c \<le> tp_snd_cwnd (c_tp c')
        \<and> (has_feature (fs_config flow) PACING \<longrightarrow>
             8 * unat (sk_pacing_rate (c_tp c')) \<le> unat (max_pacing_mbps c) * 1000000
             \<and> sk_pacing_rate (c_tp c') \<le> sk_max_pacing_rate (c_tp (s i))))"
proof -
  have wf: "conn_wf (s i)" using cc_run_inv [OF assms(1,2)] by (simp add: cc_inv_def)
  have "conn_wf c'" using cong_control_contract [OF assms(3) wf assms(4)] by simp
  then obtain c where c: "validate c = Inr ()" "fs_config flow = config_kernel_config c"
    using assms(5,6) by (auto simp: flow_wf_def from_daemon_def)
  note lim = image_limits [OF c(1), folded c(2)]
  obtain f3 k3 tp4 where m: "wf_same f3 flow" "tp4 = snd (skyline_apply_pacing f3 (fs_config flow) k3 (c_tp (s i)))"
    and cwnd: "tp_snd_cwnd (c_tp c') = tp_snd_cwnd (skyline_set_cwnd_target kf f3 (fs_config flow) (rs_acked_sacked sample)
        (icsk_ca_state tp4 = TCP_CA_Loss) tp4)"
    and rate: "sk_pacing_rate (c_tp c') = sk_pacing_rate (skyline_set_cwnd_target kf f3 (fs_config flow) (rs_acked_sacked sample)
        (icsk_ca_state tp4 = TCP_CA_Loss) tp4)"
    using m2_ack [OF assms(3) wf assms(4-7)] by metis
  have f3: "fs_bw_bps f3 = fs_bw_bps flow" "fs_min_rtt_us f3 = fs_min_rtt_us flow" using m(1) by (simp_all add: wf_same_def)
  have max_min: "max_cwnd_packets c = k_max_cwnd_packets (fs_config flow)" "min_cwnd_packets c = k_min_cwnd_packets (fs_config flow)"
    by (simp_all add: c(2) config_kernel_config_def)
  have pace: "8 * unat (sk_pacing_rate (c_tp c')) \<le> unat (max_pacing_mbps c) * 1000000
      \<and> sk_pacing_rate (c_tp c') \<le> sk_max_pacing_rate (c_tp (s i))"
    if "fs_bw_bps flow \<noteq> 0" "fs_min_rtt_us flow \<noteq> 0" "has_feature (fs_config flow) PACING"
  proof -
    have "sk_pacing_rate (c_tp c') = sk_pacing_rate tp4" using rate target_keeps_pacing f3 that by simp
    then have "sk_pacing_rate (c_tp c') \<le> k_max_pacing_bps (fs_config flow) div 8"
      "sk_pacing_rate (c_tp c') \<le> sk_max_pacing_rate (c_tp (s i))"
      using pacing_within [OF that(3) _ lim(3) [OF that(3)], of f3] f3 that(1) m(2) by simp_all
    then show ?thesis using lim(4) by (simp add: word_le_nat_alt unat_div_distrib)
  qed
  show ?thesis
    using c target_within [OF lim(1,2), where kf = kf and flow = f3] f3 pace
    by (intro exI [of _ c]) (simp add: cwnd max_min)
qed

text \<open>The first ACK of the connection \<open>started\<close>, on the shipped configuration.\<close>

lemma shipped_features:
  "k_feature_mask shipped_image = 63" "k_bw_window_rtts shipped_image = 6" "k_startup_plateau_rtts shipped_image = 5"
  "k_min_rtt_window_us shipped_image = 30000000" "k_max_queue_delay_us shipped_image = 70000"
  by (simp_all add: config_kernel_config_def shipped_config_def feature_mask_def mask_consts saturating_mul_def)

definition first_ack :: "kernel \<times> conn" where
  "first_ack = skyline_cong_control linux_ksyms 0 0 (Some full_sample) (fst started) (snd started)"

lemma before_guardrail_first:
  assumes "fs_next_round_delivered f = 200" "fs_round_rate_bps f = 0" "fs_bw_bps f = 0" "fs_min_rtt_us f = 0" "fs_min_srtt_us f = 0"
    and "tp_srtt_us tp = 800000" "tp_mss_cache tp = 1448"
  shows "fs_bw_bps (snd (model_before_guardrail now tp cfg full_sample f)) = 11584000"
    and "fs_min_rtt_us (snd (model_before_guardrail now tp cfg full_sample f)) = 100000"
    and "fs_min_srtt_us (snd (model_before_guardrail now tp cfg full_sample f)) = 100000"
  using assms
  by (simp_all add: model_before_guardrail_def skyline_new_round_def skyline_round_reached_def model_min_rtt_def
      model_min_srtt_def model_close_round_def model_take_sample_def model_loss_rate_def skyline_rate_sample_bps_def
      skyline_sample_measures_path_def full_sample_def USEC_PER_SEC_def Let_def)

lemma started_sock: "tp_srtt_us (c_tp (snd started)) = 800000" "tp_mss_cache (c_tp (snd started)) = 1448"
  "kn_slots (fst started) = (\<lambda>_ _. Some shipped_image)" "kn_seq (fst started) = (\<lambda>_. 7)" "kn_has_seq (fst started)"
  by (simp_all add: started_def skyline_init_def skyline_flow_get_def skyline_adopt_config_def read_config_seq_def kn_tick_def
      skyline_reset_generation_def bpf_ktime_get_ns_def Let_def idle_sock_def)

lemma first_ack_flow:
  obtains flow where "c_flow (snd first_ack) = Some flow" "fs_config flow = shipped_image"
    "fs_bw_bps flow = 11584000" "fs_min_rtt_us flow = 100000" "fs_min_srtt_us flow = 100000"
proof -
  obtain f0 where f0: "c_flow (snd started) = Some f0" "fs_config f0 = shipped_image" "fs_next_round_delivered f0 = 200"
      "fs_round_rate_bps f0 = 0" "fs_bw_bps f0 = 0" "fs_min_rtt_us f0 = 0" "fs_min_srtt_us f0 = 0" "fs_config_seq f0 = 7"
    using started_flow by metis
  let ?tp = "c_tp (snd started)" and ?k = "kn_tick (fst started)"
  have get: "skyline_flow_get (fst started) (snd started) = (Some f0, ?k)" using f0(1) by (simp add: skyline_flow_get_def)
  obtain k1 where cfg: "ack_config full_sample ?tp ?k f0 = (True, k1, f0)"
    using f0 started_sock(4,5)
    by (simp add: ack_config_def skyline_has_config_def read_config_seq_def cc_frame full_sample_def skyline_round_reached_def)
  obtain nr k2 f2 k3 f3 k4 tp4 k5 tp5 f5 tp6 where r:
    "skyline_update_model ?tp (fs_config f0) full_sample k1 f0 = (nr, k2, f2)"
    "ack_losses full_sample ?tp (fs_config f0) k2 f2 = (k3, f3)"
    "skyline_apply_pacing f3 (fs_config f0) k3 ?tp = (k4, tp4)"
    "ack_window linux_ksyms 0 full_sample (fs_config f0) k4 tp4 f3 = (k5, tp5, f5)"
    "skyline_cong_control linux_ksyms 0 0 (Some full_sample) (fst started) (snd started) =
      (ack_metrics full_sample tp6 (fs_config f0) k5, (snd started)\<lparr>c_tp := tp6, c_flow := Some f5\<rparr>)"
    by (rule cong_control_run [OF get cfg])
  define now where "now = kn_clock k1 (kn_step k1) div 1000"
  define g where "g = snd (model_before_guardrail now ?tp (fs_config f0) full_sample f0)"
  have g: "fs_bw_bps g = 11584000" "fs_min_rtt_us g = 100000" "fs_min_srtt_us g = 100000"
    using before_guardrail_first f0 started_sock by (simp_all add: g_def)
  have gr: "model_guardrail nr (fst (model_before_guardrail now ?tp (fs_config f0) full_sample f0)) ?tp (fs_config f0)
      (kn_tick k1) g = (k2, f2)"
    using r(1) by (auto simp: update_model_alt Let_def g_def now_def split_beta)
  have "conn_wf (snd started)"
    using cc_run_inv [OF started_run [of linux_ksyms] calm_fresh] by (auto simp: cc_inv_def dest: spec [of _ 0])
  then have wf: "flow_wf f0" using f0(1) by simp
  have "skyline_has_config f0" using f0(2) by (simp add: skyline_has_config_def)
  then have keep: "model_keeps f0 f2" using update_model_wf [OF wf _ r(1)] by simp
  have same: "wf_same f2 f5" using ack_losses_same [OF r(2)] ack_window_same [OF r(4)] wf_same_trans by blast
  have "has_feature (fs_config f0) ADAPTIVE_CWND"
    using f0(2) by (simp add: has_feature_def shipped_features mask_consts)
  then show ?thesis
    using that [of f5] r(5) keep same guardrail_fields [OF gr] guardrail_evidence(3) [OF gr] g f0(2)
    by (simp add: first_ack_def model_keeps_def wf_same_def)
qed

theorem window_within_limits_witness:
  "tp_snd_cwnd (c_tp (snd first_ack)) \<le> 50000 \<and> 32 \<le> tp_snd_cwnd (c_tp (snd first_ack))"
proof -
  let ?s = "(\<lambda>_ :: nat. fresh_conn)(0 := snd started)"
  obtain flow where f: "c_flow (snd first_ack) = Some flow" "fs_config flow = shipped_image"
    "fs_bw_bps flow = 11584000" "fs_min_rtt_us flow = 100000" using first_ack_flow by blast
  have slots: "slots_valid (fst started)" using shipped_slots_valid started_sock(3) by blast
  have ack: "skyline_cong_control linux_ksyms 0 0 (Some full_sample) (fst started) (?s 0) = (fst first_ack, snd first_ack)"
    by (simp add: first_ack_def)
  have cfg: "skyline_has_config flow" "has_feature (fs_config flow) ADAPTIVE_CWND"
    using f(2) by (simp_all add: skyline_has_config_def has_feature_def shipped_features mask_consts)
  obtain c where c: "shipped_image = config_kernel_config c" "tp_snd_cwnd (c_tp (snd first_ack)) \<le> max_cwnd_packets c"
      "min_cwnd_packets c \<le> tp_snd_cwnd (c_tp (snd first_ack))"
    using window_within_limits [OF started_run calm_fresh slots ack f(1) cfg] f(2-4) by auto
  have "max_cwnd_packets c = k_max_cwnd_packets shipped_image" "min_cwnd_packets c = k_min_cwnd_packets shipped_image"
    unfolding c(1) by (simp_all add: config_kernel_config_def)
  then show ?thesis using c(2,3) by (simp add: config_kernel_config_def shipped_config_def)
qed

section \<open>The end of STARTUP\<close>

lemma no_news_config:
  assumes "skyline_has_config flow" "\<forall>n. kn_seq k n = fs_config_seq flow"
  obtains k1 where "ack_config sample tp (kn_tick k) flow = (True, k1, flow)"
proof (cases "skyline_round_reached sample (fs_next_round_delivered flow) \<and> kn_has_seq k")
  case True
  have "read_config_seq (kn_tick k) = (fs_config_seq flow, kn_tick (kn_tick k))"
    using assms(2) by (simp add: read_config_seq_def cc_frame)
  with True assms(1) show ?thesis using that [of "kn_tick (kn_tick k)"] by (simp add: ack_config_def cc_frame)
next
  case False
  then show ?thesis using that [of "kn_tick k"] assms(1) by (auto simp: ack_config_def cc_frame)
qed

text \<open>
  The evidence in plain numbers: the estimate grew by less than the configured share over a round, and
  the smoothed round trip lies above the base round trip by more than the configured limit.
\<close>

definition grew_less :: "kernel_config \<Rightarrow> u64 \<Rightarrow> u64 \<Rightarrow> bool" where
  "grew_less cfg before after =
     (before \<noteq> 0 \<and> 1000 * unat after < (1000 + unat (k_startup_growth_permille cfg)) * unat before)"

definition queue_over_limit :: "kernel_config \<Rightarrow> tcp_sock \<Rightarrow> skyline_flow_state \<Rightarrow> bool" where
  "queue_over_limit cfg tp flow =
     (let base = max (unat (fs_min_rtt_us flow)) (unat (fs_min_srtt_us flow));
          limit = max (unat (k_max_queue_delay_us cfg)) (base * unat (k_max_queue_delay_permille cfg) div 1000)
      in 0 < limit \<and> base + limit < unat (tp_srtt_us tp) div 8)"

lemma unat_ucast_64 [simp]: "unat (ucast (w :: u32) :: u64) = unat w"
  using unsigned_less [of w, where 'a = nat] by (simp add: unsigned_ucast_eq take_bit_nat_eq_self)

lemma plateau_grew_less:
  assumes "unat (k_startup_growth_permille cfg) \<le> 1000"
    and "unat (fs_bw_bps flow) \<le> 10 ^ 15" "unat (fs_prior_round_bw_bps flow) \<le> 10 ^ 15"
  shows "fs_plateau_rounds (model_plateau m cfg flow) =
    (if \<not> m then fs_plateau_rounds flow
     else if grew_less cfg (fs_prior_round_bw_bps flow) (fs_bw_bps flow) then fs_plateau_rounds flow + 1 else 0)"
proof -
  have "unat (fs_bw_bps flow * 1000) = unat (fs_bw_bps flow) * 1000"
    using assms(2) by (simp add: unat_word_ariths)
  moreover have "unat (1000 + k_startup_growth_permille cfg) = 1000 + unat (k_startup_growth_permille cfg)"
    using assms(1) by (simp add: unat_word_ariths)
  moreover have "unat (fs_prior_round_bw_bps flow) * (1000 + unat (k_startup_growth_permille cfg)) \<le> 10 ^ 15 * 2000"
    using assms by (intro mult_le_mono) simp_all
  ultimately have "(fs_bw_bps flow * 1000 < fs_prior_round_bw_bps flow * ucast (1000 + k_startup_growth_permille cfg)) =
      (1000 * unat (fs_bw_bps flow) < (1000 + unat (k_startup_growth_permille cfg)) * unat (fs_prior_round_bw_bps flow))"
    by (simp add: word_less_nat_alt unat_mult_lem [THEN iffD1] mult.commute)
  then show ?thesis by (simp add: model_plateau_def grew_less_def)
qed

lemma tripped_over_limit:
  assumes "unat (fs_min_rtt_us flow) < 2 ^ 32" "unat (fs_min_srtt_us flow) < 2 ^ 32"
  shows "queue_tripped tp cfg flow \<longleftrightarrow> queue_over_limit cfg tp flow \<or> tp_delivered_ce tp \<noteq> fs_last_delivered_ce flow"
proof -
  define base where "base = skyline_base_rtt_us flow"
  define limit where "limit = skyline_max_queue_delay_us flow cfg"
  have b: "unat base = max (unat (fs_min_rtt_us flow)) (unat (fs_min_srtt_us flow))"
    by (simp add: base_def skyline_base_rtt_us_def max_def word_le_nat_alt)
  have "unat base * unat (k_max_queue_delay_permille cfg) < 2 ^ 32 * 2 ^ 32"
    using assms b unsigned_less [of "k_max_queue_delay_permille cfg", where 'a = nat] by (intro mult_strict_mono) auto
  then have "unat (base * ucast (k_max_queue_delay_permille cfg)) = unat base * unat (k_max_queue_delay_permille cfg)"
    by (simp add: unat_word_ariths)
  then have l: "unat limit = max (unat (k_max_queue_delay_us cfg)) (unat base * unat (k_max_queue_delay_permille cfg) div 1000)"
    by (auto simp: limit_def skyline_max_queue_delay_us_def Let_def base_def [symmetric] max_def word_le_nat_alt unat_div_distrib)
  have srtt: "unat (ucast (drop_bit 3 (tp_srtt_us tp)) :: u64) = unat (tp_srtt_us tp) div 8"
    by (simp add: drop_bit_eq_div unat_div_distrib)
  have "unat (skyline_queue_delay_us tp flow) = unat (tp_srtt_us tp) div 8 - unat base"
    unfolding skyline_queue_delay_us_def Let_def base_def [symmetric] srtt [symmetric]
    by (simp add: unat_sub word_less_nat_alt word_le_nat_alt)
  then have "(limit \<noteq> 0 \<and> skyline_queue_delay_us tp flow > limit) = (0 < unat limit \<and> unat base + unat limit < unat (tp_srtt_us tp) div 8)"
    by (auto simp: word_less_nat_alt unat_gt_0)
  then show ?thesis
    unfolding queue_tripped_def limit_def [symmetric] queue_over_limit_def Let_def b [symmetric] l [symmetric] by blast
qed

lemma update_model_evidence:
  assumes "flow_wf flow" "skyline_has_config flow" "has_feature (fs_config flow) ADAPTIVE_CWND"
    and "skyline_update_model tp (fs_config flow) sample k flow = (ended, k', flow')"
    and "unat (fs_bw_bps flow') \<le> 10 ^ 15" "unat (fs_prior_round_bw_bps flow) \<le> 10 ^ 15"
    and "unat (fs_min_rtt_us flow') < 2 ^ 32" "unat (fs_min_srtt_us flow') < 2 ^ 32"
  shows "ended = skyline_round_reached sample (fs_next_round_delivered flow)"
    and "fs_prior_round_bw_bps flow' = (if ended then fs_bw_bps flow' else fs_prior_round_bw_bps flow)"
    and "fs_plateau_rounds flow' =
        (if fs_mode flow = SKYLINE_MODE_STARTUP \<and> ended \<and> fs_round_rate_bps flow \<noteq> 0
         then (if grew_less (fs_config flow) (fs_prior_round_bw_bps flow) (fs_bw_bps flow') then fs_plateau_rounds flow + 1 else 0)
         else fs_plateau_rounds flow)"
    and "fs_mode flow' = SKYLINE_MODE_CRUISE \<longleftrightarrow> fs_mode flow = SKYLINE_MODE_CRUISE
         \<or> ended \<and> (fs_plateau_rounds flow' \<ge> k_startup_plateau_rtts (fs_config flow)
             \<or> queue_over_limit (fs_config flow) tp flow' \<or> tp_delivered_ce tp \<noteq> fs_last_delivered_ce flow)"
proof -
  let ?cfg = "fs_config flow"
  obtain c where c: "validate c = Inr ()" "?cfg = config_kernel_config c"
    using assms(1,2) by (auto simp: flow_wf_def from_daemon_def)
  have growth: "unat (k_startup_growth_permille ?cfg) \<le> 1000"
    using kernel_image_safe [OF c(1)] by (simp add: c(2) kernel_config_safe_def)
  define now where "now = kn_clock k (kn_step k) div 1000"
  obtain m g where g: "model_before_guardrail now tp ?cfg sample flow = (m, g)" by fastforce
  show nr: "ended = skyline_round_reached sample (fs_next_round_delivered flow)"
    using assms(4) g by (auto simp: update_model_alt Let_def now_def split: prod.splits)
  have gr: "model_guardrail ended m tp ?cfg (kn_tick k) g = (k', flow')"
    using assms(4) g by (auto simp: update_model_alt Let_def now_def split: prod.splits)
  note before = before_guardrail_evidence [OF g] and ev = guardrail_evidence [OF gr assms(3)]
    and fields = guardrail_fields [OF gr] and mode = guardrail_mode [OF gr]
  have gm: "fs_mode g = fs_mode flow" using before_guardrail_fields(4) [OF _ _ g] assms(1) by (simp add: flow_wf_def)
  have modes: "fs_mode flow = SKYLINE_MODE_STARTUP \<or> fs_mode flow = SKYLINE_MODE_CRUISE"
    using assms(1) by (auto simp: flow_wf_def)
  have bw: "fs_bw_bps g = fs_bw_bps flow'" "fs_min_rtt_us g = fs_min_rtt_us flow'" "fs_min_srtt_us g = fs_min_srtt_us flow'"
    using fields ev(3) by simp_all
  have m: "m \<longleftrightarrow> ended \<and> fs_round_rate_bps flow \<noteq> 0" using before(1) nr by simp
  show "fs_prior_round_bw_bps flow' = (if ended then fs_bw_bps flow' else fs_prior_round_bw_bps flow)"
    using ev(2) bw(1) before(3) by simp
  have "fs_plateau_rounds (model_plateau m ?cfg g) =
      (if \<not> m then fs_plateau_rounds flow
       else if grew_less ?cfg (fs_prior_round_bw_bps flow) (fs_bw_bps flow') then fs_plateau_rounds flow + 1 else 0)"
    using plateau_grew_less [OF growth, of g m] assms(5,6) bw(1) before(2,3) by simp
  then show "fs_plateau_rounds flow' =
        (if fs_mode flow = SKYLINE_MODE_STARTUP \<and> ended \<and> fs_round_rate_bps flow \<noteq> 0
         then (if grew_less ?cfg (fs_prior_round_bw_bps flow) (fs_bw_bps flow') then fs_plateau_rounds flow + 1 else 0)
         else fs_plateau_rounds flow)"
    unfolding ev(1) gm before(2) m by auto
  have "queue_over_limit ?cfg tp g = queue_over_limit ?cfg tp flow'" by (simp only: queue_over_limit_def bw)
  then have "queue_tripped tp ?cfg g \<longleftrightarrow> queue_over_limit ?cfg tp flow' \<or> tp_delivered_ce tp \<noteq> fs_last_delivered_ce flow"
    using tripped_over_limit [of g tp ?cfg] assms(7,8) bw before(4) by simp
  then show "fs_mode flow' = SKYLINE_MODE_CRUISE \<longleftrightarrow> fs_mode flow = SKYLINE_MODE_CRUISE
         \<or> ended \<and> (fs_plateau_rounds flow' \<ge> k_startup_plateau_rtts ?cfg
             \<or> queue_over_limit ?cfg tp flow' \<or> tp_delivered_ce tp \<noteq> fs_last_delivered_ce flow)"
    using mode gm modes assms(3) by (auto simp: SKYLINE_MODE_STARTUP_def SKYLINE_MODE_CRUISE_def)
qed

text \<open>
  C13. STARTUP ends on evidence, and only on evidence. While no newer configuration is published, an
  ACK that ends a round in which the path was measured adds one to the count of flat rounds if the estimate now
  is less than the configured growth above the one at the end of the round before, and otherwise sets
  the count to zero; every other ACK leaves it. A flow with M2 on is in CRUISE after the ACK exactly if
  it was before -- CRUISE is final -- or the ACK ended a round and the count has reached
  \<open>startup_plateau_rtts\<close>, the smoothed round trip exceeds the base round trip by more than the
  queue-delay limit, or a new ECN mark was reported. The comparisons are on natural numbers, for estimates up to
  1 Pbit/s and round trips up to 4294 s, so no product of the code wraps.
\<close>

theorem startup_ends_on_evidence:
  assumes "cc_run kf x (k, s)" "fresh x"
    and "c_flow (s i) = Some flow" "skyline_has_config flow" "has_feature (fs_config flow) ADAPTIVE_CWND"
    and "\<forall>n. kn_seq k n = fs_config_seq flow"
    and "skyline_cong_control kf ack flag (Some sample) k (s i) = (k', c')" "c_flow c' = Some flow'"
    and "unat (fs_bw_bps flow') \<le> 10 ^ 15" "unat (fs_prior_round_bw_bps flow) \<le> 10 ^ 15"
    and "unat (fs_min_rtt_us flow') < 2 ^ 32" "unat (fs_min_srtt_us flow') < 2 ^ 32"
    and "ended = skyline_round_reached sample (fs_next_round_delivered flow)"
  shows "fs_config flow' = fs_config flow
    \<and> fs_prior_round_bw_bps flow' = (if ended then fs_bw_bps flow' else fs_prior_round_bw_bps flow)
    \<and> fs_plateau_rounds flow' =
        (if fs_mode flow = SKYLINE_MODE_STARTUP \<and> ended \<and> fs_round_rate_bps flow \<noteq> 0
         then (if grew_less (fs_config flow) (fs_prior_round_bw_bps flow) (fs_bw_bps flow') then fs_plateau_rounds flow + 1 else 0)
         else fs_plateau_rounds flow)
    \<and> (fs_mode flow' = SKYLINE_MODE_CRUISE \<longleftrightarrow>
         fs_mode flow = SKYLINE_MODE_CRUISE
         \<or> ended \<and> (fs_plateau_rounds flow' \<ge> k_startup_plateau_rtts (fs_config flow)
             \<or> queue_over_limit (fs_config flow) (c_tp (s i)) flow'
             \<or> tp_delivered_ce (c_tp (s i)) \<noteq> fs_last_delivered_ce flow))"
proof -
  let ?tp = "c_tp (s i)" and ?cfg = "fs_config flow"
  have "conn_wf (s i)" using cc_run_inv [OF assms(1,2)] by (simp add: cc_inv_def)
  then have wf: "flow_wf flow" using assms(3) by simp
  have get: "skyline_flow_get k (s i) = (Some flow, kn_tick k)" using assms(3) by (simp add: skyline_flow_get_def)
  obtain k1 where cfg: "ack_config sample ?tp (kn_tick k) flow = (True, k1, flow)"
    using no_news_config [OF assms(4,6)] by blast
  from cong_control_run [OF get cfg, where kf = kf and ack = ack and flag = flag]
  obtain nr k2 f2 k3 f3 k4 tp4 k5 tp5 f5 tp6 where r:
    "skyline_update_model ?tp ?cfg sample k1 flow = (nr, k2, f2)"
    "ack_losses sample ?tp ?cfg k2 f2 = (k3, f3)" "ack_window kf flag sample ?cfg k4 tp4 f3 = (k5, tp5, f5)"
    "skyline_cong_control kf ack flag (Some sample) k (s i) =
      (ack_metrics sample tp6 ?cfg k5, (s i)\<lparr>c_tp := tp6, c_flow := Some f5\<rparr>)" by metis
  have "flow' = f5" using r(4) assms(7,8) by auto
  then have "wf_same f2 flow'" using ack_losses_same [OF r(2)] ack_window_same [OF r(3)] wf_same_trans by blast
  then have same: "fs_bw_bps f2 = fs_bw_bps flow'" "fs_min_rtt_us f2 = fs_min_rtt_us flow'" "fs_min_srtt_us f2 = fs_min_srtt_us flow'"
      "fs_config f2 = fs_config flow'" "fs_prior_round_bw_bps f2 = fs_prior_round_bw_bps flow'"
      "fs_plateau_rounds f2 = fs_plateau_rounds flow'" "fs_mode f2 = fs_mode flow'"
    by (simp_all add: wf_same_def)
  have "queue_over_limit ?cfg ?tp f2 = queue_over_limit ?cfg ?tp flow'" by (simp only: queue_over_limit_def same)
  moreover have "fs_config flow' = ?cfg"
    using update_model_wf [OF wf assms(4) r(1)] same(4) by (simp add: model_keeps_def)
  ultimately show ?thesis
    using update_model_evidence [OF wf assms(4,5) r(1), unfolded same, OF assms(9-12)] assms(13) by blast
qed

theorem startup_ends_on_evidence_witness:
  "\<exists>flow flow'. c_flow (snd started) = Some flow \<and> c_flow (snd first_ack) = Some flow'
     \<and> skyline_round_reached full_sample (fs_next_round_delivered flow)
     \<and> fs_prior_round_bw_bps flow' = 11584000 \<and> fs_plateau_rounds flow' = 0 \<and> fs_mode flow' \<noteq> SKYLINE_MODE_CRUISE"
proof -
  let ?s = "(\<lambda>_ :: nat. fresh_conn)(0 := snd started)"
  obtain flow where f: "c_flow (snd started) = Some flow" "fs_config flow = shipped_image" "fs_config_seq flow = 7"
      "fs_mode flow = SKYLINE_MODE_STARTUP" "fs_next_round_delivered flow = 200" "fs_round_rate_bps flow = 0"
    using started_flow by metis
  have f0: "fs_plateau_rounds flow = 0" "fs_prior_round_bw_bps flow = 0" "fs_last_delivered_ce flow = 0"
    using f(1) by (auto simp: started_def skyline_init_def skyline_flow_get_def skyline_adopt_config_def read_config_seq_def
        kn_tick_def skyline_reset_generation_def bpf_ktime_get_ns_def Let_def idle_sock_def)
  obtain flow' where f': "c_flow (snd first_ack) = Some flow'" "fs_bw_bps flow' = 11584000" "fs_min_rtt_us flow' = 100000"
      "fs_min_srtt_us flow' = 100000" using first_ack_flow by metis
  have at: "c_flow (?s 0) = Some flow" using f(1) by simp
  have cfg: "skyline_has_config flow" "has_feature (fs_config flow) ADAPTIVE_CWND"
    using f(2) by (simp_all add: skyline_has_config_def has_feature_def shipped_features mask_consts)
  have seq: "\<forall>n. kn_seq (fst started) n = fs_config_seq flow" using f(3) started_sock(4) by simp
  have ack: "skyline_cong_control linux_ksyms 0 0 (Some full_sample) (fst started) (?s 0) = (fst first_ack, snd first_ack)"
    by (simp add: first_ack_def)
  have ended: "skyline_round_reached full_sample (fs_next_round_delivered flow)"
    by (simp add: skyline_round_reached_def full_sample_def f(5))
  have sock: "tp_delivered_ce (c_tp (?s 0)) = 0" "\<not> queue_over_limit (fs_config flow) (c_tp (?s 0)) flow'"
    using f' started_sock(1)
    by (simp_all add: started_def skyline_init_def skyline_flow_get_def skyline_adopt_config_def read_config_seq_def kn_tick_def
        skyline_reset_generation_def bpf_ktime_get_ns_def Let_def idle_sock_def queue_over_limit_def)
  have small: "unat (fs_bw_bps flow') \<le> 10 ^ 15" "unat (fs_prior_round_bw_bps flow) \<le> 10 ^ 15"
    "unat (fs_min_rtt_us flow') < 2 ^ 32" "unat (fs_min_srtt_us flow') < 2 ^ 32" using f' f0 by simp_all
  show ?thesis
    using startup_ends_on_evidence [where s = ?s and i = 0, OF started_run calm_fresh at cfg seq ack f'(1) small refl] f f' f0 ended sock
    by (simp add: shipped_features(3) SKYLINE_MODE_STARTUP_def SKYLINE_MODE_CRUISE_def)
qed

end
