(* ===== verification/CongMath.thy ===== *)
theory CongMath
  imports CongProps
begin

text \<open>
  The arithmetic of the controller against reference definitions on unbounded numbers: rounds counted
  on counters that wrap, the bisection for the cube root and its error, the bandwidth-delay product
  and the loss-rate average, with the bounds under which 32 and 64 bits are enough.
\<close>

unbundle bit_operations_syntax

section \<open>Rounds\<close>

text \<open>The reference: a round whose end is \<open>next\<close> is over once \<open>next\<close> packets had been delivered when the packet was sent.\<close>

lemma sint_difference:
  assumes "- (2 ^ 31) \<le> i" "i < 2 ^ 31"
  shows "sint (word_of_int i :: s32) = i"
  using assms by (simp add: sint_sbintrunc' signed_take_bit_int_eq_self)

lemma round_reached_nat:
  assumes "rs_prior_mstamp sample \<noteq> 0" "rs_prior_delivered sample = word_of_nat d"
    and "d < n + 2 ^ 31" "n \<le> d + 2 ^ 31"
  shows "skyline_round_reached sample (ucast (word_of_nat n :: u32)) \<longleftrightarrow> n \<le> d"
proof -
  have "rs_prior_delivered sample - word_of_nat n = word_of_int (int d - int n)"
    using assms(2) by simp
  moreover have "sint (word_of_int (int d - int n) :: s32) = int d - int n"
    using assms(3,4) by (intro sint_difference) simp_all
  moreover have "ucast (ucast (word_of_nat n :: u32) :: u64) = (word_of_nat n :: u32)"
    by (rule bit_eqI) (simp add: bit_simps)
  ultimately show ?thesis using assms(1) by (simp add: skyline_round_reached_def)
qed

text \<open>
  C15. The 32-bit comparison that ends rounds agrees with the comparison of the unbounded packet
  counts, however often the kernel's counters have wrapped, as long as the two are within 2^31 of each
  other; and the next round is then set to end where the unbounded counts say.
\<close>

theorem rounds_survive_wrap:
  assumes "rs_prior_mstamp sample \<noteq> 0" "rs_prior_delivered sample = word_of_nat d"
    and "fs_next_round_delivered flow = ucast (word_of_nat n :: u32)"
    and "tp_delivered tp = word_of_nat D" "tp_packets_out tp = word_of_nat P"
    and "d < n + 2 ^ 31" "n \<le> d + 2 ^ 31"
  shows "skyline_new_round tp flow sample =
    (n \<le> d, if n \<le> d then flow\<lparr>fs_next_round_delivered := ucast (word_of_nat (D + P) :: u32)\<rparr> else flow)"
  using round_reached_nat [OF assms(1,2,6,7)] assms(3-5) by (simp add: skyline_new_round_def)

section \<open>The cube root\<close>

lemma cube_mono: "(a :: nat) \<le> b \<Longrightarrow> a ^ 3 \<le> b ^ 3"
  by (rule power_mono) simp_all

lemma unat_small_mult:
  fixes a b :: u64
  assumes "unat a * unat b < 2 ^ 64"
  shows "unat (a * b) = unat a * unat b"
  using assms by (simp add: unat_word_ariths)

lemma unat_small_add:
  fixes a b :: u64
  assumes "unat a + unat b < 2 ^ 64"
  shows "unat (a + b) = unat a + unat b"
  using assms by (simp add: unat_word_ariths)

lemma unat_cube:
  fixes m :: u64
  assumes "unat m \<le> 135722"
  shows "unat (m * m * m) = unat m ^ 3"
proof -
  have sq: "unat m * unat m \<le> 135722 * 135722" using assms by (rule mult_le_mono) (rule assms)
  then have "unat (m * m) = unat m * unat m" by (intro unat_small_mult) simp
  moreover have "unat m * unat m * unat m \<le> 135722 * 135722 * 135722" using sq assms by (rule mult_le_mono)
  ultimately show ?thesis
    using unat_small_mult [of "m * m" m] by (simp add: power3_eq_cube)
qed

text \<open>
  The bisection keeps the root between its bounds and at least halves the interval at each step.
\<close>

lemma cube_root_steps_bounds:
  assumes "low \<le> high" "unat high \<le> 135722"
    and "low = 0 \<or> (unat low - 1) ^ 3 \<le> unat value" "unat value < unat high ^ 3"
    and "cube_root_steps n value low high = (l, h)"
  shows "l \<le> h \<and> unat h \<le> 135722 \<and> (l = 0 \<or> (unat l - 1) ^ 3 \<le> unat value) \<and> unat value < unat h ^ 3
    \<and> unat h - unat l \<le> (unat high - unat low) div 2 ^ n"
  using assms
proof (induction n arbitrary: low high)
  case (Suc n)
  define m where "m = low + drop_bit 1 (high - low)"
  have le: "unat low \<le> unat high" using Suc.prems(1) by (simp add: word_le_nat_alt)
  have d: "unat (drop_bit 1 (high - low)) = (unat high - unat low) div 2"
    using Suc.prems(1) by (simp add: drop_bit_eq_div unat_div_distrib unat_sub)
  have m: "unat m = unat low + (unat high - unat low) div 2"
    unfolding m_def d [symmetric] using le Suc.prems(2) d by (intro unat_small_add) simp
  have m_high: "unat m \<le> unat high" using m le by linarith
  have cube: "unat (m * m * m) = unat m ^ 3" using m_high Suc.prems(2) by (intro unat_cube) simp
  show ?case
  proof (cases "m * m * m \<le> value")
    case True
    then have up: "unat m ^ 3 \<le> unat value" by (simp add: word_le_nat_alt cube)
    have lt: "unat m < unat high"
      using up Suc.prems(4) cube_mono [of "unat high" "unat m"] by (meson le_less_trans not_less)
    have m1: "unat (m + 1) = unat m + 1" using lt Suc.prems(2) unat_small_add [of m 1] by simp
    have "cube_root_steps n value (m + 1) high = (l, h)"
      using Suc.prems(5) True unfolding m_def by (simp add: Let_def)
    moreover have "m + 1 \<le> high" "(unat (m + 1) - 1) ^ 3 \<le> unat value"
      using lt up by (simp_all add: word_le_nat_alt m1)
    ultimately have "l \<le> h \<and> unat h \<le> 135722 \<and> (l = 0 \<or> (unat l - 1) ^ 3 \<le> unat value) \<and> unat value < unat h ^ 3
        \<and> unat h - unat l \<le> (unat high - unat (m + 1)) div 2 ^ n"
      using Suc.IH [of "m + 1" high] Suc.prems(2,4) by blast
    moreover have "unat high - unat (m + 1) \<le> (unat high - unat low) div 2" using m m1 le by linarith
    then have "(unat high - unat (m + 1)) div 2 ^ n \<le> (unat high - unat low) div 2 ^ Suc n"
      using div_le_mono [of _ "(unat high - unat low) div 2" "2 ^ n"] by (simp add: div_mult2_eq)
    ultimately show ?thesis by linarith
  next
    case False
    then have down: "unat value < unat m ^ 3" by (simp add: word_le_nat_alt cube)
    have "cube_root_steps n value low m = (l, h)"
      using Suc.prems(5) False unfolding m_def by (simp add: Let_def)
    moreover have "low \<le> m" using m by (simp add: word_le_nat_alt)
    ultimately have "l \<le> h \<and> unat h \<le> 135722 \<and> (l = 0 \<or> (unat l - 1) ^ 3 \<le> unat value) \<and> unat value < unat h ^ 3
        \<and> unat h - unat l \<le> (unat m - unat low) div 2 ^ n"
      using Suc.IH [of low m] Suc.prems(2,3) down m_high by (meson order_trans)
    moreover have "(unat m - unat low) div 2 ^ n \<le> (unat high - unat low) div 2 ^ Suc n"
      using m by (simp add: div_mult2_eq)
    ultimately show ?thesis by linarith
  qed
qed simp

text \<open>The resolution is no finer: for a window two packets below its maximum, K is 1710 ms and comes out as 1590.\<close>

lemma cube_root_steps_numeral:
  "cube_root_steps (numeral n) v low high =
     (let middle = low + drop_bit 1 (high - low)
      in if middle * middle * middle \<le> v then cube_root_steps (pred_numeral n) v (middle + 1) high
         else cube_root_steps (pred_numeral n) v low middle)"
  by (simp add: numeral_eq_Suc Let_def)

lemma cube_root_resolution:
  "skyline_cube_root (2 * 2500000000) = 1590 \<and> (1590 + 119) ^ 3 < (2 * 2500000000 :: nat)"
  by (simp add: skyline_cube_root_def cube_root_steps_numeral)

text \<open>
  C24. On every input the caller can form (at most 2.5e15) the ten bisection steps return a number
  whose cube is at most the input, and the true cube root lies less than 133 above it; for a window
  two packets below its maximum it lies at least 119 above. With the input in cubed milliseconds, K
  is resolved to about 0.13 seconds, not to 0.13 milliseconds.
\<close>

theorem cube_root_bound:
  assumes "unat value \<le> 2500000000000000"
  shows "unat (skyline_cube_root value) ^ 3 \<le> unat value \<and> unat value < (unat (skyline_cube_root value) + 133) ^ 3
    \<and> (unat (skyline_cube_root (2 * 2500000000)) + 119) ^ 3 < 2 * 2500000000"
proof -
  have tight: "(unat (skyline_cube_root (2 * 2500000000)) + 119) ^ 3 < 2 * 2500000000"
    using cube_root_resolution by simp
  obtain l h where lh: "cube_root_steps 10 value 0 135722 = (l, h)" by fastforce
  have "unat value < unat (135722 :: u64) ^ 3" using assms by simp
  then have b: "l \<le> h" "l = 0 \<or> (unat l - 1) ^ 3 \<le> unat value" "unat value < unat h ^ 3"
      "unat h - unat l \<le> 132"
    using cube_root_steps_bounds [of 0 135722 "value" 10 l h] lh by auto
  show ?thesis
  proof (cases "l = 0")
    case True
    then have "skyline_cube_root value = 0" using lh by (simp add: skyline_cube_root_def)
    moreover have "unat h ^ 3 \<le> 133 ^ 3" using b(4) True by (intro cube_mono) simp
    ultimately show ?thesis using b(3) tight by simp
  next
    case False
    then have r: "unat (skyline_cube_root value) = unat l - 1"
      using lh unat_gt_0 [of l] by (simp add: skyline_cube_root_def unat_sub word_le_nat_alt)
    have "unat h ^ 3 \<le> (unat l - 1 + 133) ^ 3"
      using b(1,4) False unat_gt_0 [of l] by (intro cube_mono) (simp add: word_le_nat_alt)
    with b(3) have "unat value < (unat l - 1 + 133) ^ 3" by (rule less_le_trans)
    then show ?thesis using b(2) False tight unfolding r by blast
  qed
qed

theorem cube_root_bound_witness:
  "unat (skyline_cube_root 5000000000) ^ 3 \<le> 5000000000 \<and> (5000000000 :: nat) < (unat (skyline_cube_root 5000000000) + 133) ^ 3"
  using cube_root_bound [of 5000000000] by simp

theorem rounds_survive_wrap_witness:
  "\<exists>tp sample flow. tp_delivered tp = 4 \<and> skyline_new_round tp flow sample
     = (True, flow\<lparr>fs_next_round_delivered := 104\<rparr>) \<and> fs_next_round_delivered flow = 4294967290"
proof -
  define tp where "tp = idle_sock\<lparr>tp_delivered := 4, tp_packets_out := 100\<rparr>"
  define sample where "sample = full_sample\<lparr>rs_prior_mstamp := 1, rs_prior_delivered := 2\<rparr>"
  define flow where "flow = zero_flow\<lparr>fs_next_round_delivered := 4294967290\<rparr>"
  have "skyline_new_round tp flow sample = (4294967290 \<le> (4294967298 :: nat),
      if 4294967290 \<le> (4294967298 :: nat)
      then flow\<lparr>fs_next_round_delivered := ucast (word_of_nat (4294967300 + 100) :: u32)\<rparr> else flow)"
    by (rule rounds_survive_wrap) (simp_all add: tp_def sample_def flow_def)
  then show ?thesis
    by (intro exI [of _ tp] exI [of _ sample] exI [of _ flow]) (simp add: tp_def flow_def)
qed

section \<open>The bandwidth-delay product\<close>

text \<open>
  The reference on natural numbers: bits in flight over one base round trip, in bytes, times the gain
  and the loss compensation, in segments, and never below the floor.
\<close>

definition bdp_reference :: "nat \<Rightarrow> nat \<Rightarrow> nat \<Rightarrow> nat \<Rightarrow> nat \<Rightarrow> nat" where
  "bdp_reference bw_bps rtt_us gain inflation mss =
     bw_bps * rtt_us div 8000000 * gain div 1000 * inflation div 1000 div mss"

lemma unat_scale:
  fixes b :: u64
  assumes "unat b * unat (g :: u32) < 2 ^ 64"
  shows "unat (b * ucast g div 1000) = unat b * unat g div 1000"
proof -
  have g: "unat (ucast g :: u64) = unat g"
    using unat_u32_bound [of g] by (simp add: unsigned_ucast_eq take_bit_nat_eq_self)
  then have "unat (b * ucast g) = unat b * unat g" using assms unat_small_mult [of b "ucast g"] by simp
  then show ?thesis by (simp add: unat_div_distrib)
qed

lemma div_mult_bound: "(a :: nat) \<le> A \<Longrightarrow> g \<le> G \<Longrightarrow> a * g div d \<le> A * G div d"
  by (intro div_le_mono mult_le_mono)

lemma bdp_packets_value:
  assumes "fs_bw_bps flow \<noteq> 0" "fs_min_rtt_us flow \<noteq> 0"
    and "unat (fs_bw_bps flow) \<le> 1000000000000" "unat (skyline_base_rtt_us flow) \<le> 10000000" "unat gain \<le> 1000000"
    and "n = bdp_reference (unat (fs_bw_bps flow)) (unat (skyline_base_rtt_us flow)) (unat gain)
      (unat (skyline_loss_inflation_permille flow config)) (unat (max (tp_mss_cache tp) 1))" "n < 2 ^ 32"
  shows "unat (skyline_bdp_packets tp flow config gain) = max n (unat (skyline_min_cwnd config))"
proof -
  define bw rtt infl where "bw = fs_bw_bps flow" and "rtt = skyline_base_rtt_us flow"
    and "infl = skyline_loss_inflation_permille flow config"
  define mss where "mss = max (tp_mss_cache tp) 1"
  define b1 b2 b3 where "b1 = bw * rtt div (8 * USEC_PER_SEC)" and "b2 = b1 * ucast gain div 1000"
    and "b3 = b2 * ucast infl div 1000"
  have prod: "unat bw * unat rtt \<le> 1000000000000 * 10000000"
    using assms(3,4) by (intro mult_le_mono) (simp_all add: bw_def rtt_def)
  then have "unat (bw * rtt) = unat bw * unat rtt" by (intro unat_small_mult) simp
  then have b1: "unat b1 = unat bw * unat rtt div 8000000" by (simp add: b1_def USEC_PER_SEC_def unat_div_distrib)
  have b1_le: "unat b1 \<le> 1250000000000" using prod unfolding b1 by simp
  have "unat b1 * unat gain \<le> 1250000000000 * 1000000" using b1_le assms(5) by (rule mult_le_mono)
  then have b2: "unat b2 = unat b1 * unat gain div 1000" unfolding b2_def by (intro unat_scale) simp
  have b2_le: "unat b2 \<le> 1250000000000000" using div_mult_bound [OF b1_le assms(5), of 1000] unfolding b2 by simp
  have infl: "unat infl \<le> 2000" using loss_inflation_bound by (simp add: infl_def skyline_loss_inflation_permille_def)
  have "unat b2 * unat infl \<le> 1250000000000000 * 2000" using b2_le infl by (rule mult_le_mono)
  then have b3: "unat b3 = unat b2 * unat infl div 1000" unfolding b3_def by (intro unat_scale) simp
  have mss: "unat (ucast mss :: u64) = unat mss"
    using unat_u32_bound [of mss] by (simp add: unsigned_ucast_eq take_bit_nat_eq_self)
  have n: "n = unat b3 div unat mss"
    by (simp add: assms(6) bdp_reference_def b1 b2 b3 bw_def rtt_def infl_def mss_def)
  then have packets: "unat (b3 div ucast mss) = n" using mss by (simp add: unat_div_distrib)
  then have small: "unat (ucast (b3 div ucast mss) :: u32) = n"
    using assms(7) by (simp add: unsigned_ucast_eq take_bit_nat_eq_self)
  have "skyline_bdp_packets tp flow config gain = max (ucast (b3 div ucast mss)) (skyline_min_cwnd config)"
    using assms(1,2)
    by (simp add: skyline_bdp_packets_def Let_def b3_def b2_def b1_def bw_def rtt_def infl_def mss_def)
  then show ?thesis using small by (simp add: max_def word_le_nat_alt)
qed

text \<open>
  C16. Up to 1 Tbit/s, a base round trip of 10 s and a gain of 1000, no product in
  \<open>skyline_bdp_packets\<close> wraps: the window target is the exact bandwidth-delay product in segments,
  scaled and compensated, or the floor if that is more -- provided the number of segments itself
  fits the kernel's 32-bit window.
\<close>

theorem bdp_packets_exact:
  assumes "fs_bw_bps flow \<noteq> 0" "fs_min_rtt_us flow \<noteq> 0"
    and "unat (fs_bw_bps flow) \<le> 1000000000000" "unat (skyline_base_rtt_us flow) \<le> 10000000" "unat gain \<le> 1000000"
    and "n = bdp_reference (unat (fs_bw_bps flow)) (unat (skyline_base_rtt_us flow)) (unat gain)
      (unat (skyline_loss_inflation_permille flow config)) (unat (max (tp_mss_cache tp) 1))" "n < 2 ^ 32"
  shows "unat (skyline_bdp_packets tp flow config gain) = max n (unat (skyline_min_cwnd config))"
  by (rule bdp_packets_value [OF assms])

text \<open>100 Mbit/s at 200 ms with gain 3 and no compensation: 5179 segments of 1448 bytes.\<close>

theorem bdp_packets_exact_witness:
  "\<exists>tp flow. fs_bw_bps flow = 100000000 \<and> skyline_base_rtt_us flow = 200000
     \<and> unat (skyline_bdp_packets tp flow zero_config 3000) = 5179"
proof -
  define tp where "tp = idle_sock\<lparr>tp_mss_cache := 1448\<rparr>"
  define flow where "flow = zero_flow\<lparr>fs_bw_bps := 100000000, fs_min_rtt_us := 200000, fs_min_srtt_us := 150000\<rparr>"
  have f: "fs_bw_bps flow = 100000000" "fs_min_rtt_us flow = 200000" "skyline_base_rtt_us flow = 200000"
    by (simp_all add: flow_def skyline_base_rtt_us_def max_def)
  have z: "skyline_loss_inflation_permille flow zero_config = 1000" "skyline_min_cwnd zero_config = 4"
    by (simp_all add: skyline_loss_inflation_permille_def loss_inflation_permille_def mask_contains_def zero_config_def
        LOSS_CLASSIFIER_def skyline_min_cwnd_def SKYLINE_MIN_CWND_def max_def)
  have "unat (skyline_bdp_packets tp flow zero_config 3000) = max 5179 (unat (skyline_min_cwnd zero_config))"
    by (rule bdp_packets_exact) (simp_all add: f z tp_def bdp_reference_def max_def word_le_nat_alt)
  then show ?thesis using f z by (intro exI [of _ tp] exI [of _ flow]) simp
qed

section \<open>The loss rate\<close>

lemma loss_rate_value:
  assumes "unat (fs_loss_rate_permille flow) \<le> 1000"
    and "lost = unat (tp_lost tp - fs_last_lost flow)" "delivered = unat (tp_delivered tp - fs_last_loss_rate_delivered flow)"
    and "lost + delivered < 2 ^ 32"
  shows "unat (fs_loss_rate_permille (model_loss_rate True tp flow)) \<le> 1000
    \<and> (lost \<le> 4294967 \<longrightarrow> unat (fs_loss_rate_permille (model_loss_rate True tp flow)) =
        (3 * unat (fs_loss_rate_permille flow) + 1000 * lost div (lost + delivered)) div 4)"
proof -
  define l d r where "l = tp_lost tp - fs_last_lost flow" and "d = tp_delivered tp - fs_last_loss_rate_delivered flow"
    and "r = fs_loss_rate_permille flow"
  define sample where "sample = (if l + d \<noteq> 0 then 1000 * l div (l + d) else 0)"
  have total: "unat (l + d) = lost + delivered"
    using assms(2-4) by (simp add: l_def d_def unat_word_ariths)
  have "lost = unat l" using assms(2) by (simp add: l_def)
  then have prod: "unat (1000 * l) = 1000 * lost mod 2 ^ 32" by (simp add: unat_word_ariths)
  have sample: "unat sample = (1000 * lost mod 2 ^ 32) div (lost + delivered)"
    using total prod by (auto simp: sample_def unat_div_distrib unat_eq_zero [symmetric])
  also have "\<dots> \<le> 1000 * lost div (lost + delivered)" by (intro div_le_mono mod_less_eq_dividend)
  also have "\<dots> \<le> 1000 * (lost + delivered) div (lost + delivered)" by (intro div_le_mono) simp
  also have "\<dots> \<le> 1000"
  proof -
    have "1000 * n div n \<le> (1000 :: nat)" for n by (cases "n = 0") simp_all
    then show ?thesis .
  qed
  finally have s: "unat sample \<le> 1000" .
  have new: "fs_loss_rate_permille (model_loss_rate True tp flow) = (r * 3 + sample) div 4"
    by (simp add: model_loss_rate_def Let_def sample_def l_def d_def r_def)
  have "unat (r * 3 + sample) = 3 * unat r + unat sample"
    using assms(1) s by (simp add: r_def unat_word_ariths)
  then have eq: "unat (fs_loss_rate_permille (model_loss_rate True tp flow)) = (3 * unat r + unat sample) div 4"
    by (simp add: new unat_div_distrib)
  moreover have "unat sample = 1000 * lost div (lost + delivered)" if "lost \<le> 4294967"
    using that unfolding sample by simp
  ultimately show ?thesis using assms(1) s by (simp add: r_def)
qed

text \<open>
  C25. The loss-rate average stays a permille value: with fewer than 2^32 segments lost and delivered
  in the round it never exceeds 1000 (so the compensation factor is defined), even in a round that
  loses so much that the product in 32 bits wraps; and below 4.29 million losses in a round it is
  exactly three quarters of the old value plus a quarter of the measured rate.
\<close>

theorem loss_rate_permille_bounded:
  assumes "unat (fs_loss_rate_permille flow) \<le> 1000"
    and "lost = unat (tp_lost tp - fs_last_lost flow)" "delivered = unat (tp_delivered tp - fs_last_loss_rate_delivered flow)"
    and "lost + delivered < 2 ^ 32"
  shows "unat (fs_loss_rate_permille (model_loss_rate True tp flow)) \<le> 1000
    \<and> (lost \<le> 4294967 \<longrightarrow> unat (fs_loss_rate_permille (model_loss_rate True tp flow)) =
        (3 * unat (fs_loss_rate_permille flow) + 1000 * lost div (lost + delivered)) div 4)"
  by (rule loss_rate_value [OF assms])

theorem loss_rate_permille_bounded_witness:
  "unat (fs_loss_rate_permille (model_loss_rate True (idle_sock\<lparr>tp_lost := 20, tp_delivered := 80\<rparr>)
     (zero_flow\<lparr>fs_loss_rate_permille := 100\<rparr>))) = 125"
proof -
  let ?tp = "idle_sock\<lparr>tp_lost := 20, tp_delivered := 80\<rparr>" and ?f = "zero_flow\<lparr>fs_loss_rate_permille := 100\<rparr>"
  have "unat (fs_loss_rate_permille (model_loss_rate True ?tp ?f)) \<le> 1000
    \<and> (20 \<le> (4294967 :: nat) \<longrightarrow> unat (fs_loss_rate_permille (model_loss_rate True ?tp ?f)) =
        (3 * unat (fs_loss_rate_permille ?f) + 1000 * 20 div (20 + 80)) div 4)"
    by (rule loss_rate_permille_bounded) (simp_all add: zero_flow_def)
  then show ?thesis by simp
qed

end
