(* ===== verification/CongLoss.thy ===== *)
theory CongLoss
  imports CongMath
begin

text \<open>
  Losses and the window. Two runs of the ACK handler from the same state are compared whose sockets
  and samples differ in whatever speaks of losses: the segments counted lost so far, those lost,
  retransmitted or selectively acknowledged now, the congestion state, the slow-start threshold and
  the window the kernel has cut. With M2 on and an estimate in hand, a second run with more
  losses never ends with a smaller window or a lower pacing rate; without M3 both end with the same.
\<close>

unbundle bit_operations_syntax

section \<open>Two sockets that differ in their losses\<close>

definition same_but_losses :: "tcp_sock \<Rightarrow> tcp_sock \<Rightarrow> bool" where
  "same_but_losses tp tp' =
     (sk_cookie tp' = sk_cookie tp \<and> sk_pacing_rate tp' = sk_pacing_rate tp
      \<and> sk_max_pacing_rate tp' = sk_max_pacing_rate tp \<and> sk_pacing_status tp' = sk_pacing_status tp
      \<and> sk_wmem_alloc tp' = sk_wmem_alloc tp \<and> tp_srtt_us tp' = tp_srtt_us tp
      \<and> tp_packets_out tp' = tp_packets_out tp \<and> tp_max_packets_out tp' = tp_max_packets_out tp
      \<and> tp_is_cwnd_limited tp' = tp_is_cwnd_limited tp \<and> tp_delivered tp' = tp_delivered tp
      \<and> tp_delivered_ce tp' = tp_delivered_ce tp \<and> tp_app_limited tp' = tp_app_limited tp
      \<and> tp_mss_cache tp' = tp_mss_cache tp \<and> tp_write_seq tp' = tp_write_seq tp \<and> tp_snd_nxt tp' = tp_snd_nxt tp)"

abbreviation (input) with_loss :: "u32 \<Rightarrow> u32 \<Rightarrow> skyline_flow_state \<Rightarrow> skyline_flow_state" where
  "with_loss r l f \<equiv> f\<lparr>fs_loss_rate_permille := r, fs_last_lost := l\<rparr>"

lemma model_blocks_losses:
  assumes "same_but_losses tp tp'"
  shows "skyline_new_round tp' f (sample\<lparr>rs_losses := n\<rparr>) = skyline_new_round tp f sample"
    and "model_min_rtt now cfg (sample\<lparr>rs_losses := n\<rparr>) f = model_min_rtt now cfg sample f"
    and "model_min_srtt now cfg tp' f = model_min_srtt now cfg tp f"
    and "model_take_sample tp' (sample\<lparr>rs_losses := n\<rparr>) f = model_take_sample tp sample f"
    and "skyline_emit tp' = skyline_emit tp"
proof -
  have f: "tp_delivered tp' = tp_delivered tp" "tp_packets_out tp' = tp_packets_out tp" "tp_srtt_us tp' = tp_srtt_us tp"
    "tp_mss_cache tp' = tp_mss_cache tp" "sk_cookie tp' = sk_cookie tp"
    using assms by (simp_all add: same_but_losses_def)
  show "skyline_new_round tp' f (sample\<lparr>rs_losses := n\<rparr>) = skyline_new_round tp f sample"
    by (simp add: skyline_new_round_def skyline_round_reached_def f)
  show "model_min_rtt now cfg (sample\<lparr>rs_losses := n\<rparr>) f = model_min_rtt now cfg sample f"
    by (simp add: model_min_rtt_def cong: if_cong)
  show "model_min_srtt now cfg tp' f = model_min_srtt now cfg tp f"
    by (simp add: model_min_srtt_def f)
  have "skyline_rate_sample_bps tp' (sample\<lparr>rs_losses := n\<rparr>) = skyline_rate_sample_bps tp sample"
    "skyline_sample_measures_path tp' (sample\<lparr>rs_losses := n\<rparr>) = skyline_sample_measures_path tp sample"
    by (simp_all add: skyline_rate_sample_bps_def skyline_sample_measures_path_def f)
  then show "model_take_sample tp' (sample\<lparr>rs_losses := n\<rparr>) f = model_take_sample tp sample f"
    by (simp add: model_take_sample_def)
  show "skyline_emit tp' = skyline_emit tp" by (simp add: skyline_emit_def fun_eq_iff f)
qed

lemma loss_rate_losses:
  assumes "same_but_losses tp tp'"
  obtains r l where "model_loss_rate nr tp' f = with_loss r l (model_loss_rate nr tp f)"
    "r = fs_loss_rate_permille (model_loss_rate nr tp' f)"
proof -
  have "tp_delivered tp' = tp_delivered tp" using assms by (simp add: same_but_losses_def)
  then have "model_loss_rate nr tp' f = with_loss (fs_loss_rate_permille (model_loss_rate nr tp' f))
      (fs_last_lost (model_loss_rate nr tp' f)) (model_loss_rate nr tp f)"
    by (simp add: model_loss_rate_def Let_def)
  then show thesis using that by blast
qed

lemma plateau_with_loss: "model_plateau m cfg (with_loss r l f) = with_loss r l (model_plateau m cfg f)"
  by (simp add: model_plateau_def)

lemma guardrail_losses:
  assumes "same_but_losses tp tp'"
  shows "snd (model_guardrail nr m tp' cfg k' (with_loss r l f)) = with_loss r l (snd (model_guardrail nr m tp cfg k f))"
proof (cases "nr \<and> has_feature cfg ADAPTIVE_CWND")
  case True
  have same: "tp_srtt_us tp' = tp_srtt_us tp" "tp_delivered_ce tp' = tp_delivered_ce tp"
    using assms by (simp_all add: same_but_losses_def)
  have "skyline_base_rtt_us (with_loss r l f) = skyline_base_rtt_us f" by (simp add: skyline_base_rtt_us_def)
  then have trip: "queue_tripped tp' cfg (with_loss r l f) = queue_tripped tp cfg f"
    by (simp add: queue_tripped_def skyline_queue_delay_us_def skyline_max_queue_delay_us_def same)
  have eq: "snd (model_guardrail nr m tp cfg k f) =
      (let f' = f\<lparr>fs_queue_clamped := of_bool (queue_tripped tp cfg f)\<rparr>;
           f' = (if fs_mode f = SKYLINE_MODE_STARTUP then model_plateau m cfg f' else f');
           f' = (if fs_mode f = SKYLINE_MODE_STARTUP
                   \<and> (fs_plateau_rounds f' \<ge> k_startup_plateau_rtts cfg \<or> queue_tripped tp cfg f)
                then f'\<lparr>fs_mode := SKYLINE_MODE_CRUISE\<rparr> else f')
       in f'\<lparr>fs_prior_round_bw_bps := fs_bw_bps f, fs_last_delivered_ce := tp_delivered_ce tp\<rparr>)" for tp k f
    using guardrail_on [of nr cfg k m tp f] True by (metis snd_conv)
  show ?thesis
    unfolding eq trip same
    by (simp add: Let_def model_plateau_def)
next
  case False
  then show ?thesis by (simp add: guardrail_off)
qed

text \<open>The model after the ACK differs in nothing but the loss rate and what it was measured from.\<close>

lemma model_blocks_loss_fields [cc_frame]:
  "fs_loss_rate_permille (snd (skyline_new_round tp flow sample)) = fs_loss_rate_permille flow"
  "fs_loss_rate_permille (model_min_rtt now config sample flow) = fs_loss_rate_permille flow"
  "fs_loss_rate_permille (model_min_srtt now config tp flow) = fs_loss_rate_permille flow"
  "fs_loss_rate_permille (snd (model_close_round nr config flow)) = fs_loss_rate_permille flow"
  "fs_loss_rate_permille (model_take_sample tp sample flow) = fs_loss_rate_permille flow"
  "fs_last_lost (snd (skyline_new_round tp flow sample)) = fs_last_lost flow"
  "fs_last_lost (model_min_rtt now config sample flow) = fs_last_lost flow"
  "fs_last_lost (model_min_srtt now config tp flow) = fs_last_lost flow"
  "fs_last_lost (snd (model_close_round nr config flow)) = fs_last_lost flow"
  "fs_last_lost (model_take_sample tp sample flow) = fs_last_lost flow"
  "fs_last_loss_rate_delivered (snd (skyline_new_round tp flow sample)) = fs_last_loss_rate_delivered flow"
  "fs_last_loss_rate_delivered (model_min_rtt now config sample flow) = fs_last_loss_rate_delivered flow"
  "fs_last_loss_rate_delivered (model_min_srtt now config tp flow) = fs_last_loss_rate_delivered flow"
  "fs_last_loss_rate_delivered (snd (model_close_round nr config flow)) = fs_last_loss_rate_delivered flow"
  "fs_last_loss_rate_delivered (model_take_sample tp sample flow) = fs_last_loss_rate_delivered flow"
  by (simp_all add: skyline_new_round_def model_min_rtt_def model_min_srtt_def model_close_round_def
      model_take_sample_def Let_def)

lemma before_guardrail_losses:
  assumes "same_but_losses tp tp'" "model_before_guardrail now tp cfg sample flow = (m, g)"
  obtains r l where "model_before_guardrail now tp' cfg (sample\<lparr>rs_losses := n\<rparr>) flow = (m, with_loss r l g)"
    "\<exists>f. g = model_loss_rate (skyline_round_reached sample (fs_next_round_delivered flow)) tp f
        \<and> r = fs_loss_rate_permille (model_loss_rate (skyline_round_reached sample (fs_next_round_delivered flow)) tp' f)
        \<and> fs_loss_rate_permille f = fs_loss_rate_permille flow \<and> fs_last_lost f = fs_last_lost flow
        \<and> fs_last_loss_rate_delivered f = fs_last_loss_rate_delivered flow"
proof -
  define f1 where "f1 = model_min_srtt now cfg tp (model_min_rtt now cfg sample (snd (skyline_new_round tp flow sample)))"
  define nr where "nr = skyline_round_reached sample (fs_next_round_delivered flow)"
  define f2 where "f2 = model_take_sample tp sample (snd (model_close_round nr cfg f1))"
  have new: "fst (skyline_new_round tp flow sample) = nr" by (simp add: skyline_new_round_def nr_def)
  note blocks = model_blocks_losses [OF assms(1)]
  have m: "m = fst (model_close_round nr cfg f1)" "g = model_loss_rate nr tp f2"
    using assms(2) by (simp_all add: model_before_guardrail_def Let_def split_beta new flip: f1_def f2_def)
  have run: "model_before_guardrail now tp' cfg (sample\<lparr>rs_losses := n\<rparr>) flow = (m, model_loss_rate nr tp' f2)"
    by (simp add: model_before_guardrail_def Let_def split_beta blocks new m flip: f1_def f2_def)
  obtain r l where rl: "model_loss_rate nr tp' f2 = with_loss r l (model_loss_rate nr tp f2)"
    "r = fs_loss_rate_permille (model_loss_rate nr tp' f2)" using loss_rate_losses [OF assms(1)] by blast
  have "fs_loss_rate_permille f2 = fs_loss_rate_permille flow \<and> fs_last_lost f2 = fs_last_lost flow
      \<and> fs_last_loss_rate_delivered f2 = fs_last_loss_rate_delivered flow"
    by (simp add: f2_def f1_def cc_frame)
  then show thesis
    using that [OF run [unfolded rl(1), folded m(2)]] m(2) rl(2) unfolding nr_def by blast
qed

lemma update_model_losses:
  assumes "same_but_losses tp tp'" "skyline_update_model tp cfg sample k flow = (nr, k1, f1)"
    and "skyline_update_model tp' cfg (sample\<lparr>rs_losses := n\<rparr>) k flow = (nr', k2, f2)"
  obtains r l f where "f2 = with_loss r l f1" "r = fs_loss_rate_permille (model_loss_rate nr tp' f)"
    "fs_loss_rate_permille f1 = fs_loss_rate_permille (model_loss_rate nr tp f)"
    "fs_loss_rate_permille f = fs_loss_rate_permille flow" "fs_last_lost f = fs_last_lost flow"
    "fs_last_loss_rate_delivered f = fs_last_loss_rate_delivered flow"
proof -
  define now where "now = kn_clock k (kn_step k) div 1000"
  obtain m g where g: "model_before_guardrail now tp cfg sample flow = (m, g)" by fastforce
  obtain r l f where g': "model_before_guardrail now tp' cfg (sample\<lparr>rs_losses := n\<rparr>) flow = (m, with_loss r l g)"
    and f: "g = model_loss_rate (skyline_round_reached sample (fs_next_round_delivered flow)) tp f"
      "r = fs_loss_rate_permille (model_loss_rate (skyline_round_reached sample (fs_next_round_delivered flow)) tp' f)"
      "fs_loss_rate_permille f = fs_loss_rate_permille flow" "fs_last_lost f = fs_last_lost flow"
      "fs_last_loss_rate_delivered f = fs_last_loss_rate_delivered flow"
    using before_guardrail_losses [OF assms(1) g] by metis
  have round: "skyline_round_reached (sample\<lparr>rs_losses := n\<rparr>) x = skyline_round_reached sample x" for x
    by (simp add: skyline_round_reached_def)
  have nr: "nr = skyline_round_reached sample (fs_next_round_delivered flow)"
    and gr: "model_guardrail nr m tp cfg (kn_tick k) g = (k1, f1)"
    using assms(2) g by (auto simp: update_model_alt Let_def now_def split: prod.splits)
  have "f2 = snd (model_guardrail nr m tp' cfg (kn_tick k) (with_loss r l g))"
    using assms(3) g' by (auto simp: update_model_alt Let_def now_def round nr split: prod.splits)
  then have "f2 = with_loss r l f1" using gr by (simp add: guardrail_losses [OF assms(1), where k = "kn_tick k"])
  moreover have "fs_loss_rate_permille f1 = fs_loss_rate_permille g" using guardrail_fields [OF gr] by simp
  ultimately show thesis using that f nr by simp
qed

section \<open>More losses, a higher loss rate, a larger compensation\<close>

lemma div_ratio_mono: "a * d \<le> c * b \<Longrightarrow> 0 < d \<Longrightarrow> a div b \<le> c div (d :: nat)"
proof (cases "b = 0")
  case False
  assume le: "a * d \<le> c * b" and d: "0 < d"
  have "a div b * d * b \<le> a * d" by (metis div_times_less_eq_dividend mult.assoc mult.commute mult_le_mono1)
  also note le
  finally have "a div b * d \<le> c" using False by (simp only: mult_le_cancel2)
  then show ?thesis using d by (simp add: less_eq_div_iff_mult_less_eq)
qed simp

lemma loss_rate_mono:
  assumes "unat (fs_loss_rate_permille f) \<le> 1000" "tp_delivered tp' = tp_delivered tp"
    and "unat (tp_lost tp - fs_last_lost f) \<le> unat (tp_lost tp' - fs_last_lost f)" "unat (tp_lost tp' - fs_last_lost f) \<le> 4294967"
    and "unat (tp_lost tp' - fs_last_lost f) + unat (tp_delivered tp - fs_last_loss_rate_delivered f) < 2 ^ 32"
  shows "fs_loss_rate_permille (model_loss_rate nr tp f) \<le> fs_loss_rate_permille (model_loss_rate nr tp' f)"
proof (cases nr)
  case True
  define a b d where "a = unat (tp_lost tp - fs_last_lost f)" and "b = unat (tp_lost tp' - fs_last_lost f)"
    and "d = unat (tp_delivered tp - fs_last_loss_rate_delivered f)"
  have ab: "a \<le> b" "b \<le> 4294967" "b + d < 2 ^ 32" using assms(3-5) by (simp_all add: a_def b_def d_def)
  have r1: "unat (fs_loss_rate_permille (model_loss_rate True tp f)) =
      (3 * unat (fs_loss_rate_permille f) + 1000 * a div (a + d)) div 4"
    using loss_rate_value [OF assms(1) a_def d_def] ab by simp
  have r2: "unat (fs_loss_rate_permille (model_loss_rate True tp' f)) =
      (3 * unat (fs_loss_rate_permille f) + 1000 * b div (b + d)) div 4"
    using loss_rate_value [of f b tp' d, OF assms(1) b_def] ab d_def assms(2) by simp
  have "1000 * a div (a + d) \<le> 1000 * b div (b + d)"
  proof (cases "b = 0")
    case False
    have "1000 * a * (b + d) \<le> 1000 * b * (a + d)" using ab(1) by (simp add: algebra_simps)
    then show ?thesis using False by (intro div_ratio_mono) simp_all
  qed (use ab(1) in simp)
  then show ?thesis using True r1 r2 by (simp add: word_le_nat_alt div_le_mono)
qed (simp add: model_loss_rate_def)

lemma inflation_mono:
  assumes "a \<le> b"
  shows "unat (loss_inflation_permille a cfg) \<le> unat (loss_inflation_permille b cfg)"
proof -
  define p where "p x = min (min x (k_loss_inflation_max_permille cfg)) SKYLINE_LOSS_INFLATION_MAX_PERMILLE" for x
  have "p x \<le> 500" for x
    unfolding p_def SKYLINE_LOSS_INFLATION_MAX_PERMILLE_def by (rule min.cobounded2)
  then have le: "unat (p x) \<le> 500" for x by (simp add: word_le_nat_alt)
  then have sub: "unat (1000 - p x) = 1000 - unat (p x)" for x
    by (subst unat_sub) (simp_all add: word_le_nat_alt order_trans [OF le])
  have "p a \<le> p b" using assms unfolding p_def by (intro min.mono) auto
  then have "1000 - unat (p b) \<le> 1000 - unat (p a)" by (simp add: word_le_nat_alt)
  then have "1000000 div (1000 - unat (p a)) \<le> 1000000 div (1000 - unat (p b))"
    using le [of b] by (intro div_le_mono2) simp_all
  then show ?thesis
    by (simp add: loss_inflation_permille_def Let_def unat_div_distrib sub flip: p_def)
qed

section \<open>The window and the pacing rate\<close>

text \<open>With an estimate, the window and the pacing rate are functions of the model and the segment size.\<close>

definition m2_window :: "skyline_flow_state \<Rightarrow> kernel_config \<Rightarrow> tcp_sock \<Rightarrow> u32" where
  "m2_window flow cfg tp =
     (let cwnd = skyline_bdp_packets tp flow cfg (window_gain flow cfg);
          cwnd = (if k_max_cwnd_packets cfg \<noteq> 0 \<and> cwnd > k_max_cwnd_packets cfg then k_max_cwnd_packets cfg else cwnd)
      in if cwnd < skyline_min_cwnd cfg then skyline_min_cwnd cfg else cwnd)"

lemma target_estimate:
  assumes "fs_bw_bps flow \<noteq> 0" "fs_min_rtt_us flow \<noteq> 0"
  shows "tp_snd_cwnd (skyline_set_cwnd_target kf flow cfg acked rto tp) = m2_window flow cfg tp"
  using assms by (simp add: skyline_set_cwnd_target_def m2_window_def cwnd_cap_def Let_def)

definition m4_rate :: "skyline_flow_state \<Rightarrow> kernel_config \<Rightarrow> tcp_sock \<Rightarrow> u64" where
  "m4_rate flow cfg tp =
     (let rate = max (fs_bw_bps flow * ucast (pacing_gain flow cfg) div 1000) (skyline_pacing_floor_bps tp flow cfg);
          rate = (if k_max_pacing_bps cfg \<noteq> 0 then min rate (k_max_pacing_bps cfg) else rate)
      in min (rate div 8) (sk_max_pacing_rate tp))"

lemma pacing_estimate:
  assumes "has_feature cfg PACING" "fs_bw_bps flow \<noteq> 0"
  shows "sk_pacing_rate (snd (skyline_apply_pacing flow cfg k tp)) = m4_rate flow cfg tp"
  using assms by (auto simp: skyline_apply_pacing_def m4_rate_def Let_def max_def min_def not_le not_less)

lemma apply_pacing_mss [simp]: "tp_mss_cache (snd (skyline_apply_pacing f cfg k tp)) = tp_mss_cache tp"
  by (simp add: skyline_apply_pacing_def skyline_apply_auto_pacing_rate_def Let_def)

definition loss_twin :: "skyline_flow_state \<Rightarrow> skyline_flow_state \<Rightarrow> bool" where
  "loss_twin f g =
     (fs_bw_bps g = fs_bw_bps f \<and> fs_min_rtt_us g = fs_min_rtt_us f \<and> fs_min_srtt_us g = fs_min_srtt_us f
      \<and> fs_mode g = fs_mode f \<and> fs_queue_clamped g = fs_queue_clamped f \<and> fs_config g = fs_config f)"

lemma twin_gains:
  assumes "loss_twin f g"
  shows "window_gain g cfg = window_gain f cfg" "skyline_base_rtt_us g = skyline_base_rtt_us f"
    and "tp_mss_cache tp' = tp_mss_cache tp \<Longrightarrow> tp_srtt_us tp' = tp_srtt_us tp \<Longrightarrow>
      skyline_pacing_floor_bps tp' g cfg = skyline_pacing_floor_bps tp f cfg"
  using assms by (simp_all add: loss_twin_def window_gain_def skyline_base_rtt_us_def skyline_pacing_floor_bps_def Let_def)

lemma twin_same_inflation:
  assumes "loss_twin f g" "skyline_loss_inflation_permille g cfg = skyline_loss_inflation_permille f cfg"
    and "same_but_losses tp tp'" "fs_bw_bps f \<noteq> 0" "fs_min_rtt_us f \<noteq> 0"
  shows "m2_window g cfg tp' = m2_window f cfg tp" "m4_rate g cfg tp' = m4_rate f cfg tp"
proof -
  have f: "fs_bw_bps g = fs_bw_bps f" "fs_min_rtt_us g = fs_min_rtt_us f" "fs_mode g = fs_mode f"
    "fs_queue_clamped g = fs_queue_clamped f" "tp_mss_cache tp' = tp_mss_cache tp" "tp_srtt_us tp' = tp_srtt_us tp"
    "sk_max_pacing_rate tp' = sk_max_pacing_rate tp"
    using assms(1,3) by (simp_all add: loss_twin_def same_but_losses_def)
  note t = twin_gains [OF assms(1)]
  have "skyline_bdp_packets tp' g cfg n = skyline_bdp_packets tp f cfg n" for n
    using assms(4,5) by (simp only: skyline_bdp_packets_def f t assms(2) simp_thms if_False)
  then show "m2_window g cfg tp' = m2_window f cfg tp" by (simp only: m2_window_def t)
  have "pacing_gain g cfg = pacing_gain f cfg" by (simp only: pacing_gain_def f assms(2))
  then show "m4_rate g cfg tp' = m4_rate f cfg tp" by (simp only: m4_rate_def f t(3) [OF f(5,6)])
qed

lemma gain_bounds:
  assumes "kernel_config_safe cfg"
  shows "unat (window_gain f cfg) \<le> 1000000"
    and "unat (pacing_gain f cfg) = (if fs_queue_clamped f \<noteq> 0 then (if k_guardrail_gain_permille cfg \<noteq> 0 then unat (k_guardrail_gain_permille cfg) else 1000)
      else unat (if has_feature cfg ADAPTIVE_CWND \<and> fs_mode f = SKYLINE_MODE_STARTUP then k_startup_gain_permille cfg else k_cruise_pacing_permille cfg)
        * unat (skyline_loss_inflation_permille f cfg) div 1000)"
    and "unat (pacing_gain f cfg) \<le> 2000000"
proof -
  define g where "g = (if has_feature cfg ADAPTIVE_CWND \<and> fs_mode f = SKYLINE_MODE_STARTUP then k_startup_gain_permille cfg else k_cruise_pacing_permille cfg)"
  have safe: "unat (k_startup_gain_permille cfg) \<le> 1000000" "unat (k_cruise_inflight_permille cfg) \<le> 1000000"
    "unat (k_cruise_pacing_permille cfg) \<le> 1000000" "unat (k_guardrail_gain_permille cfg) \<le> 1000"
    using assms by (simp_all add: kernel_config_safe_def gain_in_range_def)
  then show "unat (window_gain f cfg) \<le> 1000000" by (simp add: window_gain_def)
  have g: "unat g \<le> 1000000" using safe by (simp add: g_def)
  have i: "unat (skyline_loss_inflation_permille f cfg) \<le> 2000"
    using loss_inflation_bound by (simp add: skyline_loss_inflation_permille_def)
  have le: "unat g * unat (skyline_loss_inflation_permille f cfg) \<le> 1000000 * 2000" using g i by (rule mult_le_mono)
  then have "unat (g * skyline_loss_inflation_permille f cfg) = unat g * unat (skyline_loss_inflation_permille f cfg)"
    by (simp add: unat_word_ariths)
  then show eq: "unat (pacing_gain f cfg) = (if fs_queue_clamped f \<noteq> 0 then (if k_guardrail_gain_permille cfg \<noteq> 0 then unat (k_guardrail_gain_permille cfg) else 1000)
      else unat (if has_feature cfg ADAPTIVE_CWND \<and> fs_mode f = SKYLINE_MODE_STARTUP then k_startup_gain_permille cfg else k_cruise_pacing_permille cfg)
        * unat (skyline_loss_inflation_permille f cfg) div 1000)"
    unfolding pacing_gain_def Let_def g_def [symmetric] by (simp add: unat_div_distrib)
  have "unat g * unat (skyline_loss_inflation_permille f cfg) div 1000 \<le> 2000000"
    using div_le_mono [OF le, of 1000] by simp
  then show "unat (pacing_gain f cfg) \<le> 2000000" unfolding eq g_def [symmetric] using safe(4) by simp
qed

lemma bdp_reference_mono: "i \<le> j \<Longrightarrow> bdp_reference bw rtt gain i mss \<le> bdp_reference bw rtt gain j mss"
  by (simp add: bdp_reference_def div_le_mono)

lemma window_mono:
  assumes "loss_twin f g" "kernel_config_safe cfg" "tp_mss_cache tp' = tp_mss_cache tp"
    and "unat (skyline_loss_inflation_permille f cfg) \<le> unat (skyline_loss_inflation_permille g cfg)"
    and "fs_bw_bps f \<noteq> 0" "fs_min_rtt_us f \<noteq> 0"
    and "unat (fs_bw_bps f) \<le> 1000000000000" "unat (skyline_base_rtt_us f) \<le> 10000000"
    and "bdp_reference (unat (fs_bw_bps f)) (unat (skyline_base_rtt_us f)) (unat (window_gain f cfg)) 2000
      (unat (max (tp_mss_cache tp) 1)) < 2 ^ 32"
  shows "m2_window f cfg tp \<le> m2_window g cfg tp'"
proof -
  define n where "n h = bdp_reference (unat (fs_bw_bps f)) (unat (skyline_base_rtt_us f)) (unat (window_gain f cfg))
      (unat (skyline_loss_inflation_permille h cfg)) (unat (max (tp_mss_cache tp) 1))" for h
  have n: "n h < 2 ^ 32" for h
    using le_less_trans [OF bdp_reference_mono [OF loss_inflation_bound] assms(9)]
    by (simp add: n_def skyline_loss_inflation_permille_def)
  have g: "fs_bw_bps g = fs_bw_bps f" "fs_min_rtt_us g = fs_min_rtt_us f" using assms(1) by (simp_all add: loss_twin_def)
  note t = twin_gains [OF assms(1)]
  have "unat (skyline_bdp_packets tp f cfg (window_gain f cfg)) = max (n f) (unat (skyline_min_cwnd cfg))"
    by (rule bdp_packets_value [OF assms(5-8) gain_bounds(1) [OF assms(2)] n_def n])
  moreover have "unat (skyline_bdp_packets tp' g cfg (window_gain g cfg)) = max (n g) (unat (skyline_min_cwnd cfg))"
    using assms(5-8) n_def [of g] g t(1,2) assms(3) gain_bounds(1) [OF assms(2), of f]
    by (intro bdp_packets_value n) simp_all
  moreover have "n f \<le> n g" unfolding n_def using assms(4) by (rule bdp_reference_mono)
  ultimately have "skyline_bdp_packets tp f cfg (window_gain f cfg) \<le> skyline_bdp_packets tp' g cfg (window_gain g cfg)"
    by (simp add: word_le_nat_alt)
  then show ?thesis by (auto simp: m2_window_def Let_def)
qed

lemma pacing_mono:
  assumes "loss_twin f g" "kernel_config_safe cfg" "same_but_losses tp tp'"
    and "unat (skyline_loss_inflation_permille f cfg) \<le> unat (skyline_loss_inflation_permille g cfg)"
    and "unat (fs_bw_bps f) \<le> 1000000000000"
  shows "m4_rate f cfg tp \<le> m4_rate g cfg tp'"
proof -
  have same: "fs_bw_bps g = fs_bw_bps f" "fs_mode g = fs_mode f" "fs_queue_clamped g = fs_queue_clamped f"
    "sk_max_pacing_rate tp' = sk_max_pacing_rate tp"
    "skyline_pacing_floor_bps tp' g cfg = skyline_pacing_floor_bps tp f cfg"
    using assms(1,3) twin_gains(3) [OF assms(1)] by (simp_all add: loss_twin_def same_but_losses_def)
  have gain: "unat (pacing_gain f cfg) \<le> unat (pacing_gain g cfg)"
    unfolding gain_bounds(2) [OF assms(2)] same using assms(4) by (simp add: div_le_mono)
  have val: "unat (fs_bw_bps f * ucast (pacing_gain h cfg) div 1000) = unat (fs_bw_bps f) * unat (pacing_gain h cfg) div 1000" for h
  proof (rule unat_scale)
    have "unat (fs_bw_bps f) * unat (pacing_gain h cfg) \<le> 1000000000000 * 2000000"
      using assms(5) gain_bounds(3) [OF assms(2)] by (rule mult_le_mono)
    then show "unat (fs_bw_bps f) * unat (pacing_gain h cfg) < 2 ^ 64" by simp
  qed
  have div8: "a \<le> b \<Longrightarrow> a div 8 \<le> b div 8" for a b :: u64
    by (simp add: word_le_nat_alt unat_div_distrib div_le_mono)
  define r where "r h = max (fs_bw_bps f * ucast (pacing_gain h cfg) div 1000) (skyline_pacing_floor_bps tp f cfg)" for h
  have "fs_bw_bps f * ucast (pacing_gain f cfg) div 1000 \<le> fs_bw_bps f * ucast (pacing_gain g cfg) div 1000"
    unfolding word_le_nat_alt val using gain by (simp add: div_le_mono)
  then have r: "r f \<le> r g" unfolding r_def by (rule max.mono) simp
  have "(if k_max_pacing_bps cfg \<noteq> 0 then min (r f) (k_max_pacing_bps cfg) else r f)
      \<le> (if k_max_pacing_bps cfg \<noteq> 0 then min (r g) (k_max_pacing_bps cfg) else r g)"
    using r min.mono [OF r order_refl, of "k_max_pacing_bps cfg"] by simp
  from div8 [OF this] show ?thesis
    unfolding m4_rate_def Let_def same r_def [symmetric] by (intro min.mono) simp_all
qed

section \<open>Two ACKs\<close>

text \<open>The kernel after the configuration has been looked at, while no newer one is published.\<close>

definition looked :: "rate_sample \<Rightarrow> skyline_flow_state \<Rightarrow> kernel \<Rightarrow> kernel" where
  "looked sample flow k =
     (if skyline_round_reached sample (fs_next_round_delivered flow) \<and> kn_has_seq k then kn_tick (kn_tick k) else kn_tick k)"

lemma steady_ack:
  assumes "flow_wf flow" "c_flow c = Some flow" "skyline_has_config flow" "has_feature (fs_config flow) ADAPTIVE_CWND"
    and "\<forall>n. kn_seq k n = fs_config_seq flow"
    and "skyline_cong_control kf ack flag (Some sample) k c = (k', c')" "c_flow c' = Some flow'"
  obtains nr k2 f2 where "skyline_update_model (c_tp c) (fs_config flow) sample (looked sample flow k) flow = (nr, k2, f2)"
    "wf_same f2 flow'" "fs_config flow' = fs_config flow"
    "fs_bw_bps flow' \<noteq> 0 \<longrightarrow> fs_min_rtt_us flow' \<noteq> 0 \<longrightarrow> tp_snd_cwnd (c_tp c') = m2_window flow' (fs_config flow) (c_tp c)
      \<and> (has_feature (fs_config flow) PACING \<longrightarrow> sk_pacing_rate (c_tp c') = m4_rate flow' (fs_config flow) (c_tp c))"
proof -
  let ?cfg = "fs_config flow" and ?tp = "c_tp c"
  have get: "skyline_flow_get k c = (Some flow, kn_tick k)" using assms(2) by (simp add: skyline_flow_get_def)
  have cfg: "ack_config sample ?tp (kn_tick k) flow = (True, looked sample flow k, flow)"
    using assms(3,5) by (simp add: ack_config_def looked_def read_config_seq_def cc_frame)
  from cong_control_run [OF get cfg, where kf = kf and ack = ack and flag = flag]
  obtain nr k2 f2 k3 f3 k4 tp4 k5 tp5 f5 tp6 where r:
    "skyline_update_model ?tp ?cfg sample (looked sample flow k) flow = (nr, k2, f2)"
    "ack_losses sample ?tp ?cfg k2 f2 = (k3, f3)" "skyline_apply_pacing f3 ?cfg k3 ?tp = (k4, tp4)"
    "ack_window kf flag sample ?cfg k4 tp4 f3 = (k5, tp5, f5)"
    "tp6 = (if has_feature ?cfg (ADAPTIVE_CWND OR PACING) then skyline_mark_app_limited kf tp5 else tp5)"
    "skyline_cong_control kf ack flag (Some sample) k c = (ack_metrics sample tp6 ?cfg k5, c\<lparr>c_tp := tp6, c_flow := Some f5\<rparr>)"
    by metis
  have tp5: "tp5 = skyline_set_cwnd_target kf f3 ?cfg (rs_acked_sacked sample) (icsk_ca_state tp4 = TCP_CA_Loss) tp4"
    and f5: "f5 = f3" using r(4) assms(4) by (auto simp: ack_window_def)
  have flow': "flow' = f3" "c_tp c' = tp6" using r(6) assms(6,7) f5 by auto
  have tp4: "tp4 = snd (skyline_apply_pacing f3 ?cfg k3 ?tp)" using r(3) by simp
  have out: "tp_snd_cwnd (c_tp c') = tp_snd_cwnd tp5" "sk_pacing_rate (c_tp c') = sk_pacing_rate tp5"
    using r(5) flow' by simp_all
  have "m2_window f3 ?cfg tp4 = m2_window f3 ?cfg ?tp" if "fs_bw_bps f3 \<noteq> 0" "fs_min_rtt_us f3 \<noteq> 0"
    using tp4 that by (simp add: m2_window_def skyline_bdp_packets_def)
  then have "fs_bw_bps f3 \<noteq> 0 \<longrightarrow> fs_min_rtt_us f3 \<noteq> 0 \<longrightarrow> tp_snd_cwnd (c_tp c') = m2_window f3 ?cfg ?tp
      \<and> (has_feature ?cfg PACING \<longrightarrow> sk_pacing_rate (c_tp c') = m4_rate f3 ?cfg ?tp)"
    using tp4 pacing_estimate [of ?cfg f3 k3 ?tp] by (simp add: out tp5 target_estimate target_keeps_pacing)
  moreover have same: "wf_same f2 f3" using ack_losses_same [OF r(2)] by simp
  moreover have "fs_config f3 = ?cfg"
    using update_model_wf [OF assms(1,3) r(1)] same by (simp add: model_keeps_def wf_same_def)
  ultimately show thesis using that [OF r(1)] flow' by simp
qed

lemma loss_classifier_off:
  assumes "\<not> has_feature cfg LOSS_CLASSIFIER"
  shows "skyline_loss_inflation_permille f cfg = 1000"
  using assms has_feature_mask [OF LOSS_CLASSIFIER_def, simplified]
  by (simp add: skyline_loss_inflation_permille_def loss_inflation_permille_def)

lemma two_models:
  assumes "same_but_losses tp tp'" "skyline_update_model tp cfg sample k flow = (nr, k1, f1)"
    and "skyline_update_model tp' cfg (sample\<lparr>rs_losses := n\<rparr>) k flow = (nr', k2, f2)"
    and "wf_same f1 flow1" "wf_same f2 flow2"
  shows "loss_twin flow1 flow2"
    and "unat (fs_loss_rate_permille flow) \<le> 1000 \<Longrightarrow>
      unat (tp_lost tp - fs_last_lost flow) \<le> unat (tp_lost tp' - fs_last_lost flow) \<Longrightarrow>
      unat (tp_lost tp' - fs_last_lost flow) \<le> 4294967 \<Longrightarrow>
      unat (tp_lost tp' - fs_last_lost flow) + unat (tp_delivered tp' - fs_last_loss_rate_delivered flow) < 2 ^ 32 \<Longrightarrow>
      unat (skyline_loss_inflation_permille flow1 cfg') \<le> unat (skyline_loss_inflation_permille flow2 cfg')"
proof -
  obtain r l f where f: "f2 = with_loss r l f1" "r = fs_loss_rate_permille (model_loss_rate nr tp' f)"
    "fs_loss_rate_permille f1 = fs_loss_rate_permille (model_loss_rate nr tp f)"
    "fs_loss_rate_permille f = fs_loss_rate_permille flow" "fs_last_lost f = fs_last_lost flow"
    "fs_last_loss_rate_delivered f = fs_last_loss_rate_delivered flow"
    by (rule update_model_losses [OF assms(1-3)])
  show "loss_twin flow1 flow2" using assms(4,5) f(1) by (simp add: loss_twin_def wf_same_def)
  have rates: "fs_loss_rate_permille flow1 = fs_loss_rate_permille (model_loss_rate nr tp f)"
    "fs_loss_rate_permille flow2 = fs_loss_rate_permille (model_loss_rate nr tp' f)"
    using assms(4,5) f(1-3) by (simp_all add: wf_same_def)
  have tp: "tp_delivered tp' = tp_delivered tp" using assms(1) by (simp add: same_but_losses_def)
  show "unat (skyline_loss_inflation_permille flow1 cfg') \<le> unat (skyline_loss_inflation_permille flow2 cfg')"
    if "unat (fs_loss_rate_permille flow) \<le> 1000"
      "unat (tp_lost tp - fs_last_lost flow) \<le> unat (tp_lost tp' - fs_last_lost flow)"
      "unat (tp_lost tp' - fs_last_lost flow) \<le> 4294967"
      "unat (tp_lost tp' - fs_last_lost flow) + unat (tp_delivered tp' - fs_last_loss_rate_delivered flow) < 2 ^ 32"
    unfolding skyline_loss_inflation_permille_def rates
    using that tp f(4-6) by (intro inflation_mono loss_rate_mono) simp_all
qed


lemma cong_control_flow:
  assumes "c_flow c = Some flow" "skyline_cong_control kf ack flag (Some sample) k c = (k', c')"
  obtains flow' where "c_flow c' = Some flow'"
proof -
  have get: "skyline_flow_get k c = (Some flow, kn_tick k)" using assms(1) by (simp add: skyline_flow_get_def)
  obtain ready k1 f1 where cfg: "ack_config sample (c_tp c) (kn_tick k) flow = (ready, k1, f1)" by (rule prod_cases3)
  show thesis
  proof (cases ready)
    case True
    with cfg have "ack_config sample (c_tp c) (kn_tick k) flow = (True, k1, f1)" by simp
    from cong_control_run [OF get this, where kf = kf and ack = ack and flag = flag] assms(2) that show thesis
      by (metis conn.select_convs(2) conn.surjective conn.update_convs(2) snd_conv)
  next
    case False
    then show thesis using get cfg assms(2) that by (auto simp: skyline_cong_control_def Let_def)
  qed
qed

text \<open>The first ACK of the connection \<open>started\<close>, and the same after a timeout that lost fifty segments.\<close>

definition lossy_sock :: tcp_sock where
  "lossy_sock = (c_tp (snd started))\<lparr>icsk_ca_state := TCP_CA_Loss, tp_lost := 60, tp_lost_out := 50, tp_snd_cwnd := 1, tp_snd_ssthresh := 50\<rparr>"


end
