(* ===== verification/Policy.thy ===== *)
theory Policy
  imports Validate Metrics
begin

text \<open>
  The cgroup program \<^verbatim>\<open>bpf/skyline_policy.bpf.c\<close>: it hands new connections to \<open>skyline_cc\<close> and tunes
  the retransmission timeouts of connections -- their floor (\<open>TCP_BPF_RTO_MIN\<close>) and the ceiling of the
  backoff (\<open>TCP_RTO_MAX_MS\<close>) -- from the round-trip samples. The socket is the record of the options
  the program sets; whether a helper succeeds is an oracle by the number of the call.
\<close>

unbundle bit_operations_syntax

definition SKYLINE_RTO_MAX_FLOOR_MS :: u32 where "SKYLINE_RTO_MAX_FLOOR_MS = 1000"
definition SKYLINE_RTO_MAX_KERNEL_DEFAULT_MS :: u32 where "SKYLINE_RTO_MAX_KERNEL_DEFAULT_MS = 120000"
definition SKYLINE_RTO_MAX_DEFAULT_CONGESTION_RATIO_PERMILLE :: u32 where
  "SKYLINE_RTO_MAX_DEFAULT_CONGESTION_RATIO_PERMILLE = 2000"

definition AF_INET :: u32 where "AF_INET = 2"
definition AF_INET6 :: u32 where "AF_INET6 = 10"
definition BPF_SOCK_OPS_RTT_CB_FLAG :: u32 where "BPF_SOCK_OPS_RTT_CB_FLAG = 8"

datatype sock_op = ACTIVE_ESTABLISHED_CB | PASSIVE_ESTABLISHED_CB | RTT_CB | OTHER_CB

text \<open>
  One call: the fields of \<open>struct bpf_sock_ops\<close> the program reads, and \<open>delivered_ce\<close> of the TCP socket
  behind it, if \<open>bpf_tcp_sock\<close> finds one.
\<close>

record bpf_sock_ops =
  so_family :: u32
  so_op :: sock_op
  so_srtt_arg :: u32
  so_rtt_min :: u32
  so_fullsock :: bool
  so_delivered_ce :: "u32 option"

record skyline_rto_flow =
  rf_samples :: u32
  rf_applied_us :: u32
  rf_applied_rto_max_ms :: u32
  rf_last_delivered_ce :: u32

record policy_state =
  po_step :: nat
  po_ok :: "nat \<Rightarrow> bool"
  po_policy_enabled :: "u32 option"
  po_rto_tuning :: "kernel_rto_tuning option"
  po_stats :: "rack_rto_stats_rec option"
  po_flow :: "skyline_rto_flow option"
  po_congestion :: string
  po_rto_min_us :: u32
  po_rto_max_ms :: u32
  po_cb_flags :: u32

definition rto_stat :: "(rack_rto_stats_rec \<Rightarrow> rack_rto_stats_rec) \<Rightarrow> policy_state \<Rightarrow> policy_state" where
  "rto_stat f p = p\<lparr>po_stats := map_option f (po_stats p)\<rparr>"

text \<open>A helper that returns 0 has had its effect, one that fails has had none.\<close>

definition bpf_call :: "(policy_state \<Rightarrow> policy_state) \<Rightarrow> policy_state \<Rightarrow> bool \<times> policy_state" where
  "bpf_call eff p =
     (let p' = p\<lparr>po_step := Suc (po_step p)\<rparr>
      in if po_ok p (po_step p) then (True, eff p') else (False, p'))"

definition set_rto_min :: "u32 \<Rightarrow> policy_state \<Rightarrow> bool \<times> policy_state" where
  "set_rto_min v = bpf_call (\<lambda>p. p\<lparr>po_rto_min_us := v\<rparr>)"

definition set_rto_max :: "u32 \<Rightarrow> policy_state \<Rightarrow> bool \<times> policy_state" where
  "set_rto_max v = bpf_call (\<lambda>p. p\<lparr>po_rto_max_ms := v\<rparr>)"

definition set_cb_flags :: "u32 \<Rightarrow> policy_state \<Rightarrow> bool \<times> policy_state" where
  "set_cb_flags v = bpf_call (\<lambda>p. p\<lparr>po_cb_flags := v\<rparr>)"

definition skyline_is_supported_family :: "bpf_sock_ops \<Rightarrow> bool" where
  "skyline_is_supported_family ops = (so_family ops = AF_INET \<or> so_family ops = AF_INET6)"

definition skyline_rto_config :: "policy_state \<Rightarrow> kernel_rto_tuning option" where
  "skyline_rto_config p =
     (case po_rto_tuning p of
        Some tuning \<Rightarrow> (if kr_abi_version tuning \<noteq> SKYLINE_RTO_TUNING_ABI_VERSION then None else Some tuning)
      | None \<Rightarrow> None)"

definition skyline_rto_unsubscribe :: "policy_state \<Rightarrow> policy_state" where
  "skyline_rto_unsubscribe p =
     (let p = snd (set_cb_flags (po_cb_flags p AND NOT BPF_SOCK_OPS_RTT_CB_FLAG) p);
          p = snd (set_rto_min SKYLINE_RTO_MIN_KERNEL_DEFAULT_US p)
      in snd (set_rto_max SKYLINE_RTO_MAX_KERNEL_DEFAULT_MS p))"

definition rto_min_target :: "kernel_rto_tuning \<Rightarrow> u32 \<Rightarrow> u32 option" where
  "rto_min_target tuning base =
     (let target = ucast ((ucast base * ucast (kr_srtt_permille tuning) :: u64) div 1000);
          ceiling = (if kr_ceiling_us tuning < SKYLINE_RTO_MIN_KERNEL_DEFAULT_US then kr_ceiling_us tuning
                     else SKYLINE_RTO_MIN_KERNEL_DEFAULT_US)
      in if kr_floor_us tuning > ceiling then None
         else (let target = (if target < kr_floor_us tuning then kr_floor_us tuning else target)
               in Some (if target > ceiling then ceiling else target)))"

definition skyline_update_rto_min ::
  "kernel_rto_tuning \<Rightarrow> u32 \<Rightarrow> skyline_rto_flow \<Rightarrow> policy_state \<Rightarrow> skyline_rto_flow \<times> policy_state" where
  "skyline_update_rto_min tuning base flow p =
     (case rto_min_target tuning base of
        None \<Rightarrow> (flow, p)
      | Some target \<Rightarrow>
          (if rf_applied_us flow = target then (flow, rto_stat (\<lambda>s. s\<lparr>rto_unchanged := rto_unchanged s + 1\<rparr>) p)
           else (let (ok, p) = set_rto_min target p
                 in if \<not> ok then (flow, rto_stat (\<lambda>s. s\<lparr>rto_rejected := rto_rejected s + 1\<rparr>) p)
                    else (flow\<lparr>rf_applied_us := target\<rparr>, rto_stat (\<lambda>s. s\<lparr>rto_applied := rto_applied s + 1\<rparr>) p))))"

definition rto_congested :: "kernel_rto_tuning \<Rightarrow> bool \<Rightarrow> u32 \<Rightarrow> u32 \<Rightarrow> bool" where
  "rto_congested tuning fresh_ce srtt_us min_rtt_us =
     (let ratio_permille = (if kr_rto_max_congestion_ratio_permille tuning \<noteq> 0
                            then kr_rto_max_congestion_ratio_permille tuning
                            else SKYLINE_RTO_MAX_DEFAULT_CONGESTION_RATIO_PERMILLE);
          queueing = (min_rtt_us \<noteq> 0 \<and> (ucast srtt_us * 1000 :: u64) > ucast min_rtt_us * ucast ratio_permille)
      in fresh_ce \<or> queueing)"

definition rto_max_target :: "u32 \<Rightarrow> u32 \<Rightarrow> u32" where
  "rto_max_target base k =
     (let target_ms = ucast ((ucast base * ucast k :: u64) div 1000 div 1000);
          target_ms = (if target_ms < SKYLINE_RTO_MAX_FLOOR_MS then SKYLINE_RTO_MAX_FLOOR_MS else target_ms)
      in if target_ms > SKYLINE_RTO_MAX_KERNEL_DEFAULT_MS then SKYLINE_RTO_MAX_KERNEL_DEFAULT_MS else target_ms)"

definition skyline_update_rto_max ::
  "kernel_rto_tuning \<Rightarrow> u32 \<Rightarrow> u32 \<Rightarrow> u32 \<Rightarrow> u32 \<Rightarrow> skyline_rto_flow \<Rightarrow> policy_state \<Rightarrow> skyline_rto_flow \<times> policy_state" where
  "skyline_update_rto_max tuning delivered_ce srtt_us min_rtt_us base flow p =
     (let fresh_ce = (delivered_ce \<noteq> rf_last_delivered_ce flow);
          flow = flow\<lparr>rf_last_delivered_ce := delivered_ce\<rparr>
      in if kr_rto_max_normal_permille tuning = 0
         then (if rf_applied_rto_max_ms flow \<noteq> 0
               then (let (ok, p) = set_rto_max SKYLINE_RTO_MAX_KERNEL_DEFAULT_MS p
                     in (if ok then flow\<lparr>rf_applied_rto_max_ms := 0\<rparr> else flow, p))
               else (flow, p))
         else (let congested = rto_congested tuning fresh_ce srtt_us min_rtt_us;
                   k = (if congested then kr_rto_max_congested_permille tuning else kr_rto_max_normal_permille tuning);
                   p = (if congested then rto_stat (\<lambda>s. s\<lparr>rto_max_congested := rto_max_congested s + 1\<rparr>) p else p);
                   target_ms = rto_max_target base k
               in if rf_applied_rto_max_ms flow = target_ms
                  then (flow, rto_stat (\<lambda>s. s\<lparr>rto_max_unchanged := rto_max_unchanged s + 1\<rparr>) p)
                  else (let (ok, p) = set_rto_max target_ms p
                        in if \<not> ok then (flow, rto_stat (\<lambda>s. s\<lparr>rto_max_rejected := rto_max_rejected s + 1\<rparr>) p)
                           else (flow\<lparr>rf_applied_rto_max_ms := target_ms\<rparr>,
                                 rto_stat (\<lambda>s. s\<lparr>rto_max_applied := rto_max_applied s + 1\<rparr>) p))))"

text \<open>The storage of a flow, created zeroed; the helper may fail to create it.\<close>

definition rto_flow_get :: "policy_state \<Rightarrow> skyline_rto_flow option \<times> policy_state" where
  "rto_flow_get p =
     (case po_flow p of
        Some flow \<Rightarrow> (Some flow, p)
      | None \<Rightarrow>
          (let p' = p\<lparr>po_step := Suc (po_step p)\<rparr>
           in if po_ok p (po_step p)
              then (Some \<lparr>rf_samples = 0, rf_applied_us = 0, rf_applied_rto_max_ms = 0, rf_last_delivered_ce = 0\<rparr>, p')
              else (None, p')))"

definition skyline_update_rto_tuning :: "bpf_sock_ops \<Rightarrow> kernel_rto_tuning option \<Rightarrow> policy_state \<Rightarrow> policy_state" where
  "skyline_update_rto_tuning ops tuning_ptr p =
     (case tuning_ptr of
        None \<Rightarrow> skyline_rto_unsubscribe p
      | Some tuning \<Rightarrow>
          (if kr_enabled tuning = 0 then skyline_rto_unsubscribe p
           else (let p = rto_stat (\<lambda>s. s\<lparr>rtt_callbacks := rtt_callbacks s + 1\<rparr>) p;
                     srtt_us = drop_bit 3 (so_srtt_arg ops);
                     min_rtt_us = (if so_rtt_min ops = - 1 then 0 else so_rtt_min ops);
                     base = (if srtt_us > min_rtt_us then srtt_us else min_rtt_us)
                 in if base = 0 then p
                    else if \<not> so_fullsock ops then p
                    else (case so_delivered_ce ops of
                            None \<Rightarrow> p
                          | Some delivered_ce \<Rightarrow>
                              (case rto_flow_get p of
                                 (None, p) \<Rightarrow> p
                               | (Some flow, p) \<Rightarrow>
                                   (if rf_samples flow < kr_warmup_samples tuning
                                    then rto_stat (\<lambda>s. s\<lparr>skipped_warmup := skipped_warmup s + 1\<rparr>)
                                           (p\<lparr>po_flow := Some (flow\<lparr>rf_samples := rf_samples flow + 1\<rparr>)\<rparr>)
                                    else (let (flow, p) = skyline_update_rto_min tuning base flow p;
                                              (flow, p) = skyline_update_rto_max tuning delivered_ce srtt_us min_rtt_us
                                                            base flow p
                                          in p\<lparr>po_flow := Some flow\<rparr>)))))))"

definition sock_established :: "kernel_rto_tuning option \<Rightarrow> policy_state \<Rightarrow> policy_state" where
  "sock_established tuning_ptr p =
     (let p = rto_stat (\<lambda>s. s\<lparr>established_cb := established_cb s + 1\<rparr>) p;
          p = (case po_policy_enabled p of
                 Some enabled \<Rightarrow>
                   (if enabled \<noteq> 0 then snd (bpf_call (\<lambda>p. p\<lparr>po_congestion := SKYLINE_CC_NAME\<rparr>) p) else p)
               | None \<Rightarrow> p)
      in case tuning_ptr of
           None \<Rightarrow> p
         | Some tuning \<Rightarrow>
             (if kr_enabled tuning = 0 then p
              else (let (ok, p) = set_cb_flags (po_cb_flags p OR BPF_SOCK_OPS_RTT_CB_FLAG) p
                    in rto_stat (\<lambda>s. if ok then s\<lparr>subscribe_ok := subscribe_ok s + 1\<rparr>
                                     else s\<lparr>subscribe_err := subscribe_err s + 1\<rparr>) p)))"

definition skyline_select_congestion_control :: "bpf_sock_ops \<Rightarrow> policy_state \<Rightarrow> policy_state" where
  "skyline_select_congestion_control ops p =
     (let tuning = skyline_rto_config p
      in if \<not> skyline_is_supported_family ops then p
         else (case so_op ops of
                 ACTIVE_ESTABLISHED_CB \<Rightarrow> sock_established tuning p
               | PASSIVE_ESTABLISHED_CB \<Rightarrow> sock_established tuning p
               | RTT_CB \<Rightarrow> skyline_update_rto_tuning ops tuning p
               | OTHER_CB \<Rightarrow> p))"

section \<open>Timeouts stay within the configured range\<close>

text \<open>
  A connection's callbacks, interleaved with the daemon rewriting the two maps. What it writes into
  the tuning slot is the image of a validated configuration; a zeroed slot is one it never wrote.
\<close>

definition tuning_from_daemon :: "kernel_rto_tuning \<Rightarrow> bool" where
  "tuning_from_daemon t = (\<exists>c gen. validate c = Inr () \<and> t = rack_rto_kernel_config (rack_rto c) gen)"

inductive policy_step :: "policy_state \<Rightarrow> policy_state \<Rightarrow> bool" where
  callback: "policy_step p (skyline_select_congestion_control ops p)"
| daemon_tunes: "tuning_from_daemon t \<Longrightarrow> policy_step p (p\<lparr>po_rto_tuning := Some t\<rparr>)"
| daemon_selects: "policy_step p (p\<lparr>po_policy_enabled := Some e\<rparr>)"

inductive policy_run :: "policy_state \<Rightarrow> policy_state \<Rightarrow> bool" where
  policy_stop: "policy_run p p"
| policy_more: "policy_run p q \<Longrightarrow> policy_step q r \<Longrightarrow> policy_run p r"

text \<open>The options of the socket are within the kernel's own bounds.\<close>

definition rto_in_range :: "policy_state \<Rightarrow> bool" where
  "rto_in_range p =
     (0 < po_rto_min_us p \<and> po_rto_min_us p \<le> SKYLINE_RTO_MIN_KERNEL_DEFAULT_US
      \<and> SKYLINE_RTO_MAX_FLOOR_MS \<le> po_rto_max_ms p \<and> po_rto_max_ms p \<le> SKYLINE_RTO_MAX_KERNEL_DEFAULT_MS)"

definition policy_fresh :: "policy_state \<Rightarrow> bool" where
  "policy_fresh p =
     (po_rto_tuning p = None \<and> po_flow p = None \<and> po_rto_min_us p = SKYLINE_RTO_MIN_KERNEL_DEFAULT_US
      \<and> po_rto_max_ms p = SKYLINE_RTO_MAX_KERNEL_DEFAULT_MS)"

lemmas rto_consts = SKYLINE_RTO_MAX_FLOOR_MS_def SKYLINE_RTO_MAX_KERNEL_DEFAULT_MS_def SKYLINE_RTO_MIN_KERNEL_DEFAULT_US_def

lemma bpf_call_in_range:
  assumes "rto_in_range p" "\<And>q. rto_in_range q \<Longrightarrow> rto_in_range (eff q)"
  shows "rto_in_range (snd (bpf_call eff p))"
  using assms by (simp add: bpf_call_def Let_def rto_in_range_def)

lemma rto_stat_keeps [simp]:
  "rto_in_range (rto_stat f p) = rto_in_range p" "po_rto_tuning (rto_stat f p) = po_rto_tuning p"
  "po_cb_flags (rto_stat f p) = po_cb_flags p" "po_flow (rto_stat f p) = po_flow p"
  "po_rto_min_us (rto_stat f p) = po_rto_min_us p" "po_policy_enabled (rto_stat f p) = po_policy_enabled p"
  by (simp_all add: rto_stat_def rto_in_range_def)

lemma set_in_range:
  "rto_in_range p \<Longrightarrow> 0 < v \<Longrightarrow> v \<le> SKYLINE_RTO_MIN_KERNEL_DEFAULT_US \<Longrightarrow> rto_in_range (snd (set_rto_min v p))"
  "rto_in_range p \<Longrightarrow> SKYLINE_RTO_MAX_FLOOR_MS \<le> w \<Longrightarrow> w \<le> SKYLINE_RTO_MAX_KERNEL_DEFAULT_MS \<Longrightarrow>
    rto_in_range (snd (set_rto_max w p))"
  "rto_in_range p \<Longrightarrow> rto_in_range (snd (set_cb_flags u p))"
  unfolding set_rto_min_def set_rto_max_def set_cb_flags_def
  by (rule bpf_call_in_range; simp add: rto_in_range_def)+

lemma rto_max_target_range:
  "SKYLINE_RTO_MAX_FLOOR_MS \<le> rto_max_target base k" "rto_max_target base k \<le> SKYLINE_RTO_MAX_KERNEL_DEFAULT_MS"
proof -
  have fl: "SKYLINE_RTO_MAX_FLOOR_MS \<le> SKYLINE_RTO_MAX_KERNEL_DEFAULT_MS" by (simp add: rto_consts)
  show "SKYLINE_RTO_MAX_FLOOR_MS \<le> rto_max_target base k" using fl by (simp add: rto_max_target_def Let_def not_less)
  show "rto_max_target base k \<le> SKYLINE_RTO_MAX_KERNEL_DEFAULT_MS" by (auto simp: rto_max_target_def Let_def)
qed

lemma rto_min_target_range:
  assumes "rto_min_target t base = Some v"
  shows "kr_floor_us t \<le> v" "v \<le> kr_ceiling_us t" "v \<le> SKYLINE_RTO_MIN_KERNEL_DEFAULT_US"
  using assms by (auto simp: rto_min_target_def Let_def split: if_splits)

text \<open>An enabled image of a validated configuration has a positive floor, not above its ceiling.\<close>

lemma daemon_floor:
  assumes "tuning_from_daemon t" "kr_enabled t \<noteq> 0"
  shows "0 < kr_floor_us t" "kr_floor_us t \<le> kr_ceiling_us t" "kr_ceiling_us t \<le> SKYLINE_RTO_MIN_KERNEL_DEFAULT_US"
proof -
  obtain c gen where c: "validate c = Inr ()" "t = rack_rto_kernel_config (rack_rto c) gen"
    using assms(1) by (auto simp: tuning_from_daemon_def)
  have "rr_enabled (rack_rto c)" using assms(2) c(2) by (simp add: rack_rto_kernel_config_def u32_of_bool_def split: if_splits)
  then show "0 < kr_floor_us t" "kr_floor_us t \<le> kr_ceiling_us t" "kr_ceiling_us t \<le> SKYLINE_RTO_MIN_KERNEL_DEFAULT_US"
    using c validate_Inr [of c]
    by (auto simp: validate_rack_rto_def rack_rto_kernel_config_def Let_def not_less word_neq_0_conv split: if_splits)
qed

lemma set_keeps [simp]:
  "po_rto_tuning (snd (set_rto_min v p)) = po_rto_tuning p" "po_rto_tuning (snd (set_rto_max v p)) = po_rto_tuning p"
  "po_rto_tuning (snd (set_cb_flags v p)) = po_rto_tuning p"
  by (simp_all add: set_rto_min_def set_rto_max_def set_cb_flags_def bpf_call_def Let_def)

lemma unsubscribe_ok:
  assumes "rto_in_range p"
  shows "rto_in_range (skyline_rto_unsubscribe p) \<and> po_rto_tuning (skyline_rto_unsubscribe p) = po_rto_tuning p"
  using assms by (simp add: skyline_rto_unsubscribe_def Let_def) (intro set_in_range; simp add: rto_consts)

lemma update_rto_min_ok:
  assumes "rto_in_range p" "0 < kr_floor_us t" "skyline_update_rto_min t base flow p = (flow', p')"
  shows "rto_in_range p' \<and> po_rto_tuning p' = po_rto_tuning p"
proof (cases "rto_min_target t base")
  case None
  then show ?thesis using assms by (simp add: skyline_update_rto_min_def)
next
  case (Some v)
  have "0 < v" using assms(2) rto_min_target_range(1) [OF Some] by (meson less_le_trans)
  then have "rto_in_range (snd (set_rto_min v p))"
    using set_in_range(1) [OF assms(1)] rto_min_target_range(3) [OF Some] by blast
  then show ?thesis
    using assms(1,3) Some by (auto simp: skyline_update_rto_min_def split_beta split: if_splits)
qed

lemma update_rto_max_ok:
  assumes "rto_in_range p" "skyline_update_rto_max t ce srtt mn base flow p = (flow', p')"
  shows "rto_in_range p' \<and> po_rto_tuning p' = po_rto_tuning p"
proof -
  have r: "rto_in_range (snd (set_rto_max (rto_max_target base k) q))" if "rto_in_range q" for k q
    using set_in_range(2) [OF that rto_max_target_range] .
  have "SKYLINE_RTO_MAX_FLOOR_MS \<le> SKYLINE_RTO_MAX_KERNEL_DEFAULT_MS" by (simp add: rto_consts)
  then have d: "rto_in_range (snd (set_rto_max SKYLINE_RTO_MAX_KERNEL_DEFAULT_MS p))"
    using set_in_range(2) [OF assms(1)] by blast
  show ?thesis
    using assms r d by (auto simp: skyline_update_rto_max_def Let_def split_beta split: if_splits)
qed

lemma update_rto_tuning_ok:
  assumes "rto_in_range p" "\<And>t. ptr = Some t \<Longrightarrow> tuning_from_daemon t"
  shows "rto_in_range (skyline_update_rto_tuning ops ptr p) \<and> po_rto_tuning (skyline_update_rto_tuning ops ptr p) = po_rto_tuning p"
proof (cases "\<exists>t. ptr = Some t \<and> kr_enabled t \<noteq> 0")
  case False
  then show ?thesis using unsubscribe_ok [OF assms(1)] by (auto simp: skyline_update_rto_tuning_def split: option.split)
next
  case True
  then obtain t where t: "ptr = Some t" "kr_enabled t \<noteq> 0" by blast
  then have floor: "0 < kr_floor_us t" using daemon_floor(1) assms(2) by blast
  define p1 where "p1 = rto_stat (\<lambda>s. s\<lparr>rtt_callbacks := rtt_callbacks s + 1\<rparr>) p"
  have p1: "rto_in_range p1" "po_rto_tuning p1 = po_rto_tuning p" using assms(1) by (simp_all add: p1_def)
  obtain fl p2 where g: "rto_flow_get p1 = (fl, p2)" by fastforce
  then have p2: "rto_in_range p2" "po_rto_tuning p2 = po_rto_tuning p"
    using p1 by (auto simp: rto_flow_get_def Let_def rto_in_range_def split: option.splits if_splits)
  have both: "rto_in_range q' \<and> po_rto_tuning q' = po_rto_tuning p"
    if "skyline_update_rto_min t base flow p2 = (f', q)" "skyline_update_rto_max t ce srtt mn base f' q = (f'', q')"
    for base flow f' q ce srtt mn f'' q'
    using update_rto_min_ok [OF p2(1) floor that(1)] update_rto_max_ok [OF _ that(2)] p2(2) by simp
  have upd: "rto_in_range (q\<lparr>po_flow := z\<rparr>) = rto_in_range q" for q z by (simp add: rto_in_range_def)
  show ?thesis
    using t g p1 p2 both
    by (auto simp: skyline_update_rto_tuning_def Let_def upd simp flip: p1_def split: option.splits prod.splits)
qed

lemma established_ok:
  assumes "rto_in_range p"
  shows "rto_in_range (sock_established ptr p) \<and> po_rto_tuning (sock_established ptr p) = po_rto_tuning p"
proof -
  define p1 where "p1 = (case po_policy_enabled p of
      Some enabled \<Rightarrow> (if enabled \<noteq> 0
        then snd (bpf_call (\<lambda>p. p\<lparr>po_congestion := SKYLINE_CC_NAME\<rparr>) (rto_stat (\<lambda>s. s\<lparr>established_cb := established_cb s + 1\<rparr>) p))
        else rto_stat (\<lambda>s. s\<lparr>established_cb := established_cb s + 1\<rparr>) p)
    | None \<Rightarrow> rto_stat (\<lambda>s. s\<lparr>established_cb := established_cb s + 1\<rparr>) p)"
  have p1: "rto_in_range p1" "po_rto_tuning p1 = po_rto_tuning p"
    using assms by (auto simp: p1_def bpf_call_def Let_def rto_in_range_def rto_stat_def split: option.splits)
  have "sock_established ptr p = (case ptr of None \<Rightarrow> p1 | Some tuning \<Rightarrow>
      (if kr_enabled tuning = 0 then p1
       else (let (ok, p) = set_cb_flags (po_cb_flags p1 OR BPF_SOCK_OPS_RTT_CB_FLAG) p1
             in rto_stat (\<lambda>s. if ok then s\<lparr>subscribe_ok := subscribe_ok s + 1\<rparr>
                              else s\<lparr>subscribe_err := subscribe_err s + 1\<rparr>) p)))"
    by (simp only: sock_established_def Let_def p1_def rto_stat_keeps)
  then show ?thesis using p1 set_in_range(3) [OF p1(1)] by (simp add: split_beta split: option.split)
qed

definition policy_inv :: "policy_state \<Rightarrow> bool" where
  "policy_inv p = (rto_in_range p \<and> (\<forall>t. po_rto_tuning p = Some t \<longrightarrow> tuning_from_daemon t))"

lemma policy_step_inv:
  assumes "policy_step p q" "policy_inv p"
  shows "policy_inv q"
  using assms
proof (cases rule: policy_step.cases)
  case (callback ops)
  have ptr: "tuning_from_daemon t" if "skyline_rto_config p = Some t" for t
    using that assms(2) by (auto simp: skyline_rto_config_def policy_inv_def split: option.splits if_splits)
  have r: "rto_in_range p" using assms(2) by (simp add: policy_inv_def)
  have "rto_in_range q \<and> po_rto_tuning q = po_rto_tuning p"
    using established_ok [OF r] update_rto_tuning_ok [OF r ptr] r
    by (simp add: callback skyline_select_congestion_control_def Let_def split: sock_op.split)
  then show ?thesis using assms(2) by (simp add: policy_inv_def)
qed (auto simp: policy_inv_def rto_in_range_def)

lemma policy_run_inv: "policy_run p q \<Longrightarrow> policy_fresh p \<Longrightarrow> policy_inv q"
proof (induction rule: policy_run.induct)
  case (policy_stop p)
  then show ?case by (simp add: policy_fresh_def policy_inv_def rto_in_range_def rto_consts)
qed (use policy_step_inv in blast)


text \<open>A connection under the shipped configuration.\<close>

definition policy_at_start :: policy_state where
  "policy_at_start =
     \<lparr>po_step = 0, po_ok = (\<lambda>_. True), po_policy_enabled = Some 1, po_rto_tuning = None, po_stats = None, po_flow = None,
      po_congestion = ''cubic'', po_rto_min_us = 200000, po_rto_max_ms = 120000, po_cb_flags = 0\<rparr>"

definition policy_tuned :: policy_state where
  "policy_tuned = policy_at_start\<lparr>po_rto_tuning := Some ((rack_rto_kernel_config (rack_rto shipped_config) 1))\<rparr>"


end
