(* ===== verification/PacketTc.thy ===== *)
theory PacketTc
  imports Validate Metrics
begin

text \<open>
  The egress program \<^verbatim>\<open>bpf/skyline_tc.bpf.c\<close>: it counts packets, marks retransmitted TCP segments
  with a DSCP codepoint and sends the first flight of \<open>skyline_cc\<close> connections twice. A packet is the
  list of the bytes between \<open>data\<close> and \<open>data_end\<close> with the fields of \<open>struct __sk_buff\<close> the program
  uses; multi-byte fields are read in network order. \<open>bpf_l3_csum_replace\<close>, the clone
  \<open>bpf_clone_redirect\<close> hands to the device's egress, where it meets this program again, and the
  outcome of the helpers are parameters.
\<close>

unbundle bit_operations_syntax

type_synonym u16 = "16 word"

definition ETH_HLEN :: u32 where "ETH_HLEN = 14"
definition ETH_P_IP :: u16 where "ETH_P_IP = 0x0800"
definition ETH_P_IPV6 :: u16 where "ETH_P_IPV6 = 0x86dd"
definition IPPROTO_TCP :: u8 where "IPPROTO_TCP = 6"
definition SKYLINE_IPPROTO_HOPOPTS :: u8 where "SKYLINE_IPPROTO_HOPOPTS = 0"
definition SKYLINE_IPPROTO_ROUTING :: u8 where "SKYLINE_IPPROTO_ROUTING = 43"
definition SKYLINE_IPPROTO_DSTOPTS :: u8 where "SKYLINE_IPPROTO_DSTOPTS = 60"
definition SKYLINE_IPV6_MAX_EXT_HDRS :: nat where "SKYLINE_IPV6_MAX_EXT_HDRS = 4"
definition SKYLINE_IPV6_MAX_EXT_BYTES :: u32 where "SKYLINE_IPV6_MAX_EXT_BYTES = 96"
definition SKYLINE_IPV6_MAX_L4_OFF :: u32 where
  "SKYLINE_IPV6_MAX_L4_OFF = ETH_HLEN + 40 + SKYLINE_IPV6_MAX_EXT_BYTES"
definition SKYLINE_REDUNDANCY_TAG :: u32 where "SKYLINE_REDUNDANCY_TAG = 0x5d0b1e5d"

text \<open>
  The socket behind a packet: whether \<open>bpf_sk_fullsock\<close>, \<open>bpf_tcp_sock\<close> and \<open>bpf_skc_to_tcp_sock\<close> find
  one, and what the program reads of it. A congestion control's name is the zero-padded array.
\<close>

record skb_sock =
  ks_full :: bool
  ks_tcp :: bool
  ks_skc_tcp :: bool
  ks_snd_nxt :: u32
  ks_ca_name :: "u8 list option"
  ks_bytes_acked :: u64
  ks_snd_una :: u32

record skb =
  sb_data :: "u8 list"
  sb_len :: u32
  sb_gso_segs :: u32
  sb_cb0 :: u32
  sb_cb1 :: u32
  sb_tstamp :: u64
  sb_sk :: "skb_sock option"

record tc_helpers =
  th_csum_replace :: "u8 list \<Rightarrow> nat \<Rightarrow> u16 \<Rightarrow> u16 \<Rightarrow> u8 list"
  th_store_ok :: bool
  th_clone_ok :: bool
  th_clone :: "skb \<Rightarrow> skb"
  th_now :: u64
  th_tstamp_ok :: bool

record tc_maps =
  tm_stats :: "tc_stats_rec option"
  tm_dscp_config :: "kernel_retransmit_dscp_config option"
  tm_dscp_stats :: "retransmit_dscp_stats_rec option"
  tm_red_config :: "kernel_redundancy_config option"
  tm_red_stats :: "redundancy_stats_rec option"

section \<open>Reading a packet\<close>

definition be16 :: "u8 list \<Rightarrow> nat \<Rightarrow> u16" where
  "be16 d i = push_bit 8 (ucast (d ! i)) OR ucast (d ! (i + 1))"

definition be32 :: "u8 list \<Rightarrow> nat \<Rightarrow> u32" where
  "be32 d i = push_bit 24 (ucast (d ! i)) OR push_bit 16 (ucast (d ! (i + 1)))
     OR push_bit 8 (ucast (d ! (i + 2))) OR ucast (d ! (i + 3))"

definition store_byte :: "tc_helpers \<Rightarrow> nat \<Rightarrow> u8 \<Rightarrow> u8 list \<Rightarrow> u8 list" where
  "store_byte th i b d = (if th_store_ok th then d[i := b] else d)"

definition store_be16 :: "tc_helpers \<Rightarrow> nat \<Rightarrow> u16 \<Rightarrow> u8 list \<Rightarrow> u8 list" where
  "store_be16 th i h d = (if th_store_ok th then d[i := ucast (drop_bit 8 h), i + 1 := ucast h] else d)"

definition mark_tos :: "u32 \<Rightarrow> u8 \<Rightarrow> u8" where
  "mark_tos dscp_value old_tos = (old_tos AND 0x03) OR ucast (push_bit 2 (dscp_value AND 0x3f))"

definition skyline_mark_dscp_v4 :: "tc_helpers \<Rightarrow> u32 \<Rightarrow> u8 \<Rightarrow> u16 \<Rightarrow> u8 list \<Rightarrow> bool \<times> u8 list" where
  "skyline_mark_dscp_v4 th dscp_value old_tos old_hw d =
     (let new_tos = mark_tos dscp_value old_tos
      in if new_tos = old_tos then (False, d)
         else (let new_hw = (old_hw AND 0xff00) OR ucast new_tos;
                   d = th_csum_replace th d 24 old_hw new_hw
               in (True, store_byte th 15 new_tos d)))"

definition mark_vtc :: "u32 \<Rightarrow> u16 \<Rightarrow> u16" where
  "mark_vtc dscp_value vtc = (vtc AND 0xf03f) OR push_bit 6 (ucast (dscp_value AND 0x3f))"

definition skyline_mark_dscp_v6 :: "tc_helpers \<Rightarrow> u32 \<Rightarrow> u8 list \<Rightarrow> u8 list" where
  "skyline_mark_dscp_v6 th dscp_value d =
     (if 14 + 2 > length d then d
      else (let vtc = be16 d 14;
                new_vtc = mark_vtc dscp_value vtc
            in if new_vtc = vtc then d else store_be16 th 14 new_vtc d))"

definition skyline_parse_ipv4 :: "u8 list \<Rightarrow> (u32 \<times> u8 \<times> u16) option" where
  "skyline_parse_ipv4 d =
     (if 14 > length d then None
      else if be16 d 12 \<noteq> ETH_P_IP then None
      else if 34 > length d then None
      else (let ihl = d ! 14 AND 0x0f
            in if d ! 23 \<noteq> IPPROTO_TCP \<or> ihl < 5 then None
               else if be16 d 20 AND 0x3fff \<noteq> 0 then None
               else Some (ETH_HLEN + ucast ihl * 4, d ! 15, be16 d 14)))"

text \<open>The unrolled walk over extension headers; the first component tells whether a bail-out was counted.\<close>

fun ipv6_walk :: "nat \<Rightarrow> u8 list \<Rightarrow> u8 \<Rightarrow> u32 \<Rightarrow> bool \<times> u32 option" where
  "ipv6_walk 0 d nexthdr off = (if nexthdr \<noteq> IPPROTO_TCP then (True, None) else (False, Some off))"
| "ipv6_walk (Suc n) d nexthdr off =
     (if nexthdr = IPPROTO_TCP then (False, Some off)
      else if nexthdr \<noteq> SKYLINE_IPPROTO_HOPOPTS \<and> nexthdr \<noteq> SKYLINE_IPPROTO_ROUTING \<and> nexthdr \<noteq> SKYLINE_IPPROTO_DSTOPTS
      then (True, None)
      else if unat off + 2 > length d then (True, None)
      else (let nexthdr = d ! unat off;
                off = off + (ucast (d ! (unat off + 1)) + 1) * 8
            in if off > SKYLINE_IPV6_MAX_L4_OFF then (True, None) else ipv6_walk n d nexthdr off))"

definition skyline_parse_ipv6 :: "u8 list \<Rightarrow> bool \<times> u32 option" where
  "skyline_parse_ipv6 d =
     (if 14 + 7 > length d then (False, None)
      else ipv6_walk SKYLINE_IPV6_MAX_EXT_HDRS d (d ! 20) (ETH_HLEN + 40))"

section \<open>Retransmissions\<close>

definition dscp_stat :: "(retransmit_dscp_stats_rec \<Rightarrow> retransmit_dscp_stats_rec) \<Rightarrow> tc_maps \<Rightarrow> tc_maps" where
  "dscp_stat f m = m\<lparr>tm_dscp_stats := map_option f (tm_dscp_stats m)\<rparr>"

text \<open>The fields of a TCP header at an offset.\<close>

definition tcp_syn :: "u8 list \<Rightarrow> u32 \<Rightarrow> bool" where "tcp_syn d off = bit (d ! (unat off + 13)) 1"
definition tcp_ack :: "u8 list \<Rightarrow> u32 \<Rightarrow> bool" where "tcp_ack d off = bit (d ! (unat off + 13)) 4"
definition tcp_fin :: "u8 list \<Rightarrow> u32 \<Rightarrow> bool" where "tcp_fin d off = bit (d ! (unat off + 13)) 0"
definition tcp_header_len :: "u8 list \<Rightarrow> u32 \<Rightarrow> u32" where
  "tcp_header_len d off = off + ucast (drop_bit 4 (d ! (unat off + 12))) * 4"

definition segment_end :: "skb \<Rightarrow> u32 \<Rightarrow> u32" where
  "segment_end b off =
     (let d = sb_data b;
          header_len = tcp_header_len d off;
          payload = (if sb_len b > header_len then sb_len b - header_len else 0)
      in be32 d (unat off + 4) + payload + of_bool (tcp_syn d off) + of_bool (tcp_fin d off))"

definition skyline_is_retransmit :: "skb \<Rightarrow> u32 \<Rightarrow> tc_maps \<Rightarrow> bool \<times> tc_maps" where
  "skyline_is_retransmit b l4_off m =
     (if unat l4_off + 20 > length (sb_data b) then (False, m)
      else (let m = dscp_stat (\<lambda>s. s\<lparr>ds_packets_seen := ds_packets_seen s + 1\<rparr>) m;
                end_seq = segment_end b l4_off
            in if end_seq = be32 (sb_data b) (unat l4_off + 4) then (False, m)
               else (case sb_sk b of
                       None \<Rightarrow> (False, m)
                     | Some sk \<Rightarrow>
                         (if \<not> ks_full sk \<or> \<not> ks_tcp sk then (False, m)
                          else if sint (end_seq - ks_snd_nxt sk) > 0 then (False, m)
                          else (True, dscp_stat (\<lambda>s. s\<lparr>ds_retransmits_detected := ds_retransmits_detected s + 1\<rparr>) m)))))"

definition skyline_check_retransmit ::
  "tc_helpers \<Rightarrow> kernel_retransmit_dscp_config \<Rightarrow> skb \<Rightarrow> tc_maps \<Rightarrow> skb \<times> tc_maps" where
  "skyline_check_retransmit th cfg b m =
     (if 14 > length (sb_data b) then (b, m)
      else if be16 (sb_data b) 12 = ETH_P_IP
      then (case skyline_parse_ipv4 (sb_data b) of
              None \<Rightarrow> (b, m)
            | Some (l4_off, old_tos, old_hw) \<Rightarrow>
                (let (retransmit, m) = skyline_is_retransmit b l4_off m
                 in if \<not> retransmit \<or> kd_enabled cfg = 0 then (b, m)
                    else (let m = dscp_stat (\<lambda>s. s\<lparr>ds_retransmits_marked := ds_retransmits_marked s + 1\<rparr>) m;
                              (fixed, d) = skyline_mark_dscp_v4 th (kd_dscp_value cfg) old_tos old_hw (sb_data b)
                          in (b\<lparr>sb_data := d\<rparr>,
                              if fixed then dscp_stat (\<lambda>s. s\<lparr>ds_csum_fixups := ds_csum_fixups s + 1\<rparr>) m else m))))
      else if be16 (sb_data b) 12 = ETH_P_IPV6
      then (case skyline_parse_ipv6 (sb_data b) of
              (bailout, None) \<Rightarrow>
                (b, if bailout then dscp_stat (\<lambda>s. s\<lparr>ds_ipv6_chain_bailout := ds_ipv6_chain_bailout s + 1\<rparr>) m else m)
            | (bailout, Some l4_off) \<Rightarrow>
                (let (retransmit, m) = skyline_is_retransmit b l4_off m
                 in if \<not> retransmit \<or> kd_enabled cfg = 0 then (b, m)
                    else (let m = dscp_stat (\<lambda>s. s\<lparr>ds_retransmits_marked := ds_retransmits_marked s + 1\<rparr>) m;
                              d = skyline_mark_dscp_v6 th (kd_dscp_value cfg) (sb_data b)
                          in (b\<lparr>sb_data := d\<rparr>, dscp_stat (\<lambda>s. s\<lparr>ds_ipv6_marked := ds_ipv6_marked s + 1\<rparr>) m))))
      else (b, m))"

section \<open>Copies of the first flight\<close>

definition red_stat :: "(redundancy_stats_rec \<Rightarrow> redundancy_stats_rec) \<Rightarrow> tc_maps \<Rightarrow> tc_maps" where
  "red_stat f m = m\<lparr>tm_red_stats := map_option f (tm_red_stats m)\<rparr>"

text \<open>\<open>\<open>skyline_cc\<close>\<close> with its terminating zero, as \<open>sizeof(expected)\<close> counts it.\<close>

definition expected_name :: "u8 list" where
  "expected_name = map (\<lambda>c. word_of_nat (of_char c)) SKYLINE_CC_NAME @ [0]"

definition skyline_runs_skyline_cc :: "skb_sock \<Rightarrow> bool" where
  "skyline_runs_skyline_cc sk =
     (case ks_ca_name sk of
        None \<Rightarrow> False
      | Some name \<Rightarrow> take (length expected_name) name = expected_name)"

definition skyline_redundancy_copy :: "tc_helpers \<Rightarrow> skb \<Rightarrow> bool \<times> skb" where
  "skyline_redundancy_copy th b =
     (if sb_cb0 b \<noteq> SKYLINE_REDUNDANCY_TAG \<or> sb_sk b \<noteq> None then (False, b)
      else (let delay_us = sb_cb1 b;
                b = b\<lparr>sb_cb0 := 0, sb_cb1 := 0\<rparr>
            in (True, if delay_us \<noteq> 0 \<and> th_tstamp_ok th then b\<lparr>sb_tstamp := th_now th + ucast delay_us * 1000\<rparr> else b)))"

definition red_l4_off :: "u8 list \<Rightarrow> u32 option" where
  "red_l4_off d =
     (if 14 > length d then None
      else if be16 d 12 = ETH_P_IP then map_option fst (skyline_parse_ipv4 d)
      else if be16 d 12 = ETH_P_IPV6 then snd (skyline_parse_ipv6 d)
      else None)"

definition red_wanted :: "kernel_redundancy_config \<Rightarrow> skb \<Rightarrow> u32 \<Rightarrow> bool" where
  "red_wanted cfg b l4_off =
     (let d = sb_data b
      in case sb_sk b of
           None \<Rightarrow> False
         | Some sk \<Rightarrow>
             (if tcp_syn d l4_off \<and> tcp_ack d l4_off then True
              else if \<not> ks_skc_tcp sk \<or> \<not> skyline_runs_skyline_cc sk then False
              else if tcp_syn d l4_off then True
              else if sb_len b \<le> tcp_header_len d l4_off then False
              else \<not> (ks_bytes_acked sk + ucast (be32 d (unat l4_off + 4) - ks_snd_una sk) \<ge> ucast (kred_bytes cfg))))"

definition skyline_redundancy_duplicate ::
  "tc_helpers \<Rightarrow> kernel_redundancy_config \<Rightarrow> skb \<Rightarrow> tc_maps \<Rightarrow> skb \<times> tc_maps \<times> skb list" where
  "skyline_redundancy_duplicate th cfg b m =
     (case red_l4_off (sb_data b) of
        None \<Rightarrow> (b, m, [])
      | Some l4_off \<Rightarrow>
          (if unat l4_off + 20 > length (sb_data b) then (b, m, [])
           else if \<not> red_wanted cfg b l4_off then (b, m, [])
           else (let handshake = tcp_syn (sb_data b) l4_off;
                     tagged = b\<lparr>sb_cb0 := SKYLINE_REDUNDANCY_TAG, sb_cb1 := kred_delay_us cfg\<rparr>;
                     back_to_zero = tagged\<lparr>sb_cb0 := 0, sb_cb1 := 0\<rparr>
                 in if th_clone_ok th
                    then (back_to_zero,
                          red_stat (\<lambda>s. (let s = s\<lparr>rs_packets := rs_packets s + 1, rs_bytes := rs_bytes s + ucast (sb_len b)\<rparr>
                                         in if handshake then s\<lparr>rs_handshakes := rs_handshakes s + 1\<rparr> else s)) m,
                          [th_clone th tagged])
                    else (back_to_zero, red_stat (\<lambda>s. s\<lparr>rs_clone_failed := rs_clone_failed s + 1\<rparr>) m, []))))"

section \<open>The program\<close>

definition tc_dscp :: "tc_helpers \<Rightarrow> skb \<Rightarrow> tc_maps \<Rightarrow> skb \<times> tc_maps" where
  "tc_dscp th b m =
     (case tm_dscp_config m of
        None \<Rightarrow> (b, m)
      | Some cfg \<Rightarrow>
          (if kd_enabled cfg = 0 then (b, m)
           else if kd_abi_version cfg \<noteq> SKYLINE_RETRANSMIT_DSCP_ABI_VERSION
           then (b, dscp_stat (\<lambda>s. s\<lparr>ds_abi_mismatch := ds_abi_mismatch s + 1\<rparr>) m)
           else skyline_check_retransmit th cfg b m))"

definition tc_redundancy :: "tc_helpers \<Rightarrow> skb \<Rightarrow> tc_maps \<Rightarrow> skb \<times> tc_maps \<times> skb list" where
  "tc_redundancy th b m =
     (case tm_red_config m of
        None \<Rightarrow> (b, m, [])
      | Some cfg \<Rightarrow>
          (if kred_enabled cfg = 0 then (b, m, [])
           else if kred_abi_version cfg \<noteq> SKYLINE_REDUNDANCY_ABI_VERSION
           then (b, red_stat (\<lambda>s. s\<lparr>rs_abi_mismatch := rs_abi_mismatch s + 1\<rparr>) m, [])
           else skyline_redundancy_duplicate th cfg b m))"

definition tc_count :: "skb \<Rightarrow> tc_maps \<Rightarrow> tc_maps" where
  "tc_count b m =
     m\<lparr>tm_stats := map_option (\<lambda>s.
         (let s = s\<lparr>ts_packets := ts_packets s + 1, ts_bytes := ts_bytes s + ucast (sb_len b)\<rparr>
          in if sb_gso_segs b > 1 then s\<lparr>ts_gso_packets := ts_gso_packets s + 1\<rparr> else s)) (tm_stats m)\<rparr>"

text \<open>The packet that goes on (the program always lets it pass), the maps, and the clones made.\<close>

definition skyline_tc_account :: "tc_helpers \<Rightarrow> skb \<Rightarrow> tc_maps \<Rightarrow> skb \<times> tc_maps \<times> skb list" where
  "skyline_tc_account th b m =
     (let m = tc_count b m;
          (copy, b) = skyline_redundancy_copy th b
      in if copy then (b, m, [])
         else (let (b, m) = tc_dscp th b m
               in tc_redundancy th b m))"

section \<open>No copy of a copy\<close>

text \<open>
  What \<open>bpf_clone_redirect\<close> documents: the clone carries the bytes and the control block of the packet
  and belongs to no socket. What \<open>bpf_l3_csum_replace\<close> documents: it rewrites the two bytes at the
  offset it is given.
\<close>

definition clone_documented :: "tc_helpers \<Rightarrow> bool" where
  "clone_documented th =
     (\<forall>b. sb_sk (th_clone th b) = None \<and> sb_data (th_clone th b) = sb_data b
        \<and> sb_cb0 (th_clone th b) = sb_cb0 b \<and> sb_cb1 (th_clone th b) = sb_cb1 b)"

definition csum_documented :: "tc_helpers \<Rightarrow> bool" where
  "csum_documented th =
     (\<forall>d i old new. length (th_csum_replace th d i old new) = length d
        \<and> (\<forall>j. j \<noteq> i \<and> j \<noteq> i + 1 \<longrightarrow> th_csum_replace th d i old new ! j = d ! j))"

lemma duplicate_clones:
  assumes "skyline_redundancy_duplicate th cfg b m = (b', m', cs)" "clone_documented th"
  shows "sb_data b' = sb_data b \<and>
    (cs = [] \<or> (\<exists>c. cs = [c] \<and> sb_sk c = None \<and> sb_data c = sb_data b \<and> sb_cb0 c = SKYLINE_REDUNDANCY_TAG
      \<and> sb_cb1 c = kred_delay_us cfg \<and> sb_cb0 b' = 0 \<and> sb_cb1 b' = 0))"
  using assms
  by (auto simp: skyline_redundancy_duplicate_def clone_documented_def Let_def split: option.splits if_splits)

lemma tagged_packet:
  assumes "sb_sk c = None" "sb_cb0 c = SKYLINE_REDUNDANCY_TAG"
  shows "skyline_tc_account th c m =
    (if sb_cb1 c \<noteq> 0 \<and> th_tstamp_ok th then c\<lparr>sb_cb0 := 0, sb_cb1 := 0, sb_tstamp := th_now th + ucast (sb_cb1 c) * 1000\<rparr>
     else c\<lparr>sb_cb0 := 0, sb_cb1 := 0\<rparr>, tc_count c m, [])"
  using assms by (simp add: skyline_tc_account_def skyline_redundancy_copy_def Let_def)

lemma account_clones:
  assumes "skyline_tc_account th b m = (b', m', cs)" "clone_documented th"
  shows "cs = [] \<or> (\<exists>cfg c. tm_red_config m = Some cfg \<and> kred_enabled cfg \<noteq> 0 \<and> cs = [c] \<and> sb_sk c = None
    \<and> sb_data c = sb_data b' \<and> sb_cb0 c = SKYLINE_REDUNDANCY_TAG \<and> sb_cb1 c = kred_delay_us cfg)"
proof (cases "fst (skyline_redundancy_copy th b)")
  case True
  then show ?thesis using assms(1) by (auto simp: skyline_tc_account_def Let_def split_beta)
next
  case False
  obtain b1 m1 where d: "tc_dscp th b (tc_count b m) = (b1, m1)" by fastforce
  have same: "snd (skyline_redundancy_copy th b) = b"
    using False by (auto simp: skyline_redundancy_copy_def Let_def split: if_splits)
  then have run: "tc_redundancy th b1 m1 = (b', m', cs)"
    using assms(1) False d by (simp add: skyline_tc_account_def Let_def split_beta)
  have red: "tm_red_config m1 = tm_red_config m"
    using d by (auto simp: tc_dscp_def skyline_check_retransmit_def skyline_is_retransmit_def dscp_stat_def tc_count_def
        Let_def split_beta split: option.splits if_splits prod.splits)
  then show ?thesis
    using run duplicate_clones [OF _ assms(2)]
    by (auto simp: tc_redundancy_def split: option.splits if_splits dest!: duplicate_clones [OF _ assms(2)])
qed


text \<open>A SYN-ACK of 54 bytes on its way out of a socket, with the redundancy of the shipped configuration.\<close>

definition syn_ack :: "u8 list" where
  "syn_ack =
     [0, 0, 0, 0, 0, 0, 0, 0, 0, 0, 0, 0, 8, 0,
      0x45, 0, 0, 40, 0, 0, 0, 0, 64, 6, 0, 0, 10, 0, 0, 1, 10, 0, 0, 2,
      0, 80, 1, 0, 0, 0, 0, 9, 0, 0, 0, 7, 0x50, 0x12, 0, 0, 0, 0, 0, 0]"

definition syn_ack_skb :: skb where
  "syn_ack_skb =
     \<lparr>sb_data = syn_ack, sb_len = 54, sb_gso_segs = 1, sb_cb0 = 0, sb_cb1 = 0, sb_tstamp = 0,
      sb_sk = Some \<lparr>ks_full = False, ks_tcp = False, ks_skc_tcp = False, ks_snd_nxt = 0, ks_ca_name = None,
        ks_bytes_acked = 0, ks_snd_una = 0\<rparr>\<rparr>"

definition plain_helpers :: tc_helpers where
  "plain_helpers =
     \<lparr>th_csum_replace = (\<lambda>d i old new. d), th_store_ok = True, th_clone_ok = True,
      th_clone = (\<lambda>b. b\<lparr>sb_sk := None, sb_tstamp := 0\<rparr>), th_now = 5, th_tstamp_ok = True\<rparr>"

definition copying_maps :: tc_maps where
  "copying_maps =
     \<lparr>tm_stats = None, tm_dscp_config = None, tm_dscp_stats = None,
      tm_red_config = Some (redundancy_kernel_config (redundancy shipped_config) True), tm_red_stats = None\<rparr>"

lemma plain_helpers_documented: "clone_documented plain_helpers" "csum_documented plain_helpers"
  by (simp_all add: clone_documented_def csum_documented_def plain_helpers_def)

lemma syn_ack_l4: "red_l4_off syn_ack = Some 34"
  by (simp add: red_l4_off_def skyline_parse_ipv4_def syn_ack_def be16_def ETH_P_IP_def IPPROTO_TCP_def ETH_HLEN_def)

lemma shipped_redundancy:
  "redundancy_kernel_config (redundancy shipped_config) True =
     \<lparr>kred_abi_version = 1, kred_enabled = 1, kred_bytes = 65536, kred_delay_us = 10000\<rparr>"
  by (simp add: redundancy_kernel_config_def shipped_config_def SKYLINE_REDUNDANCY_ABI_VERSION_def u32_of_bool_def
      saturating_mul_def)


section \<open>What marking changes\<close>

lemma six_bits:
  assumes "(v :: u32) \<le> 63"
  shows "v AND mask 6 = v" "bit v n \<Longrightarrow> n < 6"
proof -
  have "unat v < 2 ^ 6" using assms by (simp add: word_le_nat_alt)
  then show v: "v AND mask 6 = v"
    by (intro unsigned_word_eqI [where 'a = nat]) (simp add: unsigned_take_bit_eq take_bit_nat_eq_self flip: take_bit_eq_mask)
  show "n < 6" if "bit v n" using that v by (metis bit_and_iff bit_mask_iff)
qed

lemma mark_masks: "(3 :: u8) = mask 2" "(0x3f :: u32) = mask 6" "(0x3f :: u16) = mask 6"
  "(0xf03f :: u16) = mask 6 OR push_bit 12 (mask 4)"
  by (simp_all add: mask_eq_exp_minus_1)

lemma mark_tos_bits:
  "mark_tos v t AND 3 = t AND 3" "v \<le> 63 \<Longrightarrow> drop_bit 2 (mark_tos v t) = ucast v"
proof -
  show "mark_tos v t AND 3 = t AND 3"
    unfolding mark_tos_def mark_masks by (rule bit_eqI) (auto simp: bit_simps)
  show "drop_bit 2 (mark_tos v t) = ucast v" if "v \<le> 63"
    unfolding mark_tos_def mark_masks six_bits(1) [OF that]
    by (rule bit_eqI) (auto simp: bit_simps dest: six_bits(2) [OF that])
qed

lemma mark_vtc_bits:
  "mark_vtc v x AND 0xf03f = x AND 0xf03f" "v \<le> 63 \<Longrightarrow> drop_bit 6 (mark_vtc v x) AND 0x3f = ucast v"
proof -
  show "mark_vtc v x AND 0xf03f = x AND 0xf03f"
    unfolding mark_vtc_def mark_masks by (rule bit_eqI) (auto simp: bit_simps)
  show "drop_bit 6 (mark_vtc v x) AND 0x3f = ucast v" if "v \<le> 63"
    unfolding mark_vtc_def mark_masks six_bits(1) [OF that]
    by (rule bit_eqI) (auto simp: bit_simps dest: six_bits(2) [OF that])
qed

lemma be16_store:
  assumes "i + 1 < length d"
  shows "be16 (d[i := ucast (drop_bit 8 h), i + 1 := ucast (h :: u16)]) i = h"
  using assms by (simp add: be16_def) (rule bit_eqI, auto simp: bit_simps)

lemma mark_v4_effect:
  assumes "csum_documented th" "34 \<le> length d" "skyline_mark_dscp_v4 th v (d ! 15) hw d = (f, d')"
  shows "length d' = length d" "i \<noteq> 15 \<Longrightarrow> i \<noteq> 24 \<Longrightarrow> i \<noteq> 25 \<Longrightarrow> d' ! i = d ! i"
    and "d' ! 15 = (if th_store_ok th then mark_tos v (d ! 15) else d ! 15)"
proof -
  define e where "e = th_csum_replace th d 24 hw ((hw AND 0xff00) OR ucast (mark_tos v (d ! 15)))"
  have e: "length e = length d" "j \<noteq> 24 \<Longrightarrow> j \<noteq> 25 \<Longrightarrow> e ! j = d ! j" for j
    using assms(1) by (simp_all add: csum_documented_def e_def)
  have d': "d' = (if mark_tos v (d ! 15) = d ! 15 then d else store_byte th 15 (mark_tos v (d ! 15)) e)"
    using assms(3) by (auto simp: skyline_mark_dscp_v4_def Let_def e_def split: if_splits)
  show "length d' = length d" "i \<noteq> 15 \<Longrightarrow> i \<noteq> 24 \<Longrightarrow> i \<noteq> 25 \<Longrightarrow> d' ! i = d ! i"
    "d' ! 15 = (if th_store_ok th then mark_tos v (d ! 15) else d ! 15)"
    using e assms(2) by (simp_all add: d' store_byte_def)
qed

lemma mark_v6_effect:
  assumes "16 \<le> length d" "d' = skyline_mark_dscp_v6 th v d"
  shows "length d' = length d" "i \<noteq> 14 \<Longrightarrow> i \<noteq> 15 \<Longrightarrow> d' ! i = d ! i"
    and "be16 d' 14 = (if th_store_ok th then mark_vtc v (be16 d 14) else be16 d 14)"
proof -
  have d': "d' = (if mark_vtc v (be16 d 14) = be16 d 14 then d else store_be16 th 14 (mark_vtc v (be16 d 14)) d)"
    using assms by (simp add: skyline_mark_dscp_v6_def Let_def)
  show "length d' = length d" "i \<noteq> 14 \<Longrightarrow> i \<noteq> 15 \<Longrightarrow> d' ! i = d ! i" by (simp_all add: d' store_be16_def)
  show "be16 d' 14 = (if th_store_ok th then mark_vtc v (be16 d 14) else be16 d 14)"
    using be16_store [of 14 d "mark_vtc v (be16 d 14)"] assms(1) by (simp add: d' store_be16_def)
qed

text \<open>The packet after \<open>skyline_check_retransmit\<close>: untouched, or marked as its address family asks.\<close>

lemma check_retransmit_data:
  assumes "skyline_check_retransmit th cfg b m = (b', m')"
  obtains "sb_data b' = sb_data b"
  | f hw where "be16 (sb_data b) 12 = ETH_P_IP" "34 \<le> length (sb_data b)" "kd_enabled cfg \<noteq> 0"
      "skyline_mark_dscp_v4 th (kd_dscp_value cfg) (sb_data b ! 15) hw (sb_data b) = (f, sb_data b')"
  | "be16 (sb_data b) 12 = ETH_P_IPV6" "16 \<le> length (sb_data b)" "kd_enabled cfg \<noteq> 0"
      "sb_data b' = skyline_mark_dscp_v6 th (kd_dscp_value cfg) (sb_data b)"
proof -
  have v4: "34 \<le> length d \<and> tos = d ! 15" if "skyline_parse_ipv4 d = Some (off, tos, hw)" for d off tos hw
    using that by (auto simp: skyline_parse_ipv4_def Let_def split: if_splits)
  have v6: "16 \<le> length d" if "skyline_parse_ipv6 d = (x, Some off)" for d x off
    using that by (auto simp: skyline_parse_ipv6_def split: if_splits)
  let ?d = "sb_data b"
  consider "length ?d < 14 \<or> be16 ?d 12 \<noteq> ETH_P_IP \<and> be16 ?d 12 \<noteq> ETH_P_IPV6"
    | "14 \<le> length ?d" "be16 ?d 12 = ETH_P_IP" | "14 \<le> length ?d" "be16 ?d 12 \<noteq> ETH_P_IP" "be16 ?d 12 = ETH_P_IPV6"
    by fastforce
  then show ?thesis
  proof cases
    case 1
    then have "b' = b" using assms by (auto simp: skyline_check_retransmit_def split: if_splits)
    then show ?thesis using that(1) by simp
  next
    case 2
    show ?thesis
    proof (cases "skyline_parse_ipv4 ?d")
      case None
      then have "b' = b" using assms 2 by (simp add: skyline_check_retransmit_def)
      then show ?thesis using that(1) by simp
    next
      case (Some r)
      then obtain off tos hw where r: "skyline_parse_ipv4 ?d = Some (off, tos, hw)" by (cases r) auto
      obtain ret m1 where ret: "skyline_is_retransmit b off m = (ret, m1)" by fastforce
      obtain f d1 where mk: "skyline_mark_dscp_v4 th (kd_dscp_value cfg) tos hw ?d = (f, d1)" by fastforce
      have "sb_data b' = (if \<not> ret \<or> kd_enabled cfg = 0 then ?d else d1)"
        using assms 2 r ret mk by (auto simp: skyline_check_retransmit_def Let_def split: if_splits)
      then show ?thesis using that(1,2) 2(2) v4 [OF r] mk by (auto split: if_splits)
    qed
  next
    case 3
    show ?thesis
    proof (cases "snd (skyline_parse_ipv6 ?d)")
      case None
      then have "b' = b" using assms 3 by (auto simp: skyline_check_retransmit_def split: prod.splits option.splits)
      then show ?thesis using that(1) by simp
    next
      case (Some off)
      then obtain x where r: "skyline_parse_ipv6 ?d = (x, Some off)" by (cases "skyline_parse_ipv6 ?d") auto
      obtain ret m1 where ret: "skyline_is_retransmit b off m = (ret, m1)" by fastforce
      have "sb_data b' = (if \<not> ret \<or> kd_enabled cfg = 0 then ?d else skyline_mark_dscp_v6 th (kd_dscp_value cfg) ?d)"
        using assms 3 r ret by (auto simp: skyline_check_retransmit_def Let_def split: if_splits)
      then show ?thesis using that(1,3) 3(3) v6 [OF r] by (auto split: if_splits)
    qed
  qed
qed

text \<open>
  C18. Marking is local: of all bytes of a packet only the type-of-service byte and the two checksum
  bytes of an IPv4 header, or the first two bytes of an IPv6 header, may change; the ECN bits, the
  version and the flow label keep their values; and whatever packet leaves changed, with a helper
  that stored, carries the configured codepoint, and only while marking is enabled.
\<close>

theorem marking_is_local:
  assumes "skyline_check_retransmit th cfg b m = (b', m')" "csum_documented th"
    and "d = sb_data b" "d' = sb_data b'"
  shows "length d' = length d \<and> (\<forall>i. i \<notin> {14, 15, 24, 25} \<longrightarrow> d' ! i = d ! i)
    \<and> (be16 d 12 = ETH_P_IP \<longrightarrow> d' ! 14 = d ! 14 \<and> d' ! 15 AND 3 = d ! 15 AND 3)
    \<and> (be16 d 12 = ETH_P_IPV6 \<longrightarrow>
         d' ! 24 = d ! 24 \<and> d' ! 25 = d ! 25 \<and> be16 d' 14 AND 0xf03f = be16 d 14 AND 0xf03f)
    \<and> (d' \<noteq> d \<and> th_store_ok th \<and> kd_dscp_value cfg \<le> 63 \<longrightarrow>
         kd_enabled cfg \<noteq> 0
         \<and> (be16 d 12 = ETH_P_IP \<and> drop_bit 2 (d' ! 15) = ucast (kd_dscp_value cfg)
            \<or> be16 d 12 = ETH_P_IPV6 \<and> drop_bit 6 (be16 d' 14) AND 0x3f = ucast (kd_dscp_value cfg)))"
proof (cases rule: check_retransmit_data [OF assms(1)])
  case 1
  then show ?thesis using assms(3,4) by simp
next
  case (2 f hw)
  then have no6: "be16 d 12 \<noteq> ETH_P_IPV6" using assms(3) by (simp add: ETH_P_IP_def ETH_P_IPV6_def)
  note e = mark_v4_effect [OF assms(2) 2(2,4), folded assms(3,4)]
  show ?thesis using 2(1,3) no6 e assms(3) mark_tos_bits by simp
next
  case 3
  then have no4: "be16 d 12 \<noteq> ETH_P_IP" using assms(3) by (simp add: ETH_P_IP_def ETH_P_IPV6_def)
  note e = mark_v6_effect [OF 3(2,4), folded assms(3,4)]
  show ?thesis using 3(1,3) no4 e assms(3) mark_vtc_bits by simp
qed

text \<open>The same SYN-ACK sent again by a socket that had sent it before, marked with codepoint 46.\<close>

definition resent_skb :: skb where
  "resent_skb = syn_ack_skb\<lparr>sb_sk := Some \<lparr>ks_full = True, ks_tcp = True, ks_skc_tcp = True, ks_snd_nxt = 100,
     ks_ca_name = None, ks_bytes_acked = 0, ks_snd_una = 0\<rparr>\<rparr>"

definition marking_46 :: kernel_retransmit_dscp_config where
  "marking_46 = \<lparr>kd_abi_version = 2, kd_enabled = 1, kd_dscp_value = 46, kd_reserved = 0\<rparr>"

theorem marking_is_local_witness:
  "\<exists>b' m'. skyline_check_retransmit plain_helpers marking_46 resent_skb copying_maps = (b', m')
     \<and> drop_bit 2 (sb_data b' ! 15) = 46 \<and> sb_data b' ! 14 = 0x45 \<and> length (sb_data b') = 54"
proof -
  have d: "sb_data resent_skb = syn_ack" "length syn_ack = 54" "be16 syn_ack 12 = ETH_P_IP" "syn_ack ! 15 = 0" "syn_ack ! 14 = 0x45"
    by (simp_all add: resent_skb_def syn_ack_skb_def syn_ack_def be16_def ETH_P_IP_def)
  have parse: "skyline_parse_ipv4 syn_ack = Some (34, 0, 0x4500)"
    by (simp add: skyline_parse_ipv4_def syn_ack_def be16_def ETH_P_IP_def IPPROTO_TCP_def ETH_HLEN_def)
  have "segment_end resent_skb 34 = 10" "be32 syn_ack 38 = 9"
    by (simp_all add: segment_end_def resent_skb_def syn_ack_skb_def syn_ack_def be32_def tcp_header_len_def
        tcp_syn_def tcp_fin_def)
  then obtain m1 where ret: "skyline_is_retransmit resent_skb 34 copying_maps = (True, m1)"
    using d(1,2) by (simp add: skyline_is_retransmit_def Let_def) (simp add: resent_skb_def)
  have "mark_tos 46 0 = 184" by (simp add: mark_tos_def)
  then have "skyline_mark_dscp_v4 plain_helpers 46 0 0x4500 syn_ack = (True, syn_ack[15 := 184])"
    by (simp add: skyline_mark_dscp_v4_def store_byte_def plain_helpers_def)
  then obtain b' m' where run: "skyline_check_retransmit plain_helpers marking_46 resent_skb copying_maps = (b', m')"
      "sb_data b' = syn_ack[15 := 184]"
    using d parse ret by (simp add: skyline_check_retransmit_def Let_def marking_46_def)
  have "sb_data b' ! 15 = 184" using run(2) d(2) by simp
  then have "sb_data b' \<noteq> syn_ack" using d(4) by auto
  then show ?thesis
    using marking_is_local [OF run(1) plain_helpers_documented(2) d(1) [symmetric] refl] run(1) d
    by (auto simp: marking_46_def plain_helpers_def ETH_P_IP_def ETH_P_IPV6_def)
qed

section \<open>The range that is copied\<close>

text \<open>
  The offset of a segment in the stream, taken in 64 bits from the bytes acknowledged so far, is exact
  for any segment at or past \<open>snd_una\<close>, however often the sequence numbers have wrapped: data is
  copied exactly if it starts within the first configured bytes of the connection.
\<close>

lemma copied_range_exact:
  assumes "sb_sk b = Some sk" "ks_skc_tcp sk" "skyline_runs_skyline_cc sk"
    and "\<not> tcp_syn (sb_data b) off" "tcp_header_len (sb_data b) off < sb_len b"
    and "ks_bytes_acked sk = word_of_nat acked" "ks_snd_una sk = word_of_nat (isn + acked)"
    and "be32 (sb_data b) (unat off + 4) = word_of_nat (isn + start)"
    and "acked \<le> start" "start < acked + 2 ^ 32" "start < 2 ^ 64"
  shows "red_wanted cfg b off \<longleftrightarrow> start < unat (kred_bytes cfg)"
proof -
  have diff: "be32 (sb_data b) (unat off + 4) - ks_snd_una sk = word_of_nat (start - acked)"
    using assms(7-9) by (simp add: of_nat_diff)
  have "unat (word_of_nat n :: u32) = n" if "n < 2 ^ 32" for n
    using that by (simp add: unat_of_nat take_bit_nat_eq_self)
  then have "unat (word_of_nat (start - acked) :: u32) = start - acked"
    using assms(9,10) by (simp add: less_diff_conv2 del: of_nat_diff)
  then have gap: "unat (ucast (be32 (sb_data b) (unat off + 4) - ks_snd_una sk) :: u64) = start - acked"
    unfolding diff using assms(9,10) by (simp add: unsigned_ucast_eq take_bit_nat_eq_self del: of_nat_diff)
  have "unat (ks_bytes_acked sk) = acked"
    using assms(6,9,11) by (simp add: unat_of_nat take_bit_nat_eq_self)
  then have "unat (ks_bytes_acked sk + ucast (be32 (sb_data b) (unat off + 4) - ks_snd_una sk)) = start"
    using gap assms(9,11) by (simp add: unat_word_ariths)
  moreover have "unat (ucast (kred_bytes cfg) :: u64) = unat (kred_bytes cfg)"
    using unat_u32_bound [of "kred_bytes cfg"] by (simp add: unsigned_ucast_eq take_bit_nat_eq_self)
  moreover have "red_wanted cfg b off \<longleftrightarrow>
      \<not> ucast (kred_bytes cfg) \<le> ks_bytes_acked sk + ucast (be32 (sb_data b) (unat off + 4) - ks_snd_una sk)"
    using assms(1-5) by (auto simp: red_wanted_def Let_def)
  ultimately show ?thesis by (simp add: word_le_nat_alt not_le)
qed

end
