(* ===== verification/ConfigKeys.thy ===== *)
theory ConfigKeys
  imports Validate
begin

text \<open>
  Loading a configuration file: \<open>SkylineConfig::load\<close> and \<open>from_toml\<close>, and the walk that refuses a
  key the configuration does not have. The TOML parser and the serde encoding of the
  configuration are libraries: parsing, decoding and encoding are arguments. A table is the list
  of its entries in iteration order.
\<close>

datatype toml = TTable "(string \<times> toml) list" | TLeaf string

type_synonym toml_table = "(string \<times> toml) list"

fun is_table :: "toml \<Rightarrow> bool" where
  "is_table (TTable _) = True"
| "is_table (TLeaf _) = False"

section \<open>Operations\<close>

definition homes_of :: "toml_table \<Rightarrow> string \<Rightarrow> string \<Rightarrow> string list" where
  "homes_of full key not_in =
     map (\<lambda>(name, _). ''['' @ name @ '']'')
       (filter (\<lambda>(name, value). name \<noteq> not_in
           \<and> (case value of TTable t \<Rightarrow> map_of t key \<noteq> None | TLeaf _ \<Rightarrow> False)) full)"

definition home_of :: "toml_table \<Rightarrow> string \<Rightarrow> string \<Rightarrow> string option" where
  "home_of full key not_in =
     (if not_in \<noteq> [] \<and> (case map_of full key of Some v \<Rightarrow> \<not> is_table v | None \<Rightarrow> False)
      then Some ''a top-level key, written above the first [table]''
      else (case homes_of full key not_in of
              [] \<Rightarrow> None
            | [one] \<Rightarrow> Some (''a key of '' @ one)
            | hs \<Rightarrow> Some (''a key of '' @ join '', '' (butlast hs) @ '' or '' @ last hs)))"

definition unknown_note :: "toml_table \<Rightarrow> string \<Rightarrow> string \<Rightarrow> toml \<Rightarrow> string" where
  "unknown_note full pre key value =
     (if is_table value then
        (if pre = [] then ''table ['' @ key @ '']'' else ''table ['' @ pre @ ''.'' @ key @ '']'')
      else
        (let place = (if pre = [] then key @ '' at the top level'' else key @ '' in ['' @ pre @ '']'')
         in case home_of full key pre of
              Some home \<Rightarrow> place @ '' (it is '' @ home @ '')''
            | None \<Rightarrow> place))"

definition child_prefix :: "string \<Rightarrow> string \<Rightarrow> string" where
  "child_prefix pre key = (if pre = [] then key else pre @ ''.'' @ key)"

fun unknown_keys :: "toml_table \<Rightarrow> toml_table \<Rightarrow> toml_table \<Rightarrow> string \<Rightarrow> string list" where
  "unknown_keys [] known full pre = []"
| "unknown_keys ((key, value) # rest) known full pre =
     (case map_of known key of
        Some (TTable known_table) \<Rightarrow>
          (case value of
             TTable file_table \<Rightarrow> unknown_keys file_table known_table full (child_prefix pre key)
           | TLeaf _ \<Rightarrow> [])
      | Some (TLeaf _) \<Rightarrow> []
      | None \<Rightarrow> [unknown_note full pre key value])
     @ unknown_keys rest known full pre"

definition get_or_insert :: "'a option \<Rightarrow> 'a \<Rightarrow> 'a option" where
  "get_or_insert o1 d = (case o1 of Some x \<Rightarrow> Some x | None \<Rightarrow> Some d)"

definition with_every_key :: "skyline_config \<Rightarrow> skyline_config" where
  "with_every_key c =
     c\<lparr>rack_tuning := \<lparr>tcp_recovery = get_or_insert (tcp_recovery (rack_tuning c)) 0,
                        tcp_reordering = get_or_insert (tcp_reordering (rack_tuning c)) 0,
                        tcp_early_retrans = get_or_insert (tcp_early_retrans (rack_tuning c)) 0\<rparr>,
       runtime_table := (runtime_table c)
         \<lparr>rt_tc_interface := get_or_insert (rt_tc_interface (runtime_table c)) [],
          rt_pin_dir := get_or_insert (rt_pin_dir (runtime_table c)) []\<rparr>\<rparr>"

text \<open>
  \<open>parse\<close> is \<open>toml::from_str\<close>, \<open>decode\<close> is \<open>try_into\<close> and \<open>encode\<close> is \<open>Value::try_from\<close> (None when
  it fails or the value is not a table); the first two fail with the text of their error.
\<close>

definition from_toml ::
  "(string \<Rightarrow> (string, toml_table) result) \<Rightarrow> (toml_table \<Rightarrow> (string, skyline_config) result)
   \<Rightarrow> (skyline_config \<Rightarrow> toml_table option) \<Rightarrow> string \<Rightarrow> (config_error, skyline_config) result" where
  "from_toml parse decode encode content =
     (case parse content of
        Inl e \<Rightarrow> Inl (Parse e)
      | Inr file \<Rightarrow>
          (case decode file of
             Inl e \<Rightarrow> Inl (Parse e)
           | Inr c \<Rightarrow>
               (case encode (with_every_key c) of
                  None \<Rightarrow> Inl (Invalid ''the configuration could not be written back out to check it for unknown keys'')
                | Some known \<Rightarrow>
                    (case unknown_keys file known known [] of
                       [] \<Rightarrow> Inr c
                     | unknown \<Rightarrow> Inl (UnknownKeys (join ''; '' unknown))))))"

definition config_load ::
  "(string \<Rightarrow> (string, string) result) \<Rightarrow> (string \<Rightarrow> (string, toml_table) result)
   \<Rightarrow> (toml_table \<Rightarrow> (string, skyline_config) result)
   \<Rightarrow> (skyline_config \<Rightarrow> toml_table option) \<Rightarrow> string \<Rightarrow> (config_error, skyline_config) result" where
  "config_load read_to_string parse decode encode path =
     (case read_to_string path of
        Inl e \<Rightarrow> Inl (Read path e)
      | Inr content \<Rightarrow>
          res_bind (from_toml parse decode encode content)
            (\<lambda>c. res_bind (validate c) (\<lambda>_. Inr c)))"

section \<open>What is refused\<close>

text \<open>
  The dotted paths of a table, and the paths a written-out configuration answers for: those it
  has, and those that go on below one of its plain values (the decoder has already refused a
  table where a value is expected).
\<close>

inductive has_path :: "toml_table \<Rightarrow> string list \<Rightarrow> bool" where
  here: "(k, v) \<in> set t \<Longrightarrow> has_path t [k]"
| below: "(k, TTable u) \<in> set t \<Longrightarrow> has_path u p \<Longrightarrow> has_path t (k # p)"

inductive_simps has_path_Nil [simp]: "has_path t []"
inductive_simps has_path_Cons: "has_path t (k # p)"

fun knows_path :: "toml_table \<Rightarrow> string list \<Rightarrow> bool" where
  "knows_path t [] = True"
| "knows_path t (k # p) =
     (case map_of t k of
        None \<Rightarrow> False
      | Some (TLeaf _) \<Rightarrow> True
      | Some (TTable u) \<Rightarrow> knows_path u p)"

lemma has_path_cons_table:
  "has_path ((k, v) # rest) p \<longleftrightarrow>
     p = [k] \<or> (\<exists>u q. v = TTable u \<and> p = k # q \<and> has_path u q) \<or> has_path rest p"
  by (cases p) (auto simp: has_path_Cons)

lemma unknown_keys_Nil_iff:
  "unknown_keys ftab ktab full pre = [] \<longleftrightarrow> (\<forall>p. has_path ftab p \<longrightarrow> knows_path ktab p)"
proof (induction ftab ktab full pre rule: unknown_keys.induct)
  case (1 known full pre)
  show ?case
    by (auto elim: has_path.cases)
next
  case (2 key "value" rest known full pre)
  let ?below = "\<forall>u q. value = TTable u \<longrightarrow> has_path u q \<longrightarrow> knows_path known (key # q)"
  have "(\<forall>p. has_path ((key, value) # rest) p \<longrightarrow> knows_path known p) \<longleftrightarrow>
      knows_path known [key] \<and> ?below \<and> (\<forall>p. has_path rest p \<longrightarrow> knows_path known p)"
    unfolding has_path_cons_table by blast
  moreover have "knows_path known [key] \<and> ?below \<longleftrightarrow>
      (case map_of known key of
        Some (TTable known_table) \<Rightarrow>
          (case value of
             TTable file_table \<Rightarrow> unknown_keys file_table known_table full (child_prefix pre key)
           | TLeaf _ \<Rightarrow> [])
      | Some (TLeaf _) \<Rightarrow> []
      | None \<Rightarrow> [unknown_note full pre key value]) = []"
    using "2.IH"(1) by (auto split: option.splits toml.splits)
  ultimately show ?case
    using "2.IH"(2) unfolding unknown_keys.simps append_is_Nil_conv by blast
qed

text \<open>
  A configuration file is accepted by \<open>load\<close> exactly when it can be read, parsed and decoded,
  every dotted key path in it is one the configuration writes back out, and the decoded
  configuration is valid; the result is the decoded configuration. No misplaced or misspelt key
  is passed over.
\<close>

lemma load_accepts:
  "config_load read_to_string parse decode encode path = Inr c \<longleftrightarrow>
     (\<exists>content file known. read_to_string path = Inr content \<and> parse content = Inr file
        \<and> decode file = Inr c \<and> encode (with_every_key c) = Some known
        \<and> (\<forall>p. has_path file p \<longrightarrow> knows_path known p) \<and> validate c = Inr ())"
proof -
  have "from_toml parse decode encode content = Inr c \<longleftrightarrow>
      (\<exists>file known. parse content = Inr file \<and> decode file = Inr c
        \<and> encode (with_every_key c) = Some known \<and> unknown_keys file known known [] = [])" for content
    by (auto simp: from_toml_def split: sum.splits option.splits list.splits)
  then show ?thesis
    by (auto simp: config_load_def res_simps unknown_keys_Nil_iff split: sum.splits)
qed

text \<open>A file with one known key decodes to the shipped configuration; the witness of C6.\<close>

lemma with_every_key_present:
  "tcp_recovery (rack_tuning (with_every_key c)) \<noteq> None"
  "tcp_reordering (rack_tuning (with_every_key c)) \<noteq> None"
  "tcp_early_retrans (rack_tuning (with_every_key c)) \<noteq> None"
  "rt_tc_interface (runtime_table (with_every_key c)) \<noteq> None"
  "rt_pin_dir (runtime_table (with_every_key c)) \<noteq> None"
  by (simp_all add: with_every_key_def get_or_insert_def split: option.splits)

lemma homes_of_Nil:
  "homes_of full key not_in = [] \<longleftrightarrow>
     \<not> (\<exists>name t. (name, TTable t) \<in> set full \<and> name \<noteq> not_in \<and> map_of t key \<noteq> None)"
  by (auto simp: homes_of_def filter_empty_conv split: toml.splits) (metis is_table.cases option.distinct(1))

text \<open>
  The hint about where a misplaced key belongs is given exactly when there is such a place: a
  plain top-level key, or a table other than the one the key was written in.
\<close>

lemma home_of_complete:
  "home_of full key not_in = None \<longleftrightarrow>
     \<not> (not_in \<noteq> [] \<and> (\<exists>v. map_of full key = Some (TLeaf v)))
     \<and> \<not> (\<exists>name t. (name, TTable t) \<in> set full \<and> name \<noteq> not_in \<and> map_of t key \<noteq> None)"
proof -
  have "(case homes_of full key not_in of [] \<Rightarrow> None | [one] \<Rightarrow> Some (''a key of '' @ one)
      | hs \<Rightarrow> Some (''a key of '' @ join '', '' (butlast hs) @ '' or '' @ last hs)) = None
      \<longleftrightarrow> homes_of full key not_in = []"
    by (simp split: list.splits)
  moreover have "(case map_of full key of Some v \<Rightarrow> \<not> is_table v | None \<Rightarrow> False)
      \<longleftrightarrow> (\<exists>v. map_of full key = Some (TLeaf v))"
    by (auto split: option.splits elim: is_table.elims)
  ultimately show ?thesis
    unfolding home_of_def homes_of_Nil [symmetric] by simp
qed

end
