(* ===== verification/EventLog.thy ===== *)
theory EventLog
  imports Text
begin

text \<open>
  \<open>EventLog\<close> of the daemon: the event file on a RAM-backed file system, capped by rotation. Files
  are inodes behind names, since the log writes through a handle that outlives a rename or a
  deletion; each call of the file system may fail. The theorem is the bound the cap is there for,
  over any sequence of appends, I/O failures and operator interventions. Lengths are natural
  numbers: the cap is below \<open>2 ^ 52\<close> bytes, so the 64-bit sums of the source do not overflow.
\<close>

section \<open>Files\<close>

record file_system =
  names :: "string \<rightharpoonup> nat"
  data :: "nat \<Rightarrow> string"
  fresh :: nat

definition size_of :: "file_system \<Rightarrow> nat \<Rightarrow> nat" where
  "size_of fs i = length (data fs i)"

definition open_for_append :: "bool \<Rightarrow> string \<Rightarrow> file_system \<Rightarrow> (io_kind, nat) result \<times> file_system" where
  "open_for_append ok path fs =
     (if \<not> ok then (Inl OtherKind, fs)
      else (case names fs path of
              Some i \<Rightarrow> (Inr i, fs)
            | None \<Rightarrow> (Inr (fresh fs),
                 fs\<lparr>names := (names fs)(path \<mapsto> fresh fs), data := (data fs)(fresh fs := []),
                    fresh := Suc (fresh fs)\<rparr>)))"

definition fs_rename :: "bool \<Rightarrow> string \<Rightarrow> string \<Rightarrow> file_system \<Rightarrow> (io_kind, unit) result \<times> file_system" where
  "fs_rename ok from to fs =
     (if \<not> ok then (Inl OtherKind, fs)
      else (case names fs from of
              None \<Rightarrow> (Inl NotFound, fs)
            | Some i \<Rightarrow> (Inr (), fs\<lparr>names := ((names fs)(to \<mapsto> i))(from := None)\<rparr>)))"

section \<open>The log\<close>

record event_log =
  el_path :: string
  el_rotated_path :: string
  el_max_bytes :: nat
  el_file :: nat
  el_len :: nat

text \<open>
  Which of the calls an operation makes succeed this time; \<open>write_cut\<close> is the number of bytes after
  which a write fails, if it does.
\<close>

record io_ok =
  stat_ok :: bool
  rename_ok :: bool
  open_ok :: bool
  write_cut :: "nat option"

definition event_log_open ::
  "io_ok \<Rightarrow> string \<Rightarrow> nat \<Rightarrow> file_system \<Rightarrow> (anyhow, event_log) result \<times> file_system" where
  "event_log_open io path max_bytes fs =
     (case open_for_append (open_ok io) path fs of
        (Inl k, fs') \<Rightarrow> (Inl \<lparr>chain = [''open event log '' @ path, ''os error''], io_kind_of = Some k\<rparr>, fs')
      | (Inr i, fs') \<Rightarrow>
          if \<not> stat_ok io
          then (Inl \<lparr>chain = [''stat event log '' @ path, ''os error''], io_kind_of = Some OtherKind\<rparr>, fs')
          else (Inr \<lparr>el_path = path, el_rotated_path = path @ ''.1'', el_max_bytes = max_bytes,
                     el_file = i, el_len = size_of fs' i\<rparr>, fs'))"

definition event_log_rotate ::
  "io_ok \<Rightarrow> event_log \<Rightarrow> file_system \<Rightarrow> (io_kind, unit) result \<times> event_log \<times> file_system" where
  "event_log_rotate io l fs =
     (case fs_rename (rename_ok io) (el_path l) (el_rotated_path l) fs of
        (Inl k, fs1) \<Rightarrow>
          if k \<noteq> NotFound then (Inl k, l, fs1)
          else (case open_for_append (open_ok io) (el_path l) fs1 of
                  (Inl k2, fs2) \<Rightarrow> (Inl k2, l, fs2)
                | (Inr i, fs2) \<Rightarrow> (Inr (), l\<lparr>el_file := i, el_len := 0\<rparr>, fs2))
      | (Inr _, fs1) \<Rightarrow>
          (case open_for_append (open_ok io) (el_path l) fs1 of
             (Inl k2, fs2) \<Rightarrow> (Inl k2, l, fs2)
           | (Inr i, fs2) \<Rightarrow> (Inr (), l\<lparr>el_file := i, el_len := 0\<rparr>, fs2)))"

text \<open>The end of \<open>append\<close>: one \<open>write_all\<close> of the whole line. A failed one may have written a part.\<close>

definition event_log_write ::
  "io_ok \<Rightarrow> string \<Rightarrow> event_log \<Rightarrow> file_system \<Rightarrow> (io_kind, unit) result \<times> event_log \<times> file_system" where
  "event_log_write io line l fs =
     (case write_cut io of
        Some n \<Rightarrow>
          (Inl OtherKind, l, fs\<lparr>data := (data fs)(el_file l := data fs (el_file l) @ take n line)\<rparr>)
      | None \<Rightarrow>
          (Inr (), l\<lparr>el_len := el_len l + length line\<rparr>,
           fs\<lparr>data := (data fs)(el_file l := data fs (el_file l) @ line)\<rparr>))"

definition event_log_append ::
  "io_ok \<Rightarrow> string \<Rightarrow> event_log \<Rightarrow> file_system \<Rightarrow> (io_kind, unit) result \<times> event_log \<times> file_system" where
  "event_log_append io line l fs =
     (if el_len l + length line > el_max_bytes l then
        (if \<not> stat_ok io then (Inl OtherKind, l, fs)
         else
           (let l1 = l\<lparr>el_len := size_of fs (el_file l)\<rparr>
            in if el_len l1 > 0 \<and> el_len l1 + length line > el_max_bytes l1
               then (case event_log_rotate io l1 fs of
                       (Inl k, l2, fs2) \<Rightarrow> (Inl k, l2, fs2)
                     | (Inr _, l2, fs2) \<Rightarrow> event_log_write io line l2 fs2)
               else event_log_write io line l1 fs))
      else event_log_write io line l fs)"

section \<open>The bound\<close>

text \<open>What happens to the log: an event is appended, or the operator truncates or deletes a file.\<close>

datatype log_op = Append io_ok string | Truncate string | Delete string

fun log_op_step :: "log_op \<Rightarrow> event_log \<times> file_system \<Rightarrow> event_log \<times> file_system" where
  "log_op_step (Append io line) (l, fs) = snd (event_log_append io line l fs)"
| "log_op_step (Truncate p) (l, fs) =
     (l, case names fs p of None \<Rightarrow> fs | Some i \<Rightarrow> fs\<lparr>data := (data fs)(i := [])\<rparr>)"
| "log_op_step (Delete p) (l, fs) = (l, fs\<lparr>names := (names fs)(p := None)\<rparr>)"

definition log_run :: "log_op list \<Rightarrow> event_log \<times> file_system \<Rightarrow> event_log \<times> file_system" where
  "log_run ops s = fold log_op_step ops s"

definition clean_lines :: "nat \<Rightarrow> log_op list \<Rightarrow> bool" where
  "clean_lines m ops =
     (\<forall>io line. Append io line \<in> set ops \<longrightarrow> length line \<le> m \<and> write_cut io \<in> {None, Some 0})"

text \<open>
  The cap holds for the file written to and for both names; the tracked length never undercounts.
\<close>

definition log_inv :: "nat \<Rightarrow> string \<Rightarrow> string \<Rightarrow> event_log \<Rightarrow> file_system \<Rightarrow> bool" where
  "log_inv m p q l fs =
     (el_path l = p \<and> el_rotated_path l = q \<and> el_max_bytes l = m
      \<and> size_of fs (el_file l) \<le> el_len l \<and> size_of fs (el_file l) \<le> m \<and> el_file l < fresh fs
      \<and> (\<forall>i. names fs p = Some i \<longrightarrow> i = el_file l)
      \<and> (\<forall>i. names fs q = Some i \<longrightarrow> size_of fs i \<le> m \<and> i < fresh fs))"

lemma write_inv:
  assumes "log_inv m p q l fs" "size_of fs (el_file l) + length line \<le> m"
    and "write_cut io \<in> {None, Some 0}" and "event_log_write io line l fs = (r, l', fs')"
  shows "log_inv m p q l' fs'"
  using assms by (auto simp: log_inv_def event_log_write_def size_of_def split: option.splits)

lemma stat_inv: "log_inv m p q l fs \<Longrightarrow> log_inv m p q (l\<lparr>el_len := size_of fs (el_file l)\<rparr>) fs"
  by (simp add: log_inv_def)

lemma open_fresh:
  assumes "log_inv m p q l fs" "names fs p = None" "p \<noteq> q" "open_for_append ok p fs = (Inr i, fs')"
  shows "log_inv m p q (l\<lparr>el_file := i, el_len := 0\<rparr>) fs' \<and> size_of fs' i = 0"
  using assms by (auto simp: log_inv_def open_for_append_def size_of_def split: if_splits)

lemma rename_inv:
  assumes "log_inv m p q l fs" "p \<noteq> q" "fs_rename ok p q fs = (Inr (), fs')"
  shows "log_inv m p q l fs' \<and> names fs' p = None"
  using assms by (auto simp: log_inv_def fs_rename_def size_of_def split: if_splits option.splits)

lemma rotate_inv:
  assumes inv: "log_inv m p q l fs" and pq: "p \<noteq> q" and r: "event_log_rotate io l fs = (r, l', fs')"
  shows "log_inv m p q l' fs' \<and> (r = Inr () \<longrightarrow> size_of fs' (el_file l') = 0)"
proof -
  have paths: "el_path l = p" "el_rotated_path l = q" using inv by (simp_all add: log_inv_def)
  obtain res fs1 where rn: "fs_rename (rename_ok io) p q fs = (res, fs1)" by (metis surj_pair)
  obtain ores fs2 where op: "open_for_append (open_ok io) p fs1 = (ores, fs2)" by (metis surj_pair)
  have same: "fs1 = fs" if "res = Inl k" for k
    using rn that by (auto simp: fs_rename_def split: if_splits option.splits)
  have gone: "names fs1 p = None" if "res = Inl NotFound \<or> res = Inr ()"
    using rn that pq by (auto simp: fs_rename_def split: if_splits option.splits)
  have inv1: "log_inv m p q l fs1"
    using same rename_inv [OF inv pq] rn inv by (cases res) auto
  have failed: "fs2 = fs1" if "ores = Inl k" for k
    using op that by (auto simp: open_for_append_def split: if_splits option.splits)
  show ?thesis
  proof (cases "res = Inl NotFound \<or> res = Inr ()")
    case True
    then show ?thesis
      using r rn op paths inv1 failed open_fresh [OF inv1 gone [OF True] pq]
      by (cases ores) (auto simp: event_log_rotate_def)
  next
    case False
    then obtain k where "res = Inl k" "k \<noteq> NotFound" by (cases res) auto
    with r rn paths inv1 show ?thesis by (auto simp: event_log_rotate_def)
  qed
qed

lemma append_inv:
  assumes inv: "log_inv m p q l fs" and pq: "p \<noteq> q" and len: "length line \<le> m"
    and cut: "write_cut io \<in> {None, Some 0}"
    and a: "event_log_append io line l fs = (r, l', fs')"
  shows "log_inv m p q l' fs'"
proof -
  let ?l1 = "l\<lparr>el_len := size_of fs (el_file l)\<rparr>"
  have m: "el_max_bytes l = m" and sz: "size_of fs (el_file l) \<le> el_len l"
    using inv by (simp_all add: log_inv_def)
  consider (fits) "el_len l + length line \<le> m"
    | (nostat) "m < el_len l + length line" "\<not> stat_ok io"
    | (refits) "m < el_len l + length line" "stat_ok io"
        "size_of fs (el_file l) = 0 \<or> size_of fs (el_file l) + length line \<le> m"
    | (full) "m < el_len l + length line" "stat_ok io"
        "0 < size_of fs (el_file l)" "m < size_of fs (el_file l) + length line"
    by linarith
  then show ?thesis
  proof cases
    case fits
    then have "event_log_write io line l fs = (r, l', fs')"
      using a m by (auto simp: event_log_append_def)
    with fits sz show ?thesis by (intro write_inv [OF inv _ cut]) auto
  next
    case nostat
    then show ?thesis using a m inv by (auto simp: event_log_append_def)
  next
    case refits
    then have "event_log_write io line ?l1 fs = (r, l', fs')"
      using a m by (auto simp: event_log_append_def Let_def split: if_splits)
    moreover have "size_of fs (el_file ?l1) + length line \<le> m" using refits(3) len by auto
    ultimately show ?thesis using write_inv [OF stat_inv [OF inv] _ cut] by blast
  next
    case full
    obtain r2 l2 fs2 where rot: "event_log_rotate io ?l1 fs = (r2, l2, fs2)" by (metis prod_cases3)
    note ri = rotate_inv [OF stat_inv [OF inv] pq rot]
    show ?thesis
    proof (cases r2)
      case (Inl k)
      with full rot a m ri show ?thesis by (auto simp: event_log_append_def Let_def)
    next
      case (Inr u)
      then have "event_log_write io line l2 fs2 = (r, l', fs')"
        using full rot a m by (auto simp: event_log_append_def Let_def)
      with Inr ri len show ?thesis using write_inv [OF _ _ cut, of m p q l2 fs2] by auto
    qed
  qed
qed

lemma log_op_inv:
  assumes "log_inv m p q l fs" "p \<noteq> q" "\<forall>io line. op1 = Append io line \<longrightarrow> length line \<le> m \<and> write_cut io \<in> {None, Some 0}"
    and "log_op_step op1 (l, fs) = (l', fs')"
  shows "log_inv m p q l' fs'"
proof (cases op1)
  case (Append io line)
  obtain r l1 fs1 where a: "event_log_append io line l fs = (r, l1, fs1)" by (metis prod_cases3)
  have "length line \<le> m" "write_cut io \<in> {None, Some 0}" using assms(3) Append by auto
  from append_inv [OF assms(1,2) this a] assms(4) Append a show ?thesis by simp
next
  case (Truncate x)
  with assms show ?thesis
    by (auto simp: log_inv_def size_of_def split: option.splits)
next
  case (Delete x)
  with assms show ?thesis by (auto simp: log_inv_def size_of_def split: if_splits)
qed

lemma log_run_inv:
  "log_inv m p q l fs \<Longrightarrow> p \<noteq> q \<Longrightarrow> clean_lines m ops \<Longrightarrow> log_run ops (l, fs) = (l', fs')
   \<Longrightarrow> log_inv m p q l' fs'"
proof (induction ops arbitrary: l fs)
  case (Cons op1 ops)
  obtain l1 fs1 where s: "log_op_step op1 (l, fs) = (l1, fs1)" by (metis surj_pair)
  have "log_inv m p q l1 fs1"
    using log_op_inv [OF Cons.prems(1,2) _ s] Cons.prems(3) by (auto simp: clean_lines_def)
  then show ?case
    using Cons s by (auto simp: log_run_def clean_lines_def)
qed (simp add: log_run_def)

text \<open>
  C30. The event log stays within its cap. Opened on a file within the cap, and with no event line
  longer than the cap, after any sequence of appends, of rename, open, stat or write failures and
  of the operator truncating or deleting files, the file written to and the rotated file each hold
  at most the cap, so at most twice the cap together, as long as a failed write leaves no part of
  its line behind.
\<close>

theorem event_log_bounded:
  assumes "event_log_open io path m fs = (Inr l, fs1)"
    and "\<forall>i. names fs i \<noteq> None \<longrightarrow> the (names fs i) < fresh fs \<and> size_of fs (the (names fs i)) \<le> m"
    and "clean_lines m ops" and "log_run ops (l, fs1) = (l', fs')"
  shows "size_of fs' (el_file l') \<le> m
    \<and> (\<forall>i. names fs' (path @ ''.1'') = Some i \<longrightarrow> size_of fs' i \<le> m)
    \<and> (\<forall>i. names fs' path = Some i \<longrightarrow> i = el_file l')"
proof -
  have "log_inv m path (path @ ''.1'') l fs1"
  proof (cases "names fs path")
    case None
    with assms(1) have l: "l = \<lparr>el_path = path, el_rotated_path = path @ ''.1'', el_max_bytes = m,
        el_file = fresh fs, el_len = 0\<rparr>"
      and f: "fs1 = fs\<lparr>names := (names fs)(path \<mapsto> fresh fs), data := (data fs)(fresh fs := []),
        fresh := Suc (fresh fs)\<rparr>"
      by (auto simp: event_log_open_def open_for_append_def size_of_def split: if_splits)
    have "i < fresh fs \<and> size_of fs i \<le> m" if "names fs x = Some i" for x i
      using assms(2) that by (metis option.distinct(1) option.sel)
    then show ?thesis
      unfolding l f log_inv_def by (auto simp: size_of_def)
        (metis less_irrefl_nat less_SucI)+
  next
    case (Some i)
    with assms(1) have l: "l = \<lparr>el_path = path, el_rotated_path = path @ ''.1'', el_max_bytes = m,
        el_file = i, el_len = size_of fs i\<rparr>" and f: "fs1 = fs"
      by (auto simp: event_log_open_def open_for_append_def split: if_splits)
    have "j < fresh fs \<and> size_of fs j \<le> m" if "names fs x = Some j" for x j
      using assms(2) that by (metis option.distinct(1) option.sel)
    with Some show ?thesis unfolding l f log_inv_def by auto
  qed
  from log_run_inv [OF this _ assms(3,4)] show ?thesis
    by (simp add: log_inv_def)
qed

definition all_ok :: io_ok where
  "all_ok = \<lparr>stat_ok = True, rename_ok = True, open_ok = True, write_cut = None\<rparr>"

definition empty_fs :: file_system where
  "empty_fs = \<lparr>names = Map.empty, data = (\<lambda>_. []), fresh = 0\<rparr>"

theorem event_log_bounded_witness:
  "\<exists>l fs1 l' fs'. event_log_open all_ok ''e'' 3 empty_fs = (Inr l, fs1)
     \<and> log_run [Append all_ok ''ab'', Append all_ok ''cd'', Truncate ''e''] (l, fs1) = (l', fs')
     \<and> size_of fs' (el_file l') \<le> 3"
proof -
  obtain l fs1 where o: "event_log_open all_ok ''e'' 3 empty_fs = (Inr l, fs1)"
    by (auto simp: event_log_open_def all_ok_def open_for_append_def empty_fs_def)
  obtain l' fs' where r: "log_run [Append all_ok ''ab'', Append all_ok ''cd'', Truncate ''e''] (l, fs1) = (l', fs')"
    by (metis surj_pair)
  have "size_of fs' (el_file l') \<le> 3"
    using event_log_bounded [OF o _ _ r] by (simp add: empty_fs_def clean_lines_def all_ok_def)
  with o r show ?thesis by blast
qed

text \<open>
  A write that fails part way is not counted: on a full file system the torn line stays, the next
  event is appended to it, and the file grows past the cap by what was left behind.
\<close>

lemma torn_write_uncounted:
  "\<exists>l fs1 l' fs'. event_log_open all_ok ''e'' 3 empty_fs = (Inr l, fs1)
     \<and> log_run [Append (all_ok\<lparr>write_cut := Some 2\<rparr>) ''abc'', Append all_ok ''def''] (l, fs1) = (l', fs')
     \<and> data fs' (el_file l') = ''abdef'' \<and> size_of fs' (el_file l') > 3"
  by (simp add: event_log_open_def all_ok_def open_for_append_def empty_fs_def log_run_def
      event_log_append_def event_log_write_def size_of_def)

end
