(* ===== verification/Caps.thy ===== *)
theory Caps
  imports Validate
begin

text \<open>
  What the daemon finds out about the kernel before it attaches anything: the capabilities read
  from BTF, whether fallback_cc and sch_fq are there (the module index depmod writes), the report
  \<open>probe_capabilities\<close> builds and \<open>validate_capabilities\<close> judges, and which struct_ops map of the
  BPF object is loaded. Files are read through an argument that gives their text; BTF is the view
  libbpf-rs gives of it: the structs with their members, and for a type id the kind behind its
  modifiers and typedefs with the id it points to.
\<close>

section \<open>BTF\<close>

datatype btf_kind = BtfPtr | BtfFuncProto | BtfOther

record btf =
  btf_structs :: "(string option \<times> (string option \<times> nat) list) list"
  btf_skip_mods :: "nat \<Rightarrow> (btf_kind \<times> nat option) option"

record btf_capabilities =
  bc_struct_ops :: bool
  bc_rack_reo_hook :: bool
  bc_tx_start_op :: bool

definition STRUCT_OPS_VALUE_TYPE :: string where
  "STRUCT_OPS_VALUE_TYPE = ''bpf_struct_ops_tcp_congestion_ops''"
definition RACK_REO_HOOK_MEMBER :: string where "RACK_REO_HOOK_MEMBER = ''rack_reo_wnd''"
definition TX_START_OP_MEMBER :: string where "TX_START_OP_MEMBER = ''cwnd_event_tx_start''"

definition btf_capabilities_default :: btf_capabilities where
  "btf_capabilities_default = \<lparr>bc_struct_ops = False, bc_rack_reo_hook = False, bc_tx_start_op = False\<rparr>"

definition is_function_pointer :: "btf \<Rightarrow> nat \<Rightarrow> bool" where
  "is_function_pointer b ty =
     (case btf_skip_mods b ty of
        Some (BtfPtr, Some pointee) \<Rightarrow>
          (case btf_skip_mods b pointee of Some (BtfFuncProto, _) \<Rightarrow> True | _ \<Rightarrow> False)
      | _ \<Rightarrow> False)"

definition has_fn_member :: "btf \<Rightarrow> string \<Rightarrow> (string option \<times> nat) list \<Rightarrow> bool" where
  "has_fn_member b name members = (\<exists>(n, ty) \<in> set members. n = Some name \<and> is_function_pointer b ty)"

definition probe_struct ::
  "btf \<Rightarrow> string option \<times> (string option \<times> nat) list \<Rightarrow> btf_capabilities \<Rightarrow> btf_capabilities" where
  "probe_struct b ty caps =
     (case ty of (name, members) \<Rightarrow>
        let c1 = (if name = Some STRUCT_OPS_VALUE_TYPE then caps\<lparr>bc_struct_ops := True\<rparr> else caps);
            c2 = (if has_fn_member b RACK_REO_HOOK_MEMBER members then c1\<lparr>bc_rack_reo_hook := True\<rparr> else c1)
        in if name = Some ''tcp_congestion_ops'' \<and> has_fn_member b TX_START_OP_MEMBER members
           then c2\<lparr>bc_tx_start_op := True\<rparr> else c2)"

definition probe_btf_capabilities :: "btf \<Rightarrow> btf_capabilities" where
  "probe_btf_capabilities b = fold (probe_struct b) (btf_structs b) btf_capabilities_default"

section \<open>Modules\<close>

datatype fallback_avail = Registered | Loadable | Missing

definition plain_name :: "string \<Rightarrow> bool" where
  "plain_name name =
     (name \<noteq> [] \<and> list_all (\<lambda>c. is_ascii_alphanumeric c \<or> c = CHR ''_'' \<or> c = CHR ''-'') name)"

definition fallback_availability :: "string \<Rightarrow> string \<Rightarrow> (string \<Rightarrow> bool) \<Rightarrow> fallback_avail" where
  "fallback_availability name registered module_exists =
     (if name \<in> set (split_whitespace registered) then Registered
      else if plain_name name \<and> module_exists (''tcp_'' @ name) then Loadable
      else Missing)"

definition replace_dash :: "string \<Rightarrow> string" where
  "replace_dash s = map (\<lambda>c. if c = CHR ''-'' then CHR ''_'' else c) s"

definition same_module :: "string \<Rightarrow> string \<Rightarrow> bool" where
  "same_module name wanted = (replace_dash name = replace_dash wanted)"

text \<open>\<open>split(p).next()\<close>: what precedes the first occurrence of \<open>p\<close>, or all of it.\<close>

fun before_str :: "string \<Rightarrow> string \<Rightarrow> string" where
  "before_str p [] = []"
| "before_str p (c # cs) = (if starts_with (c # cs) p then [] else c # before_str p cs)"

definition module_of_path :: "string \<Rightarrow> string" where
  "module_of_path path = before_str ''.ko'' (last (split_char CHR ''/'' path))"

record module_index =
  mi_dep :: string
  mi_alias :: string
  mi_builtin :: string
  mi_loading_disabled :: bool

text \<open>A file of the host: its text, or nothing when it cannot be read.\<close>

type_synonym file_reader = "string \<Rightarrow> string option"

definition unwrap_or_default :: "string option \<Rightarrow> string" where
  "unwrap_or_default t = (case t of Some s \<Rightarrow> s | None \<Rightarrow> [])"

definition module_index_read :: "file_reader \<Rightarrow> string \<Rightarrow> module_index" where
  "module_index_read read release =
     (let dir = ''/lib/modules/'' @ release
      in \<lparr>mi_dep = unwrap_or_default (read (dir @ ''/modules.dep'')),
          mi_alias = unwrap_or_default (read (dir @ ''/modules.alias'')),
          mi_builtin = unwrap_or_default (read (dir @ ''/modules.builtin'')),
          mi_loading_disabled =
            (case read ''/proc/sys/kernel/modules_disabled'' of Some v \<Rightarrow> trim v = ''1'' | None \<Rightarrow> False)\<rparr>)"

definition can_load :: "module_index \<Rightarrow> string \<Rightarrow> bool" where
  "can_load i modname =
     (let listed = list_ex (\<lambda>line. same_module (module_of_path (hd (split_char CHR '':'' line))) modname)
                     (lines (mi_dep i));
          aliased = list_ex (\<lambda>line. case split_whitespace line of
                        w1 # w2 # _ \<Rightarrow> w1 = ''alias'' \<and> same_module w2 modname
                      | _ \<Rightarrow> False) (lines (mi_alias i))
      in \<not> mi_loading_disabled i \<and> (listed \<or> aliased))"

definition built_in :: "module_index \<Rightarrow> string \<Rightarrow> bool" where
  "built_in i modname =
     list_ex (\<lambda>line. same_module (module_of_path (trim line)) modname) (lines (mi_builtin i))"

definition fq_is_available :: "module_index \<Rightarrow> string \<Rightarrow> string \<Rightarrow> bool" where
  "fq_is_available i proc_modules default_qdisc =
     (built_in i ''sch_fq'' \<or> can_load i ''sch_fq''
      \<or> list_ex (\<lambda>line. starts_with line ''sch_fq '') (lines proc_modules)
      \<or> trim default_qdisc = ''fq'')"

section \<open>The report\<close>

record capability_report =
  kernel_release :: string
  cap_btf :: bool
  cap_bpffs :: bool
  cap_cgroup_v2 :: bool
  fq_available :: bool
  struct_ops :: bool
  rack_reo_hook :: bool
  fallback_cc_available :: bool
  cap_notes :: "string list"

definition ARPHRD_ETHER :: nat where "ARPHRD_ETHER = 1"

definition interface_type :: "file_reader \<Rightarrow> string \<Rightarrow> u32 option" where
  "interface_type read interface =
     (case read (''/sys/class/net/'' @ interface @ ''/type'') of
        Some t \<Rightarrow> parse_u32 (trim t)
      | None \<Rightarrow> None)"

definition require_ethernet :: "string \<Rightarrow> u32 option \<Rightarrow> (anyhow, unit) result" where
  "require_ethernet interface device_type =
     (case device_type of
        Some t \<Rightarrow>
          if unat t \<noteq> ARPHRD_ETHER
          then Inl (anyhow_msg (interface @ '' is not an Ethernet device (type '' @ dec (unat t) @
                 '', e.g. a tunnel); skyline_tc is not attached''))
          else Inr ()
      | None \<Rightarrow> Inr ())"

definition fallback_note :: "skyline_config \<Rightarrow> string \<Rightarrow> fallback_avail \<Rightarrow> string list" where
  "fallback_note c registered fb =
     (let name = fallback_cc c in
      case fb of
        Registered \<Rightarrow> []
      | Loadable \<Rightarrow>
          [''fallback_cc '' @ name @ '' was not registered when skyline-speederd started; the kernel loads its module, tcp_''
           @ name @ '', the first time '' @ name @ '' is selected'']
      | Missing \<Rightarrow>
          (let choices = filter (\<lambda>known. known \<noteq> SKYLINE_CC_NAME) (split_whitespace registered)
           in [''fallback_cc '' @ name @ '' is not available: when skyline-speederd started this kernel had not registered it and had no module tcp_''
               @ name @ ''; registered then: '' @ (if choices = [] then ''none'' else join '' '' choices)]))"

text \<open>
  The paths and programs \<open>probe_capabilities\<close> looks at: file texts, which paths are files or
  directories, the parsed kernel BTF (or the error of parsing it), and whether \<open>tc -V\<close> runs.
\<close>

record probe_host =
  ph_read :: file_reader
  ph_is_file :: "string \<Rightarrow> bool"
  ph_is_dir :: "string \<Rightarrow> bool"
  ph_btf :: "(string, btf) result"
  ph_tc_runs :: bool

definition KERNEL_BTF_PATH :: string where "KERNEL_BTF_PATH = ''/sys/kernel/btf/vmlinux''"
definition AVAILABLE_CONGESTION_CONTROL_SYSCTL :: string where
  "AVAILABLE_CONGESTION_CONTROL_SYSCTL = ''/proc/sys/net/ipv4/tcp_available_congestion_control''"

definition probe_btf :: "probe_host \<Rightarrow> btf_capabilities \<times> string list" where
  "probe_btf h =
     (if ph_is_file h KERNEL_BTF_PATH
      then (case ph_btf h of
              Inr b \<Rightarrow> (probe_btf_capabilities b, [])
            | Inl e \<Rightarrow> (btf_capabilities_default,
                [''kernel BTF at '' @ KERNEL_BTF_PATH @ '' could not be parsed: '' @ e]))
      else (btf_capabilities_default, []))"

definition interface_notes :: "probe_host \<Rightarrow> skyline_config \<Rightarrow> string list" where
  "interface_notes h c =
     (case rt_tc_interface (runtime_table c) of
        None \<Rightarrow> []
      | Some interface \<Rightarrow>
          (if ph_is_dir h (''/sys/class/net/'' @ interface) then []
           else [''TC interface '' @ interface @ '' does not exist''])
          @ (case require_ethernet interface (interface_type (ph_read h) interface) of
               Inl e \<Rightarrow> [''TC interface '' @ join '': '' (chain e)]
             | Inr _ \<Rightarrow> [])
          @ (if g_qdisc (guard_table c) \<and> \<not> ph_tc_runs h
             then [''tc (iproute2) is not installed; the guard cannot keep the root qdisc of '' @ interface @
                   '' (or of the NICs under it) on fq'']
             else []))"

definition probe_capabilities :: "probe_host \<Rightarrow> skyline_config \<Rightarrow> capability_report" where
  "probe_capabilities h c =
     (let release = trim (case ph_read h ''/proc/sys/kernel/osrelease'' of Some t \<Rightarrow> t | None \<Rightarrow> ''unknown'');
          modules = module_index_read (ph_read h) release;
          (caps, btf_notes) = probe_btf h;
          registered = unwrap_or_default (ph_read h AVAILABLE_CONGESTION_CONTROL_SYSCTL);
          fallback = fallback_availability (fallback_cc c) registered (can_load modules)
      in \<lparr>kernel_release = release,
          cap_btf = ph_is_file h KERNEL_BTF_PATH,
          cap_bpffs = ph_is_dir h ''/sys/fs/bpf'',
          cap_cgroup_v2 = ph_is_file h ''/sys/fs/cgroup/cgroup.controllers'',
          fq_available = fq_is_available modules (unwrap_or_default (ph_read h ''/proc/modules''))
             (unwrap_or_default (ph_read h ''/proc/sys/net/core/default_qdisc'')),
          struct_ops = bc_struct_ops caps,
          rack_reo_hook = bc_rack_reo_hook caps,
          fallback_cc_available = (fallback \<noteq> Missing),
          cap_notes =
            btf_notes @ fallback_note c registered fallback
            @ (if ph_is_dir h (rt_cgroup_path (runtime_table c)) then []
               else [''cgroup '' @ rt_cgroup_path (runtime_table c) @ '' does not exist''])
            @ (if \<not> bc_rack_reo_hook caps \<and> mask_contains (feature_mask c) EARLY_LOSS
               then [''early-loss remains observation-only because the bounded RACK hook is absent''] else [])
            @ interface_notes h c\<rparr>)"

definition validate_capabilities :: "capability_report \<Rightarrow> (anyhow, unit) result" where
  "validate_capabilities r =
     (if \<not> cap_btf r then Inl (anyhow_msg ''kernel BTF is unavailable'')
      else if \<not> cap_bpffs r then Inl (anyhow_msg ''bpffs is unavailable'')
      else if \<not> cap_cgroup_v2 r then Inl (anyhow_msg ''cgroup v2 is unavailable'')
      else if \<not> fq_available r then Inl (anyhow_msg ''sch_fq is unavailable'')
      else if \<not> struct_ops r then Inl (anyhow_msg ''BPF struct_ops support was not detected'')
      else if \<not> fallback_cc_available r
      then Inl (anyhow_msg (''configured fallback congestion control is unavailable: set fallback_cc to one this kernel has (see the capability notes, or ''
             @ AVAILABLE_CONGESTION_CONTROL_SYSCTL @ '')''))
      else Inr ())"

section \<open>The BPF object\<close>

definition STRUCT_OPS_MAP :: string where "STRUCT_OPS_MAP = ''skyline_cc''"
definition STRUCT_OPS_TX_START_MAP :: string where "STRUCT_OPS_TX_START_MAP = ''skyline_cc_txs''"
definition CARGO_PKG_VERSION :: string where "CARGO_PKG_VERSION = ''0.5.4''"

definition struct_ops_map_for_kernel :: "(string, btf) result \<Rightarrow> string" where
  "struct_ops_map_for_kernel b =
     (case b of
        Inr btf \<Rightarrow> if bc_tx_start_op (probe_btf_capabilities btf) then STRUCT_OPS_TX_START_MAP else STRUCT_OPS_MAP
      | Inl _ \<Rightarrow> STRUCT_OPS_MAP)"

definition check_object_abi :: "string \<Rightarrow> u32 option \<Rightarrow> (anyhow, unit) result" where
  "check_object_abi path version =
     (case version of
        Some v \<Rightarrow>
          if v = ABI_VERSION then Inr ()
          else Inl (anyhow_msg (path @ '' was built for ABI '' @ dec (unat v) @ '', this skyline-speederd for ABI ''
                 @ dec (unat ABI_VERSION) @ '': install the BPF objects that came with this binary''))
      | None \<Rightarrow>
          Inl (anyhow_msg (path @ '' does not say which ABI it was built for, so it is older than this skyline-speederd (''
                 @ CARGO_PKG_VERSION @ '', ABI '' @ dec (unat ABI_VERSION) @
                 ''): install the BPF objects that came with this binary'')))"

text \<open>An object opened but not loaded: its maps, each created on load or not, and its ABI note.\<close>

record open_object =
  oo_maps :: "(string \<times> bool) list"
  oo_abi :: "u32 option"

definition select_struct_ops :: "(string, btf) result \<Rightarrow> open_object \<Rightarrow> open_object \<times> string" where
  "select_struct_ops kernel_btf ob =
     (let wanted = (if STRUCT_OPS_TX_START_MAP \<in> fst ` set (oo_maps ob)
                    then struct_ops_map_for_kernel kernel_btf else STRUCT_OPS_MAP)
      in (ob\<lparr>oo_maps := map (\<lambda>(name, create).
              if name = STRUCT_OPS_MAP \<or> name = STRUCT_OPS_TX_START_MAP then (name, name = wanted)
              else (name, create)) (oo_maps ob)\<rparr>, wanted))"

text \<open>\<open>open_ob\<close> opens the file (or says why not); \<open>load_ob\<close> loads what is left enabled.\<close>

definition load_cc_object ::
  "(string \<Rightarrow> (anyhow, open_object) result) \<Rightarrow> (open_object \<Rightarrow> (anyhow, 'o) result) \<Rightarrow> (string, btf) result
   \<Rightarrow> string \<Rightarrow> (anyhow, 'o \<times> string) result" where
  "load_cc_object open_ob load_ob kernel_btf path =
     res_bind (open_ob path) (\<lambda>ob.
     res_bind (check_object_abi path (oo_abi ob)) (\<lambda>_.
       (case select_struct_ops kernel_btf ob of
          (ob', wanted) \<Rightarrow>
            res_bind (with_context (''load BPF object '' @ path) (load_ob ob')) (\<lambda>loaded. Inr (loaded, wanted)))))"

section \<open>The module index\<close>

text \<open>A line of modules.dep: the path of a module with its suffix, a colon and what it needs.\<close>

record dep_entry =
  de_dir :: string
  de_name :: string
  de_suffix :: string
  de_needs :: string

definition dep_line :: "dep_entry \<Rightarrow> string" where
  "dep_line e = de_dir e @ ''/'' @ de_name e @ ''.ko'' @ de_suffix e @ '':'' @ de_needs e"

definition dep_entry_ok :: "dep_entry \<Rightarrow> bool" where
  "dep_entry_ok e =
     (CHR '':'' \<notin> set (de_dir e) \<and> plain_name (de_name e)
      \<and> CHR ''/'' \<notin> set (de_suffix e) \<and> CHR '':'' \<notin> set (de_suffix e)
      \<and> newline \<notin> set (de_dir e @ de_suffix e @ de_needs e)
      \<and> (de_needs e = [] \<or> last (de_needs e) \<noteq> CHR 0x0D))"

lemma plain_name_chars:
  assumes "plain_name n"
  shows "CHR ''.'' \<notin> set n" "CHR ''/'' \<notin> set n" "CHR '':'' \<notin> set n" "newline \<notin> set n" "n \<noteq> []"
  using assms
  by (auto simp: plain_name_def list_all_iff is_ascii_alphanumeric_def is_ascii_alphabetic_def
      is_ascii_lower_def is_ascii_upper_def is_ascii_digit_def Let_def)

lemma before_str_ko: "CHR ''.'' \<notin> set n \<Longrightarrow> before_str ''.ko'' (n @ ''.ko'' @ s) = n"
  by (induction n) (auto simp: starts_with_def)

lemma split_char_hd: "d \<notin> set a \<Longrightarrow> hd (split_char d (a @ d # s)) = a"
  unfolding split_char_def by (subst split_on_append_sep) auto

lemma split_char_last: "d \<notin> set s \<Longrightarrow> last (split_char d (a @ d # s)) = s"
  by (simp add: split_char_append split_char_none)

lemma module_of_dep_line:
  assumes "dep_entry_ok e"
  shows "module_of_path (hd (split_char CHR '':'' (dep_line e))) = de_name e"
proof -
  let ?path = "de_dir e @ ''/'' @ de_name e @ ''.ko'' @ de_suffix e"
  note plain = plain_name_chars [of "de_name e"]
  have p: "plain_name (de_name e)" using assms by (simp add: dep_entry_ok_def)
  have "CHR '':'' \<notin> set ?path" using assms plain [OF p] by (auto simp: dep_entry_ok_def)
  then have "hd (split_char CHR '':'' (?path @ CHR '':'' # de_needs e)) = ?path" by (rule split_char_hd)
  then have path: "hd (split_char CHR '':'' (dep_line e)) = ?path" by (simp add: dep_line_def)
  have "CHR ''/'' \<notin> set (de_name e @ ''.ko'' @ de_suffix e)"
    using assms plain [OF p] by (auto simp: dep_entry_ok_def)
  then have "last (split_char CHR ''/'' (de_dir e @ CHR ''/'' # (de_name e @ ''.ko'' @ de_suffix e)))
      = de_name e @ ''.ko'' @ de_suffix e"
    by (rule split_char_last)
  then show ?thesis
    unfolding path module_of_path_def using before_str_ko [OF plain(1) [OF p]] by simp
qed

text \<open>
  From the files depmod writes, \<open>can_load\<close> finds exactly the modules they list: with a
  modules.dep made of any list of entries (whatever the directory, the compression suffix and the
  dependencies) and no alias, a module is loadable iff loading is not disabled and an entry has
  its name, with \<open>-\<close> and \<open>_\<close> taken as the same; a name that only occurs as a dependency, a part of
  another name or a directory does not count.
\<close>

lemma can_load_exact:
  assumes "\<forall>e \<in> set es. dep_entry_ok e"
    and "mi_dep i = concat (map (\<lambda>e. dep_line e @ [newline]) es)" and "mi_alias i = []"
  shows "can_load i m \<longleftrightarrow> \<not> mi_loading_disabled i \<and> (\<exists>e \<in> set es. same_module (de_name e) m)"
proof -
  have line_ok: "newline \<notin> set (dep_line e) \<and> (dep_line e = [] \<or> last (dep_line e) \<noteq> CHR 0x0D)"
    if "e \<in> set es" for e
    using assms(1) that plain_name_chars(4) [of "de_name e"] by (auto simp: dep_entry_ok_def dep_line_def)
  have "lines (concat (map (\<lambda>l. l @ [newline]) (map dep_line es))) = map dep_line es"
    using line_ok by (intro lines_concat) auto
  then have "lines (mi_dep i) = map dep_line es"
    by (simp add: assms(2) comp_def)
  then show ?thesis
    using assms(1) by (auto simp: can_load_def assms(3) list_ex_iff module_of_dep_line)
qed

definition example_dep :: dep_entry where
  "example_dep = \<lparr>de_dir = ''kernel/net/ipv4'', de_name = ''tcp_cubic'', de_suffix = ''.xz'',
     de_needs = '' kernel/net/ipv4/tcp_vegas.ko.xz''\<rparr>"

section \<open>The capability gate and the struct_ops map\<close>

text \<open>
  An \<open>Enable\<close> that got past the capability check can always hand connections back: the probed
  report is accepted only if the kernel has struct_ops and sch_fq, and its fallback congestion
  control is registered, or is a plain algorithm name whose module the index lists while loading
  is allowed.
\<close>

lemma accepted_report_has_fallback:
  assumes "validate_capabilities (probe_capabilities h c) = Inr ()"
  shows "struct_ops (probe_capabilities h c) \<and> fq_available (probe_capabilities h c)
    \<and> (fallback_cc c \<in> set (split_whitespace (unwrap_or_default (ph_read h AVAILABLE_CONGESTION_CONTROL_SYSCTL)))
       \<or> plain_name (fallback_cc c)
          \<and> can_load (module_index_read (ph_read h) (kernel_release (probe_capabilities h c)))
              (''tcp_'' @ fallback_cc c))"
proof -
  have "fallback_cc_available (probe_capabilities h c)" "struct_ops (probe_capabilities h c)"
    "fq_available (probe_capabilities h c)"
    using assms by (auto simp: validate_capabilities_def split: if_splits)
  then show ?thesis
    by (simp add: probe_capabilities_def Let_def fallback_availability_def split: prod.splits if_splits)
qed

definition capable_host :: probe_host where
  "capable_host =
     \<lparr>ph_read = [AVAILABLE_CONGESTION_CONTROL_SYSCTL \<mapsto> ''reno cubic'', ''/proc/sys/net/core/default_qdisc'' \<mapsto> ''fq''],
      ph_is_file = (\<lambda>_. True), ph_is_dir = (\<lambda>_. True),
      ph_btf = Inr \<lparr>btf_structs = [(Some STRUCT_OPS_VALUE_TYPE, [])], btf_skip_mods = Map.empty\<rparr>,
      ph_tc_runs = True\<rparr>"

lemma capable_host_accepted: "validate_capabilities (probe_capabilities capable_host shipped_config) = Inr ()"
proof -
  have w: "split_whitespace ''reno cubic'' = [''reno'', ''cubic'']"
    by (simp add: split_whitespace_def is_whitespace_def)
  have f: "fallback_cc shipped_config = ''cubic''" by (simp add: shipped_config_def)
  show ?thesis
    by (simp add: validate_capabilities_def probe_capabilities_def Let_def capable_host_def probe_btf_def
        probe_btf_capabilities_def probe_struct_def has_fn_member_def fallback_availability_def
        unwrap_or_default_def AVAILABLE_CONGESTION_CONTROL_SYSCTL_def fq_is_available_def trim_def
        is_whitespace_def w f)
qed

text \<open>
  The BPF object is loaded only when it was built for this ABI, and then with exactly one
  layout of the algorithm: of the two struct_ops maps only the one whose name is returned is
  created, it is the new layout only if the kernel has the new op and the object has that map, and
  every other map keeps its setting.
\<close>

lemma load_cc_object_one_layout:
  assumes "load_cc_object open_ob load_ob kb path = Inr (loaded, wanted)"
  shows "\<exists>ob ob'. open_ob path = Inr ob \<and> oo_abi ob = Some ABI_VERSION \<and> load_ob ob' = Inr loaded
    \<and> map fst (oo_maps ob') = map fst (oo_maps ob)
    \<and> (wanted = STRUCT_OPS_MAP \<or> wanted = STRUCT_OPS_TX_START_MAP)
    \<and> (wanted = STRUCT_OPS_TX_START_MAP \<longleftrightarrow> STRUCT_OPS_TX_START_MAP \<in> fst ` set (oo_maps ob)
         \<and> (\<exists>b. kb = Inr b \<and> bc_tx_start_op (probe_btf_capabilities b)))
    \<and> (\<forall>name create. (name, create) \<in> set (oo_maps ob') \<longrightarrow>
         name \<in> {STRUCT_OPS_MAP, STRUCT_OPS_TX_START_MAP} \<and> create = (name = wanted)
         \<or> name \<notin> {STRUCT_OPS_MAP, STRUCT_OPS_TX_START_MAP} \<and> (name, create) \<in> set (oo_maps ob))"
proof -
  from assms obtain ob where ob: "open_ob path = Inr ob" "check_object_abi path (oo_abi ob) = Inr ()"
    "snd (select_struct_ops kb ob) = wanted" "load_ob (fst (select_struct_ops kb ob)) = Inr loaded"
    by (auto simp: load_cc_object_def res_simps case_prod_unfold)
  have abi: "oo_abi ob = Some ABI_VERSION"
    using ob(2) by (auto simp: check_object_abi_def split: option.splits if_splits)
  have ne: "STRUCT_OPS_MAP \<noteq> STRUCT_OPS_TX_START_MAP"
    by (simp add: STRUCT_OPS_MAP_def STRUCT_OPS_TX_START_MAP_def)
  let ?ob' = "fst (select_struct_ops kb ob)"
  have "map fst (oo_maps ?ob') = map fst (oo_maps ob)"
    by (auto simp: select_struct_ops_def Let_def)
  moreover have "wanted = STRUCT_OPS_MAP \<or> wanted = STRUCT_OPS_TX_START_MAP"
    using ob(3) by (auto simp: select_struct_ops_def Let_def struct_ops_map_for_kernel_def split: sum.splits)
  moreover have "wanted = STRUCT_OPS_TX_START_MAP \<longleftrightarrow> STRUCT_OPS_TX_START_MAP \<in> fst ` set (oo_maps ob)
         \<and> (\<exists>b. kb = Inr b \<and> bc_tx_start_op (probe_btf_capabilities b))"
    using ob(3) ne by (auto simp: select_struct_ops_def Let_def struct_ops_map_for_kernel_def split: sum.splits if_splits)
  moreover have "name \<in> {STRUCT_OPS_MAP, STRUCT_OPS_TX_START_MAP} \<and> create = (name = wanted)
         \<or> name \<notin> {STRUCT_OPS_MAP, STRUCT_OPS_TX_START_MAP} \<and> (name, create) \<in> set (oo_maps ob)" if "(name, create) \<in> set (oo_maps ?ob')" for name create
    using that ob(3) by (auto simp: select_struct_ops_def Let_def split: if_splits)
  ultimately show ?thesis using ob abi by blast
qed

end
