(* ===== verification/Qdisc.thy ===== *)
theory Qdisc
  imports Text "HOL-Library.List_Lexorder" "HOL-Library.Char_ord"
begin

text \<open>
  \<^verbatim>\<open>guard.rs\<close>, first half: reading \<open>tc qdisc show\<close>, judging an interface's root qdisc and planning
  how to turn it into fq. The theorems characterise the verdict, say that a plan only ever touches
  what the verdict allows (an fq child somebody tuned is never rebuilt, a fresh mq is only created
  where its children will be fq and under a handle nothing uses), and that parsing reads back what
  \<open>tc\<close> prints.
\<close>

section \<open>Kinds\<close>

definition FQ :: string where "FQ = ''fq''"
definition NOQUEUE :: string where "NOQUEUE = ''noqueue''"

definition REPLACEABLE_KINDS :: "string list" where
  "REPLACEABLE_KINDS =
     [''pfifo_fast'', ''pfifo'', ''bfifo'', ''pfifo_head_drop'', ''fq_codel'', ''codel'', ''cake'',
      ''fq_pie'', ''pie'', ''sfq'', ''red'', ''sfb'', ''choke'', ''hhf'']"

definition DELIBERATE_KINDS :: "string list" where
  "DELIBERATE_KINDS =
     [NOQUEUE, ''htb'', ''hfsc'', ''cbq'', ''drr'', ''qfq'', ''ets'', ''prio'', ''multiq'', ''mqprio'',
      ''taprio'', ''tbf'', ''netem'']"

record mq_child =
  mc_kind :: string
  mc_parent :: string
  mc_shaping :: "string option"

record root_qdisc =
  q_kind :: string
  q_major :: u32
  q_shaping :: "string option"
  q_children :: "mq_child list"
  q_majors :: "u32 set"

datatype verdict = VFq | VReplace | VDeliberate | VUnknown

datatype round_no = First | Fallback

datatype plan = Run "string list list" | FreshMqNeedsFqDefault

definition kind_verdict :: "string \<Rightarrow> bool \<Rightarrow> verdict" where
  "kind_verdict kind shaping =
     (if kind = FQ then VFq
      else if shaping \<or> kind \<in> set DELIBERATE_KINDS then VDeliberate
      else if kind \<in> set REPLACEABLE_KINDS then VReplace
      else VUnknown)"

text \<open>The word after the first \<open>bandwidth\<close> that has one: \<open>windows(2).find(..)\<close>.\<close>

fun bandwidth_of :: "string list \<Rightarrow> string option" where
  "bandwidth_of (a # b # rest) = (if a = ''bandwidth'' then Some b else bandwidth_of (b # rest))"
| "bandwidth_of _ = None"

definition cake_shaping :: "string \<Rightarrow> string list \<Rightarrow> string option" where
  "cake_shaping kind options =
     (if kind \<noteq> ''cake'' then None
      else (case bandwidth_of options of
              Some rate \<Rightarrow>
                if rate \<noteq> ''unlimited'' then Some (''bandwidth '' @ rate)
                else if ''autorate-ingress'' \<in> set options then Some ''autorate-ingress'' else None
            | None \<Rightarrow>
                if ''autorate-ingress'' \<in> set options then Some ''autorate-ingress'' else None))"

definition major_of :: "string \<Rightarrow> u32 option" where
  "major_of s =
     (let major = hd (split_char CHR '':'' s)
      in if major = [] then Some 0 else map_option word_of_nat (parse_radix 16 (2 ^ 32) major))"

section \<open>Parsing tc's output\<close>

record qdisc_line =
  l_kind :: string
  l_major :: u32
  l_parent :: "string option"
  l_options :: "string list"

text \<open>The loop over at most three tokens after the handle that looks for \<open>root\<close> or \<open>parent\<close>.\<close>

fun find_place :: "nat \<Rightarrow> string list \<Rightarrow> (string option \<times> string list) option" where
  "find_place 0 ts = None"
| "find_place (Suc n) [] = None"
| "find_place (Suc n) (t # ts) =
     (if t = ''root'' then Some (None, ts)
      else if t = ''parent'' then (case ts of [] \<Rightarrow> None | p # rest \<Rightarrow> Some (Some p, rest))
      else find_place n ts)"

definition parse_line :: "string \<Rightarrow> qdisc_line option" where
  "parse_line line =
     (case split_whitespace line of
        q # kind # handle # tokens \<Rightarrow>
          if q \<noteq> ''qdisc'' then None
          else (case major_of handle of
                  None \<Rightarrow> None
                | Some major \<Rightarrow>
                    map_option (\<lambda>(parent, options).
                        \<lparr>l_kind = kind, l_major = major, l_parent = parent, l_options = options\<rparr>)
                      (find_place 3 tokens))
      | _ \<Rightarrow> None)"

definition option_bind_major :: "string option \<Rightarrow> u32 option" where
  "option_bind_major p = (case p of None \<Rightarrow> None | Some i \<Rightarrow> major_of i)"

definition line_majors :: "qdisc_line \<Rightarrow> u32 list" where
  "line_majors l = l_major l # (case option_bind_major (l_parent l) of None \<Rightarrow> [] | Some m \<Rightarrow> [m])"

definition is_egress_line :: "qdisc_line \<Rightarrow> bool" where
  "is_egress_line l =
     (l_kind l \<notin> {''clsact'', ''ingress''} \<and> l_major l \<noteq> 0xffff
      \<and> option_bind_major (l_parent l) \<noteq> Some 0xffff)"

definition mq_child_of :: "u32 \<Rightarrow> qdisc_line \<Rightarrow> mq_child option" where
  "mq_child_of root_major l =
     (case l_parent l of
        None \<Rightarrow> None
      | Some parent \<Rightarrow>
          if major_of parent = Some root_major
          then Some \<lparr>mc_kind = l_kind l, mc_parent = parent,
                     mc_shaping = cake_shaping (l_kind l) (l_options l)\<rparr>
          else None)"

definition parse_all :: "qdisc_line list \<Rightarrow> root_qdisc option" where
  "parse_all all_lines =
     (let egress = filter is_egress_line all_lines
      in map_option
           (\<lambda>r. \<lparr>q_kind = l_kind r, q_major = l_major r,
                 q_shaping = cake_shaping (l_kind r) (l_options r),
                 q_children = (if l_kind r = ''mq'' then List.map_filter (mq_child_of (l_major r)) egress
                               else []),
                 q_majors = set (concat (map line_majors all_lines))\<rparr>)
           (find (\<lambda>l. l_parent l = None) egress))"

definition parse_root :: "string \<Rightarrow> root_qdisc option" where
  "parse_root output = parse_all (List.map_filter parse_line (lines output))"

section \<open>Judging and planning\<close>

definition summary :: "root_qdisc \<Rightarrow> string" where
  "summary r =
     (if q_kind r \<noteq> ''mq'' \<or> q_children r = [] then q_kind r
      else ''mq/'' @ join '','' (remdups_adj (sort (map mc_kind (q_children r)))))"

definition shaping_detail :: "root_qdisc \<Rightarrow> string" where
  "shaping_detail r =
     (case (case q_shaping r of
              Some s \<Rightarrow> Some s
            | None \<Rightarrow> (case List.map_filter mc_shaping (q_children r) of [] \<Rightarrow> None | s # _ \<Rightarrow> Some s)) of
        Some s \<Rightarrow> '' ('' @ s @ '')''
      | None \<Rightarrow> [])"

definition root_verdict :: "root_qdisc \<Rightarrow> verdict" where
  "root_verdict r =
     (if q_kind r \<noteq> ''mq'' then kind_verdict (q_kind r) (q_shaping r \<noteq> None)
      else if q_children r = [] then VUnknown
      else (let verdicts = map (\<lambda>c. kind_verdict (mc_kind c) (mc_shaping c \<noteq> None)) (q_children r)
            in case find (\<lambda>v. v \<in> set verdicts) [VDeliberate, VUnknown, VReplace] of
                 Some v \<Rightarrow> v
               | None \<Rightarrow> VFq))"

definition unused_major :: "root_qdisc \<Rightarrow> nat option" where
  "unused_major r = find (\<lambda>m. word_of_nat m \<notin> q_majors r) [0x8000..<0xffff]"

definition tc_command :: "string \<Rightarrow> string list \<Rightarrow> string list" where
  "tc_command interface tail = [''qdisc'', ''replace'', ''dev'', interface] @ tail"

definition replace_plan :: "root_qdisc \<Rightarrow> string \<Rightarrow> nat \<Rightarrow> bool \<Rightarrow> round_no \<Rightarrow> plan" where
  "replace_plan r interface tx_queues default_is_fq rnd =
     (if q_kind r = ''mq'' \<and> q_major r \<noteq> 0 then
        (let odd_children = filter (\<lambda>c. mc_kind c \<noteq> FQ) (q_children r);
             per_child = Run (map (\<lambda>c. tc_command interface [''parent'', mc_parent c, FQ]) odd_children)
         in if length odd_children > 1 \<and> length odd_children = length (q_children r) \<and> default_is_fq \<and> rnd = First
            then (case unused_major r of
                    Some major \<Rightarrow> Run [tc_command interface [''root'', ''handle'', hex major @ '':'', ''mq'']]
                  | None \<Rightarrow> per_child)
            else per_child)
      else if tx_queues > 1 then
        (if \<not> default_is_fq then FreshMqNeedsFqDefault
         else Run [tc_command interface [''root'', ''mq'']])
      else Run [tc_command interface [''root'', FQ]])"

section \<open>The verdict\<close>

lemma kinds_disjoint: "k \<in> set DELIBERATE_KINDS \<Longrightarrow> k \<notin> set REPLACEABLE_KINDS \<and> k \<noteq> FQ"
  by (auto simp: DELIBERATE_KINDS_def REPLACEABLE_KINDS_def NOQUEUE_def FQ_def)

lemma kind_verdict_simps:
  "kind_verdict k s = VFq \<longleftrightarrow> k = FQ"
  "kind_verdict k s = VReplace \<longleftrightarrow> k \<in> set REPLACEABLE_KINDS \<and> \<not> s"
  "kind_verdict k s = VDeliberate \<longleftrightarrow> k \<noteq> FQ \<and> (s \<or> k \<in> set DELIBERATE_KINDS)"
  "kind_verdict k s = VUnknown \<longleftrightarrow> k \<noteq> FQ \<and> \<not> s \<and> k \<notin> set DELIBERATE_KINDS \<and> k \<notin> set REPLACEABLE_KINDS"
proof -
  have "FQ \<notin> set REPLACEABLE_KINDS" by (simp add: FQ_def REPLACEABLE_KINDS_def)
  then show "kind_verdict k s = VReplace \<longleftrightarrow> k \<in> set REPLACEABLE_KINDS \<and> \<not> s"
    using kinds_disjoint [of k] by (auto simp: kind_verdict_def)
qed (auto simp: kind_verdict_def)

text \<open>The qdiscs that carry traffic: the root itself, or an mq's children, with their shaping.\<close>

definition leaves :: "root_qdisc \<Rightarrow> (string \<times> bool) list" where
  "leaves r =
     (if q_kind r \<noteq> ''mq'' then [(q_kind r, q_shaping r \<noteq> None)]
      else map (\<lambda>c. (mc_kind c, mc_shaping c \<noteq> None)) (q_children r))"

lemma root_verdict_leaves:
  "root_verdict r =
     (if leaves r = [] then VUnknown
      else if \<exists>l \<in> set (leaves r). case_prod kind_verdict l = VDeliberate then VDeliberate
      else if \<exists>l \<in> set (leaves r). case_prod kind_verdict l = VUnknown then VUnknown
      else if \<exists>l \<in> set (leaves r). case_prod kind_verdict l = VReplace then VReplace
      else VFq)"
proof (cases "q_kind r = ''mq''")
  case False
  then show ?thesis
    by (cases "kind_verdict (q_kind r) (q_shaping r \<noteq> None)") (simp_all add: root_verdict_def leaves_def)
next
  case True
  have eq: "(v \<in> set (map (\<lambda>c. kind_verdict (mc_kind c) (mc_shaping c \<noteq> None)) (q_children r)))
      = (\<exists>l \<in> set (leaves r). case_prod kind_verdict l = v)" for v
    using True by (force simp: leaves_def)
  show ?thesis
    using True unfolding root_verdict_def Let_def eq by (simp add: leaves_def)
qed

lemma verdict_order:
  fixes f :: "'a \<Rightarrow> verdict" and xs :: "'a list"
  defines "w \<equiv> (if xs = [] then VUnknown
      else if \<exists>x \<in> set xs. f x = VDeliberate then VDeliberate
      else if \<exists>x \<in> set xs. f x = VUnknown then VUnknown
      else if \<exists>x \<in> set xs. f x = VReplace then VReplace else VFq)"
  shows "w = VFq \<longleftrightarrow> xs \<noteq> [] \<and> (\<forall>x \<in> set xs. f x = VFq)"
    and "w = VReplace \<longleftrightarrow> (\<forall>x \<in> set xs. f x = VFq \<or> f x = VReplace) \<and> (\<exists>x \<in> set xs. f x = VReplace)"
proof -
  have "f x = VFq \<or> f x = VReplace \<or> f x = VDeliberate \<or> f x = VUnknown" for x
    by (cases "f x") auto
  then show "w = VFq \<longleftrightarrow> xs \<noteq> [] \<and> (\<forall>x \<in> set xs. f x = VFq)"
    and "w = VReplace \<longleftrightarrow> (\<forall>x \<in> set xs. f x = VFq \<or> f x = VReplace) \<and> (\<exists>x \<in> set xs. f x = VReplace)"
    unfolding w_def by (auto split: if_splits) (metis verdict.distinct)+
qed

text \<open>
  C26. The verdict on a root qdisc. It is fq exactly when every qdisc that carries traffic is fq;
  and it is \<open>Replace\<close> exactly when nothing there is shaped, classful or unknown to the guard and
  something is a replaceable default: one deliberate or unknown qdisc anywhere protects the whole
  tree, and an mq that shows no children is never touched.
\<close>

theorem root_verdict_exact:
  "(root_verdict r = VFq \<longleftrightarrow> leaves r \<noteq> [] \<and> (\<forall>(k, s) \<in> set (leaves r). k = FQ))
   \<and> (root_verdict r = VReplace \<longleftrightarrow>
        (\<forall>(k, s) \<in> set (leaves r). k = FQ \<or> k \<in> set REPLACEABLE_KINDS \<and> \<not> s)
        \<and> (\<exists>(k, s) \<in> set (leaves r). k \<noteq> FQ))"
proof -
  let ?v = "case_prod kind_verdict"
  note fq = verdict_order(1) [of "leaves r" ?v, folded root_verdict_leaves]
    and rep = verdict_order(2) [of "leaves r" ?v, folded root_verdict_leaves]
  have "FQ \<notin> set REPLACEABLE_KINDS" by (simp add: FQ_def REPLACEABLE_KINDS_def)
  then show ?thesis
    unfolding fq rep case_prod_unfold kind_verdict_simps by metis
qed

text \<open>An mq with one cake and one fq child, as \<open>tc\<close> shows it after a one-click script.\<close>

definition example_mq :: root_qdisc where
  "example_mq =
     \<lparr>q_kind = ''mq'', q_major = 0x8001, q_shaping = None,
      q_children = [\<lparr>mc_kind = ''cake'', mc_parent = ''8001:1'', mc_shaping = None\<rparr>,
                    \<lparr>mc_kind = ''fq'', mc_parent = ''8001:2'', mc_shaping = None\<rparr>],
      q_majors = {0x8001, 0x8002, 0x8003}\<rparr>"

theorem root_verdict_exact_witness:
  "root_verdict example_mq = VReplace
   \<and> root_verdict (example_mq\<lparr>q_children := tl (q_children example_mq)\<rparr>) = VFq"
  using root_verdict_exact [of example_mq]
    root_verdict_exact [of "example_mq\<lparr>q_children := tl (q_children example_mq)\<rparr>"]
  by (simp add: example_mq_def leaves_def FQ_def REPLACEABLE_KINDS_def)

section \<open>The plan\<close>

lemma find_upt_Some: "find P [a..<b] = Some m \<Longrightarrow> a \<le> m \<and> m < b \<and> P m"
  by (auto simp: find_Some_iff)

lemma find_upt_None: "find P [a..<b] = None \<Longrightarrow> a \<le> m \<Longrightarrow> m < b \<Longrightarrow> \<not> P m"
  by (auto simp: find_None_iff)

lemma unused_major_Some:
  "unused_major r = Some m \<Longrightarrow> 0x8000 \<le> m \<and> m < 0xffff \<and> word_of_nat m \<notin> q_majors r"
  unfolding unused_major_def by (rule find_upt_Some)

lemma inj_on_major: "inj_on (word_of_nat :: nat \<Rightarrow> u32) {0x8000..<0xffff}"
proof (rule inj_onI)
  fix a b :: nat assume h: "a \<in> {0x8000..<0xffff}" "b \<in> {0x8000..<0xffff}"
    and e: "word_of_nat a = (word_of_nat b :: u32)"
  have "unat (word_of_nat a :: u32) = a" "unat (word_of_nat b :: u32) = b"
    using h by (simp_all add: unat_of_nat take_bit_nat_eq_self)
  with e show "a = b" by metis
qed

text \<open>
  C27. A handle is found whenever fewer than 32767 majors are in use, it is the kernel's own range
  without clsact's \<open>ffff:\<close>, and nothing on the device uses it.
\<close>

theorem unused_major_fresh:
  "(card (q_majors r) < 32767 \<longrightarrow> unused_major r \<noteq> None)
   \<and> (\<forall>m. unused_major r = Some m \<longrightarrow> 0x8000 \<le> m \<and> m < 0xffff \<and> word_of_nat m \<notin> q_majors r)"
proof (intro conjI impI notI)
  assume c: "card (q_majors r) < 32767" and none: "unused_major r = None"
  then have sub: "(word_of_nat :: nat \<Rightarrow> u32) ` {0x8000..<0xffff} \<subseteq> q_majors r"
    using find_upt_None [OF none [unfolded unused_major_def]] by auto
  have "card ((word_of_nat :: nat \<Rightarrow> u32) ` {0x8000..<0xffff}) = 32767"
    using card_image [OF inj_on_major] by simp
  moreover have "finite (q_majors r)" by (rule finite)
  ultimately show False
    using card_mono [OF _ sub] c by simp
qed (use unused_major_Some in blast)

theorem unused_major_fresh_witness: "unused_major example_mq \<noteq> None"
  using unused_major_fresh [of example_mq] by (simp add: example_mq_def)

text \<open>
  What a tc command of a plan does: the device it names and whether it builds an mq from the
  default qdisc, puts fq in one place of the tree, or replaces the root by fq.
\<close>

definition plan_commands :: "plan \<Rightarrow> string list list" where
  "plan_commands p = (case p of Run cs \<Rightarrow> cs | FreshMqNeedsFqDefault \<Rightarrow> [])"

definition builds_mq :: "string list \<Rightarrow> bool" where
  "builds_mq c = (last c = ''mq'')"

text \<open>
  Every command of a plan replaces on the named device only and installs either fq, by name,
  or a fresh mq; an mq is only created while the default qdisc is fq, so that its children come
  out fq.
\<close>

lemma plan_installs_only_fq:
  assumes "c \<in> set (plan_commands (replace_plan r dev txq dfq rnd))"
  shows "take 4 c = [''qdisc'', ''replace'', ''dev'', dev]
    \<and> (last c = FQ \<or> builds_mq c \<and> dfq)"
  using assms
  by (auto simp: plan_commands_def replace_plan_def Let_def tc_command_def builds_mq_def
      split: if_splits option.splits)

text \<open>
  Under an mq that tc created, an fq child somebody may have tuned is never rebuilt: as soon
  as one child is fq, the plan replaces exactly the other children, each in its own place, and
  never the root; and where the root is rebuilt, its new handle is one nothing on the device uses.
\<close>

lemma plan_keeps_fq_children:
  assumes "q_kind r = ''mq''" "q_major r \<noteq> 0"
  shows "((\<exists>ch \<in> set (q_children r). mc_kind ch = FQ) \<longrightarrow>
      replace_plan r dev txq dfq rnd
        = Run (map (\<lambda>ch. tc_command dev [''parent'', mc_parent ch, FQ])
             (filter (\<lambda>ch. mc_kind ch \<noteq> FQ) (q_children r))))
    \<and> (\<forall>c \<in> set (plan_commands (replace_plan r dev txq dfq rnd)). builds_mq c \<longrightarrow>
      (\<exists>m. c = tc_command dev [''root'', ''handle'', hex m @ '':'', ''mq'']
           \<and> word_of_nat m \<notin> q_majors r \<and> (\<forall>ch \<in> set (q_children r). mc_kind ch \<noteq> FQ)))"
proof (intro conjI impI ballI)
  let ?odd = "filter (\<lambda>ch. mc_kind ch \<noteq> FQ) (q_children r)"
  have some_fq: "length ?odd \<noteq> length (q_children r)" if "ch \<in> set (q_children r)" "mc_kind ch = FQ" for ch
    using length_filter_less [of ch "q_children r" "\<lambda>ch. mc_kind ch \<noteq> FQ"] that by simp
  show "replace_plan r dev txq dfq rnd = Run (map (\<lambda>ch. tc_command dev [''parent'', mc_parent ch, FQ]) ?odd)"
    if "\<exists>ch \<in> set (q_children r). mc_kind ch = FQ"
    using assms that some_fq by (auto simp: replace_plan_def Let_def)
  show "\<exists>m. c = tc_command dev [''root'', ''handle'', hex m @ '':'', ''mq'']
           \<and> word_of_nat m \<notin> q_majors r \<and> (\<forall>ch \<in> set (q_children r). mc_kind ch \<noteq> FQ)"
    if "c \<in> set (plan_commands (replace_plan r dev txq dfq rnd))" "builds_mq c" for c
    using assms that some_fq
    by (auto simp: replace_plan_def Let_def plan_commands_def builds_mq_def tc_command_def FQ_def
        dest: unused_major_Some split: if_splits option.splits)
qed

section \<open>Reading back what tc prints\<close>

text \<open>A line of \<open>tc qdisc show\<close>, with the device when \<open>tc\<close> was not given one.\<close>

definition line_tokens :: "string option \<Rightarrow> qdisc_line \<Rightarrow> string list" where
  "line_tokens dev l =
     [''qdisc'', l_kind l, hex (unat (l_major l)) @ '':'']
     @ (case dev of None \<Rightarrow> [] | Some d \<Rightarrow> [''dev'', d])
     @ (case l_parent l of None \<Rightarrow> [''root''] | Some p \<Rightarrow> [''parent'', p])
     @ l_options l"

definition print_line :: "string option \<Rightarrow> qdisc_line \<Rightarrow> string" where
  "print_line dev l = join '' '' (line_tokens dev l)"

definition line_ok :: "qdisc_line \<Rightarrow> bool" where
  "line_ok l =
     (is_word (l_kind l) \<and> (\<forall>w \<in> set (l_options l). is_word w)
      \<and> (case l_parent l of None \<Rightarrow> True | Some p \<Rightarrow> is_word p))"

definition dev_ok :: "string option \<Rightarrow> bool" where
  "dev_ok dev = (case dev of None \<Rightarrow> True | Some d \<Rightarrow> is_word d \<and> d \<notin> {''root'', ''parent''})"

lemma is_word_lits:
  "is_word ''qdisc''" "is_word ''root''" "is_word ''parent''" "is_word ''dev''"
  by (simp_all add: is_word_def is_whitespace_def)

lemma line_tokens_words: "line_ok l \<Longrightarrow> dev_ok dev \<Longrightarrow> \<forall>w \<in> set (line_tokens dev l). is_word w"
  by (auto simp: line_tokens_def line_ok_def dev_ok_def is_word_lits is_word_hex split: option.splits)

lemma major_of_hex: "major_of (hex (unat m) @ '':'') = Some (m :: u32)"
proof -
  have "CHR '':'' \<notin> set (hex (unat m))" using hex_plain by blast
  then have "split_char CHR '':'' (hex (unat m) @ '':'') = [hex (unat m), []]"
    unfolding split_char_def by (subst split_on_append_sep) auto
  moreover have "parse_radix 16 (2 ^ 32) (hex (unat m)) = Some (unat m)"
    using unat_u32_bound [of m] by (intro parse_radix_hex) simp
  ultimately show ?thesis by (simp add: major_of_def)
qed

lemma parse_line_print:
  assumes "line_ok l" "dev_ok dev"
  shows "parse_line (print_line dev l) = Some l"
proof -
  have t: "split_whitespace (print_line dev l) = line_tokens dev l"
    unfolding print_line_def using line_tokens_words [OF assms] by (rule words_line(1))
  have "find_place 3 ((case dev of None \<Rightarrow> [] | Some d \<Rightarrow> [''dev'', d])
      @ (case l_parent l of None \<Rightarrow> [''root''] | Some p \<Rightarrow> [''parent'', p]) @ l_options l)
      = Some (l_parent l, l_options l)"
    using assms(2) by (auto simp: dev_ok_def eval_nat_numeral split: option.splits)
  then show ?thesis
    by (simp add: parse_line_def t line_tokens_def major_of_hex)
qed

lemma map_filter_all_Some: "\<forall>x \<in> set xs. f (g x) = Some x \<Longrightarrow> List.map_filter f (map g xs) = xs"
  by (induction xs) (auto simp: List.map_filter_simps)



end
