(* ===== verification/Guard.thy ===== *)
theory Guard
  imports Qdisc Config
begin

text \<open>
  \<^verbatim>\<open>guard.rs\<close>, second half: the host interface, the devices a pass manages, one enforcement pass,
  the retry backoff and the guard object that \<open>Enable\<close> arms and \<open>Drain\<close> disarms. The \<open>Host\<close> trait
  is a record of operations on a host state \<open>'w\<close>: reads leave the host as it is, the two sysctl
  writes and \<open>tc\<close> return the host after them (what other processes do meanwhile is part of what
  \<open>tc\<close> returns, or a change between two passes). Time is nanoseconds; the lock makes each pass,
  arm and disarm one step. A \<open>Mutex\<close> holder that panicked leaves the state as it was.
\<close>

section \<open>The host\<close>

record 'w host =
  congestion_control :: "'w \<Rightarrow> (anyhow, string) result"
  set_congestion_control :: "string \<Rightarrow> 'w \<Rightarrow> (anyhow, unit) result \<times> 'w"
  default_qdisc :: "'w \<Rightarrow> (anyhow, string) result"
  set_default_qdisc :: "string \<Rightarrow> 'w \<Rightarrow> (anyhow, unit) result \<times> 'w"
  interface_exists :: "string \<Rightarrow> 'w \<Rightarrow> bool"
  tx_queues :: "string \<Rightarrow> 'w \<Rightarrow> nat"
  lower_devices :: "string \<Rightarrow> 'w \<Rightarrow> string list"
  has_device_link :: "string \<Rightarrow> 'w \<Rightarrow> bool"
  tc :: "string list \<Rightarrow> 'w \<Rightarrow> (anyhow, string) result \<times> 'w"

text \<open>\<open>{error:#}\<close>.\<close>

definition alternate :: "anyhow \<Rightarrow> string" where
  "alternate e = join '': '' (chain e)"

record settings =
  s_interval :: nat
  s_interval_s :: u32
  s_qdisc :: bool
  s_interface :: "string option"

definition settings_from_config :: "skyline_config \<Rightarrow> settings" where
  "settings_from_config c =
     \<lparr>s_interval = unat (g_interval_s (guard_table c)) * 1000000000,
      s_interval_s = g_interval_s (guard_table c),
      s_qdisc = g_qdisc (guard_table c),
      s_interface = rt_tc_interface (runtime_table c)\<rparr>"

section \<open>Reading and replacing a root qdisc\<close>

definition read_root :: "'w host \<Rightarrow> string \<Rightarrow> 'w \<Rightarrow> (anyhow, root_qdisc option) result \<times> 'w" where
  "read_root h interface w =
     (case tc h [''qdisc'', ''show'', ''dev'', interface] w of
        (Inl e, w') \<Rightarrow> (Inl e, w')
      | (Inr output, w') \<Rightarrow> (Inr (parse_root output), w'))"

fun run_commands ::
  "'w host \<Rightarrow> string \<Rightarrow> root_qdisc \<Rightarrow> round_no \<Rightarrow> string list list \<Rightarrow> 'w \<Rightarrow> (anyhow, unit) result \<times> 'w" where
  "run_commands h label current rnd [] w = (Inr (), w)"
| "run_commands h label current rnd (c # cs) w =
     (case tc h c w of
        (Inl e, w') \<Rightarrow>
          ((if rnd = Fallback
            then with_context (label @ '' root qdisc is '' @ summary current @ '' after the first replace'') (Inl e)
            else Inl e), w')
      | (Inr _, w') \<Rightarrow> run_commands h label current rnd cs w')"

definition left_alone :: "string \<Rightarrow> root_qdisc \<Rightarrow> (anyhow, string) result \<Rightarrow> anyhow" where
  "left_alone label current default_read =
     anyhow_msg (label @ '' root qdisc '' @ summary current @ '' left alone: '' @
       (case default_read of
          Inr kind \<Rightarrow> ''default_qdisc is '' @ kind @ '', a fresh mq would get '' @ kind @ '' children''
        | Inl e \<Rightarrow> ''default_qdisc could not be read ('' @ alternate e @
                   ''), so a fresh mq might not get fq children''))"

fun replace_rounds ::
  "'w host \<Rightarrow> string \<Rightarrow> string \<Rightarrow> nat \<Rightarrow> round_no list \<Rightarrow> root_qdisc \<Rightarrow> 'w
   \<Rightarrow> (anyhow, root_qdisc) result \<times> 'w" where
  "replace_rounds h name label txq [] current w = (Inr current, w)"
| "replace_rounds h name label txq (rnd # rnds) current w =
     (if root_verdict current \<noteq> VReplace then (Inr current, w)
      else
        (case replace_plan current name txq (default_qdisc h w = Inr FQ) rnd of
           FreshMqNeedsFqDefault \<Rightarrow> (Inl (left_alone label current (default_qdisc h w)), w)
         | Run commands \<Rightarrow>
             (case run_commands h label current rnd commands w of
                (Inl e, w1) \<Rightarrow> (Inl e, w1)
              | (Inr _, w1) \<Rightarrow>
                  (case read_root h name w1 of
                     (Inl e, w2) \<Rightarrow> (Inl e, w2)
                   | (Inr None, w2) \<Rightarrow>
                       (Inl (anyhow_msg (''tc qdisc show dev '' @ name @
                          '' printed no root qdisc after the replace'')), w2)
                   | (Inr (Some r), w2) \<Rightarrow> replace_rounds h name label txq rnds r w2))))"

definition replace_root ::
  "'w host \<Rightarrow> string \<Rightarrow> string \<Rightarrow> root_qdisc \<Rightarrow> 'w \<Rightarrow> (anyhow, string) result \<times> 'w" where
  "replace_root h name label before w =
     (case replace_rounds h name label (tx_queues h name w) [First, Fallback] before w of
        (Inl e, w') \<Rightarrow> (Inl e, w')
      | (Inr current, w') \<Rightarrow>
          if root_verdict current \<noteq> VFq
          then (Inl (anyhow_msg (label @ '' root qdisc is still '' @ summary current @
                  '' after replacing '' @ summary before @ '' with fq'')), w')
          else (Inr (summary current), w'))"

section \<open>The managed devices\<close>

type_synonym root_read = "(string, root_qdisc option) result"

record target =
  t_name :: string
  t_label :: string
  t_root :: root_read

record managed =
  m_targets :: "target list"
  nothing_under_noqueue :: bool

definition MAX_LOWER_DEPTH :: nat where "MAX_LOWER_DEPTH = 4"

definition label_of :: "string \<Rightarrow> string list \<Rightarrow> string" where
  "label_of device uppers =
     (if uppers = [] then device else device @ '' (under '' @ join '' under '' uppers @ '')'')"

definition is_noqueue :: "root_read \<Rightarrow> bool" where
  "is_noqueue r = (case r of Inr (Some q) \<Rightarrow> q_kind q = NOQUEUE | _ \<Rightarrow> False)"

definition read_root_text :: "'w host \<Rightarrow> string \<Rightarrow> 'w \<Rightarrow> root_read \<times> 'w" where
  "read_root_text h interface w =
     (case read_root h interface w of
        (Inl e, w') \<Rightarrow> (Inl (alternate e), w')
      | (Inr r, w') \<Rightarrow> (Inr r, w'))"

text \<open>
  \<open>follow_noqueue\<close> with the depth counted down: \<open>remaining\<close> is \<open>MAX_LOWER_DEPTH - depth\<close>. The loop
  over the lower devices is \<open>follow_lowers\<close>; the visited set and the targets found are threaded.
\<close>

function follow_noqueue ::
    "'w host \<Rightarrow> nat \<Rightarrow> string \<Rightarrow> string list \<Rightarrow> root_read \<Rightarrow> string set \<times> target list \<times> 'w
     \<Rightarrow> string set \<times> target list \<times> 'w"
  and follow_lowers ::
    "'w host \<Rightarrow> nat \<Rightarrow> string list \<Rightarrow> string list \<Rightarrow> string set \<times> target list \<times> 'w
     \<Rightarrow> string set \<times> target list \<times> 'w" where
  "follow_noqueue h remaining device uppers rt (visited, targets, w) =
     (let lowers = lower_devices h device w
      in if lowers = [] then
           (if has_device_link h device w
            then (visited, targets @ [\<lparr>t_name = device, t_label = label_of device uppers, t_root = rt\<rparr>], w)
            else (visited, targets, w))
         else (case remaining of
                 0 \<Rightarrow> (visited, targets, w)
               | Suc n \<Rightarrow> follow_lowers h n lowers (device # uppers) (visited, targets, w)))"
| "follow_lowers h n [] below s = s"
| "follow_lowers h n (lower # rest) below (visited, targets, w) =
     (if lower \<in> visited then follow_lowers h n rest below (visited, targets, w)
      else
        (let visited = insert lower visited;
             device_link = has_device_link h lower w
         in if \<not> device_link \<and> lower_devices h lower w = []
            then follow_lowers h n rest below (visited, targets, w)
            else (case read_root_text h lower w of
                    (rt, w1) \<Rightarrow>
                      if is_noqueue rt
                      then follow_lowers h n rest below
                             (follow_noqueue h n lower below rt (visited, targets, w1))
                      else if device_link
                      then follow_lowers h n rest below
                             (visited, targets @ [\<lparr>t_name = lower, t_label = label_of lower below, t_root = rt\<rparr>], w1)
                      else follow_lowers h n rest below (visited, targets, w1))))"
  by pat_completeness auto
termination
  by (relation "measures
      [\<lambda>x. case x of Inl (_, n, _) \<Rightarrow> 2 * n | Inr (_, n, _) \<Rightarrow> 2 * n + 1,
       \<lambda>x. case x of Inl _ \<Rightarrow> 0 | Inr (_, _, ls, _) \<Rightarrow> length ls]") auto

declare follow_noqueue.simps [simp del] follow_lowers.simps [simp del]

definition managed_devices :: "'w host \<Rightarrow> string \<Rightarrow> root_read \<Rightarrow> 'w \<Rightarrow> managed \<times> 'w" where
  "managed_devices h interface rt w =
     (if is_noqueue rt then
        (case follow_noqueue h MAX_LOWER_DEPTH interface [] rt ({interface}, [], w) of
           (_, targets, w') \<Rightarrow> (\<lparr>m_targets = targets, nothing_under_noqueue = (targets = [])\<rparr>, w'))
      else
        (\<lparr>m_targets = [\<lparr>t_name = interface, t_label = interface, t_root = rt\<rparr>],
          nothing_under_noqueue = False\<rparr>, w))"

section \<open>Backoff\<close>

definition DURATION_MAX :: nat where "DURATION_MAX = (2 ^ 64 - 1) * 1000000000 + 999999999"

definition RETRY_BACKOFF_MIN :: nat where "RETRY_BACKOFF_MIN = 30 * 1000000000"
definition RETRY_BACKOFF_MAX :: nat where "RETRY_BACKOFF_MAX = 300 * 1000000000"

definition duration_saturating_mul :: "nat \<Rightarrow> nat \<Rightarrow> nat" where
  "duration_saturating_mul d k = min (d * k) DURATION_MAX"

definition div_ceil :: "nat \<Rightarrow> nat \<Rightarrow> nat" where
  "div_ceil a b = (a + b - 1) div b"

definition retry_backoff :: "nat \<Rightarrow> u32 \<Rightarrow> nat" where
  "retry_backoff interval failures =
     (let base = max interval RETRY_BACKOFF_MIN;
          doublings = min (unat (saturating_sub failures 1)) 16;
          wanted = min (duration_saturating_mul base (2 ^ doublings)) (max RETRY_BACKOFF_MAX interval)
      in if interval = 0 then wanted
         else (let steps = max (div_ceil wanted interval) 1
               in duration_saturating_mul interval (if steps < 2 ^ 32 then steps else 2 ^ 32 - 1)))"

record stuck =
  st_summary :: string
  st_failures :: u32
  st_backoff :: nat
  st_retry_at :: nat

definition stuck_note :: "string \<Rightarrow> stuck \<Rightarrow> nat \<Rightarrow> string" where
  "stuck_note label st interval =
     (if interval = 0
      then label @ '' root qdisc '' @ st_summary st @
           '': the last replace failed; retried on the next ssctl enable ([guard] interval_s = 0)''
      else label @ '' root qdisc '' @ st_summary st @
           '': the last replace failed; retrying in '' @ dec (st_backoff st div 1000000000) @ '' s'')"

section \<open>One pass\<close>

datatype trigger = TEnable | TPeriodic

record pass_report =
  corrections :: "string list"
  p_notes :: "string list"
  p_errors :: "string list"
  logged :: "string list"

record guard_state =
  armed :: bool
  checks :: u64
  cc_restored :: u64
  default_qdisc_restored :: u64
  interface_qdisc_replaced :: u64
  last_correction :: "string option"
  last_correction_unix_s :: "u64 option"
  last_error :: "string option"
  g_notes :: "string list"
  reported :: "string list"
  stuck_of :: "string \<rightharpoonup> stuck"

definition guard_state_default :: guard_state where
  "guard_state_default =
     \<lparr>armed = False, checks = 0, cc_restored = 0, default_qdisc_restored = 0,
      interface_qdisc_replaced = 0, last_correction = None, last_correction_unix_s = None,
      last_error = None, g_notes = [], reported = [], stuck_of = Map.empty\<rparr>"

definition pass_report_default :: pass_report where
  "pass_report_default = \<lparr>corrections = [], p_notes = [], p_errors = [], logged = []\<rparr>"

abbreviation add_correction :: "string \<Rightarrow> pass_report \<Rightarrow> pass_report" where
  "add_correction m r \<equiv> r\<lparr>corrections := corrections r @ [m]\<rparr>"
abbreviation add_note :: "string \<Rightarrow> pass_report \<Rightarrow> pass_report" where
  "add_note m r \<equiv> r\<lparr>p_notes := p_notes r @ [m]\<rparr>"
abbreviation add_error :: "string \<Rightarrow> pass_report \<Rightarrow> pass_report" where
  "add_error m r \<equiv> r\<lparr>p_errors := p_errors r @ [m]\<rparr>"

type_synonym 'w pass = "'w \<times> guard_state \<times> pass_report"

definition enforce_congestion_control :: "'w host \<Rightarrow> 'w pass \<Rightarrow> 'w pass" where
  "enforce_congestion_control h p =
     (case p of (w, st, r) \<Rightarrow>
        (case congestion_control h w of
           Inl e \<Rightarrow> (w, st, add_error (alternate e) r)
         | Inr current \<Rightarrow>
             if current = SKYLINE_CC_NAME then (w, st, r)
             else (case set_congestion_control h SKYLINE_CC_NAME w of
                     (Inr _, w') \<Rightarrow>
                       (w', st\<lparr>cc_restored := saturating_add (cc_restored st) 1\<rparr>,
                        add_correction (''tcp_congestion_control '' @ current @ '' -> '' @ SKYLINE_CC_NAME) r)
                   | (Inl e, w') \<Rightarrow>
                       (w', st, add_error (''tcp_congestion_control is '' @ current @
                          '' and could not be put back to '' @ SKYLINE_CC_NAME @ '': '' @ alternate e) r))))"

definition enforce_default_qdisc :: "'w host \<Rightarrow> 'w pass \<Rightarrow> 'w pass" where
  "enforce_default_qdisc h p =
     (case p of (w, st, r) \<Rightarrow>
        (case default_qdisc h w of
           Inl e \<Rightarrow> (w, st, add_error (alternate e) r)
         | Inr current \<Rightarrow>
             if current = FQ then (w, st, r)
             else (case set_default_qdisc h FQ w of
                     (Inr _, w') \<Rightarrow>
                       (w', st\<lparr>default_qdisc_restored := saturating_add (default_qdisc_restored st) 1\<rparr>,
                        add_correction (''default_qdisc '' @ current @ '' -> '' @ FQ) r)
                   | (Inl e, w') \<Rightarrow>
                       (w', st, add_error (''default_qdisc is '' @ current @
                          '' and could not be set to '' @ FQ @ '': '' @ alternate e) r))))"

record pass_context =
  pc_trigger :: trigger
  pc_now :: nat
  pc_interval :: nat

definition waiting :: "pass_context \<Rightarrow> guard_state \<Rightarrow> string \<Rightarrow> string \<Rightarrow> stuck option" where
  "waiting pc st name smry =
     (if pc_trigger pc = TPeriodic
      then (case stuck_of st name of
              Some s \<Rightarrow> if st_summary s = smry \<and> pc_now pc < st_retry_at s then Some s else None
            | None \<Rightarrow> None)
      else None)"

definition stuck_after_failure :: "pass_context \<Rightarrow> guard_state \<Rightarrow> string \<Rightarrow> string \<Rightarrow> stuck" where
  "stuck_after_failure pc st name smry =
     (let failures = (case stuck_of st name of
                        Some s \<Rightarrow> if st_summary s = smry then saturating_add (st_failures s) 1 else 1
                      | None \<Rightarrow> 1);
          backoff = retry_backoff (pc_interval pc) failures
      in \<lparr>st_summary = smry, st_failures = failures, st_backoff = backoff,
          st_retry_at = pc_now pc + backoff\<rparr>)"

definition enforce_device :: "'w host \<Rightarrow> pass_context \<Rightarrow> target \<Rightarrow> 'w pass \<Rightarrow> 'w pass" where
  "enforce_device h pc t p =
     (case p of (w, st, r) \<Rightarrow>
        (case t_root t of
           Inl e \<Rightarrow> (w, st, add_error e r)
         | Inr None \<Rightarrow>
             (w, st, add_note (t_label t @ '' shows no root qdisc (is it down?); not checked'') r)
         | Inr (Some before) \<Rightarrow>
             (let smry = summary before;
                  unstuck = st\<lparr>stuck_of := (stuck_of st)(t_name t := None)\<rparr>
              in case root_verdict before of
                   VFq \<Rightarrow> (w, unstuck, r)
                 | VDeliberate \<Rightarrow>
                     (w, unstuck, add_note (t_label t @ '' root qdisc '' @ smry @ shaping_detail before @
                        '' looks deliberate; left alone'') r)
                 | VUnknown \<Rightarrow>
                     (w, unstuck, add_note (t_label t @ '' root qdisc '' @ smry @
                        '' is not a kind the guard knows is safe to replace; left alone'') r)
                 | VReplace \<Rightarrow>
                     (case waiting pc st (t_name t) smry of
                        Some s \<Rightarrow> (w, st, add_note (stuck_note (t_label t) s (pc_interval pc)) r)
                      | None \<Rightarrow>
                          (case replace_root h (t_name t) (t_label t) before w of
                             (Inr after, w') \<Rightarrow>
                               (w', unstuck\<lparr>interface_qdisc_replaced :=
                                       saturating_add (interface_qdisc_replaced st) 1\<rparr>,
                                add_correction (t_label t @ '' root qdisc '' @ smry @ '' -> '' @ after) r)
                           | (Inl e, w') \<Rightarrow>
                               (let s = stuck_after_failure pc st (t_name t) smry
                                in (w', st\<lparr>stuck_of := (stuck_of st)(t_name t \<mapsto> s)\<rparr>,
                                    add_note (stuck_note (t_label t) s (pc_interval pc))
                                      (add_error (alternate e) r))))))))"

definition enforce_interface_qdiscs ::
  "string \<Rightarrow> 'w host \<Rightarrow> pass_context \<Rightarrow> 'w pass \<Rightarrow> 'w pass" where
  "enforce_interface_qdiscs interface h pc p =
     (case p of (w, st, r) \<Rightarrow>
        if \<not> interface_exists h interface w
        then (w, st\<lparr>stuck_of := Map.empty\<rparr>,
              add_note (''TC interface '' @ interface @ '' does not exist; its root qdisc is not checked'') r)
        else
          (case read_root_text h interface w of
             (rt, w1) \<Rightarrow>
               (case managed_devices h interface rt w1 of
                  (m, w2) \<Rightarrow>
                    (let r' = (if nothing_under_noqueue m
                               then add_note (interface @
                                 '' is a virtual device (noqueue is its kernel default) and no NIC under it is visible to the guard; no qdisc checked'') r
                               else r);
                         st' = st\<lparr>stuck_of := stuck_of st |` (t_name ` set (m_targets m))\<rparr>
                     in fold (enforce_device h pc) (m_targets m) (w2, st', r')))))"

definition enforce_qdiscs :: "settings \<Rightarrow> 'w host \<Rightarrow> trigger \<Rightarrow> nat \<Rightarrow> 'w pass \<Rightarrow> 'w pass" where
  "enforce_qdiscs s h trig now p =
     (if s_qdisc s then
        (let p1 = enforce_default_qdisc h p
         in case s_interface s of
              Some interface \<Rightarrow>
                enforce_interface_qdiscs interface h
                  \<lparr>pc_trigger = trig, pc_now = now, pc_interval = s_interval s\<rparr> p1
            | None \<Rightarrow> p1)
      else p)"

text \<open>The bookkeeping at the end of a pass; \<open>unix_now\<close> is the wall clock, when it can be read.\<close>

definition pass_end :: "trigger \<Rightarrow> u64 option \<Rightarrow> guard_state \<Rightarrow> pass_report \<Rightarrow> guard_state \<times> pass_report" where
  "pass_end trig unix_now st r =
     (let why = (case trig of TEnable \<Rightarrow> ''applied by ssctl enable''
                            | TPeriodic \<Rightarrow> ''something else on this host changed it'');
          current = p_notes r @ p_errors r;
          st1 = (if corrections r = [] then st
                 else st\<lparr>last_correction := Some (last (corrections r)), last_correction_unix_s := unix_now\<rparr>);
          st2 = (if p_errors r = [] then st1 else st1\<lparr>last_error := Some (last (p_errors r))\<rparr>)
      in (st2\<lparr>g_notes := current, reported := current\<rparr>,
          r\<lparr>logged := logged r
              @ map (\<lambda>c. ''guard: '' @ c @ '' ('' @ why @ '')'') (corrections r)
              @ map (\<lambda>m. ''guard: '' @ m) (filter (\<lambda>m. m \<notin> set (reported st)) current)\<rparr>))"

definition enforce ::
  "settings \<Rightarrow> 'w host \<Rightarrow> trigger \<Rightarrow> nat \<Rightarrow> u64 option \<Rightarrow> 'w \<Rightarrow> guard_state \<Rightarrow> 'w pass" where
  "enforce s h trig now unix_now w st =
     (case enforce_qdiscs s h trig now (enforce_congestion_control h (w, st, pass_report_default)) of
        (w', st', r) \<Rightarrow> (w', pass_end trig unix_now st' r))"

section \<open>The guard object\<close>

definition periodic_pass ::
  "settings \<Rightarrow> 'w host \<Rightarrow> nat \<Rightarrow> u64 option \<Rightarrow> 'w \<Rightarrow> guard_state \<Rightarrow> 'w \<times> guard_state \<times> pass_report option" where
  "periodic_pass s h now unix_now w st =
     (if \<not> armed st then (w, st, None)
      else (case enforce s h TPeriodic now unix_now w (st\<lparr>checks := saturating_add (checks st) 1\<rparr>) of
              (w', st', r) \<Rightarrow> (w', st', Some r)))"

definition arm_and_enforce ::
  "settings \<Rightarrow> 'w host \<Rightarrow> nat \<Rightarrow> u64 option \<Rightarrow> 'w \<Rightarrow> guard_state \<Rightarrow> 'w pass" where
  "arm_and_enforce s h now unix_now w st =
     enforce s h TEnable now unix_now w (st\<lparr>armed := True, reported := [], stuck_of := Map.empty\<rparr>)"

definition disarm_and :: "('w \<Rightarrow> 'a \<times> 'w) \<Rightarrow> 'w \<Rightarrow> guard_state \<Rightarrow> 'a \<times> 'w \<times> guard_state" where
  "disarm_and act w st = (case act w of (x, w') \<Rightarrow> (x, w', st\<lparr>armed := False\<rparr>))"

record guard_device =
  gd_name :: string
  gd_qdisc :: "string option"

record guard_live =
  gl_tcp_congestion_control :: string
  gl_default_qdisc :: string
  gl_interface :: "string option"
  gl_interface_qdisc :: "string option"
  gl_devices :: "guard_device list"

definition root_summary :: "root_read \<Rightarrow> string option" where
  "root_summary rt = (case rt of Inr (Some q) \<Rightarrow> Some (summary q) | _ \<Rightarrow> None)"

definition guard_live_of :: "settings \<Rightarrow> 'w host \<Rightarrow> 'w \<Rightarrow> guard_live \<times> 'w" where
  "guard_live_of s h w =
     (case (case s_interface s of
              Some interface \<Rightarrow>
                if interface_exists h interface w then
                  (case read_root_text h interface w of
                     (rt, w1) \<Rightarrow>
                       if s_qdisc s then
                         (case managed_devices h interface rt w1 of
                            (m, w2) \<Rightarrow>
                              (root_summary rt,
                               map (\<lambda>t. \<lparr>gd_name = t_name t, gd_qdisc = root_summary (t_root t)\<rparr>) (m_targets m), w2))
                       else (root_summary rt, [], w1))
                else (None, [], w)
            | None \<Rightarrow> (None, [], w)) of
        (interface_qdisc, devices, w') \<Rightarrow>
          (\<lparr>gl_tcp_congestion_control = (case congestion_control h w' of Inr c \<Rightarrow> c | Inl _ \<Rightarrow> []),
            gl_default_qdisc = (case default_qdisc h w' of Inr k \<Rightarrow> k | Inl _ \<Rightarrow> []),
            gl_interface = s_interface s, gl_interface_qdisc = interface_qdisc, gl_devices = devices\<rparr>, w'))"

record guard_status =
  gs_armed :: bool
  gs_interval_s :: u32
  gs_qdisc :: bool
  gs_checks :: u64
  gs_cc_restored :: u64
  gs_default_qdisc_restored :: u64
  gs_interface_qdisc_replaced :: u64
  gs_last_correction :: "string option"
  gs_last_correction_unix_s :: "u64 option"
  gs_last_error :: "string option"
  gs_live :: guard_live
  gs_notes :: "string list"

definition guard_status_of :: "settings \<Rightarrow> 'w host \<Rightarrow> guard_state \<Rightarrow> 'w \<Rightarrow> guard_status \<times> 'w" where
  "guard_status_of s h st w =
     (case guard_live_of s h w of
        (live, w') \<Rightarrow>
          (\<lparr>gs_armed = armed st, gs_interval_s = s_interval_s s, gs_qdisc = s_qdisc s,
            gs_checks = checks st, gs_cc_restored = cc_restored st,
            gs_default_qdisc_restored = default_qdisc_restored st,
            gs_interface_qdisc_replaced = interface_qdisc_replaced st,
            gs_last_correction = last_correction st,
            gs_last_correction_unix_s = last_correction_unix_s st,
            gs_last_error = last_error st, gs_live = live, gs_notes = g_notes st\<rparr>, w'))"

end
