(* ===== verification/Host.thy ===== *)
theory Host
  imports Guard
begin

text \<open>
  \<open>SystemHost\<close>, the host the daemon runs on: two sysctl files, the tree under
  \<^verbatim>\<open>/sys/class/net\<close> and the \<open>tc\<close> program behind \<open>run_bounded\<close>, with the count of killed children
  not yet reaped. A file written is read back as written, when the kernel takes the write; which
  writes it takes, and what \<open>tc\<close> does to the qdiscs, are arguments. The interface
  \<open>guard_host\<close> states what a pass relies on, and is interpreted on \<open>SystemHost\<close>.
\<close>

section \<open>Bounded child processes\<close>

text \<open>How running a program ended, as \<open>run_bounded\<close> sees it.\<close>

datatype child_outcome =
    SpawnFailed io_kind string
  | ReaderSpawnFailed string
  | Exited bool string string string \<comment> \<open>success, status, stdout, stderr\<close>
  | TimedOut
  | WaitFailed string

definition io_error :: "io_kind \<Rightarrow> string \<Rightarrow> anyhow" where
  "io_error k m = \<lparr>chain = [m], io_kind_of = Some k\<rparr>"

text \<open>
  \<open>reap_later\<close>: a killed child is counted until a thread of its own has waited for it; when that
  thread cannot be started it is not counted, so it cannot block every later call.
\<close>

definition reap_later :: "bool \<Rightarrow> nat \<Rightarrow> nat" where
  "reap_later reaper_started unreaped = (if reaper_started then unreaped + 1 else unreaped + 1 - 1)"

definition run_bounded ::
  "string \<Rightarrow> string list \<Rightarrow> nat \<Rightarrow> bool \<Rightarrow> child_outcome \<Rightarrow> nat \<Rightarrow> (anyhow, string) result \<times> nat" where
  "run_bounded program args timeout_ms reaper_started outcome unreaped =
     (let rendered = program @ '' '' @ join '' '' args
      in case outcome of
           SpawnFailed k m \<Rightarrow> (with_context (''run '' @ rendered) (Inl (io_error k m)), unreaped)
         | ReaderSpawnFailed m \<Rightarrow>
             (with_context (''read the output of '' @ rendered) (Inl (io_error OtherKind m)),
              reap_later reaper_started unreaped)
         | TimedOut \<Rightarrow>
             (Inl (anyhow_msg (rendered @ '' did not finish within '' @ dec timeout_ms @ ''ms and was killed'')),
              reap_later reaper_started unreaped)
         | WaitFailed m \<Rightarrow>
             (with_context (''wait for '' @ rendered) (Inl (io_error OtherKind m)),
              reap_later reaper_started unreaped)
         | Exited success status out err \<Rightarrow>
             if success then (Inr out, unreaped)
             else (Inl (anyhow_msg (rendered @ '' failed ('' @ status @ ''): '' @ trim err)), unreaped))"

definition TC_TIMEOUT_MS :: nat where "TC_TIMEOUT_MS = 10000"

definition run_tc :: "string list \<Rightarrow> bool \<Rightarrow> child_outcome \<Rightarrow> nat \<Rightarrow> (anyhow, string) result \<times> nat" where
  "run_tc args reaper_started outcome unreaped =
     (if unreaped > 0
      then (Inl (anyhow_msg (''tc '' @ join '' '' args @
              '': a previous tc has not exited yet (rtnl lock held?); skipped'')), unreaped)
      else (case run_bounded ''tc'' args TC_TIMEOUT_MS reaper_started outcome unreaped of
              (Inl e, n) \<Rightarrow>
                ((if io_kind_of e = Some NotFound
                  then with_context ''tc is not installed (iproute2)'' (Inl e) else Inl e), n)
            | (Inr out, n) \<Rightarrow> (Inr out, n)))"

section \<open>SystemHost\<close>

definition CONGESTION_CONTROL_SYSCTL :: string where
  "CONGESTION_CONTROL_SYSCTL = ''/proc/sys/net/ipv4/tcp_congestion_control''"
definition DEFAULT_QDISC_SYSCTL :: string where
  "DEFAULT_QDISC_SYSCTL = ''/proc/sys/net/core/default_qdisc''"
definition SYS_CLASS_NET :: string where "SYS_CLASS_NET = ''/sys/class/net''"

definition path_join :: "string \<Rightarrow> string \<Rightarrow> string" where
  "path_join a b = a @ ''/'' @ b"

text \<open>
  The host's files by path (\<open>None\<close>: cannot be read), its directories with their entries (\<open>None\<close>:
  not a directory), the unreaped count and the kernel's qdiscs.
\<close>

record 'q sys_world =
  file_text :: "string \<Rightarrow> string option"
  dir_entries :: "string \<Rightarrow> string list option"
  path_exists :: "string \<Rightarrow> bool"
  unreaped_tc :: nat
  net_state :: 'q

text \<open>What the kernel decides: which sysctl writes it takes, and how a \<open>tc\<close> run ends.\<close>

record 'q kernel =
  takes_write :: "string \<Rightarrow> string \<Rightarrow> 'q \<Rightarrow> bool"
  tc_exec :: "string list \<Rightarrow> 'q \<Rightarrow> child_outcome \<times> bool \<times> 'q"

definition read_sysctl :: "string \<Rightarrow> 'q sys_world \<Rightarrow> (anyhow, string) result" where
  "read_sysctl path w =
     with_context (''read '' @ path)
       (case file_text w path of
          Some text \<Rightarrow> Inr (trim text)
        | None \<Rightarrow> Inl (io_error OtherKind ''read error''))"

definition fs_write :: "'q kernel \<Rightarrow> string \<Rightarrow> string \<Rightarrow> 'q sys_world \<Rightarrow> (anyhow, unit) result \<times> 'q sys_world" where
  "fs_write K path text w =
     (if takes_write K path text (net_state w)
      then (Inr (), w\<lparr>file_text := (file_text w)(path \<mapsto> text)\<rparr>)
      else (Inl (io_error OtherKind ''write error''), w))"

definition set_default_congestion_control ::
  "'q kernel \<Rightarrow> string \<Rightarrow> 'q sys_world \<Rightarrow> (anyhow, unit) result \<times> 'q sys_world" where
  "set_default_congestion_control K name w =
     (case fs_write K CONGESTION_CONTROL_SYSCTL name w of
        (res, w') \<Rightarrow> (with_context (''set default congestion control to '' @ name) res, w'))"

definition sys_set_default_qdisc :: "'q kernel \<Rightarrow> string \<Rightarrow> 'q sys_world \<Rightarrow> (anyhow, unit) result \<times> 'q sys_world" where
  "sys_set_default_qdisc K kind w =
     (case fs_write K DEFAULT_QDISC_SYSCTL kind w of
        (res, w') \<Rightarrow> (with_context (''set default_qdisc to '' @ kind) res, w'))"

definition sys_tx_queues :: "string \<Rightarrow> 'q sys_world \<Rightarrow> nat" where
  "sys_tx_queues interface w =
     (case dir_entries w (path_join (path_join SYS_CLASS_NET interface) ''queues'') of
        Some entries \<Rightarrow> max (length (filter (\<lambda>e. starts_with e ''tx-'') entries)) 1
      | None \<Rightarrow> 1)"

definition sys_lower_devices :: "string \<Rightarrow> 'q sys_world \<Rightarrow> string list" where
  "sys_lower_devices interface w =
     (case dir_entries w (path_join SYS_CLASS_NET interface) of
        Some entries \<Rightarrow> sort (List.map_filter (strip_prefix_str ''lower_'') entries)
      | None \<Rightarrow> [])"

definition sys_tc :: "'q kernel \<Rightarrow> string list \<Rightarrow> 'q sys_world \<Rightarrow> (anyhow, string) result \<times> 'q sys_world" where
  "sys_tc K args w =
     (if unreaped_tc w > 0
      then (fst (run_tc args True TimedOut (unreaped_tc w)), w)
      else (case tc_exec K args (net_state w) of
              (outcome, reaper_started, q) \<Rightarrow>
                (case run_tc args reaper_started outcome (unreaped_tc w) of
                   (res, n) \<Rightarrow> (res, w\<lparr>unreaped_tc := n, net_state := q\<rparr>))))"

definition system_host :: "'q kernel \<Rightarrow> 'q sys_world host" where
  "system_host K =
     \<lparr>congestion_control = read_sysctl CONGESTION_CONTROL_SYSCTL,
      set_congestion_control = set_default_congestion_control K,
      default_qdisc = read_sysctl DEFAULT_QDISC_SYSCTL,
      set_default_qdisc = sys_set_default_qdisc K,
      interface_exists = (\<lambda>i w. dir_entries w (path_join SYS_CLASS_NET i) \<noteq> None),
      tx_queues = sys_tx_queues,
      lower_devices = sys_lower_devices,
      has_device_link = (\<lambda>i w. path_exists w (path_join (path_join SYS_CLASS_NET i) ''device'')),
      tc = sys_tc K\<rparr>"

section \<open>What a pass relies on\<close>

locale guard_host =
  fixes h :: "'w host"
  assumes cc_set: "set_congestion_control h v w = (Inr (), w') \<Longrightarrow> trim v = v \<Longrightarrow> congestion_control h w' = Inr v"
    and cc_keeps: "set_congestion_control h v w = (r, w') \<Longrightarrow> default_qdisc h w' = default_qdisc h w"
    and dq_set: "set_default_qdisc h v w = (Inr (), w') \<Longrightarrow> trim v = v \<Longrightarrow> default_qdisc h w' = Inr v"
    and dq_keeps: "set_default_qdisc h v w = (r, w') \<Longrightarrow> congestion_control h w' = congestion_control h w"
    and tc_keeps: "tc h args w = (s, w') \<Longrightarrow>
      congestion_control h w' = congestion_control h w \<and> default_qdisc h w' = default_qdisc h w
      \<and> has_device_link h d w' = has_device_link h d w \<and> lower_devices h d w' = lower_devices h d w"

interpretation system: guard_host "system_host K" for K :: "'q kernel"
proof unfold_locales
  fix v :: string and w w' :: "'q sys_world" and r :: "(anyhow, unit) result"
  show "trim v = v \<Longrightarrow> congestion_control (system_host K) w' = Inr v"
    if "set_congestion_control (system_host K) v w = (Inr (), w')"
    using that by (auto simp: system_host_def set_default_congestion_control_def fs_write_def
        read_sysctl_def split: if_splits)
  show "default_qdisc (system_host K) w' = default_qdisc (system_host K) w"
    if "set_congestion_control (system_host K) v w = (r, w')"
    using that by (auto simp: system_host_def set_default_congestion_control_def fs_write_def
        read_sysctl_def CONGESTION_CONTROL_SYSCTL_def DEFAULT_QDISC_SYSCTL_def split: if_splits)
  show "trim v = v \<Longrightarrow> default_qdisc (system_host K) w' = Inr v"
    if "set_default_qdisc (system_host K) v w = (Inr (), w')"
    using that by (auto simp: system_host_def sys_set_default_qdisc_def fs_write_def read_sysctl_def
        split: if_splits)
  show "congestion_control (system_host K) w' = congestion_control (system_host K) w"
    if "set_default_qdisc (system_host K) v w = (r, w')"
    using that by (auto simp: system_host_def sys_set_default_qdisc_def fs_write_def read_sysctl_def
        CONGESTION_CONTROL_SYSCTL_def DEFAULT_QDISC_SYSCTL_def split: if_splits)
next
  fix args d and w w' :: "'q sys_world" and s
  assume "tc (system_host K) args w = (s, w')"
  then show "congestion_control (system_host K) w' = congestion_control (system_host K) w
      \<and> default_qdisc (system_host K) w' = default_qdisc (system_host K) w
      \<and> has_device_link (system_host K) d w' = has_device_link (system_host K) d w
      \<and> lower_devices (system_host K) d w' = lower_devices (system_host K) d w"
    by (auto simp: system_host_def sys_tc_def read_sysctl_def sys_lower_devices_def
        split: if_splits prod.splits)
qed

end
