(* ===== verification/Runtime.thy ===== *)
theory Runtime
  imports Host Caps
begin

text \<open>
  The three BPF runtimes of \<^verbatim>\<open>main.rs\<close>: the struct_ops object that is attached by an enable
  (\<open>BpfRuntime\<close>), the sockops policy object and the TC object that are loaded once at start. An
  object is the contents of its maps. What libbpf and the kernel answer is one environment
  record: the outcome of every map update, load and attach, the clock, the flow counts and how the
  standard library prints a float; it may be a different one for every request.
\<close>

section \<open>Environment\<close>

datatype map_outcome = MapMissing | UpdateFails string | UpdateOk

record 'q env =
  env_kernel :: "'q kernel"
  env_map :: "string \<Rightarrow> map_outcome"
  env_load_cc :: "(anyhow, string) result"
  env_attach :: "(anyhow, unit) result"
  env_event_reader :: "(anyhow, unit) result"
  env_sampler :: "(anyhow, unit) result"
  env_unregister :: "(anyhow, unit) result"
  env_load_policy :: "(anyhow, unit) result"
  env_open_cgroup :: "(anyhow, unit) result"
  env_attach_cgroup :: "(anyhow, unit) result"
  env_device_type :: "u32 option"
  env_load_tc :: "(anyhow, unit) result"
  env_write_snapshot :: "string \<Rightarrow> (anyhow, unit) result"
  env_persist :: "(anyhow, unit) result"
  env_now :: nat
  env_unix :: "u64 option"
  env_flows :: "nat \<Rightarrow> u64"
  env_clock :: "nat \<Rightarrow> nat"
  env_fmt :: "f64 \<Rightarrow> string"

text \<open>The host with the kernel's list of registered algorithms reduced to skyline_cc.\<close>

record 'q dworld =
  dw_sys :: "'q sys_world"
  dw_registered :: bool

text \<open>\<open>find_map_mut\<close> and the update through it, with the context the caller adds.\<close>

definition bpf_update :: "'q env \<Rightarrow> string \<Rightarrow> string \<Rightarrow> (anyhow, unit) result" where
  "bpf_update e name ctx =
     (case env_map e name of
        MapMissing \<Rightarrow> Inl (anyhow_msg (''BPF map '' @ name @ '' is missing''))
      | UpdateFails m \<Rightarrow> with_context ctx (Inl (anyhow_msg m))
      | UpdateOk \<Rightarrow> Inr ())"

definition update_u32_map :: "'q env \<Rightarrow> string \<Rightarrow> (anyhow, unit) result" where
  "update_u32_map e name = bpf_update e name (''update map '' @ name)"

definition set_default_cc :: "'q env \<Rightarrow> string \<Rightarrow> 'q dworld \<Rightarrow> (anyhow, unit) result \<times> 'q dworld" where
  "set_default_cc e name w =
     (case set_default_congestion_control (env_kernel e) name (dw_sys w) of
        (r, s) \<Rightarrow> (r, w\<lparr>dw_sys := s\<rparr>))"

section \<open>BpfRuntime\<close>

record bpf_runtime =
  br_slots :: "u32 \<Rightarrow> kernel_config option"
  br_seq_map :: u32
  br_config_seq :: u32
  br_struct_ops_map :: string

definition update_config_maps ::
  "'q env \<Rightarrow> skyline_config \<Rightarrow> u32 \<Rightarrow> bpf_runtime \<Rightarrow> (anyhow, unit) result \<times> bpf_runtime" where
  "update_config_maps e c seq r =
     (case bpf_update e ''config_slots'' ''update inactive config slot'' of
        Inl x \<Rightarrow> (Inl x, r)
      | Inr _ \<Rightarrow>
          (let r1 = r\<lparr>br_slots := (br_slots r)(seq AND 1 := Some (config_kernel_config c))\<rparr>
           in case update_u32_map e ''config_seq'' of
                Inl x \<Rightarrow> (Inl x, r1)
              | Inr _ \<Rightarrow> (Inr (), r1\<lparr>br_seq_map := seq\<rparr>)))"

definition update_config ::
  "'q env \<Rightarrow> skyline_config \<Rightarrow> bpf_runtime \<Rightarrow> (anyhow, unit) result \<times> bpf_runtime" where
  "update_config e c r =
     (let next_seq = br_config_seq r + 1
      in case update_config_maps e c next_seq r of
           (Inl x, r1) \<Rightarrow> (Inl x, r1)
         | (Inr _, r1) \<Rightarrow> (Inr (), r1\<lparr>br_config_seq := next_seq\<rparr>))"

text \<open>
  \<open>Drop for BpfRuntime\<close> once its object is in place: unregister, whatever it answers, and detach.
  Detaching alone leaves skyline_cc registered.
\<close>

definition drop_bpf_runtime :: "'q env \<Rightarrow> 'q dworld \<Rightarrow> 'q dworld" where
  "drop_bpf_runtime e w =
     (case env_unregister e of Inr _ \<Rightarrow> w\<lparr>dw_registered := False\<rparr> | Inl _ \<Rightarrow> w)"

definition bpf_load ::
  "'q env \<Rightarrow> skyline_config \<Rightarrow> bool \<Rightarrow> 'q dworld \<Rightarrow> (anyhow, bpf_runtime) result \<times> 'q dworld" where
  "bpf_load e c event_log w =
     (case set_default_cc e (fallback_cc c) w of
        (Inl x, w1) \<Rightarrow> (Inl x, w1)
      | (Inr _, w1) \<Rightarrow>
          (case env_load_cc e of
             Inl x \<Rightarrow> (Inl x, w1)
           | Inr map_name \<Rightarrow>
               (case update_config_maps e c 1
                       \<lparr>br_slots = Map.empty, br_seq_map = 0, br_config_seq = 1, br_struct_ops_map = map_name\<rparr> of
                  (Inl x, _) \<Rightarrow> (Inl x, w1)
                | (Inr _, r) \<Rightarrow>
                    (case with_context ''attach skyline_cc struct_ops'' (env_attach e) of
                       Inl x \<Rightarrow> (Inl x, w1)
                     | Inr _ \<Rightarrow>
                         (let w2 = w1\<lparr>dw_registered := True\<rparr>
                          in case (if event_log then env_event_reader e else Inr ()) of
                               Inl x \<Rightarrow> (Inl x, drop_bpf_runtime e w2)
                             | Inr _ \<Rightarrow>
                                 (case env_sampler e of
                                    Inl x \<Rightarrow> (Inl x, drop_bpf_runtime e w2)
                                  | Inr _ \<Rightarrow> (Inr r, w2)))))))"

definition unregister_struct_ops :: "'q env \<Rightarrow> 'q dworld \<Rightarrow> (anyhow, unit) result \<times> 'q dworld" where
  "unregister_struct_ops e w =
     (case env_unregister e of
        Inr _ \<Rightarrow> (Inr (), w\<lparr>dw_registered := False\<rparr>)
      | Inl x \<Rightarrow> (with_context ''unregister skyline_cc struct_ops'' (Inl x), w))"

section \<open>PolicyRuntime\<close>

record policy_object =
  po_enabled :: "u32 option"
  po_rto :: "kernel_rto_tuning option"

record policy_runtime =
  pr_object :: "policy_object option"
  pr_linked :: bool
  pr_errors :: "string list"

definition write_rto_tuning ::
  "'q env \<Rightarrow> rack_rto_config \<Rightarrow> u32 \<Rightarrow> policy_object \<Rightarrow> (anyhow, unit) result \<times> policy_object" where
  "write_rto_tuning e c gen ob =
     (case bpf_update e ''rto_tuning'' ''update rto_tuning map'' of
        Inl x \<Rightarrow> (Inl x, ob)
      | Inr _ \<Rightarrow> (Inr (), ob\<lparr>po_rto := Some (rack_rto_kernel_config c gen)\<rparr>))"

definition alternate_of :: "anyhow \<Rightarrow> string" where
  "alternate_of x = join '': '' (chain x)"

definition write_policy_enabled :: "'q env \<Rightarrow> u32 \<Rightarrow> policy_object \<Rightarrow> (anyhow, unit) result \<times> policy_object" where
  "write_policy_enabled e v ob =
     (case update_u32_map e ''policy_enabled'' of
        Inl x \<Rightarrow> (Inl x, ob)
      | Inr _ \<Rightarrow> (Inr (), ob\<lparr>po_enabled := Some v\<rparr>))"

definition error_line :: "string \<Rightarrow> (anyhow, unit) result \<Rightarrow> string list" where
  "error_line what r = (case r of Inl x \<Rightarrow> [what @ '': '' @ alternate_of x] | Inr _ \<Rightarrow> [])"

definition policy_load :: "'q env \<Rightarrow> skyline_config \<Rightarrow> policy_runtime" where
  "policy_load e c =
     (case env_load_policy e of
        Inl x \<Rightarrow> \<lparr>pr_object = None, pr_linked = False,
                  pr_errors = [''policy object unavailable: '' @ alternate_of x]\<rparr>
      | Inr _ \<Rightarrow>
          (case write_policy_enabled e 0 \<lparr>po_enabled = None, po_rto = None\<rparr> of
             (r1, ob1) \<Rightarrow>
               (case write_rto_tuning e rack_rto_disabled 0 ob1 of
                  (r2, ob2) \<Rightarrow>
                    (let link = (case env_open_cgroup e of
                                   Inr _ \<Rightarrow> (case env_attach_cgroup e of
                                      Inr _ \<Rightarrow> (True, [])
                                    | Inl x \<Rightarrow> (False, [''policy attach failed: '' @ alternate_of x]))
                                 | Inl x \<Rightarrow> (False, [''open cgroup path '' @ rt_cgroup_path (runtime_table c) @ '': '' @ alternate_of x]))
                     in \<lparr>pr_object = Some ob2, pr_linked = fst link,
                         pr_errors = error_line ''policy_enabled initialization failed'' r1
                           @ error_line ''rto_tuning initialization failed'' r2 @ snd link\<rparr>))))"

definition set_policy_enabled :: "'q env \<Rightarrow> bool \<Rightarrow> policy_runtime \<Rightarrow> (anyhow, unit) result \<times> policy_runtime" where
  "set_policy_enabled e enabled p =
     (case pr_object p of
        Some ob \<Rightarrow> (case write_policy_enabled e (u32_of_bool enabled) ob of
                     (r, ob') \<Rightarrow> (r, p\<lparr>pr_object := Some ob'\<rparr>))
      | None \<Rightarrow> if enabled then (Inl (anyhow_msg ''policy object is not loaded''), p) else (Inr (), p))"

definition set_rto_tuning ::
  "'q env \<Rightarrow> rack_rto_config \<Rightarrow> u32 \<Rightarrow> policy_runtime \<Rightarrow> (anyhow, unit) result \<times> policy_runtime" where
  "set_rto_tuning e c gen p =
     (case pr_object p of
        Some ob \<Rightarrow> (case write_rto_tuning e c gen ob of (r, ob') \<Rightarrow> (r, p\<lparr>pr_object := Some ob'\<rparr>))
      | None \<Rightarrow> (Inl (anyhow_msg ''policy object is not loaded''), p))"

section \<open>TcRuntime\<close>

record tc_object =
  to_dscp :: "kernel_retransmit_dscp_config option"
  to_redundancy :: "kernel_redundancy_config option"

record tc_runtime =
  tr_object :: "tc_object option"
  tr_errors :: "string list"
  tr_redundancy_active :: bool

definition write_retransmit_dscp_config ::
  "'q env \<Rightarrow> retransmit_dscp_config \<Rightarrow> tc_object \<Rightarrow> (anyhow, unit) result \<times> tc_object" where
  "write_retransmit_dscp_config e c ob =
     (case bpf_update e ''retransmit_dscp_config'' ''update retransmit_dscp_config map'' of
        Inl x \<Rightarrow> (Inl x, ob)
      | Inr _ \<Rightarrow> (Inr (), ob\<lparr>to_dscp := Some (retransmit_dscp_kernel_config c)\<rparr>))"

definition write_redundancy_config ::
  "'q env \<Rightarrow> redundancy_config \<Rightarrow> bool \<Rightarrow> tc_object \<Rightarrow> (anyhow, unit) result \<times> tc_object" where
  "write_redundancy_config e c active ob =
     (case bpf_update e ''redundancy_config'' ''update redundancy_config map'' of
        Inl x \<Rightarrow> (Inl x, ob)
      | Inr _ \<Rightarrow> (Inr (), ob\<lparr>to_redundancy := Some (redundancy_kernel_config c active)\<rparr>))"

definition tc_load :: "'q env \<Rightarrow> skyline_config \<Rightarrow> (anyhow, tc_runtime) result" where
  "tc_load e c =
     (let empty_tc = \<lparr>tr_object = None, tr_errors = [], tr_redundancy_active = False\<rparr>
      in case rt_tc_interface (runtime_table c) of
           None \<Rightarrow> Inr empty_tc
         | Some interface \<Rightarrow>
             res_bind (require_ethernet interface (env_device_type e)) (\<lambda>_.
               (case env_load_tc e of
                  Inl x \<Rightarrow> Inr (empty_tc\<lparr>tr_errors := [''TC observer unavailable: '' @ hd (chain x)]\<rparr>)
                | Inr _ \<Rightarrow>
                    (case write_retransmit_dscp_config e retransmit_dscp_disabled \<lparr>to_dscp = None, to_redundancy = None\<rparr> of
                       (r1, ob1) \<Rightarrow>
                         (case write_redundancy_config e redundancy_disabled False ob1 of
                            (r2, ob2) \<Rightarrow>
                              Inr \<lparr>tr_object = Some ob2,
                                   tr_errors = error_line ''retransmit_dscp_config initialization failed'' r1
                                     @ error_line ''redundancy_config initialization failed'' r2,
                                   tr_redundancy_active = False\<rparr>)))))"

definition TC_NOT_LOADED :: string where
  "TC_NOT_LOADED = ''TC object is not loaded (runtime.tc_interface unset?)''"

text \<open>The loaded object that has the named map, if any.\<close>

definition tc_object_with :: "'q env \<Rightarrow> string \<Rightarrow> tc_runtime \<Rightarrow> tc_object option" where
  "tc_object_with e name t = (if env_map e name = MapMissing then None else tr_object t)"

definition set_retransmit_dscp ::
  "'q env \<Rightarrow> retransmit_dscp_config \<Rightarrow> tc_runtime \<Rightarrow> (anyhow, unit) result \<times> tc_runtime" where
  "set_retransmit_dscp e c t =
     (case tc_object_with e ''retransmit_dscp_config'' t of
        Some ob \<Rightarrow> (case write_retransmit_dscp_config e c ob of (r, ob') \<Rightarrow> (r, t\<lparr>tr_object := Some ob'\<rparr>))
      | None \<Rightarrow> if rd_enabled c then (Inl (anyhow_msg TC_NOT_LOADED), t) else (Inr (), t))"

definition set_redundancy ::
  "'q env \<Rightarrow> redundancy_config \<Rightarrow> bool \<Rightarrow> tc_runtime \<Rightarrow> (anyhow, unit) result \<times> tc_runtime" where
  "set_redundancy e c active t =
     (let flag = (\<lambda>t. t\<lparr>tr_redundancy_active := (red_enabled c \<and> active)\<rparr>)
      in case tc_object_with e ''redundancy_config'' t of
           Some ob \<Rightarrow>
             (case write_redundancy_config e c active ob of
                (Inl x, ob') \<Rightarrow> (Inl x, t\<lparr>tr_object := Some ob'\<rparr>)
              | (Inr _, ob') \<Rightarrow> (Inr (), flag (t\<lparr>tr_object := Some ob'\<rparr>)))
         | None \<Rightarrow>
             if red_enabled c \<and> active then (Inl (anyhow_msg TC_NOT_LOADED), t) else (Inr (), flag t))"

section \<open>Start-up sysctls\<close>

text \<open>\<open>apply_rack_tuning\<close>: each of the three sysctls only when the configuration sets it.\<close>

fun write_tunings :: "'q env \<Rightarrow> (string \<times> u32 option) list \<Rightarrow> 'q dworld \<Rightarrow> (anyhow, unit) result \<times> 'q dworld" where
  "write_tunings e [] w = (Inr (), w)"
| "write_tunings e ((path, None) # rest) w = write_tunings e rest w"
| "write_tunings e ((path, Some v) # rest) w =
     (case fs_write (env_kernel e) path (dec (unat v)) (dw_sys w) of
        (Inl x, s) \<Rightarrow> (with_context (''set '' @ path @ '' to '' @ dec (unat v)) (Inl x), w\<lparr>dw_sys := s\<rparr>)
      | (Inr _, s) \<Rightarrow> write_tunings e rest (w\<lparr>dw_sys := s\<rparr>))"

definition apply_rack_tuning :: "'q env \<Rightarrow> rack_tuning_config \<Rightarrow> 'q dworld \<Rightarrow> (anyhow, unit) result \<times> 'q dworld" where
  "apply_rack_tuning e t w =
     write_tunings e
       [(''/proc/sys/net/ipv4/tcp_recovery'', tcp_recovery t),
        (''/proc/sys/net/ipv4/tcp_reordering'', tcp_reordering t),
        (''/proc/sys/net/ipv4/tcp_early_retrans'', tcp_early_retrans t)] w"

definition read_sysctl_u32 :: "string \<Rightarrow> 'q dworld \<Rightarrow> u32 option" where
  "read_sysctl_u32 path w =
     (case file_text (dw_sys w) path of Some t \<Rightarrow> parse_u32 (trim t) | None \<Rightarrow> None)"

definition read_rack_tuning :: "'q dworld \<Rightarrow> rack_tuning_config" where
  "read_rack_tuning w =
     \<lparr>tcp_recovery = read_sysctl_u32 ''/proc/sys/net/ipv4/tcp_recovery'' w,
      tcp_reordering = read_sysctl_u32 ''/proc/sys/net/ipv4/tcp_reordering'' w,
      tcp_early_retrans = read_sysctl_u32 ''/proc/sys/net/ipv4/tcp_early_retrans'' w\<rparr>"

end
