(* ===== verification/Tuning.thy ===== *)
theory Tuning
  imports Validate
begin

text \<open>
  The run-time tuning snapshot as a lens on the configuration, the names and bits of the modules,
  and the feature mask. The lens laws are what \<open>SetModuleConfig\<close> and \<open>ResetModuleConfig\<close> rely on
  when they roll a rejected snapshot back by applying the previous one again.
\<close>

section \<open>The lens interface\<close>

locale tuning_lens =
  fixes get :: "'s \<Rightarrow> 'v" and put :: "'v \<Rightarrow> 's \<Rightarrow> 's"
  assumes get_put: "get (put v s) = v"
    and put_get: "put (get s) s = s"
    and put_put: "put w (put v s) = put w s"
begin

text \<open>Trying a value and going back restores the state, whatever was tried.\<close>

lemma rollback: "put (get s) (put v s) = s"
  by (simp add: put_put put_get)

lemma put_inj: "put v s = put w s \<Longrightarrow> v = w"
  by (metis get_put)

lemma same_complement: "put v s = put v t \<Longrightarrow> put w s = put w t"
  by (metis put_put)

end

lemma apply_from_config: "apply_to (from_config c) c = c"
  by (simp add: from_config_def apply_to_def)

interpretation tune: tuning_lens from_config apply_to
  by unfold_locales (simp_all add: from_config_def apply_to_def)

text \<open>
  C22. Applying a tuning snapshot and then the one taken before it gives back the very same
  configuration, and the snapshot read after applying is the one applied: a rejected
  \<open>SetModuleConfig\<close> can always be rolled back.
\<close>

theorem tuning_rollback:
  "apply_to (from_config c) (apply_to t c) = c \<and> from_config (apply_to t c) = t"
  by (simp add: tune.rollback tune.get_put)

lemma apply_to_frame [simp]:
  "generation (apply_to t c) = generation c"
  "enabled_modules (apply_to t c) = enabled_modules c"
  "fallback_cc (apply_to t c) = fallback_cc c"
  "rack_tuning (apply_to t c) = rack_tuning c"
  "rack_rto (apply_to t c) = rack_rto c"
  "retransmit_dscp (apply_to t c) = retransmit_dscp c"
  "redundancy (apply_to t c) = redundancy c"
  "guard_table (apply_to t c) = guard_table c"
  "runtime_table (apply_to t c) = runtime_table c"
  by (simp_all add: apply_to_def)

section \<open>Module names\<close>

lemma module_from_str_display [simp]: "module_from_str (module_display m) = Inr m"
  by (cases m) (simp_all add: module_from_str_def)

lemma module_from_str_Inr: "module_from_str s = Inr m \<Longrightarrow> s = module_display m"
  by (auto simp: module_from_str_def split: if_splits)

text \<open>
  Parsing and printing a module name are inverse: a name parses to a module exactly when it is
  the name that module prints, and any other name is reported back as unknown.
\<close>

lemma module_name_roundtrip:
  "(module_from_str s = Inr m \<longleftrightarrow> s = module_display m)
   \<and> ((\<forall>m. s \<noteq> module_display m) \<longleftrightarrow> module_from_str s = Inl (UnknownModule s))"
proof (intro conjI)
  show "module_from_str s = Inr m \<longleftrightarrow> s = module_display m"
    by (auto dest: module_from_str_Inr)
  show "(\<forall>m. s \<noteq> module_display m) \<longleftrightarrow> module_from_str s = Inl (UnknownModule s)"
  proof
    assume "\<forall>m. s \<noteq> module_display m"
    from this [THEN spec, of EarlyLoss] this [THEN spec, of AdaptiveCwnd]
      this [THEN spec, of LossClassifier] this [THEN spec, of Pacing]
    show "module_from_str s = Inl (UnknownModule s)"
      by (simp add: module_from_str_def)
  next
    assume h: "module_from_str s = Inl (UnknownModule s)"
    show "\<forall>m. s \<noteq> module_display m"
    proof (intro allI notI)
      fix m assume "s = module_display m"
      with h show False by simp
    qed
  qed
qed

section \<open>The feature mask\<close>

lemma fold_or_bit:
  "bit (fold (\<lambda>m acc. acc OR f m) ms (a :: u32)) n \<longleftrightarrow> bit a n \<or> (\<exists>m \<in> set ms. bit (f m) n)"
  by (induction ms arbitrary: a) (auto simp: bit_or_iff)

definition module_pos :: "sky_module \<Rightarrow> nat" where
  "module_pos m = (case m of EarlyLoss \<Rightarrow> 0 | AdaptiveCwnd \<Rightarrow> 1 | LossClassifier \<Rightarrow> 2 | Pacing \<Rightarrow> 3)"

lemma bit_push_one: "bit (push_bit n 1 :: u32) k \<longleftrightarrow> k = n \<and> n < 32"
  by (auto simp only: bit_push_bit_iff bit_1_iff possible_bit_word len_num1 len_bit0)

lemma module_bit_push: "module_bit m = push_bit (module_pos m) 1" "module_pos m < 4"
  by (cases m; simp add: mask_consts module_pos_def)+

lemma bit_module_bit: "bit (module_bit m) n \<longleftrightarrow> n = module_pos m"
  using module_bit_push(2) [of m] by (simp only: module_bit_push(1) bit_push_one) auto

lemma bit_switches: "bit PRR n \<longleftrightarrow> n = 4" "bit AUTO_PACING n \<longleftrightarrow> n = 5"
  by (simp_all only: PRR_def AUTO_PACING_def bit_push_one) auto

lemma feature_mask_bit:
  "bit (feature_mask c) n \<longleftrightarrow>
     (\<exists>m \<in> set (enabled_modules c). n = module_pos m)
     \<or> prr_pacing_enabled c \<and> n = 4 \<or> auto_pacing_enabled c \<and> n = 5"
  by (auto simp: feature_mask_def Let_def fold_or_bit bit_module_bit bit_or_iff bit_switches)

lemma mask_contains_single:
  assumes "\<And>k. bit b k \<longleftrightarrow> k = n"
  shows "mask_contains m b \<longleftrightarrow> bit m n"
proof
  assume "mask_contains m b"
  then have "bit (m AND b) n" using assms by (simp add: mask_contains_def)
  then show "bit m n" by (simp add: bit_and_iff)
next
  assume "bit m n"
  then show "mask_contains m b"
    unfolding mask_contains_def by (intro bit_eqI) (auto simp: bit_and_iff assms)
qed

lemma module_index_inj: "module_pos m = module_pos m' \<Longrightarrow> m = m'"
  by (cases m; cases m') (simp_all add: module_pos_def)

text \<open>
  The feature mask the kernel receives says exactly what the configuration enables: the bit of
  a module iff the module is listed, PRR and automatic pacing iff their switches are on, and no
  other bit; the order and repetition of the listed modules do not matter.
\<close>

lemma feature_mask_exact:
  "(mask_contains (feature_mask c) (module_bit m) \<longleftrightarrow> m \<in> set (enabled_modules c))
   \<and> (mask_contains (feature_mask c) PRR \<longleftrightarrow> prr_pacing_enabled c)
   \<and> (mask_contains (feature_mask c) AUTO_PACING \<longleftrightarrow> auto_pacing_enabled c)
   \<and> unat (feature_mask c) < 64"
proof (intro conjI)
  have i: "module_pos k < 4" for k by (rule module_bit_push)
  have four: "4 = module_pos k \<longleftrightarrow> False" and five: "5 = module_pos k \<longleftrightarrow> False" for k
    using i [of k] by auto
  show "mask_contains (feature_mask c) (module_bit m) \<longleftrightarrow> m \<in> set (enabled_modules c)"
    unfolding mask_contains_single [OF bit_module_bit] feature_mask_bit
    using i [of m] by (auto dest: module_index_inj)
  show "mask_contains (feature_mask c) PRR \<longleftrightarrow> prr_pacing_enabled c"
       "mask_contains (feature_mask c) AUTO_PACING \<longleftrightarrow> auto_pacing_enabled c"
    unfolding mask_contains_single [OF bit_switches(1)] mask_contains_single [OF bit_switches(2)]
      feature_mask_bit
    by (simp_all add: four five)
  have "take_bit 6 (feature_mask c) = feature_mask c"
  proof (rule bit_eqI)
    fix n
    show "bit (take_bit 6 (feature_mask c)) n = bit (feature_mask c) n"
      unfolding bit_take_bit_iff feature_mask_bit using i less_trans [OF i, of 6] by auto
  qed
  then have "unat (feature_mask c) = take_bit 6 (unat (feature_mask c))"
    by (simp flip: unsigned_take_bit_eq)
  then show "unat (feature_mask c) < 64"
    using take_bit_nat_less_exp [of 6 "unat (feature_mask c)"] by simp
qed

text \<open>Taking modules away only clears bits.\<close>

lemma feature_mask_fewer:
  assumes "mask_contains (feature_mask (c\<lparr>enabled_modules := filter P (enabled_modules c)\<rparr>)) (module_bit m)"
  shows "mask_contains (feature_mask c) (module_bit m)"
  using assms module_bit_push(2) [of m]
  by (auto simp: mask_contains_single [OF bit_module_bit] feature_mask_bit)

end
