(* ===== verification/Daemon.thy ===== *)
theory Daemon
  imports Runtime Tuning Metrics
begin

text \<open>
  The daemon: its state, \<open>Daemon::new\<close>, every request of \<open>try_handle\<close> as one definition, \<open>handle\<close> with
  its rollback of the configuration, and the status it reports. A request runs in one environment
  (what the kernel answers to it) and changes the daemon and the host. Draining waits in a loop
  that need not end; its result is an option, \<open>None\<close> being a drain that waits for ever.
\<close>

section \<open>State\<close>

datatype request =
    Validate
  | Enable "sky_module list option"
  | DisableModule sky_module
  | Status
  | Flows
  | Snapshot string
  | Drain u64
  | SetRackRto rack_rto_config
  | ResetRackRto
  | SetModuleConfig module_tuning_config
  | ResetModuleConfig
  | SetRetransmitDscp retransmit_dscp_config
  | ResetRetransmitDscp
  | SetRedundancy redundancy_config
  | ResetRedundancy
  | Shutdown

record daemon =
  d_config :: skyline_config
  d_capabilities :: capability_report
  d_guard_settings :: settings
  d_guard :: guard_state
  d_runtime :: "bpf_runtime option"
  d_tc :: "tc_runtime option"
  d_tc_error :: "string option"
  d_policy :: "policy_runtime option"
  rack_rto_defaults :: rack_rto_config
  module_tuning_defaults :: module_tuning_config
  retransmit_dscp_defaults :: retransmit_dscp_config
  redundancy_defaults :: redundancy_config
  accelerating :: bool
  draining :: bool
  d_event_log :: bool
  d_started :: nat
  attached_at :: "nat option"

text \<open>
  \<open>Daemon::new\<close>: \<open>log_opened\<close> is the result of creating the event directory and opening the log,
  which only happens while the log is on.
\<close>

definition daemon_new ::
  "capability_report \<Rightarrow> (anyhow, unit) result \<Rightarrow> nat \<Rightarrow> skyline_config \<Rightarrow> (anyhow, daemon) result" where
  "daemon_new caps log_opened now c =
     (let c' = c\<lparr>rack_rto := (rack_rto c)\<lparr>rr_enabled := False\<rparr>,
                 retransmit_dscp := (retransmit_dscp c)\<lparr>rd_enabled := False\<rparr>\<rparr>
      in res_bind (if rt_events_max_mib (runtime_table c) = 0 then Inr () else log_opened) (\<lambda>_.
           Inr \<lparr>d_config = c', d_capabilities = caps, d_guard_settings = settings_from_config c',
                d_guard = guard_state_default, d_runtime = None, d_tc = None, d_tc_error = None,
                d_policy = None, rack_rto_defaults = rack_rto c, module_tuning_defaults = from_config c,
                retransmit_dscp_defaults = retransmit_dscp c, redundancy_defaults = redundancy c,
                accelerating = False, draining = False,
                d_event_log = (rt_events_max_mib (runtime_table c) \<noteq> 0), d_started = now,
                attached_at = None\<rparr>))"

definition start_tc :: "'q env \<Rightarrow> daemon \<Rightarrow> daemon" where
  "start_tc e d =
     (if d_tc d \<noteq> None then d
      else (case tc_load e (d_config d) of
              Inr t \<Rightarrow> d\<lparr>d_tc := Some t\<rparr>
            | Inl x \<Rightarrow> d\<lparr>d_tc_error := Some (alternate_of x)\<rparr>))"

definition start_policy :: "'q env \<Rightarrow> daemon \<Rightarrow> daemon" where
  "start_policy e d =
     (if d_policy d \<noteq> None then d else d\<lparr>d_policy := Some (policy_load e (d_config d))\<rparr>)"

section \<open>Helpers\<close>

definition active_flows :: "'q env \<Rightarrow> nat \<Rightarrow> daemon \<Rightarrow> u64" where
  "active_flows e k d = (case d_runtime d of None \<Rightarrow> 0 | Some _ \<Rightarrow> env_flows e k)"

definition apply_redundancy :: "'q env \<Rightarrow> daemon \<Rightarrow> (anyhow, unit) result \<times> daemon" where
  "apply_redundancy e d =
     (case d_tc d of
        Some t \<Rightarrow>
          (case set_redundancy e (redundancy (d_config d)) (accelerating d) t of
             (r, t') \<Rightarrow> (r, d\<lparr>d_tc := Some t'\<rparr>))
      | None \<Rightarrow>
          if accelerating d \<and> red_enabled (redundancy (d_config d))
          then (Inl (anyhow_msg ''TC runtime is not loaded, so nothing can be copied; check runtime.tc_interface and tc_error in status''), d)
          else (Inr (), d))"

definition apply_retransmit_dscp :: "'q env \<Rightarrow> daemon \<Rightarrow> (anyhow, unit) result \<times> daemon" where
  "apply_retransmit_dscp e d =
     (case d_tc d of
        Some t \<Rightarrow>
          (case set_retransmit_dscp e (retransmit_dscp (d_config d)) t of
             (r, t') \<Rightarrow> (r, d\<lparr>d_tc := Some t'\<rparr>))
      | None \<Rightarrow>
          if rd_enabled (retransmit_dscp (d_config d))
          then (Inl (anyhow_msg ''TC runtime is not loaded; check runtime.tc_interface and tc_error in status''), d)
          else (Inr (), d))"

text \<open>The text of a \<open>ConfigError\<close>; \<open>fmt\<close> prints a float as \<open>{:?}\<close> does.\<close>

definition non_finite_text :: "f64 \<Rightarrow> string" where
  "non_finite_text x =
     (case x of NaN \<Rightarrow> ''NaN'' | Infinite neg \<Rightarrow> if neg then ''-inf'' else ''inf'' | Finite _ \<Rightarrow> [])"

definition config_error_text :: "(f64 \<Rightarrow> string) \<Rightarrow> config_error \<Rightarrow> string" where
  "config_error_text fmt x =
     (case x of
        Read p m \<Rightarrow> ''failed to read configuration '' @ p @ '': '' @ m
      | Parse m \<Rightarrow> ''invalid TOML: '' @ m
      | UnknownModule v \<Rightarrow> ''unknown module '' @ v
      | Ratio f hi v \<Rightarrow> f @ '' must be between 0.0 and '' @ fmt hi @ '', got '' @ fmt v
      | Gain f v \<Rightarrow> f @ '' must be between 1.0 and '' @ fmt MAX_MODE_GAIN @ '', got '' @ fmt v
      | NotFinite f v \<Rightarrow> f @ '' must be a finite number, got '' @ non_finite_text v
      | UnknownKeys k \<Rightarrow> ''the configuration has keys skyline-speederd does not know and would ignore: '' @ k
      | Range f r v \<Rightarrow> f @ '' must be '' @ r @ '', got '' @ dec (unat v)
      | Invalid m \<Rightarrow> m)"

definition validate_config :: "'q env \<Rightarrow> skyline_config \<Rightarrow> (anyhow, unit) result" where
  "validate_config e c =
     (case validate c of Inl x \<Rightarrow> Inl (anyhow_msg (config_error_text (env_fmt e) x)) | Inr _ \<Rightarrow> Inr ())"

definition bump :: "skyline_config \<Rightarrow> skyline_config" where
  "bump c = c\<lparr>generation := saturating_add (generation c) 1\<rparr>"

definition display_modules :: "sky_module list \<Rightarrow> string" where
  "display_modules ms = (if ms = [] then ''none'' else join '','' (map module_display ms))"

definition redundancy_message :: "redundancy_config \<Rightarrow> bool \<Rightarrow> string" where
  "redundancy_message c acc =
     (if \<not> red_enabled c then ''first-flight redundancy off''
      else (let what = ''SYN-ACKs, SYNs and the first '' @ dec (unat (red_first_kib c)) @
                  '' KiB of every skyline_cc connection are sent twice, the copy '' @ dec (unat (red_delay_ms c)) @ '' ms later''
            in if acc then what else what @ '' -- from the next enable (skyline_cc is not enabled now)''))"

type_synonym 'q outcome = "(anyhow, string) result \<times> daemon \<times> 'q dworld"

definition publish_runtime :: "'q env \<Rightarrow> daemon \<Rightarrow> (anyhow, unit) result \<times> daemon" where
  "publish_runtime e d =
     (case d_runtime d of
        Some r \<Rightarrow> (case update_config e (d_config d) r of (x, r') \<Rightarrow> (x, d\<lparr>d_runtime := Some r'\<rparr>))
      | None \<Rightarrow> (Inr (), d))"

section \<open>Requests\<close>

definition publish_or_attach :: "'q env \<Rightarrow> daemon \<Rightarrow> 'q dworld \<Rightarrow> (anyhow, unit) result \<times> daemon \<times> 'q dworld" where
  "publish_or_attach e d w =
     (case validate_config e (d_config d) of
        Inl x \<Rightarrow> (Inl x, d, w)
      | Inr _ \<Rightarrow>
          (case validate_capabilities (d_capabilities d) of
             Inl x \<Rightarrow> (Inl x, d, w)
           | Inr _ \<Rightarrow>
               (case d_runtime d of
                  Some r \<Rightarrow>
                    (case update_config e (d_config d) r of (x, r') \<Rightarrow> (x, d\<lparr>d_runtime := Some r'\<rparr>, w))
                | None \<Rightarrow>
                    (case bpf_load e (d_config d) (d_event_log d) w of
                       (Inl x, w') \<Rightarrow> (Inl x, d, w')
                     | (Inr r, w') \<Rightarrow>
                         (Inr (), d\<lparr>d_runtime := Some r, attached_at := Some (env_now e)\<rparr>, w')))))"

definition handle_validate :: "'q env \<Rightarrow> daemon \<Rightarrow> 'q dworld \<Rightarrow> 'q outcome" where
  "handle_validate e d w =
     (case validate_config e (d_config d) of
        Inl x \<Rightarrow> (Inl x, d, w)
      | Inr _ \<Rightarrow>
          (case validate_capabilities (d_capabilities d) of
             Inl x \<Rightarrow> (Inl x, d, w)
           | Inr _ \<Rightarrow> (Inr ''configuration and kernel capabilities are valid'', d, w)))"

text \<open>The part of \<open>Enable\<close> after the kernel runs the new configuration.\<close>

definition switch_policy_on :: "'q env \<Rightarrow> daemon \<Rightarrow> string list \<times> daemon" where
  "switch_policy_on e d =
     (case d_policy d of
        None \<Rightarrow> ([], d)
      | Some p \<Rightarrow>
          (case set_policy_enabled e True p of
             (Inl x, p') \<Rightarrow> ([''cgroup policy not switched on: '' @ alternate_of x], d\<lparr>d_policy := Some p'\<rparr>)
           | (Inr _, p') \<Rightarrow> ([], d\<lparr>d_policy := Some p'\<rparr>)))"

definition enable_message :: "daemon \<Rightarrow> pass_report \<Rightarrow> string list \<Rightarrow> string" where
  "enable_message d r extra =
     foldl (\<lambda>m line. m @ ''; '' @ line)
       (''Skyline Speeder enabled with modules: '' @ display_modules (enabled_modules (d_config d)) @
        '' -- '' @ SKYLINE_CC_NAME @ '' is now the default congestion control for every new connection on this host'')
       (corrections r @ p_notes r @ p_errors r @ extra)"

definition enable_activate :: "'q env \<Rightarrow> daemon \<Rightarrow> 'q dworld \<Rightarrow> 'q outcome" where
  "enable_activate e d w =
     (case switch_policy_on e d of
        (extra, d1) \<Rightarrow>
          (case set_default_cc e SKYLINE_CC_NAME w of
             (Inl x, w1) \<Rightarrow> (Inl x, d1, w1)
           | (Inr _, w1) \<Rightarrow>
               (case arm_and_enforce (d_guard_settings d1) (system_host (env_kernel e)) (env_now e) (env_unix e)
                       (dw_sys w1) (d_guard d1) of
                  (s, g, r) \<Rightarrow>
                    (let d2 = d1\<lparr>d_guard := g, accelerating := True, draining := False\<rparr>;
                         msg = enable_message d2 r extra
                     in case apply_redundancy e d2 of
                          (Inl x, d3) \<Rightarrow>
                            (Inr (msg @ ''; first-flight redundancy not started: '' @ alternate_of x), d3, w1\<lparr>dw_sys := s\<rparr>)
                        | (Inr _, d3) \<Rightarrow> (Inr msg, d3, w1\<lparr>dw_sys := s\<rparr>)))))"

definition handle_enable :: "'q env \<Rightarrow> sky_module list option \<Rightarrow> daemon \<Rightarrow> 'q dworld \<Rightarrow> 'q outcome" where
  "handle_enable e modules d w =
     (let c1 = (case modules of Some ms \<Rightarrow> (d_config d)\<lparr>enabled_modules := ms\<rparr> | None \<Rightarrow> d_config d);
          d1 = d\<lparr>d_config := bump c1\<rparr>
      in case publish_or_attach e d1 w of
           (Inl x, d2, w2) \<Rightarrow>
             (Inl x, d2\<lparr>d_config := (d_config d2)\<lparr>enabled_modules := enabled_modules (d_config d),
                                                   generation := generation (d_config d)\<rparr>\<rparr>, w2)
         | (Inr _, d2, w2) \<Rightarrow> enable_activate e d2 w2)"

definition handle_disable_module :: "'q env \<Rightarrow> sky_module \<Rightarrow> daemon \<Rightarrow> 'q dworld \<Rightarrow> 'q outcome" where
  "handle_disable_module e m d w =
     (let c = d_config d;
          d1 = d\<lparr>d_config := bump (c\<lparr>enabled_modules := filter (\<lambda>i. i \<noteq> m) (enabled_modules c)\<rparr>)\<rparr>
      in case publish_runtime e d1 of
           (Inl x, d2) \<Rightarrow> (Inl x, d2, w)
         | (Inr _, d2) \<Rightarrow>
             (Inr (''module '' @ module_display m @ '' disabled from each connection's next round''), d2, w))"

text \<open>
  The wait of \<open>Drain\<close>: poll number \<open>k\<close> reads the flow count and the clock; the loop leaves with the
  number of the poll that ended it.
\<close>

partial_function (option) drain_wait ::
  "(nat \<Rightarrow> u64) \<Rightarrow> (nat \<Rightarrow> nat) \<Rightarrow> nat option \<Rightarrow> nat \<Rightarrow> nat option" where
  "drain_wait flows clock deadline k =
     (if flows k > 0 \<and> (case deadline of None \<Rightarrow> True | Some t \<Rightarrow> clock k < t)
      then drain_wait flows clock deadline (Suc k)
      else Some k)"

text \<open>\<open>Instant::checked_add\<close>: seconds are signed 64-bit numbers.\<close>

definition checked_deadline :: "nat \<Rightarrow> u64 \<Rightarrow> nat option" where
  "checked_deadline now timeout_s =
     (if now div 1000000000 + unat timeout_s < 2 ^ 63 then Some (now + unat timeout_s * 1000000000) else None)"

text \<open>The end of \<open>Drain\<close>, after the wait: \<open>left\<close> connections are still there.\<close>

definition drain_finish :: "'q env \<Rightarrow> u64 \<Rightarrow> daemon \<Rightarrow> 'q dworld \<Rightarrow> 'q outcome" where
  "drain_finish e left d w =
     (if left > 0
      then (Inl (anyhow_msg (''drain timeout expired; struct_ops remains attached, but the default congestion control is already back on ''
             @ fallback_cc (d_config d) @ '' so no new connection is using it'')), d, w)
      else
        (case (case d_runtime d of Some _ \<Rightarrow> unregister_struct_ops e w | None \<Rightarrow> (Inr (), w)) of
           (Inl x, w1) \<Rightarrow> (Inl x, d, w1)
         | (Inr _, w1) \<Rightarrow>
             (Inr (''new sockets use '' @ fallback_cc (d_config d) @
                ''; Skyline Speeder CC links detached (TC stats and RTO tuning, if enabled, remain active)''),
              d\<lparr>d_runtime := None, attached_at := None, draining := False\<rparr>,
              (if d_runtime d \<noteq> None then drop_bpf_runtime e w1 else w1))))"

text \<open>The part of \<open>Drain\<close> before the wait.\<close>

definition drain_begin :: "'q env \<Rightarrow> daemon \<Rightarrow> 'q dworld \<Rightarrow> (anyhow, unit) result \<times> daemon \<times> 'q dworld" where
  "drain_begin e d w =
     (case disarm_and (set_default_cc e (fallback_cc (d_config d))) w (d_guard d) of
        (r, w1, g) \<Rightarrow>
          let d1 = d\<lparr>d_guard := g\<rparr>
          in case r of
               Inl x \<Rightarrow> (Inl x, d1, w1)
             | Inr _ \<Rightarrow>
                 (case (case d_policy d1 of
                          None \<Rightarrow> (Inr (), d1)
                        | Some p \<Rightarrow> (case set_policy_enabled e False p of (x, p') \<Rightarrow> (x, d1\<lparr>d_policy := Some p'\<rparr>))) of
                    (Inl x, d2) \<Rightarrow> (Inl x, d2, w1)
                  | (Inr _, d2) \<Rightarrow>
                      (case apply_redundancy e (d2\<lparr>accelerating := False\<rparr>) of
                         (Inl x, d3) \<Rightarrow> (Inl x, d3, w1)
                       | (Inr _, d3) \<Rightarrow> (Inr (), d3\<lparr>draining := True\<rparr>, w1))))"

definition handle_drain :: "'q env \<Rightarrow> u64 \<Rightarrow> daemon \<Rightarrow> 'q dworld \<Rightarrow> 'q outcome option" where
  "handle_drain e timeout_s d w =
     (case drain_begin e d w of
        (Inl x, d1, w1) \<Rightarrow> Some (Inl x, d1, w1)
      | (Inr _, d1, w1) \<Rightarrow>
          map_option (\<lambda>k. drain_finish e (active_flows e (Suc k) d1) d1 w1)
            (drain_wait (\<lambda>k. active_flows e k d1) (env_clock e) (checked_deadline (env_now e) timeout_s) 0))"

definition push_rack_rto :: "'q env \<Rightarrow> daemon \<Rightarrow> (anyhow, unit) result \<times> daemon" where
  "push_rack_rto e d =
     (case d_policy d of
        Some p \<Rightarrow>
          (case set_rto_tuning e (rack_rto (d_config d)) (generation (d_config d)) p of
             (r, p') \<Rightarrow> (r, d\<lparr>d_policy := Some p'\<rparr>))
      | None \<Rightarrow> (Inl (anyhow_msg ''policy runtime is not available; check capabilities notes''), d))"

definition handle_set_rack_rto :: "'q env \<Rightarrow> rack_rto_config \<Rightarrow> daemon \<Rightarrow> 'q dworld \<Rightarrow> 'q outcome" where
  "handle_set_rack_rto e c d w =
     (let c1 = (d_config d)\<lparr>rack_rto := c\<rparr>
      in case validate_config e c1 of
           Inl x \<Rightarrow> (Inl x, d\<lparr>d_config := c1\<lparr>rack_rto := rack_rto (d_config d)\<rparr>\<rparr>, w)
         | Inr _ \<Rightarrow>
             (case push_rack_rto e (d\<lparr>d_config := bump c1\<rparr>) of
                (Inl x, d2) \<Rightarrow> (Inl x, d2, w)
              | (Inr _, d2) \<Rightarrow>
                  (Inr (''rack RTO tuning updated (generation '' @ dec (unat (generation (d_config d2))) @ '')''), d2, w)))"

definition handle_reset_rack_rto :: "'q env \<Rightarrow> daemon \<Rightarrow> 'q dworld \<Rightarrow> 'q outcome" where
  "handle_reset_rack_rto e d w =
     (case push_rack_rto e (d\<lparr>d_config := bump ((d_config d)\<lparr>rack_rto := rack_rto_defaults d\<rparr>)\<rparr>) of
        (Inl x, d2) \<Rightarrow> (Inl x, d2, w)
      | (Inr _, d2) \<Rightarrow> (Inr ''rack RTO tuning reset to configuration defaults'', d2, w))"

definition handle_set_module_config :: "'q env \<Rightarrow> module_tuning_config \<Rightarrow> daemon \<Rightarrow> 'q dworld \<Rightarrow> 'q outcome" where
  "handle_set_module_config e t d w =
     (let previous = from_config (d_config d); c1 = apply_to t (d_config d)
      in case validate_config e c1 of
           Inl x \<Rightarrow> (Inl x, d\<lparr>d_config := apply_to previous c1\<rparr>, w)
         | Inr _ \<Rightarrow>
             (case publish_runtime e (d\<lparr>d_config := bump c1\<rparr>) of
                (Inl x, d2) \<Rightarrow> (Inl x, d2, w)
              | (Inr _, d2) \<Rightarrow>
                  (Inr (''module tuning updated (generation '' @ dec (unat (generation (d_config d2))) @ '')''), d2, w)))"

definition handle_reset_module_config :: "'q env \<Rightarrow> daemon \<Rightarrow> 'q dworld \<Rightarrow> 'q outcome" where
  "handle_reset_module_config e d w =
     (let c1 = apply_to (module_tuning_defaults d) (d_config d)
      in case validate_config e c1 of
           Inl x \<Rightarrow> (Inl x, d\<lparr>d_config := c1\<rparr>, w)
         | Inr _ \<Rightarrow>
             (case publish_runtime e (d\<lparr>d_config := bump c1\<rparr>) of
                (Inl x, d2) \<Rightarrow> (Inl x, d2, w)
              | (Inr _, d2) \<Rightarrow> (Inr ''module tuning reset to configuration defaults'', d2, w)))"

definition handle_set_retransmit_dscp :: "'q env \<Rightarrow> retransmit_dscp_config \<Rightarrow> daemon \<Rightarrow> 'q dworld \<Rightarrow> 'q outcome" where
  "handle_set_retransmit_dscp e c d w =
     (let c1 = (d_config d)\<lparr>retransmit_dscp := c\<rparr>
      in case validate_config e c1 of
           Inl x \<Rightarrow> (Inl x, d\<lparr>d_config := c1\<lparr>retransmit_dscp := retransmit_dscp (d_config d)\<rparr>\<rparr>, w)
         | Inr _ \<Rightarrow>
             (case apply_retransmit_dscp e (d\<lparr>d_config := c1\<rparr>) of
                (Inl x, d2) \<Rightarrow> (Inl x, d2, w)
              | (Inr _, d2) \<Rightarrow> (Inr ''retransmit DSCP marking updated'', d2, w)))"

definition handle_reset_retransmit_dscp :: "'q env \<Rightarrow> daemon \<Rightarrow> 'q dworld \<Rightarrow> 'q outcome" where
  "handle_reset_retransmit_dscp e d w =
     (case apply_retransmit_dscp e (d\<lparr>d_config := (d_config d)\<lparr>retransmit_dscp := retransmit_dscp_defaults d\<rparr>\<rparr>) of
        (Inl x, d2) \<Rightarrow> (Inl x, d2, w)
      | (Inr _, d2) \<Rightarrow> (Inr ''retransmit DSCP marking reset to configuration defaults'', d2, w))"

definition handle_set_redundancy :: "'q env \<Rightarrow> redundancy_config \<Rightarrow> daemon \<Rightarrow> 'q dworld \<Rightarrow> 'q outcome" where
  "handle_set_redundancy e c d w =
     (let c1 = (d_config d)\<lparr>redundancy := c\<rparr>
      in case validate_config e c1 of
           Inl x \<Rightarrow> (Inl x, d\<lparr>d_config := c1\<lparr>redundancy := redundancy (d_config d)\<rparr>\<rparr>, w)
         | Inr _ \<Rightarrow>
             (case apply_redundancy e (d\<lparr>d_config := c1\<rparr>) of
                (Inl x, d2) \<Rightarrow> (Inl x, d2\<lparr>d_config := (d_config d2)\<lparr>redundancy := redundancy (d_config d)\<rparr>\<rparr>, w)
              | (Inr _, d2) \<Rightarrow> (Inr (redundancy_message (redundancy (d_config d2)) (accelerating d2)), d2, w)))"

definition handle_reset_redundancy :: "'q env \<Rightarrow> daemon \<Rightarrow> 'q dworld \<Rightarrow> 'q outcome" where
  "handle_reset_redundancy e d w =
     (case apply_redundancy e (d\<lparr>d_config := (d_config d)\<lparr>redundancy := redundancy_defaults d\<rparr>\<rparr>) of
        (Inl x, d2) \<Rightarrow> (Inl x, d2, w)
      | (Inr _, d2) \<Rightarrow>
          (Inr (''first-flight redundancy reset to configuration defaults: '' @
             redundancy_message (redundancy (d_config d2)) (accelerating d2)), d2, w))"

definition handle_snapshot :: "'q env \<Rightarrow> string \<Rightarrow> daemon \<Rightarrow> 'q dworld \<Rightarrow> 'q outcome" where
  "handle_snapshot e path d w =
     (let w1 = w\<lparr>dw_sys := snd (guard_status_of (d_guard_settings d) (system_host (env_kernel e)) (d_guard d) (dw_sys w))\<rparr>
      in case with_context (''write snapshot '' @ path) (env_write_snapshot e path) of
           Inl x \<Rightarrow> (Inl x, d, w1)
         | Inr _ \<Rightarrow> (Inr (''snapshot written to '' @ path), d, w1))"

fun try_handle :: "'q env \<Rightarrow> request \<Rightarrow> daemon \<Rightarrow> 'q dworld \<Rightarrow> 'q outcome option" where
  "try_handle e Validate d w = Some (handle_validate e d w)"
| "try_handle e (Enable ms) d w = Some (handle_enable e ms d w)"
| "try_handle e (DisableModule m) d w = Some (handle_disable_module e m d w)"
| "try_handle e Status d w = Some (Inr ''status returned'', d, w)"
| "try_handle e Flows d w = Some (Inr ''accelerated connections enumerated'', d, w)"
| "try_handle e (Snapshot p) d w = Some (handle_snapshot e p d w)"
| "try_handle e (Drain t) d w = handle_drain e t d w"
| "try_handle e (SetRackRto c) d w = Some (handle_set_rack_rto e c d w)"
| "try_handle e ResetRackRto d w = Some (handle_reset_rack_rto e d w)"
| "try_handle e (SetModuleConfig t) d w = Some (handle_set_module_config e t d w)"
| "try_handle e ResetModuleConfig d w = Some (handle_reset_module_config e d w)"
| "try_handle e (SetRetransmitDscp c) d w = Some (handle_set_retransmit_dscp e c d w)"
| "try_handle e ResetRetransmitDscp d w = Some (handle_reset_retransmit_dscp e d w)"
| "try_handle e (SetRedundancy c) d w = Some (handle_set_redundancy e c d w)"
| "try_handle e ResetRedundancy d w = Some (handle_reset_redundancy e d w)"
| "try_handle e Shutdown d w = Some (Inr ''shutting down'', d, w)"

definition is_enable :: "request \<Rightarrow> bool" where
  "is_enable r = (case r of Enable _ \<Rightarrow> True | _ \<Rightarrow> False)"

text \<open>\<open>handle\<close> without the reply: the request, and the configuration put back when it failed.\<close>

definition handle_state :: "'q env \<Rightarrow> request \<Rightarrow> daemon \<Rightarrow> 'q dworld \<Rightarrow> 'q outcome option" where
  "handle_state e rq d w =
     map_option (\<lambda>(r, d', w').
         case r of
           Inl _ \<Rightarrow> (r, if is_enable rq then d' else d'\<lparr>d_config := d_config d\<rparr>, w')
         | Inr _ \<Rightarrow> (r, d', w'))
       (try_handle e rq d w)"

section \<open>Status and reply\<close>

record runtime_status =
  rst_version :: string
  rst_enabled :: bool
  rst_generation :: u32
  rst_modules :: "sky_module list"
  rst_fallback_cc :: string
  rst_active_flows :: u64
  rst_tc_stats :: "tc_stats_rec option"
  rst_metrics :: "sky_metrics option"
  rst_metrics_recent :: "metrics_window option"
  rst_rack_tuning :: "rack_tuning_config \<times> rack_tuning_config"
  rst_rack_rto :: "rack_rto_config \<times> rack_rto_stats_rec option \<times> rack_rto_config option"
  rst_retransmit_dscp :: "retransmit_dscp_config \<times> retransmit_dscp_stats_rec option \<times> retransmit_dscp_config option"
  rst_redundancy :: "redundancy_config \<times> bool \<times> redundancy_stats_rec option"
  rst_module_tuning :: module_tuning_config
  rst_capabilities :: capability_report
  rst_guard :: guard_status
  rst_uptime_s :: nat
  rst_attached_s :: "nat option"
  rst_draining :: bool
  rst_cgroup_path :: "string option"

text \<open>What the per-CPU lookups of the counter maps give at status time, and the sampler's readings.\<close>

record lookups =
  lk_metrics :: "sky_metrics option list option"
  lk_tc :: "tc_stats_rec option list option"
  lk_rto :: "rack_rto_stats_rec option list option"
  lk_dscp :: "retransmit_dscp_stats_rec option list option"
  lk_redundancy :: "redundancy_stats_rec option list option"
  lk_readings :: readings

definition policy_loaded :: "daemon \<Rightarrow> bool" where
  "policy_loaded d = (case d_policy d of Some p \<Rightarrow> pr_object p \<noteq> None | None \<Rightarrow> False)"

definition tc_loaded :: "daemon \<Rightarrow> bool" where
  "tc_loaded d = (case d_tc d of Some t \<Rightarrow> tr_object t \<noteq> None | None \<Rightarrow> False)"

definition status_notes :: "daemon \<Rightarrow> string list" where
  "status_notes d =
     cap_notes (d_capabilities d)
     @ (case d_tc_error d of Some x \<Rightarrow> [''TC runtime unavailable: '' @ x] | None \<Rightarrow> [])
     @ (case d_tc d of Some t \<Rightarrow> tr_errors t | None \<Rightarrow> [])
     @ (case d_policy d of Some p \<Rightarrow> pr_errors p | None \<Rightarrow> [])"

definition metrics_recent :: "nat \<Rightarrow> lookups \<Rightarrow> metrics_window option" where
  "metrics_recent now lk =
     (case read_metrics (lk_metrics lk) of
        None \<Rightarrow> None
      | Some current \<Rightarrow> samples_window now current (lk_readings lk))"

definition daemon_status :: "'q env \<Rightarrow> lookups \<Rightarrow> daemon \<Rightarrow> 'q dworld \<Rightarrow> runtime_status \<times> 'q dworld" where
  "daemon_status e lk d w =
     (case guard_status_of (d_guard_settings d) (system_host (env_kernel e)) (d_guard d) (dw_sys w) of
        (g, s) \<Rightarrow>
          (\<lparr>rst_version = CARGO_PKG_VERSION,
            rst_enabled = (d_runtime d \<noteq> None),
            rst_generation = generation (d_config d),
            rst_modules = enabled_modules (d_config d),
            rst_fallback_cc = fallback_cc (d_config d),
            rst_active_flows = active_flows e 0 d,
            rst_tc_stats = (if tc_loaded d then tc_stats (lk_tc lk) else None),
            rst_metrics = (if d_runtime d \<noteq> None then read_metrics (lk_metrics lk) else None),
            rst_metrics_recent = (if d_runtime d \<noteq> None then metrics_recent (env_now e) lk else None),
            rst_rack_tuning = (rack_tuning (d_config d), read_rack_tuning w),
            rst_rack_rto = (rack_rto (d_config d), (if policy_loaded d then rto_stats (lk_rto lk) else None),
              Some (rack_rto_defaults d)),
            rst_retransmit_dscp = (retransmit_dscp (d_config d),
              (if tc_loaded d then retransmit_dscp_stats (lk_dscp lk) else None), Some (retransmit_dscp_defaults d)),
            rst_redundancy = (redundancy (d_config d),
              (case d_tc d of Some t \<Rightarrow> tr_redundancy_active t | None \<Rightarrow> False),
              (if tc_loaded d then redundancy_stats (lk_redundancy lk) else None)),
            rst_module_tuning = from_config (d_config d),
            rst_capabilities = (d_capabilities d)\<lparr>cap_notes := status_notes d\<rparr>,
            rst_guard = g,
            rst_uptime_s = (env_now e - d_started d) div 1000000000,
            rst_attached_s = map_option (\<lambda>t. (env_now e - t) div 1000000000) (attached_at d),
            rst_draining = (draining d \<and> d_runtime d \<noteq> None),
            rst_cgroup_path = Some (rt_cgroup_path (runtime_table (d_config d)))\<rparr>,
           w\<lparr>dw_sys := s\<rparr>))"

record response =
  resp_ok :: bool
  resp_message :: string
  resp_status :: "runtime_status option"
  resp_wants_flows :: bool

definition handle :: "'q env \<Rightarrow> lookups \<Rightarrow> request \<Rightarrow> daemon \<Rightarrow> 'q dworld \<Rightarrow> (response \<times> daemon \<times> 'q dworld) option" where
  "handle e lk rq d w =
     map_option (\<lambda>(r, d', w').
         case daemon_status e lk d' w' of
           (st, w'') \<Rightarrow>
             (\<lparr>resp_ok = (case r of Inr _ \<Rightarrow> True | Inl _ \<Rightarrow> False),
               resp_message = (case r of Inr m \<Rightarrow> m | Inl x \<Rightarrow> alternate_of x),
               resp_status = Some st, resp_wants_flows = (rq = Flows)\<rparr>, d', w''))
       (handle_state e rq d w)"

end
