(* ===== verification/Server.thy ===== *)
theory Server
  imports Daemon ConfigKeys
begin

text \<open>
  The process around the daemon: \<open>run\<close>, \<open>serve\<close> with its accept loop, reading one request from a
  client and answering it, the socket path and the snapshot file. The file system is a map from
  paths to nodes; every call may fail. What clients, the guard's thread and other programs do is
  a list of events. The JSON decoder is a parameter.
\<close>

unbundle bit_operations_syntax

section \<open>Nodes of the file system\<close>

text \<open>A socket somebody listens on or not, a FIFO with a reader or without.\<close>

datatype node = Regular string | Directory | Socket bool | Device | Fifo bool | Symlink string

type_synonym nodes = "string \<Rightarrow> node option"

text \<open>Following symbolic links, forty at most as the kernel does.\<close>

fun follow_links :: "nat \<Rightarrow> nodes \<Rightarrow> string \<Rightarrow> node option" where
  "follow_links n fs p =
     (case fs p of
        Some (Symlink q) \<Rightarrow> (case n of 0 \<Rightarrow> None | Suc m \<Rightarrow> follow_links m fs q)
      | x \<Rightarrow> x)"

declare follow_links.simps [simp del]

definition path_present :: "nodes \<Rightarrow> string \<Rightarrow> bool" where
  "path_present fs p = (follow_links 40 fs p \<noteq> None)"

section \<open>The socket path\<close>

text \<open>Failures other than the ones the nodes themselves give.\<close>

record socket_io =
  so_lstat :: "io_kind option"
  so_connect :: "io_kind option"
  so_remove :: "io_kind option"

definition connect_to :: "io_kind option \<Rightarrow> bool \<Rightarrow> (io_kind, unit) result" where
  "connect_to failure listening =
     (case failure of Some k \<Rightarrow> Inl k | None \<Rightarrow> if listening then Inr () else Inl ConnectionRefused)"

definition prepare_socket_path :: "socket_io \<Rightarrow> string \<Rightarrow> nodes \<Rightarrow> (anyhow, unit) result \<times> nodes" where
  "prepare_socket_path io path fs =
     (if \<not> path_present fs path then (Inr (), fs)
      else
        (case so_lstat io of
           Some k \<Rightarrow> (Inl (io_error k ''lstat''), fs)
         | None \<Rightarrow>
             (case fs path of
                Some (Socket listening) \<Rightarrow>
                  (case connect_to (so_connect io) listening of
                     Inr _ \<Rightarrow> (Inl (anyhow_msg (''socket '' @ path @ '' is owned by a running daemon'')), fs)
                   | Inl k \<Rightarrow>
                       if k = ConnectionRefused \<or> k = NotFound then
                         (case so_remove io of
                            None \<Rightarrow> (Inr (), fs(path := None))
                          | Some k2 \<Rightarrow> (with_context (''remove stale socket '' @ path) (Inl (io_error k2 ''unlink'')), fs))
                       else (with_context (''inspect existing socket '' @ path) (Inl (io_error k ''connect'')), fs))
              | _ \<Rightarrow> (Inl (anyhow_msg (''socket path '' @ path @ '' is not a Unix socket'')), fs))))"

section \<open>The snapshot file\<close>

record snapshot_io =
  sn_open :: "io_kind option"
  sn_stat :: "io_kind option"
  sn_set_len :: "io_kind option"
  sn_write_cut :: "nat option"

text \<open>
  Opening for writing with O_CREAT, O_NOFOLLOW and O_NONBLOCK: a symbolic link, a directory, a
  socket and a FIFO nobody reads fail to open; a device opens.
\<close>

definition open_snapshot :: "snapshot_io \<Rightarrow> string \<Rightarrow> nodes \<Rightarrow> (anyhow, node) result \<times> nodes" where
  "open_snapshot io path fs =
     (case sn_open io of
        Some k \<Rightarrow> (Inl (io_error k ''open''), fs)
      | None \<Rightarrow>
          (case fs path of
             None \<Rightarrow> (Inr (Regular []), fs(path \<mapsto> Regular []))
           | Some (Symlink _) \<Rightarrow> (Inl (io_error OtherKind ''Too many levels of symbolic links''), fs)
           | Some Directory \<Rightarrow> (Inl (io_error OtherKind ''Is a directory''), fs)
           | Some (Socket _) \<Rightarrow> (Inl (io_error OtherKind ''No such device or address''), fs)
           | Some (Fifo False) \<Rightarrow> (Inl (io_error OtherKind ''No such device or address''), fs)
           | Some n \<Rightarrow> (Inr n, fs)))"

definition write_snapshot :: "snapshot_io \<Rightarrow> string \<Rightarrow> string \<Rightarrow> nodes \<Rightarrow> (anyhow, unit) result \<times> nodes" where
  "write_snapshot io path payload fs =
     (case open_snapshot io path fs of
        (Inl x, fs1) \<Rightarrow> (Inl x, fs1)
      | (Inr n, fs1) \<Rightarrow>
          (case sn_stat io of
             Some k \<Rightarrow> (Inl (io_error k ''fstat''), fs1)
           | None \<Rightarrow>
               (case n of
                  Regular _ \<Rightarrow>
                    (case sn_set_len io of
                       Some k \<Rightarrow> (Inl (io_error k ''ftruncate''), fs1)
                     | None \<Rightarrow>
                         (case sn_write_cut io of
                            Some m \<Rightarrow> (Inl (io_error OtherKind ''write''), fs1(path \<mapsto> Regular (take m payload)))
                          | None \<Rightarrow> (Inr (), fs1(path \<mapsto> Regular payload))))
                | _ \<Rightarrow> (Inl (anyhow_msg ''not a regular file''), fs1))))"

section \<open>One client\<close>

definition MAX_REQUEST_BYTES :: nat where "MAX_REQUEST_BYTES = 64 * 1024"

text \<open>
  A client: the bytes it sends before it closes its side or falls silent past the timeout, and
  whether setting the two timeouts works.
\<close>

record client =
  cl_sent :: string
  cl_closed :: bool
  cl_read_timeout :: "(anyhow, unit) result"
  cl_write_timeout :: "(anyhow, unit) result"

text \<open>The bytes up to and with the first newline, or all of them.\<close>

fun first_line :: "string \<Rightarrow> string" where
  "first_line [] = []"
| "first_line (c # s) = (if c = newline then [c] else c # first_line s)"

definition read_request :: "client \<Rightarrow> (anyhow, string) result" where
  "read_request cl =
     res_bind (cl_read_timeout cl) (\<lambda>_.
       (let got = take MAX_REQUEST_BYTES (cl_sent cl)
        in with_context ''read request''
             (if newline \<notin> set got \<and> length got < MAX_REQUEST_BYTES \<and> \<not> cl_closed cl
              then Inl (io_error OtherKind ''Resource temporarily unavailable'')
              else if from_utf8 (first_line got) then Inr (first_line got)
              else Inl (io_error OtherKind ''stream did not contain valid UTF-8''))))"

text \<open>
  \<open>handle_stream\<close>: the reply, and whether it was a shutdown. Writing the reply may fail, which
  changes nothing. \<open>None\<close> is a drain that waits for ever.
\<close>

definition decode_error :: "string \<Rightarrow> response" where
  "decode_error m =
     \<lparr>resp_ok = False, resp_message = ''decode request: '' @ m, resp_status = None, resp_wants_flows = False\<rparr>"

definition handle_stream ::
  "(string \<Rightarrow> (string, request) result) \<Rightarrow> 'q env \<Rightarrow> lookups \<Rightarrow> client \<Rightarrow> daemon \<Rightarrow> 'q dworld
   \<Rightarrow> ((anyhow, bool \<times> response) result \<times> daemon \<times> 'q dworld) option" where
  "handle_stream decode e lk cl d w =
     (case res_bind (read_request cl) (\<lambda>line. res_bind (cl_write_timeout cl) (\<lambda>_. Inr line)) of
        Inl x \<Rightarrow> Some (Inl x, d, w)
      | Inr line \<Rightarrow>
          (case decode (trim line) of
             Inl m \<Rightarrow> Some (Inr (False, decode_error m), d, w)
           | Inr rq \<Rightarrow>
               map_option (\<lambda>(resp, d', w'). (Inr (rq = Shutdown, resp), d', w')) (handle e lk rq d w)))"

section \<open>The accept loop\<close>

text \<open>
  What happens while the daemon serves: a connection (with what the kernel answers meanwhile) or
  a failed accept, a tick of the guard's thread, another program changing the host. The finer
  interleaving of a tick with a running request is \<open>GuardLock\<close>'s.
\<close>

datatype 'q serve_event =
    AcceptFails
  | Connects "'q env" lookups client
  | Ticks "'q kernel" nat "u64 option"
  | OtherProgram "'q sys_world"

definition guard_tick :: "'q kernel \<Rightarrow> nat \<Rightarrow> u64 option \<Rightarrow> daemon \<Rightarrow> 'q dworld \<Rightarrow> daemon \<times> 'q dworld" where
  "guard_tick K now un d w =
     (case periodic_pass (d_guard_settings d) (system_host K) now un (dw_sys w) (d_guard d) of
        (s, g, _) \<Rightarrow> (d\<lparr>d_guard := g\<rparr>, w\<lparr>dw_sys := s\<rparr>))"

fun serve_loop ::
  "(string \<Rightarrow> (string, request) result) \<Rightarrow> 'q serve_event list \<Rightarrow> daemon \<Rightarrow> 'q dworld
   \<Rightarrow> (bool \<times> daemon \<times> 'q dworld) option" where
  "serve_loop decode [] d w = Some (False, d, w)"
| "serve_loop decode (AcceptFails # evs) d w = serve_loop decode evs d w"
| "serve_loop decode (Connects e lk cl # evs) d w =
     (case handle_stream decode e lk cl d w of
        None \<Rightarrow> None
      | Some (r, d', w') \<Rightarrow>
          if (\<exists>resp. r = Inr (True, resp)) then Some (True, d', w') else serve_loop decode evs d' w')"
| "serve_loop decode (Ticks K now un # evs) d w =
     (case guard_tick K now un d w of (d', w') \<Rightarrow> serve_loop decode evs d' w')"
| "serve_loop decode (OtherProgram s # evs) d w = serve_loop decode evs d (w\<lparr>dw_sys := s\<rparr>)"

section \<open>Start and stop\<close>

record start_io =
  st_socket :: socket_io
  st_mkdir :: "(anyhow, unit) result"
  st_bind :: "(anyhow, unit) result"
  st_chmod :: "(anyhow, unit) result"
  st_persist :: "(anyhow, unit) result"
  st_guard :: "(anyhow, unit) result"
  st_watcher :: "(anyhow, unit) result"

definition bind_socket :: "start_io \<Rightarrow> string \<Rightarrow> nodes \<Rightarrow> (anyhow, unit) result \<times> nodes" where
  "bind_socket io path fs =
     (if fs path \<noteq> None then (Inl (io_error OtherKind ''Address already in use''), fs)
      else (case st_bind io of
              Inl x \<Rightarrow> (Inl x, fs)
            | Inr _ \<Rightarrow> (Inr (), fs(path \<mapsto> Socket True))))"

text \<open>
  The mode of the socket file around \<open>bind\<close>: the process's mask and the file's permission bits after
  each of the four calls, in order. A socket file is created with every permission bit the mask does
  not take away; a \<open>bind\<close> or a \<open>set_permissions\<close> that fails changes nothing.
\<close>

definition bind_modes :: "start_io \<Rightarrow> u32 \<Rightarrow> (u32 \<times> u32 option) list" where
  "bind_modes io mask0 =
     (let mask = 127;
          created = (case st_bind io of Inl _ \<Rightarrow> None | Inr _ \<Rightarrow> Some (511 AND NOT mask));
          restricted = (case created of
                          None \<Rightarrow> None
                        | Some m \<Rightarrow> (case st_chmod io of Inl _ \<Rightarrow> Some m | Inr _ \<Rightarrow> Some 384))
      in [(mask, None), (mask, created), (mask0, created), (mask0, restricted)])"

text \<open>
  Whatever mask the daemon was started with and whichever call fails, the socket is at no moment open to
  anybody but its owner, and the process has its mask back.
\<close>

lemma socket_owner_only:
  "(\<forall>(mask, mode) \<in> set (bind_modes io mask0). mode = None \<or> mode = Some 384) \<and> fst (last (bind_modes io mask0)) = mask0"
  by (simp add: bind_modes_def Let_def split: sum.split)

text \<open>\<open>serve\<close> up to its accept loop.\<close>

definition serve_start ::
  "start_io \<Rightarrow> 'q env \<Rightarrow> daemon \<Rightarrow> 'q dworld \<Rightarrow> nodes \<Rightarrow> (anyhow, daemon) result \<times> 'q dworld \<times> nodes" where
  "serve_start io e d w fs =
     (let path = rt_socket_path (runtime_table (d_config d))
      in case prepare_socket_path (st_socket io) path fs of
           (Inl x, fs1) \<Rightarrow> (Inl x, w, fs1)
         | (Inr _, fs1) \<Rightarrow>
             (case apply_rack_tuning e (rack_tuning (d_config d)) w of
                (Inl x, w1) \<Rightarrow> (Inl x, w1, fs1)
              | (Inr _, w1) \<Rightarrow>
                  (let d1 = start_tc e (start_policy e d)
                   in case st_mkdir io of
                        Inl x \<Rightarrow> (Inl x, w1, fs1)
                      | Inr _ \<Rightarrow>
                          (case bind_socket io path fs1 of
                             (Inl x, fs2) \<Rightarrow> (with_context (''bind Unix socket '' @ path) (Inl x), w1, fs2)
                           | (Inr _, fs2) \<Rightarrow>
                               (res_bind (with_context (''restrict Unix socket '' @ path) (st_chmod io)) (\<lambda>_.
                                res_bind (st_persist io) (\<lambda>_.
                                res_bind (st_guard io) (\<lambda>_.
                                res_bind (st_watcher io) (\<lambda>_. Inr d1)))), w1, fs2)))))"

text \<open>
  \<open>Drop for Daemon\<close>: the guard's thread has ended, then the struct_ops runtime is dropped. No
  sysctl is written.
\<close>

definition drop_daemon :: "'q env \<Rightarrow> daemon \<Rightarrow> 'q dworld \<Rightarrow> 'q dworld" where
  "drop_daemon e d w = (if d_runtime d \<noteq> None then drop_bpf_runtime e w else w)"

definition serve ::
  "(string \<Rightarrow> (string, request) result) \<Rightarrow> start_io \<Rightarrow> 'q env \<Rightarrow> 'q serve_event list \<Rightarrow> 'q env
   \<Rightarrow> daemon \<Rightarrow> 'q dworld \<Rightarrow> nodes \<Rightarrow> ((anyhow, unit) result \<times> 'q dworld \<times> nodes) option" where
  "serve decode io e evs e_stop d w fs =
     (case serve_start io e d w fs of
        (Inl x, w1, fs1) \<Rightarrow> Some (Inl x, w1, fs1)
      | (Inr d1, w1, fs1) \<Rightarrow>
          (case serve_loop decode evs d1 w1 of
             Some (True, d2, w2) \<Rightarrow>
               Some (Inr (), drop_daemon e_stop d2 w2, fs1(rt_socket_path (runtime_table (d_config d)) := None))
           | _ \<Rightarrow> None))"

text \<open>\<open>run\<close>: load the configuration, probe, and check only or serve.\<close>

record arguments =
  arg_config :: string
  arg_validate_only :: bool
  arg_verify_bpf :: bool

definition object_path :: "skyline_config \<Rightarrow> string \<Rightarrow> string" where
  "object_path c name = path_join (rt_bpf_dir (runtime_table c)) (name @ ''.bpf.o'')"

definition verify_bpf_objects ::
  "(string \<Rightarrow> (anyhow, unit) result) \<Rightarrow> (string \<Rightarrow> (anyhow, unit) result) \<Rightarrow> skyline_config \<Rightarrow> (anyhow, unit) result" where
  "verify_bpf_objects load_cc load_ob c =
     res_bind (with_context ''verify skyline_cc'' (load_cc (object_path c ''skyline_cc''))) (\<lambda>_.
     res_bind (with_context ''verify skyline_policy'' (load_ob (object_path c ''skyline_policy''))) (\<lambda>_.
     with_context ''verify skyline_tc'' (load_ob (object_path c ''skyline_tc''))))"

text \<open>
  The daemon \<open>run\<close> starts with. \<open>ph\<close> is what the capability probe sees of the running kernel and \<open>log_opened\<close>
  how opening the event log went.
\<close>

definition load_daemon ::
  "(string \<Rightarrow> (string, string) result) \<Rightarrow> (string \<Rightarrow> (string, toml_table) result)
   \<Rightarrow> (toml_table \<Rightarrow> (string, skyline_config) result) \<Rightarrow> (skyline_config \<Rightarrow> toml_table option)
   \<Rightarrow> (f64 \<Rightarrow> string) \<Rightarrow> probe_host \<Rightarrow> (anyhow, unit) result \<Rightarrow> nat \<Rightarrow> arguments \<Rightarrow> (anyhow, daemon) result" where
  "load_daemon read_to_string parse decode_toml encode fmt ph log_opened now a =
     (case config_load read_to_string parse decode_toml encode (arg_config a) of
        Inl x \<Rightarrow> Inl (anyhow_msg (config_error_text fmt x))
      | Inr c \<Rightarrow> daemon_new (probe_capabilities ph c) log_opened now c)"

definition run_check ::
  "(string \<Rightarrow> (anyhow, unit) result) \<Rightarrow> (string \<Rightarrow> (anyhow, unit) result) \<Rightarrow> arguments \<Rightarrow> daemon \<Rightarrow> (anyhow, unit) result" where
  "run_check load_cc load_ob a d =
     res_bind (validate_capabilities (d_capabilities d)) (\<lambda>_.
       if arg_verify_bpf a then verify_bpf_objects load_cc load_ob (d_config d) else Inr ())"

end
