(* ===== verification/GuardProps.thy ===== *)
theory GuardProps
  imports Host
begin

text \<open>
  What the guard guarantees: which devices it manages, what one pass leaves behind, when it touches
  a qdisc at all, how long a failed replace waits and which lines reach the journal. The lemmas on
  the effects of a pass are proved for any host that keeps the laws of \<open>guard_host\<close> and used on
  \<open>SystemHost\<close>.
\<close>

section \<open>What does not change the host\<close>

definition same_host :: "'w host \<Rightarrow> 'w \<Rightarrow> 'w \<Rightarrow> bool" where
  "same_host h w w' =
     (congestion_control h w' = congestion_control h w \<and> default_qdisc h w' = default_qdisc h w
      \<and> (\<forall>d. has_device_link h d w' = has_device_link h d w \<and> lower_devices h d w' = lower_devices h d w))"

lemma same_host_refl [simp]: "same_host h w w"
  by (simp add: same_host_def)

lemma same_host_trans [trans]: "same_host h w1 w2 \<Longrightarrow> same_host h w2 w3 \<Longrightarrow> same_host h w1 w3"
  by (simp add: same_host_def)

context guard_host
begin

lemma tc_same: "tc h args w = (s, w') \<Longrightarrow> same_host h w w'"
  using tc_keeps by (auto simp: same_host_def)

lemma read_root_same: "read_root h i w = (r, w') \<Longrightarrow> same_host h w w'"
  by (auto simp: read_root_def dest: tc_same split: prod.splits sum.splits)

lemma read_root_text_same: "read_root_text h i w = (r, w') \<Longrightarrow> same_host h w w'"
  by (auto simp: read_root_text_def dest: read_root_same split: prod.splits sum.splits)

lemma run_commands_same: "run_commands h label current rnd cs w = (r, w') \<Longrightarrow> same_host h w w'"
proof (induction cs arbitrary: w)
  case (Cons c cs)
  obtain res w1 where t: "tc h c w = (res, w1)" by fastforce
  then have "same_host h w w1" by (rule tc_same)
  then show ?case
    using Cons t by (cases res) (auto intro: same_host_trans)
qed simp

lemma replace_rounds_same:
  "replace_rounds h name label txq rnds current w = (r, w') \<Longrightarrow> same_host h w w'"
proof (induction rnds arbitrary: current w)
  case (Cons rnd rnds)
  show ?case
  proof (cases "root_verdict current = VReplace \<and>
      (\<exists>cmds. replace_plan current name txq (default_qdisc h w = Inr FQ) rnd = Run cmds)")
    case False
    with Cons.prems show ?thesis by (auto split: if_splits plan.splits)
  next
    case True
    then obtain cmds where p: "root_verdict current = VReplace"
      "replace_plan current name txq (default_qdisc h w = Inr FQ) rnd = Run cmds" by blast
    obtain res w1 where c: "run_commands h label current rnd cmds w = (res, w1)" by fastforce
    obtain res2 w2 where d: "read_root h name w1 = (res2, w2)" by fastforce
    have s: "same_host h w w1" "same_host h w1 w2"
      using run_commands_same [OF c] read_root_same [OF d] by auto
    show ?thesis
      using Cons p c d s
      by (cases res; cases res2)
         (auto intro: same_host_trans split: option.splits dest: Cons.IH)
  qed
qed simp

lemma replace_root_same:
  assumes "replace_root h name label before w = (r, w')"
  shows "same_host h w w'"
proof -
  obtain res w1 where c: "replace_rounds h name label (tx_queues h name w) [First, Fallback] before w = (res, w1)"
    by fastforce
  then have "same_host h w w1" by (rule replace_rounds_same)
  then show ?thesis
    using assms c by (cases res) (auto simp: replace_root_def simp del: replace_rounds.simps split: if_splits)
qed

end

section \<open>The managed devices\<close>

text \<open>
  How following the lower links extends the visited set and the targets: only new names, each
  once, each with a device link; \<open>D\<close> are the names allowed although already visited.
\<close>

definition follow_ok ::
  "'w host \<Rightarrow> string set \<Rightarrow> string set \<times> target list \<times> 'w \<Rightarrow> string set \<times> target list \<times> 'w \<Rightarrow> bool" where
  "follow_ok h D s s' =
     (case s of (v, ts, w) \<Rightarrow> case s' of (v', ts', w') \<Rightarrow>
        same_host h w w' \<and> v \<subseteq> v'
        \<and> (\<exists>new. ts' = ts @ new \<and> distinct (map t_name new) \<and> t_name ` set new \<subseteq> D \<union> (v' - v)
             \<and> (\<forall>t \<in> set new. has_device_link h (t_name t) w)))"

lemma follow_ok_refl: "follow_ok h D s s"
  by (cases s) (auto simp: follow_ok_def)

lemma follow_ok_mono: "follow_ok h {} s s' \<Longrightarrow> follow_ok h D s s'"
  unfolding follow_ok_def case_prod_unfold by (metis Un_empty_left sup.coboundedI2)

lemma follow_ok_trans:
  assumes "follow_ok h D s s1" "follow_ok h {} s1 s2" "D \<subseteq> fst s"
  shows "follow_ok h D s s2"
proof -
  obtain v ts w v1 ts1 w1 v2 ts2 w2 where s: "s = (v, ts, w)" "s1 = (v1, ts1, w1)" "s2 = (v2, ts2, w2)"
    by (metis prod_cases3)
  obtain n1 n2 where n: "ts1 = ts @ n1" "ts2 = ts1 @ n2" "distinct (map t_name n1)" "distinct (map t_name n2)"
    "t_name ` set n1 \<subseteq> D \<union> (v1 - v)" "t_name ` set n2 \<subseteq> v2 - v1"
    "\<forall>t \<in> set n1. has_device_link h (t_name t) w" "\<forall>t \<in> set n2. has_device_link h (t_name t) w1"
    using assms(1,2) by (auto simp: follow_ok_def s)
  have sub: "v \<subseteq> v1" "v1 \<subseteq> v2" "same_host h w w1" "same_host h w1 w2"
    using assms(1,2) by (auto simp: follow_ok_def s)
  have D: "D \<subseteq> v" using assms(3) by (simp add: s)
  have in1: "t_name ` set n1 \<subseteq> v1" using n(5) D sub(1) by blast
  then have "t_name ` set n1 \<inter> t_name ` set n2 = {}" using n(6) by blast
  then have "distinct (map t_name (n1 @ n2))" using n(3,4) by simp
  moreover have "t_name ` set (n1 @ n2) \<subseteq> D \<union> (v2 - v)"
    unfolding set_append image_Un using n(5,6) sub(1,2) by blast
  moreover have "\<forall>t \<in> set (n1 @ n2). has_device_link h (t_name t) w"
    using n sub(3) by (auto simp: same_host_def)
  moreover have "ts2 = ts @ (n1 @ n2)" using n by simp
  moreover have "same_host h w w2" using sub(3,4) by (rule same_host_trans)
  ultimately show ?thesis
    using sub unfolding follow_ok_def s by blast
qed

lemma follow_ok_insert:
  assumes "follow_ok h {lower} (insert lower v, ts, w) s'" "lower \<notin> v"
  shows "follow_ok h {} (v, ts, w) s'"
  using assms by (cases s') (auto simp: follow_ok_def)

definition reads_keep :: "'w host \<Rightarrow> bool" where
  "reads_keep h = (\<forall>i w r w'. read_root_text h i w = (r, w') \<longrightarrow> same_host h w w')"

text \<open>One lower device seen for the first time, when following a noqueue device is in order.\<close>

lemma follow_lower_first:
  assumes "reads_keep h" and "lower \<notin> visited"
    and nq: "\<And>uppers r s. follow_ok h {lower} s (follow_noqueue h n lower uppers r s)"
  obtains s2 where "follow_ok h {lower} (insert lower visited, targets, w) s2"
    "follow_lowers h n (lower # rest) below (visited, targets, w) = follow_lowers h n rest below s2"
proof -
  let ?s = "(insert lower visited, targets, w)"
  obtain r w1 where r: "read_root_text h lower w = (r, w1)" by fastforce
  with assms(1) have same: "same_host h w w1" by (auto simp: reads_keep_def)
  let ?nq = "follow_noqueue h n lower below r (insert lower visited, targets, w1)"
  let ?nic = "(insert lower visited, targets @ [\<lparr>t_name = lower, t_label = label_of lower below, t_root = r\<rparr>], w1)"
  have "follow_ok h {lower} (insert lower visited, targets, w1) ?nq" by (rule nq)
  then have "follow_ok h {lower} ?s ?nq" using same by (cases ?nq) (auto simp: follow_ok_def same_host_def)
  moreover have "has_device_link h lower w \<Longrightarrow> follow_ok h {lower} ?s ?nic" using same by (auto simp: follow_ok_def)
  moreover have "follow_ok h {lower} ?s (insert lower visited, targets, w1)" using same by (auto simp: follow_ok_def)
  ultimately show thesis
    using that follow_ok_refl [of h "{lower}" ?s] assms(2) r
    by (cases "\<not> has_device_link h lower w \<and> lower_devices h lower w = []"; cases "is_noqueue r"; cases "has_device_link h lower w")
      (simp_all add: follow_lowers.simps Let_def)
qed

lemma follow_lowers_ok:
  assumes "reads_keep h" and nq: "\<And>device uppers r s. follow_ok h {device} s (follow_noqueue h n device uppers r s)"
  shows "follow_ok h {} s (follow_lowers h n lowers below s)"
proof (induction lowers arbitrary: s)
  case (Cons lower rest)
  obtain visited targets w where s: "s = (visited, targets, w)" by (cases s)
  show ?case
  proof (cases "lower \<in> visited")
    case True
    then show ?thesis using Cons.IH by (simp add: s follow_lowers.simps)
  next
    case False
    obtain s2 where a: "follow_ok h {lower} (insert lower visited, targets, w) s2"
      and eq: "follow_lowers h n (lower # rest) below s = follow_lowers h n rest below s2"
      using follow_lower_first [OF assms(1) False nq] s by metis
    have "follow_ok h {lower} (insert lower visited, targets, w) (follow_lowers h n rest below s2)"
      using follow_ok_trans [OF a Cons.IH] by simp
    from follow_ok_insert [OF this False] show ?thesis by (simp add: eq) (simp add: s)
  qed
qed (simp add: follow_ok_refl follow_lowers.simps)

lemma follow_noqueue_ok:
  assumes "reads_keep h"
  shows "follow_ok h {device} s (follow_noqueue h n device uppers r s)"
proof (induction n arbitrary: device uppers r s)
  case 0
  then show ?case by (cases s) (auto simp: follow_ok_def follow_noqueue.simps Let_def)
next
  case (Suc n)
  obtain visited targets w where s: "s = (visited, targets, w)" by (cases s)
  have "follow_ok h {} s (follow_lowers h n (lower_devices h device w) (device # uppers) s)"
    by (rule follow_lowers_ok [OF assms Suc.IH])
  then have "follow_ok h {device} s (follow_lowers h n (lower_devices h device w) (device # uppers) s)" by (rule follow_ok_mono)
  then show ?case by (auto simp: s follow_noqueue.simps Let_def) (auto simp: follow_ok_def)
qed

context guard_host
begin

lemma reads_keep: "reads_keep h"
  using read_root_text_same by (auto simp: reads_keep_def)

lemma managed_devices_ok:
  assumes "managed_devices h i rt w = (m, w')"
  shows "same_host h w w' \<and> distinct (map t_name (m_targets m))
    \<and> (\<forall>t \<in> set (m_targets m). t_name t = i \<and> \<not> is_noqueue rt \<or> has_device_link h (t_name t) w)
    \<and> (nothing_under_noqueue m \<longleftrightarrow> m_targets m = [])"
proof (cases "is_noqueue rt")
  case False
  with assms show ?thesis by (auto simp: managed_devices_def)
next
  case True
  obtain v ts w1 where f: "follow_noqueue h MAX_LOWER_DEPTH i [] rt ({i}, [], w) = (v, ts, w1)"
    by (metis prod_cases3)
  have "follow_ok h {i} ({i}, [], w) (v, ts, w1)"
    using follow_noqueue_ok [OF reads_keep, of i "({i}, [], w)" MAX_LOWER_DEPTH "[]" rt] by (simp add: f)
  with assms True f show ?thesis
    by (auto simp: managed_devices_def follow_ok_def)
qed

end

text \<open>
  On the running host, the devices whose root qdisc a pass manages have distinct names, and
  each is either the configured interface itself (when it queues) or a NIC with a device behind
  it: a VM's tap or a container's veth under a bridge is never touched. Walking the lower links
  always ends, whatever loops they form.
\<close>

lemma managed_devices_are_nics:
  assumes "managed_devices (system_host K) i rt w = (m, w')"
  shows "distinct (map t_name (m_targets m))
    \<and> (\<forall>t \<in> set (m_targets m). t_name t = i \<and> \<not> is_noqueue rt
          \<or> path_exists w (path_join (path_join SYS_CLASS_NET (t_name t)) ''device''))
    \<and> (nothing_under_noqueue m \<longleftrightarrow> m_targets m = [])"
  using system.managed_devices_ok [OF assms] by (simp add: system_host_def)

text \<open>A bridge over a NIC and a tap, with a looping lower link.\<close>

definition bridge_world :: "unit sys_world" where
  "bridge_world =
     \<lparr>file_text = Map.empty,
      dir_entries = (\<lambda>p. if p = ''/sys/class/net/br0'' then Some [''lower_tap0'', ''lower_eth0'']
                         else if p = ''/sys/class/net/eth0'' then Some [''lower_br0'']
                         else if p = ''/sys/class/net/tap0'' then Some [] else None),
      path_exists = (\<lambda>p. p = ''/sys/class/net/eth0/device''),
      unreaped_tc = 0, net_state = ()\<rparr>"

definition quiet_kernel :: "unit kernel" where
  "quiet_kernel =
     \<lparr>takes_write = (\<lambda>_ _ _. True),
      tc_exec = (\<lambda>args q. (Exited True ''exit status: 0'' ''qdisc cake 8001: root bandwidth unlimited'' [], True, q))\<rparr>"

definition noqueue_root :: root_qdisc where
  "noqueue_root = \<lparr>q_kind = NOQUEUE, q_major = 0, q_shaping = None, q_children = [], q_majors = {0}\<rparr>"

section \<open>Effects of a pass\<close>

text \<open>A pass only ever adds to its report.\<close>

definition report_grows :: "pass_report \<Rightarrow> pass_report \<Rightarrow> bool" where
  "report_grows r r' =
     (prefix (corrections r) (corrections r') \<and> prefix (p_notes r) (p_notes r')
      \<and> prefix (p_errors r) (p_errors r') \<and> logged r' = logged r)"

lemma report_grows_refl [simp]: "report_grows r r"
  by (simp add: report_grows_def)

lemma report_grows_trans [trans]: "report_grows r1 r2 \<Longrightarrow> report_grows r2 r3 \<Longrightarrow> report_grows r1 r3"
  by (auto simp: report_grows_def intro: prefix_order.trans)

lemma report_grows_no_errors: "report_grows r r' \<Longrightarrow> p_errors r' = [] \<Longrightarrow> p_errors r = []"
  by (auto simp: report_grows_def)

lemma report_grows_cc:
  "enforce_congestion_control h (w, st, r) = (w', st', r') \<Longrightarrow> report_grows r r'"
  by (auto simp: enforce_congestion_control_def report_grows_def split: sum.splits if_splits prod.splits)

lemma report_grows_dq:
  "enforce_default_qdisc h (w, st, r) = (w', st', r') \<Longrightarrow> report_grows r r'"
  by (auto simp: enforce_default_qdisc_def report_grows_def split: sum.splits if_splits prod.splits)

lemma report_grows_device:
  "enforce_device h pc t (w, st, r) = (w', st', r') \<Longrightarrow> report_grows r r'"
  by (auto simp: enforce_device_def report_grows_def Let_def
      split: sum.splits if_splits prod.splits option.splits verdict.splits)

lemma report_grows_devices:
  "fold (enforce_device h pc) ts (w, st, r) = (w', st', r') \<Longrightarrow> report_grows r r'"
proof (induction ts arbitrary: w st r)
  case (Cons t ts)
  obtain w1 st1 r1 where d: "enforce_device h pc t (w, st, r) = (w1, st1, r1)" by (metis prod_cases3)
  with Cons show ?case by (auto intro: report_grows_trans report_grows_device)
qed simp

lemma report_grows_interface:
  "enforce_interface_qdiscs i h pc (w, st, r) = (w', st', r') \<Longrightarrow> report_grows r r'"
  unfolding enforce_interface_qdiscs_def Let_def
  by (auto simp: report_grows_def split: if_splits prod.splits dest!: report_grows_devices
      intro: prefix_order.trans prefixI)

lemma report_grows_qdiscs:
  assumes "enforce_qdiscs s h trig now (w, st, r) = (w', st', r')"
  shows "report_grows r r'"
proof (cases "s_qdisc s")
  case True
  obtain w1 st1 r1 where c: "enforce_default_qdisc h (w, st, r) = (w1, st1, r1)" by (metis prod_cases3)
  have "report_grows r1 r'"
    using assms True c report_grows_interface by (auto simp: enforce_qdiscs_def Let_def split: option.splits)
  with report_grows_dq [OF c] show ?thesis by (rule report_grows_trans)
qed (use assms in \<open>simp add: enforce_qdiscs_def\<close>)

lemma trim_cc: "trim SKYLINE_CC_NAME = SKYLINE_CC_NAME" and trim_fq: "trim FQ = FQ"
  by (simp_all add: trim_def SKYLINE_CC_NAME_def FQ_def is_whitespace_def)

context guard_host
begin

lemma cc_enforced:
  assumes "enforce_congestion_control h (w, st, r) = (w', st', r')"
  shows "default_qdisc h w' = default_qdisc h w"
    and "p_errors r' = p_errors r \<Longrightarrow> congestion_control h w' = Inr SKYLINE_CC_NAME"
  using assms cc_keeps cc_set [OF _ trim_cc]
  by (auto simp: enforce_congestion_control_def split: sum.splits if_splits prod.splits)

lemma dq_enforced:
  assumes "enforce_default_qdisc h (w, st, r) = (w', st', r')"
  shows "congestion_control h w' = congestion_control h w"
    and "p_errors r' = p_errors r \<Longrightarrow> default_qdisc h w' = Inr FQ"
  using assms dq_keeps dq_set [OF _ trim_fq]
  by (auto simp: enforce_default_qdisc_def split: sum.splits if_splits prod.splits)

lemma device_same: "enforce_device h pc t (w, st, r) = (w', st', r') \<Longrightarrow> same_host h w w'"
  by (auto simp: enforce_device_def Let_def dest: replace_root_same
      split: sum.splits if_splits prod.splits option.splits verdict.splits)

lemma devices_same: "fold (enforce_device h pc) ts (w, st, r) = (w', st', r') \<Longrightarrow> same_host h w w'"
proof (induction ts arbitrary: w st r)
  case (Cons t ts)
  obtain w1 st1 r1 where d: "enforce_device h pc t (w, st, r) = (w1, st1, r1)" by (metis prod_cases3)
  with Cons show ?case by (auto intro: same_host_trans device_same)
qed simp

lemma interface_same:
  assumes "enforce_interface_qdiscs i h pc (w, st, r) = (w', st', r')"
  shows "same_host h w w'"
proof (cases "interface_exists h i w")
  case False
  with assms show ?thesis by (auto simp: enforce_interface_qdiscs_def)
next
  case True
  obtain rt w1 where a: "read_root_text h i w = (rt, w1)" by fastforce
  obtain m w2 where b: "managed_devices h i rt w1 = (m, w2)" by fastforce
  have "same_host h w w2"
    using read_root_text_same [OF a] managed_devices_ok [OF b] by (auto intro: same_host_trans)
  with assms True a b show ?thesis
    by (auto simp: enforce_interface_qdiscs_def Let_def intro: same_host_trans dest: devices_same
        split: if_splits)
qed

lemma enforce_restores:
  assumes e: "enforce s h trig now un w st = (w', st', r)" and ok: "p_errors r = []"
  shows "congestion_control h w' = Inr SKYLINE_CC_NAME \<and> (s_qdisc s \<longrightarrow> default_qdisc h w' = Inr FQ)"
proof -
  obtain w1 st1 r1 where a: "enforce_congestion_control h (w, st, pass_report_default) = (w1, st1, r1)"
    by (metis prod_cases3)
  obtain w2 st2 r2 where b: "enforce_qdiscs s h trig now (w1, st1, r1) = (w2, st2, r2)"
    by (metis prod_cases3)
  from e a b have w': "w' = w2" and r: "p_errors r2 = []"
    using ok by (auto simp: enforce_def pass_end_def Let_def)
  have g: "report_grows r1 r2"
    using b by (rule report_grows_qdiscs)
  then have r1: "p_errors r1 = []" using r by (rule report_grows_no_errors)
  then have cc: "congestion_control h w1 = Inr SKYLINE_CC_NAME"
    using cc_enforced(2) [OF a] by (simp add: pass_report_default_def)
  show ?thesis
  proof (cases "s_qdisc s")
    case False
    with b cc w' show ?thesis by (auto simp: enforce_qdiscs_def)
  next
    case True
    obtain w3 st3 r3 where c: "enforce_default_qdisc h (w1, st1, r1) = (w3, st3, r3)" by (metis prod_cases3)
    have same: "same_host h w3 w2" and g3: "report_grows r3 r2"
      using b c True interface_same report_grows_interface
      by (auto simp: enforce_qdiscs_def Let_def split: option.splits)
    have "p_errors r3 = []" using g3 r by (rule report_grows_no_errors)
    with dq_enforced [OF c] r1 have "default_qdisc h w3 = Inr FQ" "congestion_control h w3 = congestion_control h w1"
      by simp_all
    with same cc w' show ?thesis by (simp add: same_host_def)
  qed
qed

end

text \<open>
  C21. After a pass that reports no error on the running host, new connections get skyline_cc, and
  with the qdisc half of the guard on the default qdisc is fq, whatever the two sysctls said
  before: a pass never leaves a drifted sysctl behind silently.
\<close>

theorem pass_restores_sysctls:
  assumes "enforce s (system_host K) trig now un w st = (w', st', r)" and "p_errors r = []"
  shows "read_sysctl CONGESTION_CONTROL_SYSCTL w' = Inr SKYLINE_CC_NAME
    \<and> (s_qdisc s \<longrightarrow> read_sysctl DEFAULT_QDISC_SYSCTL w' = Inr FQ)"
  using system.enforce_restores [OF assms] by (simp add: system_host_def)

definition drifted_world :: "unit sys_world" where
  "drifted_world =
     \<lparr>file_text = [CONGESTION_CONTROL_SYSCTL \<mapsto> ''bbr'', DEFAULT_QDISC_SYSCTL \<mapsto> ''cake''],
      dir_entries = Map.empty, path_exists = (\<lambda>_. False), unreaped_tc = 0, net_state = ()\<rparr>"

definition plain_settings :: settings where
  "plain_settings = \<lparr>s_interval = 5000000000, s_interval_s = 5, s_qdisc = True, s_interface = None\<rparr>"

lemmas pass_defs = enforce_def enforce_congestion_control_def enforce_qdiscs_def
  enforce_default_qdisc_def pass_end_def

theorem pass_restores_sysctls_witness:
  "read_sysctl CONGESTION_CONTROL_SYSCTL
     (fst (enforce plain_settings (system_host quiet_kernel) TPeriodic 0 None drifted_world guard_state_default))
     = Inr SKYLINE_CC_NAME"
proof -
  let ?p = "enforce plain_settings (system_host quiet_kernel) TPeriodic 0 None drifted_world guard_state_default"
  obtain w' st' r where p: "?p = (w', st', r)" by (metis prod_cases3)
  then have "p_errors r = []"
    by (auto simp: pass_defs plain_settings_def system_host_def read_sysctl_def drifted_world_def
        CONGESTION_CONTROL_SYSCTL_def DEFAULT_QDISC_SYSCTL_def trim_def is_whitespace_def SKYLINE_CC_NAME_def
        set_default_congestion_control_def sys_set_default_qdisc_def fs_write_def quiet_kernel_def FQ_def
        pass_report_default_def Let_def)
  from pass_restores_sysctls [OF p this] p show ?thesis by simp
qed

section \<open>Which commands a device gets\<close>

text \<open>A host that also keeps the list of \<open>tc\<close> argument lists run so far.\<close>

definition traced :: "'w host \<Rightarrow> ('w \<times> string list list) host" where
  "traced h =
     \<lparr>congestion_control = congestion_control h \<circ> fst,
      set_congestion_control = (\<lambda>v (w, l). case set_congestion_control h v w of (r, w') \<Rightarrow> (r, (w', l))),
      default_qdisc = default_qdisc h \<circ> fst,
      set_default_qdisc = (\<lambda>v (w, l). case set_default_qdisc h v w of (r, w') \<Rightarrow> (r, (w', l))),
      interface_exists = (\<lambda>i. interface_exists h i \<circ> fst),
      tx_queues = (\<lambda>i. tx_queues h i \<circ> fst),
      lower_devices = (\<lambda>i. lower_devices h i \<circ> fst),
      has_device_link = (\<lambda>i. has_device_link h i \<circ> fst),
      tc = (\<lambda>args (w, l). case tc h args w of (r, w') \<Rightarrow> (r, (w', l @ [args])))\<rparr>"

definition log_grows :: "(string list \<Rightarrow> bool) \<Rightarrow> 'w \<times> string list list \<Rightarrow> 'w \<times> string list list \<Rightarrow> bool" where
  "log_grows P w w' = (\<exists>new. snd w' = snd w @ new \<and> (\<forall>c \<in> set new. P c))"

lemma log_grows_refl [simp]: "log_grows P w w"
  by (simp add: log_grows_def)

lemma log_grows_trans [trans]: "log_grows P w1 w2 \<Longrightarrow> log_grows P w2 w3 \<Longrightarrow> log_grows P w1 w3"
  by (auto simp: log_grows_def)

definition show_cmd :: "string \<Rightarrow> string list" where
  "show_cmd dev = [''qdisc'', ''show'', ''dev'', dev]"

definition allowed_on :: "string \<Rightarrow> string list \<Rightarrow> bool" where
  "allowed_on dev c =
     (c = show_cmd dev
      \<or> take 4 c = [''qdisc'', ''replace'', ''dev'', dev] \<and> (last c = FQ \<or> last c = ''mq''))"

lemma allowed_show: "allowed_on dev (show_cmd dev)"
  by (simp add: allowed_on_def)

lemma traced_tc: "tc (traced h) args w = (s, w') \<Longrightarrow> P args \<Longrightarrow> log_grows P w w'"
  by (cases w) (auto simp: traced_def log_grows_def split: prod.splits)

lemma traced_read_root:
  "read_root (traced h) dev w = (s, w') \<Longrightarrow> P (show_cmd dev) \<Longrightarrow> log_grows P w w'"
  by (auto simp: read_root_def show_cmd_def dest: traced_tc split: prod.splits sum.splits)

lemma traced_run_commands:
  "run_commands (traced h) label current rnd cs w = (r, w') \<Longrightarrow> \<forall>c \<in> set cs. P c \<Longrightarrow> log_grows P w w'"
proof (induction cs arbitrary: w)
  case (Cons c cs)
  obtain res w1 where t: "tc (traced h) c w = (res, w1)" by (metis surj_pair)
  then have g: "log_grows P w w1" using Cons.prems(2) by (simp add: traced_tc)
  show ?case
  proof (cases res)
    case (Inr out)
    with Cons t have "log_grows P w1 w'" by (intro Cons.IH) auto
    with g show ?thesis by (rule log_grows_trans)
  qed (use Cons.prems t g in auto)
qed simp

lemma plan_allowed: "replace_plan q dev txq dfq rnd = Run cs \<Longrightarrow> \<forall>c \<in> set cs. allowed_on dev c"
  by (auto simp: replace_plan_def Let_def allowed_on_def tc_command_def split: if_splits option.splits)

lemma traced_replace_rounds:
  "replace_rounds (traced h) dev label txq rnds q w = (r, w') \<Longrightarrow> log_grows (allowed_on dev) w w'"
proof (induction rnds arbitrary: q w)
  case (Cons rnd rnds)
  show ?case
  proof (cases "root_verdict q = VReplace \<and>
      (\<exists>cs. replace_plan q dev txq (default_qdisc (traced h) w = Inr FQ) rnd = Run cs)")
    case False
    with Cons.prems show ?thesis by (auto split: if_splits plan.splits)
  next
    case True
    then obtain cs where p: "root_verdict q = VReplace"
      "replace_plan q dev txq (default_qdisc (traced h) w = Inr FQ) rnd = Run cs" by blast
    obtain res w1 where c: "run_commands (traced h) label q rnd cs w = (res, w1)" by (metis surj_pair)
    obtain res2 w2 where d: "read_root (traced h) dev w1 = (res2, w2)" by (metis surj_pair)
    have s: "log_grows (allowed_on dev) w w1" "log_grows (allowed_on dev) w1 w2"
      using traced_run_commands [OF c plan_allowed [OF p(2)]]
        traced_read_root [OF d, of "allowed_on dev"] allowed_show by simp_all
    have s2: "log_grows (allowed_on dev) w w2" using s by (rule log_grows_trans)
    show ?thesis
    proof (cases "\<exists>u q'. res = Inr u \<and> res2 = Inr (Some q')")
      case True
      then obtain q' where "replace_rounds (traced h) dev label txq rnds q' w2 = (r, w')"
        using Cons.prems p c d by auto
      then show ?thesis using Cons.IH s2 log_grows_trans by blast
    next
      case False
      then show ?thesis
        using Cons.prems p c d s s2 by (cases res; cases res2) (auto split: option.splits)
    qed
  qed
qed simp

lemma traced_replace_root:
  assumes "replace_root (traced h) dev label before w = (r, w')"
  shows "log_grows (allowed_on dev) w w'"
proof -
  obtain res w1 where c:
    "replace_rounds (traced h) dev label (tx_queues (traced h) dev w) [First, Fallback] before w = (res, w1)"
    by (metis surj_pair)
  then have "log_grows (allowed_on dev) w w1" by (rule traced_replace_rounds)
  then show ?thesis
    using assms c by (cases res) (auto simp: replace_root_def simp del: replace_rounds.simps split: if_splits)
qed

text \<open>
  C29. On whatever host: for one managed device a pass runs \<open>tc\<close> only when the root it read there
  is judged replaceable and no failed replace is still backing off; every command it then runs is a
  listing of that device or a replace on that device that installs fq or an mq. A deliberate or
  unknown qdisc, a device that shows none and a read error are left as they are.
\<close>

theorem device_commands_allowed:
  assumes "enforce_device (traced h) pc t ((w, []), st, r) = ((w', cmds), st', r')"
  shows "((\<exists>q. t_root t = Inr (Some q) \<and> root_verdict q = VReplace
             \<and> waiting pc st (t_name t) (summary q) = None)
         \<or> w' = w \<and> cmds = [])
    \<and> (\<forall>c \<in> set cmds. allowed_on (t_name t) c)"
proof (cases "\<exists>q. t_root t = Inr (Some q) \<and> root_verdict q = VReplace
            \<and> waiting pc st (t_name t) (summary q) = None")
  case True
  then obtain q where q: "t_root t = Inr (Some q)" "root_verdict q = VReplace"
    "waiting pc st (t_name t) (summary q) = None" by blast
  obtain res w1 where c: "replace_root (traced h) (t_name t) (t_label t) q (w, []) = (res, w1)" by (metis surj_pair)
  then have "log_grows (allowed_on (t_name t)) (w, []) w1" by (rule traced_replace_root)
  moreover have "w1 = (w', cmds)"
    using assms q c by (cases res) (auto simp: enforce_device_def Let_def)
  ultimately show ?thesis using q by (auto simp: log_grows_def)
next
  case False
  with assms have "(w', cmds) = (w, [])"
    by (auto simp: enforce_device_def Let_def split: sum.splits option.splits verdict.splits)
  with False show ?thesis by auto
qed

theorem device_commands_allowed_witness:
  "\<exists>w' cmds st' r'.
     enforce_device (traced (system_host quiet_kernel)) \<lparr>pc_trigger = TPeriodic, pc_now = 0, pc_interval = 0\<rparr>
       \<lparr>t_name = ''eth0'', t_label = ''eth0'', t_root = Inr (Some noqueue_root)\<rparr>
       ((bridge_world, []), guard_state_default, pass_report_default) = ((w', cmds), st', r')
     \<and> w' = bridge_world \<and> cmds = []"
proof -
  let ?t = "\<lparr>t_name = ''eth0'', t_label = ''eth0'', t_root = Inr (Some noqueue_root)\<rparr> :: target"
  let ?pc = "\<lparr>pc_trigger = TPeriodic, pc_now = 0, pc_interval = 0\<rparr> :: pass_context"
  obtain w' cmds st' r' where e: "enforce_device (traced (system_host quiet_kernel)) ?pc ?t
      ((bridge_world, []), guard_state_default, pass_report_default) = ((w', cmds), st', r')"
    by (metis prod.exhaust)
  have "root_verdict noqueue_root = VDeliberate"
    by (simp add: noqueue_root_def root_verdict_def kind_verdict_def NOQUEUE_def FQ_def DELIBERATE_KINDS_def)
  then show ?thesis
    using device_commands_allowed [OF e] e by auto
qed

section \<open>Backoff\<close>

lemma div_ceil_bounds:
  assumes "0 < b"
  shows "a \<le> b * div_ceil a b" and "b * div_ceil a b < a + b"
proof -
  have m: "b * ((a + b - 1) div b) + (a + b - 1) mod b = a + b - 1" by (rule mult_div_mod_eq)
  have "(a + b - 1) mod b < b" using assms by simp
  then show "a \<le> b * div_ceil a b" using m assms unfolding div_ceil_def by linarith
  show "b * div_ceil a b < a + b" using m assms unfolding div_ceil_def by linarith
qed

lemma div_ceil_mono: "a \<le> a' \<Longrightarrow> div_ceil a b \<le> div_ceil a' b"
  by (simp add: div_ceil_def div_le_mono)

definition wanted_backoff :: "nat \<Rightarrow> u32 \<Rightarrow> nat" where
  "wanted_backoff interval f =
     min (max interval RETRY_BACKOFF_MIN * 2 ^ min (unat f - 1) 16) (max RETRY_BACKOFF_MAX interval)"

lemma unat_pred: "unat (saturating_sub f (1 :: u32)) = unat f - 1"
  by (simp add: sat_simps)

lemma retry_backoff_wanted:
  assumes "n \<le> 3600"
  shows "retry_backoff (n * 1000000000) f =
    (if n = 0 then wanted_backoff 0 f
     else n * 1000000000 * max (div_ceil (wanted_backoff (n * 1000000000) f) (n * 1000000000)) 1)"
proof -
  let ?i = "n * 1000000000 :: nat" and ?d = "min (unat f - 1) 16 :: nat"
  have i: "?i \<le> 3600000000000" using assms by simp
  have p: "(2 :: nat) ^ ?d \<le> 2 ^ 16" by (intro power_increasing) auto
  have m: "max ?i RETRY_BACKOFF_MIN \<le> 3600000000000" using i by (simp add: RETRY_BACKOFF_MIN_def)
  have "max ?i RETRY_BACKOFF_MIN * 2 ^ ?d \<le> 3600000000000 * 2 ^ 16"
    by (rule mult_le_mono [OF m p])
  then have sat: "duration_saturating_mul (max ?i RETRY_BACKOFF_MIN) (2 ^ ?d) = max ?i RETRY_BACKOFF_MIN * 2 ^ ?d"
    unfolding duration_saturating_mul_def DURATION_MAX_def by simp
  have w: "wanted_backoff ?i f \<le> 3600000000000"
    using i by (simp add: wanted_backoff_def RETRY_BACKOFF_MAX_def)
  show ?thesis
  proof (cases "n = 0")
    case True
    then show ?thesis
      using sat by (simp add: retry_backoff_def Let_def unat_pred wanted_backoff_def)
  next
    case False
    let ?s = "max (div_ceil (wanted_backoff ?i f) ?i) 1"
    have "?i * div_ceil (wanted_backoff ?i f) ?i < wanted_backoff ?i f + ?i"
      using False by (intro div_ceil_bounds) simp
    then have le: "?i * ?s \<le> 7200000000000" using w i by (auto simp: max_def)
    have "1000000000 * ?s \<le> ?i * ?s" using False by (intro mult_le_mono1) simp
    then have "1000000000 * ?s \<le> 7200000000000" using le by linarith
    then have s: "?s < 2 ^ 32" by (simp only: power_numeral_even power_numeral_odd) simp
    have "retry_backoff ?i f = duration_saturating_mul ?i ?s"
      using False s unfolding retry_backoff_def Let_def unat_pred sat wanted_backoff_def [symmetric]
      by simp
    also have "\<dots> = ?i * ?s"
      using le unfolding duration_saturating_mul_def DURATION_MAX_def by simp
    finally show ?thesis using False by simp
  qed
qed

lemma wanted_backoff_bounds:
  "max interval RETRY_BACKOFF_MIN \<le> wanted_backoff interval f"
  "wanted_backoff interval f \<le> max RETRY_BACKOFF_MAX interval"
  "f \<le> f' \<Longrightarrow> wanted_backoff interval f \<le> wanted_backoff interval f'"
proof -
  have one: "x \<le> x * 2 ^ k" for x k :: nat by simp
  show "max interval RETRY_BACKOFF_MIN \<le> wanted_backoff interval f"
    using one [of "max interval RETRY_BACKOFF_MIN" "min (unat f - 1) 16"]
    by (auto simp: wanted_backoff_def RETRY_BACKOFF_MAX_def RETRY_BACKOFF_MIN_def)
  show "wanted_backoff interval f \<le> max RETRY_BACKOFF_MAX interval"
    by (simp add: wanted_backoff_def)
  assume "f \<le> f'"
  then have "min (unat f - 1) 16 \<le> min (unat f' - 1) 16"
    by (auto simp: word_le_nat_alt)
  then have "(2 :: nat) ^ min (unat f - 1) 16 \<le> 2 ^ min (unat f' - 1) 16"
    by (intro power_increasing) auto
  then show "wanted_backoff interval f \<le> wanted_backoff interval f'"
    unfolding wanted_backoff_def by (intro min.mono mult_le_mono) auto
qed

text \<open>
  For every interval a valid configuration can ask for, a failed replace is retried no
  earlier than 30 seconds and one interval later, no later than five minutes (or one interval)
  plus the rounding to whole intervals, on a whole number of intervals, and a further failure
  never shortens the wait.
\<close>

lemma retry_backoff_bounds:
  assumes "n \<le> 3600" and "f \<le> f'"
  shows "max (n * 1000000000) RETRY_BACKOFF_MIN \<le> retry_backoff (n * 1000000000) f
    \<and> retry_backoff (n * 1000000000) f < max RETRY_BACKOFF_MAX (n * 1000000000) + max (n * 1000000000) 1
    \<and> (n \<noteq> 0 \<longrightarrow> n * 1000000000 dvd retry_backoff (n * 1000000000) f)
    \<and> retry_backoff (n * 1000000000) f \<le> retry_backoff (n * 1000000000) f'"
proof (cases "n = 0")
  case True
  then show ?thesis
    using retry_backoff_wanted [of 0] wanted_backoff_bounds [of 0 f] wanted_backoff_bounds(3) [OF assms(2), of 0]
    by simp
next
  case False
  let ?i = "n * 1000000000"
  let ?c = "\<lambda>f. div_ceil (wanted_backoff ?i f) ?i"
  have i: "0 < ?i" using False by simp
  have ge: "?i \<le> wanted_backoff ?i f" using wanted_backoff_bounds(1) [of ?i f] by simp
  have c: "wanted_backoff ?i f \<le> ?i * ?c f" "?i * ?c f < wanted_backoff ?i f + ?i"
    using div_ceil_bounds [OF i] by auto
  have one: "1 \<le> ?c f'" for f'
    using div_ceil_bounds(1) [OF i, of "wanted_backoff ?i f'"] wanted_backoff_bounds(1) [of ?i f'] i
    by (cases "?c f'") auto
  have b: "retry_backoff ?i f' = ?i * ?c f'" for f'
    using one [of f'] retry_backoff_wanted [OF assms(1), of f'] False by (simp add: max_absorb1)
  have "?c f \<le> ?c f'"
    by (intro div_ceil_mono wanted_backoff_bounds(3) assms)
  then show ?thesis
    using c one [of f] wanted_backoff_bounds(1,2) [of ?i f] unfolding b by auto
qed

section \<open>Journal and counters\<close>

text \<open>What the enforcement of one pass keeps of the guard's state, and how it counts.\<close>

definition corrected :: "guard_state \<Rightarrow> nat" where
  "corrected st =
     unat (cc_restored st) + unat (default_qdisc_restored st) + unat (interface_qdisc_replaced st)"

definition below_max :: "guard_state \<Rightarrow> nat \<Rightarrow> bool" where
  "below_max st n =
     (unat (cc_restored st) + n < 2 ^ 64 \<and> unat (default_qdisc_restored st) + n < 2 ^ 64
      \<and> unat (interface_qdisc_replaced st) + n < 2 ^ 64)"

definition pass_step :: "guard_state \<Rightarrow> pass_report \<Rightarrow> guard_state \<Rightarrow> pass_report \<Rightarrow> bool" where
  "pass_step st r st' r' =
     (armed st' = armed st \<and> reported st' = reported st \<and> checks st' = checks st \<and> logged r' = logged r
      \<and> length (corrections r) \<le> length (corrections r')
      \<and> (\<forall>n. below_max st (n + (length (corrections r') - length (corrections r))) \<longrightarrow>
           below_max st' n
           \<and> corrected st' + length (corrections r) = corrected st + length (corrections r')))"

lemma pass_step_refl: "pass_step st r st r"
  by (simp add: pass_step_def)

lemma pass_step_trans:
  assumes "pass_step st1 r1 st2 r2" "pass_step st2 r2 st3 r3"
  shows "pass_step st1 r1 st3 r3"
proof -
  let ?l = "\<lambda>r. length (corrections r)"
  have l: "?l r1 \<le> ?l r2" "?l r2 \<le> ?l r3" using assms by (simp_all add: pass_step_def)
  have "below_max st3 n \<and> corrected st3 + ?l r1 = corrected st1 + ?l r3"
    if b: "below_max st1 (n + (?l r3 - ?l r1))" for n
  proof -
    have "n + (?l r3 - ?l r1) = (n + (?l r3 - ?l r2)) + (?l r2 - ?l r1)" using l by simp
    with b have "below_max st2 (n + (?l r3 - ?l r2)) \<and> corrected st2 + ?l r1 = corrected st1 + ?l r2"
      using assms(1) by (simp add: pass_step_def)
    moreover from this have "below_max st3 n \<and> corrected st3 + ?l r2 = corrected st2 + ?l r3"
      using assms(2) unfolding pass_step_def by blast
    ultimately show ?thesis by linarith
  qed
  then show ?thesis using assms l by (simp add: pass_step_def)
qed

lemma unat_incr:
  "unat (x :: u64) + 1 < 18446744073709551616 \<Longrightarrow> unat (saturating_add x 1) = unat x + 1"
  by (simp add: sat_simps)

lemmas pass_step_defs = pass_step_def below_max_def corrected_def unat_incr

lemma pass_step_cc:
  "enforce_congestion_control h (w, st, r) = (w', st', r') \<Longrightarrow> pass_step st r st' r'"
  by (auto simp: enforce_congestion_control_def pass_step_defs split: sum.splits if_splits prod.splits)

lemma pass_step_dq:
  "enforce_default_qdisc h (w, st, r) = (w', st', r') \<Longrightarrow> pass_step st r st' r'"
  by (auto simp: enforce_default_qdisc_def pass_step_defs split: sum.splits if_splits prod.splits)

lemma pass_step_device:
  "enforce_device h pc t (w, st, r) = (w', st', r') \<Longrightarrow> pass_step st r st' r'"
  by (auto simp: enforce_device_def Let_def pass_step_defs
      split: sum.splits prod.splits option.splits verdict.splits)

lemma pass_step_devices:
  "fold (enforce_device h pc) ts (w, st, r) = (w', st', r') \<Longrightarrow> pass_step st r st' r'"
proof (induction ts arbitrary: w st r)
  case (Cons t ts)
  obtain w1 st1 r1 where d: "enforce_device h pc t (w, st, r) = (w1, st1, r1)" by (metis prod_cases3)
  with Cons have "pass_step st1 r1 st' r'" by (intro Cons.IH) simp
  with pass_step_device [OF d] show ?case by (rule pass_step_trans)
qed (simp add: pass_step_refl)

lemma pass_step_interface:
  assumes "enforce_interface_qdiscs i h pc (w, st, r) = (w', st', r')"
  shows "pass_step st r st' r'"
proof (cases "interface_exists h i w")
  case False
  with assms show ?thesis by (auto simp: enforce_interface_qdiscs_def pass_step_defs)
next
  case True
  obtain rt w1 where a: "read_root_text h i w = (rt, w1)" by (metis surj_pair)
  obtain m w2 where b: "managed_devices h i rt w1 = (m, w2)" by (metis surj_pair)
  obtain st1 r1 where f: "fold (enforce_device h pc) (m_targets m) (w2, st1, r1) = (w', st', r')"
    and s: "pass_step st r st1 r1"
    using assms True a b by (auto simp: enforce_interface_qdiscs_def Let_def pass_step_defs)
  from pass_step_trans [OF s pass_step_devices [OF f]] show ?thesis .
qed

lemma pass_step_qdiscs:
  assumes "enforce_qdiscs s h trig now (w, st, r) = (w', st', r')"
  shows "pass_step st r st' r'"
proof (cases "s_qdisc s")
  case True
  obtain w1 st1 r1 where c: "enforce_default_qdisc h (w, st, r) = (w1, st1, r1)" by (metis prod_cases3)
  have "pass_step st1 r1 st' r'"
    using assms True c pass_step_interface
    by (auto simp: enforce_qdiscs_def Let_def pass_step_refl split: option.splits)
  with pass_step_dq [OF c] show ?thesis by (rule pass_step_trans)
qed (use assms in \<open>simp add: enforce_qdiscs_def pass_step_refl\<close>)

text \<open>
  The journal of a pass: every correction is logged and counted once in the status counters,
  and a note or error is logged exactly when the previous pass did not report the same line, so a
  lasting condition reaches the journal once; the next pass compares with this one.
\<close>

lemma pass_journal:
  assumes "enforce s h trig now un w st = (w', st', r)"
    and "below_max st (length (corrections r))"
  shows "logged r =
      map (\<lambda>c. ''guard: '' @ c @ '' ('' @ (case trig of TEnable \<Rightarrow> ''applied by ssctl enable''
             | TPeriodic \<Rightarrow> ''something else on this host changed it'') @ '')'') (corrections r)
      @ map (\<lambda>m. ''guard: '' @ m) (filter (\<lambda>m. m \<notin> set (reported st)) (p_notes r @ p_errors r))
    \<and> reported st' = p_notes r @ p_errors r \<and> armed st' = armed st
    \<and> corrected st' = corrected st + length (corrections r)"
proof -
  obtain w1 st1 r1 where a: "enforce_congestion_control h (w, st, pass_report_default) = (w1, st1, r1)"
    by (metis prod_cases3)
  obtain w2 st2 r2 where b: "enforce_qdiscs s h trig now (w1, st1, r1) = (w2, st2, r2)"
    by (metis prod_cases3)
  have p: "pass_step st pass_report_default st2 r2"
    using pass_step_cc [OF a] pass_step_qdiscs [OF b] by (rule pass_step_trans)
  from assms(1) a b have r: "(st', r) = pass_end trig un st2 r2" by (simp add: enforce_def)
  then have "corrections r = corrections r2" by (simp add: pass_end_def Let_def)
  with assms(2) p have "corrected st2 = corrected st + length (corrections r)"
    "reported st2 = reported st" "armed st2 = armed st" "logged r2 = []"
    by (auto simp: pass_step_def pass_report_default_def dest: spec [of _ 0])
  with r show ?thesis
    by (cases trig) (simp_all add: pass_end_def Let_def corrected_def)
qed

end
