(* ===== verification/GuardLock.thy ===== *)
theory GuardLock
  imports GuardProps
begin

text \<open>
  The two threads that share the guard's mutex: the periodic thread, and the request loop when it
  runs an \<open>Enable\<close> (which writes skyline_cc without the lock, then arms and enforces under it) or a
  \<open>Drain\<close> (which disarms and writes fallback_cc under it). Their steps interleave freely, other
  programs may change the host at any moment, and \<open>quiet\<close> remembers that a drain has written
  fallback_cc and no enable has begun since. The theorem is the ownership rule the guard's
  documentation states: after that write nothing of the daemon puts skyline_cc back.
\<close>

datatype lock_owner = Ticker | Requests

datatype tick_pc = TIdle | TLocked | TArmed

datatype req_pc = RIdle | RDrainLocked | RDrainDisarmed | REnableWritten | REnableLocked

datatype step_label = LTick | LDrain | LEnableStart | LEnableRest | LEnv

record 'q lock_state =
  ls_owner :: "lock_owner option"
  ls_tick :: tick_pc
  ls_req :: req_pc
  ls_guard :: guard_state
  ls_world :: "'q sys_world"
  ls_quiet :: bool

definition lock_init :: "'q sys_world \<Rightarrow> 'q lock_state" where
  "lock_init w =
     \<lparr>ls_owner = None, ls_tick = TIdle, ls_req = RIdle, ls_guard = guard_state_default,
      ls_world = w, ls_quiet = False\<rparr>"

inductive lock_step ::
  "'q kernel \<Rightarrow> settings \<Rightarrow> string \<Rightarrow> step_label \<Rightarrow> 'q lock_state \<Rightarrow> 'q lock_state \<Rightarrow> bool"
  for K s fallback where
  tick_lock: "ls_owner x = None \<Longrightarrow> ls_tick x = TIdle \<Longrightarrow>
    lock_step K s fallback LTick x (x\<lparr>ls_owner := Some Ticker, ls_tick := TLocked\<rparr>)"
| tick_disarmed: "ls_tick x = TLocked \<Longrightarrow> \<not> armed (ls_guard x) \<Longrightarrow>
    lock_step K s fallback LTick x (x\<lparr>ls_owner := None, ls_tick := TIdle\<rparr>)"
| tick_armed: "ls_tick x = TLocked \<Longrightarrow> armed (ls_guard x) \<Longrightarrow>
    lock_step K s fallback LTick x
      (x\<lparr>ls_tick := TArmed, ls_guard := (ls_guard x)\<lparr>checks := saturating_add (checks (ls_guard x)) 1\<rparr>\<rparr>)"
| tick_pass: "ls_tick x = TArmed \<Longrightarrow>
    enforce s (system_host K) TPeriodic now un (ls_world x) (ls_guard x) = (w', g', r) \<Longrightarrow>
    lock_step K s fallback LTick x (x\<lparr>ls_owner := None, ls_tick := TIdle, ls_world := w', ls_guard := g'\<rparr>)"
| drain_lock: "ls_req x = RIdle \<Longrightarrow> ls_owner x = None \<Longrightarrow>
    lock_step K s fallback LDrain x (x\<lparr>ls_owner := Some Requests, ls_req := RDrainLocked\<rparr>)"
| drain_disarm: "ls_req x = RDrainLocked \<Longrightarrow>
    disarm_and (Pair ()) (ls_world x) (ls_guard x) = (u, w', g') \<Longrightarrow>
    lock_step K s fallback LDrain x (x\<lparr>ls_req := RDrainDisarmed, ls_world := w', ls_guard := g'\<rparr>)"
| drain_write: "ls_req x = RDrainDisarmed \<Longrightarrow>
    set_default_congestion_control K fallback (ls_world x) = (res, w') \<Longrightarrow>
    lock_step K s fallback LDrain x
      (x\<lparr>ls_owner := None, ls_req := RIdle, ls_world := w', ls_quiet := (res = Inr () \<or> ls_quiet x)\<rparr>)"
| enable_write: "ls_req x = RIdle \<Longrightarrow>
    set_default_congestion_control K SKYLINE_CC_NAME (ls_world x) = (Inr (), w') \<Longrightarrow>
    lock_step K s fallback LEnableStart x (x\<lparr>ls_req := REnableWritten, ls_world := w', ls_quiet := False\<rparr>)"
| enable_lock: "ls_req x = REnableWritten \<Longrightarrow> ls_owner x = None \<Longrightarrow>
    lock_step K s fallback LEnableRest x (x\<lparr>ls_owner := Some Requests, ls_req := REnableLocked\<rparr>)"
| enable_pass: "ls_req x = REnableLocked \<Longrightarrow>
    arm_and_enforce s (system_host K) now un (ls_world x) (ls_guard x) = (w', g', r) \<Longrightarrow>
    lock_step K s fallback LEnableRest x
      (x\<lparr>ls_owner := None, ls_req := RIdle, ls_world := w', ls_guard := g'\<rparr>)"
| other_program: "lock_step K s fallback LEnv x (x\<lparr>ls_world := w'\<rparr>)"

inductive_cases lock_step_cases: "lock_step K s fallback l x y"

inductive lock_run ::
  "'q kernel \<Rightarrow> settings \<Rightarrow> string \<Rightarrow> step_label list \<Rightarrow> 'q lock_state \<Rightarrow> 'q lock_state \<Rightarrow> bool"
  for K s fallback where
  run_nil: "lock_run K s fallback [] x x"
| run_step: "lock_run K s fallback ls x y \<Longrightarrow> lock_step K s fallback l y z \<Longrightarrow>
    lock_run K s fallback (ls @ [l]) x z"

text \<open>The ticks of one periodic pass together are \<open>periodic_pass\<close>.\<close>

lemma periodic_pass_ticks:
  "periodic_pass s h now un w st =
     (if armed st
      then (case enforce s h TPeriodic now un w (st\<lparr>checks := saturating_add (checks st) 1\<rparr>) of
              (w', st', r) \<Rightarrow> (w', st', Some r))
      else (w, st, None))"
  by (simp add: periodic_pass_def)

text \<open>Disarming and then writing are \<open>disarm_and\<close> with the write as its closure.\<close>

lemma disarm_and_steps:
  "disarm_and act w st =
     (case disarm_and (Pair ()) w st of (u, w, st) \<Rightarrow> (case act w of (x, w') \<Rightarrow> (x, w', st)))"
  by (simp add: disarm_and_def)

section \<open>The invariant\<close>

definition lock_inv :: "'q lock_state \<Rightarrow> bool" where
  "lock_inv x =
     ((ls_tick x \<noteq> TIdle \<longleftrightarrow> ls_owner x = Some Ticker)
      \<and> (ls_req x \<in> {RDrainLocked, RDrainDisarmed, REnableLocked} \<longleftrightarrow> ls_owner x = Some Requests)
      \<and> (ls_req x = RDrainDisarmed \<longrightarrow> \<not> armed (ls_guard x))
      \<and> (ls_req x \<in> {REnableWritten, REnableLocked} \<longrightarrow> \<not> ls_quiet x)
      \<and> (ls_quiet x \<longrightarrow> \<not> armed (ls_guard x) \<and> ls_tick x \<noteq> TArmed))"

lemma enforce_armed:
  assumes "enforce s h trig now un w st = (w', st', r)"
  shows "armed st' = armed st"
proof -
  obtain w1 st1 r1 where a: "enforce_congestion_control h (w, st, pass_report_default) = (w1, st1, r1)"
    by (metis prod_cases3)
  obtain w2 st2 r2 where b: "enforce_qdiscs s h trig now (w1, st1, r1) = (w2, st2, r2)"
    by (metis prod_cases3)
  have "armed st2 = armed st"
    using pass_step_cc [OF a] pass_step_qdiscs [OF b] by (simp add: pass_step_def)
  with assms a b show ?thesis by (auto simp: enforce_def pass_end_def Let_def split: if_splits)
qed

lemma lock_inv_init: "lock_inv (lock_init w)"
  by (simp add: lock_inv_def lock_init_def guard_state_default_def)

lemma lock_inv_step: "lock_step K s fallback l x y \<Longrightarrow> lock_inv x \<Longrightarrow> lock_inv y"
proof (induction rule: lock_step.induct)
  case (tick_pass x now un w' g' r)
  with enforce_armed [OF tick_pass(2)] show ?case by (auto simp: lock_inv_def)
next
  case (drain_disarm x u w' g')
  then show ?case by (auto simp: lock_inv_def disarm_and_def)
next
  case (drain_write x res w')
  then show ?case by (auto simp: lock_inv_def)
qed (auto simp: lock_inv_def)

lemma lock_inv_run: "lock_run K s fallback ls x y \<Longrightarrow> lock_inv x \<Longrightarrow> lock_inv y"
  by (induction rule: lock_run.induct) (auto intro: lock_inv_step)

lemma quiet_step:
  assumes "lock_step K s fallback l x y" "lock_inv x" "ls_quiet x" "trim fallback = fallback"
    and "read_sysctl CONGESTION_CONTROL_SYSCTL (ls_world x) = Inr fallback"
    and "l \<noteq> LEnableStart" "l \<noteq> LEnv"
  shows "ls_quiet y \<and> read_sysctl CONGESTION_CONTROL_SYSCTL (ls_world y) = Inr fallback"
  using assms
  by (cases rule: lock_step_cases)
     (auto simp: lock_inv_def set_default_congestion_control_def fs_write_def read_sysctl_def disarm_and_def
       split: if_splits)

text \<open>
  C4. Drain is final. Start the daemon on any host and let its threads, requests and other
  programs interleave in any way up to a moment when a drain has written fallback_cc and it reads
  back. From then on, as long as no enable begins and no other program writes it, the namespace's
  default congestion control stays fallback_cc and the guard stays disarmed: a periodic pass
  already running when the drain came, or starting later, never puts skyline_cc back.
\<close>

theorem drain_is_final:
  assumes "lock_run K s fallback before (lock_init w) x" and "ls_quiet x"
    and "read_sysctl CONGESTION_CONTROL_SYSCTL (ls_world x) = Inr fallback" and "trim fallback = fallback"
    and "lock_run K s fallback after x y" and "set after \<subseteq> {LTick, LDrain, LEnableRest}"
  shows "read_sysctl CONGESTION_CONTROL_SYSCTL (ls_world y) = Inr fallback \<and> \<not> armed (ls_guard y)"
proof -
  have inv: "lock_inv x" using lock_inv_run [OF assms(1) lock_inv_init] .
  have "lock_inv y \<and> ls_quiet y \<and> read_sysctl CONGESTION_CONTROL_SYSCTL (ls_world y) = Inr fallback"
    using assms(5,6,2,3) inv
  proof (induction rule: lock_run.induct)
    case (run_step ls x y l z)
    then show ?case
      using quiet_step [OF run_step(2) _ _ assms(4)] lock_inv_step [OF run_step(2)] by auto
  qed simp
  then show ?thesis by (simp add: lock_inv_def)
qed

theorem drain_is_final_witness:
  "\<exists>x y. lock_run quiet_kernel plain_settings ''cubic'' [LDrain, LDrain, LDrain] (lock_init drifted_world) x
     \<and> lock_run quiet_kernel plain_settings ''cubic'' [LTick, LTick] x y
     \<and> read_sysctl CONGESTION_CONTROL_SYSCTL (ls_world y) = Inr ''cubic'' \<and> \<not> armed (ls_guard y)"
proof -
  let ?step = "lock_step quiet_kernel plain_settings ''cubic''"
  let ?run = "lock_run quiet_kernel plain_settings ''cubic''"
  let ?x0 = "lock_init drifted_world"
  let ?x1 = "?x0\<lparr>ls_owner := Some Requests, ls_req := RDrainLocked\<rparr>"
  let ?x2 = "?x1\<lparr>ls_req := RDrainDisarmed, ls_guard := (ls_guard ?x1)\<lparr>armed := False\<rparr>\<rparr>"
  let ?w = "drifted_world\<lparr>file_text := (file_text drifted_world)(CONGESTION_CONTROL_SYSCTL \<mapsto> ''cubic'')\<rparr>"
  let ?x3 = "?x2\<lparr>ls_owner := None, ls_req := RIdle, ls_world := ?w, ls_quiet := True\<rparr>"
  let ?x4 = "?x3\<lparr>ls_owner := Some Ticker, ls_tick := TLocked\<rparr>"
  let ?x5 = "?x4\<lparr>ls_owner := None, ls_tick := TIdle\<rparr>"
  have s1: "?step LDrain ?x0 ?x1"
    by (rule drain_lock) (simp_all add: lock_init_def)
  have "?step LDrain ?x1 (?x1\<lparr>ls_req := RDrainDisarmed, ls_world := ls_world ?x1, ls_guard := (ls_guard ?x1)\<lparr>armed := False\<rparr>\<rparr>)"
    by (rule drain_disarm [where u = "()"]) (simp_all add: disarm_and_def)
  then have s2: "?step LDrain ?x1 ?x2" by simp
  have "?step LDrain ?x2 (?x2\<lparr>ls_owner := None, ls_req := RIdle, ls_world := ?w, ls_quiet := ((Inr () :: (anyhow, unit) result) = Inr () \<or> ls_quiet ?x2)\<rparr>)"
    by (rule drain_write)
       (simp_all add: lock_init_def set_default_congestion_control_def fs_write_def quiet_kernel_def)
  then have s3: "?step LDrain ?x2 ?x3" by simp
  have t1: "?step LTick ?x3 ?x4"
    by (rule tick_lock) (simp_all add: lock_init_def)
  have t2: "?step LTick ?x4 ?x5"
    by (rule tick_disarmed) simp_all
  have "?run ([] @ [LDrain] @ [LDrain] @ [LDrain]) ?x0 ?x3"
    using run_step [OF run_step [OF run_step [OF run_nil s1] s2] s3] by simp
  then have before: "?run [LDrain, LDrain, LDrain] ?x0 ?x3" by simp
  have after: "?run [LTick, LTick] ?x3 ?x5"
    using run_step [OF run_step [OF run_nil t1] t2] by simp
  have rd: "read_sysctl CONGESTION_CONTROL_SYSCTL (ls_world ?x3) = Inr ''cubic''"
    and tr: "trim ''cubic'' = ''cubic''"
    by (simp_all add: read_sysctl_def trim_def is_whitespace_def)
  have "ls_quiet ?x3" by simp
  from drain_is_final [OF before this rd tr after]
  have "read_sysctl CONGESTION_CONTROL_SYSCTL (ls_world ?x5) = Inr ''cubic'' \<and> \<not> armed (ls_guard ?x5)"
    by simp
  with before after show ?thesis by blast
qed

end
