(* ===== verification/DaemonFrames.thy ===== *)
theory DaemonFrames
  imports Server GuardLock
begin

text \<open>
  The vocabulary of the daemon's guarantees: validity of a configuration table by table, what it
  means that the kernel runs a configuration, and which fields of the daemon each helper of a
  request may touch.
\<close>

section \<open>Validity, table by table\<close>

definition rack_rto_ok :: "rack_rto_config \<Rightarrow> bool" where
  "rack_rto_ok r =
     (rr_enabled r \<longrightarrow> rr_srtt_permille r \<noteq> 0 \<and> rr_floor_us r \<noteq> 0 \<and> rr_floor_us r \<le> rr_ceiling_us r
        \<and> rr_ceiling_us r \<le> SKYLINE_RTO_MIN_KERNEL_DEFAULT_US
        \<and> rr_rto_max_normal_permille r \<le> rr_rto_max_congested_permille r)"

definition dscp_ok :: "retransmit_dscp_config \<Rightarrow> bool" where
  "dscp_ok c = (\<not> (rd_enabled c \<and> rd_dscp_value c = 0) \<and> rd_dscp_value c \<le> 63)"

definition redundancy_ok :: "redundancy_config \<Rightarrow> bool" where
  "redundancy_ok c =
     ((red_enabled c \<longrightarrow> 1 \<le> red_first_kib c \<and> red_first_kib c \<le> MAX_FIRST_KIB) \<and> red_delay_ms c \<le> MAX_DELAY_MS)"

definition tuning_ok :: "skyline_config \<Rightarrow> bool" where
  "tuning_ok c =
     (validate_finite c = Inr () \<and> validate_windows c = Inr () \<and> validate_ratios c = Inr ()
      \<and> validate_rack_tuning c = Inr () \<and> fallback_cc c \<noteq> [] \<and> length (fallback_cc c) < 16
      \<and> fallback_cc c \<noteq> SKYLINE_CC_NAME \<and> g_interval_s (guard_table c) \<le> MAX_GUARD_INTERVAL_S)"

lemma validate_tables:
  "validate c = Inr () \<longleftrightarrow>
     generation c \<noteq> 0 \<and> tuning_ok c \<and> rack_rto_ok (rack_rto c) \<and> dscp_ok (retransmit_dscp c)
     \<and> redundancy_ok (redundancy c)"
proof -
  have "validate_rack_rto c = Inr () \<longleftrightarrow> rack_rto_ok (rack_rto c)"
    by (auto simp: validate_rack_rto_def rack_rto_ok_def Let_def not_less)
  moreover have "validate_rest c = Inr () \<longleftrightarrow>
      dscp_ok (retransmit_dscp c) \<and> redundancy_ok (redundancy c) \<and> g_interval_s (guard_table c) \<le> MAX_GUARD_INTERVAL_S"
    by (auto simp: validate_rest_def dscp_ok_def redundancy_ok_def not_less)
  moreover have "validate_identity c = Inr () \<longleftrightarrow>
      generation c \<noteq> 0 \<and> fallback_cc c \<noteq> [] \<and> length (fallback_cc c) < 16 \<and> fallback_cc c \<noteq> SKYLINE_CC_NAME"
    by (auto simp: validate_identity_def not_le)
  ultimately show ?thesis
    unfolding validate_Inr tuning_ok_def by blast
qed

lemma tuning_ok_frame [simp]:
  "tuning_ok (c\<lparr>generation := g\<rparr>) = tuning_ok c"
  "tuning_ok (c\<lparr>rack_rto := r\<rparr>) = tuning_ok c"
  "tuning_ok (c\<lparr>retransmit_dscp := x\<rparr>) = tuning_ok c"
  "tuning_ok (c\<lparr>redundancy := y\<rparr>) = tuning_ok c"
  by (simp_all add: tuning_ok_def validate_finite_def float_fields_def validate_windows_def
      validate_ratios_def mode_gains_def validate_rack_tuning_def feature_mask_def Let_def)

lemma tuning_ok_fewer:
  assumes "tuning_ok c"
  shows "tuning_ok (c\<lparr>enabled_modules := filter P (enabled_modules c)\<rparr>)"
proof -
  have "mask_contains (feature_mask (c\<lparr>enabled_modules := filter P (enabled_modules c)\<rparr>)) PACING
      \<Longrightarrow> mask_contains (feature_mask c) PACING"
    using feature_mask_fewer [of P c Pacing] by simp
  with assms show ?thesis
    by (auto simp: tuning_ok_def validate_finite_def float_fields_def validate_windows_def
        validate_ratios_def mode_gains_def validate_rack_tuning_def split: if_splits)
qed

lemma bump_frame [simp]:
  "tuning_ok (bump c) = tuning_ok c" "rack_rto (bump c) = rack_rto c" "generation (bump c) \<noteq> 0"
  "retransmit_dscp (bump c) = retransmit_dscp c" "redundancy (bump c) = redundancy c"
  "fallback_cc (bump c) = fallback_cc c" "enabled_modules (bump c) = enabled_modules c"
  "runtime_table (bump c) = runtime_table c"
  "config_kernel_config (bump c) = (config_kernel_config c)\<lparr>k_generation := generation (bump c)\<rparr>"
proof -
  have "unat (saturating_add (generation c) 1) \<noteq> 0" by (simp add: sat_simps)
  then show "generation (bump c) \<noteq> 0" by (simp add: bump_def unat_eq_zero)
qed (simp_all add: bump_def config_kernel_config_def feature_mask_def)

lemma validate_config_Inr [simp]: "validate_config e c = Inr () \<longleftrightarrow> validate c = Inr ()"
  by (simp add: validate_config_def split: sum.splits)

section \<open>Publishing\<close>

definition active_image :: "bpf_runtime \<Rightarrow> kernel_config option" where
  "active_image r = br_slots r (br_seq_map r AND 1)"

text \<open>The kernel runs \<open>c\<close>: the slot the sequence number selects holds its image, up to the generation.\<close>

definition published :: "skyline_config \<Rightarrow> bpf_runtime \<Rightarrow> bool" where
  "published c r =
     (br_config_seq r = br_seq_map r
      \<and> (\<exists>g. g \<noteq> 0 \<and> active_image r = Some ((config_kernel_config c)\<lparr>k_generation := g\<rparr>)))"

lemma other_slot: "(x + 1) AND 1 \<noteq> x AND (1 :: u32)"
proof -
  have "(x + 1) AND 1 = (x + 1) mod 2" "x AND 1 = x mod 2"
    by (simp_all add: and_one_eq)
  moreover have "odd (x + 1) \<longleftrightarrow> even x" by simp
  ultimately show ?thesis
    by (metis and_one_eq odd_iff_mod_2_eq_one even_iff_mod_2_eq_zero zero_neq_one)
qed

lemma update_config_fails:
  assumes "update_config e c r = (Inl x, r')" "br_config_seq r = br_seq_map r"
  shows "active_image r' = active_image r \<and> br_config_seq r' = br_config_seq r \<and> br_seq_map r' = br_seq_map r"
  using assms other_slot [of "br_seq_map r"]
  by (auto simp: update_config_def update_config_maps_def active_image_def Let_def
      split: sum.splits prod.splits)

lemma update_config_ok:
  assumes "update_config e c r = (Inr u, r')"
  shows "br_config_seq r' = br_seq_map r' \<and> active_image r' = Some (config_kernel_config c)"
  using assms
  by (auto simp: update_config_def update_config_maps_def active_image_def Let_def
      split: sum.splits prod.splits)

lemma bpf_load_ok:
  assumes "bpf_load e c l w = (Inr r, w')"
  shows "br_config_seq r = br_seq_map r \<and> active_image r = Some (config_kernel_config c) \<and> dw_registered w'"
  using assms
  by (auto simp: bpf_load_def update_config_maps_def active_image_def Let_def
      split: sum.splits prod.splits if_splits)

lemma published_ok:
  assumes "br_config_seq r = br_seq_map r" "active_image r = Some (config_kernel_config c)" "generation c \<noteq> 0"
  shows "published c r"
proof -
  have "config_kernel_config c = (config_kernel_config c)\<lparr>k_generation := generation c\<rparr>"
    by (simp add: config_kernel_config_def)
  with assms show ?thesis unfolding published_def by metis
qed

lemma published_image:
  assumes "published c r" "config_kernel_config c' = (config_kernel_config c)\<lparr>k_generation := g\<rparr>"
  shows "published c' r"
  using assms by (auto simp: published_def)

lemma published_update:
  assumes "update_config e c' r = (x, r')" "published c r"
  shows "(case x of Inl _ \<Rightarrow> published c r' | Inr _ \<Rightarrow> generation c' \<noteq> 0 \<longrightarrow> published c' r')"
  using assms update_config_fails [of e c' r _ r'] update_config_ok [of e c' r _ r'] published_ok
  by (cases x) (auto simp: published_def)

lemma image_frame [simp]:
  "config_kernel_config (c\<lparr>rack_rto := a\<rparr>) = config_kernel_config c"
  "config_kernel_config (c\<lparr>retransmit_dscp := b\<rparr>) = config_kernel_config c"
  "config_kernel_config (c\<lparr>redundancy := d\<rparr>) = config_kernel_config c"
  by (simp_all add: config_kernel_config_def feature_mask_def)

section \<open>What each helper touches\<close>

lemma publish_runtime_frame:
  assumes "publish_runtime e d = (x, d')"
  shows "\<exists>ro. d' = d\<lparr>d_runtime := ro\<rparr> \<and> (ro = None \<longleftrightarrow> d_runtime d = None)
    \<and> (\<forall>r. d_runtime d = Some r \<longrightarrow> (\<exists>r'. ro = Some r' \<and> update_config e (d_config d) r = (x, r')))
    \<and> (d_runtime d = None \<longrightarrow> x = Inr ())"
proof (cases "d_runtime d")
  case None
  with assms show ?thesis by (intro exI [of _ None]) (auto simp: publish_runtime_def)
next
  case (Some r)
  with assms show ?thesis by (auto simp: publish_runtime_def split: prod.splits)
qed

lemma tc_frame:
  "apply_redundancy e d = (x, d') \<Longrightarrow> \<exists>t. d' = d\<lparr>d_tc := t\<rparr>"
  "apply_retransmit_dscp e d = (x, d') \<Longrightarrow> \<exists>t. d' = d\<lparr>d_tc := t\<rparr>"
proof -
  show "apply_redundancy e d = (x, d') \<Longrightarrow> \<exists>t. d' = d\<lparr>d_tc := t\<rparr>"
    by (cases "d_tc d")
       (auto simp: apply_redundancy_def split: prod.splits if_splits intro: exI [of _ None])
  show "apply_retransmit_dscp e d = (x, d') \<Longrightarrow> \<exists>t. d' = d\<lparr>d_tc := t\<rparr>"
    by (cases "d_tc d")
       (auto simp: apply_retransmit_dscp_def split: prod.splits if_splits intro: exI [of _ None])
qed

lemma policy_frame:
  "push_rack_rto e d = (x, d') \<Longrightarrow> \<exists>p. d' = d\<lparr>d_policy := p\<rparr>"
  "switch_policy_on e d = (ls, d') \<Longrightarrow> \<exists>p. d' = d\<lparr>d_policy := p\<rparr>"
proof -
  show "push_rack_rto e d = (x, d') \<Longrightarrow> \<exists>p. d' = d\<lparr>d_policy := p\<rparr>"
    by (cases "d_policy d") (auto simp: push_rack_rto_def split: prod.splits intro: exI [of _ None])
  show "switch_policy_on e d = (ls, d') \<Longrightarrow> \<exists>p. d' = d\<lparr>d_policy := p\<rparr>"
    by (cases "d_policy d")
       (auto simp: switch_policy_on_def split: prod.splits sum.splits intro: exI [of _ None])
qed

lemma publish_or_attach_frame:
  assumes "publish_or_attach e d w = (x, d', w')"
  shows "(\<exists>ro a. d' = d\<lparr>d_runtime := ro, attached_at := a\<rparr>)
    \<and> (x = Inr () \<longrightarrow> validate (d_config d) = Inr () \<and> d_runtime d' \<noteq> None)"
proof -
  have same: "\<exists>ro a. d\<lparr>d_runtime := rt\<rparr> = d\<lparr>d_runtime := ro, attached_at := a\<rparr>" for rt
    by (intro exI [of _ rt] exI [of _ "attached_at d"]) simp
  from same [of "d_runtime d"] same show ?thesis
    using assms by (auto simp: publish_or_attach_def split: sum.splits prod.splits option.splits)
qed

text \<open>The ways the part of a drain before its wait ends.\<close>

abbreviation disarmed :: "daemon \<Rightarrow> daemon" where
  "disarmed d \<equiv> d\<lparr>d_guard := (d_guard d)\<lparr>armed := False\<rparr>\<rparr>"

lemma drain_begin_cases:
  assumes "drain_begin e d w = (x, d', w')"
  obtains (not_written) y where "set_default_cc e (fallback_cc (d_config d)) w = (Inl y, w')" "x = Inl y" "d' = disarmed d"
  | (policy_fails) p y p' where "set_default_cc e (fallback_cc (d_config d)) w = (Inr (), w')" "d_policy d = Some p"
      "set_policy_enabled e False p = (Inl y, p')" "x = Inl y" "d' = (disarmed d)\<lparr>d_policy := Some p'\<rparr>"
  | (redundancy) po d3 where "set_default_cc e (fallback_cc (d_config d)) w = (Inr (), w')"
      "po = d_policy d \<and> d_policy d = None \<or>
       (\<exists>p p'. d_policy d = Some p \<and> set_policy_enabled e False p = (Inr (), p') \<and> po = Some p')"
      "apply_redundancy e ((disarmed d)\<lparr>d_policy := po, accelerating := False\<rparr>) = (x, d3)"
      "d' = (if x = Inr () then d3\<lparr>draining := True\<rparr> else d3)"
proof -
  obtain r1 where a: "set_default_cc e (fallback_cc (d_config d)) w = (r1, w')"
  proof -
    obtain r1 w1 where s: "set_default_cc e (fallback_cc (d_config d)) w = (r1, w1)" by fastforce
    have "w1 = w'"
      using assms s
      by (auto simp: drain_begin_def disarm_and_def Let_def split: sum.splits prod.splits option.splits)
    with s that show ?thesis by blast
  qed
  show thesis
  proof (cases r1)
    case (Inl y)
    with a assms show ?thesis by (intro not_written) (auto simp: drain_begin_def disarm_and_def Let_def)
  next
    case (Inr u)
    show ?thesis
    proof (cases "d_policy d")
      case None
      have same: "(disarmed d)\<lparr>d_policy := None, accelerating := False\<rparr> = (disarmed d)\<lparr>accelerating := False\<rparr>"
        using None by simp
      obtain q d3 where c: "apply_redundancy e ((disarmed d)\<lparr>accelerating := False\<rparr>) = (q, d3)" by fastforce
      have "x = q \<and> d' = (if x = Inr () then d3\<lparr>draining := True\<rparr> else d3)"
        using c None a Inr assms by (cases q) (auto simp: drain_begin_def disarm_and_def Let_def)
      then show ?thesis
        using c None a Inr by (intro redundancy [of None d3]) (simp_all add: same)
    next
      case (Some p)
      obtain y p' where s: "set_policy_enabled e False p = (y, p')" by fastforce
      show ?thesis
      proof (cases y)
        case (Inl z)
        with s Some a Inr assms show ?thesis
          by (intro policy_fails [of p z p']) (auto simp: drain_begin_def disarm_and_def Let_def)
      next
        case (Inr v)
        obtain q d3 where c: "apply_redundancy e (d\<lparr>d_guard := (d_guard d)\<lparr>armed := False\<rparr>, d_policy := Some p',
            accelerating := False\<rparr>) = (q, d3)" by fastforce
        with Inr s Some a \<open>r1 = Inr u\<close> assms show ?thesis
          by (intro redundancy [of "Some p'" d3])
             (cases q; auto simp: drain_begin_def disarm_and_def Let_def)+
      qed
    qed
  qed
qed

lemma drain_begin_frame:
  assumes "drain_begin e d w = (x, d', w')"
  shows "\<exists>pol acc t dr. d' = (disarmed d)\<lparr>d_policy := pol, accelerating := acc, d_tc := t, draining := dr\<rparr>
    \<and> (acc \<longrightarrow> accelerating d) \<and> (x = Inr () \<longrightarrow> \<not> acc \<and> dr) \<and> (x \<noteq> Inr () \<longrightarrow> dr = draining d)"
  using assms
proof (cases rule: drain_begin_cases)
  case (not_written y)
  then show ?thesis
    by (intro exI [of _ "d_policy d"] exI [of _ "accelerating d"] exI [of _ "d_tc d"] exI [of _ "draining d"]) simp
next
  case (policy_fails p y p')
  then show ?thesis
    by (intro exI [of _ "Some p'"] exI [of _ "accelerating d"] exI [of _ "d_tc d"] exI [of _ "draining d"]) simp
next
  case (redundancy po d3)
  then obtain t where "d3 = (disarmed d)\<lparr>d_policy := po, accelerating := False, d_tc := t\<rparr>"
    using tc_frame(1) by blast
  with redundancy(4) show ?thesis
    by (intro exI [of _ po] exI [of _ False] exI [of _ t] exI [of _ "if x = Inr () then True else draining d"])
       simp
qed

end
