(* ===== verification/DaemonProps.thy ===== *)
theory DaemonProps
  imports DaemonFrames
begin

text \<open>
  What holds of the daemon however it is used: from its start, through any sequence of requests,
  guard ticks and changes by other programs, with whatever the kernel answers. The configuration
  in force is valid, the kernel runs what status reports, the guard is armed only while skyline_cc
  is registered, a failed request changes nothing that is reported, skyline_cc is unregistered by
  a request only once the default has left it, and every request is answered except a drain that
  is asked to wait.
\<close>

section \<open>The configuration stays valid\<close>

definition config_inv :: "daemon \<Rightarrow> bool" where
  "config_inv d =
     (validate (d_config d) = Inr () \<and> rack_rto_ok (rack_rto_defaults d)
      \<and> dscp_ok (retransmit_dscp_defaults d) \<and> redundancy_ok (redundancy_defaults d))"

definition same_defaults :: "daemon \<Rightarrow> daemon \<Rightarrow> bool" where
  "same_defaults d d' =
     (rack_rto_defaults d' = rack_rto_defaults d \<and> retransmit_dscp_defaults d' = retransmit_dscp_defaults d
      \<and> redundancy_defaults d' = redundancy_defaults d \<and> module_tuning_defaults d' = module_tuning_defaults d)"

lemma config_inv_step:
  "config_inv d \<Longrightarrow> same_defaults d d' \<Longrightarrow> validate (d_config d') = Inr () \<Longrightarrow> config_inv d'"
  by (simp add: config_inv_def same_defaults_def)

lemma enable_config:
  assumes "handle_enable e ms d w = (r, d', w')"
  shows "same_defaults d d' \<and> (d_config d' = d_config d \<or> validate (d_config d') = Inr ())"
proof -
  let ?c = "case ms of Some ms \<Rightarrow> (d_config d)\<lparr>enabled_modules := ms\<rparr> | None \<Rightarrow> d_config d"
  obtain x d2 w2 where p: "publish_or_attach e (d\<lparr>d_config := bump ?c\<rparr>) w = (x, d2, w2)" by (metis prod_cases3)
  obtain ro a where d2: "d2 = d\<lparr>d_config := bump ?c, d_runtime := ro, attached_at := a\<rparr>"
    and v: "x = Inr () \<Longrightarrow> validate (bump ?c) = Inr ()"
    using publish_or_attach_frame [OF p] by auto
  show ?thesis
  proof (cases x)
    case (Inl y)
    have "?c\<lparr>generation := g, enabled_modules := enabled_modules (d_config d), generation := generation (d_config d)\<rparr>
        = d_config d" for g
      by (cases ms) auto
    with Inl assms p d2 show ?thesis
      by (auto simp: handle_enable_def bump_def same_defaults_def split: option.splits)
  next
    case (Inr u)
    obtain ls d3 where s: "switch_policy_on e d2 = (ls, d3)" by fastforce
    then obtain pol where "d3 = d2\<lparr>d_policy := pol\<rparr>" using policy_frame(2) by blast
    with Inr assms p d2 s v show ?thesis
      by (auto simp: handle_enable_def enable_activate_def Let_def same_defaults_def
          dest!: tc_frame(1) split: prod.splits sum.splits)
  qed
qed

lemma drain_config:
  assumes "handle_drain e t d w = Some (r, d', w')"
  shows "same_defaults d d' \<and> d_config d' = d_config d"
  using assms
  by (auto simp: handle_drain_def drain_finish_def same_defaults_def dest!: drain_begin_frame
      split: prod.splits sum.splits if_splits)

lemmas daemon_frames = publish_runtime_frame tc_frame policy_frame

lemmas table_handlers = handle_validate_def handle_disable_module_def handle_set_rack_rto_def
  handle_reset_rack_rto_def handle_set_module_config_def handle_reset_module_config_def
  handle_set_retransmit_dscp_def handle_reset_retransmit_dscp_def handle_set_redundancy_def
  handle_reset_redundancy_def handle_snapshot_def

lemma valid_bump: "validate c = Inr () \<Longrightarrow> validate (bump c) = Inr ()"
  by (simp add: validate_tables)

lemma try_handle_config:
  assumes "try_handle e rq d w = Some (r, d', w')" "config_inv d"
  shows "same_defaults d d' \<and> (is_enable rq \<or> (\<exists>m. r = Inr m) \<longrightarrow> validate (d_config d') = Inr ())"
proof (cases rq)
  case (Enable ms)
  with assms show ?thesis using enable_config [of e ms d w r d' w'] by (auto simp: config_inv_def)
next
  case (Drain t)
  with assms show ?thesis using drain_config [of e t d w r d' w'] by (auto simp: config_inv_def)
next
  case (DisableModule m)
  with assms tuning_ok_fewer [of "d_config d"] show ?thesis
    by (auto simp: table_handlers same_defaults_def config_inv_def validate_tables is_enable_def Let_def
        dest!: daemon_frames split: prod.splits sum.splits)
qed (use assms in \<open>auto simp: table_handlers same_defaults_def config_inv_def validate_tables is_enable_def Let_def
        valid_bump dest!: daemon_frames split: prod.splits sum.splits\<close>)

lemma handle_state_Some:
  "handle_state e rq d w = Some (r, d', w') \<longleftrightarrow>
     (\<exists>d1. try_handle e rq d w = Some (r, d1, w')
        \<and> d' = (if is_enable rq \<or> (\<exists>m. r = Inr m) then d1 else d1\<lparr>d_config := d_config d\<rparr>))"
proof (cases "try_handle e rq d w")
  case (Some out)
  obtain x d1 w1 where "out = (x, d1, w1)" by (metis prod_cases3)
  with Some show ?thesis by (cases x) (auto simp: handle_state_def)
qed (simp add: handle_state_def)

lemma handle_state_config:
  assumes "handle_state e rq d w = Some (r, d', w')" "config_inv d"
  shows "config_inv d'"
proof -
  obtain d1 where t: "try_handle e rq d w = Some (r, d1, w')"
    and d': "d' = (if is_enable rq \<or> (\<exists>m. r = Inr m) then d1 else d1\<lparr>d_config := d_config d\<rparr>)"
    using assms(1) by (auto simp: handle_state_Some)
  from try_handle_config [OF t assms(2)] assms(2) show ?thesis
    unfolding d' by (auto simp: config_inv_def same_defaults_def)
qed

section \<open>The kernel runs what status reports\<close>

text \<open>
  The four tables of the configuration that have a life in the kernel. The generation of a
  published image may be older: only \<open>rack_rto\<close> changes bump it without publishing.
\<close>

definition rto_runs :: "daemon \<Rightarrow> bool" where
  "rto_runs d =
     (rr_enabled (rack_rto (d_config d)) \<longrightarrow>
        (\<exists>p ob g. d_policy d = Some p \<and> pr_object p = Some ob
           \<and> po_rto ob = Some (rack_rto_kernel_config (rack_rto (d_config d)) g)))"

definition dscp_runs :: "daemon \<Rightarrow> bool" where
  "dscp_runs d =
     (rd_enabled (retransmit_dscp (d_config d)) \<longrightarrow>
        (\<exists>t ob. d_tc d = Some t \<and> tr_object t = Some ob
           \<and> to_dscp ob = Some (retransmit_dscp_kernel_config (retransmit_dscp (d_config d)))))"

definition redundancy_runs :: "daemon \<Rightarrow> bool" where
  "redundancy_runs d =
     (\<forall>t. d_tc d = Some t \<and> tr_redundancy_active t \<longrightarrow>
        red_enabled (redundancy (d_config d)) \<and>
        (\<exists>ob. tr_object t = Some ob
           \<and> to_redundancy ob = Some (redundancy_kernel_config (redundancy (d_config d)) True)))"

definition kernel_inv :: "daemon \<Rightarrow> bool" where
  "kernel_inv d =
     ((\<forall>r. d_runtime d = Some r \<longrightarrow> published (d_config d) r) \<and> rto_runs d \<and> dscp_runs d \<and> redundancy_runs d)"

lemmas runs_defs = rto_runs_def dscp_runs_def redundancy_runs_def

text \<open>Each table's write: done, or everything as it was.\<close>

lemma push_rack_rto_runs:
  assumes "push_rack_rto e d = (x, d')"
  shows "x = Inr () \<Longrightarrow> rto_runs d'" and "x \<noteq> Inr () \<Longrightarrow> d' = d"
proof -
  have "(x = Inr () \<longrightarrow> rto_runs d') \<and> (x \<noteq> Inr () \<longrightarrow> d' = d)"
  proof (cases "\<exists>p ob. d_policy d = Some p \<and> pr_object p = Some ob")
    case True
    then obtain p ob where o: "d_policy d = Some p" "pr_object p = Some ob" by blast
    then have "p\<lparr>pr_object := Some ob\<rparr> = p" "d\<lparr>d_policy := Some p\<rparr> = d" by simp_all
    with o assms show ?thesis
      by (auto simp: push_rack_rto_def set_rto_tuning_def write_rto_tuning_def rto_runs_def
          split: prod.splits sum.splits)
  qed (use assms in \<open>auto simp: push_rack_rto_def set_rto_tuning_def split: option.splits prod.splits\<close>)
  then show "x = Inr () \<Longrightarrow> rto_runs d'" and "x \<noteq> Inr () \<Longrightarrow> d' = d" by auto
qed

lemma apply_retransmit_dscp_runs:
  assumes "apply_retransmit_dscp e d = (x, d')"
  shows "x = Inr () \<Longrightarrow> dscp_runs d'" and "x \<noteq> Inr () \<Longrightarrow> d' = d"
    and "redundancy_runs d \<Longrightarrow> redundancy_runs d'"
proof -
  have "(x = Inr () \<longrightarrow> dscp_runs d') \<and> (x \<noteq> Inr () \<longrightarrow> d' = d) \<and> (redundancy_runs d \<longrightarrow> redundancy_runs d')"
  proof (cases "\<exists>t ob. d_tc d = Some t \<and> tc_object_with e ''retransmit_dscp_config'' t = Some ob")
    case True
    then obtain t ob where o: "d_tc d = Some t" "tc_object_with e ''retransmit_dscp_config'' t = Some ob" by blast
    then have ob: "tr_object t = Some ob" by (simp add: tc_object_with_def split: if_splits)
    then have "t\<lparr>tr_object := Some ob\<rparr> = t" "d\<lparr>d_tc := Some t\<rparr> = d" using o by simp_all
    with o ob assms show ?thesis
      by (auto simp: apply_retransmit_dscp_def set_retransmit_dscp_def write_retransmit_dscp_config_def
          dscp_runs_def redundancy_runs_def split: prod.splits sum.splits)
  next
    case False
    show ?thesis
    proof (cases "d_tc d")
      case None
      with assms show ?thesis by (auto simp: apply_retransmit_dscp_def runs_defs split: if_splits)
    next
      case (Some t)
      then have "d\<lparr>d_tc := Some t\<rparr> = d" by simp
      with Some False assms show ?thesis
        by (auto simp: apply_retransmit_dscp_def set_retransmit_dscp_def runs_defs split: if_splits option.splits)
    qed
  qed
  then show "x = Inr () \<Longrightarrow> dscp_runs d'" and "x \<noteq> Inr () \<Longrightarrow> d' = d"
    and "redundancy_runs d \<Longrightarrow> redundancy_runs d'" by auto
qed

lemma set_redundancy_runs:
  assumes "set_redundancy e c a t = (x, t')"
  shows "(x \<noteq> Inr () \<longrightarrow> t' = t)
    \<and> (x = Inr () \<and> tr_redundancy_active t' \<longrightarrow> red_enabled c \<and> a \<and>
        (\<exists>ob. tr_object t' = Some ob \<and> to_redundancy ob = Some (redundancy_kernel_config c True)))
    \<and> map_option to_dscp (tr_object t') = map_option to_dscp (tr_object t)"
proof (cases "tc_object_with e ''redundancy_config'' t")
  case None
  with assms show ?thesis by (auto simp: set_redundancy_def Let_def split: if_splits)
next
  case (Some ob)
  then have ob: "tr_object t = Some ob" by (simp add: tc_object_with_def split: if_splits)
  then have same: "t\<lparr>tr_object := Some ob\<rparr> = t" by simp
  show ?thesis
  proof (cases "bpf_update e ''redundancy_config'' ''update redundancy_config map''")
    case (Inl y)
    with Some assms same show ?thesis by (auto simp: set_redundancy_def write_redundancy_config_def Let_def)
  next
    case (Inr u)
    with Some assms ob show ?thesis
      by (auto simp: set_redundancy_def write_redundancy_config_def Let_def)
  qed
qed

lemma apply_redundancy_runs:
  assumes "apply_redundancy e d = (x, d')"
  shows "x = Inr () \<Longrightarrow> redundancy_runs d'" and "x \<noteq> Inr () \<Longrightarrow> d' = d"
    and "dscp_runs d \<Longrightarrow> dscp_runs d'"
proof -
  have "(x = Inr () \<longrightarrow> redundancy_runs d') \<and> (x \<noteq> Inr () \<longrightarrow> d' = d) \<and> (dscp_runs d \<longrightarrow> dscp_runs d')"
  proof (cases "d_tc d")
    case None
    with assms show ?thesis by (auto simp: apply_redundancy_def runs_defs split: if_splits)
  next
    case (Some t)
    obtain y t' where s: "set_redundancy e (redundancy (d_config d)) (accelerating d) t = (y, t')" by fastforce
    then have d': "x = y" "d' = d\<lparr>d_tc := Some t'\<rparr>" using assms Some by (auto simp: apply_redundancy_def)
    note r = set_redundancy_runs [OF s]
    have "d' = d" if "x \<noteq> Inr ()" using that r d' Some by simp
    moreover have "redundancy_runs d'" if "x = Inr ()" using that r d' by (auto simp: redundancy_runs_def)
    moreover have "dscp_runs d'" if "dscp_runs d"
    proof (cases "rd_enabled (retransmit_dscp (d_config d))")
      case True
      with that Some obtain ob where "tr_object t = Some ob"
        "to_dscp ob = Some (retransmit_dscp_kernel_config (retransmit_dscp (d_config d)))"
        by (auto simp: dscp_runs_def)
      with r d' show ?thesis by (cases "tr_object t'") (auto simp: dscp_runs_def)
    qed (simp add: dscp_runs_def d')
    ultimately show ?thesis by blast
  qed
  then show "x = Inr () \<Longrightarrow> redundancy_runs d'" and "x \<noteq> Inr () \<Longrightarrow> d' = d"
    and "dscp_runs d \<Longrightarrow> dscp_runs d'" by auto
qed

lemma set_policy_enabled_runs:
  assumes "set_policy_enabled e b p = (x, p')" "d_policy d = Some p" "rto_runs d"
  shows "rto_runs (d\<lparr>d_policy := Some p'\<rparr>)"
  using assms
  by (auto simp: set_policy_enabled_def write_policy_enabled_def rto_runs_def
      split: option.splits prod.splits sum.splits if_splits)

text \<open>Publishing: the new image on success, the previous one on failure.\<close>

definition runs_config :: "skyline_config \<Rightarrow> daemon \<Rightarrow> bool" where
  "runs_config c d = (\<forall>r. d_runtime d = Some r \<longrightarrow> published c r)"

lemma publish_runtime_runs:
  assumes "publish_runtime e d = (x, d')" "runs_config c d" "generation (d_config d) \<noteq> 0"
  shows "runs_config (if x = Inr () then d_config d else c) d'"
proof (cases "d_runtime d")
  case None
  with publish_runtime_frame [OF assms(1)] show ?thesis by (auto simp: runs_config_def)
next
  case (Some r)
  with publish_runtime_frame [OF assms(1)] obtain r' where u: "update_config e (d_config d) r = (x, r')"
    and d': "d_runtime d' = Some r'" by auto
  have "published c r" using assms(2) Some by (simp add: runs_config_def)
  from published_update [OF u this] assms(3) d' show ?thesis
    by (cases x) (auto simp: runs_config_def)
qed

lemma publish_or_attach_valid:
  assumes "validate (d_config d) = Inr ()" "validate_capabilities (d_capabilities d) = Inr ()"
  shows "publish_or_attach e d w =
     (case d_runtime d of
        Some r \<Rightarrow> (case update_config e (d_config d) r of (x, r') \<Rightarrow> (x, d\<lparr>d_runtime := Some r'\<rparr>, w))
      | None \<Rightarrow>
          (case bpf_load e (d_config d) (d_event_log d) w of
             (Inl x, w') \<Rightarrow> (Inl x, d, w')
           | (Inr r, w') \<Rightarrow> (Inr (), d\<lparr>d_runtime := Some r, attached_at := Some (env_now e)\<rparr>, w')))"
  using assms by (simp add: publish_or_attach_def validate_config_def)

lemma publish_or_attach_runs:
  assumes "publish_or_attach e d w = (x, d', w')" "runs_config c d"
  shows "runs_config (if x = Inr () then d_config d else c) d'"
proof (cases "validate (d_config d) = Inr () \<and> validate_capabilities (d_capabilities d) = Inr ()")
  case False
  then have "x \<noteq> Inr () \<and> d' = d"
    using assms(1) by (auto simp: publish_or_attach_def validate_config_def split: sum.splits)
  with assms(2) show ?thesis by simp
next
  case True
  then have g: "generation (d_config d) \<noteq> 0" by (simp add: validate_tables)
  note v = publish_or_attach_valid [OF conjunct1 [OF True] conjunct2 [OF True]]
  show ?thesis
  proof (cases "d_runtime d")
    case (Some r)
    obtain y r' where u: "update_config e (d_config d) r = (y, r')" by fastforce
    have "published c r" using assms(2) Some by (simp add: runs_config_def)
    from published_update [OF u this] g u Some assms(1) show ?thesis
      by (cases y) (auto simp: runs_config_def v)
  next
    case None
    show ?thesis
    proof (cases "fst (bpf_load e (d_config d) (d_event_log d) w)")
      case (Inl y)
      with None assms(1) show ?thesis
        by (auto simp: runs_config_def v split: prod.splits sum.splits)
    next
      case (Inr r)
      then obtain w2 where l: "bpf_load e (d_config d) (d_event_log d) w = (Inr r, w2)" by (metis surj_pair fst_conv)
      with bpf_load_ok [OF l] published_ok g None assms(1) show ?thesis
        by (auto simp: runs_config_def v)
    qed
  qed
qed

lemma runs_config_image:
  "runs_config c d \<Longrightarrow> config_kernel_config c' = (config_kernel_config c)\<lparr>k_generation := g\<rparr> \<Longrightarrow> runs_config c' d"
  using published_image by (auto simp: runs_config_def)

lemma kernel_inv_alt: "kernel_inv d \<longleftrightarrow> runs_config (d_config d) d \<and> rto_runs d \<and> dscp_runs d \<and> redundancy_runs d"
  by (simp add: kernel_inv_def runs_config_def)

lemma tables_frame:
  "d_policy d' = d_policy d \<Longrightarrow> rack_rto (d_config d') = rack_rto (d_config d) \<Longrightarrow> rto_runs d' = rto_runs d"
  "d_tc d' = d_tc d \<Longrightarrow> retransmit_dscp (d_config d') = retransmit_dscp (d_config d) \<Longrightarrow> dscp_runs d' = dscp_runs d"
  "d_tc d' = d_tc d \<Longrightarrow> redundancy (d_config d') = redundancy (d_config d) \<Longrightarrow> redundancy_runs d' = redundancy_runs d"
  by (simp_all add: runs_defs)

lemma publishing_kernel:
  assumes "publish_runtime e (d\<lparr>d_config := bump c\<rparr>) = (x, d1)" "kernel_inv d"
    and same: "rack_rto c = rack_rto (d_config d)" "retransmit_dscp c = retransmit_dscp (d_config d)"
    "redundancy c = redundancy (d_config d)"
  shows "x = Inr () \<Longrightarrow> kernel_inv d1" and "x \<noteq> Inr () \<Longrightarrow> kernel_inv (d1\<lparr>d_config := d_config d\<rparr>)"
proof -
  obtain ro where d1: "d1 = d\<lparr>d_config := bump c, d_runtime := ro\<rparr>"
    using publish_runtime_frame [OF assms(1)] by auto
  have old: "runs_config (d_config d) (d\<lparr>d_config := bump c\<rparr>)"
    using assms(2) by (simp add: kernel_inv_alt runs_config_def)
  have g: "generation (d_config (d\<lparr>d_config := bump c\<rparr>)) \<noteq> 0" by simp
  note p = publish_runtime_runs [OF assms(1) old g]
  have tables: "rto_runs d" "dscp_runs d" "redundancy_runs d" using assms(2) by (simp_all add: kernel_inv_alt)
  show "kernel_inv d1" if "x = Inr ()"
    unfolding kernel_inv_alt using that p tables tables_frame [of d1 d] same by (simp add: d1)
  let ?d = "d1\<lparr>d_config := d_config d\<rparr>"
  show "kernel_inv ?d" if "x \<noteq> Inr ()"
    unfolding kernel_inv_alt using that p tables tables_frame [of ?d d] by (simp add: d1 runs_config_def)
qed

lemma switch_policy_on_runs:
  assumes "switch_policy_on e d = (ls, d')" "kernel_inv d"
  shows "kernel_inv d'"
proof (cases "d_policy d")
  case None
  with assms show ?thesis by (simp add: switch_policy_on_def)
next
  case (Some p)
  obtain x p' where s: "set_policy_enabled e True p = (x, p')" by fastforce
  with assms(1) Some have d': "d' = d\<lparr>d_policy := Some p'\<rparr>"
    by (auto simp: switch_policy_on_def split: sum.splits)
  have "rto_runs d'"
    unfolding d' using assms(2) by (intro set_policy_enabled_runs [OF s Some]) (simp add: kernel_inv_alt)
  moreover have "dscp_runs d' = dscp_runs d" "redundancy_runs d' = redundancy_runs d"
    by (rule tables_frame; simp add: d')+
  ultimately show ?thesis using assms(2) by (simp add: kernel_inv_alt d' runs_config_def)
qed

lemma apply_redundancy_kernel:
  assumes "apply_redundancy e d = (x, d')" "runs_config (d_config d) d" "rto_runs d" "dscp_runs d"
    and "x \<noteq> Inr () \<Longrightarrow> redundancy_runs d"
  shows "kernel_inv d'"
proof -
  obtain t where d': "d' = d\<lparr>d_tc := t\<rparr>" using tc_frame(1) [OF assms(1)] by blast
  have "rto_runs d'" "runs_config (d_config d') d'"
    using assms(2,3) by (simp_all add: d' rto_runs_def runs_config_def)
  moreover have "dscp_runs d'" by (rule apply_redundancy_runs(3) [OF assms(1,4)])
  moreover have "redundancy_runs d'"
    using apply_redundancy_runs(1,2) [OF assms(1)] assms(5) by (cases "x = Inr ()") simp_all
  ultimately show ?thesis by (simp add: kernel_inv_alt)
qed

lemma enable_activate_kernel:
  assumes "enable_activate e d w = (r, d', w')" "kernel_inv d"
  shows "kernel_inv d'"
proof -
  obtain ls d1 where s: "switch_policy_on e d = (ls, d1)" by fastforce
  have k: "kernel_inv d1" by (rule switch_policy_on_runs [OF s assms(2)])
  show ?thesis
  proof (cases "fst (set_default_cc e SKYLINE_CC_NAME w)")
    case (Inl x)
    with s k assms(1) show ?thesis by (auto simp: enable_activate_def split: prod.splits sum.splits)
  next
    case (Inr u)
    then obtain w1 where c: "set_default_cc e SKYLINE_CC_NAME w = (Inr u, w1)" by (metis surj_pair fst_conv)
    obtain sw g rep where a: "arm_and_enforce (d_guard_settings d1) (system_host (env_kernel e)) (env_now e) (env_unix e)
        (dw_sys w1) (d_guard d1) = (sw, g, rep)" by (metis prod_cases3)
    let ?d = "d1\<lparr>d_guard := g, accelerating := True, draining := False\<rparr>"
    obtain x d3 where p: "apply_redundancy e ?d = (x, d3)" by fastforce
    have "kernel_inv d3"
      by (rule apply_redundancy_kernel [OF p])
         (use k tables_frame [of ?d d1] in \<open>simp_all add: kernel_inv_alt runs_config_def\<close>)
    with s c a p assms(1) show ?thesis by (auto simp: enable_activate_def Let_def split: sum.splits)
  qed
qed

lemma enable_kernel:
  assumes "handle_enable e ms d w = (r, d', w')" "kernel_inv d"
  shows "kernel_inv d'"
proof -
  let ?c = "case ms of Some ms \<Rightarrow> (d_config d)\<lparr>enabled_modules := ms\<rparr> | None \<Rightarrow> d_config d"
  let ?d = "d\<lparr>d_config := bump ?c\<rparr>"
  have tabs: "rack_rto ?c = rack_rto (d_config d)" "retransmit_dscp ?c = retransmit_dscp (d_config d)"
    "redundancy ?c = redundancy (d_config d)"
    by (simp_all split: option.splits)
  obtain x d2 w2 where p: "publish_or_attach e ?d w = (x, d2, w2)" by (metis prod_cases3)
  obtain ro a where d2: "d2 = ?d\<lparr>d_runtime := ro, attached_at := a\<rparr>"
    using publish_or_attach_frame [OF p] by auto
  have old: "runs_config (d_config d) ?d" and t: "rto_runs d" "dscp_runs d" "redundancy_runs d"
    using assms(2) by (simp_all add: kernel_inv_alt runs_config_def)
  note q = publish_or_attach_runs [OF p old]
  show ?thesis
  proof (cases x)
    case (Inl y)
    let ?e = "d2\<lparr>d_config := (d_config d2)\<lparr>enabled_modules := enabled_modules (d_config d),
        generation := generation (d_config d)\<rparr>\<rparr>"
    have e: "d_config ?e = d_config d"
      by (cases ms) (simp_all add: d2 bump_def)
    then have "rto_runs ?e" "dscp_runs ?e" "redundancy_runs ?e"
      using tables_frame [of ?e d] t by (simp_all add: d2)
    with q Inl e have "kernel_inv ?e" by (simp add: kernel_inv_alt runs_config_def)
    with Inl assms(1) p show ?thesis by (auto simp: handle_enable_def Let_def)
  next
    case (Inr u)
    have "rto_runs d2" "dscp_runs d2" "redundancy_runs d2"
      using tables_frame [of d2 d] t tabs by (simp_all add: d2)
    with q Inr have "kernel_inv d2" by (simp add: kernel_inv_alt d2)
    with Inr assms(1) p show ?thesis
      using enable_activate_kernel [of e d2 w2 r d' w'] by (simp add: handle_enable_def Let_def)
  qed
qed

lemma drain_begin_kernel:
  assumes "drain_begin e d w = (x, d', w')" "kernel_inv d"
  shows "kernel_inv d'"
  using assms(1)
proof (cases rule: drain_begin_cases)
  case (not_written y)
  with assms(2) tables_frame [of d' d] show ?thesis by (simp add: kernel_inv_alt runs_config_def)
next
  case (policy_fails p y p')
  have "rto_runs (d\<lparr>d_policy := Some p'\<rparr>)"
    using assms(2) by (intro set_policy_enabled_runs [OF policy_fails(3,2)]) (simp add: kernel_inv_alt)
  with assms(2) policy_fails tables_frame [of d' d] tables_frame(1) [of d' "d\<lparr>d_policy := Some p'\<rparr>"]
  show ?thesis by (simp add: kernel_inv_alt runs_config_def)
next
  case (redundancy po d3)
  let ?d = "(disarmed d)\<lparr>d_policy := po, accelerating := False\<rparr>"
  have "rto_runs (d\<lparr>d_policy := po\<rparr>)"
    using redundancy(2) assms(2) set_policy_enabled_runs [of e False _ "Inr ()" _ d] tables_frame(1) [of "d\<lparr>d_policy := None\<rparr>" d]
    by (auto simp: kernel_inv_alt)
  then have "rto_runs ?d" using tables_frame(1) [of ?d "d\<lparr>d_policy := po\<rparr>"] by simp
  moreover have "runs_config (d_config ?d) ?d" "dscp_runs ?d" "redundancy_runs ?d"
    using assms(2) tables_frame [of ?d d] by (simp_all add: kernel_inv_alt runs_config_def)
  ultimately have "kernel_inv d3" by (intro apply_redundancy_kernel [OF redundancy(3)])
  then show ?thesis
    using redundancy(4) tables_frame [of "d3\<lparr>draining := True\<rparr>" d3] by (simp add: kernel_inv_alt runs_config_def)
qed

lemma drain_kernel:
  assumes "handle_drain e t d w = Some (r, d', w')" "kernel_inv d"
  shows "kernel_inv d'"
proof -
  obtain x d1 w1 where b: "drain_begin e d w = (x, d1, w1)" by (metis prod_cases3)
  have k: "kernel_inv d1" by (rule drain_begin_kernel [OF b assms(2)])
  have "d' = d1 \<or> d' = d1\<lparr>d_runtime := None, attached_at := None, draining := False\<rparr>"
    using assms(1) b
    by (auto simp: handle_drain_def drain_finish_def split: sum.splits if_splits option.splits prod.splits)
  then show ?thesis
    using k tables_frame [of "d1\<lparr>d_runtime := None, attached_at := None, draining := False\<rparr>" d1]
    by (auto simp: kernel_inv_alt runs_config_def)
qed

lemma set_rack_rto_kernel:
  assumes "push_rack_rto e (d\<lparr>d_config := bump c\<rparr>) = (x, d1)" "kernel_inv d"
    and "config_kernel_config c = config_kernel_config (d_config d)"
      "retransmit_dscp c = retransmit_dscp (d_config d)" "redundancy c = redundancy (d_config d)"
  shows "x = Inr () \<Longrightarrow> kernel_inv d1" and "x \<noteq> Inr () \<Longrightarrow> kernel_inv (d1\<lparr>d_config := d_config d\<rparr>)"
proof -
  obtain p where d1: "d1 = d\<lparr>d_config := bump c, d_policy := p\<rparr>" using policy_frame(1) [OF assms(1)] by auto
  have "runs_config (bump c) d1"
    using assms(2,3) runs_config_image [of "d_config d" d1 "bump c" "generation (bump c)"]
    by (simp add: kernel_inv_alt runs_config_def d1)
  with assms(2,4,5) tables_frame(2,3) [of d1 d] push_rack_rto_runs(1) [OF assms(1)]
  show "x = Inr () \<Longrightarrow> kernel_inv d1" by (simp add: kernel_inv_alt d1)
  show "kernel_inv (d1\<lparr>d_config := d_config d\<rparr>)" if "x \<noteq> Inr ()"
    using push_rack_rto_runs(2) [OF assms(1) that] assms(2) by simp
qed

lemma set_dscp_kernel:
  assumes "apply_retransmit_dscp e (d\<lparr>d_config := (d_config d)\<lparr>retransmit_dscp := c\<rparr>\<rparr>) = (x, d1)" "kernel_inv d"
  shows "x = Inr () \<Longrightarrow> kernel_inv d1" and "x \<noteq> Inr () \<Longrightarrow> kernel_inv (d1\<lparr>d_config := d_config d\<rparr>)"
proof -
  let ?d = "d\<lparr>d_config := (d_config d)\<lparr>retransmit_dscp := c\<rparr>\<rparr>"
  obtain t where d1: "d1 = ?d\<lparr>d_tc := t\<rparr>" using tc_frame(2) [OF assms(1)] by auto
  have im: "config_kernel_config ((d_config d)\<lparr>retransmit_dscp := c\<rparr>)
      = (config_kernel_config (d_config d))\<lparr>k_generation := generation (d_config d)\<rparr>"
    by (simp add: config_kernel_config_def feature_mask_def)
  have "runs_config (d_config d) d1" using assms(2) by (simp add: kernel_inv_alt runs_config_def d1)
  then have "runs_config (d_config d1) d1"
    using runs_config_image [OF _ im] by (simp add: d1)
  moreover have "redundancy_runs d1"
    using apply_retransmit_dscp_runs(3) [OF assms(1)] tables_frame(3) [of ?d d] assms(2) by (simp add: kernel_inv_alt)
  moreover have "rto_runs d1" using assms(2) tables_frame(1) [of d1 d] by (simp add: kernel_inv_alt d1)
  ultimately show "x = Inr () \<Longrightarrow> kernel_inv d1"
    using apply_retransmit_dscp_runs(1) [OF assms(1)] by (simp add: kernel_inv_alt)
  show "kernel_inv (d1\<lparr>d_config := d_config d\<rparr>)" if "x \<noteq> Inr ()"
    using apply_retransmit_dscp_runs(2) [OF assms(1) that] assms(2) by simp
qed

lemma set_redundancy_kernel:
  assumes "apply_redundancy e (d\<lparr>d_config := (d_config d)\<lparr>redundancy := c\<rparr>\<rparr>) = (x, d1)" "kernel_inv d"
  shows "x = Inr () \<Longrightarrow> kernel_inv d1" and "x \<noteq> Inr () \<Longrightarrow> kernel_inv (d1\<lparr>d_config := d_config d\<rparr>)"
proof -
  let ?d = "d\<lparr>d_config := (d_config d)\<lparr>redundancy := c\<rparr>\<rparr>"
  have im: "config_kernel_config ((d_config d)\<lparr>redundancy := c\<rparr>)
      = (config_kernel_config (d_config d))\<lparr>k_generation := generation (d_config d)\<rparr>"
    by (simp add: config_kernel_config_def feature_mask_def)
  have "runs_config (d_config d) ?d" using assms(2) by (simp add: kernel_inv_alt runs_config_def)
  then have "runs_config (d_config ?d) ?d"
    using runs_config_image [OF _ im] by simp
  moreover have "rto_runs ?d" "dscp_runs ?d" using assms(2) tables_frame [of ?d d] by (simp_all add: kernel_inv_alt)
  ultimately show "x = Inr () \<Longrightarrow> kernel_inv d1"
    by (intro apply_redundancy_kernel [OF assms(1)]) simp_all
  show "kernel_inv (d1\<lparr>d_config := d_config d\<rparr>)" if "x \<noteq> Inr ()"
    using apply_redundancy_runs(2) [OF assms(1) that] assms(2) by simp
qed

text \<open>What \<open>handle\<close> leaves of a request other than \<open>Enable\<close>: its configuration only if it succeeded.\<close>

definition settled :: "daemon \<Rightarrow> (anyhow, string) result \<Rightarrow> daemon \<Rightarrow> daemon" where
  "settled d r d1 = (case r of Inr _ \<Rightarrow> d1 | Inl _ \<Rightarrow> d1\<lparr>d_config := d_config d\<rparr>)"

lemma settled_cases:
  assumes "x = Inr () \<Longrightarrow> P d1" "x \<noteq> Inr () \<Longrightarrow> P (d1\<lparr>d_config := d_config d\<rparr>)"
    and "(\<exists>m. r = Inr m) \<longleftrightarrow> x = (Inr () :: (anyhow, unit) result)"
  shows "P (settled d r d1)"
  using assms by (cases r) (auto simp: settled_def)

lemma settled_Inl: "settled d (Inl y) d1 = d1\<lparr>d_config := d_config d\<rparr>" "settled d (Inr m) d1 = d1"
  by (simp_all add: settled_def)

lemma disable_kernel:
  assumes "handle_disable_module e m d w = (r, d1, w')" "kernel_inv d"
  shows "kernel_inv (settled d r d1)"
proof -
  let ?c = "(d_config d)\<lparr>enabled_modules := filter (\<lambda>i. i \<noteq> m) (enabled_modules (d_config d))\<rparr>"
  obtain x d2 where p: "publish_runtime e (d\<lparr>d_config := bump ?c\<rparr>) = (x, d2)" by fastforce
  have "d1 = d2 \<and> ((\<exists>m. r = Inr m) \<longleftrightarrow> x = Inr ())"
    using assms(1) p by (cases x) (auto simp: handle_disable_module_def Let_def)
  then show ?thesis
    using publishing_kernel [OF p assms(2)] by - (rule settled_cases [of x kernel_inv]; simp)
qed

text \<open>A validated table change: rejected and put back, or passed on.\<close>

lemma publish_tuning_kernel:
  assumes "(case publish_runtime e (d\<lparr>d_config := bump (apply_to t (d_config d))\<rparr>) of
      (Inl x, d2) \<Rightarrow> (Inl x, d2, w) | (Inr _, d2) \<Rightarrow> (Inr (msg d2), d2, w)) = (r, d1, w')" "kernel_inv d"
  shows "kernel_inv (settled d r d1)"
proof -
  obtain x d2 where p: "publish_runtime e (d\<lparr>d_config := bump (apply_to t (d_config d))\<rparr>) = (x, d2)" by fastforce
  have "d1 = d2 \<and> ((\<exists>m. r = Inr m) \<longleftrightarrow> x = Inr ())" using assms(1) p by (cases x) auto
  then show ?thesis
    using publishing_kernel [OF p assms(2)] by - (rule settled_cases [of x kernel_inv]; simp)
qed

lemma set_module_config_kernel:
  assumes "handle_set_module_config e t d w = (r, d1, w')" "kernel_inv d"
  shows "kernel_inv (settled d r d1)"
proof (cases "validate_config e (apply_to t (d_config d))")
  case (Inl y)
  then have "settled d r d1 = d" using assms(1) by (auto simp: handle_set_module_config_def Let_def settled_Inl)
  with assms(2) show ?thesis by simp
next
  case (Inr u)
  note assms(1) [unfolded handle_set_module_config_def Let_def Inr sum.case]
  from publish_tuning_kernel [OF this assms(2)] show ?thesis .
qed

lemma reset_module_config_kernel:
  assumes "handle_reset_module_config e d w = (r, d1, w')" "kernel_inv d"
  shows "kernel_inv (settled d r d1)"
proof (cases "validate_config e (apply_to (module_tuning_defaults d) (d_config d))")
  case (Inl y)
  then have "settled d r d1 = d" using assms(1) by (auto simp: handle_reset_module_config_def Let_def settled_Inl)
  with assms(2) show ?thesis by simp
next
  case (Inr u)
  note assms(1) [unfolded handle_reset_module_config_def Let_def Inr sum.case]
  from publish_tuning_kernel [OF this assms(2)] show ?thesis .
qed

lemma rack_rto_kernel:
  assumes "(case push_rack_rto e (d\<lparr>d_config := bump ((d_config d)\<lparr>rack_rto := c\<rparr>)\<rparr>) of
      (Inl x, d2) \<Rightarrow> (Inl x, d2, w) | (Inr _, d2) \<Rightarrow> (Inr (msg d2), d2, w)) = (r, d1, w')" "kernel_inv d"
  shows "kernel_inv (settled d r d1)"
proof -
  obtain x d2 where p: "push_rack_rto e (d\<lparr>d_config := bump ((d_config d)\<lparr>rack_rto := c\<rparr>)\<rparr>) = (x, d2)" by fastforce
  have "d1 = d2 \<and> ((\<exists>m. r = Inr m) \<longleftrightarrow> x = Inr ())" using assms(1) p by (cases x) auto
  then show ?thesis
    using set_rack_rto_kernel [OF p assms(2)] by - (rule settled_cases [of x kernel_inv]; simp)
qed

lemma rack_rto_requests_kernel:
  shows "handle_set_rack_rto e c d w = (r, d1, w') \<Longrightarrow> kernel_inv d \<Longrightarrow> kernel_inv (settled d r d1)"
    and "handle_reset_rack_rto e d w = (r, d1, w') \<Longrightarrow> kernel_inv d \<Longrightarrow> kernel_inv (settled d r d1)"
proof -
  assume h: "handle_set_rack_rto e c d w = (r, d1, w')" and k: "kernel_inv d"
  show "kernel_inv (settled d r d1)"
  proof (cases "validate_config e ((d_config d)\<lparr>rack_rto := c\<rparr>)")
    case (Inl y)
    with h have "settled d r d1 = d" by (auto simp: handle_set_rack_rto_def Let_def settled_Inl)
    with k show ?thesis by simp
  next
    case (Inr u)
    note h [unfolded handle_set_rack_rto_def Let_def Inr sum.case]
    from rack_rto_kernel [OF this k] show ?thesis .
  qed
next
  assume h: "handle_reset_rack_rto e d w = (r, d1, w')" and k: "kernel_inv d"
  note h [unfolded handle_reset_rack_rto_def]
  from rack_rto_kernel [OF this k] show "kernel_inv (settled d r d1)" .
qed

lemma dscp_requests_kernel:
  shows "handle_set_retransmit_dscp e c d w = (r, d1, w') \<Longrightarrow> kernel_inv d \<Longrightarrow> kernel_inv (settled d r d1)"
    and "handle_reset_retransmit_dscp e d w = (r, d1, w') \<Longrightarrow> kernel_inv d \<Longrightarrow> kernel_inv (settled d r d1)"
proof -
  have core: "kernel_inv (settled d r d1)"
    if "(case apply_retransmit_dscp e (d\<lparr>d_config := (d_config d)\<lparr>retransmit_dscp := c\<rparr>\<rparr>) of
        (Inl x, d2) \<Rightarrow> (Inl x, d2, w) | (Inr _, d2) \<Rightarrow> (Inr msg, d2, w)) = (r, d1, w')" and k: "kernel_inv d" for c msg
  proof -
    obtain x d2 where p: "apply_retransmit_dscp e (d\<lparr>d_config := (d_config d)\<lparr>retransmit_dscp := c\<rparr>\<rparr>) = (x, d2)" by fastforce
    have "d1 = d2 \<and> ((\<exists>m. r = Inr m) \<longleftrightarrow> x = Inr ())" using that(1) p by (cases x) auto
    then show ?thesis
      using set_dscp_kernel [OF p k] by - (rule settled_cases [of x kernel_inv]; simp)
  qed
  show "kernel_inv (settled d r d1)" if h: "handle_set_retransmit_dscp e c d w = (r, d1, w')" and k: "kernel_inv d"
  proof (cases "validate_config e ((d_config d)\<lparr>retransmit_dscp := c\<rparr>)")
    case (Inl y)
    with h have "settled d r d1 = d" by (auto simp: handle_set_retransmit_dscp_def Let_def settled_Inl)
    with k show ?thesis by simp
  next
    case (Inr u)
    note h [unfolded handle_set_retransmit_dscp_def Let_def Inr sum.case]
    from core [OF this k] show ?thesis .
  qed
  show "kernel_inv (settled d r d1)" if h: "handle_reset_retransmit_dscp e d w = (r, d1, w')" and k: "kernel_inv d"
    using core [OF h [unfolded handle_reset_retransmit_dscp_def] k] .
qed

lemma redundancy_requests_kernel:
  shows "handle_set_redundancy e c d w = (r, d1, w') \<Longrightarrow> kernel_inv d \<Longrightarrow> kernel_inv (settled d r d1)"
    and "handle_reset_redundancy e d w = (r, d1, w') \<Longrightarrow> kernel_inv d \<Longrightarrow> kernel_inv (settled d r d1)"
proof -
  show "kernel_inv (settled d r d1)" if h: "handle_set_redundancy e c d w = (r, d1, w')" and k: "kernel_inv d"
  proof (cases "validate_config e ((d_config d)\<lparr>redundancy := c\<rparr>)")
    case (Inl y)
    with h have "settled d r d1 = d" by (auto simp: handle_set_redundancy_def Let_def settled_Inl)
    with k show ?thesis by simp
  next
    case (Inr u)
    obtain x d2 where p: "apply_redundancy e (d\<lparr>d_config := (d_config d)\<lparr>redundancy := c\<rparr>\<rparr>) = (x, d2)" by fastforce
    note h1 = h [unfolded handle_set_redundancy_def Let_def Inr sum.case p prod.case]
    have "settled d r d1 = settled d r d2 \<and> ((\<exists>m. r = Inr m) \<longleftrightarrow> x = Inr ())"
      using h1 by (cases x) (auto simp: settled_Inl)
    with set_redundancy_kernel [OF p k] show ?thesis
      by - (simp only:, rule settled_cases [of x kernel_inv]; simp)
  qed
  show "kernel_inv (settled d r d1)" if h: "handle_reset_redundancy e d w = (r, d1, w')" and k: "kernel_inv d"
  proof -
    obtain x d2 where p: "apply_redundancy e (d\<lparr>d_config := (d_config d)\<lparr>redundancy := redundancy_defaults d\<rparr>\<rparr>) = (x, d2)"
      by fastforce
    have "d1 = d2 \<and> ((\<exists>m. r = Inr m) \<longleftrightarrow> x = Inr ())"
      using h [unfolded handle_reset_redundancy_def p] by (cases x) auto
    with set_redundancy_kernel [OF p k] show ?thesis by - (rule settled_cases [of x kernel_inv]; simp)
  qed
qed

lemma handle_state_settled:
  assumes "handle_state e rq d w = Some (r, d', w')" "\<not> is_enable rq"
  obtains d1 where "try_handle e rq d w = Some (r, d1, w')" "d' = settled d r d1"
  using assms by (cases r) (auto simp: handle_state_Some settled_Inl)

lemma unchanged_kernel: "kernel_inv d \<Longrightarrow> kernel_inv (settled d r d)"
  by (cases r) (simp_all add: settled_Inl)

lemma handle_state_kernel:
  assumes "handle_state e rq d w = Some (r, d', w')" "kernel_inv d"
  shows "kernel_inv d'"
proof (cases "is_enable rq")
  case True
  then obtain ms where rq: "rq = Enable ms" by (cases rq) (auto simp: is_enable_def)
  with assms have "handle_enable e ms d w = (r, d', w')" by (auto simp: handle_state_Some is_enable_def)
  then show ?thesis by (rule enable_kernel [OF _ assms(2)])
next
  case False
  obtain d1 where t: "try_handle e rq d w = Some (r, d1, w')" and d': "d' = settled d r d1"
    using handle_state_settled [OF assms(1) False] by blast
  show ?thesis
  proof (cases rq)
    case (Drain s)
    with t have h: "handle_drain e s d w = Some (r, d1, w')" by simp
    have "d1\<lparr>d_config := d_config d\<rparr> = d1" using drain_config [OF h] by simp
    with drain_kernel [OF h assms(2)] show ?thesis by (cases r) (simp_all add: d' settled_Inl)
  next
    case Validate
    with t have "d1 = d" by (auto simp: handle_validate_def split: sum.splits)
    with unchanged_kernel [OF assms(2)] show ?thesis by (simp add: d')
  next
    case (Snapshot p)
    with t have "d1 = d" by (auto simp: handle_snapshot_def Let_def split: sum.splits)
    with unchanged_kernel [OF assms(2)] show ?thesis by (simp add: d')
  qed (use t assms(2) False in \<open>auto simp: d' is_enable_def settled_Inl disable_kernel rack_rto_requests_kernel
        set_module_config_kernel reset_module_config_kernel dscp_requests_kernel redundancy_requests_kernel\<close>)
qed

end
