(* ===== verification/DaemonModes.thy ===== *)
theory DaemonModes
  imports DaemonProps
begin

text \<open>
  Which states the daemon can be in: what armed, accelerating, draining and attached say of each
  other and of the kernel's registration of skyline_cc, and how each request moves between them.
\<close>

section \<open>The modes\<close>

definition mode_inv :: "daemon \<Rightarrow> 'q dworld \<Rightarrow> bool" where
  "mode_inv d w =
     ((armed (d_guard d) \<longrightarrow> accelerating d)
      \<and> (accelerating d \<longrightarrow> d_runtime d \<noteq> None)
      \<and> (draining d \<longrightarrow> \<not> accelerating d \<and> d_runtime d \<noteq> None)
      \<and> (attached_at d = None \<longleftrightarrow> d_runtime d = None)
      \<and> (d_runtime d \<noteq> None \<longrightarrow> dw_registered w))"

definition same_mode :: "daemon \<Rightarrow> daemon \<Rightarrow> bool" where
  "same_mode d d' =
     (d_guard d' = d_guard d \<and> accelerating d' = accelerating d \<and> draining d' = draining d
      \<and> attached_at d' = attached_at d \<and> (d_runtime d' = None \<longleftrightarrow> d_runtime d = None))"

lemma same_mode_inv:
  "mode_inv d w \<Longrightarrow> same_mode d d' \<Longrightarrow> dw_registered w' = dw_registered w \<Longrightarrow> mode_inv d' w'"
  by (simp add: mode_inv_def same_mode_def)

text \<open>Requests other than enable and drain move nothing.\<close>

definition moves :: "request \<Rightarrow> bool" where
  "moves rq = (case rq of Enable _ \<Rightarrow> True | Drain _ \<Rightarrow> True | _ \<Rightarrow> False)"

lemma disable_still: "handle_disable_module e m d w = (r, d1, w') \<Longrightarrow> same_mode d d1 \<and> w' = w"
  by (auto simp: handle_disable_module_def Let_def same_mode_def dest!: publish_runtime_frame split: prod.splits sum.splits)

lemma set_module_still: "handle_set_module_config e t d w = (r, d1, w') \<Longrightarrow> same_mode d d1 \<and> w' = w"
  by (auto simp: handle_set_module_config_def Let_def same_mode_def dest!: publish_runtime_frame split: prod.splits sum.splits)

lemma reset_module_still: "handle_reset_module_config e d w = (r, d1, w') \<Longrightarrow> same_mode d d1 \<and> w' = w"
  by (auto simp: handle_reset_module_config_def Let_def same_mode_def dest!: publish_runtime_frame split: prod.splits sum.splits)

lemma set_rto_still: "handle_set_rack_rto e c d w = (r, d1, w') \<Longrightarrow> same_mode d d1 \<and> w' = w"
  by (auto simp: handle_set_rack_rto_def Let_def same_mode_def dest!: policy_frame(1) split: prod.splits sum.splits)

lemma reset_rto_still: "handle_reset_rack_rto e d w = (r, d1, w') \<Longrightarrow> same_mode d d1 \<and> w' = w"
  by (auto simp: handle_reset_rack_rto_def Let_def same_mode_def dest!: policy_frame(1) split: prod.splits sum.splits)

lemma set_dscp_still: "handle_set_retransmit_dscp e c d w = (r, d1, w') \<Longrightarrow> same_mode d d1 \<and> w' = w"
  by (auto simp: handle_set_retransmit_dscp_def Let_def same_mode_def dest!: tc_frame(2) split: prod.splits sum.splits)

lemma reset_dscp_still: "handle_reset_retransmit_dscp e d w = (r, d1, w') \<Longrightarrow> same_mode d d1 \<and> w' = w"
  by (auto simp: handle_reset_retransmit_dscp_def Let_def same_mode_def dest!: tc_frame(2) split: prod.splits sum.splits)

lemma set_redundancy_still: "handle_set_redundancy e c d w = (r, d1, w') \<Longrightarrow> same_mode d d1 \<and> w' = w"
  by (auto simp: handle_set_redundancy_def Let_def same_mode_def dest!: tc_frame(1) split: prod.splits sum.splits)

lemma reset_redundancy_still: "handle_reset_redundancy e d w = (r, d1, w') \<Longrightarrow> same_mode d d1 \<and> w' = w"
  by (auto simp: handle_reset_redundancy_def Let_def same_mode_def dest!: tc_frame(1) split: prod.splits sum.splits)

lemmas request_still = disable_still set_module_still reset_module_still set_rto_still reset_rto_still set_dscp_still reset_dscp_still set_redundancy_still reset_redundancy_still

lemma same_mode_refl [simp]: "same_mode d d"
  by (simp add: same_mode_def)

lemma handle_state_still:
  assumes "handle_state e rq d w = Some (r, d', w')" "\<not> moves rq"
  shows "same_mode d d' \<and> dw_registered w' = dw_registered w \<and> (w' = w \<or> (\<exists>p. rq = Snapshot p))"
proof -
  have ne: "\<not> is_enable rq" using assms(2) by (cases rq) (simp_all add: moves_def is_enable_def)
  obtain d1 where t: "try_handle e rq d w = Some (r, d1, w')" and d': "d' = settled d r d1"
    using handle_state_settled [OF assms(1) ne] by blast
  have "same_mode d d1 \<and> dw_registered w' = dw_registered w \<and> (w' = w \<or> (\<exists>p. rq = Snapshot p))"
  proof (cases rq)
    case Validate
    with t show ?thesis by (auto simp: handle_validate_def split: sum.splits)
  next
    case (Snapshot p)
    with t show ?thesis by (auto simp: handle_snapshot_def Let_def split: sum.splits)
  qed (use t assms(2) in \<open>auto simp: moves_def dest: request_still\<close>)
  then show ?thesis by (cases r) (simp_all add: d' settled_Inl same_mode_def)
qed

section \<open>Enable\<close>

lemma set_default_cc_registered: "set_default_cc e n w = (x, w') \<Longrightarrow> dw_registered w' = dw_registered w"
  by (auto simp: set_default_cc_def split: prod.splits)

lemma publish_or_attach_modes:
  assumes "publish_or_attach e d w = (x, d', w')" "mode_inv d w"
  shows "mode_inv d' w' \<and> (x = Inr () \<longrightarrow> d_runtime d' \<noteq> None)"
proof (cases "validate (d_config d) = Inr () \<and> validate_capabilities (d_capabilities d) = Inr ()")
  case False
  then have "x \<noteq> Inr () \<and> d' = d \<and> w' = w"
    using assms(1) by (auto simp: publish_or_attach_def validate_config_def split: sum.splits)
  with assms(2) show ?thesis by simp
next
  case True
  note v = publish_or_attach_valid [OF conjunct1 [OF True] conjunct2 [OF True]]
  show ?thesis
  proof (cases "d_runtime d")
    case (Some r)
    from assms(1) [unfolded v Some option.case] Some assms(2) show ?thesis
      by (auto simp: mode_inv_def split: prod.splits)
  next
    case None
    obtain y w1 where l: "bpf_load e (d_config d) (d_event_log d) w = (y, w1)" by fastforce
    show ?thesis
    proof (cases y)
      case (Inl z)
      from assms(1) [unfolded v None option.case l Inl] None assms(2) show ?thesis by (auto simp: mode_inv_def)
    next
      case (Inr r)
      from assms(1) [unfolded v None option.case l Inr] None assms(2) bpf_load_ok [OF l [unfolded Inr]]
      show ?thesis by (auto simp: mode_inv_def)
    qed
  qed
qed

lemma arm_and_enforce_armed: "arm_and_enforce s h now un w g = (w', g', r) \<Longrightarrow> armed g'"
  by (auto simp: arm_and_enforce_def dest: enforce_armed)

text \<open>How the part of an enable after the publish ends.\<close>

lemma enable_activate_cases:
  assumes "enable_activate e d w = (r, d', w')"
  obtains (not_written) y pol where "set_default_cc e SKYLINE_CC_NAME w = (Inl y, w')" "r = Inl y"
      "d' = d\<lparr>d_policy := pol\<rparr>"
  | (enabled) w1 pol g sw rep tc m where "set_default_cc e SKYLINE_CC_NAME w = (Inr (), w1)"
      "arm_and_enforce (d_guard_settings d) (system_host (env_kernel e)) (env_now e) (env_unix e)
         (dw_sys w1) (d_guard d) = (sw, g, rep)"
      "r = Inr m" "w' = w1\<lparr>dw_sys := sw\<rparr>"
      "d' = d\<lparr>d_policy := pol, d_guard := g, accelerating := True, draining := False, d_tc := tc\<rparr>"
proof -
  obtain ls d1 where s: "switch_policy_on e d = (ls, d1)" by fastforce
  then obtain pol where d1: "d1 = d\<lparr>d_policy := pol\<rparr>" using policy_frame(2) by blast
  obtain x w1 where c: "set_default_cc e SKYLINE_CC_NAME w = (x, w1)" by fastforce
  show thesis
  proof (cases x)
    case (Inl y)
    with s c assms show ?thesis by (intro not_written [of y pol]) (simp_all add: enable_activate_def d1)
  next
    case (Inr u)
    obtain sw g rep where a: "arm_and_enforce (d_guard_settings d) (system_host (env_kernel e)) (env_now e)
        (env_unix e) (dw_sys w1) (d_guard d) = (sw, g, rep)" by (metis prod_cases3)
    obtain y d3 where p: "apply_redundancy e (d1\<lparr>d_guard := g, accelerating := True, draining := False\<rparr>) = (y, d3)"
      by fastforce
    then obtain tc where "d3 = d1\<lparr>d_guard := g, accelerating := True, draining := False, d_tc := tc\<rparr>"
      using tc_frame(1) by blast
    moreover have "d' = d3 \<and> w' = w1\<lparr>dw_sys := sw\<rparr> \<and> (\<exists>m. r = Inr m)"
      using assms s c Inr a p by (cases y) (auto simp: enable_activate_def d1 Let_def)
    ultimately show ?thesis
      using c Inr a by (elim conjE exE) (rule enabled; simp add: d1)
  qed
qed

lemma enable_modes:
  assumes "handle_enable e ms d w = (r, d', w')" "mode_inv d w"
  shows "mode_inv d' w'"
proof -
  let ?c = "case ms of Some ms \<Rightarrow> (d_config d)\<lparr>enabled_modules := ms\<rparr> | None \<Rightarrow> d_config d"
  obtain x d2 w2 where p: "publish_or_attach e (d\<lparr>d_config := bump ?c\<rparr>) w = (x, d2, w2)" by (metis prod_cases3)
  have m: "mode_inv (d\<lparr>d_config := bump ?c\<rparr>) w" using assms(2) by (simp add: mode_inv_def)
  note q = publish_or_attach_modes [OF p m]
  show ?thesis
  proof (cases x)
    case (Inl y)
    with assms(1) p q show ?thesis by (auto simp: handle_enable_def Let_def mode_inv_def)
  next
    case (Inr u)
    with assms(1) p have a: "enable_activate e d2 w2 = (r, d', w')" by (simp add: handle_enable_def Let_def)
    then show ?thesis
    proof (cases rule: enable_activate_cases)
      case (not_written y pol)
      with q set_default_cc_registered [OF not_written(1)] show ?thesis by (auto simp: mode_inv_def)
    next
      case (enabled w1 pol g sw rep tc m)
      with q Inr set_default_cc_registered [OF enabled(1)] show ?thesis by (auto simp: mode_inv_def)
    qed
  qed
qed

section \<open>Drain\<close>

text \<open>The poll that ends the wait: no flow is left, or the deadline has come.\<close>

definition wait_over :: "(nat \<Rightarrow> u64) \<Rightarrow> (nat \<Rightarrow> nat) \<Rightarrow> nat option \<Rightarrow> nat \<Rightarrow> bool" where
  "wait_over flows clock deadline k =
     (flows k = 0 \<or> (case deadline of None \<Rightarrow> False | Some t \<Rightarrow> t \<le> clock k))"

lemma drain_wait_unfold:
  "drain_wait flows clock deadline k =
     (if wait_over flows clock deadline k then Some k else drain_wait flows clock deadline (Suc k))"
  by (subst drain_wait.simps)
     (auto simp: wait_over_def word_gt_0 not_less split: option.splits)

lemma drain_wait_returns:
  "wait_over flows clock deadline (k + n) \<Longrightarrow> \<exists>m. drain_wait flows clock deadline k = Some m"
proof (induction n arbitrary: k)
  case 0
  then show ?case by (subst drain_wait_unfold) simp
next
  case (Suc n)
  then show ?case using Suc.IH [of "Suc k"] by (subst drain_wait_unfold) simp
qed

lemma wait_goes_on:
  "flows k > 0 \<and> (case deadline of None \<Rightarrow> True | Some t \<Rightarrow> clock k < t) \<longleftrightarrow> \<not> wait_over flows clock deadline k"
  by (simp add: wait_over_def word_gt_0 not_le split: option.splits)

lemma drain_wait_over:
  assumes "drain_wait flows clock deadline k = Some m"
  shows "wait_over flows clock deadline m"
proof (rule drain_wait.raw_induct [where P = "\<lambda>flows clock deadline k m. wait_over flows clock deadline m", OF _ assms])
  fix dw :: "(nat \<Rightarrow> u64) \<Rightarrow> (nat \<Rightarrow> nat) \<Rightarrow> nat option \<Rightarrow> nat \<Rightarrow> nat option" and flows clock deadline k m
  assume ih: "\<And>f c t k m. dw f c t k = Some m \<Longrightarrow> wait_over f c t m"
    and c: "(if flows k > 0 \<and> (case deadline of None \<Rightarrow> True | Some t \<Rightarrow> clock k < t)
          then dw flows clock deadline (Suc k) else Some k) = Some m"
  show "wait_over flows clock deadline m"
  proof (cases "wait_over flows clock deadline k")
    case True
    moreover have "k = m" using c True unfolding wait_goes_on by simp
    ultimately show ?thesis by simp
  next
    case False
    then have "dw flows clock deadline (Suc k) = Some m" using c unfolding wait_goes_on by simp
    then show ?thesis by (rule ih)
  qed
qed

lemma drain_wait_None:
  "drain_wait flows clock deadline 0 = None \<longleftrightarrow> (\<forall>n. \<not> wait_over flows clock deadline n)"
proof
  assume "drain_wait flows clock deadline 0 = None"
  then show "\<forall>n. \<not> wait_over flows clock deadline n"
    using drain_wait_returns [of flows clock deadline 0] by fastforce
next
  assume "\<forall>n. \<not> wait_over flows clock deadline n"
  then show "drain_wait flows clock deadline 0 = None"
    using drain_wait_over [of flows clock deadline 0] by (cases "drain_wait flows clock deadline 0") auto
qed

text \<open>How a drain ends once its first part is done.\<close>

lemma handle_drain_cases:
  assumes "handle_drain e t d w = Some (r, d', w')"
  obtains (early) y where "drain_begin e d w = (Inl y, d', w')" "r = Inl y"
  | (timeout) k where "drain_begin e d w = (Inr (), d', w')" "\<exists>y. r = Inl y" "active_flows e (Suc k) d' > 0"
  | (refused) "drain_begin e d w = (Inr (), d', w')" "\<exists>y. r = Inl y" "d_runtime d' \<noteq> None"
  | (drained) m d1 w1 k where "drain_begin e d w = (Inr (), d1, w1)" "r = Inr m" "active_flows e (Suc k) d1 = 0"
      "d' = d1\<lparr>d_runtime := None, attached_at := None, draining := False\<rparr>"
      "w' = (if d_runtime d1 \<noteq> None then w1\<lparr>dw_registered := False\<rparr> else w1)"
proof -
  obtain x d1 w1 where b: "drain_begin e d w = (x, d1, w1)" by (metis prod_cases3)
  show thesis
  proof (cases x)
    case (Inl y)
    with assms b show ?thesis by (intro early [of y]) (auto simp: handle_drain_def)
  next
    case (Inr u)
    with assms b obtain k where f: "drain_finish e (active_flows e (Suc k) d1) d1 w1 = (r, d', w')"
      by (auto simp: handle_drain_def)
    show ?thesis
    proof (cases "active_flows e (Suc k) d1 > 0")
      case True
      with f b Inr show ?thesis by (intro timeout [of k]) (auto simp: drain_finish_def)
    next
      case False
      then have none: "active_flows e (Suc k) d1 = 0" by (simp add: word_gt_0)
      show ?thesis
      proof (cases "d_runtime d1 \<noteq> None \<and> (\<exists>z. env_unregister e = Inl z)")
        case True
        with False f b Inr show ?thesis
          by (intro refused) (auto simp: drain_finish_def unregister_struct_ops_def split: option.splits)
      next
        case ok: False
        with none f b Inr show ?thesis
          by (intro drained [of d1 w1 _ k])
             (auto simp: drain_finish_def unregister_struct_ops_def drop_bpf_runtime_def
               split: option.splits sum.splits)
      qed
    qed
  qed
qed

lemma drain_modes:
  assumes "handle_drain e t d w = Some (r, d', w')" "mode_inv d w"
  shows "mode_inv d' w'"
proof -
  have begun: "dw_registered w1 = dw_registered w \<and> \<not> armed (d_guard d1) \<and> d_runtime d1 = d_runtime d
      \<and> attached_at d1 = attached_at d \<and> (accelerating d1 \<longrightarrow> accelerating d)
      \<and> (x = Inr () \<longrightarrow> \<not> accelerating d1) \<and> (x \<noteq> Inr () \<longrightarrow> draining d1 = draining d)"
    if "drain_begin e d w = (x, d1, w1)" for x d1 w1
  proof -
    have "dw_registered w1 = dw_registered w"
      using that by (cases rule: drain_begin_cases) (auto dest: set_default_cc_registered)
    with drain_begin_frame [OF that] show ?thesis by auto
  qed
  from assms(1) show ?thesis
  proof (cases rule: handle_drain_cases)
    case (early y)
    with begun [OF early(1)] assms(2) show ?thesis by (auto simp: mode_inv_def)
  next
    case (timeout k)
    then have "d_runtime d' \<noteq> None" by (auto simp: active_flows_def split: option.splits)
    with begun [OF timeout(1)] assms(2) show ?thesis by (simp add: mode_inv_def)
  next
    case refused
    with begun [OF refused(1)] assms(2) show ?thesis by (simp add: mode_inv_def)
  next
    case (drained m d1 w1 k)
    with begun [OF drained(1)] show ?thesis by (simp add: mode_inv_def)
  qed
qed

lemma handle_state_modes:
  assumes "handle_state e rq d w = Some (r, d', w')" "mode_inv d w"
  shows "mode_inv d' w'"
proof (cases "moves rq")
  case False
  with handle_state_still [OF assms(1)] assms(2) show ?thesis by (auto intro: same_mode_inv)
next
  case True
  then consider (e) ms where "rq = Enable ms" | (d) t where "rq = Drain t"
    by (cases rq) (auto simp: moves_def)
  then show ?thesis
  proof cases
    case e
    with assms(1) have "handle_enable e ms d w = (r, d', w')" by (auto simp: handle_state_Some is_enable_def)
    then show ?thesis by (rule enable_modes [OF _ assms(2)])
  next
    case d
    then have ne: "\<not> is_enable rq" by (simp add: is_enable_def)
    obtain d1 where h: "handle_drain e t d w = Some (r, d1, w')" and d': "d' = settled d r d1"
      using handle_state_settled [OF assms(1) ne] d by auto
    from drain_modes [OF h assms(2)] show ?thesis by (cases r) (simp_all add: d' settled_Inl mode_inv_def)
  qed
qed

end
