(* ===== verification/DaemonRuns.thy ===== *)
theory DaemonRuns
  imports DaemonModes
begin

text \<open>
  The daemon's guarantees over whole runs: from loading the configuration, through starting to
  serve, to any number of clients, guard ticks and changes by other programs.
\<close>

section \<open>What a pass and a status leave alone\<close>

context guard_host
begin

lemma enforce_keeps_cc:
  assumes e: "enforce s h trig now un w st = (w', st', r)" and cc: "congestion_control h w = Inr SKYLINE_CC_NAME"
  shows "congestion_control h w' = Inr SKYLINE_CC_NAME"
proof -
  obtain w1 st1 r1 where a: "enforce_congestion_control h (w, st, pass_report_default) = (w1, st1, r1)"
    by (metis prod_cases3)
  then have w1: "w1 = w" using cc by (simp add: enforce_congestion_control_def)
  obtain w2 st2 r2 where b: "enforce_qdiscs s h trig now (w1, st1, r1) = (w2, st2, r2)"
    by (metis prod_cases3)
  have w': "w' = w2" using e a b by (auto simp: enforce_def pass_end_def Let_def)
  show ?thesis
  proof (cases "s_qdisc s")
    case False
    with b w1 w' cc show ?thesis by (simp add: enforce_qdiscs_def)
  next
    case True
    obtain w3 st3 r3 where c: "enforce_default_qdisc h (w1, st1, r1) = (w3, st3, r3)" by (metis prod_cases3)
    have "same_host h w3 w2"
      using b c True interface_same by (auto simp: enforce_qdiscs_def Let_def split: option.splits)
    with dq_enforced(1) [OF c] w1 w' cc show ?thesis by (simp add: same_host_def)
  qed
qed

lemma guard_live_same: "guard_live_of s h w = (g, w') \<Longrightarrow> same_host h w w'"
  by (auto simp: guard_live_of_def split: option.splits if_splits prod.splits
      dest!: read_root_text_same managed_devices_ok [THEN conjunct1] intro: same_host_trans)

lemma guard_status_same: "guard_status_of s h st w = (g, w') \<Longrightarrow> same_host h w w'"
  using guard_live_same by (auto simp: guard_status_of_def split: prod.splits)

end

lemma same_host_cc:
  "same_host (system_host K) w w' \<Longrightarrow>
     read_sysctl CONGESTION_CONTROL_SYSCTL w' = read_sysctl CONGESTION_CONTROL_SYSCTL w"
  by (simp add: same_host_def system_host_def)

lemma set_default_cc_reads:
  "set_default_cc e n w = (Inr u, w') \<Longrightarrow> read_sysctl CONGESTION_CONTROL_SYSCTL (dw_sys w') = Inr (trim n)"
  by (auto simp: set_default_cc_def set_default_congestion_control_def fs_write_def read_sysctl_def
      split: if_splits)

text \<open>The reply only reads: the daemon and the registration stay, and so do the two sysctls.\<close>

lemma handle_cases:
  assumes "handle e lk rq d w = Some (resp, d', w')"
  obtains r w1 where "handle_state e rq d w = Some (r, d', w1)" "dw_registered w' = dw_registered w1"
    "same_host (system_host K) (dw_sys w1) (dw_sys w')" "resp_ok resp \<longleftrightarrow> (\<exists>m. r = Inr m)"
proof -
  obtain out where o: "handle_state e rq d w = Some out" using assms by (auto simp: handle_def)
  obtain r d2 w1 where out: "out = (r, d2, w1)" by (metis prod_cases3)
  obtain st w2 where st: "daemon_status e lk d2 w1 = (st, w2)" by fastforce
  have h: "handle_state e rq d w = Some (r, d', w1)"
    and s: "w' = snd (daemon_status e lk d' w1)" "resp_ok resp = (case r of Inr _ \<Rightarrow> True | Inl _ \<Rightarrow> False)"
    using assms o st by (auto simp: handle_def out)
  obtain g sw where g: "guard_status_of (d_guard_settings d') (system_host (env_kernel e)) (d_guard d') (dw_sys w1) = (g, sw)"
    by fastforce
  have "same_host (system_host K) (dw_sys w1) sw"
    using system.guard_status_same [OF g] by (simp add: same_host_def system_host_def)
  with h s g show thesis by (intro that [of r w1]) (auto simp: daemon_status_def split: sum.splits)
qed

section \<open>Reachable states\<close>

inductive serving :: "daemon \<Rightarrow> 'q dworld \<Rightarrow> bool" where
  serving: "load_daemon read_to_string parse decode_toml encode fmt ph log_opened now a = Inr d0 \<Longrightarrow>
    serve_start io e d0 w0 fs = (Inr d1, w1, fs1) \<Longrightarrow>
    serve_loop decode evs d1 w1 = Some (stopped, d, w) \<Longrightarrow> serving d w"

definition daemon_inv :: "daemon \<Rightarrow> 'q dworld \<Rightarrow> bool" where
  "daemon_inv d w = (config_inv d \<and> kernel_inv d \<and> mode_inv d w)"

lemma daemon_new_inv:
  assumes "daemon_new caps log_opened now c = Inr d" "validate c = Inr ()"
  shows "config_inv d \<and> d_runtime d = None \<and> d_tc d = None \<and> d_policy d = None \<and> d_guard d = guard_state_default
    \<and> \<not> rr_enabled (rack_rto (d_config d)) \<and> \<not> rd_enabled (retransmit_dscp (d_config d))
    \<and> \<not> accelerating d \<and> \<not> draining d \<and> attached_at d = None"
  using assms
  by (auto simp: daemon_new_def Let_def res_simps config_inv_def validate_tables rack_rto_ok_def dscp_ok_def)

lemma serve_start_frame:
  assumes "serve_start io e d w fs = (Inr d', w', fs')"
  shows "d' = start_tc e (start_policy e d)"
  using assms by (auto simp: serve_start_def Let_def res_simps split: prod.splits sum.splits)

lemma tc_load_idle: "tc_load e c = Inr t \<Longrightarrow> \<not> tr_redundancy_active t"
  by (auto simp: tc_load_def Let_def res_simps split: option.splits sum.splits prod.splits)

lemma started_inv:
  assumes "load_daemon read_to_string parse decode_toml encode fmt ph log_opened now a = Inr d0"
    and "serve_start io e d0 w0 fs = (Inr d1, w1, fs1)"
  shows "daemon_inv d1 w1"
proof -
  obtain c where "config_load read_to_string parse decode_toml encode (arg_config a) = Inr c"
    and n: "daemon_new (probe_capabilities ph c) log_opened now c = Inr d0"
    using assms(1) by (auto simp: load_daemon_def split: sum.splits)
  then have v: "validate c = Inr ()" by (auto simp: config_load_def res_simps split: sum.splits)
  note i = daemon_new_inv [OF n v]
  have d1: "d1 = start_tc e (start_policy e d0)" by (rule serve_start_frame [OF assms(2)])
  then obtain p t te where f: "d1 = d0\<lparr>d_policy := p, d_tc := t, d_tc_error := te\<rparr>"
    and t: "t = None \<or> (\<exists>x. t = Some x \<and> \<not> tr_redundancy_active x)"
  proof -
    let ?d = "d0\<lparr>d_policy := Some (policy_load e (d_config d0))\<rparr>"
    have sp: "start_policy e d0 = ?d" using i by (simp add: start_policy_def)
    show thesis
    proof (cases "tc_load e (d_config d0)")
      case (Inr x)
      then have "d1 = d0\<lparr>d_policy := Some (policy_load e (d_config d0)), d_tc := Some x, d_tc_error := d_tc_error d0\<rparr>"
        using d1 sp i by (simp add: start_tc_def)
      with tc_load_idle [OF Inr] that show thesis by blast
    next
      case (Inl x)
      then have "d1 = d0\<lparr>d_policy := Some (policy_load e (d_config d0)), d_tc := None, d_tc_error := Some (alternate_of x)\<rparr>"
        using d1 sp i by (simp add: start_tc_def)
      with that show thesis by blast
    qed
  qed
  from i t show ?thesis
    by (auto simp: daemon_inv_def f config_inv_def kernel_inv_def mode_inv_def runs_defs guard_state_default_def)
qed

lemma handle_inv:
  assumes "handle e lk rq d w = Some (resp, d', w')" "daemon_inv d w"
  shows "daemon_inv d' w'"
proof -
  obtain r w1 where h: "handle_state e rq d w = Some (r, d', w1)" and reg: "dw_registered w' = dw_registered w1"
    using handle_cases [OF assms(1)] by metis
  have "config_inv d'" "kernel_inv d'" "mode_inv d' w1"
    using assms(2) handle_state_config [OF h] handle_state_kernel [OF h] handle_state_modes [OF h]
    by (simp_all add: daemon_inv_def)
  with reg show ?thesis by (simp add: daemon_inv_def mode_inv_def)
qed

lemma handle_stream_inv:
  assumes "handle_stream decode e lk cl d w = Some (r, d', w')" "daemon_inv d w"
  shows "daemon_inv d' w'"
  using assms handle_inv
  by (fastforce simp: handle_stream_def split: sum.splits)

lemma guard_tick_inv:
  assumes "guard_tick K now un d w = (d', w')" "daemon_inv d w"
  shows "daemon_inv d' w'"
proof -
  obtain s g r where p: "periodic_pass (d_guard_settings d) (system_host K) now un (dw_sys w) (d_guard d) = (s, g, r)"
    by (metis prod_cases3)
  then have "armed g = armed (d_guard d)"
    by (auto simp: periodic_pass_def split: if_splits prod.splits dest: enforce_armed)
  moreover have "d' = d\<lparr>d_guard := g\<rparr>" "w' = w\<lparr>dw_sys := s\<rparr>" using assms(1) p by (simp_all add: guard_tick_def)
  ultimately show ?thesis
    using assms(2) tables_frame [of d' d]
    by (simp add: daemon_inv_def config_inv_def kernel_inv_alt runs_config_def mode_inv_def)
qed

lemma serve_loop_inv:
  "serve_loop decode evs d w = Some (stopped, d', w') \<Longrightarrow> daemon_inv d w \<Longrightarrow> daemon_inv d' w'"
proof (induction decode evs d w rule: serve_loop.induct)
  case (3 decode e lk cl evs d w)
  obtain r d1 w1 where h: "handle_stream decode e lk cl d w = Some (r, d1, w1)"
    using 3(2) by (cases "handle_stream decode e lk cl d w") auto
  note i = handle_stream_inv [OF h 3(3)]
  show ?case
  proof (cases "\<exists>resp. r = Inr (True, resp)")
    case True
    with 3(2) h i show ?thesis by auto
  next
    case False
    with 3(2) h have "serve_loop decode evs d1 w1 = Some (stopped, d', w')" by (simp split: if_splits)
    from 3(1) [OF h refl refl False this i] show ?thesis .
  qed
next
  case (4 decode K now un evs d w)
  obtain d1 w1 where "guard_tick K now un d w = (d1, w1)" by fastforce
  with 4 guard_tick_inv show ?case by fastforce
next
  case (5 decode s evs d w)
  then show ?case by (simp add: daemon_inv_def mode_inv_def)
qed auto

lemma serving_inv: "serving d w \<Longrightarrow> daemon_inv d w"
  by (induction rule: serving.induct) (blast intro: serve_loop_inv started_inv)

end
