(* ===== verification/DaemonGuarantees.thy ===== *)
theory DaemonGuarantees
  imports DaemonRuns
begin

text \<open>The guarantees themselves, each over every state the daemon can reach.\<close>

section \<open>Valid, and running as reported\<close>

lemma kernel_config_safe_generation:
  "kernel_config_safe k \<Longrightarrow> g \<noteq> 0 \<Longrightarrow> kernel_config_safe (k\<lparr>k_generation := g\<rparr>)"
  by (simp add: kernel_config_safe_def)

text \<open>
  C8. Whatever clients ask for and whatever fails, the configuration in force is always valid, and
  once skyline_cc is attached the image the BPF programs read is inside their contract.
\<close>

theorem config_always_valid:
  assumes "serving d w"
  shows "validate (d_config d) = Inr ()
    \<and> (\<forall>r. d_runtime d = Some r \<longrightarrow> (\<exists>k. active_image r = Some k \<and> kernel_config_safe k))"
proof -
  have i: "config_inv d" "kernel_inv d" using serving_inv [OF assms] by (simp_all add: daemon_inv_def)
  then have v: "validate (d_config d) = Inr ()" by (simp add: config_inv_def)
  have "\<exists>k. active_image r = Some k \<and> kernel_config_safe k" if "d_runtime d = Some r" for r
    using i(2) that kernel_image_safe [OF v] kernel_config_safe_generation
    by (auto simp: kernel_inv_def published_def)
  with v show ?thesis by blast
qed

text \<open>
  C9. What status reports is what the kernel runs. It says enabled exactly while skyline_cc is
  attached, and then the active slot holds the image of the reported tuning and modules (only its
  generation may be older); an RTO tuning or DSCP marking reported as on is in its map with the
  reported values, and redundancy reported as active is being done with the reported values.
\<close>

theorem status_reports_kernel:
  assumes "serving d w" and "daemon_status e lk d w = (st, w')"
  shows "(rst_enabled st \<longleftrightarrow> d_runtime d \<noteq> None)
    \<and> (\<forall>r. d_runtime d = Some r \<longrightarrow> (\<exists>k. active_image r = Some k
        \<and> k\<lparr>k_generation := rst_generation st\<rparr> = config_kernel_config (d_config d)
        \<and> rst_module_tuning st = from_config (d_config d)
        \<and> rst_modules st = enabled_modules (d_config d)))
    \<and> (rr_enabled (fst (rst_rack_rto st)) \<longrightarrow> (\<exists>p ob g. d_policy d = Some p \<and> pr_object p = Some ob
        \<and> po_rto ob = Some (rack_rto_kernel_config (fst (rst_rack_rto st)) g)))
    \<and> (rd_enabled (fst (rst_retransmit_dscp st)) \<longrightarrow> (\<exists>t ob. d_tc d = Some t \<and> tr_object t = Some ob
        \<and> to_dscp ob = Some (retransmit_dscp_kernel_config (fst (rst_retransmit_dscp st)))))
    \<and> (fst (snd (rst_redundancy st)) \<longrightarrow> red_enabled (fst (rst_redundancy st))
        \<and> (\<exists>t ob. d_tc d = Some t \<and> tr_object t = Some ob
             \<and> to_redundancy ob = Some (redundancy_kernel_config (fst (rst_redundancy st)) True)))"
proof -
  have i: "kernel_inv d" using serving_inv [OF assms(1)] by (simp add: daemon_inv_def)
  have st: "rst_enabled st \<longleftrightarrow> d_runtime d \<noteq> None" "rst_generation st = generation (d_config d)"
    "rst_modules st = enabled_modules (d_config d)" "rst_module_tuning st = from_config (d_config d)"
    "fst (rst_rack_rto st) = rack_rto (d_config d)" "fst (rst_retransmit_dscp st) = retransmit_dscp (d_config d)"
    "fst (rst_redundancy st) = redundancy (d_config d)"
    "fst (snd (rst_redundancy st)) = (case d_tc d of Some t \<Rightarrow> tr_redundancy_active t | None \<Rightarrow> False)"
    using assms(2) by (auto simp: daemon_status_def split: prod.splits)
  have gen: "(config_kernel_config c)\<lparr>k_generation := g, k_generation := generation c\<rparr> = config_kernel_config c" for c g
    by (simp add: config_kernel_config_def)
  have run: "\<forall>r. d_runtime d = Some r \<longrightarrow> (\<exists>k. active_image r = Some k
        \<and> k\<lparr>k_generation := rst_generation st\<rparr> = config_kernel_config (d_config d))"
    using i gen by (auto simp: kernel_inv_def published_def st)
  have "fst (snd (rst_redundancy st)) \<longrightarrow> red_enabled (redundancy (d_config d))
        \<and> (\<exists>t ob. d_tc d = Some t \<and> tr_object t = Some ob
             \<and> to_redundancy ob = Some (redundancy_kernel_config (redundancy (d_config d)) True))"
    using i by (auto simp: st kernel_inv_def redundancy_runs_def split: option.splits)
  with i run show ?thesis
    by (simp add: st kernel_inv_def rto_runs_def dscp_runs_def)
qed

text \<open>
  The guard is armed only while skyline_cc is attached and registered with the kernel, so no
  pass ever writes an algorithm the kernel does not know; and a daemon that reports draining is
  not accelerating and not armed.
\<close>

lemma armed_only_while_registered:
  assumes "serving d w"
  shows "(armed (d_guard d) \<longrightarrow> accelerating d \<and> d_runtime d \<noteq> None \<and> dw_registered w)
    \<and> (draining d \<longrightarrow> \<not> accelerating d \<and> \<not> armed (d_guard d) \<and> d_runtime d \<noteq> None)
    \<and> (attached_at d \<noteq> None \<longleftrightarrow> d_runtime d \<noteq> None)"
  using serving_inv [OF assms] by (auto simp: daemon_inv_def mode_inv_def)

section \<open>A request that fails\<close>

definition untouched :: "daemon \<Rightarrow> daemon \<Rightarrow> bool" where
  "untouched d d' =
     (d' = d\<lparr>d_runtime := d_runtime d'\<rparr>
      \<and> map_option active_image (d_runtime d') = map_option active_image (d_runtime d))"

lemma untouched_refl [simp]: "untouched d d"
  by (simp add: untouched_def)

lemma publish_fails:
  assumes "publish_runtime e (d\<lparr>d_config := c\<rparr>) = (Inl y, d2)" "kernel_inv d"
  shows "untouched d (d2\<lparr>d_config := d_config d\<rparr>)"
proof -
  obtain r r' where r: "d_runtime d = Some r" "update_config e c r = (Inl y, r')"
    and d2: "d2 = d\<lparr>d_config := c, d_runtime := Some r'\<rparr>"
    using publish_runtime_frame [OF assms(1)] by (cases "d_runtime d") auto
  have "br_config_seq r = br_seq_map r" using assms(2) r(1) by (simp add: kernel_inv_def published_def)
  from update_config_fails [OF r(2) this] r(1) show ?thesis by (simp add: untouched_def d2)
qed

lemma failed_untouched:
  assumes "handle_state e rq d w = Some (Inl y, d', w')" "kernel_inv d" "\<not> moves rq"
  shows "untouched d d'"
proof -
  have ne: "\<not> is_enable rq" using assms(3) by (cases rq) (simp_all add: moves_def is_enable_def)
  obtain d1 where t: "try_handle e rq d w = Some (Inl y, d1, w')" and d': "d' = d1\<lparr>d_config := d_config d\<rparr>"
    using handle_state_settled [OF assms(1) ne] by (metis settled_Inl(1))
  show ?thesis
  proof (cases rq)
    case (DisableModule m)
    with t assms(2) show ?thesis
      by (auto simp: d' handle_disable_module_def Let_def split: prod.splits sum.splits intro: publish_fails)
  next
    case (SetModuleConfig c)
    with t assms(2) show ?thesis
      by (auto simp: d' handle_set_module_config_def Let_def split: prod.splits sum.splits intro: publish_fails)
  next
    case ResetModuleConfig
    with t assms(2) show ?thesis
      by (auto simp: d' handle_reset_module_config_def Let_def split: prod.splits sum.splits intro: publish_fails)
  next
    case (SetRackRto c)
    with t show ?thesis
      by (auto simp: d' handle_set_rack_rto_def Let_def split: prod.splits sum.splits dest!: push_rack_rto_runs(2))
  next
    case ResetRackRto
    with t show ?thesis
      by (auto simp: d' handle_reset_rack_rto_def split: prod.splits sum.splits dest!: push_rack_rto_runs(2))
  next
    case (SetRetransmitDscp c)
    with t show ?thesis
      by (auto simp: d' handle_set_retransmit_dscp_def Let_def split: prod.splits sum.splits
          dest!: apply_retransmit_dscp_runs(2))
  next
    case ResetRetransmitDscp
    with t show ?thesis
      by (auto simp: d' handle_reset_retransmit_dscp_def split: prod.splits sum.splits dest!: apply_retransmit_dscp_runs(2))
  next
    case (SetRedundancy c)
    with t show ?thesis
      by (auto simp: d' handle_set_redundancy_def Let_def split: prod.splits sum.splits dest!: apply_redundancy_runs(2))
  next
    case ResetRedundancy
    with t show ?thesis
      by (auto simp: d' handle_reset_redundancy_def split: prod.splits sum.splits dest!: apply_redundancy_runs(2))
  qed (use t assms(3) in \<open>auto simp: d' moves_def handle_validate_def handle_snapshot_def Let_def split: sum.splits\<close>)
qed

lemma enable_config_modules:
  assumes "handle_enable e ms d w = (r, d', w')"
  shows "d_config d' = d_config d \<and> (\<exists>y. r = Inl y)
    \<or> d_runtime d' \<noteq> None \<and> enabled_modules (d_config d') = (case ms of Some m \<Rightarrow> m | None \<Rightarrow> enabled_modules (d_config d))"
proof -
  let ?c = "case ms of Some ms \<Rightarrow> (d_config d)\<lparr>enabled_modules := ms\<rparr> | None \<Rightarrow> d_config d"
  obtain x d2 w2 where p: "publish_or_attach e (d\<lparr>d_config := bump ?c\<rparr>) w = (x, d2, w2)" by (metis prod_cases3)
  obtain ro a where d2: "d2 = d\<lparr>d_config := bump ?c, d_runtime := ro, attached_at := a\<rparr>"
    and v: "x = Inr () \<Longrightarrow> d_runtime d2 \<noteq> None"
    using publish_or_attach_frame [OF p] by auto
  show ?thesis
  proof (cases x)
    case (Inl y)
    with assms p d2 show ?thesis
      by (cases ms) (auto simp: handle_enable_def bump_def)
  next
    case (Inr u)
    have em: "enabled_modules (d_config d2) = (case ms of Some m \<Rightarrow> m | None \<Rightarrow> enabled_modules (d_config d))"
      by (simp add: d2 split: option.splits)
    from assms p Inr have a: "enable_activate e d2 w2 = (r, d', w')" by (simp add: handle_enable_def Let_def)
    then have "d_config d' = d_config d2 \<and> d_runtime d' = d_runtime d2"
      by (cases rule: enable_activate_cases) simp_all
    with em v Inr show ?thesis by simp
  qed
qed

text \<open>
  C10. A request that fails changes nothing that matters: the configuration is the one before it,
  and the active slot, the RTO, DSCP and redundancy maps and the daemon's own state are untouched,
  unless it was a drain (which has moved on) or an enable. A failed enable leaves the previous
  configuration too, or else the kernel runs the new one and that is what is reported.
\<close>

theorem failed_request_changes_nothing:
  assumes "serving d w" and "handle e lk rq d w = Some (resp, d', w')" and "\<not> resp_ok resp"
  shows "(\<not> moves rq \<longrightarrow> untouched d d') \<and> (\<not> is_enable rq \<longrightarrow> d_config d' = d_config d)
    \<and> (d_config d' = d_config d \<or> (\<exists>r. d_runtime d' = Some r \<and> published (d_config d') r))"
proof -
  have k: "kernel_inv d" and k': "kernel_inv d'"
    using serving_inv [OF assms(1)] handle_inv [OF assms(2)] by (simp_all add: daemon_inv_def)
  obtain r w1 where h: "handle_state e rq d w = Some (r, d', w1)" and ok: "resp_ok resp \<longleftrightarrow> (\<exists>m. r = Inr m)"
    using handle_cases [OF assms(2)] by metis
  then obtain y where r: "r = Inl y" using assms(3) by (cases r) auto
  have "d_config d' = d_config d" if "\<not> is_enable rq"
    using h that by (auto simp: handle_state_Some r)
  moreover have "d_config d' = d_config d \<or> (\<exists>r. d_runtime d' = Some r \<and> published (d_config d') r)" if en: "is_enable rq"
  proof -
    obtain ms where "rq = Enable ms" using en by (cases rq) (auto simp: is_enable_def)
    then have "handle_enable e ms d w = (r, d', w1)" using h by (auto simp: handle_state_Some is_enable_def)
    from enable_config_modules [OF this] k' show ?thesis by (auto simp: kernel_inv_def)
  qed
  ultimately show ?thesis
    using failed_untouched [OF h [unfolded r] k] by blast
qed

section \<open>Enable and drain\<close>

lemma enable_effect:
  assumes "serving d w" and "handle e lk (Enable ms) d w = Some (resp, d', w')" and "resp_ok resp"
  shows "accelerating d' \<and> armed (d_guard d') \<and> \<not> draining d' \<and> dw_registered w'
    \<and> read_sysctl CONGESTION_CONTROL_SYSCTL (dw_sys w') = Inr SKYLINE_CC_NAME
    \<and> (\<exists>r. d_runtime d' = Some r \<and> published (d_config d') r)
    \<and> enabled_modules (d_config d') = (case ms of Some m \<Rightarrow> m | None \<Rightarrow> enabled_modules (d_config d))"
proof -
  have k': "kernel_inv d'" and m': "mode_inv d' w'"
    using serving_inv [OF assms(1)] handle_inv [OF assms(2)] by (simp_all add: daemon_inv_def)
  obtain r w1 where h: "handle_state e (Enable ms) d w = Some (r, d', w1)" and reg: "dw_registered w' = dw_registered w1"
    and sh: "same_host (system_host (env_kernel e)) (dw_sys w1) (dw_sys w')" and ok: "resp_ok resp \<longleftrightarrow> (\<exists>m. r = Inr m)"
    using handle_cases [OF assms(2)] by metis
  then obtain m where r: "r = Inr m" using assms(3) by auto
  have e: "handle_enable e ms d w = (r, d', w1)" using h by (auto simp: handle_state_Some is_enable_def)
  from e obtain d2 w2 where a: "enable_activate e d2 w2 = (r, d', w1)"
    by (auto simp: handle_enable_def Let_def r split: sum.splits prod.splits)
  then have "accelerating d' \<and> armed (d_guard d') \<and> \<not> draining d'
      \<and> read_sysctl CONGESTION_CONTROL_SYSCTL (dw_sys w1) = Inr SKYLINE_CC_NAME"
  proof (cases rule: enable_activate_cases)
    case (enabled w3 pol g sw rep tc m)
    have "congestion_control (system_host (env_kernel e)) (dw_sys w3) = Inr SKYLINE_CC_NAME"
      using set_default_cc_reads [OF enabled(1)] by (simp add: system_host_def trim_cc)
    from system.enforce_keeps_cc [OF enabled(2) [unfolded arm_and_enforce_def] this] arm_and_enforce_armed [OF enabled(2)] enabled
    show ?thesis by (simp add: system_host_def)
  qed (simp add: r)
  with m' k' same_host_cc [OF sh] enable_config_modules [OF e] show ?thesis
    by (auto simp: r mode_inv_def kernel_inv_def)
qed

text \<open>
  An enable that is answered with success has taken effect: skyline_cc is attached, registered
  and the default congestion control of new connections, the guard is armed, the requested modules
  are in the valid configuration the kernel runs, and no drain is in progress.
\<close>

lemma enable_takes_effect:
  assumes "serving d w" and "handle e lk (Enable ms) d w = Some (resp, d', w')" and "resp_ok resp"
  shows "accelerating d' \<and> armed (d_guard d') \<and> \<not> draining d' \<and> dw_registered w'
    \<and> read_sysctl CONGESTION_CONTROL_SYSCTL (dw_sys w') = Inr SKYLINE_CC_NAME
    \<and> (\<exists>r. d_runtime d' = Some r \<and> published (d_config d') r)
    \<and> enabled_modules (d_config d') = (case ms of Some m \<Rightarrow> m | None \<Rightarrow> enabled_modules (d_config d))"
  by (rule enable_effect [OF assms])

lemma bpf_load_unregisters:
  assumes "bpf_load e c l w = (x, w')" "dw_registered w" "\<not> dw_registered w'"
  shows "read_sysctl CONGESTION_CONTROL_SYSCTL (dw_sys w') = Inr (trim (fallback_cc c))"
proof -
  obtain y w1 where s: "set_default_cc e (fallback_cc c) w = (y, w1)" by fastforce
  have "dw_registered w1" using set_default_cc_registered [OF s] assms(2) by simp
  with assms s have "dw_sys w' = dw_sys w1 \<and> y = Inr ()"
    by (auto simp: bpf_load_def drop_bpf_runtime_def Let_def split: sum.splits prod.splits if_splits)
  with set_default_cc_reads [of e "fallback_cc c" w "()" w1] s show ?thesis by simp
qed

lemma enable_unregisters:
  assumes "handle_enable e ms d w = (r, d', w1)" "mode_inv d w" "dw_registered w" "\<not> dw_registered w1"
  shows "read_sysctl CONGESTION_CONTROL_SYSCTL (dw_sys w1) = Inr (trim (fallback_cc (d_config d)))"
proof -
  let ?c = "case ms of Some ms \<Rightarrow> (d_config d)\<lparr>enabled_modules := ms\<rparr> | None \<Rightarrow> d_config d"
  let ?d = "d\<lparr>d_config := bump ?c\<rparr>"
  obtain x d2 w2 where p: "publish_or_attach e ?d w = (x, d2, w2)" by (metis prod_cases3)
  show ?thesis
  proof (cases x)
    case (Inl y)
    with assms(1) p have w1: "w2 = w1" by (auto simp: handle_enable_def Let_def)
    have fb: "fallback_cc (bump ?c) = fallback_cc (d_config d)" by (simp split: option.splits)
    have "\<exists>z. bpf_load e (bump ?c) (d_event_log d) w = (z, w1)"
      using p assms(3,4) w1
      by (auto simp: publish_or_attach_def split: sum.splits option.splits prod.splits)
    with bpf_load_unregisters [of e "bump ?c" "d_event_log d" w] assms(3,4) fb show ?thesis by auto
  next
    case (Inr u)
    with assms(1) p have a: "enable_activate e d2 w2 = (r, d', w1)" by (simp add: handle_enable_def Let_def)
    have "mode_inv ?d w" using assms(2) by (simp add: mode_inv_def)
    from publish_or_attach_modes [OF p this] Inr have "dw_registered w2" by (auto simp: mode_inv_def)
    moreover have "dw_registered w1 = dw_registered w2"
      using a by (cases rule: enable_activate_cases) (auto dest: set_default_cc_registered)
    ultimately show ?thesis using assms(4) by simp
  qed
qed

lemma drain_unregisters:
  assumes "handle_drain e t d w = Some (r, d', w1)" "dw_registered w" "\<not> dw_registered w1"
  shows "read_sysctl CONGESTION_CONTROL_SYSCTL (dw_sys w1) = Inr (trim (fallback_cc (d_config d)))"
proof -
  have begun: "dw_registered w2 = dw_registered w \<and> (x = Inr () \<longrightarrow>
      read_sysctl CONGESTION_CONTROL_SYSCTL (dw_sys w2) = Inr (trim (fallback_cc (d_config d))))"
    if "drain_begin e d w = (x, d2, w2)" for x d2 w2
    using that by (cases rule: drain_begin_cases) (auto dest: set_default_cc_registered set_default_cc_reads)
  from assms(1) show ?thesis
  proof (cases rule: handle_drain_cases)
    case (drained m d2 w2 k)
    with begun [OF drained(1)] show ?thesis by simp
  qed (use begun assms(2,3) in auto)
qed

text \<open>
  C11. No request takes skyline_cc away from under the default: whenever one unregisters it (a drain
  that has emptied, or an enable whose start failed half way), the namespace's default congestion
  control already reads fallback_cc, which is not skyline_cc, and the guard is not armed to put it
  back.
\<close>

theorem unregister_only_after_handover:
  assumes "serving d w" and "handle e lk rq d w = Some (resp, d', w')"
    and "dw_registered w" and "\<not> dw_registered w'"
  shows "read_sysctl CONGESTION_CONTROL_SYSCTL (dw_sys w') = Inr (trim (fallback_cc (d_config d)))
    \<and> fallback_cc (d_config d) \<noteq> SKYLINE_CC_NAME \<and> \<not> armed (d_guard d') \<and> d_runtime d' = None"
proof -
  have v: "validate (d_config d) = Inr ()" and m': "mode_inv d' w'"
    using serving_inv [OF assms(1)] handle_inv [OF assms(2)] by (simp_all add: daemon_inv_def config_inv_def)
  obtain r w1 where h: "handle_state e rq d w = Some (r, d', w1)" and reg: "dw_registered w' = dw_registered w1"
    and sh: "same_host (system_host (env_kernel e)) (dw_sys w1) (dw_sys w')"
    using handle_cases [OF assms(2)] by metis
  have "moves rq" using handle_state_still [OF h] assms(3,4) reg by auto
  then consider (e) ms where "rq = Enable ms" | (d) t where "rq = Drain t"
    by (cases rq) (auto simp: moves_def)
  then have "read_sysctl CONGESTION_CONTROL_SYSCTL (dw_sys w1) = Inr (trim (fallback_cc (d_config d)))"
  proof cases
    case e
    have "handle_enable e ms d w = (r, d', w1)" using h e by (auto simp: handle_state_Some is_enable_def)
    moreover have "mode_inv d w" using serving_inv [OF assms(1)] by (simp add: daemon_inv_def)
    ultimately show ?thesis using enable_unregisters assms(3,4) reg by blast
  next
    case d
    then have ne: "\<not> is_enable rq" by (simp add: is_enable_def)
    obtain d1 where "handle_drain e t d w = Some (r, d1, w1)"
      using handle_state_settled [OF h ne] d by auto
    then show ?thesis using drain_unregisters assms(3,4) reg by blast
  qed
  with same_host_cc [OF sh] v m' assms(4) show ?thesis
    by (auto simp: validate_tables tuning_ok_def mode_inv_def)
qed


section \<open>A run\<close>

text \<open>
  A host on which everything works, the shipped configuration, and a client that enables: the
  hypotheses above hold of it.
\<close>

definition calm_env :: "unit env" where
  "calm_env =
     \<lparr>env_kernel = quiet_kernel, env_map = (\<lambda>_. UpdateOk), env_load_cc = Inr STRUCT_OPS_MAP,
      env_attach = Inr (), env_event_reader = Inr (), env_sampler = Inr (), env_unregister = Inr (),
      env_load_policy = Inr (), env_open_cgroup = Inr (), env_attach_cgroup = Inr (),
      env_device_type = Some 1, env_load_tc = Inr (), env_write_snapshot = (\<lambda>_. Inr ()),
      env_persist = Inr (), env_now = 0, env_unix = None, env_flows = (\<lambda>_. 0), env_clock = id,
      env_fmt = (\<lambda>_. [])\<rparr>"

definition calm_world :: "unit dworld" where
  "calm_world = \<lparr>dw_sys = drifted_world, dw_registered = False\<rparr>"

definition no_lookups :: lookups where
  "no_lookups = \<lparr>lk_metrics = None, lk_tc = None, lk_rto = None, lk_dscp = None, lk_redundancy = None, lk_readings = []\<rparr>"

definition calm_start :: start_io where
  "calm_start =
     \<lparr>st_socket = \<lparr>so_lstat = None, so_connect = None, so_remove = None\<rparr>, st_mkdir = Inr (), st_bind = Inr (),
      st_chmod = Inr (), st_persist = Inr (), st_guard = Inr (), st_watcher = Inr ()\<rparr>"

definition example_decode :: "string \<Rightarrow> (string, request) result" where
  "example_decode s =
     (if s = ''e'' then Inr (Enable None) else if s = ''d'' then Inr (Drain 0) else Inl ''unknown variant'')"

definition example_client :: "char \<Rightarrow> client" where
  "example_client c = \<lparr>cl_sent = [c, newline], cl_closed = False, cl_read_timeout = Inr (), cl_write_timeout = Inr ()\<rparr>"

definition example_load :: "(anyhow, daemon) result" where
  "example_load =
     load_daemon (\<lambda>_. Inr []) (\<lambda>_. Inr []) (\<lambda>_. Inr shipped_config) (\<lambda>_. Some []) (\<lambda>_. []) capable_host
       (Inr ()) 0 \<lparr>arg_config = ''speeder.toml'', arg_validate_only = False, arg_verify_bpf = False\<rparr>"

lemma example_daemon:
  obtains d0 where "example_load = Inr d0" "d_capabilities d0 = probe_capabilities capable_host shipped_config"
    "validate (d_config d0) = Inr ()" "d_runtime d0 = None" "d_policy d0 = None" "d_tc d0 = None"
    "rack_tuning (d_config d0) = rack_tuning shipped_config" "runtime_table (d_config d0) = runtime_table shipped_config"
    "fallback_cc (d_config d0) = ''cubic''" "d_event_log d0"
proof -
  obtain d0 where n: "daemon_new (probe_capabilities capable_host shipped_config) (Inr ()) 0 shipped_config = Inr d0"
    by (simp add: daemon_new_def Let_def)
  have l: "example_load = Inr d0"
    using n by (simp add: example_load_def load_daemon_def config_load_def from_toml_def shipped_config_valid)
  have v: "validate (d_config d0) = Inr ()"
    using daemon_new_inv [OF n shipped_config_valid] by (simp add: config_inv_def)
  show thesis
    by (rule that [OF l _ v]) (use n in \<open>auto simp: daemon_new_def Let_def shipped_config_def\<close>)
qed

text \<open>The states right after the start and after a client has enabled.\<close>

definition after :: "char list \<Rightarrow> daemon \<Rightarrow> unit dworld \<Rightarrow> bool" where
  "after cs d w =
     (\<exists>d0 d1 w1 fs1. example_load = Inr d0
        \<and> serve_start calm_start calm_env d0 calm_world Map.empty = (Inr d1, w1, fs1)
        \<and> serve_loop example_decode (map (\<lambda>c. Connects calm_env no_lookups (example_client c)) cs) d1 w1 = Some (False, d, w))"

lemma after_serving: "after cs d w \<Longrightarrow> serving d w"
  by (auto simp: after_def example_load_def intro: serving.intros)

lemma example_start:
  obtains d w where "after [] d w" "validate (d_config d) = Inr ()"
    "validate_capabilities (d_capabilities d) = Inr ()" "d_runtime d = None" "fallback_cc (d_config d) = ''cubic''"
proof -
  obtain d where l: "example_load = Inr d" and d: "d_capabilities d = probe_capabilities capable_host shipped_config"
    "validate (d_config d) = Inr ()" "d_runtime d = None" "d_policy d = None" "d_tc d = None"
    "rack_tuning (d_config d) = rack_tuning shipped_config" "runtime_table (d_config d) = runtime_table shipped_config"
    "fallback_cc (d_config d) = ''cubic''"
    by (rule example_daemon) blast
  let ?path = "rt_socket_path (runtime_table shipped_config)"
  have "serve_start calm_start calm_env d calm_world Map.empty
      = (Inr (start_tc calm_env (start_policy calm_env d)), calm_world, [?path \<mapsto> Socket True])"
    using d by (simp add: serve_start_def Let_def prepare_socket_path_def path_present_def follow_links.simps
        apply_rack_tuning_def shipped_config_def calm_start_def bind_socket_def)
  then have a: "after [] (start_tc calm_env (start_policy calm_env d)) calm_world"
    using l by (auto simp: after_def)
  let ?d = "start_tc calm_env (start_policy calm_env d)"
  have "d_config ?d = d_config d" "d_capabilities ?d = d_capabilities d" "d_runtime ?d = d_runtime d"
    by (simp_all add: start_tc_def start_policy_def split: sum.splits)
  with d capable_host_accepted show thesis by (intro that [OF a]) simp_all
qed

lemma calm_enable:
  assumes "validate (d_config d) = Inr ()" "validate_capabilities (d_capabilities d) = Inr ()" "d_runtime d = None"
  obtains m d' w' where "handle_state calm_env (Enable None) d w = Some (Inr m, d', w')"
proof -
  have v: "validate (d_config (d\<lparr>d_config := bump (d_config d)\<rparr>)) = Inr ()" using valid_bump [OF assms(1)] by simp
  have c: "validate_capabilities (d_capabilities (d\<lparr>d_config := bump (d_config d)\<rparr>)) = Inr ()" using assms(2) by simp
  obtain r w1 where l: "bpf_load calm_env (bump (d_config d)) (d_event_log d) w = (Inr r, w1)"
    by (simp add: bpf_load_def calm_env_def set_default_cc_def set_default_congestion_control_def fs_write_def
        quiet_kernel_def update_config_maps_def bpf_update_def update_u32_map_def Let_def)
  obtain d2 w2 where p: "publish_or_attach calm_env (d\<lparr>d_config := bump (d_config d)\<rparr>) w = (Inr (), d2, w2)"
    using publish_or_attach_valid [OF v c, of calm_env w] l assms(3) by simp
  obtain r2 d3 w3 where a: "enable_activate calm_env d2 w2 = (r2, d3, w3)" by (metis prod_cases3)
  then have "\<exists>m. r2 = Inr m"
    by (cases rule: enable_activate_cases)
       (auto simp: set_default_cc_def set_default_congestion_control_def fs_write_def calm_env_def quiet_kernel_def)
  with a p that show thesis by (auto simp: handle_state_Some handle_enable_def Let_def is_enable_def)
qed

lemma example_client_line: "c \<noteq> newline \<Longrightarrow> of_char c < (128 :: nat) \<Longrightarrow> read_request (example_client c) = Inr [c, newline]"
  by (simp add: read_request_def example_client_def MAX_REQUEST_BYTES_def from_utf8_def)

lemma example_words:
  "trim [CHR ''e'', newline] = ''e''" "example_decode ''e'' = Inr (Enable None)"
  by (simp_all add: trim_def is_whitespace_def example_decode_def)

lemma handle_of_state:
  "handle_state e rq d w = Some (r, d', w1) \<Longrightarrow>
     \<exists>resp w'. handle e lk rq d w = Some (resp, d', w') \<and> resp_ok resp = (case r of Inr _ \<Rightarrow> True | Inl _ \<Rightarrow> False)"
  by (auto simp: handle_def split: prod.splits)

lemma example_enabled:
  obtains d w resp d' w' where "after [] d w" "handle calm_env no_lookups (Enable None) d w = Some (resp, d', w')"
    "resp_ok resp" "after ''e'' d' w'" "fallback_cc (d_config d) = ''cubic''"
proof -
  obtain d w where a: "after [] d w" and d: "validate (d_config d) = Inr ()"
    "validate_capabilities (d_capabilities d) = Inr ()" "d_runtime d = None" "fallback_cc (d_config d) = ''cubic''"
    by (rule example_start)
  obtain m d' w1 where "handle_state calm_env (Enable None) d w = Some (Inr m, d', w1)"
    by (rule calm_enable [OF d(1-3)])
  then obtain resp w' where h: "handle calm_env no_lookups (Enable None) d w = Some (resp, d', w')" and ok: "resp_ok resp"
    using handle_of_state [of calm_env "Enable None" d w "Inr m" d' w1 no_lookups] by auto
  have "handle_stream example_decode calm_env no_lookups (example_client CHR ''e'') d w
      = Some (Inr (False, resp), d', w')"
    using h example_client_line [of "CHR ''e''"] example_words
    by (simp add: handle_stream_def) (simp add: example_client_def)
  with a have "after ''e'' d' w'" by (auto simp: after_def)
  with a h ok d(4) that show thesis by blast
qed

theorem config_always_valid_witness:
  "\<exists>d w. after ''e'' d w \<and> validate (d_config d) = Inr ()"
proof -
  obtain d w where "after ''e'' d w" by (metis example_enabled)
  then show ?thesis using config_always_valid [OF after_serving] by blast
qed

theorem status_reports_kernel_witness:
  "\<exists>d w st w'. after ''e'' d w \<and> daemon_status calm_env no_lookups d w = (st, w')
     \<and> (rst_enabled st \<longleftrightarrow> d_runtime d \<noteq> None)"
proof -
  obtain d w where a: "after ''e'' d w" by (metis example_enabled)
  obtain st w' where s: "daemon_status calm_env no_lookups d w = (st, w')" by fastforce
  show ?thesis using status_reports_kernel [OF after_serving [OF a] s] a s by blast
qed

definition bad_rto :: rack_rto_config where
  "bad_rto = rack_rto_disabled\<lparr>rr_enabled := True, rr_srtt_permille := 0\<rparr>"

lemma bad_rto_refused:
  "\<exists>resp d' w'. handle calm_env no_lookups (SetRackRto bad_rto) d w = Some (resp, d', w') \<and> \<not> resp_ok resp"
proof -
  have "validate ((d_config d)\<lparr>rack_rto := bad_rto\<rparr>) \<noteq> Inr ()"
    by (simp add: validate_tables rack_rto_ok_def bad_rto_def)
  then obtain y0 where "validate ((d_config d)\<lparr>rack_rto := bad_rto\<rparr>) = Inl y0"
    by (cases "validate ((d_config d)\<lparr>rack_rto := bad_rto\<rparr>)") auto
  then obtain y where "validate_config calm_env ((d_config d)\<lparr>rack_rto := bad_rto\<rparr>) = Inl y"
    by (simp add: validate_config_def)
  then obtain d' where h: "handle_state calm_env (SetRackRto bad_rto) d w = Some (Inl y, d', w)"
    by (simp add: handle_state_Some handle_set_rack_rto_def Let_def is_enable_def)
  from handle_of_state [OF h, of no_lookups] show ?thesis by auto
qed

theorem failed_request_changes_nothing_witness:
  "\<exists>d w resp d' w'. after ''e'' d w \<and> handle calm_env no_lookups (SetRackRto bad_rto) d w = Some (resp, d', w')
     \<and> d_config d' = d_config d"
proof -
  obtain d w where a: "after ''e'' d w" by (metis example_enabled)
  obtain resp d' w' where h: "handle calm_env no_lookups (SetRackRto bad_rto) d w = Some (resp, d', w')" "\<not> resp_ok resp"
    using bad_rto_refused by blast
  have "d_config d' = d_config d"
    using failed_request_changes_nothing [OF after_serving [OF a] h] by (simp add: is_enable_def)
  with a h show ?thesis by blast
qed

lemma calm_maps [simp]: "bpf_update calm_env n c = Inr ()" "update_u32_map calm_env n = Inr ()"
  "env_map calm_env n = UpdateOk" "env_unregister calm_env = Inr ()"
  by (simp_all add: update_u32_map_def bpf_update_def calm_env_def)

lemma calm_drain:
  assumes "d_runtime d \<noteq> None"
  obtains m d' w' where "handle_state calm_env (Drain 0) d w = Some (Inr m, d', w')" "\<not> dw_registered w'"
proof -
  obtain x d1 w1 where b: "drain_begin calm_env d w = (x, d1, w1)" by (metis prod_cases3)
  from b have x: "x = Inr ()"
  proof (cases rule: drain_begin_cases)
    case (redundancy po d3)
    then show ?thesis
      by (auto simp: apply_redundancy_def set_redundancy_def write_redundancy_config_def tc_object_with_def
          Let_def split: option.splits prod.splits if_splits)
  next
    case (policy_fails p y p')
    then show ?thesis by (auto simp: set_policy_enabled_def write_policy_enabled_def split: option.splits)
  qed (auto simp: set_default_cc_def set_default_congestion_control_def fs_write_def calm_env_def quiet_kernel_def)
  have rt: "d_runtime d1 \<noteq> None" using drain_begin_frame [OF b] assms by auto
  let ?f = "\<lambda>k. active_flows calm_env k d1"
  have none: "?f k = 0" for k by (simp add: active_flows_def calm_env_def split: option.splits)
  have "drain_wait ?f (env_clock calm_env) (checked_deadline (env_now calm_env) 0) 0 = Some 0"
    by (subst drain_wait_unfold) (simp add: wait_over_def none)
  with b x none rt have "\<exists>m d' w'. handle_drain calm_env 0 d w = Some (Inr m, d', w') \<and> \<not> dw_registered w'"
    by (auto simp: handle_drain_def drain_finish_def unregister_struct_ops_def drop_bpf_runtime_def)
  then show thesis using that by (auto simp: handle_state_Some)
qed

theorem unregister_only_after_handover_witness:
  "\<exists>d w resp d' w'. after ''e'' d w \<and> handle calm_env no_lookups (Drain 0) d w = Some (resp, d', w')
     \<and> read_sysctl CONGESTION_CONTROL_SYSCTL (dw_sys w') = Inr (trim (fallback_cc (d_config d)))"
proof -
  obtain d0 w0 resp0 d w where h0: "handle calm_env no_lookups (Enable None) d0 w0 = Some (resp0, d, w)"
    and ok: "resp_ok resp0" and a: "after ''e'' d w" by (metis example_enabled)
  obtain m w1 where "handle_state calm_env (Enable None) d0 w0 = Some (Inr m, d, w1)"
    using handle_cases [OF h0] ok by metis
  then have "handle_enable calm_env None d0 w0 = (Inr m, d, w1)" by (auto simp: handle_state_Some is_enable_def)
  from enable_config_modules [OF this] have rt: "d_runtime d \<noteq> None" by auto
  then have reg: "dw_registered w"
    using serving_inv [OF after_serving [OF a]] by (simp add: daemon_inv_def mode_inv_def)
  obtain m2 d' w2 where s: "handle_state calm_env (Drain 0) d w = Some (Inr m2, d', w2)" "\<not> dw_registered w2"
    by (rule calm_drain [OF rt])
  obtain resp w' where h: "handle calm_env no_lookups (Drain 0) d w = Some (resp, d', w')"
    using handle_of_state [OF s(1)] by blast
  have "\<not> dw_registered w'" using handle_cases [OF h] s by (metis Pair_inject option.inject)
  from unregister_only_after_handover [OF after_serving [OF a] h reg this] a h show ?thesis by blast
qed


end
