(* ===== verification/ServerProps.thy ===== *)
theory ServerProps
  imports Server
begin

text \<open>What the server does to the file system: its socket path and the snapshot file.\<close>

section \<open>The socket path\<close>

text \<open>
  A start never takes the socket of a running daemon and never removes anything but a stale
  socket: the only path touched is the socket's own, only when a socket nobody listens on is there,
  and a start goes on exactly when afterwards nothing that exists is at the path. A connection
  attempt is refused only by a socket nobody listens on.
\<close>

lemma socket_path_kept:
  assumes "prepare_socket_path io path fs = (r, fs')"
    and "so_connect io \<noteq> Some ConnectionRefused" and "so_connect io \<noteq> Some NotFound"
  shows "(fs' = fs \<or> fs path = Some (Socket False) \<and> fs' = fs(path := None) \<and> r = Inr ())
    \<and> (fs path = Some (Socket True) \<longrightarrow> r \<noteq> Inr ())
    \<and> (r = Inr () \<longrightarrow> \<not> path_present fs' path)"
proof -
  have gone: "\<not> path_present (fs(path := None)) path"
    by (simp add: path_present_def follow_links.simps)
  have present: "path_present fs path" if "fs path = Some (Socket b)" for b
    using that by (simp add: path_present_def follow_links.simps)
  show ?thesis
    using assms gone present
    by (auto simp: prepare_socket_path_def connect_to_def split: if_splits option.splits node.splits)
qed

section \<open>The snapshot file\<close>

text \<open>
  A snapshot is only ever written to a regular file at the path itself, new or old: never
  through a symbolic link, to a device, a FIFO, a socket or a directory, whatever fails on the way,
  and no other path changes; an answer of success means the file holds exactly the snapshot.
\<close>

lemma snapshot_only_regular_file:
  assumes "write_snapshot io path payload fs = (r, fs')"
  shows "(\<forall>p. p \<noteq> path \<longrightarrow> fs' p = fs p)
    \<and> (fs' path \<noteq> fs path \<longrightarrow> (fs path = None \<or> (\<exists>old. fs path = Some (Regular old))) \<and> (\<exists>new. fs' path = Some (Regular new)))
    \<and> (r = Inr () \<longrightarrow> fs' path = Some (Regular payload))"
  using assms
  by (auto simp: write_snapshot_def open_snapshot_def
      split: option.splits node.splits bool.splits sum.splits if_splits)

end
