(* ===== verification/Publish.thy ===== *)
theory Publish
  imports DaemonFrames
begin

text \<open>
  Publishing a configuration while connections copy it: \<open>update_config_maps\<close> on the daemon's side
  word by word, interleaved with \<open>skyline_adopt_config\<close> of \<^verbatim>\<open>skyline_cc.bpf.c\<close> on the kernel's.
  The writer fills the slot the sequence number does not name and then moves the number; a reader
  copies the slot the number names and keeps the copy only if the number has not moved. The number
  has 32 bits, so it comes back after 2^32 publications.
\<close>

section \<open>The words of a configuration\<close>

definition image_words :: "kernel_config \<Rightarrow> u64 list" where
  "image_words k =
     [ucast (k_abi_version k), ucast (k_generation k), ucast (k_feature_mask k), ucast (k_initial_cwnd_packets k),
      k_max_pacing_bps k, ucast (k_max_cwnd_packets k), ucast (k_max_queue_delay_us k),
      ucast (k_max_queue_delay_permille k), ucast (k_min_rtt_window_us k), ucast (k_bw_window_rtts k),
      ucast (k_startup_plateau_rtts k), ucast (k_startup_growth_permille k), ucast (k_startup_gain_permille k),
      ucast (k_cruise_inflight_permille k), ucast (k_cruise_pacing_permille k),
      ucast (k_loss_inflation_max_permille k), ucast (k_guardrail_gain_permille k), ucast (k_min_cwnd_packets k),
      ucast (k_reserved k)]"

definition N_WORDS :: nat where "N_WORDS = 19"

lemma length_image_words [simp]: "length (image_words k) = N_WORDS"
  by (simp add: image_words_def N_WORDS_def)

lemma unat_ucast_u64: "unat (ucast (a :: u32) :: u64) = unat a"
  using unat_u32_bound [of a] by (simp add: unsigned_ucast_eq take_bit_nat_eq_self)

lemma ucast_u32_inj: "(ucast (a :: u32) :: u64) = ucast b \<longleftrightarrow> a = b"
proof
  assume "(ucast a :: u64) = ucast b"
  then have "unat a = unat b" using unat_ucast_u64 [of a] unat_ucast_u64 [of b] by (simp only:)
  then show "a = b" by (rule unsigned_word_eqI)
qed simp

lemma image_words_inj: "image_words k = image_words k' \<Longrightarrow> k = k'"
  by (cases k; cases k') (simp only: image_words_def list.inject ucast_u32_inj kernel_config.select_convs simp_thms)

section \<open>Writer and reader\<close>

text \<open>
  The slots as lists of words, the number in the map, the number of publications so far and what
  each published; the writer's program counter, and one reader's: its copy so far, the number it
  read and the publication that was then current. A copy that is kept is recorded with the
  publications that were current when the reader began and when it checked the number again.
\<close>

datatype writer_pc = WIdle | WFilling "u64 list" nat

record reader =
  rd_seq :: u32
  rd_copy :: "u64 list"
  rd_began :: nat

record shared =
  sh_slots :: "u32 \<Rightarrow> u64 list"
  sh_seq :: u32
  sh_count :: nat
  sh_history :: "nat \<Rightarrow> u64 list"
  sh_writer :: writer_pc
  sh_reader :: "reader option"
  sh_adopted :: "(nat \<times> nat \<times> u64 list) list"

definition shared_init :: "u64 list \<Rightarrow> shared" where
  "shared_init ws =
     \<lparr>sh_slots = (\<lambda>_. replicate N_WORDS 0)(1 AND 1 := ws), sh_seq = 1, sh_count = 1, sh_history = (\<lambda>_. ws),
      sh_writer = WIdle, sh_reader = None, sh_adopted = []\<rparr>"

text \<open>
  One update of a map element is one step per word; moving the number is one store. An update that
  fails leaves the slot partly written and the number where it was. The reader's two reads of the
  number and each word it copies are steps of their own.
\<close>

inductive share_step :: "shared \<Rightarrow> shared \<Rightarrow> bool" where
  start_update: "sh_writer s = WIdle \<Longrightarrow>
    share_step s (s\<lparr>sh_writer := WFilling (image_words (config_kernel_config c)) 0\<rparr>)"
| fill_word: "sh_writer s = WFilling ws i \<Longrightarrow> i < N_WORDS \<Longrightarrow>
    share_step s (s\<lparr>sh_slots := (sh_slots s)((sh_seq s + 1) AND 1 := (sh_slots s ((sh_seq s + 1) AND 1))[i := ws ! i]),
      sh_writer := WFilling ws (Suc i)\<rparr>)"
| move_seq: "sh_writer s = WFilling ws N_WORDS \<Longrightarrow>
    share_step s (s\<lparr>sh_seq := sh_seq s + 1, sh_count := Suc (sh_count s),
      sh_history := (sh_history s)(Suc (sh_count s) := ws), sh_writer := WIdle\<rparr>)"
| update_fails: "sh_writer s = WFilling ws i \<Longrightarrow> share_step s (s\<lparr>sh_writer := WIdle\<rparr>)"
| read_seq: "sh_reader s = None \<Longrightarrow>
    share_step s (s\<lparr>sh_reader := Some \<lparr>rd_seq = sh_seq s, rd_copy = [], rd_began = sh_count s\<rparr>\<rparr>)"
| copy_word: "sh_reader s = Some r \<Longrightarrow> length (rd_copy r) < N_WORDS \<Longrightarrow>
    share_step s (s\<lparr>sh_reader := Some (r\<lparr>rd_copy := rd_copy r @ [sh_slots s (rd_seq r AND 1) ! length (rd_copy r)]\<rparr>)\<rparr>)"
| adopt_copy: "sh_reader s = Some r \<Longrightarrow> length (rd_copy r) = N_WORDS \<Longrightarrow> sh_seq s = rd_seq r \<Longrightarrow>
    rd_copy r ! 0 = ucast ABI_VERSION \<Longrightarrow>
    share_step s (s\<lparr>sh_reader := None, sh_adopted := (rd_began r, sh_count s, rd_copy r) # sh_adopted s\<rparr>)"
| drop_copy: "sh_reader s = Some r \<Longrightarrow> length (rd_copy r) = N_WORDS \<Longrightarrow>
    sh_seq s \<noteq> rd_seq r \<or> rd_copy r ! 0 \<noteq> ucast ABI_VERSION \<Longrightarrow>
    share_step s (s\<lparr>sh_reader := None\<rparr>)"

inductive share_run :: "shared \<Rightarrow> shared \<Rightarrow> bool" where
  share_stop: "share_run s s"
| share_more: "share_run s t \<Longrightarrow> share_step t u \<Longrightarrow> share_run s u"

section \<open>The invariant\<close>

text \<open>The number has 32 bits: after this many publications it is back at the same value.\<close>

definition SEQ_PERIOD :: nat where "SEQ_PERIOD = 2 ^ 32"

definition whole :: "u64 list \<Rightarrow> bool" where
  "whole ws = (\<exists>c. ws = image_words (config_kernel_config c))"

lemma whole_image [simp]: "whole (image_words (config_kernel_config c))"
  by (auto simp: whole_def)

lemma whole_length: "whole ws \<Longrightarrow> length ws = N_WORDS"
  by (auto simp: whole_def)

definition slots_inv :: "shared \<Rightarrow> bool" where
  "slots_inv s =
     (sh_seq s = word_of_nat (sh_count s)
      \<and> (\<forall>b. length (sh_slots s b) = N_WORDS)
      \<and> sh_slots s (sh_seq s AND 1) = sh_history s (sh_count s)
      \<and> (\<forall>n. whole (sh_history s n)))"

definition writer_inv :: "shared \<Rightarrow> bool" where
  "writer_inv s =
     (case sh_writer s of WIdle \<Rightarrow> True
      | WFilling ws i \<Rightarrow> i \<le> N_WORDS \<and> whole ws \<and> take i (sh_slots s ((sh_seq s + 1) AND 1)) = take i ws)"

definition reader_inv :: "shared \<Rightarrow> bool" where
  "reader_inv s =
     (case sh_reader s of None \<Rightarrow> True
      | Some r \<Rightarrow> length (rd_copy r) \<le> N_WORDS \<and> rd_began r \<le> sh_count s
          \<and> rd_seq r = word_of_nat (rd_began r)
          \<and> (rd_began r = sh_count s \<longrightarrow> rd_copy r = take (length (rd_copy r)) (sh_history s (sh_count s))))"

definition adopted_inv :: "shared \<Rightarrow> bool" where
  "adopted_inv s =
     (\<forall>(n, m, ws) \<in> set (sh_adopted s). n \<le> m \<and> m \<le> sh_count s \<and> (m < n + SEQ_PERIOD \<longrightarrow> n = m \<and> ws = sh_history s n))"

lemmas share_inv_defs = slots_inv_def writer_inv_def reader_inv_def adopted_inv_def

lemma same_seq:
  assumes "(word_of_nat n :: u32) = word_of_nat m" "n \<le> m" "m < n + SEQ_PERIOD"
  shows "n = m"
proof -
  have "n mod 2 ^ 32 = m mod 2 ^ 32"
    using assms(1) by (simp add: word_of_nat_eq_iff take_bit_eq_mod)
  then have "2 ^ 32 dvd m - n" using assms(2) mod_eq_dvd_iff_nat [of n m "2 ^ 32"] by simp
  moreover have "m - n < 2 ^ 32" using assms(2,3) by (simp add: SEQ_PERIOD_def)
  ultimately show ?thesis using assms(2) nat_dvd_not_less [of "m - n" "2 ^ 32"] by linarith
qed

lemma next_slot_other: "(x + 1 + 1) AND 1 \<noteq> (x + 1) AND (1 :: u32)"
  by (rule other_slot)

lemma step_slots:
  assumes "share_step s t" "slots_inv s" "writer_inv s"
  shows "slots_inv t"
  using assms
proof (induction rule: share_step.induct)
  case (fill_word s ws i)
  then show ?case using other_slot [of "sh_seq s"] by (auto simp: slots_inv_def)
next
  case (move_seq s ws)
  then have "sh_slots s ((sh_seq s + 1) AND 1) = ws"
    using whole_length [of ws] by (simp add: slots_inv_def writer_inv_def)
  with move_seq show ?case by (simp add: slots_inv_def writer_inv_def add.commute)
qed (auto simp: slots_inv_def)

lemma step_writer:
  assumes "share_step s t" "slots_inv s" "writer_inv s"
  shows "writer_inv t"
  using assms
proof (induction rule: share_step.induct)
  case (fill_word s ws i)
  then show ?case
    using whole_length [of ws] by (simp add: slots_inv_def writer_inv_def take_Suc_conv_app_nth)
qed (auto simp: writer_inv_def split: writer_pc.splits)

lemma step_reader:
  assumes "share_step s t" "slots_inv s" "reader_inv s"
  shows "reader_inv t"
  using assms
proof (induction rule: share_step.induct)
  case (copy_word s r)
  have whole: "length (sh_history s (sh_count s)) = N_WORDS"
    using copy_word.prems whole_length by (simp add: slots_inv_def)
  show ?case
  proof (cases "rd_began r = sh_count s")
    case True
    with copy_word have "rd_copy r = take (length (rd_copy r)) (sh_history s (sh_count s))"
        "sh_slots s (rd_seq r AND 1) = sh_history s (sh_count s)" "rd_seq r = word_of_nat (sh_count s)"
      by (auto simp: reader_inv_def slots_inv_def)
    with copy_word True whole show ?thesis
      by (simp add: reader_inv_def take_Suc_conv_app_nth)
  next
    case False
    with copy_word show ?thesis by (simp add: reader_inv_def)
  qed
qed (auto simp: reader_inv_def slots_inv_def split: option.splits)

lemma adopt_whole:
  assumes "slots_inv s" "reader_inv s" "sh_reader s = Some r"
    "length (rd_copy r) = N_WORDS" "sh_seq s = rd_seq r" "sh_count s < rd_began r + SEQ_PERIOD"
  shows "rd_began r = sh_count s \<and> rd_copy r = sh_history s (rd_began r)"
proof -
  have r: "rd_began r \<le> sh_count s" "rd_seq r = word_of_nat (rd_began r)"
    and copy: "rd_began r = sh_count s \<longrightarrow> rd_copy r = take (length (rd_copy r)) (sh_history s (sh_count s))"
    using assms(2,3) by (auto simp: reader_inv_def)
  have seq: "sh_seq s = word_of_nat (sh_count s)" and len: "length (sh_history s (sh_count s)) = N_WORDS"
    using assms(1) whole_length by (auto simp: slots_inv_def)
  have "rd_began r = sh_count s"
    using same_seq [of "rd_began r" "sh_count s"] r seq assms(5,6) by metis
  with copy len assms(4) show ?thesis by simp
qed

lemma step_adopted:
  assumes "share_step s t" "slots_inv s" "reader_inv s" "adopted_inv s"
  shows "adopted_inv t"
  using assms
proof (induction rule: share_step.induct)
  case (adopt_copy s r)
  then have "sh_count s < rd_began r + SEQ_PERIOD \<longrightarrow> rd_began r = sh_count s \<and> rd_copy r = sh_history s (rd_began r)"
    using adopt_whole by blast
  moreover have "rd_began r \<le> sh_count s"
    using adopt_copy.prems adopt_copy.hyps by (simp add: reader_inv_def)
  ultimately show ?case using adopt_copy.prems(3) by (simp add: adopted_inv_def)
next
  case (move_seq s ws)
  then show ?case unfolding adopted_inv_def by (fastforce split: prod.splits)
qed (simp_all add: adopted_inv_def)

definition share_inv :: "shared \<Rightarrow> bool" where
  "share_inv s = (slots_inv s \<and> writer_inv s \<and> reader_inv s \<and> adopted_inv s)"

lemma share_inv_init: "share_inv (shared_init (image_words (config_kernel_config c)))"
  by (simp add: share_inv_def share_inv_defs shared_init_def)

lemma share_inv_run: "share_run s t \<Longrightarrow> share_inv s \<Longrightarrow> share_inv t"
  by (induction rule: share_run.induct)
    (auto simp: share_inv_def dest: step_slots step_writer step_reader step_adopted)

text \<open>
  C5. A connection never keeps a torn configuration: in every interleaving of the daemon's updates
  (those that fail half way included) with a connection's copying, a copy that
  \<open>skyline_adopt_config\<close> keeps is, word for word, the configuration that was current when the
  connection read the number, one that \<open>update_config_maps\<close> published, and it is still the current
  one when the number is read again; provided that fewer than 2^32 updates happened in between,
  after which the 32-bit number has come round to the same value.
\<close>

theorem adopted_copy_whole:
  assumes "share_run (shared_init (image_words (config_kernel_config c))) s"
    and "(n, m, ws) \<in> set (sh_adopted s)" and "m < n + SEQ_PERIOD"
  shows "n = m \<and> ws = sh_history s n \<and> (\<exists>c'. ws = image_words (config_kernel_config c'))"
proof -
  have "share_inv s" using assms(1) share_inv_init by (rule share_inv_run)
  then show ?thesis using assms(2,3) by (fastforce simp: share_inv_def adopted_inv_def slots_inv_def whole_def)
qed

text \<open>A connection that copies undisturbed: it keeps the first configuration.\<close>

definition copying :: "u64 list \<Rightarrow> nat \<Rightarrow> shared" where
  "copying ws k = (shared_init ws)\<lparr>sh_reader := Some \<lparr>rd_seq = 1, rd_copy = take k ws, rd_began = 1\<rparr>\<rparr>"

lemma copying_run: "length ws = N_WORDS \<Longrightarrow> k \<le> N_WORDS \<Longrightarrow> share_run (shared_init ws) (copying ws k)"
proof (induction k)
  case 0
  have "share_step (shared_init ws) (copying ws 0)"
    using read_seq [of "shared_init ws"] by (simp add: copying_def shared_init_def)
  with share_stop show ?case by (rule share_more)
next
  case (Suc k)
  let ?r = "\<lparr>rd_seq = 1, rd_copy = take k ws, rd_began = 1\<rparr>"
  have "share_step (copying ws k) (copying ws (Suc k))"
    using copy_word [of "copying ws k" ?r] Suc.prems
    by (simp add: copying_def shared_init_def take_Suc_conv_app_nth)
  with Suc show ?case by (auto intro: share_more)
qed

lemma image_abi: "image_words (config_kernel_config c) ! 0 = ucast ABI_VERSION"
  by (simp add: image_words_def config_kernel_config_def)

lemma adopted_run:
  fixes c
  defines "ws \<equiv> image_words (config_kernel_config c)"
  shows "share_run (shared_init ws) ((copying ws N_WORDS)\<lparr>sh_reader := None, sh_adopted := [(1, 1, ws)]\<rparr>)"
proof -
  let ?r = "\<lparr>rd_seq = 1, rd_copy = ws, rd_began = 1\<rparr>"
  have len: "length ws = N_WORDS" "ws ! 0 = ucast ABI_VERSION" by (simp_all add: ws_def image_abi)
  have "share_step (copying ws N_WORDS) ((copying ws N_WORDS)\<lparr>sh_reader := None, sh_adopted := [(1, 1, ws)]\<rparr>)"
    using adopt_copy [of "copying ws N_WORDS" ?r] len by (simp add: copying_def shared_init_def)
  with copying_run [OF len(1) order_refl] show ?thesis by (rule share_more)
qed

theorem adopted_copy_whole_witness:
  "\<exists>s. share_run (shared_init (image_words (config_kernel_config shipped_config))) s
     \<and> (1, 1, image_words (config_kernel_config shipped_config)) \<in> set (sh_adopted s)
     \<and> image_words (config_kernel_config shipped_config) = sh_history s 1"
proof -
  let ?ws = "image_words (config_kernel_config shipped_config)"
  let ?s = "(copying ?ws N_WORDS)\<lparr>sh_reader := None, sh_adopted := [(1, 1, ?ws)]\<rparr>"
  have run: "share_run (shared_init ?ws) ?s" by (rule adopted_run)
  have kept: "(1, 1, ?ws) \<in> set (sh_adopted ?s)" by simp
  have "?ws = sh_history ?s 1" using adopted_copy_whole [OF run kept] by (simp add: SEQ_PERIOD_def)
  with run kept show ?thesis by blast
qed

end
