(* ===== verification/Flows.thy ===== *)
theory Flows
  imports Floats Host
begin

text \<open>
  The connections \<open>skyline_cc\<close> is running (\<^verbatim>\<open>flows.rs\<close>): the listing of \<^verbatim>\<open>ss -tin\<close> parsed into rows,
  the counts and the capped list of a \<open>FlowReport\<close>. The counters of a report count lines of a
  text in memory, so they are natural numbers here.
\<close>

section \<open>Rows and reports\<close>

record flow_row =
  fr_peer :: string
  fr_local :: string
  fr_state :: string
  fr_rtt_ms :: "f64 option"
  fr_rtt_var_ms :: "f64 option"
  fr_min_rtt_ms :: "f64 option"
  fr_cwnd_packets :: "u64 option"
  fr_ssthresh :: "u64 option"
  fr_pacing_bps :: "u64 option"
  fr_delivery_bps :: "u64 option"
  fr_send_bps :: "u64 option"
  fr_bytes_sent :: "u64 option"
  fr_bytes_acked :: "u64 option"
  fr_bytes_retrans :: "u64 option"
  fr_retrans_total :: "u64 option"
  fr_unacked :: "u64 option"
  fr_mss :: "u32 option"
  fr_rto_ms :: "f64 option"

definition flow_row_default :: flow_row where
  "flow_row_default =
     \<lparr>fr_peer = [], fr_local = [], fr_state = [], fr_rtt_ms = None, fr_rtt_var_ms = None, fr_min_rtt_ms = None,
      fr_cwnd_packets = None, fr_ssthresh = None, fr_pacing_bps = None, fr_delivery_bps = None,
      fr_send_bps = None, fr_bytes_sent = None, fr_bytes_acked = None, fr_bytes_retrans = None,
      fr_retrans_total = None, fr_unacked = None, fr_mss = None, fr_rto_ms = None\<rparr>"

definition retransmit_ratio :: "flow_row \<Rightarrow> f64 option" where
  "retransmit_ratio r =
     (case (fr_bytes_sent r, fr_bytes_retrans r) of
        (Some sent, Some retrans) \<Rightarrow>
          if sent > 0 then Some (f64_div (f64_of_nat (unat retrans)) (f64_of_nat (unat sent))) else None
      | _ \<Rightarrow> None)"

record flow_report =
  accelerated :: "flow_row list"
  tcp_total :: nat
  on_skyline_cc :: nat
  truncated :: nat
  source_error :: "string option"

definition flow_report_default :: flow_report where
  "flow_report_default =
     \<lparr>accelerated = [], tcp_total = 0, on_skyline_cc = 0, truncated = 0, source_error = None\<rparr>"

definition FLOW_ROWS_MAX :: nat where "FLOW_ROWS_MAX = 50"

section \<open>Fields\<close>

definition rate_scale :: "string \<Rightarrow> (string \<times> f64) option" where
  "rate_scale lowered =
     (case strip_suffix_str ''tbps'' lowered of Some head \<Rightarrow> Some (head, Finite (10 ^ 12))
      | None \<Rightarrow>
     (case strip_suffix_str ''gbps'' lowered of Some head \<Rightarrow> Some (head, Finite (10 ^ 9))
      | None \<Rightarrow>
     (case strip_suffix_str ''mbps'' lowered of Some head \<Rightarrow> Some (head, Finite (10 ^ 6))
      | None \<Rightarrow>
     (case strip_suffix_str ''kbps'' lowered of Some head \<Rightarrow> Some (head, Finite (10 ^ 3))
      | None \<Rightarrow> map_option (\<lambda>head. (head, Finite 1)) (strip_suffix_str ''bps'' lowered)))))"

definition parse_rate :: "string \<Rightarrow> u64 option" where
  "parse_rate token =
     (case rate_scale (to_ascii_lowercase token) of None \<Rightarrow> None
      | Some (mantissa, scale) \<Rightarrow>
          (case parse_f64 mantissa of None \<Rightarrow> None
           | Some v \<Rightarrow>
               if \<not> is_finite v \<or> f64_lt v (Finite 0) then None
               else Some (f64_as_u64 (f64_mul v scale))))"

text \<open>The value of \<open>send\<close>, \<open>pacing_rate\<close> and \<open>delivery_rate\<close> is the next token.\<close>

definition apply_rate :: "string \<Rightarrow> string option \<Rightarrow> flow_row \<Rightarrow> flow_row" where
  "apply_rate token next row =
     (if token = ''send'' then row\<lparr>fr_send_bps := Option.bind next parse_rate\<rparr>
      else if token = ''pacing_rate'' then row\<lparr>fr_pacing_bps := Option.bind next parse_rate\<rparr>
      else if token = ''delivery_rate'' then row\<lparr>fr_delivery_bps := Option.bind next parse_rate\<rparr>
      else row)"

definition apply_key :: "string \<Rightarrow> string \<Rightarrow> flow_row \<Rightarrow> flow_row" where
  "apply_key key v row =
     (if key = ''rtt'' then
        (let (srtt, var) = (case split_once (CHR ''/'') v of Some p \<Rightarrow> p | None \<Rightarrow> (v, []))
         in row\<lparr>fr_rtt_ms := parse_f64 srtt, fr_rtt_var_ms := parse_f64 var\<rparr>)
      else if key = ''minrtt'' then row\<lparr>fr_min_rtt_ms := parse_f64 v\<rparr>
      else if key = ''rto'' then row\<lparr>fr_rto_ms := parse_f64 v\<rparr>
      else if key = ''cwnd'' then row\<lparr>fr_cwnd_packets := parse_u64 v\<rparr>
      else if key = ''ssthresh'' then row\<lparr>fr_ssthresh := parse_u64 v\<rparr>
      else if key = ''mss'' then row\<lparr>fr_mss := parse_u32 v\<rparr>
      else if key = ''unacked'' then row\<lparr>fr_unacked := parse_u64 v\<rparr>
      else if key = ''bytes_sent'' then row\<lparr>fr_bytes_sent := parse_u64 v\<rparr>
      else if key = ''bytes_acked'' then row\<lparr>fr_bytes_acked := parse_u64 v\<rparr>
      else if key = ''bytes_retrans'' then row\<lparr>fr_bytes_retrans := parse_u64 v\<rparr>
      else if key = ''retrans'' then
        row\<lparr>fr_retrans_total :=
          parse_u64 (case split_once (CHR ''/'') v of Some (_, count) \<Rightarrow> count | None \<Rightarrow> v)\<rparr>
      else row)"

fun apply_tokens :: "string list \<Rightarrow> flow_row \<Rightarrow> flow_row" where
  "apply_tokens [] row = row"
| "apply_tokens (token # rest) row =
     (let row1 = apply_rate token (case rest of [] \<Rightarrow> None | t # _ \<Rightarrow> Some t) row;
          row2 = (case split_once (CHR '':'') token of None \<Rightarrow> row1 | Some (key, v) \<Rightarrow> apply_key key v row1)
      in apply_tokens rest row2)"

definition apply_info :: "flow_row \<Rightarrow> string \<Rightarrow> flow_row" where
  "apply_info row info = apply_tokens (split_whitespace info) row"

section \<open>Parsing the listing\<close>

definition finish :: "(flow_row \<times> string) option \<Rightarrow> string \<Rightarrow> flow_report \<Rightarrow> flow_report" where
  "finish record cc_name report =
     (case record of None \<Rightarrow> report
      | Some (row, info) \<Rightarrow>
          if \<not> list_ex (\<lambda>token. token = cc_name) (split_whitespace info) then report
          else report\<lparr>on_skyline_cc := on_skyline_cc report + 1,
                      accelerated := accelerated report @ [apply_info row info]\<rparr>)"

text \<open>The loop over the lines: the report so far, the socket being read, the malformed lines.\<close>

definition parse_line_step ::
  "string \<Rightarrow> string \<Rightarrow> flow_report \<times> (flow_row \<times> string) option \<times> nat \<Rightarrow> flow_report \<times> (flow_row \<times> string) option \<times> nat" where
  "parse_line_step cc_name line st =
     (case st of (report, current, malformed) \<Rightarrow>
        if trim line = [] then st
        else if hd line = CHR '' '' \<or> hd line = CHR 0x09
        then (report, map_option (\<lambda>(row, info). (row, info @ '' '' @ trim line)) current, malformed)
        else (let report1 = finish current cc_name report
              in case split_whitespace line of
                   state # _ # _ # local # peer # _ \<Rightarrow>
                     if state = ''State'' \<or> state = ''Netid'' then (report1, None, malformed)
                     else (report1\<lparr>tcp_total := tcp_total report1 + 1\<rparr>,
                           Some (flow_row_default\<lparr>fr_peer := peer, fr_local := local, fr_state := state\<rparr>, []),
                           malformed)
                 | _ \<Rightarrow> (report1, None, malformed + 1)))"

text \<open>\<open>b.bytes_sent.cmp(&a.bytes_sent)\<close>: most bytes first, a row without the counter last.\<close>

definition sent_key :: "flow_row \<Rightarrow> int" where
  "sent_key r = (case fr_bytes_sent r of None \<Rightarrow> 1 | Some n \<Rightarrow> - int (unat n))"

definition cap_rows :: "flow_report \<Rightarrow> flow_report" where
  "cap_rows report =
     (let rows = sort_key sent_key (accelerated report)
      in if length rows > FLOW_ROWS_MAX
         then report\<lparr>truncated := length rows - FLOW_ROWS_MAX, accelerated := take FLOW_ROWS_MAX rows\<rparr>
         else report\<lparr>accelerated := rows\<rparr>)"

definition parse_flows :: "string \<Rightarrow> string \<Rightarrow> flow_report" where
  "parse_flows output cc_name =
     (let (report, current, malformed) = fold (parse_line_step cc_name) (lines output) (flow_report_default, None, 0);
          report1 = finish current cc_name report;
          report2 = (if tcp_total report1 = 0 \<and> malformed > 0
                     then report1\<lparr>source_error := Some (''ss printed '' @ dec malformed @
                       '' line(s) in a format this build does not recognise'')\<rparr>
                     else report1)
      in cap_rows report2)"

definition SS_TIMEOUT_MS :: nat where "SS_TIMEOUT_MS = 5000"

definition describe :: "anyhow \<Rightarrow> string" where
  "describe e =
     (if io_kind_of e = Some NotFound
      then ''ss is not installed (iproute2), so connections cannot be listed''
      else join '': '' (chain e))"

definition collect :: "string \<Rightarrow> bool \<Rightarrow> child_outcome \<Rightarrow> nat \<Rightarrow> flow_report \<times> nat" where
  "collect cc_name reaper_started outcome unreaped =
     (case run_bounded ''ss'' [''-tin''] SS_TIMEOUT_MS reaper_started outcome unreaped of
        (Inr output, n) \<Rightarrow> (parse_flows output cc_name, n)
      | (Inl e, n) \<Rightarrow> (flow_report_default\<lparr>source_error := Some (describe e)\<rparr>, n))"

section \<open>The report of a listing\<close>

text \<open>
  A socket as \<^verbatim>\<open>ss -tin\<close> lists it: its state, two queue lengths, its addresses and further columns,
  then the lines of its detail, each a list of words. \<open>listing\<close> prints it the way \<^verbatim>\<open>ss\<close> does.
\<close>

record socket =
  so_state :: string
  so_queues :: "string \<times> string"
  so_local :: string
  so_peer :: string
  so_more :: "string list"
  so_detail :: "string list list"

definition socket_words :: "socket \<Rightarrow> string list" where
  "socket_words s = so_state s # fst (so_queues s) # snd (so_queues s) # so_local s # so_peer s # so_more s"

definition socket_ok :: "socket \<Rightarrow> bool" where
  "socket_ok s =
     (list_all is_word (socket_words s) \<and> so_state s \<noteq> ''State'' \<and> so_state s \<noteq> ''Netid''
      \<and> list_all (\<lambda>ws. ws \<noteq> [] \<and> list_all is_word ws) (so_detail s))"

definition detail_line :: "string list \<Rightarrow> string" where
  "detail_line ws = CHR 0x09 # '' '' @ join '' '' ws"

definition socket_lines :: "socket \<Rightarrow> string list" where
  "socket_lines s = join '' '' (socket_words s) # map detail_line (so_detail s)"

definition header_line :: string where
  "header_line = ''State  Recv-Q Send-Q Local Address:Port  Peer Address:Port''"

definition listing :: "socket list \<Rightarrow> string" where
  "listing ss = concat (map (\<lambda>l. l @ [newline]) (header_line # concat (map socket_lines ss)))"

definition socket_row :: "socket \<Rightarrow> flow_row" where
  "socket_row s =
     apply_tokens (concat (so_detail s))
       (flow_row_default\<lparr>fr_peer := so_peer s, fr_local := so_local s, fr_state := so_state s\<rparr>)"

definition runs_on :: "string \<Rightarrow> socket \<Rightarrow> bool" where
  "runs_on cc s = (cc \<in> set (concat (so_detail s)))"


definition report_of :: "string \<Rightarrow> socket list \<Rightarrow> flow_report" where
  "report_of cc ss =
     (let rows = map socket_row (filter (runs_on cc) ss)
      in \<lparr>accelerated = take FLOW_ROWS_MAX (sort_key sent_key rows), tcp_total = length ss,
          on_skyline_cc = length rows, truncated = length rows - FLOW_ROWS_MAX, source_error = None\<rparr>)"

lemma split_whitespace_append:
  "split_whitespace (a @ CHR '' '' # b) = split_whitespace a @ split_whitespace b"
  by (simp add: split_whitespace_def split_on_append is_whitespace_def)

lemma words_ends:
  assumes "ws \<noteq> []" "list_all is_word ws"
  shows "join '' '' ws \<noteq> []" "\<not> is_whitespace (hd (join '' '' ws))" "\<not> is_whitespace (last (join '' '' ws))"
proof -
  have l: "is_word (last ws)" "is_word (hd ws)" using assms by (auto simp: list_all_iff)
  then have n: "last ws \<noteq> []" by (simp add: is_word_def)
  show "join '' '' ws \<noteq> []" using assms(1) n by (rule join_nonempty)
  show "\<not> is_whitespace (last (join '' '' ws))"
    using l(1) n last_join [OF assms(1) n] by (simp add: is_word_def)
  have "hd (join '' '' ws) = hd (hd ws)"
    using l(2) assms(1) by (induction "'' ''" ws rule: join.induct) (auto simp: is_word_def)
  with l(2) show "\<not> is_whitespace (hd (join '' '' ws))" by (cases "hd ws") (auto simp: is_word_def)
qed

lemma trim_words: "ws \<noteq> [] \<Longrightarrow> list_all is_word ws \<Longrightarrow> trim (join '' '' ws) = join '' '' ws"
  using trim_inner [of "join '' '' ws" "[]"] words_ends by simp

lemma trim_detail: "ws \<noteq> [] \<Longrightarrow> list_all is_word ws \<Longrightarrow> trim (detail_line ws) = join '' '' ws"
  using trim_inner [of "join '' '' ws" "[CHR 0x09, CHR '' '']"] words_ends
  by (simp add: detail_line_def is_whitespace_def)

lemma line_plain:
  assumes "ws \<noteq> []" "list_all is_word ws"
  shows "newline \<notin> set (join '' '' ws)" "last (join '' '' ws) \<noteq> CHR 0x0D"
    "newline \<notin> set (detail_line ws)" "last (detail_line ws) \<noteq> CHR 0x0D" "split_whitespace (join '' '' ws) = ws"
  using words_line [of ws] words_ends(1) [OF assms] assms by (auto simp: list_all_iff detail_line_def)

lemma detail_fold:
  assumes "list_all (\<lambda>ws. ws \<noteq> [] \<and> list_all is_word ws) dss"
  shows "\<exists>info'. fold (parse_line_step cc) (map detail_line dss) (r, Some (row, info), m) = (r, Some (row, info'), m)
           \<and> split_whitespace info' = split_whitespace info @ concat dss"
  using assms
proof (induction dss arbitrary: info)
  case (Cons ws dss)
  then have w: "ws \<noteq> []" "list_all is_word ws" by auto
  have "parse_line_step cc (detail_line ws) (r, Some (row, info), m) = (r, Some (row, info @ '' '' @ join '' '' ws), m)"
    using trim_detail [OF w] words_ends(1) [OF w] by (simp add: parse_line_step_def detail_line_def)
  with Cons.IH [of "info @ '' '' @ join '' '' ws"] Cons.prems show ?case
    using line_plain(5) [OF w] by (auto simp: split_whitespace_append)
qed simp

lemma socket_first_line:
  assumes "socket_ok s"
  shows "parse_line_step cc (join '' '' (socket_words s)) (r, c, m) =
    ((finish c cc r)\<lparr>tcp_total := tcp_total (finish c cc r) + 1\<rparr>,
     Some (flow_row_default\<lparr>fr_peer := so_peer s, fr_local := so_local s, fr_state := so_state s\<rparr>, []), m)"
proof -
  have w: "socket_words s \<noteq> []" "list_all is_word (socket_words s)"
    using assms by (simp_all add: socket_ok_def socket_words_def)
  have h: "hd (join '' '' (socket_words s)) \<noteq> CHR '' ''" "hd (join '' '' (socket_words s)) \<noteq> CHR 0x09"
    using words_ends(2) [OF w] by (auto simp: is_whitespace_def Let_def)
  show ?thesis
    using trim_words [OF w] words_ends(1) [OF w] h line_plain(5) [OF w] assms
    by (simp add: parse_line_step_def Let_def) (simp add: socket_words_def socket_ok_def)
qed

definition add_socket :: "string \<Rightarrow> socket \<Rightarrow> flow_report \<Rightarrow> flow_report" where
  "add_socket cc s r =
     (let r1 = r\<lparr>tcp_total := tcp_total r + 1\<rparr>
      in if runs_on cc s
         then r1\<lparr>on_skyline_cc := on_skyline_cc r1 + 1, accelerated := accelerated r1 @ [socket_row s]\<rparr> else r1)"

definition flushed :: "string \<Rightarrow> flow_report \<times> (flow_row \<times> string) option \<times> nat \<Rightarrow> flow_report \<times> nat" where
  "flushed cc st = (case st of (r, c, m) \<Rightarrow> (finish c cc r, m))"

lemma socket_fold:
  assumes "socket_ok s"
  shows "flushed cc (fold (parse_line_step cc) (socket_lines s) st) = apfst (add_socket cc s) (flushed cc st)"
proof -
  obtain r c m where st: "st = (r, c, m)" by (cases st)
  let ?r = "(finish c cc r)\<lparr>tcp_total := tcp_total (finish c cc r) + 1\<rparr>"
  let ?row = "flow_row_default\<lparr>fr_peer := so_peer s, fr_local := so_local s, fr_state := so_state s\<rparr>"
  have "list_all (\<lambda>ws. ws \<noteq> [] \<and> list_all is_word ws) (so_detail s)" using assms by (simp add: socket_ok_def)
  from detail_fold [OF this, of cc ?r ?row "[]" m] obtain info where
    d: "fold (parse_line_step cc) (map detail_line (so_detail s)) (?r, Some (?row, []), m) = (?r, Some (?row, info), m)"
    and i: "split_whitespace info = concat (so_detail s)" by auto
  have f: "fold (parse_line_step cc) (socket_lines s) st = (?r, Some (?row, info), m)"
    unfolding st socket_lines_def fold_Cons comp_apply socket_first_line [OF assms] by (rule d)
  show ?thesis
    unfolding f unfolding st
    by (auto simp: flushed_def finish_def [of "Some _"] i add_socket_def runs_on_def list_ex_iff
        apply_info_def socket_row_def Let_def)
qed

lemma sockets_fold:
  "list_all socket_ok ss \<Longrightarrow>
     flushed cc (fold (parse_line_step cc) (concat (map socket_lines ss)) st) = apfst (fold (add_socket cc) ss) (flushed cc st)"
  by (induction ss arbitrary: st) (simp_all add: socket_fold apfst_compose [symmetric] del: apfst_compose)

lemma add_sockets:
  "fold (add_socket cc) ss r =
     r\<lparr>accelerated := accelerated r @ map socket_row (filter (runs_on cc) ss),
       tcp_total := tcp_total r + length ss, on_skyline_cc := on_skyline_cc r + length (filter (runs_on cc) ss)\<rparr>"
  by (induction ss arbitrary: r) (simp_all add: add_socket_def Let_def)

lemma header_step: "parse_line_step cc header_line (flow_report_default, None, 0) = (flow_report_default, None, 0)"
  by (simp add: parse_line_step_def header_line_def trim_def is_whitespace_def split_whitespace_def finish_def)

lemma lines_listing:
  assumes "list_all socket_ok ss"
  shows "lines (listing ss) = header_line # concat (map socket_lines ss)"
  unfolding listing_def
proof (rule lines_concat, rule ballI)
  fix l
  assume "l \<in> set (header_line # concat (map socket_lines ss))"
  then consider "l = header_line"
    | s where "socket_ok s" "l = join '' '' (socket_words s)"
    | s ws where "socket_ok s" "ws \<in> set (so_detail s)" "l = detail_line ws"
    using assms by (auto simp: socket_lines_def list_all_iff)
  then show "newline \<notin> set l \<and> (l = [] \<or> last l \<noteq> CHR 0x0D)"
  proof cases
    case 1
    then show ?thesis by (simp add: header_line_def)
  next
    case (2 s)
    then show ?thesis using line_plain(1,2) [of "socket_words s"] by (simp add: socket_ok_def socket_words_def)
  next
    case (3 s ws)
    then show ?thesis using line_plain(3,4) [of ws] by (auto simp: socket_ok_def list_all_iff)
  qed
qed

text \<open>
  C34. Parsing what \<^verbatim>\<open>ss -tin\<close> prints of any list of sockets gives the specified report: every socket
  counted, those whose detail has \<open>cc_name\<close> as a word of its own (in whichever of its lines) counted
  and listed with the fields of their detail, most bytes sent first, at most 50 of them, the rest
  counted as truncated, and no error.
\<close>

theorem listing_report:
  assumes "list_all socket_ok ss"
  shows "parse_flows (listing ss) cc = report_of cc ss"
proof -
  obtain r c m where f: "fold (parse_line_step cc) (concat (map socket_lines ss)) (flow_report_default, None, 0) = (r, c, m)"
    by (rule prod_cases3)
  from sockets_fold [OF assms, of cc "(flow_report_default, None, 0)"] f
  have "finish c cc r = fold (add_socket cc) ss flow_report_default" "m = 0"
    by (simp_all add: flushed_def finish_def)
  with f lines_listing [OF assms] have "parse_flows (listing ss) cc = cap_rows (fold (add_socket cc) ss flow_report_default)"
    by (simp add: parse_flows_def header_step Let_def)
  then show ?thesis
    by (simp add: add_sockets cap_rows_def report_of_def flow_report_default_def Let_def)
qed

definition example_sockets :: "socket list" where
  "example_sockets =
     [\<lparr>so_state = ''ESTAB'', so_queues = (''0'', ''0''), so_local = ''10.0.0.1:22'', so_peer = ''10.0.0.9:51484'',
       so_more = [], so_detail = [[''ts'', ''cubic'', ''cwnd:10'']]\<rparr>,
      \<lparr>so_state = ''ESTAB'', so_queues = (''0'', ''0''), so_local = ''10.0.0.1:3'', so_peer = ''10.0.0.2:4'',
       so_more = [], so_detail = [[''ts'', ''skyline_cc''], [''cwnd:10'']]\<rparr>]"

theorem listing_report_witness:
  "list_all socket_ok example_sockets
   \<and> parse_flows (listing example_sockets) ''skyline_cc'' = report_of ''skyline_cc'' example_sockets
   \<and> on_skyline_cc (parse_flows (listing example_sockets) ''skyline_cc'') = 1
   \<and> map fr_cwnd_packets (accelerated (parse_flows (listing example_sockets) ''skyline_cc'')) = [Some 10]"
proof -
  have ok: "list_all socket_ok example_sockets"
    by (simp add: example_sockets_def socket_ok_def socket_words_def is_word_def is_whitespace_def)
  have "on_skyline_cc (report_of ''skyline_cc'' example_sockets) = 1"
    "map fr_cwnd_packets (accelerated (report_of ''skyline_cc'' example_sockets)) = [Some 10]"
    by (simp_all add: report_of_def example_sockets_def runs_on_def socket_row_def apply_rate_def apply_key_def
        parse_u64_def parse_radix_def digit_val_def FLOW_ROWS_MAX_def flow_row_default_def Let_def)
  with ok listing_report [OF ok] show ?thesis by simp
qed

section \<open>Rates\<close>

definition rate_units :: "(string \<times> nat) list" where
  "rate_units = [(''bps'', 1), (''Kbps'', 10 ^ 3), (''Mbps'', 10 ^ 6), (''Gbps'', 10 ^ 9), (''Tbps'', 10 ^ 12)]"

lemma strip_suffix_dec:
  "strip_suffix_str s (dec n @ s) = Some (dec n)"
  by (simp add: strip_suffix_str_def)

lemma strip_suffix_other:
  assumes "length s = length s'" "s \<noteq> s'"
  shows "strip_suffix_str s (t @ s') = None"
  using assms by (simp add: strip_suffix_str_def)

lemma unit_chars:
  "char_of (107 :: nat) = CHR ''k''" "char_of (109 :: nat) = CHR ''m''" "char_of (103 :: nat) = CHR ''g''"
  "char_of (116 :: nat) = CHR ''t''"
  by (simp_all add: char_of_def bit_0)

lemma rate_scale_dec:
  assumes "(u, k) \<in> set rate_units"
  shows "rate_scale (dec n @ to_ascii_lowercase u) = Some (dec n, Finite (of_nat k))"
proof -
  have bare: "strip_suffix_str (c # ''bps'') (dec n @ ''bps'') = None" if "is_ascii_lower c" for c
  proof -
    obtain ds d where ds: "dec n = ds @ [d]" by (cases "dec n" rule: rev_cases) simp_all
    have "is_ascii_digit d" using dec_digits [of d n] by (simp add: ds)
    with that have "c \<noteq> d" by (auto simp: is_ascii_digit_def is_ascii_lower_def Let_def)
    then show ?thesis using strip_suffix_other [of "c # ''bps''" "d # ''bps''" ds] by (simp add: ds)
  qed
  from assms consider "u = ''bps''" "k = 1" | "u = ''Kbps''" "k = 10 ^ 3" | "u = ''Mbps''" "k = 10 ^ 6"
    | "u = ''Gbps''" "k = 10 ^ 9" | "u = ''Tbps''" "k = 10 ^ 12"
    by (auto simp: rate_units_def)
  then show ?thesis
    by cases (simp_all add: rate_scale_def to_ascii_lowercase_def to_ascii_lowercase_char_def is_ascii_upper_def
        unit_chars bare is_ascii_lower_def strip_suffix_dec strip_suffix_other)
qed

text \<open>
  A whole number of any unit that \<^verbatim>\<open>ss\<close> prints is read exactly, as long as the rate fits the 53 bits of
  a float's significand (about 9 petabits per second).
\<close>

lemma parse_rate_exact:
  assumes "(u, k) \<in> set rate_units" "n * k < 2 ^ 53"
  shows "parse_rate (dec n @ u) = Some (word_of_nat (n * k))"
proof -
  have nk: "int (n * k) < 2 ^ 53"
    using assms(2) by (metis of_nat_less_iff of_nat_numeral of_nat_power)
  have k: "1 \<le> k" using assms(1) by (auto simp: rate_units_def)
  then have "n \<le> n * k" by simp
  with assms(2) have n: "n < 2 ^ 53" by linarith
  have low: "to_ascii_lowercase (dec n @ u) = dec n @ to_ascii_lowercase u"
    using lowercase_dec [of n] by (simp add: to_ascii_lowercase_def)
  have v: "f64_of_rat (of_nat n) = Finite (of_nat n)"
    using f64_of_int_exact [of "int n"] n by simp
  have "f64_of_rat (of_nat n * of_nat k) = Finite (of_nat (n * k))"
    using f64_of_int_exact [of "int (n * k)"] nk by simp
  then have "f64_mul (Finite (of_nat n)) (Finite (of_nat k)) = Finite (of_nat (n * k))" by (simp add: f64_mul_def)
  moreover have "f64_as_u64 (Finite (of_nat m)) = word_of_nat m" if "m < 2 ^ 53" for m
    using that by (simp add: f64_as_u64_def f64_as_unsigned_def rat_trunc_def min_def)
  ultimately have "f64_as_u64 (f64_mul (Finite (of_nat n)) (Finite (of_nat k))) = word_of_nat (n * k)"
    using assms(2) by (simp only:)
  then show ?thesis
    by (simp add: parse_rate_def low rate_scale_dec [OF assms(1)] v is_finite_def f64_lt_def)
qed

end
