(* ===== verification/Reports.thy ===== *)
theory Reports
  imports Text
begin

text \<open>
  The errors the daemon stops on, recorded for \<^verbatim>\<open>ssctl\<close> to offer (\<^verbatim>\<open>reports.rs\<close>): one file per failure,
  named after a hash of it, in a directory in which every operation may fail. The directory maps
  file names to contents; a byte is a character. Encoding and decoding of a report are
  \<open>serde_json\<close>'s and arguments.
\<close>

unbundle bit_operations_syntax

section \<open>Reports and their names\<close>

record daemon_report =
  dr_version :: string
  dr_kind :: string
  dr_message :: string
  dr_first_seen :: u64
  dr_last_seen :: u64
  dr_count :: u64

definition DAEMON_REPORTS_MAX :: nat where "DAEMON_REPORTS_MAX = 10"

definition fnv_step :: "u64 \<Rightarrow> char \<Rightarrow> u64" where
  "fnv_step hash byte = (hash XOR word_of_nat (of_char byte)) * 0x100000001b3"

definition fingerprint :: "string \<Rightarrow> string \<Rightarrow> u64" where
  "fingerprint kind message =
     foldl fnv_step 0xcbf29ce484222325
       (kind @ [char_of (0 :: nat)] @ filter (\<lambda>byte. \<not> is_ascii_digit byte) message)"

text \<open>\<open>{:016x}\<close>.\<close>

definition hex16 :: "u64 \<Rightarrow> string" where
  "hex16 n = (let h = hex (unat n) in replicate (16 - length h) (CHR ''0'') @ h)"

text \<open>\<open>Path::extension\<close>: what follows the last dot, unless the name begins with it.\<close>

definition extension :: "string \<Rightarrow> string option" where
  "extension name =
     (case rsplit_once (CHR ''.'') name of None \<Rightarrow> None
      | Some (stem, ext) \<Rightarrow> if stem = [] then None else Some ext)"

definition is_report :: "string \<Rightarrow> bool" where
  "is_report name = (extension name = Some ''json'')"

section \<open>Recording\<close>

type_synonym report_dir = "string \<rightharpoonup> string"

text \<open>
  How each operation of one recording ends. A write that fails has written a part of the bytes.
\<close>

record report_io =
  ri_create_dir :: "string option"
  ri_read :: bool
  ri_read_dir :: "string option"
  ri_entry :: "string \<Rightarrow> bool"
  ri_open :: "string option"
  ri_write :: "(nat \<times> string) option"
  ri_sync :: "string option"
  ri_rename :: "string option"

record report_json =
  rj_encode :: "daemon_report \<Rightarrow> (string, string) result"
  rj_decode :: "string \<Rightarrow> daemon_report option"

definition waiting_reports :: "report_io \<Rightarrow> report_dir \<Rightarrow> nat" where
  "waiting_reports io dir = card {name \<in> dom dir. ri_entry io name \<and> is_report name}"

definition next_report ::
  "string \<Rightarrow> report_json \<Rightarrow> report_io \<Rightarrow> report_dir \<Rightarrow> string \<Rightarrow> string \<Rightarrow> string \<Rightarrow> u64
    \<Rightarrow> (string, daemon_report option) result" where
  "next_report version json io dir path kind message now =
     (case Option.bind (if ri_read io then dir path else None) (rj_decode json) of
        Some seen \<Rightarrow> Inr (Some (seen\<lparr>dr_last_seen := now, dr_count := saturating_add (dr_count seen) 1\<rparr>))
      | None \<Rightarrow>
          (case ri_read_dir io of Some e \<Rightarrow> Inl e
           | None \<Rightarrow>
               if waiting_reports io dir \<ge> DAEMON_REPORTS_MAX then Inr None
               else Inr (Some \<lparr>dr_version = version, dr_kind = kind, dr_message = message,
                               dr_first_seen = now, dr_last_seen = now, dr_count = 1\<rparr>)))"

definition stage_report ::
  "report_json \<Rightarrow> report_io \<Rightarrow> string \<Rightarrow> string \<Rightarrow> daemon_report \<Rightarrow> report_dir \<Rightarrow> (string, unit) result \<times> report_dir" where
  "stage_report json io staged path report dir =
     (case ri_open io of Some e \<Rightarrow> (Inl e, dir)
      | None \<Rightarrow>
          (case rj_encode json report of Inl e \<Rightarrow> (Inl e, dir(staged \<mapsto> []))
           | Inr bytes \<Rightarrow>
               (case ri_write io of Some (n, e) \<Rightarrow> (Inl e, dir(staged \<mapsto> take n bytes))
                | None \<Rightarrow>
                    (case ri_sync io of Some e \<Rightarrow> (Inl e, dir(staged \<mapsto> bytes))
                     | None \<Rightarrow>
                         (case ri_rename io of Some e \<Rightarrow> (Inl e, dir(staged \<mapsto> bytes))
                          | None \<Rightarrow> (Inr (), dir(path \<mapsto> bytes, staged := None)))))))"

definition record_in ::
  "string \<Rightarrow> report_json \<Rightarrow> report_io \<Rightarrow> string \<Rightarrow> string \<Rightarrow> u64 \<Rightarrow> report_dir \<Rightarrow> (string, unit) result \<times> report_dir" where
  "record_in version json io kind message now dir =
     (case ri_create_dir io of Some e \<Rightarrow> (Inl e, dir)
      | None \<Rightarrow>
          (let name = hex16 (fingerprint kind message); path = name @ ''.json''
           in case next_report version json io dir path kind message now of
                Inl e \<Rightarrow> (Inl e, dir)
              | Inr None \<Rightarrow> (Inr (), dir)
              | Inr (Some report) \<Rightarrow> stage_report json io (name @ ''.tmp'') path report dir))"

text \<open>\<open>record\<close>: a failure to record is printed and otherwise ignored.\<close>

definition record_report ::
  "string \<Rightarrow> report_json \<Rightarrow> report_io \<Rightarrow> string \<Rightarrow> string \<Rightarrow> u64 \<Rightarrow> report_dir \<Rightarrow> report_dir" where
  "record_report version json io kind message now dir = snd (record_in version json io kind message now dir)"

section \<open>The directory\<close>

definition reports_inv :: "report_json \<Rightarrow> report_dir \<Rightarrow> bool" where
  "reports_inv json dir =
     (finite (dom dir) \<and> card {name \<in> dom dir. is_report name} \<le> DAEMON_REPORTS_MAX
      \<and> (\<forall>name bytes. is_report name \<longrightarrow> dir name = Some bytes \<longrightarrow> rj_decode json bytes \<noteq> None))"

lemma hex16_nonempty [simp]: "hex16 n \<noteq> []"
  by (simp add: hex16_def Let_def)

lemma extension_append:
  assumes "CHR ''.'' \<notin> set ext" "stem \<noteq> []"
  shows "extension (stem @ CHR ''.'' # ext) = Some ext"
  using assms split_once_append [of "CHR ''.''" "rev ext" "rev stem"]
  by (simp add: extension_def rsplit_once_def)

lemma report_names: "is_report (hex16 n @ ''.json'')" "\<not> is_report (hex16 n @ ''.tmp'')"
  using extension_append [of "''json''" "hex16 n"] extension_append [of "''tmp''" "hex16 n"]
  by (simp_all add: is_report_def)

text \<open>A report staged and renamed leaves every other report as it was, whatever fails.\<close>

lemma stage_report_dir:
  assumes "is_report path" "\<not> is_report staged" "stage_report json io staged path report dir = (res, dir')"
  shows "(\<forall>name. is_report name \<longrightarrow> dir' name = dir name)
         \<or> (\<exists>bytes. rj_encode json report = Inr bytes \<and> dir' = dir(path \<mapsto> bytes, staged := None))"
proof -
  have "name \<noteq> staged" if "is_report name" for name using that assms(2) by auto
  then show ?thesis using assms(3)
    by (auto simp: stage_report_def split: option.splits sum.splits)
qed

lemma reports_same:
  assumes "reports_inv json dir" "finite (dom dir')" "\<forall>name. is_report name \<longrightarrow> dir' name = dir name"
  shows "reports_inv json dir'"
proof -
  have "{name \<in> dom dir'. is_report name} = {name \<in> dom dir. is_report name}" using assms(3) by auto
  with assms show ?thesis by (simp add: reports_inv_def)
qed

lemma reports_add:
  assumes inv: "reports_inv json dir" and names: "is_report path" "\<not> is_report staged"
    and dec: "rj_decode json bytes \<noteq> None"
    and room: "path \<in> dom dir \<or> card {name \<in> dom dir. is_report name} < DAEMON_REPORTS_MAX"
  shows "reports_inv json (dir(path \<mapsto> bytes, staged := None))"
proof -
  let ?d = "dir(path \<mapsto> bytes, staged := None)" and ?R = "{name \<in> dom dir. is_report name}"
  have ne: "path \<noteq> staged" using names by auto
  have fin: "finite ?R" "finite (dom ?d)" using inv by (simp_all add: reports_inv_def)
  have "{name \<in> dom ?d. is_report name} = insert path ?R" using names ne by auto
  moreover have "card (insert path ?R) \<le> DAEMON_REPORTS_MAX"
  proof (cases "path \<in> dom dir")
    case True
    then have "insert path ?R = ?R" using names by auto
    with inv show ?thesis by (simp add: reports_inv_def)
  next
    case False
    with room fin show ?thesis by simp
  qed
  moreover have "rj_decode json b \<noteq> None" if "is_report name" "?d name = Some b" for name b
    using that inv dec names ne by (auto simp: reports_inv_def split: if_splits)
  ultimately show ?thesis using fin by (auto simp: reports_inv_def)
qed

lemma stage_report_finite:
  "finite (dom dir) \<Longrightarrow> stage_report json io staged path report dir = (res, dir') \<Longrightarrow> finite (dom dir')"
  by (auto simp: stage_report_def split: option.splits sum.splits)

lemma next_report_room:
  assumes "next_report version json io dir path kind message now = Inr (Some report)" "\<forall>name. ri_entry io name"
  shows "path \<in> dom dir \<or> card {name \<in> dom dir. is_report name} < DAEMON_REPORTS_MAX"
  using assms
  by (auto simp: next_report_def waiting_reports_def split: option.splits if_splits bind_splits)

lemma record_report_cases:
  obtains (kept) "record_report version json io kind message now dir = dir"
    | (staged) report res dir' where
        "next_report version json io dir (hex16 (fingerprint kind message) @ ''.json'') kind message now = Inr (Some report)"
        "stage_report json io (hex16 (fingerprint kind message) @ ''.tmp'') (hex16 (fingerprint kind message) @ ''.json'')
           report dir = (res, dir')"
        "record_report version json io kind message now dir = dir'"
proof (cases "ri_create_dir io")
  case None
  show ?thesis
  proof (cases "next_report version json io dir (hex16 (fingerprint kind message) @ ''.json'') kind message now")
    case (Inr report)
    with None kept show ?thesis
      by (cases report; cases "stage_report json io (hex16 (fingerprint kind message) @ ''.tmp'')
          (hex16 (fingerprint kind message) @ ''.json'') (the report) dir")
        (auto simp: record_report_def record_in_def Let_def intro: staged)
  qed (use None kept in \<open>simp add: record_report_def record_in_def Let_def\<close>)
qed (use kept in \<open>simp add: record_report_def record_in_def\<close>)

lemma record_report_inv:
  assumes inv: "reports_inv json dir"
    and codec: "\<forall>report bytes. rj_encode json report = Inr bytes \<longrightarrow> rj_decode json bytes = Some report"
    and entries: "\<forall>name. ri_entry io name"
  shows "reports_inv json (record_report version json io kind message now dir)"
proof -
  let ?name = "hex16 (fingerprint kind message)"
  let ?next = "next_report version json io dir (?name @ ''.json'') kind message now"
  consider "record_report version json io kind message now dir = dir"
    | report res dir' where "?next = Inr (Some report)"
        "stage_report json io (?name @ ''.tmp'') (?name @ ''.json'') report dir = (res, dir')"
        "record_report version json io kind message now dir = dir'"
    by (rule record_report_cases)
  then show ?thesis
  proof cases
    case (2 report res dir')
    have fin: "finite (dom dir')" using stage_report_finite [OF _ 2(2)] inv by (simp add: reports_inv_def)
    from stage_report_dir [OF report_names 2(2)] show ?thesis
    proof (elim disjE exE conjE)
      assume "\<forall>name. is_report name \<longrightarrow> dir' name = dir name"
      with reports_same [OF inv fin] 2(3) show ?thesis by simp
    next
      fix bytes
      assume "rj_encode json report = Inr bytes" "dir' = dir(?name @ ''.json'' \<mapsto> bytes, ?name @ ''.tmp'' := None)"
      with reports_add [OF inv report_names(1) report_names(2), of bytes] next_report_room [OF 2(1) entries] codec 2(3)
      show ?thesis by auto
    qed
  qed (use inv in simp)
qed

text \<open>A sequence of recordings: how the operations of each end, what failed and when.\<close>

definition record_all ::
  "string \<Rightarrow> report_json \<Rightarrow> (report_io \<times> string \<times> string \<times> u64) list \<Rightarrow> report_dir \<Rightarrow> report_dir" where
  "record_all version json recs dir =
     foldl (\<lambda>d (io, kind, message, now). record_report version json io kind message now d) dir recs"

text \<open>
  C35. Whatever the daemon fails with, and whatever fails while it records (a full disk, a lost
  directory), at most 10 reports wait in the directory and each of them is a whole one, which
  \<^verbatim>\<open>ssctl\<close> can decode. The decoder has to give back what the encoder wrote, and the directory's
  entries have to be readable.
\<close>

theorem reports_bounded_and_whole:
  assumes "reports_inv json dir"
    and "\<forall>report bytes. rj_encode json report = Inr bytes \<longrightarrow> rj_decode json bytes = Some report"
    and "\<forall>(io, kind, message, now) \<in> set recs. \<forall>name. ri_entry io name"
  shows "reports_inv json (record_all version json recs dir)"
  using assms(1,3)
proof (induction recs arbitrary: dir)
  case (Cons r recs)
  obtain io kind message now where r: "r = (io, kind, message, now)" by (cases r)
  from Cons.prems have "reports_inv json (record_report version json io kind message now dir)"
    using assms(2) by (intro record_report_inv) (auto simp: r)
  with Cons.IH Cons.prems(2) show ?case by (simp add: record_all_def r)
qed (simp add: record_all_def)

section \<open>The same failure again\<close>

definition all_well :: report_io where
  "all_well = \<lparr>ri_create_dir = None, ri_read = True, ri_read_dir = None, ri_entry = (\<lambda>_. True), ri_open = None,
     ri_write = None, ri_sync = None, ri_rename = None\<rparr>"

definition undigited :: "string \<Rightarrow> string" where
  "undigited s = filter (\<lambda>c. \<not> is_ascii_digit c) s"

definition report_path :: "string \<Rightarrow> string \<Rightarrow> string" where
  "report_path kind message = hex16 (fingerprint kind message) @ ''.json''"

definition report_stage :: "string \<Rightarrow> string \<Rightarrow> string" where
  "report_stage kind message = hex16 (fingerprint kind message) @ ''.tmp''"

lemma fingerprint_undigited:
  "undigited message = undigited message' \<Longrightarrow> fingerprint kind message = fingerprint kind message'"
  by (simp add: fingerprint_def undigited_def)

lemma stage_not_path [simp]: "report_stage kind message \<noteq> report_path kind message"
  by (simp add: report_path_def report_stage_def)

lemma record_well:
  assumes "next_report version json all_well dir (report_path kind message) kind message now = Inr (Some report)"
    and "rj_encode json report = Inr bytes"
  shows "record_report version json all_well kind message now dir =
    dir(report_path kind message \<mapsto> bytes, report_stage kind message := None)"
  using assms
  by (simp add: record_report_def record_in_def stage_report_def report_path_def report_stage_def all_well_def Let_def)

text \<open>A count that stops at the largest 64-bit number.\<close>

definition capped :: "nat \<Rightarrow> u64" where
  "capped n = word_of_nat (min n (2 ^ 64 - 1))"

lemma unat_capped: "unat (capped n) = min n (2 ^ 64 - 1)"
  by (simp add: capped_def unsigned_of_nat take_bit_nat_eq_self)

lemma capped_Suc: "capped (Suc n) = saturating_add (capped n) 1"
  by (rule unsigned_word_eqI [where 'a = nat]) (simp add: sat_simps unat_capped)

lemma capped_1: "capped (Suc 0) = 1"
  by (simp add: capped_def)

definition repeats :: "string \<Rightarrow> (string \<times> u64) list \<Rightarrow> (report_io \<times> string \<times> string \<times> u64) list" where
  "repeats kind ms = map (\<lambda>(message, now). (all_well, kind, message, now)) ms"

lemma record_all_snoc:
  "record_all version json (repeats kind (ms @ [(message, now)])) dir =
     record_report version json all_well kind message now (record_all version json (repeats kind ms) dir)"
  by (simp add: record_all_def repeats_def)

definition the_report :: "report_json \<Rightarrow> report_dir \<Rightarrow> string \<Rightarrow> daemon_report option" where
  "the_report json dir path = Option.bind (dir path) (rj_decode json)"

lemma seen_again:
  assumes codec: "\<forall>report. \<exists>bytes. rj_encode json report = Inr bytes \<and> rj_decode json bytes = Some report"
    and seen: "the_report json dir (report_path kind m0) = Some report"
    and same: "undigited message = undigited m0"
  shows "the_report json (record_report version json all_well kind message now dir) (report_path kind m0)
           = Some (report\<lparr>dr_last_seen := now, dr_count := saturating_add (dr_count report) 1\<rparr>)
    \<and> (\<forall>name. name \<notin> {report_path kind m0, report_stage kind m0}
          \<longrightarrow> record_report version json all_well kind message now dir name = dir name)"
proof -
  let ?again = "report\<lparr>dr_last_seen := now, dr_count := saturating_add (dr_count report) 1\<rparr>"
  have names: "report_path kind message = report_path kind m0" "report_stage kind message = report_stage kind m0"
    using fingerprint_undigited [OF same, of kind] by (simp_all add: report_path_def report_stage_def)
  obtain bytes where b: "rj_encode json ?again = Inr bytes" "rj_decode json bytes = Some ?again"
    using codec by blast
  have "next_report version json all_well dir (report_path kind message) kind message now = Inr (Some ?again)"
    using seen by (simp add: next_report_def the_report_def all_well_def names)
  from record_well [OF this b(1)] b(2) show ?thesis by (simp add: the_report_def names not_sym [OF stage_not_path])
qed

text \<open>
  A failure repeated is one report: when nothing goes wrong in the directory and there is room,
  any number of recordings of messages that differ only in their digits leave one report with the
  first message, the first and the last time and the number of them (saturating at the largest
  64-bit number), and no other file changes.
\<close>

lemma repeated_failure_one_report:
  assumes codec: "\<forall>report. \<exists>bytes. rj_encode json report = Inr bytes \<and> rj_decode json bytes = Some report"
    and new: "dir (report_path kind m0) = None" and room: "waiting_reports all_well dir < DAEMON_REPORTS_MAX"
    and same: "\<forall>(message, now) \<in> set later. undigited message = undigited m0"
  shows "the_report json (record_all version json (repeats kind ((m0, t0) # later)) dir) (report_path kind m0)
         = Some \<lparr>dr_version = version, dr_kind = kind, dr_message = m0, dr_first_seen = t0,
             dr_last_seen = last (t0 # map snd later), dr_count = capped (Suc (length later))\<rparr>
       \<and> (\<forall>name. name \<notin> {report_path kind m0, report_stage kind m0} \<longrightarrow>
            record_all version json (repeats kind ((m0, t0) # later)) dir name = dir name)"
  using same
proof (induction later rule: rev_induct)
  case Nil
  let ?first = "\<lparr>dr_version = version, dr_kind = kind, dr_message = m0, dr_first_seen = t0, dr_last_seen = t0, dr_count = 1\<rparr>"
  obtain bytes where b: "rj_encode json ?first = Inr bytes" "rj_decode json bytes = Some ?first"
    using codec by blast
  have "next_report version json all_well dir (report_path kind m0) kind m0 t0 = Inr (Some ?first)"
    using new room by (simp add: next_report_def all_well_def)
  from record_well [OF this b(1)] b(2) show ?case
    by (simp add: record_all_def repeats_def the_report_def not_sym [OF stage_not_path] capped_1)
next
  case (snoc x later)
  obtain message now where x: "x = (message, now)" by (cases x)
  have "undigited message = undigited m0" using snoc.prems by (simp add: x)
  moreover have IH: "the_report json (record_all version json (repeats kind ((m0, t0) # later)) dir) (report_path kind m0)
      = Some \<lparr>dr_version = version, dr_kind = kind, dr_message = m0, dr_first_seen = t0,
          dr_last_seen = last (t0 # map snd later), dr_count = capped (Suc (length later))\<rparr>"
    "name \<notin> {report_path kind m0, report_stage kind m0} \<Longrightarrow>
       record_all version json (repeats kind ((m0, t0) # later)) dir name = dir name" for name
    using snoc by auto
  ultimately show ?case
    using seen_again [OF codec IH(1), of message version now]
      record_all_snoc [of version json kind "(m0, t0) # later" message now dir]
    by (simp add: x capped_Suc)
qed

section \<open>Examples\<close>

text \<open>A codec that keeps every field, each with its length in front.\<close>

definition put :: "string \<Rightarrow> string" where
  "put s = dec (length s) @ CHR '':'' # s"

definition get :: "string \<Rightarrow> (string \<times> string) option" where
  "get t =
     (case split_once (CHR '':'') t of None \<Rightarrow> None
      | Some (n, rest) \<Rightarrow> map_option (\<lambda>k. (take k rest, drop k rest)) (parse_digits 10 0 n))"

definition get_nat :: "string \<Rightarrow> (u64 \<times> string) option" where
  "get_nat t = Option.bind (get t) (\<lambda>(s, rest). map_option (\<lambda>n. (word_of_nat n, rest)) (parse_digits 10 0 s))"

definition plain_json :: report_json where
  "plain_json =
     \<lparr>rj_encode = (\<lambda>r. Inr (put (dr_version r) @ put (dr_kind r) @ put (dr_message r) @
        put (dec (unat (dr_first_seen r))) @ put (dec (unat (dr_last_seen r))) @ put (dec (unat (dr_count r))))),
      rj_decode = (\<lambda>t.
        Option.bind (get t) (\<lambda>(v, t). Option.bind (get t) (\<lambda>(k, t). Option.bind (get t) (\<lambda>(m, t).
        Option.bind (get_nat t) (\<lambda>(f, t). Option.bind (get_nat t) (\<lambda>(l, t). Option.bind (get_nat t) (\<lambda>(c, t).
          Some \<lparr>dr_version = v, dr_kind = k, dr_message = m, dr_first_seen = f, dr_last_seen = l, dr_count = c\<rparr>)))))))\<rparr>"

lemma parse_dec: "parse_digits 10 0 (dec n) = Some n"
  by (simp add: dec_def parse_digits_base)

lemma get_put: "get (put s @ t) = Some (s, t)"
proof -
  have "CHR '':'' \<notin> set (dec (length s))"
    using dec_digits [of "CHR '':''" "length s"] by (auto simp: is_ascii_digit_def)
  then show ?thesis by (simp add: get_def put_def split_once_append parse_dec)
qed

lemma get_put_nat: "get_nat (put (dec (unat n)) @ t) = Some (n, t)" "get_nat (put (dec (unat n))) = Some (n, [])"
  using get_put [of "dec (unat n)" "[]"] by (simp_all add: get_nat_def get_put parse_dec)

lemma plain_codec:
  "\<exists>bytes. rj_encode plain_json report = Inr bytes \<and> rj_decode plain_json bytes = Some report"
  by (simp add: plain_json_def get_put get_put_nat)

lemma plain_codec_whole: "rj_encode plain_json report = Inr bytes \<Longrightarrow> rj_decode plain_json bytes = Some report"
  using plain_codec [of report] by auto

theorem reports_bounded_and_whole_witness:
  "reports_inv plain_json Map.empty
   \<and> reports_inv plain_json
       (record_all ''1.0'' plain_json [(all_well, ''exited'', ''a'', 1), (all_well\<lparr>ri_write := Some (3, ''full'')\<rparr>, ''exited'', ''b'', 2)] Map.empty)"
proof -
  have "reports_inv plain_json Map.empty" by (simp add: reports_inv_def)
  then show ?thesis
    using reports_bounded_and_whole [of plain_json Map.empty
        "[(all_well, ''exited'', ''a'', 1), (all_well\<lparr>ri_write := Some (3, ''full'')\<rparr>, ''exited'', ''b'', 2)]" "''1.0''"]
      plain_codec_whole
    by (simp add: all_well_def)
qed

end
