(* ===== verification/Seal.thy ===== *)
theory Seal
  imports Text
begin

text \<open>
  Where \<^verbatim>\<open>ssctl\<close> sends error reports (\<^verbatim>\<open>feedback.rs\<close>): the address is sealed with ChaCha20 in a file of
  hexadecimal digits, opened, parsed and written into a configuration for \<^verbatim>\<open>curl\<close>. The contents of
  the sealed file, which a script writes, are an argument.
\<close>

unbundle bit_operations_syntax

section \<open>ChaCha20\<close>

definition SEAL_KEY :: "u8 list" where
  "SEAL_KEY =
     [0x9a, 0x50, 0x5f, 0xc6, 0x47, 0x34, 0xe2, 0xf2, 0xc8, 0x01, 0xa1, 0xc0, 0xe3, 0xd0, 0x31, 0xc5,
      0xff, 0x2f, 0x56, 0x62, 0xcd, 0x1b, 0xa5, 0x16, 0x24, 0xc7, 0x5d, 0xac, 0x95, 0x55, 0xde, 0x1a]"

definition SEAL_NONCE :: "u8 list" where
  "SEAL_NONCE = [0xa4, 0x82, 0xac, 0xf4, 0x80, 0xd0, 0x92, 0x8b, 0x3c, 0x37, 0xc7, 0x30]"

definition quarter_round :: "nat \<Rightarrow> nat \<Rightarrow> nat \<Rightarrow> nat \<Rightarrow> u32 list \<Rightarrow> u32 list" where
  "quarter_round a b c d x0 =
     (let x1 = x0[a := x0 ! a + x0 ! b];
          x2 = x1[d := word_rotl 16 (x1 ! d XOR x1 ! a)];
          x3 = x2[c := x2 ! c + x2 ! d];
          x4 = x3[b := word_rotl 12 (x3 ! b XOR x3 ! c)];
          x5 = x4[a := x4 ! a + x4 ! b];
          x6 = x5[d := word_rotl 8 (x5 ! d XOR x5 ! a)];
          x7 = x6[c := x6 ! c + x6 ! d]
      in x7[b := word_rotl 7 (x7 ! b XOR x7 ! c)])"

definition from_le_bytes :: "u8 list \<Rightarrow> u32" where
  "from_le_bytes bs =
     ucast (bs ! 0) OR push_bit 8 (ucast (bs ! 1)) OR push_bit 16 (ucast (bs ! 2)) OR push_bit 24 (ucast (bs ! 3))"

definition to_le_bytes :: "u32 \<Rightarrow> u8 list" where
  "to_le_bytes w = [ucast w, ucast (drop_bit 8 w), ucast (drop_bit 16 w), ucast (drop_bit 24 w)]"

definition chacha_state :: "u8 list \<Rightarrow> u8 list \<Rightarrow> u32 \<Rightarrow> u32 list" where
  "chacha_state key nonce counter =
     [0x61707865, 0x3320646e, 0x79622d32, 0x6b206574]
     @ map (\<lambda>i. from_le_bytes (drop (i * 4) key)) [0..<8]
     @ [counter]
     @ map (\<lambda>i. from_le_bytes (drop (i * 4) nonce)) [0..<3]"

definition double_round :: "u32 list \<Rightarrow> u32 list" where
  "double_round x =
     (quarter_round 3 4 9 14 \<circ> quarter_round 2 7 8 13 \<circ> quarter_round 1 6 11 12 \<circ> quarter_round 0 5 10 15
      \<circ> quarter_round 3 7 11 15 \<circ> quarter_round 2 6 10 14 \<circ> quarter_round 1 5 9 13 \<circ> quarter_round 0 4 8 12) x"

definition chacha_stream :: "u32 list \<Rightarrow> u8 list" where
  "chacha_stream state =
     (let x = (double_round ^^ 10) state
      in concat (map (\<lambda>i. to_le_bytes (x ! i + state ! i)) [0..<16]))"

text \<open>The loop over the 64-byte chunks, the block number counted from 0.\<close>

function chacha_blocks :: "u8 list \<Rightarrow> u8 list \<Rightarrow> nat \<Rightarrow> u8 list \<Rightarrow> u8 list" where
  "chacha_blocks key nonce block data =
     (if data = [] then []
      else map2 (XOR) (take 64 data) (chacha_stream (chacha_state key nonce (word_of_nat block + 1)))
           @ chacha_blocks key nonce (Suc block) (drop 64 data))"
  by pat_completeness auto
termination by (relation "measure (\<lambda>(key, nonce, block, data). length data)") auto

declare chacha_blocks.simps [simp del]

definition chacha20 :: "u8 list \<Rightarrow> u8 list \<Rightarrow> u8 list \<Rightarrow> u8 list" where
  "chacha20 key nonce data = chacha_blocks key nonce 0 data"

lemma chacha_blocks_Nil [simp]: "chacha_blocks key nonce block [] = []"
  by (simp add: chacha_blocks.simps)

lemma chacha_blocks_step:
  "data \<noteq> [] \<Longrightarrow> chacha_blocks key nonce block data =
     map2 (XOR) (take 64 data) (chacha_stream (chacha_state key nonce (word_of_nat block + 1)))
     @ chacha_blocks key nonce (Suc block) (drop 64 data)"
  by (simp add: chacha_blocks.simps [of key nonce block data])

lemma length_stream [simp]: "length (chacha_stream s) = 64"
  by (simp add: chacha_stream_def Let_def to_le_bytes_def length_concat comp_def sum_list_triv)

lemma map2_xor_twice:
  "length xs \<le> length (ks :: u8 list) \<Longrightarrow> map2 (XOR) (map2 (XOR) xs ks) ks = xs"
proof (induction xs arbitrary: ks)
  case (Cons x xs)
  then show ?case by (cases ks) (auto simp: xor.assoc)
qed simp

lemma chacha_blocks_twice: "chacha_blocks key nonce block (chacha_blocks key nonce block data) = data"
proof (induction key nonce block data rule: chacha_blocks.induct)
  case (1 key nonce block data)
  show ?case
  proof (cases "data = []")
    case False
    let ?ks = "chacha_stream (chacha_state key nonce (word_of_nat block + 1))"
    let ?head = "map2 (XOR) (take 64 data) ?ks" and ?rest = "chacha_blocks key nonce (Suc block) (drop 64 data)"
    have once: "chacha_blocks key nonce block data = ?head @ ?rest"
      using False by (rule chacha_blocks_step)
    have "?ks \<noteq> []" using length_stream [of "chacha_state key nonce (word_of_nat block + 1)"] by force
    then have ne: "?head @ ?rest \<noteq> []" using False by simp
    have cut: "take 64 (?head @ ?rest) = ?head \<and> drop 64 (?head @ ?rest) = ?rest"
    proof (cases "length data \<le> 64")
      case True
      then show ?thesis by simp
    qed simp
    have "chacha_blocks key nonce block (?head @ ?rest) = map2 (XOR) ?head ?ks @ chacha_blocks key nonce (Suc block) ?rest"
      using chacha_blocks_step [OF ne, of key nonce block] unfolding conjunct1 [OF cut] conjunct2 [OF cut] .
    also have "map2 (XOR) ?head ?ks = take 64 data" by (rule map2_xor_twice) simp
    finally show ?thesis using "1.IH" [OF False] once by simp
  qed simp
qed

lemma length_chacha_blocks: "length (chacha_blocks key nonce block data) = length data"
proof (induction key nonce block data rule: chacha_blocks.induct)
  case (1 key nonce block data)
  then show ?case by (cases "data = []") (auto simp: chacha_blocks.simps [of key nonce block data] min_def)
qed

lemma word_rotl_shifts:
  fixes w :: u32
  assumes "0 < k" "k < 32"
  shows "word_rotl k w = push_bit k w OR drop_bit (32 - k) w"
proof (rule bit_word_eqI)
  fix n
  assume n: "n < LENGTH(32)"
  show "bit (word_rotl k w) n = bit (push_bit k w OR drop_bit (32 - k) w) n"
  proof (cases "n < k")
    case True
    then have "32 - k + n = n + 32 - k" using assms by simp
    with True n assms show ?thesis by (simp add: bit_simps mod_if)
  next
    case False
    then have "\<not> bit w (32 - k + n)" using assms bit_imp_le_length [of w "32 - k + n"] by auto
    with False n assms show ?thesis by (simp add: bit_simps mod_if le_mod_geq)
  qed
qed

text \<open>The quarter round of RFC 8439 section 2.1.1.\<close>

lemma quarter_round_rfc8439:
  "quarter_round 0 1 2 3 [0x11111111, 0x01020304, 0x9b8d6f43, 0x01234567]
     = [0xea2a92f4, 0xcb1cf8ce, 0x4581472e, 0x5881c4bb]"
  by (simp add: quarter_round_def word_rotl_shifts)

section \<open>Hexadecimal text\<close>

fun hex_pairs :: "string \<Rightarrow> u8 list option" where
  "hex_pairs (a # b # rest) =
     Option.bind (parse_radix 16 256 [a, b]) (\<lambda>n. map_option (\<lambda>bs. word_of_nat n # bs) (hex_pairs rest))"
| "hex_pairs _ = Some []"

definition from_hex :: "string \<Rightarrow> u8 list option" where
  "from_hex s = (if length s mod 2 \<noteq> 0 then None else hex_pairs s)"

text \<open>\<open>{byte:02x}\<close>, as \<open>event_id\<close> prints random bytes.\<close>

definition hex2 :: "u8 \<Rightarrow> string" where
  "hex2 b = [digit_char (unat b div 16), digit_char (unat b mod 16)]"

lemma unat_u8_bound: "unat (b :: u8) < 256"
  using unsigned_less [of b, where 'a = nat] by simp

lemma parse_hex2: "parse_radix 16 256 (hex2 b) = Some (unat b)"
proof -
  have h: "unat b div 16 < 16" "unat b mod 16 < 16" using unat_u8_bound [of b] by auto
  then show ?thesis
    using digit_char_plain(3) [OF h(1)] unat_u8_bound [of b]
    by (simp add: parse_radix_def hex2_def digit_val_digit_char)
qed

lemma from_hex_hex2: "from_hex (concat (map hex2 bs)) = Some bs"
proof -
  have "hex_pairs (concat (map hex2 bs)) = Some bs"
  proof (induction bs)
    case (Cons b bs)
    have "hex_pairs (hex2 b @ concat (map hex2 bs)) =
        Option.bind (parse_radix 16 256 (hex2 b)) (\<lambda>n. map_option (\<lambda>bs. word_of_nat n # bs) (hex_pairs (concat (map hex2 bs))))"
      by (simp add: hex2_def)
    with Cons show ?case by (simp add: parse_hex2)
  qed simp
  moreover have "even (length (concat (map hex2 bs)))" by (induction bs) (simp_all add: hex2_def)
  ultimately show ?thesis by (simp add: from_hex_def even_iff_mod_2_eq_zero)
qed

section \<open>The address\<close>

record dsn =
  dsn_public_key :: string
  dsn_endpoint :: string

definition is_hex :: "char \<Rightarrow> bool" where
  "is_hex c = (is_ascii_digit c \<or> c \<in> set ''abcdef'')"

definition host_ok :: "string \<Rightarrow> bool" where
  "host_ok host =
     (host \<noteq> []
      \<and> (case split_once (CHR '':'') host of None \<Rightarrow> True | Some (_, port) \<Rightarrow> port \<noteq> [] \<and> list_all is_ascii_digit port)
      \<and> list_all (\<lambda>c. is_ascii_alphanumeric c \<or> c \<in> set ''.-:'') host)"

definition path_ok :: "string \<Rightarrow> bool" where
  "path_ok path =
     (path = []
      \<or> list_all (\<lambda>part. part \<noteq> [] \<and> list_all (\<lambda>c. is_ascii_alphanumeric c \<or> c \<in> set ''._-'') part)
          (split_char (CHR ''/'') path))"

definition host_and_path :: "string \<Rightarrow> string \<times> string" where
  "host_and_path location = (case split_once (CHR ''/'') location of None \<Rightarrow> (location, []) | Some p \<Rightarrow> p)"

definition dsn_valid :: "string \<Rightarrow> string \<Rightarrow> string \<Rightarrow> string \<Rightarrow> bool" where
  "dsn_valid key host path project =
     (length key = 32 \<and> list_all is_hex key \<and> host_ok host \<and> path_ok path
      \<and> project \<noteq> [] \<and> list_all is_ascii_digit project)"

definition dsn_of :: "string \<Rightarrow> string \<Rightarrow> string \<Rightarrow> string \<Rightarrow> dsn" where
  "dsn_of key host path project =
     \<lparr>dsn_public_key = key,
      dsn_endpoint = ''https://'' @ host @ (if path = [] then [] else CHR ''/'' # path) @ ''/api/'' @ project @ ''/envelope/''\<rparr>"

definition dsn_parse :: "string \<Rightarrow> dsn option" where
  "dsn_parse text =
     Option.bind (strip_prefix_str ''https://'' text) (\<lambda>rest.
     Option.bind (split_once (CHR ''@'') rest) (\<lambda>(key, rest).
     Option.bind (rsplit_once (CHR ''/'') rest) (\<lambda>(location, project).
       (let (host, path) = host_and_path location
        in if dsn_valid key host path project then Some (dsn_of key host path project) else None))))"

definition byte_char :: "u8 \<Rightarrow> char" where
  "byte_char b = char_of (unat b)"

definition dsn_sealed :: "string \<Rightarrow> dsn option" where
  "dsn_sealed sealed =
     Option.bind (from_hex (trim sealed)) (\<lambda>bytes.
       if bytes = [] then None
       else (let text = map byte_char (chacha20 SEAL_KEY SEAL_NONCE bytes)
             in if from_utf8 text then dsn_parse text else None))"

section \<open>The configuration for curl\<close>

fun replace_char :: "char \<Rightarrow> string \<Rightarrow> string \<Rightarrow> string" where
  "replace_char c w [] = []"
| "replace_char c w (x # xs) = (if x = c then w else [x]) @ replace_char c w xs"

abbreviation backslash :: char where "backslash \<equiv> CHR 0x5C"
abbreviation quote :: char where "quote \<equiv> CHR 0x22"

definition curl_quoted :: "string \<Rightarrow> string" where
  "curl_quoted text =
     replace_char newline [backslash, CHR ''n'']
       (replace_char quote [backslash, quote] (replace_char backslash [backslash, backslash] text))"

definition curl_lines :: "string \<Rightarrow> dsn \<Rightarrow> string \<Rightarrow> string list" where
  "curl_lines version d envelope =
     [''url = '' @ [quote] @ dsn_endpoint d @ [quote],
      ''header = '' @ [quote] @ ''X-Sentry-Auth: Sentry sentry_version=7, sentry_client=ssctl/'' @ version
        @ '', sentry_key='' @ dsn_public_key d @ [quote],
      ''header = '' @ [quote] @ ''Content-Type: application/x-sentry-envelope'' @ [quote],
      ''data-binary = '' @ [quote] @ curl_quoted envelope @ [quote]]"

definition curl_config :: "string \<Rightarrow> dsn \<Rightarrow> string \<Rightarrow> string" where
  "curl_config version d envelope = concat (map (\<lambda>l. l @ [newline]) (curl_lines version d envelope))"

end
