(* ===== verification/SealScript.thy ===== *)
theory SealScript
  imports Seal
begin

text \<open>
  The script that seals the address, \<^verbatim>\<open>infra/seal-feedback-dsn.py\<close>: its own ChaCha20 on Python's
  unbounded integers, the form of address it accepts and the file it writes for \<^verbatim>\<open>ssctl\<close>. The key and
  the nonce are the lines of \<^verbatim>\<open>install.sh\<close> it reads. Its ChaCha20 and the one of \<^verbatim>\<open>feedback.rs\<close> are
  two implementations; here they are shown to agree on every key, nonce and text.
\<close>

unbundle bit_operations_syntax

section \<open>The script\<close>

definition script_rotl :: "int \<Rightarrow> nat \<Rightarrow> int" where
  "script_rotl v n = (push_bit n v OR drop_bit (32 - n) v) AND 0xFFFFFFFF"

definition script_quarter_round :: "nat \<Rightarrow> nat \<Rightarrow> nat \<Rightarrow> nat \<Rightarrow> int list \<Rightarrow> int list" where
  "script_quarter_round a b c d x =
     (let x = x[a := (x ! a + x ! b) AND 0xFFFFFFFF];
          x = x[d := script_rotl (x ! d XOR x ! a) 16];
          x = x[c := (x ! c + x ! d) AND 0xFFFFFFFF];
          x = x[b := script_rotl (x ! b XOR x ! c) 12];
          x = x[a := (x ! a + x ! b) AND 0xFFFFFFFF];
          x = x[d := script_rotl (x ! d XOR x ! a) 8];
          x = x[c := (x ! c + x ! d) AND 0xFFFFFFFF];
          x = x[b := script_rotl (x ! b XOR x ! c) 7]
      in x)"

text \<open>\<open>struct.unpack\<close> and \<open>struct.pack\<close> of little-endian 32-bit numbers.\<close>

fun struct_unpack :: "int list \<Rightarrow> int list" where
  "struct_unpack (b0 # b1 # b2 # b3 # bytes) = (b0 + 256 * b1 + 65536 * b2 + 16777216 * b3) # struct_unpack bytes"
| "struct_unpack _ = []"

definition struct_pack :: "int \<Rightarrow> int list" where
  "struct_pack v = [v mod 256, v div 256 mod 256, v div 65536 mod 256, v div 16777216 mod 256]"

definition script_rounds :: "int list \<Rightarrow> int list" where
  "script_rounds x =
     fold (\<lambda>(a, b, c, d). script_quarter_round a b c d)
       [(0, 4, 8, 12), (1, 5, 9, 13), (2, 6, 10, 14), (3, 7, 11, 15),
        (0, 5, 10, 15), (1, 6, 11, 12), (2, 7, 8, 13), (3, 4, 9, 14)] x"

definition script_block :: "int list \<Rightarrow> int \<Rightarrow> int list \<Rightarrow> int list" where
  "script_block key counter nonce =
     (let state = [0x61707865, 0x3320646E, 0x79622D32, 0x6B206574] @ struct_unpack key @ [counter] @ struct_unpack nonce;
          x = (script_rounds ^^ 10) state
      in concat (map (\<lambda>i. struct_pack ((x ! i + state ! i) AND 0xFFFFFFFF)) [0..<16]))"

definition script_chacha20 :: "int list \<Rightarrow> int list \<Rightarrow> int list \<Rightarrow> int list" where
  "script_chacha20 key nonce data =
     concat (map (\<lambda>start. map2 (XOR) (take 64 (drop start data)) (script_block key (1 + int start div 64) nonce))
       (map (\<lambda>n. 64 * n) [0..<(length data + 63) div 64]))"

section \<open>The address and the file\<close>

text \<open>
  The form \<open>DSN\<close> of an address, read from left to right: every class of the expression ends at a
  character outside it, so no step has to be taken back but for the project, which is what follows the
  last slash before an optional slash at the end. The groups are the key, the host, the path (with its
  leading slash) and the project; the legacy secret has none.
\<close>

definition dsn_name_char :: "char \<Rightarrow> bool" where
  "dsn_name_char c = (is_ascii_alphanumeric c \<or> c \<in> set ''.-'')"

definition dsn_segment :: "string \<Rightarrow> bool" where
  "dsn_segment s = (s \<noteq> [] \<and> list_all (\<lambda>c. is_ascii_alphanumeric c \<or> c \<in> set ''._-'') s)"

definition dsn_key_part :: "string \<Rightarrow> bool" where
  "dsn_key_part s = (length s = 32 \<and> list_all (\<lambda>c. c \<in> set ''0123456789abcdef'') s)"

definition dsn_credentials :: "string \<Rightarrow> (string \<times> string) option" where
  "dsn_credentials s =
     (let key = take 32 s; rest = drop 32 s
      in if \<not> dsn_key_part key then None
         else (case rest of
                 c # rest \<Rightarrow>
                   if c = CHR ''@'' then Some (key, rest)
                   else if c = CHR '':'' \<and> dsn_key_part (take 32 rest) \<and> take 1 (drop 32 rest) = ''@''
                   then Some (key, drop 33 rest) else None
               | [] \<Rightarrow> None))"

definition dsn_host :: "string \<Rightarrow> (string \<times> string) option" where
  "dsn_host s =
     (let name = takeWhile dsn_name_char s; rest = dropWhile dsn_name_char s
      in if name = [] then None
         else if take 1 rest = '':''
         then (let port = takeWhile is_ascii_digit (tl rest)
               in if port = [] then None else Some (name @ '':'' @ port, dropWhile is_ascii_digit (tl rest)))
         else Some (name, rest))"

definition dsn_path_project :: "string \<Rightarrow> (string \<times> string) option" where
  "dsn_path_project s =
     (let s = (if s \<noteq> [] \<and> last s = CHR ''/'' then butlast s else s)
      in case rsplit_once (CHR ''/'') s of
           None \<Rightarrow> None
         | Some (path, project) \<Rightarrow>
             if project \<noteq> [] \<and> list_all is_ascii_digit project
                \<and> (path = [] \<or> hd path = CHR ''/'' \<and> list_all dsn_segment (split_char (CHR ''/'') (tl path)))
             then Some (path, project) else None)"

definition script_dsn :: "string \<Rightarrow> (string \<times> string \<times> string \<times> string) option" where
  "script_dsn text =
     Option.bind (strip_prefix_str ''https://'' text) (\<lambda>rest.
     Option.bind (dsn_credentials rest) (\<lambda>(key, rest).
     Option.bind (dsn_host rest) (\<lambda>(host, rest).
     map_option (\<lambda>(path, project). (key, host, path, project)) (dsn_path_project rest))))"

text \<open>\<open>bytes.hex\<close> and \<open>bytes.fromhex\<close>.\<close>

definition script_hex :: "int list \<Rightarrow> string" where
  "script_hex bytes = concat (map (\<lambda>b. [''0123456789abcdef'' ! nat (b div 16), ''0123456789abcdef'' ! nat (b mod 16)]) bytes)"

definition hex_value :: "char \<Rightarrow> int" where
  "hex_value c = (if is_ascii_digit c then of_char c - 48 else of_char c - 87)"

fun script_fromhex :: "string \<Rightarrow> int list" where
  "script_fromhex (a # b # rest) = (16 * hex_value a + hex_value b) # script_fromhex rest"
| "script_fromhex _ = []"

definition FEEDBACK_SEAL_KEY :: string where
  "FEEDBACK_SEAL_KEY = ''9a505fc64734e2f2c801a1c0e3d031c5ff2f5662cd1ba51624c75dac9555de1a''"

definition FEEDBACK_SEAL_NONCE :: string where
  "FEEDBACK_SEAL_NONCE = ''a482acf480d0928b3c37c730''"

text \<open>What the script writes to \<^verbatim>\<open>feedback-dsn.sealed\<close> for an address, read and stripped of white space.\<close>

definition script_seal :: "string \<Rightarrow> string option" where
  "script_seal text =
     map_option (\<lambda>(key, host, path, project).
       let public = ''https://'' @ key @ ''@'' @ host @ path @ ''/'' @ project;
           sealed = script_hex (script_chacha20 (script_fromhex FEEDBACK_SEAL_KEY) (script_fromhex FEEDBACK_SEAL_NONCE)
                      (map of_char public))
       in sealed @ [newline]) (script_dsn text)"

section \<open>Agreement with \<^verbatim>\<open>feedback.rs\<close>\<close>

lemma uint_add_mask: "uint (a + b :: u32) = (uint a + uint b) AND 0xFFFFFFFF"
proof -
  have "(0xFFFFFFFF :: int) = mask 32" by (simp add: mask_eq_exp_minus_1)
  then show ?thesis by (simp only: take_bit_eq_mask [symmetric] uint_word_ariths take_bit_eq_mod) simp
qed

lemma uint_u32_bound: "uint (w :: u32) < 2 ^ n" if "32 \<le> n"
proof -
  have "uint w < 2 ^ 32" using unsigned_less [of w, where 'a = int] by simp
  also have "(2 :: int) ^ 32 \<le> 2 ^ n" using that by (rule power_increasing) simp
  finally show ?thesis .
qed

lemma uint_u32_of_int: "0 \<le> v \<Longrightarrow> v < 2 ^ 32 \<Longrightarrow> uint (word_of_int v :: u32) = v"
  by (simp add: uint_word_of_int_eq take_bit_int_eq_self)

lemma uint_u8_bound: "uint (b :: u8) < 256"
  using unsigned_less [of b, where 'a = int] by simp

lemma uint_rotl:
  assumes "0 < n" "n < 32"
  shows "script_rotl (uint (w :: u32)) n = uint (word_rotl n w)"
proof -
  have m: "(0xFFFFFFFF :: int) = mask 32" by (simp add: mask_eq_exp_minus_1)
  have "take_bit 32 (drop_bit (32 - n) (uint w)) = drop_bit (32 - n) (uint w)" "take_bit 32 (uint w) = uint w"
    using uint_u32_bound [where w = w] uint_u32_bound [of 32 w] by (simp_all add: take_bit_drop_bit take_bit_int_eq_self)
  then show ?thesis
    unfolding word_rotl_shifts [OF assms] script_rotl_def m
    by (simp add: take_bit_eq_mask [symmetric] unsigned_or_eq unsigned_push_bit_eq unsigned_drop_bit_eq take_bit_or)
qed

lemma uint_xor: "uint a XOR uint b = uint (a XOR b :: u32)"
  by (simp add: unsigned_xor_eq)

lemma quarter_round_script:
  assumes "a < length x" "b < length x" "c < length x" "d < length x"
  shows "script_quarter_round a b c d (map uint x) = map uint (quarter_round a b c d x)"
  using assms
  by (simp add: script_quarter_round_def quarter_round_def Let_def map_update [symmetric] uint_add_mask [symmetric]
      uint_xor uint_rotl del: map_update)

lemma length_quarter_round [simp]: "length (quarter_round a b c d x) = length x"
  by (simp add: quarter_round_def Let_def)

lemma length_double_round [simp]: "length (double_round x) = length x"
  by (simp add: double_round_def)

lemma rounds_script: "length x = 16 \<Longrightarrow> script_rounds (map uint x) = map uint (double_round x)"
  by (simp add: script_rounds_def double_round_def quarter_round_script)

lemma rounds_script_pow:
  assumes "length x = 16"
  shows "(script_rounds ^^ n) (map uint x) = map uint ((double_round ^^ n) x) \<and> length ((double_round ^^ n) x) = 16"
  using assms by (induction n) (simp_all add: rounds_script)

lemma uint_le_bytes:
  "uint (from_le_bytes (a # b # c # d # bs)) = uint a + 256 * uint b + 65536 * uint c + 16777216 * uint d"
proof -
  have u: "uint (ucast x :: u32) = uint x" for x :: u8
    using uint_u8_bound [of x] by (simp add: unsigned_ucast_eq take_bit_int_eq_self)
  have low: "\<not> bit (x :: u8) n" if "8 \<le> n" for x n using that bit_imp_le_length [of x n] by auto
  have "from_le_bytes (a # b # c # d # bs) =
      ucast a + push_bit 8 (ucast b) + push_bit 16 (ucast c) + push_bit 24 (ucast d)"
    by (subst disjunctive_add; (use low in \<open>auto simp: bit_simps not_le\<close>)?)+ (simp add: from_le_bytes_def or.assoc)
  also have "\<dots> = word_of_int (uint a + 256 * uint b + 65536 * uint c + 16777216 * uint d)"
    by (simp add: push_bit_eq_mult u [symmetric] mult.commute)
  finally have "uint (from_le_bytes (a # b # c # d # bs)) = uint (word_of_int (uint a + 256 * uint b + 65536 * uint c + 16777216 * uint d) :: u32)"
    by (rule arg_cong)
  also have "\<dots> = uint a + 256 * uint b + 65536 * uint c + 16777216 * uint d"
    using uint_u8_bound [of a] uint_u8_bound [of b] uint_u8_bound [of c] uint_u8_bound [of d]
    by (intro uint_u32_of_int) simp_all
  finally show ?thesis .
qed

lemma uint_byte: "uint (ucast w :: u8) = uint (w :: u32) mod 256"
  by (simp add: unsigned_ucast_eq take_bit_eq_mod)

lemma pack_script: "struct_pack (uint w) = map uint (to_le_bytes w)"
  by (simp add: struct_pack_def to_le_bytes_def uint_byte uint_div drop_bit_eq_div)

lemma unpack_script:
  "length bs = 4 * n \<Longrightarrow> struct_unpack (map uint bs) = map uint (map (\<lambda>i. from_le_bytes (drop (i * 4) bs)) [0..<n])"
proof (induction n arbitrary: bs)
  case (Suc n)
  then obtain a b c d cs where bs: "bs = a # b # c # d # cs" "length cs = 4 * n"
    by (auto simp: length_Suc_conv numeral_eq_Suc)
  have "map (\<lambda>i. from_le_bytes (drop (i * 4) bs)) [0..<Suc n]
      = from_le_bytes bs # map (\<lambda>i. from_le_bytes (drop (i * 4) cs)) [0..<n]"
    by (simp add: map_upt_Suc bs(1) numeral_eq_Suc del: upt_Suc)
  with Suc.IH [OF bs(2)] show ?case by (simp add: bs(1) uint_le_bytes)
qed simp

lemma state_script:
  assumes "length key = 32" "length nonce = 12"
  shows "[0x61707865, 0x3320646E, 0x79622D32, 0x6B206574] @ struct_unpack (map uint key) @ [uint c] @ struct_unpack (map uint nonce)
    = map uint (chacha_state key nonce c)"
  using unpack_script [of key 8] unpack_script [of nonce 3] assms by (simp add: chacha_state_def del: upt_conv_Cons)

lemma length_chacha_state [simp]: "length (chacha_state key nonce c) = 16"
  by (simp add: chacha_state_def)

lemma block_script:
  assumes "length key = 32" "length nonce = 12"
  shows "script_block (map uint key) (uint c) (map uint nonce) = map uint (chacha_stream (chacha_state key nonce c))"
proof -
  define state where "state = chacha_state key nonce c"
  define x where "x = (double_round ^^ 10) state"
  have len: "length state = 16" by (simp add: state_def)
  have x: "(script_rounds ^^ 10) (map uint state) = map uint x" "length x = 16"
    using rounds_script_pow [OF len, of 10] by (simp_all add: x_def)
  have "script_block (map uint key) (uint c) (map uint nonce) =
      concat (map (\<lambda>i. struct_pack ((map uint x ! i + map uint state ! i) AND 0xFFFFFFFF)) [0..<16])"
    by (simp only: script_block_def state_script [OF assms] Let_def x(1) flip: state_def)
  also have "\<dots> = concat (map (\<lambda>i. map uint (to_le_bytes (x ! i + state ! i))) [0..<16])"
    by (intro arg_cong [where f = concat] map_cong) (simp_all add: len x(2) pack_script flip: uint_add_mask)
  also have "\<dots> = map uint (chacha_stream state)"
    by (simp only: chacha_stream_def Let_def map_concat map_map comp_def flip: x_def)
  finally show ?thesis by (simp only: state_def)
qed

lemma map_xor_uint: "map uint (map2 (XOR) xs ys) = map2 (XOR) (map uint xs) (map uint (ys :: u8 list))"
  by (auto simp: zip_map1 zip_map2 unsigned_xor_eq)

lemma counter_uint: "Suc n < 2 ^ 32 \<Longrightarrow> uint (word_of_nat n + 1 :: u32) = 1 + int n"
proof -
  assume n: "Suc n < 2 ^ 32"
  have "(word_of_nat n + 1 :: u32) = word_of_int (1 + int n)" by simp
  also have "uint \<dots> = 1 + int n" using n by (intro uint_u32_of_int) simp_all
  finally show ?thesis .
qed

lemma chacha_blocks_script:
  assumes "length key = 32" "length nonce = 12" "block + (length data + 63) div 64 < 2 ^ 32"
  shows "map uint (chacha_blocks key nonce block data) =
    concat (map (\<lambda>n. map2 (XOR) (take 64 (drop (64 * n) (map uint data)))
        (script_block (map uint key) (1 + int (block + n)) (map uint nonce))) [0..<(length data + 63) div 64])"
  using assms
proof (induction key nonce block data rule: chacha_blocks.induct)
  case (1 key nonce block data)
  show ?case
  proof (cases "data = []")
    case False
    have n: "(length data + 63) div 64 = Suc ((length (drop 64 data) + 63) div 64)"
      using False by (cases "length data < 64") (auto simp: Suc_le_eq div_eq_0_iff le_div_geq)
    have c: "uint (word_of_nat block + 1 :: u32) = 1 + int block" using 1(4) n by (intro counter_uint) simp
    have "map uint (chacha_blocks key nonce block data) =
        map2 (XOR) (map uint (take 64 data)) (script_block (map uint key) (1 + int block) (map uint nonce))
        @ map uint (chacha_blocks key nonce (Suc block) (drop 64 data))"
      using block_script [OF 1(2,3), of "word_of_nat block + 1"]
      by (simp add: chacha_blocks_step [OF False] map_xor_uint c del: map_map)
    also have "map uint (chacha_blocks key nonce (Suc block) (drop 64 data)) =
        concat (map (\<lambda>n. map2 (XOR) (take 64 (drop (64 * Suc n) (map uint data)))
          (script_block (map uint key) (1 + int (block + Suc n)) (map uint nonce))) [0..<(length (drop 64 data) + 63) div 64])"
      using "1.IH" [OF False 1(2,3)] 1(4) n by (simp add: drop_map add.commute)
    finally show ?thesis unfolding n by (simp add: map_upt_Suc take_map del: upt_Suc)
  qed simp
qed

lemma chacha20_script:
  assumes "length key = 32" "length nonce = 12" "length data \<le> 2 ^ 37"
  shows "script_chacha20 (map uint key) (map uint nonce) (map uint data) = map uint (chacha20 key nonce data)"
proof -
  have "(length data + 63) div 64 \<le> (2 ^ 37 + 63) div 64" using assms(3) by (intro div_le_mono) simp
  then have "0 + (length data + 63) div 64 < 2 ^ 32" by simp
  from chacha_blocks_script [OF assms(1,2) this] show ?thesis
    by (simp add: script_chacha20_def chacha20_def comp_def)
qed

lemma seal_key_script: "script_fromhex FEEDBACK_SEAL_KEY = map uint SEAL_KEY"
  "script_fromhex FEEDBACK_SEAL_NONCE = map uint SEAL_NONCE"
  by (simp_all add: FEEDBACK_SEAL_KEY_def FEEDBACK_SEAL_NONCE_def SEAL_KEY_def SEAL_NONCE_def hex_value_def is_ascii_digit_def)

lemma hex_digit_char: "d < 16 \<Longrightarrow> ''0123456789abcdef'' ! d = digit_char d"
proof -
  have "list_all (\<lambda>d. ''0123456789abcdef'' ! d = digit_char d) [0..<16]"
    by (simp add: upt_rec digit_char_def char_of_def bit_iff_odd)
  then show "d < 16 \<Longrightarrow> ''0123456789abcdef'' ! d = digit_char d" by (simp add: list_all_iff)
qed

lemma hex_script: "script_hex (map uint bytes) = concat (map hex2 (bytes :: u8 list))"
proof -
  have "[''0123456789abcdef'' ! nat (uint b div 16), ''0123456789abcdef'' ! nat (uint b mod 16)] = hex2 b" for b :: u8
  proof -
    have "nat (uint b div 16) = unat b div 16" "nat (uint b mod 16) = unat b mod 16"
      by (simp_all add: nat_div_distrib nat_mod_distrib)
    moreover have "unat b div 16 < 16" "unat b mod 16 < 16" using unat_u8_bound [of b] by auto
    ultimately show ?thesis by (simp add: hex2_def hex_digit_char)
  qed
  then show ?thesis by (simp add: script_hex_def comp_def)
qed

end
