(* ===== verification/SealProps.thy ===== *)
theory SealProps
  imports SealScript
begin

text \<open>
  What the sealed address and the configuration for \<^verbatim>\<open>curl\<close> guarantee: every address the sealing
  script accepts is opened by \<^verbatim>\<open>ssctl\<close> from the file the script writes, and nothing in a report can
  end its quoted value early or add a line.
\<close>

section \<open>Opening the seal\<close>

definition char_byte :: "char \<Rightarrow> u8" where
  "char_byte c = word_of_nat (of_char c)"

lemma byte_char_byte [simp]: "byte_char (char_byte c) = c"
proof -
  have "(of_char c :: nat) < 256" by simp
  then have "unat (word_of_nat (of_char c) :: u8) = of_char c"
    by (simp add: unsigned_of_nat take_bit_nat_eq_self)
  then show ?thesis by (simp add: byte_char_def char_byte_def)
qed

lemma hex2_word: "list_all (\<lambda>c. \<not> is_whitespace c) (hex2 b)"
  using digit_char_plain(1) unat_u8_bound [of b] by (auto simp: hex2_def)

lemma utf8_ascii: "\<forall>b \<in> set bs. b < 128 \<Longrightarrow> utf8_bytes bs"
  by (induction bs) auto

lemma char_byte_uint: "uint (char_byte c) = of_char c"
proof -
  have "(of_char c :: nat) < 256" by simp
  then have "unat (word_of_nat (of_char c) :: u8) = of_char c"
    by (simp add: unsigned_of_nat take_bit_nat_eq_self)
  then have "int (unat (char_byte c)) = int (of_char c)" by (simp add: char_byte_def)
  then show ?thesis by (simp only: of_nat_of_char uint_nat)
qed

lemma dsn_sealed_script:
  assumes "text \<noteq> []" "\<forall>c \<in> set text. (of_char c :: nat) < 128" "length text \<le> 2 ^ 37"
  shows "dsn_sealed (script_hex (script_chacha20 (script_fromhex FEEDBACK_SEAL_KEY) (script_fromhex FEEDBACK_SEAL_NONCE)
      (map of_char text)) @ [newline]) = dsn_parse text"
proof -
  let ?bytes = "chacha20 SEAL_KEY SEAL_NONCE (map char_byte text)"
  have len: "length SEAL_KEY = 32" "length SEAL_NONCE = 12" by (simp_all add: SEAL_KEY_def SEAL_NONCE_def)
  have "map of_char text = map uint (map char_byte text)" by (simp add: char_byte_uint)
  then have sealed: "script_hex (script_chacha20 (script_fromhex FEEDBACK_SEAL_KEY) (script_fromhex FEEDBACK_SEAL_NONCE)
      (map of_char text)) = concat (map hex2 ?bytes)"
    using chacha20_script [OF len, of "map char_byte text"] assms(3) by (simp only: seal_key_script length_map hex_script)
  have "list_all (\<lambda>c. \<not> is_whitespace c) (concat (map hex2 ?bytes))"
    using hex2_word by (auto simp: list_all_iff)
  then have tr: "trim (concat (map hex2 ?bytes) @ [newline]) = concat (map hex2 ?bytes)"
    by (rule trim_plain) (simp add: is_whitespace_def)
  have "?bytes \<noteq> []"
    using assms(1) length_chacha_blocks [of SEAL_KEY SEAL_NONCE 0 "map char_byte text"]
    by (auto simp: chacha20_def)
  moreover have "from_utf8 text" using assms(2) using utf8_ascii [of "map of_char text"] by (simp add: from_utf8_def)
  moreover have "map byte_char (map char_byte text) = text" by (simp add: comp_def)
  ultimately show ?thesis
    unfolding sealed dsn_sealed_def tr
    by (simp add: from_hex_hex2 chacha20_def chacha_blocks_twice del: map_map)
qed

section \<open>Plain characters\<close>

definition plain_char :: "char \<Rightarrow> bool" where
  "plain_char c = (is_ascii_alphanumeric c \<or> c \<in> set ''./:_-'')"

lemma plain_char_ascii: "plain_char c \<Longrightarrow> (of_char c :: nat) < 128"
  by (auto simp: plain_char_def is_ascii_alphanumeric_def is_ascii_alphabetic_def is_ascii_lower_def
      is_ascii_upper_def is_ascii_digit_def Let_def)

lemma plain_char_unquoted:
  assumes "plain_char c"
  shows "c \<noteq> quote" "c \<noteq> backslash" "c \<noteq> newline" "c \<noteq> CHR 0x0D" "c \<noteq> CHR ''@''"
  using assms
  by (auto simp: plain_char_def is_ascii_alphanumeric_def is_ascii_alphabetic_def is_ascii_lower_def
      is_ascii_upper_def is_ascii_digit_def Let_def)

lemma plain_alphanumeric [simp]: "is_ascii_alphanumeric c \<Longrightarrow> plain_char c" "is_ascii_digit c \<Longrightarrow> plain_char c"
  by (simp_all add: plain_char_def is_ascii_alphanumeric_def)

lemma plain_hex: "is_hex c \<Longrightarrow> plain_char c"
proof -
  have "list_all is_ascii_lower ''abcdef''" by (simp add: is_ascii_lower_def)
  then show "is_hex c \<Longrightarrow> plain_char c"
    unfolding is_hex_def list_all_iff plain_char_def is_ascii_alphanumeric_def is_ascii_alphabetic_def by blast
qed

lemma split_on_chars: "c \<in> set s \<Longrightarrow> \<not> p c \<Longrightarrow> \<exists>w \<in> set (split_on p s). c \<in> set w"
proof (induction s)
  case (Cons a s)
  then show ?case by (cases "split_on p s") (auto split: if_splits)
qed simp

lemma host_plain: "host_ok host \<Longrightarrow> list_all plain_char host"
  by (auto simp: host_ok_def list_all_iff plain_char_def)

lemma path_plain:
  assumes "path_ok path"
  shows "list_all plain_char path"
  unfolding list_all_iff
proof
  fix c
  assume c: "c \<in> set path"
  show "plain_char c"
  proof (cases "c = CHR ''/''")
    case False
    then obtain w where "w \<in> set (split_char (CHR ''/'') path)" "c \<in> set w"
      using split_on_chars [of c path "\<lambda>c. c = CHR ''/''"] c by (auto simp: split_char_def)
    with assms c show ?thesis by (auto simp: path_ok_def list_all_iff plain_char_def)
  qed (simp add: plain_char_def)
qed

lemma dsn_parseE:
  assumes "dsn_parse text = Some d"
  obtains key host path project where "dsn_valid key host path project" "d = dsn_of key host path project"
  using assms
  by (auto simp: dsn_parse_def Let_def bind_eq_Some_conv case_prod_unfold split: if_splits intro: that)

lemma dsn_of_plain:
  assumes "dsn_valid key host path project"
  shows "list_all plain_char (dsn_endpoint (dsn_of key host path project))"
    and "list_all plain_char (dsn_public_key (dsn_of key host path project))"
proof -
  have w: "list_all plain_char ''https://''" "list_all plain_char ''/api/''" "list_all plain_char ''/envelope/''"
    by (simp_all add: plain_char_def is_ascii_alphanumeric_def is_ascii_alphabetic_def is_ascii_lower_def)
  have "list_all plain_char host" "list_all plain_char path" "list_all plain_char project" "list_all plain_char key"
    using assms host_plain path_plain plain_hex by (auto simp: dsn_valid_def list_all_iff)
  with w show "list_all plain_char (dsn_endpoint (dsn_of key host path project))"
    and "list_all plain_char (dsn_public_key (dsn_of key host path project))"
    by (simp_all add: dsn_of_def plain_char_def [of "CHR ''/''"])
qed

lemma dsn_parse_plain:
  "dsn_parse text = Some d \<Longrightarrow> list_all plain_char (dsn_endpoint d) \<and> list_all plain_char (dsn_public_key d)"
  by (elim dsn_parseE) (simp add: dsn_of_plain)


section \<open>The address and the configuration\<close>

definition dsn_text :: "string \<Rightarrow> string \<Rightarrow> string \<Rightarrow> string \<Rightarrow> string" where
  "dsn_text key host path project =
     ''https://'' @ key @ ''@'' @ host @ (if path = [] then [] else CHR ''/'' # path) @ ''/'' @ project"

lemma slash_not:
  "host_ok host \<Longrightarrow> CHR ''/'' \<notin> set host" "list_all is_ascii_digit project \<Longrightarrow> CHR ''/'' \<notin> set project"
  by (auto simp: host_ok_def list_all_iff is_ascii_alphanumeric_def is_ascii_alphabetic_def is_ascii_lower_def
      is_ascii_upper_def is_ascii_digit_def)

lemma key_no_at: "list_all is_hex key \<Longrightarrow> CHR ''@'' \<notin> set key"
  using plain_hex plain_char_unquoted(5) by (auto simp: list_all_iff)

lemma rsplit_once_append: "d \<notin> set b \<Longrightarrow> rsplit_once d (a @ d # b) = Some (a, b)"
  using split_once_append [of d "rev b" "rev a"] by (simp add: rsplit_once_def)

lemma host_and_path_join:
  "CHR ''/'' \<notin> set host \<Longrightarrow> host_and_path (host @ (if path = [] then [] else CHR ''/'' # path)) = (host, path)"
  using split_once_None [of "CHR ''/''" host] split_once_append [of "CHR ''/''" host path]
  by (simp add: host_and_path_def)

lemma dsn_parse_text:
  assumes "dsn_valid key host path project"
  shows "dsn_parse (dsn_text key host path project) = Some (dsn_of key host path project)"
proof -
  let ?location = "host @ (if path = [] then [] else CHR ''/'' # path)"
  have v: "list_all is_hex key" "host_ok host" "list_all is_ascii_digit project"
    using assms by (simp_all add: dsn_valid_def)
  have "strip_prefix_str ''https://'' (dsn_text key host path project) = Some (key @ CHR ''@'' # ?location @ CHR ''/'' # project)"
    by (simp add: strip_prefix_str_def dsn_text_def)
  moreover have "split_once (CHR ''@'') (key @ CHR ''@'' # ?location @ CHR ''/'' # project) = Some (key, ?location @ CHR ''/'' # project)"
    using key_no_at [OF v(1)] by (rule split_once_append)
  moreover have "rsplit_once (CHR ''/'') (?location @ CHR ''/'' # project) = Some (?location, project)"
    using slash_not(2) [OF v(3)] by (rule rsplit_once_append)
  ultimately show ?thesis
    using assms host_and_path_join [OF slash_not(1) [OF v(2)], of path] by (simp only: dsn_parse_def bind.bind_lunit prod.case Let_def) simp
qed

lemma dsn_text_ascii:
  assumes "dsn_valid key host path project"
  shows "\<forall>c \<in> set (dsn_text key host path project). (of_char c :: nat) < 128"
proof -
  have "list_all plain_char host" "list_all plain_char path" "list_all plain_char project" "list_all plain_char key"
    using assms host_plain path_plain plain_hex by (auto simp: dsn_valid_def list_all_iff)
  then show ?thesis using plain_char_ascii by (auto simp: dsn_text_def list_all_iff)
qed

text \<open>Every address the script accepts is one \<^verbatim>\<open>ssctl\<close> accepts.\<close>

lemma credentials_key:
  assumes "dsn_credentials s = Some (key, rest)"
  shows "length key = 32 \<and> list_all is_hex key \<and> length key + length rest < length s"
proof -
  have k: "key = take 32 s" "dsn_key_part key"
    using assms by (auto simp: dsn_credentials_def Let_def split: list.splits if_splits)
  have "list_all is_hex ''0123456789abcdef''" by (simp add: is_hex_def is_ascii_digit_def)
  then have "list_all is_hex key" using k(2) unfolding dsn_key_part_def list_all_iff by blast
  moreover have "length rest < length (drop 32 s)"
    using assms by (auto simp: dsn_credentials_def Let_def simp del: length_drop split: list.splits if_splits)
      (simp_all add: less_Suc_eq_le)
  ultimately show ?thesis using k by (auto simp: dsn_key_part_def)
qed

lemma takeWhile_all: "list_all p (takeWhile p s)"
  using set_takeWhileD by (fastforce simp: list_all_iff)

lemma host_accepted:
  assumes "dsn_host s = Some (host, rest)"
  shows "host_ok host \<and> s = host @ rest"
proof -
  define name where "name = takeWhile dsn_name_char s"
  have n: "list_all dsn_name_char name" by (simp add: name_def takeWhile_all)
  have colon: "CHR '':'' \<notin> set name"
    using n by (auto simp: list_all_iff dsn_name_char_def is_ascii_alphanumeric_def is_ascii_alphabetic_def
        is_ascii_lower_def is_ascii_upper_def is_ascii_digit_def)
  have s: "s = name @ dropWhile dsn_name_char s" by (simp add: name_def)
  show ?thesis
  proof (cases "take 1 (dropWhile dsn_name_char s) = '':''")
    case True
    then obtain r where r: "dropWhile dsn_name_char s = CHR '':'' # r" by (cases "dropWhile dsn_name_char s") auto
    let ?port = "takeWhile is_ascii_digit r"
    have h: "host = name @ '':'' @ ?port" "rest = dropWhile is_ascii_digit r" "?port \<noteq> []" "name \<noteq> []"
      using assms r by (auto simp: dsn_host_def Let_def name_def split: if_splits)
    moreover have "split_once (CHR '':'') host = Some (name, ?port)"
      using split_once_append [OF colon, of ?port] h(1) by simp
    moreover have "s = host @ rest" using s r h(1,2) by simp
    ultimately show ?thesis
      using n takeWhile_all [of is_ascii_digit r]
      by (auto simp: host_ok_def list_all_iff dsn_name_char_def is_ascii_alphanumeric_def)
  next
    case False
    then have h: "host = name" "rest = dropWhile dsn_name_char s" "name \<noteq> []"
      using assms by (auto simp: dsn_host_def Let_def name_def split: if_splits)
    then show ?thesis
      using n s iffD2 [OF split_once_None colon] by (auto simp: host_ok_def list_all_iff dsn_name_char_def)
  qed
qed

lemma path_project_accepted:
  assumes "dsn_path_project s = Some (path, project)"
  shows "path_ok (tl path) \<and> path = (if tl path = [] then [] else CHR ''/'' # tl path)
    \<and> project \<noteq> [] \<and> list_all is_ascii_digit project"
proof -
  have p: "project \<noteq> []" "list_all is_ascii_digit project"
    and c: "path = [] \<or> hd path = CHR ''/'' \<and> list_all dsn_segment (split_char (CHR ''/'') (tl path))"
    using assms by (auto simp: dsn_path_project_def Let_def split: option.splits if_splits)
  have ne: "tl path \<noteq> []" if "list_all dsn_segment (split_char (CHR ''/'') (tl path))"
    using that by (auto simp: dsn_segment_def split_char_def)
  have "path = (if tl path = [] then [] else CHR ''/'' # tl path)" using c ne by (cases path) auto
  moreover have "path_ok (tl path)" using c by (auto simp: path_ok_def dsn_segment_def list_all_iff)
  ultimately show ?thesis using p by blast
qed

lemma path_project_length:
  assumes "dsn_path_project s = Some (path, project)"
  shows "length path + length project < length s"
proof -
  define s' where "s' = (if s \<noteq> [] \<and> last s = CHR ''/'' then butlast s else s)"
  have "rsplit_once (CHR ''/'') s' = Some (path, project)"
    using assms by (auto simp: dsn_path_project_def Let_def s'_def split: option.splits if_splits)
  then obtain a b where "split_once (CHR ''/'') (rev s') = Some (a, b)" "path = rev b" "project = rev a"
    by (auto simp: rsplit_once_def)
  then have "length (rev s') = Suc (length path + length project)" using split_once_Some by fastforce
  moreover have "length s' \<le> length s" by (simp add: s'_def)
  ultimately show ?thesis by simp
qed

lemma accepted_valid:
  assumes "script_dsn text = Some (key, host, path, project)"
  shows "dsn_valid key host (tl path) project" "path = (if tl path = [] then [] else CHR ''/'' # tl path)"
    and "length (dsn_text key host (tl path) project) \<le> length text"
proof -
  obtain a b where p: "strip_prefix_str ''https://'' text = Some a" "dsn_credentials a = Some (key, b)"
    and q: "\<exists>r. dsn_host b = Some (host, r) \<and> dsn_path_project r = Some (path, project)"
    using assms by (auto simp: script_dsn_def bind_eq_Some_conv)
  obtain r where r: "dsn_host b = Some (host, r)" "dsn_path_project r = Some (path, project)" using q by blast
  note k = credentials_key [OF p(2)] and h = host_accepted [OF r(1)] and l = path_project_accepted [OF r(2)]
  show "dsn_valid key host (tl path) project" "path = (if tl path = [] then [] else CHR ''/'' # tl path)"
    using k h l by (auto simp: dsn_valid_def)
  have "length text = 8 + length a"
  proof -
    have "take 8 text = ''https://''" "a = drop 8 text"
      using p(1) by (auto simp: strip_prefix_str_def eval_nat_numeral split: if_splits)
    then have "length (take 8 text) = 8" by simp
    with \<open>a = drop 8 text\<close> show ?thesis by simp
  qed
  moreover have "length path + length project < length r" by (rule path_project_length [OF r(2)])
  moreover have "length b = length host + length r" using h by simp
  moreover have "length (dsn_text key host (tl path) project) = length key + length host + length path + length project + 10"
    using l by (auto simp: dsn_text_def)
  ultimately show "length (dsn_text key host (tl path) project) \<le> length text" using k by simp
qed

text \<open>
  C36. The seal opens: whatever address the sealing script \<^verbatim>\<open>infra/seal-feedback-dsn.py\<close> accepts -- a key,
  an optional legacy secret, a host with an optional port, an optional path, a project and an optional
  slash -- the file it writes, encrypted by its own ChaCha20 under the key and the nonce of
  \<^verbatim>\<open>install.sh\<close>, is opened by \<open>Dsn::sealed\<close> to that public key and the envelope endpoint of that project.
  The two ChaCha20 implementations, on unbounded integers and on 32-bit words, are separate definitions.
\<close>

theorem sealed_address_opens:
  assumes "script_dsn text = Some (key, host, path, project)" "length text \<le> 2 ^ 37"
  shows "Option.bind (script_seal text) dsn_sealed =
    Some \<lparr>dsn_public_key = key, dsn_endpoint = ''https://'' @ host @ path @ ''/api/'' @ project @ ''/envelope/''\<rparr>"
proof -
  note v = accepted_valid [OF assms(1)]
  let ?text = "dsn_text key host (tl path) project"
  have public: "''https://'' @ key @ ''@'' @ host @ path @ ''/'' @ project = ?text"
    using v(2) by (simp add: dsn_text_def)
  have "?text \<noteq> []" by (simp add: dsn_text_def)
  moreover have "length ?text \<le> 2 ^ 37" using v(3) assms(2) by simp
  ultimately have "dsn_sealed (script_hex (script_chacha20 (script_fromhex FEEDBACK_SEAL_KEY)
      (script_fromhex FEEDBACK_SEAL_NONCE) (map of_char ?text)) @ [newline]) = dsn_parse ?text"
    using dsn_text_ascii [OF v(1)] by (intro dsn_sealed_script)
  then have "Option.bind (script_seal text) dsn_sealed = dsn_parse ?text"
    by (simp only: script_seal_def assms(1) Let_def public option.map prod.case bind.bind_lunit)
  then show ?thesis using dsn_parse_text [OF v(1)] v(2) by (simp add: dsn_of_def)
qed

theorem sealed_address_opens_witness:
  "Option.bind (script_seal (''https://'' @ replicate 32 (CHR ''a'') @ ''@o1.ingest.example:443/sub/path/42/'')) dsn_sealed =
     Some \<lparr>dsn_public_key = replicate 32 (CHR ''a''),
           dsn_endpoint = ''https://o1.ingest.example:443/sub/path/api/42/envelope/''\<rparr>"
proof -
  let ?text = "''https://'' @ replicate 32 (CHR ''a'') @ ''@o1.ingest.example:443/sub/path/42/''"
  have "script_dsn ?text = Some (replicate 32 (CHR ''a''), ''o1.ingest.example:443'', ''/sub/path'', ''42'')"
    by (simp add: script_dsn_def strip_prefix_str_def dsn_credentials_def dsn_key_part_def dsn_host_def dsn_path_project_def
        dsn_name_char_def dsn_segment_def rsplit_once_def split_char_def is_ascii_alphanumeric_def is_ascii_alphabetic_def
        is_ascii_lower_def is_ascii_upper_def is_ascii_digit_def list_all_iff)
  from sealed_address_opens [OF this] show ?thesis by simp
qed

text \<open>
  A line of a configuration for \<^verbatim>\<open>curl\<close>, as its manual describes it: a name, an equals sign and a value in
  double quotes, in which a backslash escapes the character after it and \<open>\n\<close> is a newline.
\<close>

fun curl_unquote :: "string \<Rightarrow> (string \<times> string) option" where
  "curl_unquote [] = None"
| "curl_unquote (c # s) =
     (if c = quote then Some ([], s)
      else if c = backslash then
        (case s of [] \<Rightarrow> None
         | e # s' \<Rightarrow> map_option (apfst ((#) (if e = CHR ''n'' then newline else e))) (curl_unquote s'))
      else map_option (apfst ((#) c)) (curl_unquote s))"

definition curl_option :: "string \<Rightarrow> (string \<times> string) option" where
  "curl_option line =
     (case split_once (CHR ''='') line of None \<Rightarrow> None
      | Some (name, v) \<Rightarrow>
          (case trim v of c # s \<Rightarrow>
             if c = quote then (case curl_unquote s of Some (text, []) \<Rightarrow> Some (trim name, text) | _ \<Rightarrow> None) else None
           | [] \<Rightarrow> None))"

definition escape :: "char \<Rightarrow> string" where
  "escape c = (if c = backslash then [backslash, backslash] else if c = quote then [backslash, quote]
     else if c = newline then [backslash, CHR ''n''] else [c])"

lemma replace_char_append [simp]: "replace_char c w (a @ b) = replace_char c w a @ replace_char c w b"
  by (induction a) auto

lemma curl_quoted_escape: "curl_quoted s = concat (map escape s)"
  by (induction s) (simp_all add: curl_quoted_def escape_def)

lemma unquote_escape: "curl_unquote (escape c @ s) = map_option (apfst ((#) c)) (curl_unquote s)"
  by (simp add: escape_def)

lemma unquote_quoted: "curl_unquote (curl_quoted s @ [quote]) = Some (s, [])"
  by (induction s) (simp_all add: curl_quoted_escape unquote_escape)

lemma quoted_plain: "list_all plain_char s \<Longrightarrow> curl_quoted s = s"
  using plain_char_unquoted by (induction s) (auto simp: curl_quoted_escape escape_def)

lemma quoted_line: "newline \<notin> set (curl_quoted s)"
  by (auto simp: curl_quoted_escape escape_def split: if_splits)

lemma curl_option_line:
  assumes "list_all (\<lambda>c. \<not> is_whitespace c \<and> c \<noteq> CHR ''='') name"
  shows "curl_option (name @ '' = '' @ [quote] @ curl_quoted s @ [quote]) = Some (name, s)"
proof -
  have "CHR ''='' \<notin> set (name @ '' '')" using assms by (auto simp: list_all_iff)
  from split_once_append [OF this, of "'' '' @ quote # curl_quoted s @ [quote]"]
  have "split_once (CHR ''='') (name @ '' = '' @ [quote] @ curl_quoted s @ [quote])
      = Some (name @ '' '', '' '' @ quote # curl_quoted s @ [quote])" by simp
  moreover have "trim (name @ '' '') = name"
    using assms by (intro trim_plain) (auto simp: list_all_iff is_whitespace_def)
  moreover have "trim ('' '' @ quote # curl_quoted s @ [quote]) = quote # curl_quoted s @ [quote]"
    by (rule trim_inner) (simp_all add: is_whitespace_def)
  ultimately show ?thesis by (simp add: curl_option_def unquote_quoted)
qed

definition unquoted :: "string \<Rightarrow> bool" where
  "unquoted s = list_all (\<lambda>c. c \<noteq> quote \<and> c \<noteq> backslash \<and> c \<noteq> newline) s"

lemma unquoted_quoted: "unquoted s \<Longrightarrow> curl_quoted s = s"
  by (induction s) (auto simp: unquoted_def curl_quoted_escape escape_def)

lemma unquoted_append [simp]: "unquoted (a @ b) = (unquoted a \<and> unquoted b)"
  by (auto simp: unquoted_def)

lemma unquoted_plain: "list_all plain_char s \<Longrightarrow> unquoted s"
  using plain_char_unquoted(1-3) by (auto simp: unquoted_def list_all_iff)

definition auth_header :: "string \<Rightarrow> dsn \<Rightarrow> string" where
  "auth_header version d =
     ''X-Sentry-Auth: Sentry sentry_version=7, sentry_client=ssctl/'' @ version @ '', sentry_key='' @ dsn_public_key d"

definition curl_line :: "string \<Rightarrow> string \<Rightarrow> string" where
  "curl_line name s = name @ '' = '' @ [quote] @ curl_quoted s @ [quote]"

lemma curl_lines_quoted:
  assumes "dsn_parse dsn = Some d" "unquoted version"
  shows "curl_lines version d envelope =
    [curl_line ''url'' (dsn_endpoint d), curl_line ''header'' (auth_header version d),
     curl_line ''header'' ''Content-Type: application/x-sentry-envelope'', curl_line ''data-binary'' envelope]"
proof -
  have "unquoted (dsn_endpoint d)" "unquoted (dsn_public_key d)"
    using dsn_parse_plain [OF assms(1)] by (simp_all add: unquoted_plain)
  moreover have "unquoted ''X-Sentry-Auth: Sentry sentry_version=7, sentry_client=ssctl/''" "unquoted '', sentry_key=''"
    "unquoted ''Content-Type: application/x-sentry-envelope''"
    by (simp_all add: unquoted_def)
  ultimately have "curl_quoted (dsn_endpoint d) = dsn_endpoint d" "curl_quoted (auth_header version d) = auth_header version d"
    "curl_quoted ''Content-Type: application/x-sentry-envelope'' = ''Content-Type: application/x-sentry-envelope''"
    using assms(2) by (simp_all only: auth_header_def unquoted_append unquoted_quoted)
  then show ?thesis by (simp only: curl_lines_def curl_line_def) (simp add: auth_header_def)
qed

lemma curl_line_whole: "newline \<notin> set name \<Longrightarrow> newline \<notin> set (curl_line name s)" "last (curl_line name s) = quote"
  using quoted_line by (auto simp: curl_line_def)

text \<open>
  C37. What \<^verbatim>\<open>curl\<close> reads is what was meant: whatever the report says (quotes, backslashes, newlines),
  the configuration written for it has exactly four options, the endpoint of the parsed address, the
  two headers and the envelope byte for byte, so no text of a report can add an option or change where
  it is sent.
\<close>

theorem curl_reads_report:
  assumes "dsn_parse dsn = Some d" "unquoted version"
  shows "map curl_option (lines (curl_config version d envelope)) =
    [Some (''url'', dsn_endpoint d), Some (''header'', auth_header version d),
     Some (''header'', ''Content-Type: application/x-sentry-envelope''), Some (''data-binary'', envelope)]"
proof -
  have "lines (curl_config version d envelope) = curl_lines version d envelope"
    unfolding curl_config_def
    by (rule lines_concat) (use curl_line_whole in \<open>simp add: curl_lines_quoted [OF assms]\<close>)
  moreover have "curl_option (curl_line name s) = Some (name, s)" if "name \<in> {''url'', ''header'', ''data-binary''}" for name s
    using that unfolding curl_line_def by (intro curl_option_line) (auto simp: is_whitespace_def)
  ultimately show ?thesis by (simp add: curl_lines_quoted [OF assms])
qed

theorem curl_reads_report_witness:
  "\<exists>d. dsn_parse (dsn_text (replicate 32 (CHR ''a'')) ''example.org'' [] ''7'') = Some d
     \<and> last (map curl_option (lines (curl_config ''0.9.1'' d (CHR ''x'' # quote # newline # ''url = evil''))))
         = Some (''data-binary'', CHR ''x'' # quote # newline # ''url = evil'')"
proof -
  have "list_all is_hex (replicate 32 (CHR ''a''))" by (simp add: list_all_iff is_hex_def)
  then have v: "dsn_valid (replicate 32 (CHR ''a'')) ''example.org'' [] ''7''"
    by (simp add: dsn_valid_def host_ok_def path_ok_def split_char_def is_ascii_alphanumeric_def
        is_ascii_alphabetic_def is_ascii_lower_def is_ascii_upper_def is_ascii_digit_def)
  have "unquoted ''0.9.1''" by (simp add: unquoted_def)
  from curl_reads_report [OF dsn_parse_text [OF v] this] show ?thesis
    using dsn_parse_text [OF v] by simp
qed

end
