(* ===== verification/Style.thy ===== *)
theory Style
  imports Floats
begin

text \<open>
  Colours, symbols, bars and units of \<^verbatim>\<open>ssctl\<close>'s output (\<^verbatim>\<open>style.rs\<close>). A string is the list of the bytes
  of its UTF-8 form, so a column is a byte that does not continue a character. White space is that of ASCII.
\<close>

section \<open>Characters of a text\<close>

definition char_count :: "string \<Rightarrow> nat" where
  "char_count s = length (filter (\<lambda>c. \<not> continuation (of_char c)) s)"

text \<open>\<open>chars().take(n).collect()\<close>.\<close>

fun take_chars :: "nat \<Rightarrow> string \<Rightarrow> string" where
  "take_chars n [] = []"
| "take_chars n (c # cs) =
     (if continuation (of_char c) then c # take_chars n cs
      else (case n of 0 \<Rightarrow> [] | Suc m \<Rightarrow> c # take_chars m cs))"

definition repeat_str :: "nat \<Rightarrow> string \<Rightarrow> string" where
  "repeat_str n s = concat (replicate n s)"

section \<open>Themes\<close>

datatype color_choice = Auto | Always | ColorNever

record theme =
  th_color :: bool
  th_unicode :: bool
  th_width :: nat
  th_sudo :: bool

text \<open>
  What a theme is detected from: whether the two streams are terminals, the environment variables,
  the terminal's columns (0 when the request for them fails) and which files are executable.
\<close>

record terminal =
  tm_stdout :: bool
  tm_stderr :: bool
  tm_var :: "string \<Rightarrow> string option"
  tm_columns :: nat
  tm_executable :: "string \<Rightarrow> bool"

fun utf8_locale :: "(string \<Rightarrow> string option) \<Rightarrow> string list \<Rightarrow> bool" where
  "utf8_locale var [] = False"
| "utf8_locale var (name # names) =
     (case var name of None \<Rightarrow> utf8_locale var names
      | Some v \<Rightarrow>
          if v = [] then utf8_locale var names
          else (let v = to_ascii_lowercase v in contains_str v ''utf-8'' \<or> contains_str v ''utf8''))"

definition path_dirs :: "string \<Rightarrow> string list" where
  "path_dirs path = split_char (CHR '':'') path"

text \<open>\<open>Path::join\<close> of a file name: an empty directory is the current one.\<close>

definition dir_join :: "string \<Rightarrow> string \<Rightarrow> string" where
  "dir_join dir name = (if dir = [] then name else if last dir = CHR ''/'' then dir @ name else dir @ ''/'' @ name)"

definition on_path :: "(string \<Rightarrow> bool) \<Rightarrow> string \<Rightarrow> string \<Rightarrow> bool" where
  "on_path executable path program = list_ex (\<lambda>dir. executable (dir_join dir program)) (path_dirs path)"

definition sudo_installed :: "(string \<Rightarrow> bool) \<Rightarrow> string option \<Rightarrow> bool" where
  "sudo_installed executable path = (case path of None \<Rightarrow> False | Some p \<Rightarrow> on_path executable p ''sudo'')"

definition terminal_width :: "terminal \<Rightarrow> nat" where
  "terminal_width t =
     (if \<not> tm_stdout t then 100
      else if tm_columns t > 0 then tm_columns t
      else (case Option.bind (tm_var t ''COLUMNS'') (parse_radix 10 (2 ^ 64)) of None \<Rightarrow> 100 | Some n \<Rightarrow> n))"

definition theme_detect :: "terminal \<Rightarrow> color_choice \<Rightarrow> theme" where
  "theme_detect t choice =
     (let forbidden = (tm_var t ''NO_COLOR'' \<noteq> None \<or> tm_var t ''TERM'' = Some ''dumb'')
      in \<lparr>th_color = (case choice of Always \<Rightarrow> True | ColorNever \<Rightarrow> False | Auto \<Rightarrow> tm_stdout t \<and> \<not> forbidden),
          th_unicode = utf8_locale (tm_var t) [''LC_ALL'', ''LC_CTYPE'', ''LANG''],
          th_width = max 60 (min 120 (terminal_width t)),
          th_sudo = sudo_installed (tm_executable t) (tm_var t ''PATH'')\<rparr>)"

definition theme_command :: "theme \<Rightarrow> string \<Rightarrow> string" where
  "theme_command th command = (if th_sudo th then ''sudo '' @ command else command)"

abbreviation escape_char :: char where "escape_char \<equiv> CHR 0x1B"

definition RESET :: string where "RESET = escape_char # ''[0m''"

definition paint :: "theme \<Rightarrow> string \<Rightarrow> string \<Rightarrow> string" where
  "paint th code s = (if th_color th then escape_char # ''['' @ code @ ''m'' @ s @ RESET else s)"

definition bold :: "theme \<Rightarrow> string \<Rightarrow> string" where "bold th = paint th ''1''"
definition dim :: "theme \<Rightarrow> string \<Rightarrow> string" where "dim th = paint th ''2''"
definition red :: "theme \<Rightarrow> string \<Rightarrow> string" where "red th = paint th ''31''"
definition green :: "theme \<Rightarrow> string \<Rightarrow> string" where "green th = paint th ''32''"
definition yellow :: "theme \<Rightarrow> string \<Rightarrow> string" where "yellow th = paint th ''33''"
definition cyan :: "theme \<Rightarrow> string \<Rightarrow> string" where "cyan th = paint th ''36''"
definition bold_cyan :: "theme \<Rightarrow> string \<Rightarrow> string" where "bold_cyan th = paint th ''1;36''"
definition bold_green :: "theme \<Rightarrow> string \<Rightarrow> string" where "bold_green th = paint th ''1;32''"
definition bold_red :: "theme \<Rightarrow> string \<Rightarrow> string" where "bold_red th = paint th ''1;31''"
definition bold_yellow :: "theme \<Rightarrow> string \<Rightarrow> string" where "bold_yellow th = paint th ''1;33''"

datatype mark = Good | Bad | Warn | Off | Info

definition mark_glyph :: "bool \<Rightarrow> mark \<Rightarrow> string" where
  "mark_glyph unicode m =
     (case m of
        Good \<Rightarrow> if unicode then [CHR 0xE2, CHR 0x9C, CHR 0x94] else ''+''
      | Bad \<Rightarrow> if unicode then [CHR 0xE2, CHR 0x9C, CHR 0x98] else ''x''
      | Warn \<Rightarrow> if unicode then [CHR 0xE2, CHR 0x9A, CHR 0xA0] else ''!''
      | Off \<Rightarrow> if unicode then [CHR 0xC2, CHR 0xB7] else ''.''
      | Info \<Rightarrow> if unicode then [CHR 0xE2, CHR 0x96, CHR 0xB8] else ''>'')"

definition mark_text :: "theme \<Rightarrow> mark \<Rightarrow> string" where
  "mark_text th m =
     (let glyph = mark_glyph (th_unicode th) m
      in case m of Good \<Rightarrow> green th glyph | Bad \<Rightarrow> red th glyph | Warn \<Rightarrow> yellow th glyph
         | Off \<Rightarrow> dim th glyph | Info \<Rightarrow> cyan th glyph)"

definition lamp :: "theme \<Rightarrow> bool \<Rightarrow> string" where
  "lamp th on =
     (let glyph = (if th_unicode th
                   then (if on then [CHR 0xE2, CHR 0x97, CHR 0x8F] else [CHR 0xE2, CHR 0x97, CHR 0x8B])
                   else if on then ''*'' else ''o'')
      in if on then bold_green th glyph else dim th glyph)"

definition rule_glyph :: "theme \<Rightarrow> string" where
  "rule_glyph th = (if th_unicode th then [CHR 0xE2, CHR 0x94, CHR 0x80] else ''-'')"

definition theme_rule :: "theme \<Rightarrow> string" where
  "theme_rule th = dim th (repeat_str (th_width th) (rule_glyph th))"

definition theme_section :: "theme \<Rightarrow> string \<Rightarrow> string" where
  "theme_section th title =
     (let n = th_width th - (char_count title + 3)
      in '' '' @ bold th title @ '' '' @ dim th (repeat_str (max n 1) (rule_glyph th)))"

definition bar_filled :: "f64 \<Rightarrow> nat \<Rightarrow> nat" where
  "bar_filled ratio width =
     f64_as_unsigned (2 ^ 64 - 1)
       (f64_round (f64_mul (f64_clamp (Finite 0) (Finite 1) ratio) (f64_of_nat width)))"

definition bar :: "theme \<Rightarrow> f64 \<Rightarrow> nat \<Rightarrow> mark \<Rightarrow> string" where
  "bar th ratio width state =
     (let filled = bar_filled ratio width;
          full = (if th_unicode th then [CHR 0xE2, CHR 0x96, CHR 0x88] else ''#'');
          empty = (if th_unicode th then [CHR 0xE2, CHR 0x96, CHR 0x91] else ''.'');
          cells = repeat_str filled full @ repeat_str (width - filled) empty;
          painted = (case state of Good \<Rightarrow> green th cells | Bad \<Rightarrow> red th cells | Warn \<Rightarrow> yellow th cells | _ \<Rightarrow> cyan th cells)
      in dim th ''['' @ painted @ dim th '']'')"

section \<open>Numbers\<close>

text \<open>The digits with a comma before every group of three that is not the first.\<close>

fun group_digits :: "string \<Rightarrow> string" where
  "group_digits [] = []"
| "group_digits (c # cs) =
     (if cs \<noteq> [] \<and> length cs mod 3 = 0 then c # CHR '','' # group_digits cs else c # group_digits cs)"

definition count_text :: "u64 \<Rightarrow> string" where
  "count_text v = group_digits (dec (unat v))"

text \<open>\<open>{:.k}\<close> of a finite float that is not negative: the exact value rounded half to even.\<close>

definition fixed_text :: "nat \<Rightarrow> rat \<Rightarrow> string" where
  "fixed_text k q =
     (let n = nat (round_half_even (q * 10 ^ k)); frac = dec (n mod 10 ^ k)
      in if k = 0 then dec n
         else dec (n div 10 ^ k) @ ''.'' @ replicate (k - length frac) (CHR ''0'') @ frac)"

fun scale_unit :: "f64 \<Rightarrow> f64 \<Rightarrow> string \<Rightarrow> string list \<Rightarrow> f64 \<times> string" where
  "scale_unit v step unit [] = (v, unit)"
| "scale_unit v step unit (u # us) = (if f64_le step v then scale_unit (f64_div v step) step u us else (v, unit))"

definition float_text :: "nat \<Rightarrow> f64 \<Rightarrow> string" where
  "float_text k v =
     (case v of NaN \<Rightarrow> ''NaN'' | Infinite neg \<Rightarrow> if neg then ''-inf'' else ''inf''
      | Finite q \<Rightarrow> if q < 0 then ''-'' @ fixed_text k (- q) else fixed_text k q)"

definition scale :: "f64 \<Rightarrow> f64 \<Rightarrow> string list \<Rightarrow> string" where
  "scale v step units =
     (let (w, unit) = scale_unit v step (hd units) (tl units)
      in if unit = hd units then dec (f64_as_unsigned (2 ^ 64 - 1) (f64_round w)) @ '' '' @ unit
         else if f64_lt w (Finite 10) then float_text 2 w @ '' '' @ unit
         else float_text 1 w @ '' '' @ unit)"

definition bytes_text :: "u64 \<Rightarrow> string" where
  "bytes_text v = scale (f64_of_nat (unat v)) (Finite 1024) [''B'', ''KiB'', ''MiB'', ''GiB'', ''TiB'', ''PiB'']"

definition bits_per_second :: "u64 \<Rightarrow> string" where
  "bits_per_second v = scale (f64_of_nat (unat v)) (Finite 1000) [''b/s'', ''kb/s'', ''Mb/s'', ''Gb/s'', ''Tb/s'']"

definition duration_text :: "u64 \<Rightarrow> string" where
  "duration_text seconds =
     (let n = unat seconds; days = n div 86400; rest = n mod 86400; hours = rest div 3600; rest' = rest mod 3600;
          minutes = rest' div 60; secs = rest' mod 60
      in if days > 0 then dec days @ ''d '' @ dec hours @ ''h''
         else if hours > 0 then dec hours @ ''h '' @ dec minutes @ ''m''
         else if minutes > 0 then dec minutes @ ''m '' @ dec secs @ ''s''
         else dec secs @ ''s'')"

section \<open>Columns\<close>

definition ELLIPSIS :: string where "ELLIPSIS = [CHR 0xE2, CHR 0x80, CHR 0xA6]"

definition ellipsize :: "string \<Rightarrow> nat \<Rightarrow> string" where
  "ellipsize s width = (if char_count s \<le> width then s else take_chars (width - 1) s @ ELLIPSIS)"

fun wrap_words :: "nat \<Rightarrow> string \<Rightarrow> string list \<Rightarrow> string list" where
  "wrap_words width line [] = (if line \<noteq> [] then [line] else [])"
| "wrap_words width line (w # ws) =
     (if line \<noteq> [] \<and> char_count line + 1 + char_count w > width then line # wrap_words width w ws
      else wrap_words width (if line \<noteq> [] then line @ '' '' @ w else w) ws)"

definition wrap :: "string \<Rightarrow> nat \<Rightarrow> string list" where
  "wrap s width = (let lines = wrap_words (max width 20) [] (split_whitespace s) in if lines = [] then [[]] else lines)"

definition pad :: "string \<Rightarrow> nat \<Rightarrow> string" where
  "pad s width = (if char_count s \<ge> width then s else s @ replicate (width - char_count s) (CHR '' ''))"

section \<open>Nothing is lost in wrapping\<close>

lemma char_count_append [simp]: "char_count (a @ b) = char_count a + char_count b"
  by (simp add: char_count_def)

lemma char_count_space [simp]: "char_count (CHR '' '' # s) = Suc (char_count s)"
  by (simp add: char_count_def continuation_def)

definition fits :: "nat \<Rightarrow> string list \<Rightarrow> bool" where
  "fits width ws = (ws \<noteq> [] \<and> (length ws = 1 \<or> char_count (join '' '' ws) \<le> width))"

lemma join_snoc: "ws \<noteq> [] \<Longrightarrow> join '' '' (ws @ [w]) = join '' '' ws @ '' '' @ w"
  by (simp add: join_append)

lemma wrap_words_groups:
  assumes "list_all is_word ws" "list_all is_word line_words" "line_words = [] \<or> fits width line_words"
  shows "\<exists>groups. wrap_words width (join '' '' line_words) ws = map (join '' '') groups
    \<and> concat groups = line_words @ ws \<and> list_all (fits width) groups"
  using assms
proof (induction ws arbitrary: line_words)
  case Nil
  show ?case
  proof (cases "line_words = []")
    case False
    with Nil have "join '' '' line_words \<noteq> []"
      by (intro join_nonempty) (auto simp: list_all_iff is_word_def dest: last_in_set)
    with Nil False show ?thesis by (intro exI [of _ "[line_words]"]) simp
  qed (intro exI [of _ "[]"], simp)
next
  case (Cons w ws)
  let ?line = "join '' '' line_words"
  have w: "is_word w" "list_all is_word ws" using Cons.prems(1) by simp_all
  have one: "fits width [w]" by (simp add: fits_def)
  show ?case
  proof (cases "line_words = []")
    case True
    from Cons.IH [of "[w]"] w one obtain groups where
      "wrap_words width w ws = map (join '' '') groups" "concat groups = w # ws" "list_all (fits width) groups" by auto
    with True show ?thesis by (intro exI [of _ groups]) simp
  next
    case False
    then have line: "?line \<noteq> []" using Cons.prems(2)
      by (intro join_nonempty) (auto simp: list_all_iff is_word_def dest: last_in_set)
    show ?thesis
    proof (cases "char_count ?line + 1 + char_count w > width")
      case True
      from Cons.IH [of "[w]"] w one obtain groups where
        "wrap_words width w ws = map (join '' '') groups" "concat groups = w # ws" "list_all (fits width) groups" by auto
      with True line False Cons.prems(3) show ?thesis by (intro exI [of _ "line_words # groups"]) simp
    next
      case fit: False
      have "fits width (line_words @ [w])" using fit join_snoc [OF False, of w] by (simp add: fits_def)
      with Cons.IH [of "line_words @ [w]"] w Cons.prems(2) obtain groups where
        "wrap_words width (join '' '' (line_words @ [w])) ws = map (join '' '') groups"
        "concat groups = line_words @ w # ws" "list_all (fits width) groups" by auto
      with fit line join_snoc [OF False, of w] show ?thesis by (intro exI [of _ groups]) simp
    qed
  qed
qed

lemma split_words: "list_all is_word (split_whitespace s)"
  using split_whitespace_pieces [of _ s] by (auto simp: list_all_iff is_word_def)

text \<open>
  Diagnostics wrap and are never cut: the words of the lines \<open>wrap\<close> returns, in order, are the words
  of the text, and a line is longer than the width asked for (20 columns at least) only when it is a
  single word.
\<close>

lemma wrap_keeps_words:
  "concat (map split_whitespace (wrap s width)) = split_whitespace s
   \<and> (\<forall>line \<in> set (wrap s width). char_count line \<le> max width 20 \<or> split_whitespace line = [line])"
proof -
  obtain groups where g: "wrap_words (max width 20) [] (split_whitespace s) = map (join '' '') groups"
    "concat groups = split_whitespace s" "list_all (fits (max width 20)) groups"
    using wrap_words_groups [of "split_whitespace s" "[]" "max width 20"] split_words by auto
  have words: "split_whitespace (join '' '' ws) = ws" if "ws \<in> set groups" for ws
  proof -
    have "set ws \<subseteq> set (split_whitespace s)" using that g(2) by (metis UN_upper set_concat)
    then show ?thesis using split_words [of s] by (intro words_line(1)) (auto simp: list_all_iff)
  qed
  have "concat (map split_whitespace (map (join '' '') groups)) = split_whitespace s"
    using words g(2) by (simp add: map_idI comp_def cong: map_cong)
  moreover have "char_count line \<le> max width 20 \<or> split_whitespace line = [line]" if line: "line \<in> set (map (join '' '') groups)" for line
  proof -
    obtain ws where ws: "ws \<in> set groups" "line = join '' '' ws" using line by auto
    then have "fits (max width 20) ws" using g(3) by (auto simp: list_all_iff)
    then consider v where "ws = [v]" | "char_count line \<le> max width 20"
      using ws(2) by (auto simp: fits_def length_Suc_conv)
    then show ?thesis using words [OF ws(1)] ws(2) by cases simp_all
  qed
  ultimately show ?thesis using g(1) by (auto simp: wrap_def Let_def char_count_def)
qed

lemma ungroup: "CHR '','' \<notin> set ds \<Longrightarrow> filter (\<lambda>c. c \<noteq> CHR '','') (group_digits ds) = ds"
  by (induction ds) auto

text \<open>A grouped number read without its commas is the number.\<close>

lemma count_text_reads: "parse_u64 (filter (\<lambda>c. c \<noteq> CHR '','') (count_text v)) = Some v"
proof -
  have "CHR '','' \<notin> set (dec (unat v))"
    using dec_digits [of "CHR '',''" "unat v"] by (auto simp: is_ascii_digit_def)
  then show ?thesis
    using unat_u64_bound [of v] by (simp add: count_text_def ungroup parse_u64_def parse_radix_dec)
qed

lemma pad_width: "char_count (pad s width) = max (char_count s) width"
proof -
  have "char_count (replicate n (CHR '' '')) = n" for n
    by (simp add: char_count_def continuation_def)
  then show ?thesis by (simp add: pad_def)
qed

end
