(* ===== verification/Scrub.thy ===== *)
theory Scrub
  imports Text
begin

text \<open>
  What \<^verbatim>\<open>ssctl\<close> removes from an error report before it shows or sends it (the scrubbing passes of
  \<^verbatim>\<open>feedback.rs\<close>). A text is the list of the bytes of its UTF-8 form, and positions are byte positions,
  as in the source. Slicing a \<open>str\<close> at a position inside a character panics; the one pass in which
  that can happen returns an option.
\<close>

section \<open>Ranges\<close>

definition slice :: "nat \<Rightarrow> nat \<Rightarrow> string \<Rightarrow> string" where
  "slice i j s = take (j - i) (drop i s)"

type_synonym range = "nat \<times> nat \<times> string"

fun splice_from :: "string \<Rightarrow> nat \<Rightarrow> range list \<Rightarrow> string" where
  "splice_from s pos [] = drop pos s"
| "splice_from s pos ((start, stop, marker) # rs) = slice pos start s @ marker @ splice_from s stop rs"

definition splice :: "string \<Rightarrow> range list \<Rightarrow> string" where
  "splice s ranges = splice_from s 0 ranges"

definition is_word_byte :: "char \<Rightarrow> bool" where
  "is_word_byte b = (is_ascii_alphanumeric b \<or> b = CHR ''_'')"

text \<open>\<open>position\<close> from a place on, or the end.\<close>

definition position_from :: "(char \<Rightarrow> bool) \<Rightarrow> nat \<Rightarrow> string \<Rightarrow> nat" where
  "position_from p i s = i + length (takeWhile (\<lambda>c. \<not> p c) (drop i s))"

fun find_str :: "string \<Rightarrow> string \<Rightarrow> nat option" where
  "find_str p [] = (if p = [] then Some 0 else None)"
| "find_str p (c # cs) = (if starts_with (c # cs) p then Some 0 else map_option Suc (find_str p cs))"

definition match_indices :: "(char \<Rightarrow> bool) \<Rightarrow> string \<Rightarrow> nat list" where
  "match_indices p s = filter (\<lambda>i. p (s ! i)) [0..<length s]"

section \<open>Credentials and addresses of people\<close>

lemma find_str_bound: "find_str p s = Some n \<Longrightarrow> n + length p \<le> length s"
proof (induction s arbitrary: n)
  case (Cons c s)
  then show ?case
    by (auto simp: starts_with_def split: if_splits dest: arg_cong [where f = length])
qed (auto split: if_splits)

function credential_ranges :: "string \<Rightarrow> nat \<Rightarrow> range list" where
  "credential_ranges s from =
     (case find_str ''://'' (drop from s) of None \<Rightarrow> []
      | Some found \<Rightarrow>
          (let start = from + found + 3;
               stop = position_from (\<lambda>b. b = CHR ''@'' \<or> b = CHR ''/'' \<or> is_ascii_whitespace b) start s
           in (if stop > start \<and> stop < length s \<and> s ! stop = CHR ''@'' then [(start, stop, ''<credentials>'')] else [])
              @ credential_ranges s (max stop start)))"
  by pat_completeness auto
termination
  by (relation "measure (\<lambda>(s, from). length s - from)") (auto dest!: find_str_bound simp: position_from_def)

declare credential_ranges.simps [simp del]

definition scrub_credentials :: "string \<Rightarrow> string" where
  "scrub_credentials s = splice s (credential_ranges s 0)"

definition email_local :: "char \<Rightarrow> bool" where
  "email_local b = (is_ascii_alphanumeric b \<or> b \<in> set ''._%+-'')"

definition email_domain :: "char \<Rightarrow> bool" where
  "email_domain b = (is_ascii_alphanumeric b \<or> b \<in> set ''.-'')"

definition email_range :: "string \<Rightarrow> nat \<Rightarrow> nat \<Rightarrow> (nat \<times> nat) option" where
  "email_range s last_end pos =
     (let start = pos - length (takeWhile email_local (rev (slice last_end pos s)));
          host = rev (dropWhile (\<lambda>c. c = CHR ''.'' \<or> c = CHR ''-'') (rev (takeWhile email_domain (drop (pos + 1) s))));
          tld = (case rsplit_once (CHR ''.'') host of None \<Rightarrow> [] | Some (_, tld) \<Rightarrow> tld)
      in if start < pos \<and> length tld \<ge> 2 \<and> list_all is_ascii_alphabetic tld
         then Some (start, pos + 1 + length host) else None)"

fun email_ranges :: "string \<Rightarrow> nat \<Rightarrow> nat list \<Rightarrow> range list" where
  "email_ranges s last_end [] = []"
| "email_ranges s last_end (pos # ps) =
     (if pos < last_end then email_ranges s last_end ps
      else (case email_range s last_end pos of
              None \<Rightarrow> email_ranges s last_end ps
            | Some (start, stop) \<Rightarrow> (start, stop, ''<email>'') # email_ranges s stop ps))"

definition scrub_emails :: "string \<Rightarrow> string" where
  "scrub_emails s = splice s (email_ranges s 0 (match_indices (\<lambda>c. c = CHR ''@'') s))"

section \<open>Tokens and secrets\<close>

definition PREFIXES :: "string list" where
  "PREFIXES = [''ghp_'', ''gho_'', ''ghu_'', ''ghs_'', ''ghr_'', ''github_pat_'', ''sntrys_'', ''sntryu_'', ''sntrs_'']"

definition token_byte :: "char \<Rightarrow> bool" where
  "token_byte b = (is_word_byte b \<or> b \<in> set ''+/=-'')"

definition is_char_boundary :: "string \<Rightarrow> nat \<Rightarrow> bool" where
  "is_char_boundary s i = (i = 0 \<or> i = length s \<or> (i < length s \<and> \<not> continuation (of_char (s ! i))))"

text \<open>
  The loop tries the prefixes at every byte; \<open>text[i..]\<close> panics when the byte is inside a character.
\<close>

function token_ranges :: "string \<Rightarrow> nat \<Rightarrow> range list option" where
  "token_ranges s i =
     (if i \<ge> length s then Some []
      else if \<not> is_char_boundary s i then None
      else (case find (\<lambda>pre. starts_with (drop i s) pre \<and> (i = 0 \<or> \<not> is_word_byte (s ! (i - 1)))) PREFIXES of
              Some pre \<Rightarrow>
                (let body = length (takeWhile token_byte (drop (i + length pre) s))
                 in if body \<ge> 16
                    then map_option ((#) (i, i + length pre + body, ''<token>'')) (token_ranges s (i + length pre + body))
                    else token_ranges s (i + 1))
            | None \<Rightarrow> token_ranges s (i + 1)))"
  by pat_completeness auto
termination by (relation "measure (\<lambda>(s, i). length s - i)") auto

declare token_ranges.simps [simp del]

definition scrub_tokens :: "string \<Rightarrow> string option" where
  "scrub_tokens s = map_option (splice s) (token_ranges s 0)"

definition SECRET_NAMES :: "string list" where
  "SECRET_NAMES = [''token'', ''secret'', ''password'', ''passwd'']"

fun secret_ranges :: "string \<Rightarrow> nat option \<Rightarrow> nat list \<Rightarrow> range list" where
  "secret_ranges s prev [] = []"
| "secret_ranges s prev (pos # ps) =
     (let named = list_ex (\<lambda>name. ends_with (take pos (to_ascii_lowercase s)) name) SECRET_NAMES;
          stop = position_from is_ascii_whitespace (pos + 1) s
      in if named \<and> stop > pos + 1 \<and> (case prev of None \<Rightarrow> True | Some l \<Rightarrow> pos \<ge> l)
         then (pos + 1, stop, ''<redacted>'') # secret_ranges s (Some stop) ps
         else secret_ranges s prev ps)"

definition scrub_secret_values :: "string \<Rightarrow> string" where
  "scrub_secret_values s = splice s (secret_ranges s None (match_indices (\<lambda>c. c = CHR ''='' \<or> c = CHR '':'') s))"

section \<open>Addresses of the network\<close>

function runs_from :: "(char \<Rightarrow> bool) \<Rightarrow> string \<Rightarrow> nat \<Rightarrow> (nat \<times> nat) list" where
  "runs_from p s i =
     (if i < length s
      then (if p (s ! i)
            then (let stop = i + length (takeWhile p (drop i s)) in (i, stop) # runs_from p s stop)
            else runs_from p s (Suc i))
      else [])"
  by pat_completeness auto
termination
  by (relation "measure (\<lambda>(p, s, i). length s - i)") (auto simp: Cons_nth_drop_Suc [symmetric])

declare runs_from.simps [simp del]

definition runs :: "string \<Rightarrow> (char \<Rightarrow> bool) \<Rightarrow> (nat \<times> nat) list" where
  "runs s p = runs_from p s 0"

fun part_places :: "nat \<Rightarrow> string list \<Rightarrow> (nat \<times> nat) list" where
  "part_places pos [] = []"
| "part_places pos (p # ps) = (pos, length p) # part_places (pos + length p + 1) ps"

definition short_part :: "nat \<Rightarrow> bool" where
  "short_part n = (1 \<le> n \<and> n \<le> 3)"

fun quad_ranges :: "(nat \<times> nat) list \<Rightarrow> range list" where
  "quad_ranges ((a, k) # (b, l) # (c, m) # (d, n) # rest) =
     (if short_part k \<and> short_part l \<and> short_part m \<and> short_part n
      then (a, d + n, ''<ipv4>'') # quad_ranges rest
      else quad_ranges ((b, l) # (c, m) # (d, n) # rest))"
| "quad_ranges _ = []"

definition ipv4_byte :: "char \<Rightarrow> bool" where
  "ipv4_byte b = (is_ascii_digit b \<or> b = CHR ''.'')"

definition ipv4_ranges :: "string \<Rightarrow> nat \<times> nat \<Rightarrow> range list" where
  "ipv4_ranges s run = quad_ranges (part_places (fst run) (split_char (CHR ''.'') (slice (fst run) (snd run) s)))"

definition scrub_ipv4 :: "string \<Rightarrow> string" where
  "scrub_ipv4 s = splice s (concat (map (ipv4_ranges s) (runs s ipv4_byte)))"

definition is_ascii_hexdigit :: "char \<Rightarrow> bool" where
  "is_ascii_hexdigit c = (digit_val 16 c \<noteq> None)"

definition bounded :: "string \<Rightarrow> nat \<Rightarrow> nat \<Rightarrow> bool" where
  "bounded s start stop =
     ((start = 0 \<or> \<not> is_word_byte (s ! (start - 1))) \<and> (stop = length s \<or> \<not> is_word_byte (s ! stop)))"

definition ipv6_range :: "string \<Rightarrow> nat \<times> nat \<Rightarrow> range list" where
  "ipv6_range s run =
     (let start = fst run; end0 = snd run;
          stop = (if end0 - start > 2 \<and> s ! (end0 - 1) = CHR '':'' \<and> s ! (end0 - 2) \<noteq> CHR '':'' then end0 - 1 else end0);
          text = slice start stop s;
          groups = split_char (CHR '':'') text;
          full = (length groups \<ge> 4 \<and> list_all (\<lambda>g. 1 \<le> length g \<and> length g \<le> 4) groups);
          compressed = (contains_str text ''::'' \<and> \<not> contains_str text '':::'')
      in if bounded s start stop \<and> (full \<or> compressed)
         then [(start, stop, if full then ''<ipv6-or-mac>'' else ''<ipv6>'')] else [])"

definition mac_range :: "string \<Rightarrow> nat \<times> nat \<Rightarrow> range list" where
  "mac_range s run =
     (let groups = split_char (CHR ''-'') (slice (fst run) (snd run) s)
      in if length groups = 6 \<and> list_all (\<lambda>g. length g = 2) groups then [(fst run, snd run, ''<mac>'')] else [])"

definition scrub_ipv6_and_mac :: "string \<Rightarrow> string" where
  "scrub_ipv6_and_mac s =
     (let s1 = splice s (concat (map (ipv6_range s) (runs s (\<lambda>b. is_ascii_hexdigit b \<or> b = CHR '':''))))
      in splice s1 (concat (map (mac_range s1) (runs s1 (\<lambda>b. is_ascii_hexdigit b \<or> b = CHR ''-'')))))"

section \<open>Names\<close>

text \<open>\<open>match_indices\<close> of a string: occurrences that do not overlap, from the left.\<close>

function match_str :: "string \<Rightarrow> string \<Rightarrow> nat \<Rightarrow> nat list" where
  "match_str p s i =
     (if i \<ge> length s then []
      else if starts_with (drop i s) p then i # match_str p s (i + max 1 (length p))
      else match_str p s (Suc i))"
  by pat_completeness auto
termination by (relation "measure (\<lambda>(p, s, i). length s - i)") auto

declare match_str.simps [simp del]

text \<open>The name begins after the six bytes of \<open>/home/\<close>.\<close>

fun home_ranges :: "string \<Rightarrow> nat option \<Rightarrow> nat list \<Rightarrow> range list" where
  "home_ranges s prev [] = []"
| "home_ranges s prev (pos # ps) =
     (let start = pos + 6;
          stop = position_from (\<lambda>b. b = CHR ''/'' \<or> is_ascii_whitespace b) start s
      in if stop > start \<and> (case prev of None \<Rightarrow> True | Some l \<Rightarrow> start \<ge> l)
         then (start, stop, ''<user>'') # home_ranges s (Some stop) ps
         else home_ranges s prev ps)"

definition scrub_homes :: "string \<Rightarrow> string" where
  "scrub_homes s = splice s (home_ranges s None (match_str ''/home/'' s 0))"

text \<open>\<open>str::replace\<close> with a pattern that is not empty.\<close>

function replace_str :: "string \<Rightarrow> string \<Rightarrow> string \<Rightarrow> string" where
  "replace_str p m [] = []"
| "replace_str p m (c # cs) =
     (if starts_with (c # cs) p then m @ replace_str p m (drop (length p - 1) cs)
      else c # replace_str p m cs)"
  by pat_completeness auto
termination by (relation "measure (\<lambda>(p, m, s). length s)") auto

definition replace_names :: "string \<Rightarrow> string list \<Rightarrow> string \<Rightarrow> string" where
  "replace_names marker names s = fold (\<lambda>name s. replace_str name marker s) names s"

definition scrub_names :: "string \<Rightarrow> string list \<Rightarrow> string list \<Rightarrow> string option" where
  "scrub_names s hosts users =
     map_option (\<lambda>s. replace_names ''<user>'' (filter (\<lambda>name. length name \<ge> 3 \<and> name \<noteq> ''root'') users)
                    (replace_names ''<host>'' (filter (\<lambda>name. length name \<ge> 3) hosts)
                      (scrub_homes (scrub_ipv6_and_mac (scrub_ipv4 (scrub_secret_values s))))))
       (scrub_tokens (scrub_emails (scrub_credentials s)))"

text \<open>
  \<open>scrub\<close>: the contents of the host name file, empty when it cannot be read, and the values of the
  environment variables that are set.
\<close>

definition scrub :: "string \<Rightarrow> (string \<Rightarrow> string option) \<Rightarrow> string \<Rightarrow> string option" where
  "scrub hostname_file env s =
     (let host = trim hostname_file; short = hd (split_char (CHR ''.'') host)
      in scrub_names s [host, short] (List.map_filter env [''SUDO_USER'', ''LOGNAME'']))"

end
