(* ===== verification/Feedback.thy ===== *)
theory Feedback
  imports Style Reports Seal Scrub
begin

text \<open>
  Error reports of \<^verbatim>\<open>ssctl\<close> (\<^verbatim>\<open>feedback.rs\<close>): whether to ask, what a report holds, the question on the
  terminal and what is sent and removed after the answer. What the operator types, what programs and
  files say and what \<^verbatim>\<open>curl\<close> answers are arguments; a run ends with what was said, sent and removed,
  or with a panic of the scrubbing.
\<close>

section \<open>Whether to ask\<close>

datatype feedback_mode = Ask | Send | Never

record feedback =
  fb_mode :: feedback_mode
  fb_dsn :: "dsn option"

definition feedback_mode_of :: "bool \<Rightarrow> string \<Rightarrow> bool \<Rightarrow> bool \<Rightarrow> feedback_mode" where
  "feedback_mode_of json answer terminal is_root =
     (let answer = to_ascii_lowercase answer
      in if \<not> is_root then Never
         else if answer \<in> set [''1'', ''y'', ''yes'', ''true''] then Send
         else if answer \<in> set [''0'', ''n'', ''no'', ''false'', ''never''] then Never
         else if json \<or> \<not> terminal then Never
         else Ask)"

definition feedback_detect :: "string \<Rightarrow> bool \<Rightarrow> string option \<Rightarrow> bool \<Rightarrow> bool \<Rightarrow> feedback" where
  "feedback_detect sealed json answer terminal is_root =
     (let mode = feedback_mode_of json (case answer of None \<Rightarrow> [] | Some a \<Rightarrow> a) terminal is_root
      in \<lparr>fb_mode = mode, fb_dsn = (if mode = Never then None else dsn_sealed sealed)\<rparr>)"

section \<open>What a report says of the host\<close>

text \<open>
  What \<^verbatim>\<open>ssctl\<close> finds on the host: which init directories exist, what a program prints (nothing when
  it cannot be run), files (empty when they cannot be read), the kernel's name and environment
  variables.
\<close>

record fb_host =
  fh_systemd :: bool
  fh_openrc :: bool
  fh_output :: "string \<Rightarrow> string list \<Rightarrow> string"
  fh_messages :: string
  fh_os_release :: string
  fh_uname :: "(string \<times> string) option"
  fh_hostname :: string
  fh_var :: "string \<Rightarrow> string option"

definition init_system :: "fb_host \<Rightarrow> string" where
  "init_system h = (if fh_systemd h then ''systemd'' else if fh_openrc h then ''openrc'' else ''none'')"

definition service_state :: "fb_host \<Rightarrow> string" where
  "service_state h =
     (if init_system h = ''systemd'' then
        (let out = trim (fh_output h ''systemctl'' [''is-active'', ''skyline-speederd.service''])
         in if out \<in> set [''active'', ''reloading'', ''refreshing''] then ''active''
            else if out \<in> set [''activating'', ''deactivating''] then ''activating''
            else if out = ''failed'' then ''failed'' else ''inactive'')
      else if init_system h = ''openrc'' then
        (let status = fh_output h ''rc-service'' [''skyline-speederd'', ''status'']
         in if contains_str status ''status: started'' then ''active''
            else if contains_str status ''status: starting'' \<or> contains_str status ''status: stopping'' then ''activating''
            else if contains_str status ''status: crashed'' then ''failed'' else ''inactive'')
      else ''inactive'')"

definition JOURNAL_LINES :: nat where "JOURNAL_LINES = 40"

definition journal_tail :: "fb_host \<Rightarrow> string" where
  "journal_tail h =
     (if init_system h = ''systemd'' then
        fh_output h ''journalctl''
          [''-u'', ''skyline-speederd.service'', ''-n'', dec JOURNAL_LINES, ''--no-pager'', ''-o'', ''cat'']
      else if init_system h = ''openrc'' then
        (let tagged = filter (\<lambda>line. contains_str line ''skyline-speederd'') (lines (fh_messages h))
         in join [newline] (drop (length tagged - JOURNAL_LINES) tagged))
      else [])"

record host_facts =
  hf_os_id :: string
  hf_os_version :: string
  hf_os_name :: string
  hf_kernel :: string
  hf_arch :: string
  hf_init :: string
  hf_service :: string

definition trim_quotes :: "string \<Rightarrow> string" where
  "trim_quotes s = rev (dropWhile (\<lambda>c. c = quote) (rev (dropWhile (\<lambda>c. c = quote) s)))"

definition release_field :: "string \<Rightarrow> string \<Rightarrow> string" where
  "release_field release name =
     (case List.map_filter (\<lambda>line. Option.bind (strip_prefix_str name line) (strip_prefix_str ''='')) (lines release) of
        [] \<Rightarrow> [] | v # _ \<Rightarrow> trim_quotes (trim v))"

definition host_detect :: "fb_host \<Rightarrow> host_facts" where
  "host_detect h =
     (let field = release_field (fh_os_release h);
          (kernel, arch) = (case fh_uname h of Some p \<Rightarrow> p | None \<Rightarrow> ([], []));
          os_id = field ''ID''; pretty = field ''PRETTY_NAME''
      in \<lparr>hf_os_id = os_id, hf_os_version = field ''VERSION_ID'',
          hf_os_name = (if pretty \<noteq> [] then pretty else os_id),
          hf_kernel = kernel, hf_arch = arch, hf_init = init_system h, hf_service = service_state h\<rparr>)"

section \<open>Events\<close>

record sentry_event =
  se_event_id :: string
  se_timestamp :: u64
  se_level :: string
  se_logger :: string
  se_release :: string
  se_component :: string
  se_kind :: string
  se_host :: host_facts
  se_libc :: string
  se_message :: string
  se_first_line :: string
  se_seen :: "(u64 \<times> u64 \<times> u64) option"
  se_journal :: string

text \<open>The identifier: sixteen random bytes, or the clock and the process when there are none.\<close>

definition le_bytes :: "nat \<Rightarrow> nat \<Rightarrow> u8 list" where
  "le_bytes k n = map (\<lambda>i. word_of_nat (n div 256 ^ i)) [0..<k]"

definition event_id :: "u8 list option \<Rightarrow> nat \<Rightarrow> nat \<Rightarrow> string" where
  "event_id random nanos pid =
     concat (map hex2 (case random of Some bytes \<Rightarrow> bytes | None \<Rightarrow> le_bytes 16 (nat (int nanos XOR int pid))))"

text \<open>
  One event. \<open>ids\<close> names the event with a number, \<open>now\<close> is the clock, and version and libc are those
  \<^verbatim>\<open>ssctl\<close> was built with.
\<close>

record fb_build =
  bu_version :: string
  bu_libc :: string
  bu_now :: u64
  bu_ids :: "nat \<Rightarrow> string"

definition make_event ::
  "fb_build \<Rightarrow> nat \<Rightarrow> host_facts \<Rightarrow> string \<Rightarrow> string \<Rightarrow> daemon_report option \<Rightarrow> string \<Rightarrow> sentry_event" where
  "make_event b k host kind message report journal =
     (let version = (case report of None \<Rightarrow> bu_version b | Some r \<Rightarrow> dr_version r);
          who = (if report \<noteq> None then ''skyline-speederd'' else ''ssctl'')
      in \<lparr>se_event_id = bu_ids b k, se_timestamp = bu_now b,
          se_level = (if kind = ''daemon panicked'' then ''fatal'' else ''error''),
          se_logger = who, se_release = ''skyline-speeder@'' @ version, se_component = who, se_kind = kind,
          se_host = host, se_libc = bu_libc b, se_message = message,
          se_first_line = map (\<lambda>c. if is_ascii_digit c then CHR ''0'' else c)
            (case lines message of [] \<Rightarrow> [] | l # _ \<Rightarrow> l),
          se_seen = map_option (\<lambda>r. (dr_count r, dr_first_seen r, dr_last_seen r)) report,
          se_journal = journal\<rparr>)"

text \<open>What \<open>v\<close> shows; the tags come in the order of their names, as \<open>serde_json\<close>'s map keeps them.\<close>

definition tags_text :: "sentry_event \<Rightarrow> string" where
  "tags_text e =
     join '' ''
       [''arch='' @ hf_arch (se_host e), ''component='' @ se_component e, ''init='' @ hf_init (se_host e),
        ''kernel='' @ hf_kernel (se_host e), ''kind='' @ se_kind e, ''libc='' @ se_libc e, ''os='' @ hf_os_id (se_host e),
        ''os_version='' @ hf_os_version (se_host e), ''service='' @ hf_service (se_host e)]"

definition render_event :: "sentry_event \<Rightarrow> string" where
  "render_event e =
     ''   error    '' @ se_kind e @ '': '' @ se_message e @ [newline] @
     ''   release  '' @ se_release e @ [newline] @
     ''   tags     '' @ tags_text e @ [newline] @
     (case se_seen e of None \<Rightarrow> []
      | Some (count, first, last_seen) \<Rightarrow>
          ''   count    '' @ dec (unat count) @ [newline] @
          ''   first_seen '' @ dec (unat first) @ [newline] @
          ''   last_seen '' @ dec (unat last_seen) @ [newline]) @
     (if trim (se_journal e) = [] then []
      else ''   log      the daemon's last log lines:'' @ [newline] @
           concat (map (\<lambda>line. ''     | '' @ line @ [newline]) (lines (se_journal e))))"

definition render :: "sentry_event list \<Rightarrow> string" where
  "render events = concat (map render_event events)"

section \<open>The question\<close>

text \<open>\<open>recorded\<close>: the readable reports of the directory, oldest first.\<close>

definition recorded :: "report_json \<Rightarrow> bool \<Rightarrow> (string \<Rightarrow> bool) \<Rightarrow> string list \<Rightarrow> report_dir \<Rightarrow> (string \<times> daemon_report) list" where
  "recorded json dir_ok readable entries dir =
     (if \<not> dir_ok then []
      else sort_key (\<lambda>(_, r). unat (dr_first_seen r))
             (List.map_filter (\<lambda>name. map_option (Pair name)
                (Option.bind (if readable name then dir name else None) (rj_decode json)))
               (filter is_report entries)))"

definition PROMPT :: string where "PROMPT = ''   Send it? [y/N, v to view it first] ''"

definition is_yes :: "string \<Rightarrow> bool" where
  "is_yes answer = (answer \<in> set [''y'', ''Y'', ''yes'', ''YES'', ''Yes''])"

definition is_view :: "string \<Rightarrow> bool" where
  "is_view answer = (answer \<in> set [''v'', ''V''])"

text \<open>
  The loop of the question over what \<open>read_answer\<close> returns, \<open>None\<close> when nobody answers in time or the
  terminal is at its end: whether to send, and what was said.
\<close>

fun ask :: "string \<Rightarrow> string option list \<Rightarrow> bool \<times> string list" where
  "ask shown [] = (False, [PROMPT, ''   not sent'' @ [newline]])"
| "ask shown (a # answers) =
     (let answer = trim (case a of None \<Rightarrow> [] | Some l \<Rightarrow> l)
      in if is_view answer then (let (yes, said) = ask shown answers in (yes, PROMPT # shown # said))
         else if is_yes answer then (True, [PROMPT])
         else (False, [PROMPT, ''   not sent'' @ [newline]]))"

definition reported_what :: "bool \<Rightarrow> nat \<Rightarrow> string" where
  "reported_what has_error n =
     (let stopped = (if n = 1 then ''1 error skyline-speederd stopped on''
                     else dec n @ '' errors skyline-speederd stopped on'')
      in if has_error \<and> n = 0 then ''the error above''
         else if has_error then ''the error above and '' @ stopped
         else stopped)"

definition explanation :: "theme \<Rightarrow> string \<Rightarrow> string list" where
  "explanation th what =
     ([newline] @ '' '' @ bold th ''Help us fix this?'' @
        '' Send an error report to the Skyline Speeder developers.'' @ [newline])
     # map (\<lambda>line. ''   '' @ line @ [newline])
         (wrap (''It holds '' @ what @ '', the versions, the distribution, the kernel and the daemon's '' @
            ''last log lines, with IP, MAC and e-mail addresses, the host name and user names '' @
            ''removed. Nothing is sent unless you answer y.'') 76)"

section \<open>Sending\<close>

text \<open>
  \<open>send\<close>: what \<^verbatim>\<open>curl\<close> is given on its standard input, and how it ends. The JSON of the event and of its
  identifier is serde's.
\<close>

record curl_end =
  cu_spawn :: "string option"
  cu_stdin :: "string option"
  cu_wait :: "string option"
  cu_success :: bool
  cu_status :: string
  cu_stderr :: string

definition envelope :: "(string \<Rightarrow> string) \<Rightarrow> (sentry_event \<Rightarrow> string) \<Rightarrow> sentry_event \<Rightarrow> string" where
  "envelope id_json event_json e =
     id_json (se_event_id e) @ [newline] @ ''{'' @ [quote] @ ''type'' @ [quote] @ '':'' @ [quote] @ ''event'' @ [quote] @ ''}'' @ [newline] @
     event_json e @ [newline]"

definition send_event ::
  "string \<Rightarrow> (string \<Rightarrow> string) \<Rightarrow> (sentry_event \<Rightarrow> string) \<Rightarrow> dsn \<Rightarrow> curl_end \<Rightarrow> sentry_event
   \<Rightarrow> (string, unit) result \<times> string option" where
  "send_event version id_json event_json d cu e =
     (let config = curl_config version d (envelope id_json event_json e)
      in case cu_spawn cu of Some x \<Rightarrow> (Inl (''cannot run curl: '' @ x), None)
         | None \<Rightarrow>
             (case cu_stdin cu of Some x \<Rightarrow> (Inl (''cannot talk to curl: '' @ x), None)
              | None \<Rightarrow>
                  (case cu_wait cu of Some x \<Rightarrow> Inl (''curl: '' @ x)
                   | None \<Rightarrow>
                       if cu_success cu then Inr ()
                       else (let said = trim (cu_stderr cu)
                             in Inl (if said = [] then ''curl exited with '' @ cu_status cu else said)),
                   Some config)))"

record feedback_outcome =
  oc_said :: "string list"
  oc_sent :: "sentry_event list"
  oc_removed :: "string list"

definition nothing_done :: feedback_outcome where
  "nothing_done = \<lparr>oc_said = [], oc_sent = [], oc_removed = []\<rparr>"

fun send_all :: "theme \<Rightarrow> (sentry_event \<Rightarrow> (string, unit) result) \<Rightarrow> (sentry_event \<times> string option) list \<Rightarrow> feedback_outcome" where
  "send_all th post [] = nothing_done"
| "send_all th post ((event, path) # events) =
     (case post event of
        Inl e \<Rightarrow>
          nothing_done\<lparr>oc_said := [''   '' @ yellow th ''warn'' @ '' the report could not be sent: '' @ e @ [newline]]\<rparr>
      | Inr _ \<Rightarrow>
          (let rest = send_all th post events
           in rest\<lparr>oc_sent := event # oc_sent rest,
                   oc_removed := (case path of None \<Rightarrow> [] | Some p \<Rightarrow> [p]) @ oc_removed rest\<rparr>))"

definition thanks :: "theme \<Rightarrow> sentry_event list \<Rightarrow> string list" where
  "thanks th sent =
     (if sent = [] then []
      else [''   '' @ green th ''ok'' @ ''  sent (report '' @ join '', '' (map (take 8 \<circ> se_event_id) sent) @
             ''), thank you'' @ [newline]])"

definition offer_events ::
  "fb_build \<Rightarrow> fb_host \<Rightarrow> (string \<times> string) option \<Rightarrow> (string \<times> daemon_report) list
    \<Rightarrow> (sentry_event \<times> string option) list option" where
  "offer_events b h error reports =
     (let clean = scrub (fh_hostname h) (fh_var h); host = host_detect h
      in Option.bind (clean (journal_tail h)) (\<lambda>journal.
         Option.bind (case error of None \<Rightarrow> Some []
                      | Some (kind, message) \<Rightarrow>
                          map_option (\<lambda>m. [(make_event b 0 host kind m None journal, None)]) (clean message)) (\<lambda>first.
         map_option (\<lambda>rest. first @ rest)
           (those (map (\<lambda>(k, path, report).
              map_option (\<lambda>m. (make_event b k host
                  (if dr_kind report = ''panicked'' then ''daemon panicked'' else ''daemon exited'') m (Some report) journal,
                  Some path)) (clean (dr_message report)))
              (enumerate (length first) reports))))))"

text \<open>
  \<open>offer\<close>: \<open>tty\<close> is whether \<^verbatim>\<open>/dev/tty\<close> opens, \<open>answers\<close> what is typed there, \<open>post\<close> how sending an event
  ends. \<open>None\<close> is a panic.
\<close>

definition offer ::
  "theme \<Rightarrow> fb_build \<Rightarrow> fb_host \<Rightarrow> feedback \<Rightarrow> (string \<times> daemon_report) list \<Rightarrow> bool \<Rightarrow> string option list
    \<Rightarrow> (sentry_event \<Rightarrow> (string, unit) result) \<Rightarrow> (string \<times> string) option \<Rightarrow> feedback_outcome option" where
  "offer th b h fb reports tty answers post error =
     (if fb_dsn fb = None \<or> (error = None \<and> reports = []) then Some nothing_done
      else (case offer_events b h error reports of None \<Rightarrow> None
            | Some events \<Rightarrow>
                Some (case fb_mode fb of
                   Never \<Rightarrow> nothing_done
                 | Send \<Rightarrow> (let done = send_all th post events in done\<lparr>oc_said := oc_said done @ thanks th (oc_sent done)\<rparr>)
                 | Ask \<Rightarrow>
                     if \<not> tty then nothing_done
                     else (let intro = explanation th (reported_what (error \<noteq> None) (length reports));
                               (yes, said) = ask (render (map fst events)) answers
                           in if \<not> yes then \<lparr>oc_said = intro @ said, oc_sent = [], oc_removed = map fst reports\<rparr>
                              else (let done = send_all th post events
                                    in done\<lparr>oc_said := intro @ said @ oc_said done @ thanks th (oc_sent done)\<rparr>)))))"

definition offer_unreachable ::
  "theme \<Rightarrow> fb_build \<Rightarrow> fb_host \<Rightarrow> feedback \<Rightarrow> (string \<times> daemon_report) list \<Rightarrow> bool \<Rightarrow> string option list
    \<Rightarrow> (sentry_event \<Rightarrow> (string, unit) result) \<Rightarrow> string \<Rightarrow> feedback_outcome option" where
  "offer_unreachable th b h fb reports tty answers post message =
     (if fb_dsn fb = None then Some nothing_done
      else offer th b h fb reports tty answers post
             (if service_state h = ''failed'' \<or> reports \<noteq> [] then Some (''daemon unreachable'', message) else None))"

end
