(* ===== verification/ScrubProps.thy ===== *)
theory ScrubProps
  imports Scrub
begin

text \<open>
  What the scrubbing passes leave behind: no IPv4 address, in a text that has no character outside
  ASCII; on any other text the pass for tokens panics.
\<close>

section \<open>The pass for tokens\<close>

lemma continuation_ascii: "(of_char c :: nat) < 128 \<Longrightarrow> \<not> continuation (of_char c)"
  by (simp add: continuation_def)

lemma word_byte_ascii: "is_word_byte b \<Longrightarrow> (of_char b :: nat) < 128"
  by (auto simp: is_word_byte_def is_ascii_alphanumeric_def is_ascii_alphabetic_def is_ascii_lower_def
      is_ascii_upper_def is_ascii_digit_def Let_def)

lemma token_byte_ascii: "token_byte b \<Longrightarrow> (of_char b :: nat) < 128"
  using word_byte_ascii by (auto simp: token_byte_def)

lemma prefix_ascii: "pre \<in> set PREFIXES \<Longrightarrow> c \<in> set pre \<Longrightarrow> (of_char c :: nat) < 128"
  by (auto simp: PREFIXES_def)

lemma find_SomeD: "find p xs = Some x \<Longrightarrow> x \<in> set xs \<and> p x"
  by (induction xs) (auto split: if_splits)

lemma token_span_ascii:
  assumes "pre \<in> set PREFIXES" "starts_with (drop i s) pre"
    and "i \<le> j" "j < i + length pre + length (takeWhile token_byte (drop (i + length pre) s))"
  shows "j < length s \<and> (of_char (s ! j) :: nat) < 128"
proof (cases "j < i + length pre")
  case True
  have t: "take (length pre) (drop i s) = pre" using assms(2) by (simp add: starts_with_def)
  then have "length pre \<le> length s - i" by (metis length_drop length_take min.cobounded1 min.commute)
  with True assms(3) have l: "i + length pre \<le> length s" by linarith
  have "take (length pre) (drop i s) ! (j - i) = s ! j" using True assms(3) l by simp
  then have "s ! j = pre ! (j - i)" unfolding t by simp
  moreover have "pre ! (j - i) \<in> set pre" using True assms(3) by simp
  ultimately show ?thesis using prefix_ascii [OF assms(1)] True l by auto
next
  case False
  let ?rest = "drop (i + length pre) s" and ?k = "j - (i + length pre)"
  have k: "?k < length (takeWhile token_byte ?rest)" using False assms(4) by simp
  then have "token_byte (?rest ! ?k)" using nth_mem [OF k] takeWhile_nth [OF k] set_takeWhileD by metis
  moreover have "?k < length ?rest" using k length_takeWhile_le [of token_byte ?rest] by linarith
  moreover from this have "?rest ! ?k = s ! j" "j < length s" using False by auto
  ultimately show ?thesis using token_byte_ascii by auto
qed

lemma token_ranges_None:
  "token_ranges s i = None \<longleftrightarrow> (\<exists>j. i \<le> j \<and> j < length s \<and> \<not> is_char_boundary s j)"
proof (induction s i rule: token_ranges.induct)
  case (1 s i)
  have later: "(\<exists>j\<ge>i. j < length s \<and> \<not> is_char_boundary s j) \<longleftrightarrow> (\<exists>j\<ge>k. j < length s \<and> \<not> is_char_boundary s j)"
    if "i \<le> k" "\<And>j. i \<le> j \<Longrightarrow> j < k \<Longrightarrow> is_char_boundary s j" for k
    using that by (meson dual_order.trans linorder_not_le)
  show ?case
  proof (cases "i < length s \<and> is_char_boundary s i")
    case True
    let ?p = "\<lambda>pre. starts_with (drop i s) pre \<and> (i = 0 \<or> \<not> is_word_byte (s ! (i - 1)))"
    have next1: "(\<exists>j\<ge>i. j < length s \<and> \<not> is_char_boundary s j) \<longleftrightarrow> (\<exists>j\<ge>i + 1. j < length s \<and> \<not> is_char_boundary s j)"
      using True by (intro later) (auto simp: less_Suc_eq)
    show ?thesis
    proof (cases "find ?p PREFIXES")
      case None
      with True "1.IH" next1 show ?thesis by (simp add: token_ranges.simps [of s i])
    next
      case (Some pre)
      let ?n = "length (takeWhile token_byte (drop (i + length pre) s))"
      have pre: "pre \<in> set PREFIXES" "starts_with (drop i s) pre" using find_SomeD [OF Some] by auto
      have "is_char_boundary s j" if "i \<le> j" "j < i + length pre + ?n" for j
        using token_span_ascii [OF pre that] continuation_ascii by (simp add: is_char_boundary_def)
      then have "(\<exists>j\<ge>i. j < length s \<and> \<not> is_char_boundary s j)
          \<longleftrightarrow> (\<exists>j\<ge>i + length pre + ?n. j < length s \<and> \<not> is_char_boundary s j)"
        by (intro later) auto
      with True Some "1.IH" next1 show ?thesis
        by (cases "16 \<le> ?n") (simp_all add: token_ranges.simps [of s i] Let_def)
    qed
  next
    case False
    then show ?thesis by (auto simp: token_ranges.simps [of s i])
  qed
qed

lemma utf8_continuation:
  "utf8_bytes bs \<Longrightarrow> b \<in> set bs \<Longrightarrow> 128 \<le> b \<Longrightarrow> \<exists>c \<in> set (tl bs). continuation c"
proof (induction bs rule: utf8_bytes.induct)
  case (2 b0 bs)
  show ?case
  proof (cases "b0 < 128")
    case True
    then have "utf8_bytes bs" "b \<in> set bs" using "2.prems" by auto
    then have "\<exists>c \<in> set (tl bs). continuation c" using "2.IH"(1) [OF True] "2.prems"(3) by blast
    then show ?thesis by (cases bs) auto
  next
    case False
    then have "bs \<noteq> [] \<and> continuation (hd bs)" using "2.prems"(1) by (auto split: if_splits list.splits)
    then show ?thesis by (cases bs) auto
  qed
qed simp

text \<open>
  C40. \<open>scrub_tokens\<close> panics on every text with a character outside ASCII, and on no other: it slices the
  text at every byte, and a byte inside a character is no place to slice at. An error message or a log
  line with such a character therefore ends \<^verbatim>\<open>ssctl\<close> instead of being offered.
\<close>

theorem token_pass_panics:
  assumes "from_utf8 s"
  shows "scrub_tokens s = None \<longleftrightarrow> (\<exists>c \<in> set s. 128 \<le> (of_char c :: nat))"
proof -
  have none: "scrub_tokens s = None \<longleftrightarrow> (\<exists>i. i < length s \<and> \<not> is_char_boundary s i)"
    by (simp add: scrub_tokens_def token_ranges_None)
  show ?thesis
  proof
    assume "scrub_tokens s = None"
    then obtain i where "i < length s" "continuation (of_char (s ! i))"
      by (auto simp: none is_char_boundary_def)
    then show "\<exists>c \<in> set s. 128 \<le> (of_char c :: nat)"
      by (intro bexI [of _ "s ! i"]) (simp_all add: continuation_def)
  next
    assume "\<exists>c \<in> set s. 128 \<le> (of_char c :: nat)"
    then obtain c where "c \<in> set (tl s)" "continuation (of_char c)"
      using utf8_continuation [of "map of_char s"] assms by (auto simp: from_utf8_def map_tl [symmetric])
    then obtain i where "i < length (tl s)" "continuation (of_char (tl s ! i))" by (metis in_set_conv_nth)
    then have "Suc i < length s" "\<not> is_char_boundary s (Suc i)"
      by (auto simp: is_char_boundary_def nth_tl)
    then show "scrub_tokens s = None" by (auto simp: none)
  qed
qed

theorem token_pass_panics_witness:
  "from_utf8 (''caf'' @ [CHR 0xC3, CHR 0xA9]) \<and> scrub_tokens (''caf'' @ [CHR 0xC3, CHR 0xA9]) = None"
proof -
  have "from_utf8 (''caf'' @ [CHR 0xC3, CHR 0xA9])" by (simp add: from_utf8_def continuation_def)
  then show ?thesis using token_pass_panics [of "''caf'' @ [CHR 0xC3, CHR 0xA9]"] by simp
qed

section \<open>Addresses\<close>

text \<open>
  An IPv4 address in a text: four groups of one to three digits between dots, with no further digit
  before or after.
\<close>

definition ip_group :: "string \<Rightarrow> bool" where
  "ip_group p = (list_all is_ascii_digit p \<and> short_part (length p))"

definition quad :: "string \<Rightarrow> string \<Rightarrow> string \<Rightarrow> string \<Rightarrow> string" where
  "quad p q r t = p @ ''.'' @ q @ ''.'' @ r @ ''.'' @ t"

definition address_at :: "string \<Rightarrow> string \<Rightarrow> string \<Rightarrow> string \<Rightarrow> string \<Rightarrow> string \<Rightarrow> bool" where
  "address_at before p q r t after =
     (ip_group p \<and> ip_group q \<and> ip_group r \<and> ip_group t
      \<and> (before = [] \<or> \<not> is_ascii_digit (last before)) \<and> (after = [] \<or> \<not> is_ascii_digit (hd after)))"

definition has_ipv4 :: "string \<Rightarrow> bool" where
  "has_ipv4 s = (\<exists>before p q r t after. s = before @ quad p q r t @ after \<and> address_at before p q r t after)"

lemma quad_bytes: "ip_group p \<Longrightarrow> ip_group q \<Longrightarrow> ip_group r \<Longrightarrow> ip_group t \<Longrightarrow> c \<in> set (quad p q r t) \<Longrightarrow> ipv4_byte c"
  by (auto simp: quad_def ip_group_def list_all_iff ipv4_byte_def)

lemma ip_group_ends: "ip_group p \<Longrightarrow> p \<noteq> [] \<and> is_ascii_digit (hd p) \<and> is_ascii_digit (last p)"
  by (cases p) (auto simp: ip_group_def short_part_def list_all_iff)

lemma quad_ends:
  assumes "address_at before p q r t after"
  shows "quad p q r t \<noteq> []" "is_ascii_digit (hd (quad p q r t))" "is_ascii_digit (last (quad p q r t))"
  using assms ip_group_ends by (auto simp: quad_def address_at_def)

text \<open>A byte that no address contains separates the addresses of a text.\<close>

lemma has_ipv4_sep:
  assumes "\<not> ipv4_byte c" "\<not> has_ipv4 x" "\<not> has_ipv4 y"
  shows "\<not> has_ipv4 (x @ c # y)"
proof
  assume "has_ipv4 (x @ c # y)"
  then obtain a p q r t b where eq: "x @ c # y = a @ quad p q r t @ b" and at: "address_at a p q r t b"
    by (auto simp: has_ipv4_def)
  let ?q = "quad p q r t"
  have inside: "d \<in> set ?q \<Longrightarrow> ipv4_byte d" for d using at quad_bytes by (auto simp: address_at_def)
  from eq consider (left) u where "x = a @ u" "u @ c # y = ?q @ b"
    | (right) u where "a = x @ u" "c # y = u @ ?q @ b"
    by (auto simp: append_eq_append_conv2)
  then show False
  proof cases
    case (left u)
    from left(2) consider (in_x) v where "u = ?q @ v" "b = v @ c # y" | (over) v where "?q = u @ v" "c # y = v @ b"
      by (auto simp: append_eq_append_conv2 intro: sym)
    then show False
    proof cases
      case (in_x v)
      then have "address_at a p q r t v" using at by (cases v) (auto simp: address_at_def)
      with in_x left assms(2) show False by (auto simp: has_ipv4_def)
    next
      case (over v)
      show False
      proof (cases v)
        case Nil
        then have "x = a @ ?q @ []" using over left by simp
        moreover have "address_at a p q r t []" using at by (simp add: address_at_def)
        ultimately show False using assms(2) unfolding has_ipv4_def by blast
      next
        case (Cons d v')
        then show False using over inside [of c] assms(1) by simp
      qed
    qed
  next
    case (right u)
    show False
    proof (cases u)
      case Nil
      then have "hd ?q = c" using right quad_ends(1) [OF at] by (cases ?q) auto
      then show False using inside [of c] assms(1) quad_ends(1) [OF at] hd_in_set by metis
    next
      case (Cons d u')
      then have y: "y = u' @ ?q @ b" using right by simp
      have "address_at u' p q r t b" using at right Cons by (auto simp: address_at_def split: if_splits)
      with y assms(3) show False by (auto simp: has_ipv4_def)
    qed
  qed
qed

lemma has_ipv4_Nil [simp]: "\<not> has_ipv4 []"
  using quad_ends(1) by (fastforce simp: has_ipv4_def)

lemma has_ipv4_Cons: "\<not> ipv4_byte c \<Longrightarrow> \<not> has_ipv4 y \<Longrightarrow> \<not> has_ipv4 (c # y)"
  using has_ipv4_sep [of c "[]" y] by simp

lemma has_ipv4_tail: "\<not> is_ascii_digit c \<Longrightarrow> \<not> has_ipv4 (c # y) \<Longrightarrow> \<not> has_ipv4 y"
proof
  assume c: "\<not> is_ascii_digit c" "\<not> has_ipv4 (c # y)" and "has_ipv4 y"
  then obtain a p q r t b where "y = a @ quad p q r t @ b" "address_at a p q r t b"
    by (auto simp: has_ipv4_def)
  then have "c # y = (c # a) @ quad p q r t @ b" "address_at (c # a) p q r t b"
    using c(1) by (auto simp: address_at_def)
  with c(2) show False unfolding has_ipv4_def by blast
qed

lemma has_ipv4_length: "has_ipv4 s \<Longrightarrow> 7 \<le> length s"
  by (auto simp: has_ipv4_def address_at_def ip_group_def short_part_def quad_def)

definition marker :: "string \<Rightarrow> bool" where
  "marker m = (\<exists>inner. m = CHR ''<'' # inner @ ''>'' \<and> \<not> has_ipv4 inner)"

lemma no_ipv4_byte: "\<not> ipv4_byte (CHR ''<'')" "\<not> ipv4_byte (CHR ''>'')"
  by (simp_all add: ipv4_byte_def is_ascii_digit_def)

lemma has_ipv4_marker: "marker m \<Longrightarrow> \<not> has_ipv4 x \<Longrightarrow> \<not> has_ipv4 y \<Longrightarrow> \<not> has_ipv4 (x @ m @ y)"
  using has_ipv4_sep [OF no_ipv4_byte(2)] has_ipv4_sep [OF no_ipv4_byte(1), of x]
  by (fastforce simp: marker_def)

lemma short_marker: "length inner < 7 \<Longrightarrow> marker (CHR ''<'' # inner @ ''>'')"
  using has_ipv4_length by (fastforce simp: marker_def)

lemma markers:
  "marker ''<ipv4>''" "marker ''<ipv6>''" "marker ''<mac>''" "marker ''<user>''" "marker ''<host>''" "marker ''<ipv6-or-mac>''"
proof -
  show "marker ''<ipv4>''" "marker ''<ipv6>''" "marker ''<mac>''" "marker ''<user>''" "marker ''<host>''"
    using short_marker [of "''ipv4''"] short_marker [of "''ipv6''"] short_marker [of "''mac''"]
      short_marker [of "''user''"] short_marker [of "''host''"] by simp_all
  have "\<not> has_ipv4 (''ipv6'' @ CHR ''-'' # ''or-mac'')"
    by (rule has_ipv4_sep) (auto simp: ipv4_byte_def is_ascii_digit_def dest: has_ipv4_length)
  then show "marker ''<ipv6-or-mac>''" unfolding marker_def by (intro exI [of _ "''ipv6-or-mac''"]) simp
qed

section \<open>One run of digits and dots\<close>

definition four :: "string list \<Rightarrow> nat \<Rightarrow> bool" where
  "four ps i = (i + 4 \<le> length ps \<and> (\<forall>k < 4. short_part (length (ps ! (i + k)))))"

definition digit_parts :: "string list \<Rightarrow> bool" where
  "digit_parts ps = list_all (list_all is_ascii_digit) ps"

lemma digit_no_dot: "list_all is_ascii_digit p \<Longrightarrow> CHR ''.'' \<notin> set p"
  by (auto simp: list_all_iff is_ascii_digit_def)

lemma address_parts:
  assumes "\<forall>c \<in> set s. ipv4_byte c" "s = a @ quad p q r t @ b" "address_at a p q r t b"
  shows "\<exists>x y. split_char (CHR ''.'') s = x @ [p, q, r, t] @ y"
proof -
  have g: "CHR ''.'' \<notin> set p" "CHR ''.'' \<notin> set q" "CHR ''.'' \<notin> set r" "CHR ''.'' \<notin> set t"
    using assms(3) digit_no_dot by (auto simp: address_at_def ip_group_def)
  have "last a = CHR ''.''" if "a \<noteq> []"
    using that assms by (auto simp: address_at_def ipv4_byte_def)
  then obtain x where x: "split_char (CHR ''.'') (a @ w) = x @ split_char (CHR ''.'') w" for w
  proof (cases a rule: rev_cases)
    case (snoc a' c)
    with \<open>a \<noteq> [] \<Longrightarrow> last a = CHR ''.''\<close> show ?thesis
      using that [of "split_char (CHR ''.'') a'"] by (simp add: split_char_append)
  qed simp
  have "hd b = CHR ''.''" if "b \<noteq> []"
    using that assms by (auto simp: address_at_def ipv4_byte_def)
  then obtain y where y: "split_char (CHR ''.'') (t @ b) = t # y"
    using g(4) that by (cases b) (auto simp: split_char_none split_char_append)
  have "split_char (CHR ''.'') s = x @ [p, q, r] @ split_char (CHR ''.'') (t @ b)"
    using g by (simp add: assms(2) x quad_def split_char_append split_char_none)
  with y show ?thesis by auto
qed

lemma parts_no_ipv4:
  assumes "digit_parts ps" "\<And>i. \<not> four ps i"
  shows "\<not> has_ipv4 (join ''.'' ps)"
proof (cases "ps = []")
  case False
  let ?s = "join ''.'' ps"
  have split: "split_char (CHR ''.'') ?s = ps"
    using False assms(1) digit_no_dot by (intro split_join) (auto simp: digit_parts_def list_all_iff)
  have bytes: "\<forall>c \<in> set ?s. ipv4_byte c"
    using set_join [of "''.''" ps] assms(1) by (fastforce simp: digit_parts_def list_all_iff ipv4_byte_def)
  show ?thesis
  proof
    assume "has_ipv4 ?s"
    then obtain a p q r t b where s: "?s = a @ quad p q r t @ b" "address_at a p q r t b"
      by (auto simp: has_ipv4_def)
    then obtain x y where "ps = x @ [p, q, r, t] @ y" using address_parts [OF bytes s] split by auto
    moreover have "short_part (length p) \<and> short_part (length q) \<and> short_part (length r) \<and> short_part (length t)"
      using s(2) by (simp add: address_at_def ip_group_def)
    ultimately have "four ps (length x)"
      by (auto simp: four_def nth_append numeral_eq_Suc less_Suc_eq)
    with assms(2) show False by blast
  qed
qed simp

text \<open>The parts of a run after the pass.\<close>

fun mask_parts :: "string list \<Rightarrow> string list" where
  "mask_parts (p # q # r # t # rest) =
     (if short_part (length p) \<and> short_part (length q) \<and> short_part (length r) \<and> short_part (length t)
      then ''<ipv4>'' # mask_parts rest else p # mask_parts (q # r # t # rest))"
| "mask_parts ps = ps"

lemma four_append: "i + 4 \<le> length xs \<Longrightarrow> four (xs @ ys) i = four xs i"
  by (auto simp: four_def nth_append)

lemma four_prefix: "four xs i \<Longrightarrow> four (xs @ ys) i \<and> i < length xs"
  using four_append [of i xs ys] by (auto simp: four_def)

lemma not_four_empty: "\<not> four (xs @ [[]]) i" if "\<not> four xs i" for xs
proof
  assume f: "four (xs @ [[]]) i"
  show False
  proof (cases "i + 4 \<le> length xs")
    case True
    with f that show False by (simp add: four_append)
  next
    case False
    then have "i + 3 = length xs" using f by (auto simp: four_def)
    moreover have "short_part (length ((xs @ [[]]) ! (i + 3)))" using f by (auto simp: four_def)
    ultimately show False by (simp add: short_part_def)
  qed
qed

lemma four_here:
  "four (xs @ p # q # r # t # rest) (length xs) \<longleftrightarrow>
     short_part (length p) \<and> short_part (length q) \<and> short_part (length r) \<and> short_part (length t)"
  by (auto simp: four_def nth_append numeral_eq_Suc less_Suc_eq All_less_Suc)

lemma few_parts:
  assumes "digit_parts (xs @ ps)" "\<And>i. i < length xs \<Longrightarrow> \<not> four (xs @ ps) i" "length ps \<le> 3"
  shows "\<not> has_ipv4 (join ''.'' (xs @ ps))"
proof (rule parts_no_ipv4 [OF assms(1)])
  fix i
  show "\<not> four (xs @ ps) i" using assms(2,3) by (cases "i < length xs") (auto simp: four_def)
qed

lemma few_none: "digit_parts xs \<Longrightarrow> (\<And>i. i < length xs \<Longrightarrow> \<not> four xs i) \<Longrightarrow> \<not> has_ipv4 (join ''.'' xs)"
  using few_parts [of xs "[]"] by simp

lemma masked_no_ipv4:
  assumes "digit_parts (xs @ ps)" "\<And>i. i < length xs \<Longrightarrow> \<not> four (xs @ ps) i"
  shows "\<not> has_ipv4 (join ''.'' (xs @ mask_parts ps))"
  using assms
proof (induction ps arbitrary: xs rule: mask_parts.induct)
  case (1 p q r t rest)
  let ?ps = "p # q # r # t # rest"
  let ?quad = "short_part (length p) \<and> short_part (length q) \<and> short_part (length r) \<and> short_part (length t)"
  show ?case
  proof (cases ?quad)
    case False
    then have "\<not> four ((xs @ [p]) @ q # r # t # rest) i" if "i < length (xs @ [p])" for i
      using that "1.prems"(2) four_here [of xs p q r t rest] by (cases "i < length xs") (auto simp: less_Suc_eq)
    then have "\<not> has_ipv4 (join ''.'' ((xs @ [p]) @ mask_parts (q # r # t # rest)))"
      using "1.prems"(1) by (intro "1.IH"(2) [OF False]) simp_all
    then show ?thesis by (simp only: mask_parts.simps(1) if_not_P [OF False]) simp
  next
    case True
    let ?z = "mask_parts rest"
    have front: "\<not> has_ipv4 (if xs = [] then [] else join ''.'' xs @ ''.'')"
    proof (cases "xs = []")
      case False
      have "\<not> four xs i" for i using "1.prems"(2) four_prefix [of xs i ?ps] by blast
      then have "\<not> four (xs @ [[]]) i" for i by (rule not_four_empty)
      moreover have "digit_parts (xs @ [[]])" using "1.prems"(1) by (simp add: digit_parts_def)
      ultimately have "\<not> has_ipv4 (join ''.'' (xs @ [[]]))" by (intro parts_no_ipv4)
      then show ?thesis using False by (simp add: join_append)
    qed simp
    have "\<not> four ([] # rest) 0" unfolding four_def short_part_def by (auto intro!: exI [of _ 0])
    then have "\<not> has_ipv4 (join ''.'' ([[]] @ ?z))"
      using "1.prems"(1) by (intro "1.IH"(1) [OF True]) (auto simp: digit_parts_def)
    then have rear: "\<not> has_ipv4 (if ?z = [] then [] else ''.'' @ join ''.'' ?z)" by (cases ?z) simp_all
    have "join ''.'' (''<ipv4>'' # ?z) = ''<ipv4>'' @ (if ?z = [] then [] else ''.'' @ join ''.'' ?z)"
      by (cases ?z) simp_all
    then have "join ''.'' (xs @ ''<ipv4>'' # ?z) =
        (if xs = [] then [] else join ''.'' xs @ ''.'') @ ''<ipv4>'' @ (if ?z = [] then [] else ''.'' @ join ''.'' ?z)"
      by (simp add: join_append)
    then have "\<not> has_ipv4 (join ''.'' (xs @ ''<ipv4>'' # ?z))"
      using has_ipv4_marker [OF markers(1) front rear] by (simp only:) simp
    then show ?thesis using True by simp
  qed
qed (simp_all add: few_parts few_none)

section \<open>The pass over a text\<close>

lemma slice_self [simp]: "slice i i s = []"
  by (simp add: slice_def)

lemma slice_drop: "i \<le> j \<Longrightarrow> slice i j s @ drop j s = drop i s"
  by (simp add: slice_def) (metis add.commute append_take_drop_id drop_drop le_add_diff_inverse2)

lemma slice_slice: "i \<le> j \<Longrightarrow> j \<le> k \<Longrightarrow> slice i j s @ slice j k s = slice i k s"
  by (simp add: slice_def) (smt (verit) Nat.diff_add_assoc2 add_diff_inverse_nat drop_drop le_add_diff_inverse2 not_less take_add add.commute)

definition starts_from :: "nat \<Rightarrow> range list \<Rightarrow> bool" where
  "starts_from k rs = list_all (\<lambda>r. k \<le> fst r) rs"

lemma splice_skip:
  assumes "starts_from k rs" "pos \<le> k"
  shows "splice_from s pos rs = slice pos k s @ splice_from s k rs"
proof (cases rs)
  case Nil
  then show ?thesis using assms(2) by (simp add: slice_drop)
next
  case (Cons r rs')
  obtain start stop m where r: "r = (start, stop, m)" by (cases r)
  then have "k \<le> start" using assms(1) Cons by (simp add: starts_from_def)
  then show ?thesis using slice_slice [OF assms(2), of start s] by (simp add: Cons r)
qed

lemma quad_ranges_start: "starts_from pos (quad_ranges (part_places pos ps))"
proof (induction ps arbitrary: pos rule: mask_parts.induct)
  case (1 p q r t rest)
  have mono: "starts_from k rs" if "starts_from l rs" "k \<le> l" for k l rs
    using that by (auto simp: starts_from_def list_all_iff)
  show ?case
    using mono [OF "1.IH"(1)] mono [OF "1.IH"(2) [of "pos + length p + 1"]]
    by (auto simp: starts_from_def)
qed (simp_all add: starts_from_def)

lemma drop_parts: "drop pos s = x @ y \<Longrightarrow> slice pos (pos + length x) s = x \<and> drop (pos + length x) s = y"
  by (simp add: slice_def drop_drop [symmetric] add.commute [of pos] del: drop_drop)

lemma starts_from_append [simp]: "starts_from k (rs @ rs') = (starts_from k rs \<and> starts_from k rs')"
  by (simp add: starts_from_def)

lemma starts_from_mono: "starts_from l rs \<Longrightarrow> k \<le> l \<Longrightarrow> starts_from k rs"
  by (auto simp: starts_from_def list_all_iff)

text \<open>Copying one part and its dot, then going on after them.\<close>

lemma splice_part:
  assumes "drop pos s = x @ y" "starts_from (pos + length x) rs"
  shows "splice_from s pos rs = x @ splice_from s (pos + length x) rs"
  using splice_skip [OF assms(2), of pos s] drop_parts [OF assms(1)] by simp

lemma parts_splice_few:
  assumes "drop pos s = join ''.'' ps @ rest_text" "starts_from (pos + length (join ''.'' ps)) rs"
    and "quad_ranges (part_places pos ps) = []" "mask_parts ps = ps"
  shows "splice_from s pos (quad_ranges (part_places pos ps) @ rs) =
    join ''.'' (mask_parts ps) @ splice_from s (pos + length (join ''.'' ps)) rs"
  unfolding assms(3,4) append.simps by (rule splice_part [OF assms(1,2)])

lemma parts_splice_keep:
  assumes "\<not> (short_part (length p) \<and> short_part (length q) \<and> short_part (length r) \<and> short_part (length t))"
    and "drop pos s = join ''.'' (p # q # r # t # rest) @ rest_text" "starts_from (pos + length (join ''.'' (p # q # r # t # rest))) rs"
    and "\<And>pos. drop pos s = join ''.'' (q # r # t # rest) @ rest_text \<Longrightarrow> starts_from (pos + length (join ''.'' (q # r # t # rest))) rs \<Longrightarrow>
      splice_from s pos (quad_ranges (part_places pos (q # r # t # rest)) @ rs)
        = join ''.'' (mask_parts (q # r # t # rest)) @ splice_from s (pos + length (join ''.'' (q # r # t # rest))) rs"
  shows "splice_from s pos (quad_ranges (part_places pos (p # q # r # t # rest)) @ rs) =
    join ''.'' (mask_parts (p # q # r # t # rest)) @ splice_from s (pos + length (join ''.'' (p # q # r # t # rest))) rs"
proof -
  let ?ps = "p # q # r # t # rest" and ?qs = "q # r # t # rest"
  let ?pos = "pos + length (p @ ''.'')"
  have d: "drop pos s = (p @ ''.'') @ join ''.'' ?qs @ rest_text" using assms(2) by simp
  have rs: "starts_from (?pos + length (join ''.'' ?qs)) rs" using assms(3) by (simp add: add.assoc)
  have start: "starts_from ?pos (quad_ranges (part_places ?pos ?qs) @ rs)"
    using quad_ranges_start [of ?pos ?qs] starts_from_mono [OF rs, of ?pos, OF le_add1] unfolding starts_from_append by blast
  have ranges: "quad_ranges (part_places pos ?ps) = quad_ranges (part_places ?pos ?qs)"
    using assms(1) by auto
  have "mask_parts ?qs \<noteq> []" by (cases rest) auto
  moreover have "mask_parts ?ps = p # mask_parts ?qs" by (simp only: mask_parts.simps(1) if_not_P [OF assms(1)])
  ultimately have mask: "join ''.'' (mask_parts ?ps) = (p @ ''.'') @ join ''.'' (mask_parts ?qs)"
    by (simp only: join_Cons append_assoc not_False_eq_True)
  have len: "pos + length (join ''.'' ?ps) = ?pos + length (join ''.'' ?qs)" by simp
  have "splice_from s ?pos (quad_ranges (part_places ?pos ?qs) @ rs)
      = join ''.'' (mask_parts ?qs) @ splice_from s (?pos + length (join ''.'' ?qs)) rs"
    using drop_parts [OF d] rs by (intro assms(4)) simp_all
  then show ?thesis
    unfolding ranges mask len splice_part [OF d start] by (simp only: append_assoc)
qed

lemma parts_splice_mask:
  assumes "short_part (length p) \<and> short_part (length q) \<and> short_part (length r) \<and> short_part (length t)"
    and "drop pos s = join ''.'' (p # q # r # t # rest) @ rest_text" "starts_from (pos + length (join ''.'' (p # q # r # t # rest))) rs"
    and "\<And>pos. rest \<noteq> [] \<Longrightarrow> drop pos s = join ''.'' rest @ rest_text \<Longrightarrow> starts_from (pos + length (join ''.'' rest)) rs \<Longrightarrow>
      splice_from s pos (quad_ranges (part_places pos rest) @ rs)
        = join ''.'' (mask_parts rest) @ splice_from s (pos + length (join ''.'' rest)) rs"
  shows "splice_from s pos (quad_ranges (part_places pos (p # q # r # t # rest)) @ rs) =
    join ''.'' (mask_parts (p # q # r # t # rest)) @ splice_from s (pos + length (join ''.'' (p # q # r # t # rest))) rs"
proof -
  let ?ps = "p # q # r # t # rest"
  let ?m = "''<ipv4>''" and ?len = "length (join ''.'' [p, q, r, t])"
  have ranges: "quad_ranges (part_places pos ?ps) =
      (pos, pos + ?len, ?m) # quad_ranges (part_places (pos + ?len + 1) rest)"
    using assms(1) by (simp add: algebra_simps)
  show ?thesis
  proof (cases "rest = []")
    case True
    then show ?thesis using ranges assms(1) by (simp add: add.assoc)
  next
    case False
    let ?pos = "pos + ?len + 1"
    have d: "drop (pos + ?len) s = ''.'' @ join ''.'' rest @ rest_text"
      using drop_parts [of pos s "join ''.'' [p, q, r, t]"] assms(2) False by (simp add: join_Cons)
    have e: "drop ?pos s = join ''.'' rest @ rest_text" using drop_parts [OF d] by simp
    have len: "pos + length (join ''.'' ?ps) = ?pos + length (join ''.'' rest)" using False by (simp add: join_Cons)
    have rs: "starts_from (?pos + length (join ''.'' rest)) rs" using assms(3) unfolding len .
    have "splice_from s ?pos (quad_ranges (part_places ?pos rest) @ rs)
        = join ''.'' (mask_parts rest) @ splice_from s (?pos + length (join ''.'' rest)) rs"
      using False e rs by (intro assms(4)) simp_all
    moreover have "starts_from ?pos (quad_ranges (part_places ?pos rest) @ rs)"
      using quad_ranges_start [of ?pos rest] starts_from_mono [OF rs, of ?pos] by simp
    ultimately have "splice_from s (pos + ?len) (quad_ranges (part_places ?pos rest) @ rs)
        = ''.'' @ join ''.'' (mask_parts rest) @ splice_from s (?pos + length (join ''.'' rest)) rs"
      using splice_part [OF d] by simp
    moreover have "mask_parts rest \<noteq> []" using False by (cases rest rule: mask_parts.cases) auto
    ultimately show ?thesis unfolding ranges len using assms(1) by (simp add: join_Cons)
  qed
qed

lemma parts_splice:
  assumes "ps \<noteq> []" "drop pos s = join ''.'' ps @ rest_text" "starts_from (pos + length (join ''.'' ps)) rs"
  shows "splice_from s pos (quad_ranges (part_places pos ps) @ rs) =
    join ''.'' (mask_parts ps) @ splice_from s (pos + length (join ''.'' ps)) rs"
  using assms
proof (induction ps arbitrary: pos rule: mask_parts.induct)
  case (1 p q r t rest)
  show ?case
  proof (cases "short_part (length p) \<and> short_part (length q) \<and> short_part (length r) \<and> short_part (length t)")
    case True
    show ?thesis by (rule parts_splice_mask [OF True "1.prems"(2,3)]) (rule "1.IH"(1) [OF True])
  next
    case False
    show ?thesis by (rule parts_splice_keep [OF False "1.prems"(2,3)]) (rule "1.IH"(2) [OF False], simp)
  qed
qed (rule parts_splice_few; simp)+

lemma runs_from_starts: "list_all (\<lambda>r. i \<le> fst r) (runs_from p s i)"
proof (induction p s i rule: runs_from.induct)
  case (1 p s i)
  show ?case
  proof (cases "i < length s")
    case True
    with 1 show ?thesis
      by (cases "p (s ! i)") (auto simp: runs_from.simps [of p s i] Let_def list_all_iff intro: order_trans [rotated])
  qed (simp add: runs_from.simps)
qed

lemma ipv4_ranges_starts:
  "list_all (\<lambda>r. i \<le> fst r) rs \<Longrightarrow> starts_from i (concat (map (ipv4_ranges s) rs))"
proof (induction rs)
  case (Cons r rs)
  have "starts_from (fst r) (ipv4_ranges s r)" by (simp add: ipv4_ranges_def quad_ranges_start)
  with Cons show ?case by (auto intro: starts_from_mono)
qed (simp add: starts_from_def)

lemma digit_parts_split:
  assumes "\<forall>c \<in> set s. ipv4_byte c"
  shows "digit_parts (split_char (CHR ''.'') s)"
proof -
  have "is_ascii_digit c" if "p \<in> set (split_char (CHR ''.'') s)" "c \<in> set p" for p c
  proof -
    have "c \<in> set s" using that join_split [of "CHR ''.''" s] set_join_ge [of p "split_char (CHR ''.'') s" "''.''"] by auto
    moreover have "c \<noteq> CHR ''.''" using split_on_pieces [of p "\<lambda>c. c = CHR ''.''" s c] that by (simp add: split_char_def)
    ultimately show ?thesis using assms by (auto simp: ipv4_byte_def)
  qed
  then show ?thesis by (auto simp: digit_parts_def list_all_iff)
qed

definition ipv4_from :: "string \<Rightarrow> nat \<Rightarrow> string" where
  "ipv4_from s i = splice_from s i (concat (map (ipv4_ranges s) (runs_from ipv4_byte s i)))"

lemma ipv4_from_other:
  assumes "i < length s" "\<not> ipv4_byte (s ! i)"
  shows "ipv4_from s i = s ! i # ipv4_from s (Suc i)"
proof -
  let ?rs = "concat (map (ipv4_ranges s) (runs_from ipv4_byte s (Suc i)))"
  have r: "runs_from ipv4_byte s i = runs_from ipv4_byte s (Suc i)"
    using assms by (simp add: runs_from.simps [of ipv4_byte s i])
  have "starts_from (Suc i) ?rs" by (rule ipv4_ranges_starts) (rule runs_from_starts)
  from splice_skip [OF this, of i s] show ?thesis
    using assms(1) by (simp add: ipv4_from_def r slice_def take_Suc_conv_app_nth)
qed

lemma ipv4_from_run:
  assumes "i < length s" "ipv4_byte (s ! i)"
  defines "stop \<equiv> i + length (takeWhile ipv4_byte (drop i s))"
  shows "ipv4_from s i = join ''.'' (mask_parts (split_char (CHR ''.'') (takeWhile ipv4_byte (drop i s)))) @ ipv4_from s stop"
proof -
  let ?run = "takeWhile ipv4_byte (drop i s)" and ?rs = "concat (map (ipv4_ranges s) (runs_from ipv4_byte s stop))"
  let ?ps = "split_char (CHR ''.'') ?run"
  have r: "runs_from ipv4_byte s i = (i, stop) # runs_from ipv4_byte s stop"
    using assms by (simp add: runs_from.simps [of ipv4_byte s i] Let_def)
  have run: "slice i stop s = ?run" by (simp add: slice_def stop_def takeWhile_eq_take [symmetric])
  have j: "join ''.'' ?ps = ?run" by (rule join_split)
  have "splice_from s i (quad_ranges (part_places i ?ps) @ ?rs) =
      join ''.'' (mask_parts ?ps) @ splice_from s (i + length (join ''.'' ?ps)) ?rs"
  proof (rule parts_splice)
    show "?ps \<noteq> []" by (simp add: split_char_def)
    show "drop i s = join ''.'' ?ps @ dropWhile ipv4_byte (drop i s)" by (simp add: j)
    show "starts_from (i + length (join ''.'' ?ps)) ?rs"
      unfolding j stop_def [symmetric] by (rule ipv4_ranges_starts) (rule runs_from_starts)
  qed
  then show ?thesis
    unfolding ipv4_from_def r list.map concat.simps ipv4_ranges_def [of s "(i, stop)"] fst_conv snd_conv run j
      stop_def [symmetric] .
qed

lemma ipv4_from_none: "\<not> has_ipv4 (ipv4_from s i)"
proof (induction "length s - i" arbitrary: i rule: less_induct)
  case less
  show ?case
  proof (cases "i < length s")
    case False
    then show ?thesis by (simp add: ipv4_from_def runs_from.simps [of ipv4_byte s i])
  next
    case True
    show ?thesis
    proof (cases "ipv4_byte (s ! i)")
      case False
      have "\<not> has_ipv4 (ipv4_from s (Suc i))" using True by (intro less) simp
      with False show ?thesis unfolding ipv4_from_other [OF True False] by (intro has_ipv4_Cons)
    next
      case byte: True
      let ?run = "takeWhile ipv4_byte (drop i s)"
      let ?stop = "i + length ?run" and ?masked = "join ''.'' (mask_parts (split_char (CHR ''.'') ?run))"
      have "?run \<noteq> []" using True byte by (simp add: Cons_nth_drop_Suc [symmetric])
      then have "0 < length ?run" by blast
      then have rest: "\<not> has_ipv4 (ipv4_from s ?stop)" using True by (intro less) linarith
      have "digit_parts (split_char (CHR ''.'') ?run)"
        by (rule digit_parts_split) (auto dest: set_takeWhileD)
      then have masked: "\<not> has_ipv4 ?masked" using masked_no_ipv4 [of "[]"] by simp
      show ?thesis
      proof (cases "?stop < length s")
        case False
        then have "ipv4_from s ?stop = []" by (simp add: ipv4_from_def runs_from.simps [of ipv4_byte s ?stop])
        with masked show ?thesis unfolding ipv4_from_run [OF True byte] by simp
      next
        case later: True
        then have "dropWhile ipv4_byte (drop i s) = drop ?stop s" by (simp add: dropWhile_eq_drop add.commute)
        then have c: "\<not> ipv4_byte (s ! ?stop)"
          using hd_dropWhile [of ipv4_byte "drop i s"] later by (simp add: hd_drop_conv_nth)
        note after = ipv4_from_other [OF later c]
        have "\<not> is_ascii_digit (s ! ?stop)" using c by (simp add: ipv4_byte_def)
        then have "\<not> has_ipv4 (ipv4_from s (Suc ?stop))" using rest unfolding after by (rule has_ipv4_tail)
        then show ?thesis unfolding ipv4_from_run [OF True byte] after by (intro has_ipv4_sep [OF c masked])
      qed
    qed
  qed
qed

lemma scrub_ipv4_none: "\<not> has_ipv4 (scrub_ipv4 s)"
  using ipv4_from_none [of s 0] by (simp add: ipv4_from_def scrub_ipv4_def splice_def runs_def)

section \<open>The passes after it\<close>

text \<open>A place that does not part two bytes of \<open>p\<close>.\<close>

definition edge :: "(char \<Rightarrow> bool) \<Rightarrow> string \<Rightarrow> nat \<Rightarrow> bool" where
  "edge p s i = (i = 0 \<or> length s \<le> i \<or> \<not> p (s ! (i - 1)) \<or> \<not> p (s ! i))"

lemma edge_weaken: "edge p s i \<Longrightarrow> (\<And>c. q c \<Longrightarrow> p c) \<Longrightarrow> edge q s i"
  by (auto simp: edge_def)

lemma has_ipv4_take: "\<not> has_ipv4 s \<Longrightarrow> edge is_ascii_digit s i \<Longrightarrow> \<not> has_ipv4 (take i s)"
proof
  assume s: "\<not> has_ipv4 s" "edge is_ascii_digit s i" and "has_ipv4 (take i s)"
  then obtain a p q r t b where t: "take i s = a @ quad p q r t @ b" and at: "address_at a p q r t b"
    by (auto simp: has_ipv4_def)
  let ?q = "quad p q r t"
  have "s = a @ ?q @ (b @ drop i s)" using t append_take_drop_id [of i s] by simp
  moreover have "address_at a p q r t (b @ drop i s)"
  proof (cases "b = [] \<and> i < length s")
    case True
    have "last (take i s) = last ?q" using t quad_ends(1) [OF at] True by simp
    moreover have "take i s \<noteq> []" using t quad_ends(1) [OF at] by simp
    ultimately have "0 < i" "is_ascii_digit (s ! (i - 1))"
      using quad_ends(3) [OF at] True by (auto simp: last_conv_nth)
    then have "\<not> is_ascii_digit (s ! i)" using s(2) True by (auto simp: edge_def)
    then show ?thesis using at True by (simp add: address_at_def hd_drop_conv_nth)
  next
    case False
    then show ?thesis using at by (cases b) (auto simp: address_at_def)
  qed
  ultimately show False using s(1) unfolding has_ipv4_def by blast
qed

lemma has_ipv4_drop: "\<not> has_ipv4 s \<Longrightarrow> edge is_ascii_digit s i \<Longrightarrow> \<not> has_ipv4 (drop i s)"
proof
  assume s: "\<not> has_ipv4 s" "edge is_ascii_digit s i" and "has_ipv4 (drop i s)"
  then obtain a p q r t b where t: "drop i s = a @ quad p q r t @ b" and at: "address_at a p q r t b"
    by (auto simp: has_ipv4_def)
  let ?q = "quad p q r t"
  have "s = (take i s @ a) @ ?q @ b" using t append_take_drop_id [of i s] by simp
  moreover have "address_at (take i s @ a) p q r t b"
  proof (cases "a = [] \<and> 0 < i")
    case True
    have len: "i < length s" using t quad_ends(1) [OF at] by (metis append_is_Nil_conv drop_all leI)
    have "hd (drop i s) = hd ?q" using t quad_ends(1) [OF at] True by simp
    then have "is_ascii_digit (s ! i)" using quad_ends(2) [OF at] len by (simp add: hd_drop_conv_nth)
    then have "\<not> is_ascii_digit (s ! (i - 1))" using s(2) True len by (auto simp: edge_def)
    moreover have ne: "take i s \<noteq> []" using True len by auto
    moreover have "last (take i s) = s ! (i - 1)" using last_conv_nth [OF ne] True len by (simp add: min_def)
    ultimately show ?thesis using at True by (simp add: address_at_def)
  next
    case False
    then show ?thesis using at by (cases a rule: rev_cases) (auto simp: address_at_def)
  qed
  ultimately show False using s(1) unfolding has_ipv4_def by blast
qed

lemma has_ipv4_slice:
  assumes "\<not> has_ipv4 s" "edge is_ascii_digit s i" "edge is_ascii_digit s j"
  shows "\<not> has_ipv4 (slice i j s)"
proof -
  have "edge is_ascii_digit (take j s) i" using assms(2) by (auto simp: edge_def)
  with has_ipv4_take [OF assms(1,3)] have "\<not> has_ipv4 (drop i (take j s))" by (rule has_ipv4_drop)
  then show ?thesis by (simp add: slice_def drop_take)
qed

fun ranges_ok :: "string \<Rightarrow> nat \<Rightarrow> range list \<Rightarrow> bool" where
  "ranges_ok s pos [] = True"
| "ranges_ok s pos ((start, stop, m) # rs) =
     (pos \<le> start \<and> start \<le> stop \<and> marker m \<and> edge is_ascii_digit s start \<and> edge is_ascii_digit s stop \<and> ranges_ok s stop rs)"

lemma ranges_ok_mono: "ranges_ok s l rs \<Longrightarrow> k \<le> l \<Longrightarrow> ranges_ok s k rs"
  by (cases rs) auto

lemma splice_keeps:
  assumes "\<not> has_ipv4 s"
  shows "ranges_ok s pos rs \<Longrightarrow> edge is_ascii_digit s pos \<Longrightarrow> \<not> has_ipv4 (splice_from s pos rs)"
proof (induction rs arbitrary: pos)
  case Nil
  with assms show ?case by (simp add: has_ipv4_drop)
next
  case (Cons r rs)
  obtain start stop m where r: "r = (start, stop, m)" by (cases r)
  with Cons assms show ?case by (simp add: has_ipv4_slice has_ipv4_marker)
qed

text \<open>The runs of a text, in order, none of them touching another.\<close>

fun chain_from :: "(char \<Rightarrow> bool) \<Rightarrow> string \<Rightarrow> nat \<Rightarrow> (nat \<times> nat) list \<Rightarrow> bool" where
  "chain_from p s pos [] = True"
| "chain_from p s pos ((a, b) # rs) = (pos \<le> a \<and> a < b \<and> edge p s a \<and> edge p s b \<and> chain_from p s b rs)"

lemma chain_from_mono: "chain_from p s l rs \<Longrightarrow> k \<le> l \<Longrightarrow> chain_from p s k rs"
  by (cases rs) auto

lemma runs_chain: "edge p s i \<Longrightarrow> chain_from p s i (runs_from p s i)"
proof (induction p s i rule: runs_from.induct)
  case (1 p s i)
  let ?stop = "i + length (takeWhile p (drop i s))"
  show ?case
  proof (cases "i < length s")
    case True
    show ?thesis
    proof (cases "p (s ! i)")
      case byte: True
      have "takeWhile p (drop i s) \<noteq> []" using True byte by (simp add: Cons_nth_drop_Suc [symmetric])
      moreover have "edge p s ?stop"
      proof (cases "?stop < length s")
        case True
        then show ?thesis using nth_length_takeWhile [of p "drop i s"] by (simp add: edge_def)
      qed (simp add: edge_def)
      ultimately show ?thesis
        using True byte 1 by (simp add: runs_from.simps [of p s i] Let_def)
    next
      case False
      then have "edge p s (Suc i)" by (simp add: edge_def)
      with True False 1 show ?thesis
        by (auto simp: runs_from.simps [of p s i] intro: chain_from_mono)
    qed
  qed (simp add: runs_from.simps)
qed

text \<open>A pass that replaces at most one part of each run, from its start to an edge.\<close>

lemma run_ranges_ok:
  assumes "chain_from p s pos rs" "\<And>c. is_ascii_digit c \<Longrightarrow> p c"
    and "\<And>a b. a < b \<Longrightarrow> edge p s b \<Longrightarrow> f (a, b) = [] \<or>
      (\<exists>stop m. f (a, b) = [(a, stop, m)] \<and> a \<le> stop \<and> stop \<le> b \<and> marker m \<and> edge is_ascii_digit s stop)"
  shows "ranges_ok s pos (concat (map f rs))"
  using assms(1)
proof (induction rs arbitrary: pos)
  case (Cons r rs)
  obtain a b where r: "r = (a, b)" by (cases r)
  from Cons have IH: "ranges_ok s k (concat (map f rs))" if "k \<le> b" for k
    using that by (auto simp: r intro: ranges_ok_mono)
  have "edge is_ascii_digit s a" using Cons.prems assms(2) by (auto simp: r intro: edge_weaken)
  then show ?case
    using assms(3) [of a b] Cons.prems IH by (force simp: r)
qed simp

lemma run_pass_keeps:
  assumes "\<not> has_ipv4 s" "\<And>c. is_ascii_digit c \<Longrightarrow> p c"
    and "\<And>a b. a < b \<Longrightarrow> edge p s b \<Longrightarrow> f (a, b) = [] \<or>
      (\<exists>stop m. f (a, b) = [(a, stop, m)] \<and> a \<le> stop \<and> stop \<le> b \<and> marker m \<and> edge is_ascii_digit s stop)"
  shows "\<not> has_ipv4 (splice s (concat (map f (runs s p))))"
proof -
  have "chain_from p s 0 (runs_from p s 0)" by (rule runs_chain) (simp add: edge_def)
  from run_ranges_ok [OF this assms(2,3)] show ?thesis
    using splice_keeps [OF assms(1)] by (simp add: splice_def runs_def edge_def)
qed

lemma hexdigit_digit: "is_ascii_digit c \<Longrightarrow> is_ascii_hexdigit c"
  by (auto simp: is_ascii_hexdigit_def is_ascii_digit_def digit_val_def Let_def)

lemma ipv6_keeps:
  assumes "\<not> has_ipv4 s"
  shows "\<not> has_ipv4 (splice s (concat (map (ipv6_range s) (runs s (\<lambda>b. is_ascii_hexdigit b \<or> b = CHR '':'')))))"
proof (rule run_pass_keeps [OF assms])
  fix a b :: nat
  let ?stop = "if b - a > 2 \<and> s ! (b - 1) = CHR '':'' \<and> s ! (b - 2) \<noteq> CHR '':'' then b - 1 else b"
  assume ab: "a < b" "edge (\<lambda>b. is_ascii_hexdigit b \<or> b = CHR '':'') s b"
  then have "edge is_ascii_digit s ?stop" using hexdigit_digit by (auto simp: edge_def is_ascii_digit_def)
  moreover have "a \<le> ?stop" "?stop \<le> b" using ab(1) by auto
  ultimately show "ipv6_range s (a, b) = [] \<or> (\<exists>stop m. ipv6_range s (a, b) = [(a, stop, m)] \<and> a \<le> stop \<and> stop \<le> b
      \<and> marker m \<and> edge is_ascii_digit s stop)"
    using markers by (simp add: ipv6_range_def Let_def)
qed (simp add: hexdigit_digit)

lemma mac_keeps:
  assumes "\<not> has_ipv4 s"
  shows "\<not> has_ipv4 (splice s (concat (map (mac_range s) (runs s (\<lambda>b. is_ascii_hexdigit b \<or> b = CHR ''-'')))))"
proof (rule run_pass_keeps [OF assms])
  fix a b :: nat
  assume ab: "a < b" "edge (\<lambda>b. is_ascii_hexdigit b \<or> b = CHR ''-'') s b"
  then have "edge is_ascii_digit s b" using hexdigit_digit by (auto simp: edge_def)
  then show "mac_range s (a, b) = [] \<or> (\<exists>stop m. mac_range s (a, b) = [(a, stop, m)] \<and> a \<le> stop \<and> stop \<le> b
      \<and> marker m \<and> edge is_ascii_digit s stop)"
    using ab(1) markers by (simp add: mac_range_def Let_def)
qed (simp add: hexdigit_digit)

lemma ipv6_and_mac_keeps: "\<not> has_ipv4 s \<Longrightarrow> \<not> has_ipv4 (scrub_ipv6_and_mac s)"
  unfolding scrub_ipv6_and_mac_def Let_def by (intro mac_keeps ipv6_keeps)

lemma match_str_here: "i \<in> set (match_str p s k) \<Longrightarrow> starts_with (drop i s) p"
proof (induction p s k rule: match_str.induct)
  case (1 p s k)
  then show ?case by (auto simp: match_str.simps [of p s k] split: if_splits)
qed

lemma position_edge:
  assumes "position_from p i s < length s" "i \<le> length s"
  shows "p (s ! position_from p i s)"
  using assms nth_length_takeWhile [of "\<lambda>c. \<not> p c" "drop i s"] by (auto simp: position_from_def)

lemma not_digit: "\<not> is_ascii_digit (CHR ''/'')" "is_ascii_whitespace c \<Longrightarrow> \<not> is_ascii_digit c"
  by (auto simp: is_ascii_digit_def is_ascii_whitespace_def Let_def)

lemma home_ranges_ok:
  assumes "\<forall>i \<in> set ps. starts_with (drop i s) ''/home/''" "\<forall>l. prev = Some l \<longrightarrow> pos \<le> l" "prev = None \<longrightarrow> pos = 0"
  shows "ranges_ok s pos (home_ranges s prev ps)"
  using assms
proof (induction ps arbitrary: prev pos)
  case (Cons i ps)
  let ?start = "i + 6"
  let ?stop = "position_from (\<lambda>b. b = CHR ''/'' \<or> is_ascii_whitespace b) ?start s"
  show ?case
  proof (cases "?stop > ?start \<and> (case prev of None \<Rightarrow> True | Some l \<Rightarrow> ?start \<ge> l)")
    case False
    with Cons show ?thesis by (auto simp: Let_def)
  next
    case True
    have h: "take 6 (drop i s) = ''/home/''" using Cons.prems(1) by (simp add: starts_with_def numeral_eq_Suc)
    have len: "?start \<le> length s"
    proof (rule ccontr)
      assume "\<not> ?start \<le> length s"
      with True show False by (simp add: position_from_def)
    qed
    have "take 6 (drop i s) ! 5 = s ! (i + 5)" using len by simp
    then have "s ! (i + 5) = CHR ''/''" unfolding h by simp
    then have "edge is_ascii_digit s ?start" using not_digit(1) by (simp add: edge_def add.commute)
    moreover have "edge is_ascii_digit s ?stop"
      using position_edge [OF _ len, of "\<lambda>b. b = CHR ''/'' \<or> is_ascii_whitespace b"] not_digit
      by (auto simp: edge_def not_le)
    moreover have "pos \<le> ?start" using Cons.prems(2,3) True by (auto split: option.splits)
    moreover have "ranges_ok s ?stop (home_ranges s (Some ?stop) ps)" using Cons by auto
    ultimately show ?thesis using True markers(4) by (simp add: Let_def)
  qed
qed simp

lemma homes_keeps: "\<not> has_ipv4 s \<Longrightarrow> \<not> has_ipv4 (scrub_homes s)"
  unfolding scrub_homes_def splice_def
  by (intro splice_keeps home_ranges_ok) (auto simp: match_str_here edge_def)

definition plain_ends :: "string \<Rightarrow> bool" where
  "plain_ends name = (name \<noteq> [] \<and> \<not> is_ascii_digit (hd name) \<and> \<not> is_ascii_digit (last name))"

lemma cut_out:
  assumes "\<not> has_ipv4 (u @ p @ w)" "plain_ends p" "marker m"
  shows "\<not> has_ipv4 (u @ m @ w)"
proof -
  have hd: "(u @ p @ w) ! length u = hd p" using assms(2) by (cases p) (simp_all add: plain_ends_def)
  have last: "(u @ p @ w) ! (length u + length p - 1) = last p"
    using assms(2) by (cases p rule: rev_cases) (simp_all add: plain_ends_def nth_append)
  have "edge is_ascii_digit (u @ p @ w) (length u)" using hd assms(2) by (simp add: edge_def plain_ends_def)
  then have "\<not> has_ipv4 u" using has_ipv4_take [OF assms(1), of "length u"] by simp
  moreover have "edge is_ascii_digit (u @ p @ w) (length u + length p)"
    using last assms(2) by (simp add: edge_def plain_ends_def)
  then have "\<not> has_ipv4 w" using has_ipv4_drop [OF assms(1), of "length u + length p"] by simp
  ultimately show ?thesis using assms(3) by (intro has_ipv4_marker)
qed

lemma replace_keeps:
  "plain_ends p \<Longrightarrow> marker m \<Longrightarrow> \<not> has_ipv4 (u @ s) \<Longrightarrow> \<not> has_ipv4 (u @ replace_str p m s)"
proof (induction p m s arbitrary: u rule: replace_str.induct)
  case (2 p m c cs)
  show ?case
  proof (cases "starts_with (c # cs) p")
    case True
    let ?rest = "drop (length p - 1) cs"
    have "c # cs = p @ ?rest"
      using True "2.prems"(1) append_take_drop_id [of "length p" "c # cs"]
      by (cases p) (auto simp: starts_with_def plain_ends_def)
    then have "\<not> has_ipv4 ((u @ m) @ ?rest)" using cut_out [of u p ?rest m] "2.prems" by simp
    with "2.IH"(1) [OF True] "2.prems"(1,2) have "\<not> has_ipv4 ((u @ m) @ replace_str p m ?rest)" by blast
    then show ?thesis using True by simp
  next
    case False
    with "2.IH"(2) [OF False, of "u @ [c]"] "2.prems" show ?thesis by simp
  qed
qed simp

lemma replace_names_keeps:
  "list_all plain_ends names \<Longrightarrow> marker m \<Longrightarrow> \<not> has_ipv4 s \<Longrightarrow> \<not> has_ipv4 (replace_names m names s)"
proof (induction names arbitrary: s)
  case (Cons name names)
  then have "\<not> has_ipv4 (replace_str name m s)" using replace_keeps [of name m "[]" s] by simp
  with Cons show ?case by (simp add: replace_names_def)
qed (simp add: replace_names_def)

text \<open>
  No IPv4 address is shown or sent: the scrubbed form of any text, whatever order addresses, tokens,
  secrets and names come in, contains no four groups of one to three digits between dots (with no
  further digit at either end), if no host or user name that is removed begins or ends with a digit.
\<close>

lemma scrubbed_no_ipv4:
  assumes "scrub_names s hosts users = Some out"
    and "\<forall>name \<in> set (hosts @ users). length name \<ge> 3 \<longrightarrow> plain_ends name"
  shows "\<not> has_ipv4 out"
proof -
  have names: "list_all plain_ends (filter (\<lambda>name. length name \<ge> 3) hosts)"
    "list_all plain_ends (filter (\<lambda>name. length name \<ge> 3 \<and> name \<noteq> ''root'') users)"
    using assms(2) by (auto simp: list_all_iff)
  obtain s' where out: "out = replace_names ''<user>'' (filter (\<lambda>name. length name \<ge> 3 \<and> name \<noteq> ''root'') users)
      (replace_names ''<host>'' (filter (\<lambda>name. length name \<ge> 3) hosts) (scrub_homes (scrub_ipv6_and_mac (scrub_ipv4 s'))))"
    using assms(1) by (auto simp: scrub_names_def)
  have "\<not> has_ipv4 (scrub_homes (scrub_ipv6_and_mac (scrub_ipv4 s')))"
    by (intro homes_keeps ipv6_and_mac_keeps scrub_ipv4_none)
  then show ?thesis
    unfolding out by (intro replace_names_keeps [OF names(2) markers(4)] replace_names_keeps [OF names(1) markers(5)])
qed

text \<open>A text with an address and a home directory in it.\<close>

definition leaky_text :: string where
  "leaky_text = ''a 10.1.2.3 /home/me/x''"

lemma leaky_has: "has_ipv4 leaky_text"
proof -
  have "leaky_text = ''a '' @ quad ''10'' ''1'' ''2'' ''3'' @ '' /home/me/x''"
    "address_at ''a '' ''10'' ''1'' ''2'' ''3'' '' /home/me/x''"
    by (simp_all add: leaky_text_def quad_def address_at_def ip_group_def is_ascii_digit_def short_part_def)
  then show ?thesis unfolding has_ipv4_def by blast
qed

lemma tokens_ascii: "\<forall>c \<in> set s. (of_char c :: nat) < 128 \<Longrightarrow> scrub_tokens s \<noteq> None"
  using nth_mem [of _ s] continuation_ascii by (auto simp: scrub_tokens_def token_ranges_None is_char_boundary_def)

lemma leaky_scrubs: "\<exists>out. scrub_names leaky_text hosts users = Some out"
proof -
  have "scrub_emails (scrub_credentials leaky_text) = leaky_text"
    by (simp add: leaky_text_def scrub_credentials_def credential_ranges.simps starts_with_def splice_def
        scrub_emails_def match_indices_def)
  moreover have "scrub_tokens leaky_text \<noteq> None" by (rule tokens_ascii) (simp add: leaky_text_def)
  ultimately show ?thesis by (auto simp: scrub_names_def)
qed

end
