(* ===== verification/FeedbackProps.thy ===== *)
theory FeedbackProps
  imports Feedback ScrubProps SealProps
begin

text \<open>
  Consent: what is sent and removed after the question, for every answer, every failure to send and
  every text.
\<close>

section \<open>The answer\<close>

definition answered_yes :: "string option list \<Rightarrow> bool" where
  "answered_yes answers =
     (\<exists>views a rest. answers = views @ Some a # rest \<and> is_yes (trim a)
        \<and> (\<forall>v \<in> set views. \<exists>l. v = Some l \<and> is_view (trim l)))"

lemma trim_Nil [simp]: "trim [] = []"
  by (simp add: trim_def)

lemma yes_no_view: "is_yes a \<Longrightarrow> \<not> is_view a" "\<not> is_yes []" "\<not> is_view []"
  by (auto simp: is_yes_def is_view_def)

lemma ask_yes: "fst (ask shown answers) \<longleftrightarrow> answered_yes answers"
proof (induction answers)
  case (Cons a answers)
  have step: "answered_yes (a # answers) \<longleftrightarrow>
      (\<exists>l. a = Some l \<and> (is_yes (trim l) \<or> is_view (trim l) \<and> answered_yes answers))"
  proof
    assume "answered_yes (a # answers)"
    then obtain views y rest where v: "a # answers = views @ Some y # rest" "is_yes (trim y)"
      "\<forall>v \<in> set views. \<exists>l. v = Some l \<and> is_view (trim l)" by (auto simp: answered_yes_def)
    then show "\<exists>l. a = Some l \<and> (is_yes (trim l) \<or> is_view (trim l) \<and> answered_yes answers)"
      by (cases views) (auto simp: answered_yes_def)
  next
    assume "\<exists>l. a = Some l \<and> (is_yes (trim l) \<or> is_view (trim l) \<and> answered_yes answers)"
    then obtain l where l: "a = Some l" "is_yes (trim l) \<or> is_view (trim l) \<and> answered_yes answers" by blast
    then consider "is_yes (trim l)" | views y rest where "is_view (trim l)" "answers = views @ Some y # rest"
      "is_yes (trim y)" "\<forall>v \<in> set views. \<exists>l. v = Some l \<and> is_view (trim l)" by (auto simp: answered_yes_def)
    then show "answered_yes (a # answers)"
    proof cases
      case 1
      then show ?thesis unfolding answered_yes_def by (intro exI [of _ "[]"] exI [of _ l] exI [of _ answers]) (simp add: l(1))
    next
      case (2 views y rest)
      then show ?thesis unfolding answered_yes_def by (intro exI [of _ "a # views"] exI [of _ y] exI [of _ rest]) (simp add: l(1))
    qed
  qed
  show ?case
    unfolding step using Cons yes_no_view by (cases a) (auto simp: Let_def split: prod.splits)
qed (simp add: answered_yes_def)

text \<open>
  What the operator has said, in terms of what \<^verbatim>\<open>ssctl\<close> is started with: the value of the variable
  \<open>SKYLINE_FEEDBACK\<close>, whether the output is for a script, whether there is a terminal, and who runs it.
\<close>

definition says :: "string list \<Rightarrow> string option \<Rightarrow> bool" where
  "says words env = (case env of None \<Rightarrow> False | Some a \<Rightarrow> to_ascii_lowercase a \<in> set words)"

definition yes_in_advance :: "string option \<Rightarrow> bool" where
  "yes_in_advance = says [''1'', ''y'', ''yes'', ''true'']"

definition no_in_advance :: "string option \<Rightarrow> bool" where
  "no_in_advance = says [''0'', ''n'', ''no'', ''false'', ''never'']"

definition asked :: "string option \<Rightarrow> bool \<Rightarrow> bool \<Rightarrow> bool \<Rightarrow> bool \<Rightarrow> bool" where
  "asked env json terminal is_root tty =
     (is_root \<and> \<not> yes_in_advance env \<and> \<not> no_in_advance env \<and> \<not> json \<and> terminal \<and> tty)"

definition consented :: "string option \<Rightarrow> bool \<Rightarrow> bool \<Rightarrow> bool \<Rightarrow> bool \<Rightarrow> string option list \<Rightarrow> bool" where
  "consented env json terminal is_root tty answers =
     (is_root \<and> yes_in_advance env \<or> asked env json terminal is_root tty \<and> answered_yes answers)"

lemma detect_mode:
  "fb_mode (feedback_detect sealed json env terminal is_root) = Send \<longleftrightarrow> is_root \<and> yes_in_advance env"
  "fb_mode (feedback_detect sealed json env terminal is_root) = Ask \<and> tty \<longleftrightarrow> asked env json terminal is_root tty"
  by (auto simp: feedback_detect_def feedback_mode_of_def yes_in_advance_def no_in_advance_def asked_def says_def Let_def
      to_ascii_lowercase_def split: option.splits)

lemma detect_dsn:
  "fb_dsn (feedback_detect sealed json env terminal is_root) =
     (if fb_mode (feedback_detect sealed json env terminal is_root) = Never then None else dsn_sealed sealed)"
  by (simp add: feedback_detect_def Let_def)

section \<open>Sending\<close>

lemma send_all_prefix:
  "\<exists>n \<le> length events. oc_sent (send_all th post events) = map fst (take n events)
     \<and> oc_removed (send_all th post events) = List.map_filter snd (take n events)
     \<and> (n < length events \<longrightarrow> (\<exists>e. post (fst (events ! n)) = Inl e))"
proof (induction events)
  case (Cons ev events)
  obtain event path where ev: "ev = (event, path)" by (cases ev)
  show ?case
  proof (cases "post event")
    case (Inl e)
    then show ?thesis by (intro exI [of _ 0]) (simp add: ev nothing_done_def List.map_filter_def)
  next
    case (Inr u)
    from Cons obtain n where "n \<le> length events" "oc_sent (send_all th post events) = map fst (take n events)"
      "oc_removed (send_all th post events) = List.map_filter snd (take n events)"
      "n < length events \<longrightarrow> (\<exists>e. post (fst (events ! n)) = Inl e)" by blast
    with Inr show ?thesis
      by (intro exI [of _ "Suc n"]) (simp add: ev List.map_filter_simps Let_def split: option.splits)
  qed
qed (simp add: nothing_done_def List.map_filter_def)

lemma offer_outcome:
  assumes "offer_events b h error reports = Some events"
    and "offer th b h fb reports tty answers post error = Some out"
  shows "(\<not> (fb_mode fb = Send \<or> fb_mode fb = Ask \<and> tty \<and> answered_yes answers) \<longrightarrow> oc_sent out = [] \<and> (oc_removed out = [] \<or>
            fb_mode fb = Ask \<and> tty \<and> \<not> answered_yes answers \<and> oc_removed out = map fst reports))
    \<and> ((fb_mode fb = Send \<or> fb_mode fb = Ask \<and> tty \<and> answered_yes answers) \<and> fb_dsn fb \<noteq> None \<and> (error \<noteq> None \<or> reports \<noteq> []) \<longrightarrow>
        (\<exists>n \<le> length events. oc_sent out = map fst (take n events)
          \<and> oc_removed out = List.map_filter snd (take n events)
          \<and> (n < length events \<longrightarrow> (\<exists>e. post (fst (events ! n)) = Inl e))))"
proof (cases "fb_dsn fb = None \<or> (error = None \<and> reports = [])")
  case True
  then show ?thesis using assms(2) by (auto simp: offer_def nothing_done_def)
next
  case False
  obtain yes said where a: "ask (render (map fst events)) answers = (yes, said)" by (cases "ask (render (map fst events)) answers")
  then have yes: "yes = answered_yes answers" using ask_yes [of "render (map fst events)" answers] by simp
  show ?thesis
  proof (cases "fb_mode fb = Send \<or> fb_mode fb = Ask \<and> tty \<and> answered_yes answers")
    case False
    with \<open>\<not> (fb_dsn fb = None \<or> _)\<close> assms a yes show ?thesis
      by (cases "fb_mode fb"; cases tty) (auto simp: offer_def nothing_done_def)
  next
    case True
    with False assms a yes have "oc_sent out = oc_sent (send_all th post events) \<and> oc_removed out = oc_removed (send_all th post events)"
      by (cases "fb_mode fb"; cases tty) (auto simp: offer_def Let_def)
    with True send_all_prefix [of events th post] show ?thesis by simp
  qed
qed


text \<open>A host with one recorded failure, and an operator who views the report and then agrees.\<close>

definition quiet_host :: fb_host where
  "quiet_host = \<lparr>fh_systemd = False, fh_openrc = False, fh_output = (\<lambda>_ _. []), fh_messages = [], fh_os_release = [],
     fh_uname = None, fh_hostname = ''alpha'', fh_var = (\<lambda>_. None)\<rparr>"

definition example_build :: fb_build where
  "example_build = \<lparr>bu_version = ''1.0'', bu_libc = ''glibc'', bu_now = 7, bu_ids = (\<lambda>k. replicate 32 (digit_char k))\<rparr>"

definition example_report :: daemon_report where
  "example_report = \<lparr>dr_version = ''1.0'', dr_kind = ''exited'', dr_message = ''zoom'', dr_first_seen = 1, dr_last_seen = 2, dr_count = 3\<rparr>"

definition plain_theme :: theme where
  "plain_theme = \<lparr>th_color = False, th_unicode = False, th_width = 80, th_sudo = False\<rparr>"

definition asking :: feedback where
  "asking = \<lparr>fb_mode = Ask, fb_dsn = Some \<lparr>dsn_public_key = [], dsn_endpoint = []\<rparr>\<rparr>"

lemma runs_none: "\<forall>c \<in> set s. \<not> p c \<Longrightarrow> runs_from p s i = []"
proof (induction p s i rule: runs_from.induct)
  case (1 p s i)
  then show ?case by (auto simp: runs_from.simps [of p s i])
qed

lemma tokens_short:
  "length s < 16 \<Longrightarrow> \<forall>c \<in> set s. (of_char c :: nat) < 128 \<Longrightarrow> token_ranges s i = Some []"
proof (induction s i rule: token_ranges.induct)
  case (1 s i)
  have "length (takeWhile token_byte (drop k s)) < 16" for k
    using 1(4) length_takeWhile_le [of token_byte "drop k s"] by simp
  then have short: "\<not> 16 \<le> length (takeWhile token_byte (drop k s))" for k by (simp add: not_le)
  have "is_char_boundary s i" if "i < length s"
    using that nth_mem [of i s] 1(5) continuation_ascii by (simp add: is_char_boundary_def)
  with 1 short show ?case
    by (auto simp: token_ranges.simps [of s i] Let_def split: option.splits)
qed

lemma homes_none: "CHR ''/'' \<notin> set s \<Longrightarrow> match_str ''/home/'' s i = []"
proof (induction "''/home/''" s i rule: match_str.induct)
  case (1 s i)
  have "\<not> starts_with (drop i s) ''/home/''"
  proof
    assume "starts_with (drop i s) ''/home/''"
    then have "CHR ''/'' \<in> set (take 6 (drop i s))" by (simp add: starts_with_def numeral_eq_Suc)
    with 1(3) show False by (auto dest: in_set_takeD in_set_dropD)
  qed
  with 1 show ?case by (simp add: match_str.simps [of _ s i])
qed

lemma scrub_zoom: "s \<in> {''zoom'', []} \<Longrightarrow> scrub ''alpha'' (\<lambda>_. None) s = Some s"
  using tokens_short [of s 0] runs_none [of s] homes_none [of s 0]
  by (auto simp: scrub_def scrub_names_def scrub_credentials_def credential_ranges.simps [of _ 0] starts_with_def splice_def
      scrub_emails_def match_indices_def scrub_tokens_def scrub_secret_values_def scrub_ipv4_def runs_def ipv4_byte_def
      is_ascii_digit_def scrub_ipv6_and_mac_def is_ascii_hexdigit_def digit_val_def scrub_homes_def replace_names_def
      split_char_def trim_def is_whitespace_def List.map_filter_def)

definition example_event :: sentry_event where
  "example_event = make_event example_build 0 (host_detect quiet_host) ''daemon exited'' ''zoom'' (Some example_report) []"

lemma example_events:
  "offer_events example_build quiet_host None [(''x.json'', example_report)] = Some [(example_event, Some ''x.json'')]"
  by (simp add: offer_events_def quiet_host_def journal_tail_def init_system_def scrub_zoom example_report_def
      example_event_def Let_def)

lemma some_seal_opens: obtains sealed d where "dsn_sealed sealed = Some d"
proof -
  let ?key = "replicate 32 (CHR ''a'')" and ?host = "''o1.example''" and ?project = "''7''"
  have "list_all is_hex ?key" by (simp add: list_all_iff is_hex_def)
  then have v: "dsn_valid ?key ?host [] ?project"
    by (simp add: dsn_valid_def host_ok_def path_ok_def is_ascii_alphanumeric_def is_ascii_alphabetic_def
        is_ascii_lower_def is_ascii_digit_def)
  have "dsn_text ?key ?host [] ?project \<noteq> []" "length (dsn_text ?key ?host [] ?project) \<le> 2 ^ 37"
    by (simp_all add: dsn_text_def)
  from dsn_sealed_script [OF this(1) dsn_text_ascii [OF v] this(2)] dsn_parse_text [OF v] show ?thesis
    using that by metis
qed


section \<open>What is sent\<close>

lemma event_texts [simp]:
  "se_message (make_event b k host kind m report journal) = m" "se_journal (make_event b k host kind m report journal) = journal"
  by (simp_all add: make_event_def Let_def)

lemma those_in: "those xs = Some ys \<Longrightarrow> y \<in> set ys \<Longrightarrow> Some y \<in> set xs"
  by (induction xs arbitrary: ys) (auto split: option.splits)

lemma offered_scrubbed:
  assumes "offer_events b h error reports = Some events" "(event, path) \<in> set events"
  shows "\<exists>m j. scrub (fh_hostname h) (fh_var h) m = Some (se_message event)
    \<and> scrub (fh_hostname h) (fh_var h) j = Some (se_journal event)"
proof -
  obtain journal first rest where j: "scrub (fh_hostname h) (fh_var h) (journal_tail h) = Some journal"
    and f: "(case error of None \<Rightarrow> Some [] | Some (kind, message) \<Rightarrow>
        map_option (\<lambda>m. [(make_event b 0 (host_detect h) kind m None journal, None)]) (scrub (fh_hostname h) (fh_var h) message))
        = Some first"
    and r: "those (map (\<lambda>(k, path, report). map_option (\<lambda>m. (make_event b k (host_detect h)
        (if dr_kind report = ''panicked'' then ''daemon panicked'' else ''daemon exited'') m (Some report) journal, Some path))
        (scrub (fh_hostname h) (fh_var h) (dr_message report))) (enumerate (length first) reports)) = Some rest"
    and e: "events = first @ rest"
    using assms(1) by (auto simp: offer_events_def Let_def bind_eq_Some_conv)
  from assms(2) e consider "(event, path) \<in> set first" | "(event, path) \<in> set rest" by auto
  then have "se_journal event = journal \<and> (\<exists>m. scrub (fh_hostname h) (fh_var h) m = Some (se_message event))"
  proof cases
    case 1
    with f show ?thesis by (auto split: option.splits)
  next
    case 2
    from those_in [OF r this] show ?thesis by (auto simp: map_option_case split: option.splits)
  qed
  with j show ?thesis by blast
qed

text \<open>The names that are removed: the host's, its first label and those of the users.\<close>

definition names_plain :: "fb_host \<Rightarrow> bool" where
  "names_plain h =
     (\<forall>name \<in> set ([trim (fh_hostname h), hd (split_char (CHR ''.'') (trim (fh_hostname h)))]
         @ List.map_filter (fh_var h) [''SUDO_USER'', ''LOGNAME'']).
       length name \<ge> 3 \<longrightarrow> plain_ends name)"

lemma scrub_none: "names_plain h \<Longrightarrow> scrub (fh_hostname h) (fh_var h) s = Some out \<Longrightarrow> \<not> has_ipv4 out"
  unfolding scrub_def names_plain_def Let_def by (rule scrubbed_no_ipv4)

lemma sent_was_offered:
  assumes "offer th b h fb reports tty answers post error = Some out" "event \<in> set (oc_sent out)"
  obtains events path where "offer_events b h error reports = Some events" "(event, path) \<in> set events"
proof -
  have "\<not> (fb_dsn fb = None \<or> (error = None \<and> reports = []))"
  proof
    assume "fb_dsn fb = None \<or> (error = None \<and> reports = [])"
    then have "out = nothing_done" using assms(1) by (simp add: offer_def)
    with assms(2) show False by (simp add: nothing_done_def)
  qed
  note o = assms(1) [unfolded offer_def if_not_P [OF this]]
  obtain events where ev: "offer_events b h error reports = Some events"
    using o by (cases "offer_events b h error reports") simp_all
  obtain n where "oc_sent (send_all th post events) = map fst (take n events)"
    using send_all_prefix [of events th post] by blast
  moreover have "oc_sent out = [] \<or> oc_sent out = oc_sent (send_all th post events)"
    using o unfolding ev
    by (cases "fb_mode fb"; cases tty) (auto simp: nothing_done_def Let_def split: prod.splits if_splits)
  ultimately have "event \<in> fst ` set events" using assms(2) set_take_subset [of n events] by force
  with ev that show thesis by auto
qed

text \<open>
  C39. No IPv4 address leaves the host: in every event that is sent, neither the message nor the daemon's
  log lines contain four groups of one to three digits between dots (with no further digit at either
  end), whatever the error, the daemon's reports and the log said; provided that no host or user name
  that is removed begins or ends with a digit.
\<close>

theorem sent_without_addresses:
  assumes "offer th b h fb reports tty answers post error = Some out" "event \<in> set (oc_sent out)" "names_plain h"
  shows "\<not> has_ipv4 (se_message event) \<and> \<not> has_ipv4 (se_journal event)"
proof -
  obtain events path where "offer_events b h error reports = Some events" "(event, path) \<in> set events"
    using sent_was_offered [OF assms(1,2)] .
  from offered_scrubbed [OF this] show ?thesis using scrub_none [OF assms(3)] by blast
qed

definition sending :: feedback where
  "sending = asking\<lparr>fb_mode := Send\<rparr>"

theorem sent_without_addresses_witness:
  "\<exists>out event. offer plain_theme example_build quiet_host sending [] False [] (\<lambda>_. Inr ()) (Some (''enable failed'', leaky_text)) = Some out
     \<and> oc_sent out = [event] \<and> has_ipv4 leaky_text \<and> \<not> has_ipv4 (se_message event)"
proof -
  let ?offer = "offer plain_theme example_build quiet_host sending [] False [] (\<lambda>_. Inr ()) (Some (''enable failed'', leaky_text))"
  have np: "names_plain quiet_host"
    by (simp add: names_plain_def quiet_host_def plain_ends_def is_ascii_digit_def split_char_def trim_def
        is_whitespace_def List.map_filter_def)
  obtain m where m: "scrub ''alpha'' (\<lambda>_. None) leaky_text = Some m"
    using leaky_scrubs by (auto simp: scrub_def Let_def)
  let ?event = "make_event example_build 0 (host_detect quiet_host) ''enable failed'' m None []"
  have "offer_events example_build quiet_host (Some (''enable failed'', leaky_text)) [] = Some [(?event, None)]"
    using m by (simp add: offer_events_def quiet_host_def journal_tail_def init_system_def scrub_zoom)
  then obtain out where out: "?offer = Some out" "oc_sent out = [?event]"
    by (auto simp: offer_def sending_def asking_def nothing_done_def Let_def)
  have "\<not> has_ipv4 (se_message ?event)" using sent_without_addresses [OF out(1) _ np] out(2) by simp
  then show ?thesis using out leaky_has by blast
qed

end
