(* ===== verification/View.thy ===== *)
theory View
  imports Style Daemon Flows
begin

text \<open>
  The pages \<^verbatim>\<open>ssctl\<close> prints (\<^verbatim>\<open>view.rs\<close>): the lines a page is put together from, the facts every page
  rests on, and the report of a command that changes something. The operations of \<open>Page\<close> append to
  its text; here each gives the lines it appends.
\<close>

section \<open>Pages\<close>

text \<open>The reply as \<^verbatim>\<open>ssctl\<close> decodes it: the daemon's response with the listing of the flows.\<close>

record reply = response +
  resp_flows :: "flow_report option"

definition SPONSOR :: string where "SPONSOR = ''Exclusively sponsored by Skyline Connect''"
definition SPONSOR_URL :: string where "SPONSOR_URL = ''https://www.skylineconnect.io''"
definition LABEL :: nat where "LABEL = 22"

definition MIDDLE_DOT :: string where "MIDDLE_DOT = [CHR 0xC2, CHR 0xB7]"

definition spaces :: "nat \<Rightarrow> string" where "spaces n = replicate n (CHR '' '')"

text \<open>\<open>{:>width}\<close>.\<close>

definition pad_left :: "nat \<Rightarrow> string \<Rightarrow> string" where
  "pad_left width s = spaces (width - char_count s) @ s"

definition page_blank :: "string list" where "page_blank = [[]]"

definition page_section :: "theme \<Rightarrow> string \<Rightarrow> string list" where
  "page_section th title = [theme_section th title]"

definition page_row :: "theme \<Rightarrow> mark \<Rightarrow> string \<Rightarrow> string \<Rightarrow> string list" where
  "page_row th m label value =
     [trim_end (''   '' @ mark_text th m @ ''  '' @ pad label LABEL @ '' '' @ value)]"

definition page_note :: "theme \<Rightarrow> string \<Rightarrow> string list" where
  "page_note th s =
     (let indent = LABEL + 7
      in map (\<lambda>part. spaces indent @ dim th part) (wrap s (th_width th - indent)))"

definition verdict_text :: "theme \<Rightarrow> mark \<Rightarrow> string \<Rightarrow> string" where
  "verdict_text th m verdict =
     (case m of Good \<Rightarrow> bold_green th verdict | Bad \<Rightarrow> bold_red th verdict | Warn \<Rightarrow> bold_yellow th verdict
      | _ \<Rightarrow> bold th verdict)"

definition page_banner :: "theme \<Rightarrow> string \<Rightarrow> string \<Rightarrow> bool \<Rightarrow> string \<Rightarrow> mark \<Rightarrow> string list" where
  "page_banner th title version lamp_on verdict m =
     (let icon = '' ''; left_plain = icon @ title @ '' '' @ version; right_plain = ''  '' @ verdict;
          gap = max (th_width th - (char_count left_plain + char_count right_plain)) 1
      in [icon @ bold_cyan th title @ '' '' @ dim th version @ spaces gap @ lamp th lamp_on @ '' '' @
            verdict_text th m verdict,
          theme_rule th])"

definition sponsor :: "theme \<Rightarrow> string" where
  "sponsor th = '' '' @ dim th [CHR 0xE2, CHR 0x94, CHR 0x80] @ '' '' @ dim th SPONSOR @ '' '' @ cyan th SPONSOR_URL"

definition page_text :: "string list \<Rightarrow> string" where
  "page_text ls = concat (map (\<lambda>l. l @ [newline]) ls)"

definition page_finish :: "theme \<Rightarrow> string list \<Rightarrow> string" where
  "page_finish th ls = page_text (ls @ page_blank @ [sponsor th])"

text \<open>The whole page of a reply without a status.\<close>

definition no_status :: "theme \<Rightarrow> string \<Rightarrow> string" where
  "no_status th message = '' '' @ mark_text th Bad @ '' '' @ message @ [newline, newline] @ sponsor th @ [newline]"

section \<open>The state of the takeover\<close>

definition default_cc_of :: "runtime_status \<Rightarrow> string" where
  "default_cc_of st = gl_tcp_congestion_control (gs_live (rst_guard st))"

definition carrying_traffic :: "runtime_status \<Rightarrow> bool" where
  "carrying_traffic st = (rst_enabled st \<and> default_cc_of st = SKYLINE_CC_NAME)"

definition view_draining :: "runtime_status \<Rightarrow> bool" where
  "view_draining st = (rst_enabled st \<and> rst_draining st \<and> \<not> carrying_traffic st)"

definition cgroup :: "runtime_status \<Rightarrow> string" where
  "cgroup st = (case rst_cgroup_path st of None \<Rightarrow> ''/sys/fs/cgroup/skyline-speeder'' | Some path \<Rightarrow> path)"

definition module_label :: "sky_module \<Rightarrow> string" where
  "module_label m =
     (case m of EarlyLoss \<Rightarrow> ''M1 early-loss'' | AdaptiveCwnd \<Rightarrow> ''M2 adaptive-cwnd''
      | LossClassifier \<Rightarrow> ''M3 loss-classifier'' | Pacing \<Rightarrow> ''M4 pacing'')"

definition ALL_MODULES :: "sky_module list" where
  "ALL_MODULES = [EarlyLoss, AdaptiveCwnd, LossClassifier, Pacing]"

definition module_on :: "runtime_status \<Rightarrow> sky_module \<Rightarrow> bool" where
  "module_on st m = (rst_enabled st \<and> m \<in> set (rst_modules st))"

abbreviation rto_config :: "runtime_status \<Rightarrow> rack_rto_config" where "rto_config st \<equiv> fst (rst_rack_rto st)"
abbreviation rto_stats_of :: "runtime_status \<Rightarrow> rack_rto_stats_rec option" where "rto_stats_of st \<equiv> fst (snd (rst_rack_rto st))"
abbreviation rto_declared :: "runtime_status \<Rightarrow> rack_rto_config option" where "rto_declared st \<equiv> snd (snd (rst_rack_rto st))"
abbreviation dscp_config :: "runtime_status \<Rightarrow> retransmit_dscp_config" where "dscp_config st \<equiv> fst (rst_retransmit_dscp st)"
abbreviation dscp_stats_of :: "runtime_status \<Rightarrow> retransmit_dscp_stats_rec option" where
  "dscp_stats_of st \<equiv> fst (snd (rst_retransmit_dscp st))"
abbreviation dscp_declared :: "runtime_status \<Rightarrow> retransmit_dscp_config option" where
  "dscp_declared st \<equiv> snd (snd (rst_retransmit_dscp st))"
abbreviation red_config :: "runtime_status \<Rightarrow> redundancy_config" where "red_config st \<equiv> fst (rst_redundancy st)"
abbreviation red_active :: "runtime_status \<Rightarrow> bool" where "red_active st \<equiv> fst (snd (rst_redundancy st))"
abbreviation red_stats_of :: "runtime_status \<Rightarrow> redundancy_stats_rec option" where
  "red_stats_of st \<equiv> snd (snd (rst_redundancy st))"

definition declared_on :: "'a option \<Rightarrow> ('a \<Rightarrow> bool) \<Rightarrow> bool" where
  "declared_on declared on = (case declared of None \<Rightarrow> False | Some c \<Rightarrow> on c)"

definition declared_but_off :: "theme \<Rightarrow> runtime_status \<Rightarrow> string list" where
  "declared_but_off th st =
     (if \<not> rr_enabled (rto_config st) \<and> declared_on (rto_declared st) rr_enabled
      then [''[rack_rto] in the configuration file turns dynamic RTO on, but it is off: the '' @
            ''daemon starts it off, and '' @ theme_command th ''ssctl reset-rack-rto'' @ '' applies the file'']
      else []) @
     (if \<not> rd_enabled (dscp_config st) \<and> declared_on (dscp_declared st) rd_enabled
      then [''[retransmit_dscp] in the configuration file turns DSCP marking on, but it is off: '' @
            ''the daemon starts it off, and '' @ theme_command th ''ssctl reset-retransmit-dscp'' @ '' applies the file'']
      else [])"

section \<open>The report of a command\<close>

text \<open>\<open>split("; ")\<close>.\<close>

fun split_semicolons :: "string \<Rightarrow> string list" where
  "split_semicolons [] = [[]]"
| "split_semicolons (c # cs) =
     (if c = CHR '';'' \<and> take 1 cs = '' '' then [] # split_semicolons (drop 1 cs)
      else (case split_semicolons cs of [] \<Rightarrow> [[c]] | p # ps \<Rightarrow> (c # p) # ps))"

text \<open>The wrapped lines of a text, the first with another lead than the rest.\<close>

definition led_lines :: "string \<Rightarrow> string \<Rightarrow> (string \<Rightarrow> string) \<Rightarrow> string list \<Rightarrow> string list" where
  "led_lines lead lead' draw ls =
     (case ls of [] \<Rightarrow> [] | l # ls \<Rightarrow> (lead @ draw l) # map (\<lambda>l. lead' @ draw l) ls)"

definition action_message :: "theme \<Rightarrow> bool \<Rightarrow> string \<Rightarrow> string list" where
  "action_message th ok message =
     (let parts = split_semicolons message; m = (if ok then Good else Bad);
          draw = (if ok then bold th else bold_red th)
      in led_lines ('' '' @ mark_text th m @ '' '') ''   '' draw (wrap (hd parts) (th_width th - 4)) @
         concat (map (\<lambda>part. led_lines (''   '' @ mark_text th Info @ '' '') ''     '' id (wrap part (th_width th - 6)))
           (tl parts)))"

definition action_state :: "theme \<Rightarrow> runtime_status \<Rightarrow> string list" where
  "action_state th st =
     (let state = (if carrying_traffic st then green th ''accelerating''
                   else if rst_enabled st then yellow th ''attached, but not the host default''
                   else dim th ''not attached'')
      in [''   '' @ mark_text th Info @ '' '' @ state @ ''  '' @
            dim th (''default cc '' @ default_cc_of st @ '' '' @ MIDDLE_DOT @ '' guard '' @
              (if gs_armed (rst_guard st) then ''armed'' else ''not armed'') @ '' '' @ MIDDLE_DOT @ '' '' @
              dec (unat (rst_active_flows st)) @ '' live connection(s)'')])"

definition action :: "theme \<Rightarrow> reply \<Rightarrow> string" where
  "action th r =
     page_finish th (action_message th (resp_ok r) (resp_message r) @
       (case resp_status r of None \<Rightarrow> [] | Some st \<Rightarrow> action_state th st))"

end
