(* ===== verification/StatusView.thy ===== *)
theory StatusView
  imports View
begin

text \<open>The page of \<^verbatim>\<open>ssctl status\<close> (\<^verbatim>\<open>view.rs\<close>): \<open>status\<close> and \<open>guard_section\<close>, section by section.\<close>

section \<open>The takeover\<close>

definition status_verdict :: "runtime_status \<Rightarrow> string \<times> mark" where
  "status_verdict st =
     (if carrying_traffic st then (''ACCELERATING'', Good)
      else if view_draining st then (''DRAINING'', Info)
      else if rst_enabled st then (''ATTACHED, NOT DEFAULT'', Warn)
      else (''STANDBY'', Warn))"

definition version_text :: "runtime_status \<Rightarrow> string" where
  "version_text st = (if rst_version st = [] then ''(version unknown)'' else ''v'' @ rst_version st)"

definition default_cc_text :: "runtime_status \<Rightarrow> string" where
  "default_cc_text st = (if default_cc_of st = [] then ''(unreadable)'' else default_cc_of st)"

definition attachment_lines :: "theme \<Rightarrow> runtime_status \<Rightarrow> string list" where
  "attachment_lines th st =
     (if rst_enabled st
      then page_row th Good ''skyline_cc struct_ops''
             (green th (case rst_attached_s st of Some s \<Rightarrow> ''attached, '' @ duration_text (of_nat s) @ '' ago''
                        | None \<Rightarrow> ''attached''))
      else page_row th Bad ''skyline_cc struct_ops'' (red th ''not attached'') @
           page_note th (''nothing is accelerated until: '' @ theme_command th ''ssctl enable''))"

definition default_lines :: "theme \<Rightarrow> runtime_status \<Rightarrow> string list" where
  "default_lines th st =
     (let default_cc = default_cc_text st
      in if carrying_traffic st
         then page_row th Good ''host default cc'' (green th default_cc @ ''  '' @ dim th ''every new connection'')
         else if view_draining st
         then page_row th Off ''host default cc'' (dim th default_cc) @
              page_note th (''draining: new connections use '' @ default_cc @
                ''; skyline_cc stays registered until its last '' @ count_text (rst_active_flows st) @ '' connections close'') @
              page_note th (theme_command th ''ssctl drain'' @ '' waits for them again, '' @
                theme_command th ''ssctl enable'' @ '' takes the host back'')
         else if rst_enabled st
         then page_row th Bad ''host default cc'' (red th default_cc) @
              page_note th ''skyline_cc is loaded but new connections do not use it'' @
              page_note th (''something rewrote net.ipv4.tcp_congestion_control; re-run: '' @ theme_command th ''ssctl enable'')
         else page_row th Off ''host default cc'' (dim th default_cc))"

definition modules_text :: "theme \<Rightarrow> runtime_status \<Rightarrow> string" where
  "modules_text th st =
     join ''  '' (map (\<lambda>m. if module_on st m then mark_text th Good @ '' '' @ module_label m
                           else mark_text th Off @ '' '' @ dim th (module_label m)) ALL_MODULES)"

definition status_takeover :: "theme \<Rightarrow> runtime_status \<Rightarrow> string list" where
  "status_takeover th st =
     page_section th ''TAKEOVER'' @ attachment_lines th st @ default_lines th st @
     page_row th (if rst_enabled st then Good else Off) ''fallback on drain'' (rst_fallback_cc st) @
     page_row th Info ''modules'' (modules_text th st) @
     page_row th Info ''live connections''
       (bold th (count_text (rst_active_flows st)) @ '' '' @
        dim th (''on skyline_cc  ('' @ theme_command th ''ssctl flows'' @ '')''))"

section \<open>The guard\<close>

definition times :: "theme \<Rightarrow> string \<Rightarrow> u64 \<Rightarrow> string" where
  "times th verb n = (if n = 0 then [] else dim th (''   '' @ verb @ '' '' @ dec (unat n) @ ''x''))"

definition restored :: "theme \<Rightarrow> u64 \<Rightarrow> string" where
  "restored th n = times th ''put back'' n"

text \<open>\<open>ago\<close>: \<open>now\<close> is the clock, \<open>None\<close> before 1970.\<close>

definition ago :: "u64 option \<Rightarrow> u64 \<Rightarrow> u64 option" where
  "ago now unix_s = Option.bind now (\<lambda>n. if unix_s \<le> n then Some (n - unix_s) else None)"

definition guard_state_text :: "theme \<Rightarrow> guard_status \<Rightarrow> bool \<Rightarrow> bool \<Rightarrow> string" where
  "guard_state_text th g enabled drains =
     (if gs_armed g then bold_green th ''ARMED'' @ ''  '' @ dim th (''re-checked every '' @ dec (unat (gs_interval_s g)) @ '' s'')
      else if drains then dim th ''not armed (draining)''
      else if enabled then bold_yellow th ''NOT ARMED''
      else dim th ''not armed (nothing attached)'')"

definition guarded_mark :: "guard_status \<Rightarrow> bool \<Rightarrow> mark \<Rightarrow> mark" where
  "guarded_mark g good otherwise = (if \<not> gs_armed g then Off else if good then Good else otherwise)"

definition device_lines :: "theme \<Rightarrow> guard_status \<Rightarrow> guard_device \<Rightarrow> string list" where
  "device_lines th g device =
     (let qdisc = (case gd_qdisc device of None \<Rightarrow> ''(unreadable)'' | Some q \<Rightarrow> q)
      in page_row th (guarded_mark g (qdisc = ''fq'' \<or> take 5 qdisc = ''mq/fq'') Warn) (gd_name device @ '' root qdisc'')
           (qdisc @ times th ''replaced'' (gs_interface_qdisc_replaced g)))"

definition qdisc_lines :: "theme \<Rightarrow> guard_status \<Rightarrow> string list" where
  "qdisc_lines th g =
     (let live = gs_live g
      in if gs_qdisc g
         then page_row th (guarded_mark g (gl_default_qdisc live = ''fq'') Bad) ''net.core.default_qdisc''
                (gl_default_qdisc live @ restored th (gs_default_qdisc_restored g)) @
              (if gl_devices live = []
               then page_row th Off ''managed interface''
                      (dim th ((case gl_interface live of None \<Rightarrow> ''(none configured)'' | Some i \<Rightarrow> i) @
                        '': no Ethernet device under it''))
               else concat (map (device_lines th g) (gl_devices live)))
         else page_row th Off ''qdisc'' (dim th ''not guarded ([guard] qdisc = false)''))"

definition correction_lines :: "theme \<Rightarrow> u64 option \<Rightarrow> guard_status \<Rightarrow> string list" where
  "correction_lines th now g =
     (case gs_last_correction g of None \<Rightarrow> []
      | Some correction \<Rightarrow>
          page_row th Warn ''last correction''
            ((case Option.bind (gs_last_correction_unix_s g) (ago now) of None \<Rightarrow> []
              | Some seconds \<Rightarrow> dim th (duration_text seconds @ '' ago '' @ MIDDLE_DOT @ '' '')) @ correction))"

definition guard_note_lines :: "theme \<Rightarrow> string \<Rightarrow> string list" where
  "guard_note_lines th note =
     (let parts = wrap note (th_width th - (LABEL + 7))
      in page_row th Warn ''note'' (yellow th (hd parts)) @ concat (map (page_note th) (tl parts)))"

definition guard_section :: "theme \<Rightarrow> u64 option \<Rightarrow> guard_status \<Rightarrow> bool \<Rightarrow> bool \<Rightarrow> string list" where
  "guard_section th now g enabled drains =
     page_section th ''DRIFT GUARD'' @
     page_row th (if gs_armed g then Good else if drains then Off else Warn) ''state''
       (guard_state_text th g enabled drains) @
     page_row th (guarded_mark g (gl_tcp_congestion_control (gs_live g) = SKYLINE_CC_NAME) Bad) ''congestion control''
       (gl_tcp_congestion_control (gs_live g) @ restored th (gs_cc_restored g)) @
     qdisc_lines th g @
     (if gs_checks g > 0 then page_row th Info ''checks run'' (count_text (gs_checks g)) else []) @
     correction_lines th now g @
     (case gs_last_error g of None \<Rightarrow> [] | Some e \<Rightarrow> page_row th Bad ''last error'' (red th e)) @
     concat (map (guard_note_lines th) (gs_notes g))"

section \<open>Kernel, sysctls and daemon\<close>

definition required_text :: "theme \<Rightarrow> runtime_status \<Rightarrow> string" where
  "required_text th st =
     (let caps = rst_capabilities st
      in trim_end (concat (map (\<lambda>(name, present). mark_text th (if present then Good else Bad) @ '' '' @ name @ ''   '')
           [(''BTF'', cap_btf caps), (''bpffs'', cap_bpffs caps), (''cgroup v2'', cap_cgroup_v2 caps), (''fq'', fq_available caps),
            (''struct_ops'', struct_ops caps), (''fallback '' @ rst_fallback_cc st, fallback_cc_available caps)])))"

definition status_kernel :: "theme \<Rightarrow> runtime_status \<Rightarrow> string list" where
  "status_kernel th st =
     page_section th ''KERNEL'' @
     page_row th Info ''release'' (bold th (kernel_release (rst_capabilities st))) @
     page_row th Info ''required'' (required_text th st) @
     page_row th Info ''optional''
       (mark_text th (if rack_reo_hook (rst_capabilities st) then Good else Off) @ '' RACK reorder hook'')"

definition sysctl_lines :: "theme \<Rightarrow> string \<Rightarrow> u32 option \<Rightarrow> u32 option \<Rightarrow> string list" where
  "sysctl_lines th name want have =
     (case (want, have) of
        (Some w, Some h) \<Rightarrow>
          if w = h then page_row th Good name (dec (unat h))
          else page_row th Warn name (yellow th (dec (unat h)) @ '' '' @ dim th (''(configured '' @ dec (unat w) @ '')'')) @
               page_note th ''changed since the daemon started; restart it to re-apply''
      | (Some w, None) \<Rightarrow> page_row th Warn name (''unreadable (configured '' @ dec (unat w) @ '')'')
      | (None, Some h) \<Rightarrow> page_row th Off name (dec (unat h) @ ''  (host)'')
      | (None, None) \<Rightarrow> [])"

definition owned_sysctls :: "runtime_status \<Rightarrow> (string \<times> u32 option \<times> u32 option) list" where
  "owned_sysctls st =
     (case rst_rack_tuning st of (managed, live) \<Rightarrow>
        [(''tcp_recovery'', tcp_recovery managed, tcp_recovery live),
         (''tcp_reordering'', tcp_reordering managed, tcp_reordering live),
         (''tcp_early_retrans'', tcp_early_retrans managed, tcp_early_retrans live)])"

definition status_sysctls :: "theme \<Rightarrow> runtime_status \<Rightarrow> string list" where
  "status_sysctls th st =
     page_section th ''GLOBAL SYSCTLS (M1 tier-1)'' @
     (let owned = owned_sysctls st
      in if list_all (\<lambda>(_, managed, _). managed = None) owned
         then page_row th Off ''ownership'' (dim th ''not owned by skyline-speederd; the host's own values apply'') @
              concat (map (\<lambda>(name, _, live). case live of None \<Rightarrow> []
                           | Some v \<Rightarrow> page_row th Info name (dec (unat v) @ ''  (host)'')) owned)
         else concat (map (\<lambda>(name, want, have). sysctl_lines th name want have) owned))"

definition status_daemon :: "theme \<Rightarrow> runtime_status \<Rightarrow> string list" where
  "status_daemon th st =
     page_section th ''DAEMON'' @
     page_row th Good ''uptime''
       (duration_text (of_nat (rst_uptime_s st)) @
        (if rst_uptime_s st = 0 then dim th ''  (older daemon: not reported)'' else [])) @
     page_row th Info ''config generation''
       (dec (unat (rst_generation st)) @ ''  '' @ dim th ''raised by module, coefficient and RTO changes'')"

section \<open>What needs attention\<close>

definition status_warnings :: "theme \<Rightarrow> runtime_status \<Rightarrow> string list" where
  "status_warnings th st =
     (if \<not> rst_enabled st
      then [''skyline_cc is not attached: this host is not accelerated ('' @ theme_command th ''ssctl enable'' @ '')'']
      else if \<not> carrying_traffic st \<and> \<not> view_draining st
      then [''new connections use '' @ default_cc_text st @ '', not skyline_cc -- the acceleration is bypassed'']
      else []) @
     (if rst_enabled st \<and> \<not> gs_armed (rst_guard st) \<and> \<not> view_draining st
      then [''the guard is not armed: a sysctl file or a \"one-click BBR\" script can move this '' @
            ''host off skyline_cc without any error'']
      else []) @
     (case rto_stats_of st of None \<Rightarrow> []
      | Some stats \<Rightarrow>
          if rr_enabled (rto_config st) \<and> established_cb stats = 0
          then [''dynamic RTO is on but skyline_policy has seen no connection: only processes inside '' @ cgroup st @
                '' pass through it'']
          else []) @
     declared_but_off th st @ cap_notes (rst_capabilities st)"

definition attention_lines :: "theme \<Rightarrow> string \<Rightarrow> string list" where
  "attention_lines th warning =
     led_lines (''   '' @ mark_text th Warn @ ''  '') (spaces 6) (yellow th) (wrap warning (th_width th - 7))"

definition status_attention :: "theme \<Rightarrow> runtime_status \<Rightarrow> string list" where
  "status_attention th st =
     (let warnings = status_warnings th st
      in if warnings = [] then []
         else page_blank @ page_section th ''ATTENTION'' @ concat (map (attention_lines th) warnings))"

definition status_lines :: "theme \<Rightarrow> u64 option \<Rightarrow> runtime_status \<Rightarrow> string list" where
  "status_lines th now st =
     (case status_verdict st of (verdict, m) \<Rightarrow>
        page_banner th ''SKYLINE SPEEDER'' (version_text st) (carrying_traffic st) verdict m) @
     page_blank @ status_takeover th st @
     page_blank @ guard_section th now (rst_guard st) (rst_enabled st) (view_draining st) @
     page_blank @ status_kernel th st @
     page_blank @ status_sysctls th st @
     page_blank @ status_daemon th st @
     status_attention th st"

definition status_view :: "theme \<Rightarrow> u64 option \<Rightarrow> reply \<Rightarrow> string" where
  "status_view th now r =
     (case resp_status r of None \<Rightarrow> no_status th (resp_message r)
      | Some st \<Rightarrow> page_finish th (status_lines th now st))"

end
