(* ===== verification/FlowsView.thy ===== *)
theory FlowsView
  imports View
begin

text \<open>
  The page of \<^verbatim>\<open>ssctl flows\<close> (\<^verbatim>\<open>view.rs\<close>): the connections, the coefficients in force, and the counters of
  the algorithm and of the two programs beside it.
\<close>

section \<open>Rates\<close>

definition f64_ratio :: "u64 \<Rightarrow> u64 \<Rightarrow> f64" where
  "f64_ratio part whole = f64_div (f64_of_nat (unat part)) (f64_of_nat (unat whole))"

definition rate_mark :: "u64 \<Rightarrow> u64 \<Rightarrow> f64 \<Rightarrow> mark" where
  "rate_mark part whole warn_above =
     (if whole = 0 then Off
      else (let rate = f64_ratio part whole
            in if f64_le rate (Finite 0) then Good else if f64_lt rate warn_above then Info else Warn))"

definition percent :: "nat \<Rightarrow> f64 \<Rightarrow> string" where
  "percent k rate = float_text k (f64_mul rate (Finite 100)) @ ''%''"

definition rate_line :: "theme \<Rightarrow> u64 \<Rightarrow> u64 \<Rightarrow> string \<Rightarrow> string" where
  "rate_line th part whole what =
     (if whole = 0 then count_text part @ ''  '' @ dim th ''(nothing to compare against)''
      else (let rate = f64_ratio part whole; m = rate_mark part whole (f64_of_rat (2 / 100))
            in bar th (f64_div rate (f64_of_rat (10 / 100))) 10 m @ '' '' @ bold th (percent 2 rate) @ ''  '' @
               dim th (count_text part @ '' '' @ what @ '' (bar: 0-10%)'')))"

section \<open>Connections\<close>

definition or_dash :: "('a \<Rightarrow> string) \<Rightarrow> 'a option \<Rightarrow> string" where
  "or_dash f v = (case v of None \<Rightarrow> ''-'' | Some x \<Rightarrow> f x)"

definition retrans_cell :: "f64 option \<Rightarrow> string \<times> mark" where
  "retrans_cell ratio =
     (case ratio of None \<Rightarrow> (''-'', Off)
      | Some q \<Rightarrow>
          if f64_le q (Finite 0) then (''0%'', Good)
          else if f64_lt q (f64_of_rat (1 / 100)) then (percent 1 q, Good)
          else if f64_lt q (f64_of_rat (5 / 100)) then (percent 1 q, Warn)
          else (percent 1 q, Bad))"

definition flow_row_text :: "theme \<Rightarrow> flow_row \<Rightarrow> nat \<Rightarrow> string" where
  "flow_row_text th flow peer_width =
     (case retrans_cell (retransmit_ratio flow) of (retrans, m) \<Rightarrow>
        let cell = pad_left 6 retrans;
            painted = (case m of Good \<Rightarrow> green th cell | Warn \<Rightarrow> yellow th cell | Bad \<Rightarrow> red th cell | _ \<Rightarrow> dim th cell)
        in ''   '' @ pad (ellipsize (fr_peer flow) peer_width) peer_width @ ''  '' @
           pad_left 9 (or_dash (\<lambda>v. float_text 1 v @ '' ms'') (fr_rtt_ms flow)) @ ''  '' @
           pad_left 7 (or_dash count_text (fr_cwnd_packets flow)) @ ''  '' @
           cyan th (pad_left 11 (or_dash bits_per_second (fr_pacing_bps flow))) @ ''  '' @
           bold th (pad_left 11 (or_dash bits_per_second (fr_delivery_bps flow))) @ ''  '' @
           pad_left 10 (or_dash bytes_text (fr_bytes_sent flow)) @ ''  '' @ painted)"

text \<open>\<open>filter_map(..).sum()\<close> of unsigned 64-bit integers, which wraps in a release build.\<close>

definition sum_known :: "('a \<Rightarrow> u64 option) \<Rightarrow> 'a list \<Rightarrow> u64" where
  "sum_known f xs = sum_list (List.map_filter f xs)"

definition coverage_of :: "flow_report \<Rightarrow> f64" where
  "coverage_of r = (if tcp_total r > 0 then f64_div (f64_of_nat (on_skyline_cc r)) (f64_of_nat (tcp_total r)) else Finite 0)"

definition coverage_mark :: "flow_report \<Rightarrow> mark" where
  "coverage_mark r =
     (if tcp_total r = 0 then Off
      else if f64_le (f64_of_rat (999 / 1000)) (coverage_of r) then Good
      else if f64_lt (Finite 0) (coverage_of r) then Info else Warn)"

definition coverage_lines :: "theme \<Rightarrow> flow_report \<Rightarrow> bool \<Rightarrow> string list" where
  "coverage_lines th r attached =
     page_row th (coverage_mark r) ''coverage''
       (bar th (coverage_of r) 20 (coverage_mark r) @ '' '' @ bold th (percent 0 (coverage_of r)) @ ''  '' @
        dim th (count_text (of_nat (on_skyline_cc r)) @ '' of '' @ count_text (of_nat (tcp_total r)) @ '' TCP connections'')) @
     (if attached \<and> on_skyline_cc r < tcp_total r
      then page_note th ''connections opened before `enable` keep the algorithm they started on'' else [])"

definition volume_lines :: "theme \<Rightarrow> flow_report \<Rightarrow> string list" where
  "volume_lines th r =
     (let sent = sum_known fr_bytes_sent (accelerated r); retrans = sum_known fr_bytes_retrans (accelerated r)
      in if sent > 0
         then (let ratio = f64_ratio retrans sent;
                   m = (if f64_lt ratio (f64_of_rat (1 / 100)) then Good
                        else if f64_lt ratio (f64_of_rat (5 / 100)) then Warn else Bad)
               in page_row th m ''volume''
                    (bold th (bytes_text sent) @ '' sent '' @ MIDDLE_DOT @ '' '' @ bytes_text retrans @ '' retransmitted  '' @
                     bar th (f64_div ratio (f64_of_rat (10 / 100))) 10 m @ '' '' @ dim th (percent 2 ratio @ '' (bar: 0-10%)'')))
         else [])"

definition peer_width_of :: "theme \<Rightarrow> nat" where
  "peer_width_of th = max 16 (min 44 (th_width th - 69))"

definition table_head :: "nat \<Rightarrow> string" where
  "table_head peer_width =
     ''   '' @ pad ''PEER'' peer_width @ ''  '' @ pad_left 9 ''RTT'' @ ''  '' @ pad_left 7 ''CWND'' @ ''  '' @ pad_left 11 ''PACING'' @
     ''  '' @ pad_left 11 ''DELIVERED'' @ ''  '' @ pad_left 10 ''SENT'' @ ''  '' @ pad_left 6 ''RETR''"

definition table_lines :: "theme \<Rightarrow> flow_report \<Rightarrow> string list" where
  "table_lines th r =
     (let peer_width = peer_width_of th
      in page_blank @ [dim th (table_head peer_width)] @ map (\<lambda>flow. flow_row_text th flow peer_width) (accelerated r) @
         (if truncated r > 0
          then [dim th (''   '' @ count_text (of_nat (truncated r)) @
                  '' more, not shown (sorted by bytes sent; --json has the same cap)'')]
          else []))"

definition connections :: "theme \<Rightarrow> flow_report \<Rightarrow> bool \<Rightarrow> string list" where
  "connections th r attached =
     page_section th ''CONNECTIONS'' @
     (case source_error r of
        Some error \<Rightarrow>
          page_row th Warn ''listing unavailable'' (yellow th error) @
          page_note th ''the counters and coefficients below come from the daemon and are unaffected''
      | None \<Rightarrow>
          coverage_lines th r attached @
          (if accelerated r = [] then [] else volume_lines th r @ table_lines th r))"

section \<open>Parameters\<close>

definition applied_mark :: "bool \<Rightarrow> mark" where
  "applied_mark on = (if on then Good else Off)"

definition tuning_lines :: "theme \<Rightarrow> runtime_status \<Rightarrow> string list" where
  "tuning_lines th st =
     (let t = rst_module_tuning st; m2 = module_on st AdaptiveCwnd; m3 = module_on st LossClassifier; m4 = module_on st Pacing
      in page_row th (applied_mark m2) ''pacing rate''
           (''cruise '' @ float_text 2 (mt_cruise_pacing_gain t) @ ''x bw '' @ MIDDLE_DOT @ '' startup '' @
            float_text 2 (mt_startup_gain t) @ ''x bw '' @ MIDDLE_DOT @ '' cap '' @
            bold th (dec (unat (mt_max_pacing_mbps t)) @ '' Mb/s'') @ '' per flow'') @
         page_row th (applied_mark m2) ''congestion window''
           (count_text (ucast (mt_min_cwnd_packets t)) @ '' '' @ ELLIPSIS @ '' '' @ count_text (ucast (mt_max_cwnd_packets t)) @
            '' packets '' @ MIDDLE_DOT @ '' initial '' @ dec (unat (mt_initial_cwnd_packets t)) @ '' '' @ MIDDLE_DOT @
            '' cruise '' @ float_text 2 (mt_cruise_inflight_gain t) @ ''x BDP'') @
         (if rst_enabled st \<and> \<not> m2
          then page_note th ''M2 is off: the kernel's own window control runs, these are not applied'' else []) @
         page_row th (applied_mark m2) ''queue guardrail''
           (dec (unat (mt_max_queue_delay_ms t)) @ '' ms or '' @ float_text 2 (mt_max_queue_delay_ratio t) @
            ''x base RTT, then gain '' @ float_text 2 (mt_guardrail_gain t)) @
         page_row th (applied_mark m3) ''loss compensation''
           (''up to '' @ percent 0 (mt_loss_inflation_max_ratio t) @ '' of the measured loss rate'') @
         page_row th (applied_mark m2) ''bandwidth estimate''
           (dec (unat (mt_bw_window_rtts t)) @ '' RTT window '' @ MIDDLE_DOT @ '' min-RTT kept '' @
            dec (unat (mt_min_rtt_window_s t)) @ '' s'') @
         page_row th (applied_mark m2) ''startup exit''
           (''under '' @ percent 0 (mt_startup_growth_ratio t) @ '' growth in '' @ dec (unat (mt_startup_plateau_rtts t)) @
            '' measured rounds, or a guardrail trip'') @
         page_row th Info ''framework switches''
           (mark_text th (applied_mark (rst_enabled st \<and> mt_prr_pacing_enabled t)) @ '' PRR pacing   '' @
            mark_text th (applied_mark (rst_enabled st \<and> mt_auto_pacing_enabled t)) @ '' kernel-equivalent pacing cap   '' @
            mark_text th (applied_mark m4) @ '' M4 pacing''))"

definition thousandth :: "nat \<Rightarrow> u32 \<Rightarrow> string" where
  "thousandth k v = float_text k (f64_div (f64_of_nat (unat v)) (Finite 1000))"

definition EN_DASH :: string where "EN_DASH = [CHR 0xE2, CHR 0x80, CHR 0x93]"

definition rto_lines :: "theme \<Rightarrow> runtime_status \<Rightarrow> string list" where
  "rto_lines th st =
     (let rto = rto_config st
      in if rr_enabled rto
         then page_row th Good ''dynamic RTO floor''
                (thousandth 3 (rr_srtt_permille rto) @ ''x srtt, clamped '' @ thousandth 0 (rr_floor_us rto) @ EN_DASH @
                 thousandth 0 (rr_ceiling_us rto) @ '' ms, after '' @ dec (unat (rr_warmup_samples rto)) @ '' samples'') @
              (if rr_rto_max_normal_permille rto > 0
               then page_row th Good ''dynamic RTO ceiling''
                      (thousandth 3 (rr_rto_max_normal_permille rto) @ ''x base RTT, '' @
                       thousandth 3 (rr_rto_max_congested_permille rto) @ ''x while congested'')
               else []) @
              page_note th (''only connections from '' @ cgroup st @ '' pass through it'') @
              (if \<not> rst_enabled st then page_note th ''in force while skyline_cc is detached'' else [])
         else page_row th Off ''dynamic RTO'' (dim th ''off'') @
              (if declared_on (rto_declared st) rr_enabled
               then page_note th (''[rack_rto] in the configuration file turns it on; '' @
                      theme_command th ''ssctl reset-rack-rto'' @ '' applies it'')
               else []))"

definition dscp_lines :: "theme \<Rightarrow> runtime_status \<Rightarrow> string list" where
  "dscp_lines th st =
     (let dscp = dscp_config st
      in if rd_enabled dscp
         then page_row th Good ''retransmit DSCP''
                (''codepoint '' @ dec (unat (rd_dscp_value dscp)) @ '' on every TCP retransmission'') @
              (if \<not> rst_enabled st then page_note th ''in force while skyline_cc is detached'' else [])
         else page_row th Off ''retransmit DSCP'' (dim th ''off'') @
              (if declared_on (dscp_declared st) rd_enabled
               then page_note th (''[retransmit_dscp] in the configuration file turns it on; '' @
                      theme_command th ''ssctl reset-retransmit-dscp'' @ '' applies it'')
               else []))"

definition copies_lines :: "theme \<Rightarrow> runtime_status \<Rightarrow> string list" where
  "copies_lines th st =
     (if red_active st
      then page_row th Good ''first-flight copies''
             (''handshake + first '' @ dec (unat (red_first_kib (red_config st))) @
              '' KiB of each connection sent twice, the copy +'' @ dec (unat (red_delay_ms (red_config st))) @ '' ms'')
      else if red_enabled (red_config st) \<and> view_draining st
      then page_row th Off ''first-flight copies'' (dim th ''stopped by the drain; the next ssctl enable starts them again'')
      else if red_enabled (red_config st) \<and> rst_enabled st
      then page_row th Warn ''first-flight copies''
             (if rst_tc_stats st = None then ''configured, not running: the TC program on runtime.tc_interface is not loaded''
              else ''configured, not running: see the message of the last ssctl enable'')
      else page_row th Off ''first-flight copies'' (dim th ''off''))"

definition parameters :: "theme \<Rightarrow> runtime_status \<Rightarrow> string list" where
  "parameters th st =
     page_section th (if rst_enabled st then ''PARAMETERS IN FORCE'' else ''PARAMETERS (CONFIGURED, NOT IN FORCE)'') @
     tuning_lines th st @ rto_lines th st @ dscp_lines th st @ copies_lines th st"

section \<open>What the algorithm did\<close>

definition mark_rank :: "mark \<Rightarrow> nat" where
  "mark_rank m = (case m of Warn \<Rightarrow> 3 | Info \<Rightarrow> 2 | Good \<Rightarrow> 1 | _ \<Rightarrow> 0)"

text \<open>\<open>max_by_key\<close>: the last of the elements with the greatest key.\<close>

fun worst_mark :: "mark list \<Rightarrow> mark" where
  "worst_mark [] = Off"
| "worst_mark [m] = m"
| "worst_mark (m # m' # ms) = worst_mark ((if mark_rank m' \<ge> mark_rank m then m' else m) # ms)"

definition loss_mark :: "sky_metrics \<Rightarrow> mark" where
  "loss_mark m = rate_mark (loss_events m) (ack_events m) (f64_of_rat (2 / 100))"

definition guardrail_mark :: "sky_metrics \<Rightarrow> mark" where
  "guardrail_mark m = rate_mark (guardrail_hits m) (guardrail_rounds m) (f64_of_rat (5 / 100))"

definition cap_mark :: "sky_metrics \<Rightarrow> mark" where
  "cap_mark m = rate_mark (cwnd_cap_hits m) (ack_events m) (f64_of_rat (5 / 100))"

definition share :: "u64 \<Rightarrow> u64 \<Rightarrow> string" where
  "share part whole = (if whole = 0 then ''-'' else percent 2 (f64_ratio part whole))"

definition recent_mark :: "sky_metrics \<Rightarrow> mark" where
  "recent_mark m = worst_mark [loss_mark m, guardrail_mark m, cap_mark m]"

definition recent :: "theme \<Rightarrow> runtime_status \<Rightarrow> string list" where
  "recent th st =
     (case rst_metrics_recent st of None \<Rightarrow> []
      | Some window \<Rightarrow>
          (let m = mw_metrics window
           in page_row th (recent_mark m) (''last '' @ duration_text (mw_seconds window))
                (count_text (ack_events m) @ '' ack decisions '' @ MIDDLE_DOT @ '' loss '' @ share (loss_events m) (ack_events m)) @
              [spaces (LABEL + 7) @ ''guardrail '' @ share (guardrail_hits m) (guardrail_rounds m) @ '' of '' @
                 count_text (guardrail_rounds m) @ '' rounds '' @ MIDDLE_DOT @ '' at the cap '' @
                 share (cwnd_cap_hits m) (ack_events m)]))"

text \<open>A daemon from before the two counters were told apart has hits and no rounds.\<close>

definition guardrail_lines :: "theme \<Rightarrow> sky_metrics \<Rightarrow> string list" where
  "guardrail_lines th m =
     (if guardrail_hits m > 0 \<and> guardrail_rounds m = 0
      then page_row th (rate_mark (guardrail_hits m) (ack_events m) (f64_of_rat (5 / 100))) ''guardrail hits''
             (rate_line th (guardrail_hits m) (ack_events m) ''of ack decisions'') @
           page_note th (''this daemon counts the queue-delay/ECN guardrail and the cwnd cap together; '' @
             ''0.5.0 and later count them apart'')
      else page_row th (guardrail_mark m) ''guardrail trips''
             (rate_line th (guardrail_hits m) (guardrail_rounds m) (''of '' @ count_text (guardrail_rounds m) @ '' rounds'')) @
           (if guardrail_hits m > 0
            then page_note th (''queue delay or an ECN mark held a round's gain back to guardrail_gain '' @
                   ''(events.jsonl: type 9)'')
            else []) @
           page_row th (cap_mark m) ''cwnd at the cap''
             (rate_line th (cwnd_cap_hits m) (ack_events m) ''of ack decisions'') @
           (if cwnd_cap_hits m > 0
            then page_note th (''max_cwnd_packets held a window at the ceiling: a limit, not a congestion '' @ ''signal'')
            else []))"

definition decisions :: "theme \<Rightarrow> runtime_status \<Rightarrow> string list" where
  "decisions th st =
     page_section th ''WHAT THE ALGORITHM DID'' @
     (case rst_metrics st of
        None \<Rightarrow> page_row th Off ''counters'' (dim th ''no skyline_cc object is loaded, so there is nothing to count'')
      | Some m \<Rightarrow>
          page_row th Info ''window''
            (dim th (case rst_attached_s st of Some s \<Rightarrow> ''since the attach, '' @ duration_text (of_nat s) @ '' ago''
                     | None \<Rightarrow> ''since the attach'')) @
          page_row th Info ''ack decisions'' (bold th (count_text (ack_events m))) @
          page_row th (loss_mark m) ''loss events'' (rate_line th (loss_events m) (ack_events m) ''of ack decisions'') @
          guardrail_lines th m @ recent th st @
          page_row th Info ''mode switches'' (count_text (state_transitions m) @ ''  '' @ dim th ''STARTUP <-> CRUISE'') @
          page_row th Info ''pacing updates'' (count_text (pacing_updates m)) @
          page_row th Info ''delivery samples''
            (count_text (delivered_packets m) @ ''  '' @ dim th ''overlapping rate samples, not a packet count'') @
          (if prr_adjustments m > 0
           then page_row th Warn ''PRR adjustments''
                  (count_text (prr_adjustments m) @ ''  '' @ dim th ''non-zero with M2 on means the PRR bypass did not take'')
           else []))"

section \<open>The programs beside the algorithm\<close>

definition marked_lines :: "theme \<Rightarrow> runtime_status \<Rightarrow> string list" where
  "marked_lines th st =
     (case dscp_stats_of st of None \<Rightarrow> []
      | Some dscp \<Rightarrow>
          if rd_enabled (dscp_config st) \<or> ds_retransmits_marked dscp > 0
          then page_row th Info ''retransmits marked''
                 (count_text (ds_retransmits_marked dscp) @ '' of '' @ count_text (ds_retransmits_detected dscp) @ '' detected'')
          else [])"

definition copied_lines :: "theme \<Rightarrow> runtime_status \<Rightarrow> string list" where
  "copied_lines th st =
     (case red_stats_of st of None \<Rightarrow> []
      | Some copies \<Rightarrow>
          if red_active st \<or> rs_packets copies > 0
          then page_row th (if rs_clone_failed copies = 0 then Info else Warn) ''first-flight copies''
                 (count_text (rs_packets copies) @ '' sent, '' @ bytes_text (rs_bytes copies) @ '' ('' @
                  count_text (rs_handshakes copies) @ '' handshakes)'' @
                  (if rs_clone_failed copies = 0 then []
                   else '', '' @ count_text (rs_clone_failed copies) @ '' could not be made''))
          else [])"

definition tc_lines :: "theme \<Rightarrow> runtime_status \<Rightarrow> string list" where
  "tc_lines th st =
     (case rst_tc_stats st of None \<Rightarrow> []
      | Some egress \<Rightarrow>
          page_blank @ page_section th ''TC EGRESS (skyline_tc)'' @
          page_row th Info ''seen''
            (count_text (ts_packets egress) @ '' packets '' @ MIDDLE_DOT @ '' '' @ bytes_text (ts_bytes egress) @ '' '' @ MIDDLE_DOT @ '' '' @
             count_text (ts_gso_packets egress) @ '' GSO'') @
          marked_lines th st @ copied_lines th st)"

definition policy_lines :: "theme \<Rightarrow> runtime_status \<Rightarrow> string list" where
  "policy_lines th st =
     (case rto_stats_of st of None \<Rightarrow> []
      | Some rto \<Rightarrow>
          (let dynamic_rto = (rr_enabled (rto_config st) \<or> rto_applied rto > 0)
           in page_blank @
              page_section th (if dynamic_rto then ''DYNAMIC RTO (skyline_policy)'' else ''CGROUP POLICY (skyline_policy)'') @
              (if dynamic_rto
               then page_row th (if rto_applied rto > 0 then Good else Warn) ''applied''
                      (bold th (count_text (rto_applied rto)) @ ''  '' @
                       dim th (''rejected '' @ count_text (rto_rejected rto) @ '' '' @ MIDDLE_DOT @ '' warmup '' @
                         count_text (skipped_warmup rto) @ '' '' @ MIDDLE_DOT @ '' unchanged '' @ count_text (rto_unchanged rto)))
               else []) @
              page_row th (if established_cb rto > 0 then Good else if dynamic_rto then Warn else Off) ''connections seen''
                (count_text (established_cb rto)) @
              (if established_cb rto = 0
               then page_note th (''0 means no process in '' @ cgroup st @
                      '' has opened a connection since the daemon started, '' @ ''not an error'')
               else [])))"

definition side_programs :: "theme \<Rightarrow> runtime_status \<Rightarrow> string list" where
  "side_programs th st = tc_lines th st @ policy_lines th st"

section \<open>The page\<close>

definition no_flows :: flow_report where
  "no_flows = \<lparr>accelerated = [], tcp_total = 0, on_skyline_cc = 0, truncated = 0, source_error = None\<rparr>"

definition flows_verdict :: "runtime_status \<Rightarrow> flow_report \<Rightarrow> string \<times> mark" where
  "flows_verdict st r =
     (if \<not> rst_enabled st then (''NOT ACCELERATING'', Bad)
      else if view_draining st then (''DRAINING'', Info)
      else if \<not> carrying_traffic st then (''BYPASSED'', Warn)
      else if on_skyline_cc r = 0 then (''IDLE'', Warn)
      else (''ACCELERATING'', Good))"

definition bypass_lines :: "theme \<Rightarrow> runtime_status \<Rightarrow> string list" where
  "bypass_lines th st =
     (if \<not> rst_enabled st
      then page_row th Bad ''skyline_cc'' (red th ''not attached -- nothing on this host is accelerated'') @
           page_note th (''attach it with: '' @ theme_command th ''ssctl enable'') @ page_blank
      else if view_draining st
      then page_row th Off ''host default cc'' (dim th (default_cc_of st)) @
           page_note th ''draining: new connections no longer use skyline_cc; the ones below are its last'' @ page_blank
      else if \<not> carrying_traffic st
      then page_row th Bad ''host default cc'' (red th (default_cc_of st)) @
           page_note th (''skyline_cc is attached but new connections bypass it ('' @ theme_command th ''ssctl status'' @ '')'') @
           page_blank
      else [])"

definition flows_lines :: "theme \<Rightarrow> runtime_status \<Rightarrow> flow_report \<Rightarrow> string list" where
  "flows_lines th st r =
     (case flows_verdict st r of (verdict, m) \<Rightarrow>
        page_banner th ''ACCELERATED TRAFFIC'' (count_text (of_nat (on_skyline_cc r)) @ '' on skyline_cc'')
          (carrying_traffic st \<and> on_skyline_cc r > 0) verdict m) @
     page_blank @ bypass_lines th st @
     connections th r (rst_enabled st) @ page_blank @ parameters th st @ page_blank @
     decisions th st @ side_programs th st"

definition flows_view :: "theme \<Rightarrow> reply \<Rightarrow> string" where
  "flows_view th r =
     (case resp_status r of None \<Rightarrow> no_status th (resp_message r)
      | Some st \<Rightarrow> page_finish th (flows_lines th st (case resp_flows r of None \<Rightarrow> no_flows | Some f \<Rightarrow> f)))"

end
