(* ===== verification/Cli.thy ===== *)
theory Cli
  imports Feedback StatusView FlowsView
begin

text \<open>
  The command line of \<^verbatim>\<open>ssctl\<close> (\<^verbatim>\<open>main.rs\<close>): the commands and their flags, the request each sends, the page
  its reply is shown as, the exit status, and which report is offered afterwards. Parsing the arguments
  is clap's: a command here is what clap hands to the program, and \<open>clap_accepts\<close> is what the attributes
  of the flags make it promise.
\<close>

section \<open>Commands\<close>

record rack_rto_flags =
  rf_disable :: bool
  rf_srtt_permille :: u32
  rf_floor_us :: u32
  rf_ceiling_us :: u32
  rf_warmup_samples :: u32
  rf_rto_max_normal_permille :: u32
  rf_rto_max_congested_permille :: u32
  rf_rto_max_congestion_ratio_permille :: u32

record module_flags =
  mf_max_pacing_mbps :: u64
  mf_max_cwnd_packets :: u32
  mf_max_queue_delay_ms :: u32
  mf_max_queue_delay_ratio :: f64
  mf_initial_cwnd_packets :: u32
  mf_min_cwnd_packets :: u32
  mf_min_rtt_window_s :: u32
  mf_bw_window_rtts :: u32
  mf_startup_plateau_rtts :: u32
  mf_startup_growth_ratio :: f64
  mf_startup_gain :: f64
  mf_cruise_inflight_gain :: f64
  mf_cruise_pacing_gain :: f64
  mf_guardrail_gain :: f64
  mf_loss_inflation_max_ratio :: f64
  mf_disable_prr_pacing :: bool
  mf_disable_auto_pacing :: bool

datatype command =
    CmdValidate
  | CmdEnable "sky_module list option" bool
  | CmdDisable sky_module
  | CmdStatus
  | CmdFlows
  | CmdSnapshot string
  | CmdDrain u64
  | CmdSetRackRto rack_rto_flags
  | CmdResetRackRto
  | CmdSetModuleConfig module_flags
  | CmdResetModuleConfig
  | CmdSetRetransmitDscp bool "u8 option"
  | CmdResetRetransmitDscp
  | CmdSetRedundancy bool u32 u32
  | CmdResetRedundancy

text \<open>The flags left out: \<open>default_value_t\<close>.\<close>

definition rack_rto_flag_defaults :: rack_rto_flags where
  "rack_rto_flag_defaults =
     \<lparr>rf_disable = False, rf_srtt_permille = 1000, rf_floor_us = 5000, rf_ceiling_us = 200000, rf_warmup_samples = 8,
      rf_rto_max_normal_permille = 0, rf_rto_max_congested_permille = 0, rf_rto_max_congestion_ratio_permille = 0\<rparr>"

definition module_flag_defaults :: module_flags where
  "module_flag_defaults =
     \<lparr>mf_max_pacing_mbps = 1200, mf_max_cwnd_packets = 50000, mf_max_queue_delay_ms = 70,
      mf_max_queue_delay_ratio = f64_of_rat (6 / 10), mf_initial_cwnd_packets = 100, mf_min_cwnd_packets = 32,
      mf_min_rtt_window_s = 30, mf_bw_window_rtts = 6, mf_startup_plateau_rtts = 5,
      mf_startup_growth_ratio = f64_of_rat (20 / 100), mf_startup_gain = f64_of_rat 3, mf_cruise_inflight_gain = f64_of_rat 3,
      mf_cruise_pacing_gain = f64_of_rat (125 / 100), mf_guardrail_gain = f64_of_rat (8 / 10),
      mf_loss_inflation_max_ratio = f64_of_rat (10 / 100), mf_disable_prr_pacing = False, mf_disable_auto_pacing = False\<rparr>"

definition drain_flag_default :: u64 where "drain_flag_default = 300"

definition redundancy_flag_defaults :: command where
  "redundancy_flag_defaults = CmdSetRedundancy False 64 10"

text \<open>The float flags: what does not parse, or is not finite, is refused.\<close>

definition finite_flag :: "string \<Rightarrow> (string, f64) result" where
  "finite_flag s =
     (case parse_f64 s of
        None \<Rightarrow> Inl (if s = [] then ''cannot parse float from empty string'' else ''invalid float literal'')
      | Some v \<Rightarrow> if is_finite v then Inr v else Inl (s @ '' is not a finite number''))"

definition module_floats :: "module_flags \<Rightarrow> f64 list" where
  "module_floats f =
     [mf_max_queue_delay_ratio f, mf_startup_growth_ratio f, mf_startup_gain f, mf_cruise_inflight_gain f,
      mf_cruise_pacing_gain f, mf_guardrail_gain f, mf_loss_inflation_max_ratio f]"

definition clap_accepts :: "command \<Rightarrow> bool" where
  "clap_accepts c =
     (case c of
        CmdEnable modules all_off \<Rightarrow> \<not> (all_off \<and> modules \<noteq> None)
      | CmdSetModuleConfig f \<Rightarrow> list_all is_finite (module_floats f)
      | CmdSetRetransmitDscp disable dscp_value \<Rightarrow> disable = (dscp_value = None)
      | _ \<Rightarrow> True)"

section \<open>Requests\<close>

definition rack_rto_of :: "rack_rto_flags \<Rightarrow> rack_rto_config" where
  "rack_rto_of f =
     \<lparr>rr_enabled = (\<not> rf_disable f), rr_srtt_permille = rf_srtt_permille f, rr_floor_us = rf_floor_us f,
      rr_ceiling_us = rf_ceiling_us f, rr_warmup_samples = rf_warmup_samples f,
      rr_rto_max_normal_permille = rf_rto_max_normal_permille f,
      rr_rto_max_congested_permille = rf_rto_max_congested_permille f,
      rr_rto_max_congestion_ratio_permille = rf_rto_max_congestion_ratio_permille f\<rparr>"

definition module_tuning_of :: "module_flags \<Rightarrow> module_tuning_config" where
  "module_tuning_of f =
     \<lparr>mt_max_pacing_mbps = mf_max_pacing_mbps f, mt_max_cwnd_packets = mf_max_cwnd_packets f,
      mt_max_queue_delay_ms = mf_max_queue_delay_ms f, mt_max_queue_delay_ratio = mf_max_queue_delay_ratio f,
      mt_initial_cwnd_packets = mf_initial_cwnd_packets f, mt_min_cwnd_packets = mf_min_cwnd_packets f,
      mt_min_rtt_window_s = mf_min_rtt_window_s f, mt_bw_window_rtts = mf_bw_window_rtts f,
      mt_startup_plateau_rtts = mf_startup_plateau_rtts f, mt_startup_growth_ratio = mf_startup_growth_ratio f,
      mt_startup_gain = mf_startup_gain f, mt_cruise_inflight_gain = mf_cruise_inflight_gain f,
      mt_cruise_pacing_gain = mf_cruise_pacing_gain f, mt_guardrail_gain = mf_guardrail_gain f,
      mt_loss_inflation_max_ratio = mf_loss_inflation_max_ratio f,
      mt_prr_pacing_enabled = (\<not> mf_disable_prr_pacing f), mt_auto_pacing_enabled = (\<not> mf_disable_auto_pacing f)\<rparr>"

definition request_of :: "command \<Rightarrow> request" where
  "request_of c =
     (case c of
        CmdValidate \<Rightarrow> Validate
      | CmdEnable modules all_off \<Rightarrow> Enable (if all_off then Some [] else modules)
      | CmdDisable m \<Rightarrow> DisableModule m
      | CmdStatus \<Rightarrow> Status
      | CmdFlows \<Rightarrow> Flows
      | CmdSnapshot path \<Rightarrow> Snapshot path
      | CmdDrain timeout \<Rightarrow> Drain timeout
      | CmdSetRackRto f \<Rightarrow> SetRackRto (rack_rto_of f)
      | CmdResetRackRto \<Rightarrow> ResetRackRto
      | CmdSetModuleConfig f \<Rightarrow> SetModuleConfig (module_tuning_of f)
      | CmdResetModuleConfig \<Rightarrow> ResetModuleConfig
      | CmdSetRetransmitDscp disable dscp_value \<Rightarrow>
          SetRetransmitDscp \<lparr>rd_enabled = (\<not> disable), rd_dscp_value = (case dscp_value of None \<Rightarrow> 0 | Some v \<Rightarrow> v)\<rparr>
      | CmdResetRetransmitDscp \<Rightarrow> ResetRetransmitDscp
      | CmdSetRedundancy disable first_kib delay_ms \<Rightarrow>
          SetRedundancy \<lparr>red_enabled = (\<not> disable), red_first_kib = first_kib, red_delay_ms = delay_ms\<rparr>
      | CmdResetRedundancy \<Rightarrow> ResetRedundancy)"

definition is_enable_command :: "command \<Rightarrow> bool" where
  "is_enable_command c = (case c of CmdEnable _ _ \<Rightarrow> True | _ \<Rightarrow> False)"

section \<open>Views\<close>

datatype view = ViewStatus | ViewFlows | ViewAction

definition view_of :: "request \<Rightarrow> view" where
  "view_of rq = (case rq of Status \<Rightarrow> ViewStatus | Flows \<Rightarrow> ViewFlows | _ \<Rightarrow> ViewAction)"

definition view_render :: "view \<Rightarrow> theme \<Rightarrow> u64 option \<Rightarrow> reply \<Rightarrow> string" where
  "view_render v th now r =
     (case v of ViewStatus \<Rightarrow> status_view th now r | ViewFlows \<Rightarrow> flows_view th r | ViewAction \<Rightarrow> action th r)"

section \<open>One run\<close>

text \<open>
  What the run meets: the socket, the encoding of the request and the decoding of the reply, the
  line the daemon answers with, standard output and the clock. \<open>ci_debug\<close> is the text of \<open>{:?}\<close> of an error.
\<close>

record cli_io =
  ci_connect :: "(anyhow, unit) result"
  ci_encode :: "request \<Rightarrow> string"
  ci_send :: "string \<Rightarrow> (anyhow, unit) result"
  ci_line :: "(anyhow, string) result"
  ci_decode :: "string \<Rightarrow> (anyhow, reply) result"
  ci_pretty :: "reply \<Rightarrow> (anyhow, string) result"
  ci_stdout :: "string \<Rightarrow> (anyhow, unit) result"
  ci_stderr_tty :: bool
  ci_now :: "u64 option"
  ci_debug :: "anyhow \<Rightarrow> string"

record cli_arguments =
  ca_socket :: string
  ca_json :: bool
  ca_color :: color_choice
  ca_command :: command

text \<open>A report offered after the command's own output.\<close>

datatype offered = OfferRecorded | OfferError string string | OfferUnreachable string

record cli_end =
  ce_code :: nat
  ce_shown :: "string option"
  ce_stderr :: string
  ce_offer :: offered

definition emit :: "cli_io \<Rightarrow> string \<Rightarrow> (anyhow, unit) result" where
  "emit io s =
     (case ci_stdout io s of
        Inl e \<Rightarrow> if io_kind_of e = Some BrokenPipe then Inr () else with_context ''write to stdout'' (Inl e)
      | Inr _ \<Rightarrow> Inr ())"

definition error_text :: "cli_io \<Rightarrow> anyhow \<Rightarrow> string" where
  "error_text io e = ''Error: '' @ ci_debug io e @ [newline]"

definition fetch_reply :: "cli_io \<Rightarrow> request \<Rightarrow> (anyhow, reply) result" where
  "fetch_reply io rq =
     res_bind (ci_send io (ci_encode io rq @ [newline])) (\<lambda>_.
     res_bind (ci_line io) (\<lambda>line.
     with_context ''decode daemon response'' (ci_decode io (trim line))))"

definition show_reply :: "cli_io \<Rightarrow> theme \<Rightarrow> bool \<Rightarrow> view \<Rightarrow> reply \<Rightarrow> (anyhow, string \<times> string) result" where
  "show_reply io th json wants r =
     (if json
      then res_bind (ci_pretty io r) (\<lambda>s.
           res_bind (emit io (s @ [newline])) (\<lambda>_.
           Inr (s @ [newline], if ci_stderr_tty io then sponsor th @ [newline] else [])))
      else (let s = view_render wants th (ci_now io) r in res_bind (emit io s) (\<lambda>_. Inr (s, []))))"

definition run_cli :: "cli_io \<Rightarrow> theme \<Rightarrow> cli_arguments \<Rightarrow> (anyhow, cli_end) result" where
  "run_cli io th args =
     (case with_context (''connect to '' @ ca_socket args @ '' (is skyline-speederd running?)'') (ci_connect io) of
        Inl e \<Rightarrow> Inr \<lparr>ce_code = 1, ce_shown = None, ce_stderr = error_text io e, ce_offer = OfferUnreachable (alternate_of e)\<rparr>
      | Inr _ \<Rightarrow>
          (let rq = request_of (ca_command args); wants = view_of rq
           in res_bind (fetch_reply io rq) (\<lambda>r.
              res_bind (show_reply io th (ca_json args) wants r) (\<lambda>(out, err).
              Inr (if resp_ok r then \<lparr>ce_code = 0, ce_shown = Some out, ce_stderr = err, ce_offer = OfferRecorded\<rparr>
                   else \<lparr>ce_code = 1, ce_shown = Some out, ce_stderr = err,
                         ce_offer = (if is_enable_command (ca_command args) then OfferError ''enable failed'' (resp_message r)
                                     else OfferRecorded)\<rparr>)))))"

definition finish_cli :: "cli_io \<Rightarrow> (anyhow, cli_end) result \<Rightarrow> cli_end" where
  "finish_cli io r =
     (case r of Inr e \<Rightarrow> e
      | Inl e \<Rightarrow> \<lparr>ce_code = 1, ce_shown = None, ce_stderr = error_text io e, ce_offer = OfferError ''ssctl failed'' (alternate_of e)\<rparr>)"

section \<open>The program\<close>

text \<open>\<open>offer_recorded\<close>, \<open>offer_error\<close> and \<open>offer_unreachable\<close>; \<open>None\<close> is a panic.\<close>

record offer_io =
  oi_terminal :: terminal
  oi_sealed :: string
  oi_answer :: "string option"
  oi_interactive :: bool
  oi_root :: bool
  oi_build :: fb_build
  oi_host :: fb_host
  oi_reports :: "(string \<times> daemon_report) list"
  oi_tty :: bool
  oi_answers :: "string option list"
  oi_post :: "sentry_event \<Rightarrow> (string, unit) result"

definition make_offer :: "offer_io \<Rightarrow> theme \<Rightarrow> feedback \<Rightarrow> offered \<Rightarrow> feedback_outcome option" where
  "make_offer oi th fb what =
     (let ask_for = offer th (oi_build oi) (oi_host oi) fb (oi_reports oi) (oi_tty oi) (oi_answers oi) (oi_post oi)
      in case what of
           OfferRecorded \<Rightarrow> if fb_dsn fb = None then Some nothing_done else ask_for None
         | OfferError kind message \<Rightarrow> if fb_dsn fb = None then Some nothing_done else ask_for (Some (kind, message))
         | OfferUnreachable message \<Rightarrow>
             offer_unreachable th (oi_build oi) (oi_host oi) fb (oi_reports oi) (oi_tty oi) (oi_answers oi) (oi_post oi) message)"

text \<open>The exit status of the process: 101 after a panic.\<close>

definition ssctl_main :: "cli_io \<Rightarrow> offer_io \<Rightarrow> cli_arguments \<Rightarrow> nat \<times> cli_end \<times> feedback_outcome option" where
  "ssctl_main io oi args =
     (let th = theme_detect (oi_terminal oi) (ca_color args);
          fb = feedback_detect (oi_sealed oi) (ca_json args) (oi_answer oi) (oi_interactive oi) (oi_root oi);
          fin = finish_cli io (run_cli io th args);
          offered = make_offer oi th fb (ce_offer fin)
      in (if offered = None then 101 else ce_code fin, fin, offered))"

end
