(* ===== verification/ViewLaws.thy ===== *)
theory ViewLaws
  imports StatusView FlowsView
begin

text \<open>
  What holds of every text a page is put together from. The interface \<open>page_words\<close> names the laws of a
  predicate on texts that a page keeps: it holds of every character but the escape character, of the
  parts of a text it holds of, of two such texts side by side unless a capital C meets a capital C,
  and of a painted text. Two predicates of the pages' readers have these laws: that a text has no two
  capital Cs side by side (no \<^verbatim>\<open>ACCELERATING\<close>), and that it has no escape character while colours are off.
\<close>

lemma split_on_head: "split_on p s = v # vs \<Longrightarrow> \<exists>b. s = v @ b"
proof (induction s arbitrary: v vs)
  case (Cons c s)
  obtain u us where "split_on p s = u # us" using split_on_nonempty by (metis list.exhaust)
  with Cons show ?case by (auto split: if_splits)
qed simp

lemma split_on_part: "w \<in> set (split_on p s) \<Longrightarrow> \<exists>a b. s = a @ w @ b"
proof (induction s arbitrary: w)
  case (Cons c s)
  obtain u us where u: "split_on p s = u # us" using split_on_nonempty by (metis list.exhaust)
  obtain b where "s = u @ b" using split_on_head [OF u] by auto
  then have "w = c # u \<Longrightarrow> c # s = [] @ w @ b" by simp
  moreover have "w \<in> set (u # us) \<Longrightarrow> \<exists>a b. c # s = a @ w @ b"
    using Cons.IH u by (metis append_Cons)
  moreover have "w = [] \<or> w = c # u \<or> w \<in> set (u # us)" using Cons.prems u by (auto split: if_splits)
  ultimately show ?case by (metis append_Nil)
qed simp

abbreviation capital_c :: char where "capital_c \<equiv> CHR ''C''"

locale page_words =
  fixes ok :: "string \<Rightarrow> bool" and th :: theme
  assumes ok_char: "c \<noteq> escape_char \<Longrightarrow> ok [c]"
    and ok_part: "ok (a @ s @ b) \<Longrightarrow> ok s"
    and ok_beside: "ok a \<Longrightarrow> ok b \<Longrightarrow> a = [] \<or> b = [] \<or> last a \<noteq> capital_c \<or> hd b \<noteq> capital_c \<Longrightarrow> ok (a @ b)"
    and ok_paint: "ok s \<Longrightarrow> capital_c \<notin> set code \<Longrightarrow> escape_char \<notin> set code \<Longrightarrow> ok (paint th code s)"
begin

lemma ok_Nil [simp]: "ok []"
  using ok_part [of "[]" "[]" "''x''"] ok_char [of "CHR ''x''"] by simp

lemma ok_front: "ok (a @ b) \<Longrightarrow> ok a" and ok_rear: "ok (a @ b) \<Longrightarrow> ok b"
  using ok_part [of "[]" a b] ok_part [of a b "[]"] by simp_all

lemma ok_Cons [simp]:
  assumes "c \<noteq> capital_c" "c \<noteq> escape_char"
  shows "ok (c # s) \<longleftrightarrow> ok s"
  using ok_beside [of "[c]" s] ok_char [OF assms(2)] ok_rear [of "[c]" s] assms(1) by auto

lemma ok_C [simp]: "ok [capital_c]" "c \<noteq> capital_c \<Longrightarrow> ok (capital_c # c # s) \<longleftrightarrow> ok (c # s)"
  using ok_char [of capital_c] ok_beside [of "[capital_c]" "c # s"] ok_rear [of "[capital_c]" "c # s"] by auto

lemma ok_sep [simp]:
  assumes "c \<noteq> capital_c" "c \<noteq> escape_char"
  shows "ok (a @ c # s) \<longleftrightarrow> ok a \<and> ok s"
  using ok_beside [of a "c # s"] ok_front [of a "c # s"] ok_rear [of a "c # s"] assms by auto

lemma ok_plain: "\<forall>c \<in> set s. c \<noteq> capital_c \<and> c \<noteq> escape_char \<Longrightarrow> ok s"
  by (induction s) auto

lemma ok_plain_append: "\<forall>c \<in> set s. c \<noteq> capital_c \<and> c \<noteq> escape_char \<Longrightarrow> ok (s @ t) \<longleftrightarrow> ok t"
  by (induction s) auto

lemma ok_paints [simp]:
  assumes "ok s"
  shows "ok (bold th s)" "ok (dim th s)" "ok (red th s)" "ok (green th s)" "ok (yellow th s)" "ok (cyan th s)"
    "ok (bold_cyan th s)" "ok (bold_green th s)" "ok (bold_red th s)" "ok (bold_yellow th s)"
  using assms
  by (simp_all add: bold_def dim_def red_def green_def yellow_def cyan_def bold_cyan_def bold_green_def
      bold_red_def bold_yellow_def ok_paint)

lemma ok_spaces [simp]: "ok (spaces n)" "ok (spaces n @ s) \<longleftrightarrow> ok s" "ok (replicate n (CHR '' ''))"
  by (simp_all add: spaces_def ok_plain ok_plain_append)

lemma ok_concat_lits: "(\<And>s. s \<in> set ss \<Longrightarrow> \<forall>c \<in> set s. c \<noteq> capital_c \<and> c \<noteq> escape_char) \<Longrightarrow> ok (concat ss)"
  by (rule ok_plain) auto

lemma ok_repeat [simp]: "\<forall>c \<in> set s. c \<noteq> capital_c \<and> c \<noteq> escape_char \<Longrightarrow> ok (repeat_str n s)"
  unfolding repeat_str_def by (rule ok_concat_lits) (simp split: if_splits)

lemma ok_dim_beside:
  assumes "ok s" "s \<noteq> []"
  shows "ok b \<Longrightarrow> last s \<noteq> capital_c \<Longrightarrow> ok (dim th s @ b)" and "ok a \<Longrightarrow> hd s \<noteq> capital_c \<Longrightarrow> ok (a @ dim th s)"
  using assms by (auto intro!: ok_beside simp: dim_def ok_paint) (simp_all add: paint_def RESET_def split: if_splits)

text \<open>Numbers.\<close>

lemma ok_dec [simp]: "ok (dec n)" "ok (dec n @ s) \<longleftrightarrow> ok s"
proof -
  have d: "\<forall>c \<in> set (dec n). c \<noteq> capital_c \<and> c \<noteq> escape_char"
    using dec_digits by (fastforce simp: is_ascii_digit_def)
  show "ok (dec n)" "ok (dec n @ s) \<longleftrightarrow> ok s" by (simp_all add: ok_plain [OF d] ok_plain_append [OF d])
qed

lemma ok_group [simp]: "\<forall>c \<in> set ds. c \<noteq> capital_c \<and> c \<noteq> escape_char \<Longrightarrow> ok (group_digits ds)"
  by (induction ds rule: group_digits.induct) auto

lemma ok_count [simp]: "ok (count_text v)"
proof -
  have "\<forall>c \<in> set (dec (unat v)). c \<noteq> capital_c \<and> c \<noteq> escape_char"
    using dec_digits by (fastforce simp: is_ascii_digit_def)
  then show ?thesis by (simp add: count_text_def)
qed

lemma ok_duration [simp]: "ok (duration_text s)"
  by (simp add: duration_text_def Let_def)

lemma ok_fixed [simp]: "ok (fixed_text k q)"
proof -
  have "ok (replicate j (CHR ''0'') @ dec m)" for j m by (simp add: ok_plain_append)
  then show ?thesis by (simp add: fixed_text_def Let_def)
qed

lemma ok_float [simp]: "ok (float_text k v)"
  by (simp add: float_text_def split: f64.split)

lemma scale_unit_in: "scale_unit v step u us = (w, x) \<Longrightarrow> x \<in> set (u # us)"
  by (induction v step u us rule: scale_unit.induct) (auto split: if_splits)

lemma ok_scale:
  assumes "list_all ok units" "units \<noteq> []"
  shows "ok (scale v step units)"
proof (cases "scale_unit v step (hd units) (tl units)")
  case (Pair w x)
  then have "ok x" using scale_unit_in [OF Pair] assms by (auto simp: list_all_iff)
  then show ?thesis using Pair by (auto simp: scale_def)
qed

lemma ok_units [simp]: "ok (bytes_text v)" "ok (bits_per_second v)"
  by (simp_all add: bytes_text_def bits_per_second_def ok_scale)

text \<open>Marks, columns and lines.\<close>

lemma ok_glyphs [simp]: "ok (mark_text th m)" "ok (lamp th on)" "ok (theme_rule th)" "ok MIDDLE_DOT" "ok (bar th ratio n m)"
proof -
  show "ok (mark_text th m)" by (cases m) (simp_all add: mark_text_def mark_glyph_def Let_def)
  show "ok (lamp th on)" by (simp add: lamp_def Let_def)
  show "ok (theme_rule th)" by (simp add: theme_rule_def rule_glyph_def)
  show "ok MIDDLE_DOT" by (simp add: MIDDLE_DOT_def)
  have cells: "ok (repeat_str a [CHR 0xE2, CHR 0x96, CHR 0x88] @ repeat_str b [CHR 0xE2, CHR 0x96, CHR 0x91])"
    "ok (repeat_str a ''#'' @ repeat_str b ''.'')" for a b
    by (rule ok_plain, auto simp: repeat_str_def)+
  show "ok (bar th ratio n m)"
    unfolding bar_def Let_def
    by (intro ok_dim_beside) (cases m; simp add: cells)+
qed

lemma ok_trim_end [simp]: "ok s \<Longrightarrow> ok (trim_end s)"
proof -
  have "s = trim_end s @ rev (takeWhile is_whitespace (rev s))"
    unfolding trim_end_def by (metis rev_append rev_rev_ident takeWhile_dropWhile_id)
  then show "ok s \<Longrightarrow> ok (trim_end s)" using ok_front by metis
qed

lemma ok_pad [simp]: "ok s \<Longrightarrow> ok (pad s n)" "ok s \<Longrightarrow> ok (pad_left n s)"
proof -
  have "ok (replicate j (CHR '' ''))" for j by simp
  then have "ok s \<Longrightarrow> ok (s @ replicate j (CHR '' ''))" for j by (cases j) simp_all
  then show "ok s \<Longrightarrow> ok (pad s n)" "ok s \<Longrightarrow> ok (pad_left n s)" by (simp_all add: pad_def pad_left_def)
qed

lemma ok_word: "ok s \<Longrightarrow> w \<in> set (split_whitespace s) \<Longrightarrow> ok w"
  using split_on_part [of w is_whitespace s] ok_part by (auto simp: split_whitespace_def)

lemma ok_wrap_words: "ok line \<Longrightarrow> list_all ok ws \<Longrightarrow> list_all ok (wrap_words n line ws)"
  by (induction n line ws rule: wrap_words.induct) simp_all

lemma ok_wrap: "ok s \<Longrightarrow> list_all ok (wrap s n)"
  using ok_wrap_words [of "[]" "split_whitespace s" "max n 20"] ok_word [of s]
  by (simp add: wrap_def Let_def list_all_iff)

lemma ok_section [simp]: "ok title \<Longrightarrow> list_all ok (page_section th title)"
  by (simp add: page_section_def theme_section_def Let_def rule_glyph_def)

lemma ok_row [simp]: "ok label \<Longrightarrow> ok v \<Longrightarrow> list_all ok (page_row th m label v)"
  by (simp add: page_row_def)

lemma ok_note [simp]: "ok s \<Longrightarrow> list_all ok (page_note th s)"
  using ok_wrap [of s "th_width th - (LABEL + 7)"] by (simp add: page_note_def Let_def list_all_iff)

lemma ok_blank [simp]: "list_all ok page_blank"
  by (simp add: page_blank_def)

lemma ok_led_lines:
  "ok lead \<Longrightarrow> ok lead' \<Longrightarrow> (\<And>l. ok l \<Longrightarrow> ok (draw l)) \<Longrightarrow> list_all ok ls
   \<Longrightarrow> list_all ok (led_lines (lead @ '' '') (lead' @ '' '') draw ls)"
  by (auto simp: led_lines_def list_all_iff split: list.split)

lemma ok_banner [simp]:
  "ok title \<Longrightarrow> ok version \<Longrightarrow> ok verdict \<Longrightarrow> list_all ok (page_banner th title version on verdict m)"
proof -
  have "ok verdict \<Longrightarrow> ok (verdict_text th m verdict)" by (cases m) (simp_all add: verdict_text_def)
  moreover have "ok a \<Longrightarrow> ok b \<Longrightarrow> ok (a @ spaces (max n 1) @ b)" for a b n
    by (cases "max n 1") (simp_all add: spaces_def ok_plain_append)
  ultimately show "ok title \<Longrightarrow> ok version \<Longrightarrow> ok verdict \<Longrightarrow> ?thesis"
    by (simp add: page_banner_def Let_def)
qed

lemma ok_sponsor [simp]: "ok (sponsor th)"
  by (simp add: sponsor_def SPONSOR_def SPONSOR_URL_def)

lemma ok_page [simp]: "ok (page_text ls) \<longleftrightarrow> list_all ok ls" "ok (page_finish th ls) \<longleftrightarrow> list_all ok ls"
proof -
  show "ok (page_text ls) \<longleftrightarrow> list_all ok ls" for ls by (induction ls) (simp_all add: page_text_def)
  then show "ok (page_finish th ls) \<longleftrightarrow> list_all ok ls" by (simp add: page_finish_def)
qed

lemma ok_no_status [simp]: "ok message \<Longrightarrow> ok (no_status th message)"
  by (simp add: no_status_def)

lemma ok_command [simp]: "ok command \<Longrightarrow> ok (theme_command th command)" "ok command \<Longrightarrow> ok s \<Longrightarrow> ok (theme_command th command @ CHR '' '' # s)"
  by (simp_all add: theme_command_def)

end

end
