(* ===== verification/ViewSections.thy ===== *)
theory ViewSections
  imports ViewLaws
begin

text \<open>
  Every section of every page keeps a predicate with the laws of \<open>page_words\<close>, as long as the texts of the
  daemon that it shows do.
\<close>

section \<open>The daemon's texts on a page\<close>

lemma split_semicolons_Cons: "\<exists>p ps. split_semicolons s = p # ps \<and> (\<exists>b. s = p @ b)"
proof (induction s rule: split_semicolons.induct)
  case (2 c cs)
  show ?case
  proof (cases "c = CHR '';'' \<and> take 1 cs = '' ''")
    case False
    then obtain p ps b where "split_semicolons cs = p # ps" "cs = p @ b" using 2(2) by auto
    with False show ?thesis by auto
  qed simp
qed simp

lemma split_semicolons_part: "w \<in> set (split_semicolons s) \<Longrightarrow> \<exists>a b. s = a @ w @ b"
proof (induction s arbitrary: w rule: split_semicolons.induct)
  case (2 c cs)
  show ?case
  proof (cases "c = CHR '';'' \<and> take 1 cs = '' ''")
    case True
    then have cs: "cs = CHR '' '' # drop 1 cs" by (cases cs) auto
    show ?thesis
    proof (cases "w = []")
      case False
      then have "w \<in> set (split_semicolons (drop 1 cs))" using 2(3) True by auto
      from 2(1) [OF True this] obtain a b where "drop 1 cs = a @ w @ b" by auto
      with cs have "c # cs = (c # CHR '' '' # a) @ w @ b" by simp
      then show ?thesis by blast
    qed (auto intro: exI [of _ "[]"])
  next
    case False
    obtain p ps b where p: "split_semicolons cs = p # ps" "cs = p @ b" using split_semicolons_Cons [of cs] by auto
    consider "w = c # p" | "w \<in> set (split_semicolons cs)" using 2(3) False p(1) by auto
    then show ?thesis
    proof cases
      case 1
      with p(2) have "c # cs = [] @ w @ b" by simp
      then show ?thesis by blast
    next
      case 2
      then obtain a b where "cs = a @ w @ b" using "2.IH"(2) [OF False] by blast
      then have "c # cs = (c # a) @ w @ b" by simp
      then show ?thesis by blast
    qed
  qed
qed simp

definition status_texts :: "runtime_status \<Rightarrow> string list" where
  "status_texts st =
     (let g = rst_guard st; live = gs_live g
      in [rst_version st, rst_fallback_cc st, kernel_release (rst_capabilities st), cgroup st,
          gl_tcp_congestion_control live, gl_default_qdisc live] @
         List.map_filter id [gl_interface live, gs_last_correction g, gs_last_error g] @
         concat (map (\<lambda>d. gd_name d # (case gd_qdisc d of None \<Rightarrow> [] | Some q \<Rightarrow> [q])) (gl_devices live)) @
         gs_notes g @ cap_notes (rst_capabilities st))"

context page_words
begin

lemma texts_ok:
  assumes "list_all ok (status_texts st)"
  shows "ok (rst_version st)" "ok (rst_fallback_cc st)" "ok (kernel_release (rst_capabilities st))" "ok (cgroup st)"
    "ok (default_cc_of st)" "ok (gl_tcp_congestion_control (gs_live (rst_guard st)))" "ok (gl_default_qdisc (gs_live (rst_guard st)))"
    "gl_interface (gs_live (rst_guard st)) = Some i \<Longrightarrow> ok i"
    "gs_last_correction (rst_guard st) = Some s \<Longrightarrow> ok s"
    "gs_last_error (rst_guard st) = Some s \<Longrightarrow> ok s"
    "list_all ok (gs_notes (rst_guard st))" "list_all ok (cap_notes (rst_capabilities st))"
    "dev \<in> set (gl_devices (gs_live (rst_guard st))) \<Longrightarrow> ok (gd_name dev)"
  using assms by (auto simp: status_texts_def Let_def default_cc_of_def list_all_iff List.map_filter_def)

lemma qdisc_ok:
  assumes "list_all ok (status_texts st)" "dev \<in> set (gl_devices (gs_live (rst_guard st)))" "gd_qdisc dev = Some s"
  shows "ok s"
proof -
  have "s \<in> set (status_texts st)" using assms(2,3) by (fastforce simp: status_texts_def Let_def)
  with assms(1) show ?thesis by (simp add: list_all_iff)
qed

lemma ok_default_cc: "ok (default_cc_of st) \<Longrightarrow> ok (default_cc_text st)"
  by (simp add: default_cc_text_def)

lemma ok_attachment: "list_all ok (attachment_lines th st)"
  by (simp add: attachment_lines_def split: option.split)

lemma ok_default_lines: "ok (default_cc_of st) \<Longrightarrow> list_all ok (default_lines th st)"
  by (simp add: default_lines_def Let_def ok_default_cc)

lemma ok_modules: "ok (modules_text th st)"
proof -
  have "ok (module_label m)" for m by (cases m) (simp_all add: module_label_def)
  then show ?thesis by (simp add: modules_text_def ALL_MODULES_def)
qed

lemma ok_takeover: "list_all ok (status_texts st) \<Longrightarrow> list_all ok (status_takeover th st)"
  by (simp add: status_takeover_def texts_ok ok_attachment ok_default_lines ok_modules)

lemma ok_times: "ok verb \<Longrightarrow> ok s \<Longrightarrow> ok (s @ times th verb n)"
  by (simp add: times_def ok_dim_beside)

lemma ok_devices:
  assumes "list_all ok (status_texts st)"
  shows "list_all ok (concat (map (device_lines th (rst_guard st)) (gl_devices (gs_live (rst_guard st)))))"
proof -
  have "list_all ok (device_lines th (rst_guard st) dev)" if "dev \<in> set (gl_devices (gs_live (rst_guard st)))" for dev
    using texts_ok [OF assms] qdisc_ok [OF assms that] that
    by (auto simp: device_lines_def Let_def ok_times split: option.split)
  then show ?thesis by (simp add: list_all_iff)
qed

lemma ok_qdisc_lines: "list_all ok (status_texts st) \<Longrightarrow> list_all ok (qdisc_lines th (rst_guard st))"
  using texts_ok(8) [of st]
  by (auto simp: qdisc_lines_def Let_def restored_def ok_times texts_ok ok_devices split: option.split)

lemma ok_correction: "list_all ok (status_texts st) \<Longrightarrow> list_all ok (correction_lines th now (rst_guard st))"
  using texts_ok(9) [of st] by (auto simp: correction_lines_def ok_dim_beside MIDDLE_DOT_def split: option.split)

lemma ok_notes: "list_all ok ns \<Longrightarrow> list_all ok (concat (map (page_note th) ns))"
  by (induction ns) simp_all

lemma ok_guard_note: "ok note \<Longrightarrow> list_all ok (guard_note_lines th note)"
proof -
  assume "ok note"
  then have w: "list_all ok (wrap note n)" for n by (rule ok_wrap)
  have "wrap note n \<noteq> []" for n by (simp add: wrap_def Let_def)
  then have "ok (hd (wrap note n))" "list_all ok (tl (wrap note n))" for n
    using w [of n] by (cases "wrap note n"; simp)+
  then show ?thesis by (simp add: guard_note_lines_def Let_def ok_notes)
qed

lemma ok_guard:
  assumes "list_all ok (status_texts st)"
  shows "list_all ok (guard_section th now (rst_guard st) on drains)"
proof -
  have "ok (guard_state_text th (rst_guard st) on drains)" by (simp add: guard_state_text_def)
  moreover have "list_all ok (concat (map (guard_note_lines th) (gs_notes (rst_guard st))))"
    using texts_ok(11) [OF assms] ok_guard_note by (auto simp: list_all_iff)
  ultimately show ?thesis
    using texts_ok(10) [OF assms]
    by (auto simp: guard_section_def restored_def ok_times texts_ok [OF assms] ok_qdisc_lines [OF assms]
        ok_correction [OF assms] split: option.split)
qed

lemma ok_kernel: "list_all ok (status_texts st) \<Longrightarrow> list_all ok (status_kernel th st)"
  by (simp add: status_kernel_def required_text_def Let_def texts_ok)

lemma ok_sysctl: "ok name \<Longrightarrow> list_all ok (sysctl_lines th name want have)"
  by (simp add: sysctl_lines_def split: option.split)

lemma ok_sysctls: "list_all ok (status_sysctls th st)"
  by (simp add: status_sysctls_def owned_sysctls_def Let_def ok_sysctl split: prod.split option.split)

lemma ok_daemon: "list_all ok (status_daemon th st)"
  by (simp add: status_daemon_def ok_dim_beside)

lemma ok_warnings: "list_all ok (status_texts st) \<Longrightarrow> list_all ok (status_warnings th st)"
  by (simp add: status_warnings_def declared_but_off_def texts_ok(4,5,12) ok_default_cc split: option.split)

lemma ok_attention: "list_all ok (status_texts st) \<Longrightarrow> list_all ok (status_attention th st)"
proof -
  have six: "spaces 6 = spaces 5 @ '' ''" by (simp add: spaces_def numeral_eq_Suc)
  have lead: "''   '' @ mark_text th Warn @ ''  '' = (''   '' @ mark_text th Warn @ '' '') @ '' ''" by simp
  have one: "list_all ok (attention_lines th w)" if "ok w" for w
    unfolding attention_lines_def six lead by (rule ok_led_lines) (simp_all add: ok_wrap [OF that])
  have "list_all ok ws \<Longrightarrow> list_all ok (concat (map (attention_lines th) ws))" for ws
    by (induction ws) (simp_all add: one)
  then show "list_all ok (status_texts st) \<Longrightarrow> ?thesis"
    using ok_warnings by (simp add: status_attention_def Let_def)
qed

lemma ok_status_lines:
  assumes "list_all ok (status_texts st)" "ok ''ACCELERATING'' \<or> \<not> carrying_traffic st"
  shows "list_all ok (status_lines th now st)"
proof -
  have "ok (fst (status_verdict st))" using assms(2) by (auto simp: status_verdict_def)
  moreover have "ok (version_text st)" using texts_ok [OF assms(1)] by (simp add: version_text_def)
  ultimately show ?thesis
    by (simp add: status_lines_def ok_takeover ok_guard ok_kernel ok_sysctls ok_daemon ok_attention assms(1) split_beta)
qed

lemma ok_percent [simp]: "ok (percent k q)"
  by (simp add: percent_def)

lemma ok_rate_line: "ok what \<Longrightarrow> ok (rate_line th part whole what)"
  by (simp add: rate_line_def Let_def)

lemma ok_or_dash [simp]: "(\<And>x. ok (f x)) \<Longrightarrow> ok (or_dash f v)"
  by (simp add: or_dash_def split: option.split)

lemma ok_ellipsize: "ok s \<Longrightarrow> ok (ellipsize s n)"
proof -
  have "\<exists>b. s = take_chars n s @ b" for s n
    by (induction n s rule: take_chars.induct) (auto split: nat.split)
  then have "ok s \<Longrightarrow> ok (take_chars n s)" for s n using ok_front by metis
  then show "ok s \<Longrightarrow> ?thesis" by (simp add: ellipsize_def ELLIPSIS_def)
qed

lemma ok_flow_row: "ok (fr_peer flow) \<Longrightarrow> ok (flow_row_text th flow n)"
proof -
  obtain cell m where c: "retrans_cell (retransmit_ratio flow) = (cell, m)" by (cases "retrans_cell (retransmit_ratio flow)")
  have "ok cell" using c by (auto simp: retrans_cell_def split: option.splits if_splits)
  then show "ok (fr_peer flow) \<Longrightarrow> ?thesis"
    by (cases m) (simp_all add: flow_row_text_def c Let_def ok_ellipsize)
qed

lemma ok_connections:
  assumes "list_all ok (map fr_peer (accelerated r))" "\<And>e. source_error r = Some e \<Longrightarrow> ok e"
  shows "list_all ok (connections th r on)"
proof -
  have "list_all ok (coverage_lines th r on)" by (simp add: coverage_lines_def)
  moreover have "list_all ok (volume_lines th r)" by (simp add: volume_lines_def Let_def)
  moreover have rows: "list_all ok (map (\<lambda>flow. flow_row_text th flow n) (accelerated r))" for n
    using assms(1) by (simp add: list_all_iff ok_flow_row)
  moreover have "list_all ok (table_lines th r)"
    unfolding table_lines_def Let_def table_head_def using rows by simp
  ultimately show ?thesis using assms(2) by (auto simp: connections_def split: option.split)
qed

lemma ok_parameters: "ok (cgroup st) \<Longrightarrow> list_all ok (parameters th st)"
proof -
  assume c: "ok (cgroup st)"
  have "list_all ok (tuning_lines th st)" by (simp add: tuning_lines_def Let_def ELLIPSIS_def MIDDLE_DOT_def)
  moreover have "list_all ok (rto_lines th st)" using c by (simp add: rto_lines_def Let_def thousandth_def EN_DASH_def)
  moreover have "list_all ok (dscp_lines th st)" by (simp add: dscp_lines_def Let_def)
  moreover have "list_all ok (copies_lines th st)" by (simp add: copies_lines_def)
  ultimately show ?thesis by (simp add: parameters_def)
qed

lemma ok_decisions: "list_all ok (decisions th st)"
proof -
  have "ok (share a b)" for a b by (simp add: share_def)
  then have "list_all ok (recent th st)" by (simp add: recent_def Let_def MIDDLE_DOT_def split: option.split)
  moreover have "list_all ok (guardrail_lines th m)" for m by (simp add: guardrail_lines_def ok_rate_line)
  ultimately show ?thesis by (simp add: decisions_def ok_rate_line split: option.split)
qed

lemma ok_side_programs: "ok (cgroup st) \<Longrightarrow> list_all ok (side_programs th st)"
proof -
  assume c: "ok (cgroup st)"
  have "list_all ok (marked_lines th st)" by (simp add: marked_lines_def split: option.split)
  moreover have "list_all ok (copied_lines th st)" by (simp add: copied_lines_def split: option.split)
  moreover have "list_all ok (policy_lines th st)" using c
    by (simp add: policy_lines_def Let_def MIDDLE_DOT_def split: option.split)
  ultimately show ?thesis by (simp add: side_programs_def tc_lines_def MIDDLE_DOT_def split: option.split)
qed

lemma ok_flows_lines:
  assumes "list_all ok (status_texts st)" "list_all ok (map fr_peer (accelerated r))" "\<And>e. source_error r = Some e \<Longrightarrow> ok e"
    and "ok ''ACCELERATED TRAFFIC''" "ok ''ACCELERATING''"
  shows "list_all ok (flows_lines th st r)"
proof -
  have "ok (fst (flows_verdict st r))" using assms(5) by (simp add: flows_verdict_def)
  moreover have "list_all ok (bypass_lines th st)" using texts_ok(5) [OF assms(1)] by (simp add: bypass_lines_def)
  ultimately show ?thesis
    using texts_ok(4) [OF assms(1)] assms(4) ok_connections [OF assms(2,3)]
    by (simp add: flows_lines_def split_beta ok_parameters ok_decisions ok_side_programs)
qed

lemma ok_action_message:
  assumes "ok message"
  shows "list_all ok (action_message th okay message)"
proof -
  have parts: "ok p" if "p \<in> set (split_semicolons message)" for p
    using split_semicolons_part [OF that] ok_part assms by auto
  obtain p ps where p: "split_semicolons message = p # ps" using split_semicolons_Cons [of message] by auto
  have three: "''   '' = ''  '' @ '' ''" and five: "''     '' = ''    '' @ '' ''" by simp_all
  have "list_all ok (led_lines ((''   '' @ mark_text th Info) @ '' '') (''    '' @ '' '') id (wrap q n))" if "q \<in> set ps" for q n
    using that parts p by (intro ok_led_lines) (simp_all add: ok_wrap)
  then have "list_all ok (concat (map (\<lambda>q. led_lines (''   '' @ mark_text th Info @ '' '') ''     '' id (wrap q n)) ps))" for n
    by (auto simp: list_all_iff)
  moreover have "list_all ok (led_lines (('' '' @ mark_text th m) @ '' '') (''  '' @ '' '') (if okay then bold th else bold_red th) (wrap p n))" for m n
    using parts p by (intro ok_led_lines) (simp_all add: ok_wrap)
  ultimately show ?thesis using p by (simp add: action_message_def Let_def)
qed

lemma ok_action:
  assumes "ok (resp_message r)" "\<And>st. resp_status r = Some st \<Longrightarrow> ok (default_cc_of st)"
  shows "ok (action th r)"
proof -
  have "list_all ok (action_state th st)" if "ok (default_cc_of st)" for st
    using that by (simp add: action_state_def Let_def MIDDLE_DOT_def)
  then show ?thesis using assms by (simp add: action_def ok_action_message split: option.split)
qed

end

end
