(* ===== verification/ViewProps.thy ===== *)
theory ViewProps
  imports ViewSections
begin

text \<open>
  What a reader of \<^verbatim>\<open>ssctl\<close>'s pages can rely on: \<^verbatim>\<open>ssctl status | grep -q ACCELERATING\<close> answers whether new
  connections go through \<^verbatim>\<open>skyline_cc\<close>, a page without colours has no escape character, and no warning is
  cut.
\<close>

section \<open>The two readers\<close>

fun no_cc :: "string \<Rightarrow> bool" where
  "no_cc (a # b # s) = (\<not> (a = capital_c \<and> b = capital_c) \<and> no_cc (b # s))"
| "no_cc s = True"

lemma no_cc_Cons: "no_cc (c # s) \<longleftrightarrow> no_cc s \<and> \<not> (c = capital_c \<and> s \<noteq> [] \<and> hd s = capital_c)"
  by (cases s) auto

lemma no_cc_append:
  "no_cc (a @ b) \<longleftrightarrow> no_cc a \<and> no_cc b \<and> \<not> (a \<noteq> [] \<and> b \<noteq> [] \<and> last a = capital_c \<and> hd b = capital_c)"
proof (induction a)
  case (Cons c a)
  then show ?case by (cases "a = []") (auto simp: no_cc_Cons hd_append)
qed simp

lemma no_cc_plain: "capital_c \<notin> set s \<Longrightarrow> no_cc s"
  by (induction s) (auto simp: no_cc_Cons)

lemma starts_with_iff: "starts_with s p \<longleftrightarrow> (\<exists>b. s = p @ b)"
  unfolding starts_with_def by (metis append_eq_conv_conj append_take_drop_id)

lemma contains_str_iff: "contains_str s p \<longleftrightarrow> (\<exists>a b. s = a @ p @ b)"
proof (induction s)
  case (Cons c s)
  have "(\<exists>a b. c # s = a @ p @ b) \<longleftrightarrow> (\<exists>b. c # s = p @ b) \<or> (\<exists>a b. s = a @ p @ b)"
    by (metis append_Cons append_Nil neq_Nil_conv list.inject)
  then show ?case using Cons by (simp add: starts_with_iff)
qed simp

lemma no_cc_no_verdict: "no_cc s \<Longrightarrow> \<not> contains_str s ''ACCELERATING''"
  by (auto simp: contains_str_iff no_cc_append)

definition no_escape :: "theme \<Rightarrow> string \<Rightarrow> bool" where
  "no_escape th s = (th_color th \<or> escape_char \<notin> set s)"

interpretation cc: page_words no_cc th for th
  by unfold_locales (auto simp: no_cc_append no_cc_Cons no_cc_plain paint_def RESET_def)

interpretation plain: page_words "no_escape th" th for th
  by unfold_locales (auto simp: no_escape_def paint_def)

section \<open>What the pages say\<close>

lemma page_text_append: "page_text (a @ b) = page_text a @ page_text b"
  by (simp add: page_text_def)

lemma page_text_part: "ls = pre @ mid @ post \<Longrightarrow> \<exists>a b. page_finish th ls = a @ page_text mid @ b"
  by (simp add: page_finish_def page_text_append) blast

lemma paint_contains: "\<exists>a b. verdict_text th m s = a @ s @ b"
proof -
  have "\<exists>a b. paint th code s = a @ s @ b" for code
    by (cases "th_color th") (auto simp: paint_def intro: exI [of _ "[]"] exI [of _ "escape_char # ''['' @ code @ ''m''"])
  then show ?thesis
    by (cases m) (simp_all add: verdict_text_def bold_green_def bold_red_def bold_yellow_def bold_def)
qed

lemma banner_shows:
  "\<exists>a b. page_text (page_banner th title version on verdict m) = a @ verdict @ b"
proof -
  obtain a b where v: "verdict_text th m verdict = a @ verdict @ b" using paint_contains by blast
  show ?thesis
    unfolding page_banner_def page_text_def Let_def v
    by (rule exI, rule exI [of _ "b @ newline # theme_rule th @ [newline]"]) (simp del: append_assoc add: append_assoc [symmetric])
qed

lemma wrap_not_Nil: "wrap s n \<noteq> []"
  by (simp add: wrap_def Let_def)

lemma split_whitespace_space: "split_whitespace (CHR '' '' # s) = split_whitespace s"
  by (simp add: split_whitespace_def is_whitespace_def)

lemma warning_lines:
  assumes "\<not> th_color th"
  shows "concat (map split_whitespace (attention_lines th w)) = mark_glyph (th_unicode th) Warn # split_whitespace w"
proof -
  obtain l ls where w: "wrap w (th_width th - 7) = l # ls"
    by (metis list.exhaust wrap_not_Nil)
  have g: "is_word (mark_glyph (th_unicode th) Warn)" by (simp add: mark_glyph_def is_word_def is_whitespace_def)
  have "concat (map split_whitespace (wrap w (th_width th - 7))) = split_whitespace w" by (simp add: wrap_keeps_words)
  moreover have "split_whitespace (spaces n @ s) = split_whitespace s" for n s
    by (induction n) (simp_all add: spaces_def split_whitespace_space)
  ultimately show ?thesis
    using assms g
    by (simp add: attention_lines_def led_lines_def w mark_text_def yellow_def paint_def split_whitespace_space comp_def is_word_def text_simps)
qed

text \<open>
  C20. \<^verbatim>\<open>ssctl status | grep -q ACCELERATING\<close>, the documented check, answers the question it is asked: the
  page has the word exactly when \<^verbatim>\<open>skyline_cc\<close> is attached and the host's new connections use it,
  whatever the terminal, the time and the rest of the reply are, as long as no text the daemon sends
  along has two capital Cs side by side itself.
\<close>

theorem status_tells_takeover:
  assumes "resp_status r = Some st" and "list_all no_cc (status_texts st)"
  shows "contains_str (status_view th now r) ''ACCELERATING''
    \<longleftrightarrow> rst_enabled st \<and> gl_tcp_congestion_control (gs_live (rst_guard st)) = SKYLINE_CC_NAME"
proof (cases "carrying_traffic st")
  case True
  obtain a b where "page_text (page_banner th ''SKYLINE SPEEDER'' (version_text st) True ''ACCELERATING'' Good) = a @ ''ACCELERATING'' @ b"
    using banner_shows by blast
  moreover obtain c d where "status_view th now r
      = c @ page_text (page_banner th ''SKYLINE SPEEDER'' (version_text st) True ''ACCELERATING'' Good) @ d"
    using page_text_part [of "status_lines th now st" "[]" _ _ th] assms(1) True
    by (fastforce simp: status_view_def status_lines_def status_verdict_def)
  ultimately have "status_view th now r = (c @ a) @ ''ACCELERATING'' @ (b @ d)" by simp
  then have "contains_str (status_view th now r) ''ACCELERATING''" unfolding contains_str_iff by blast
  with True show ?thesis by (simp add: carrying_traffic_def default_cc_of_def)
next
  case False
  have "no_cc (status_view th now r)"
    using cc.ok_status_lines [OF assms(2)] False assms(1) by (simp add: status_view_def)
  with False show ?thesis using no_cc_no_verdict by (auto simp: carrying_traffic_def default_cc_of_def)
qed

text \<open>All the texts of a reply that reach a page.\<close>

definition reply_texts :: "reply \<Rightarrow> string list" where
  "reply_texts r =
     resp_message r # (case resp_status r of None \<Rightarrow> [] | Some st \<Rightarrow> status_texts st) @
     (case resp_flows r of None \<Rightarrow> []
      | Some f \<Rightarrow> map fr_peer (accelerated f) @ (case source_error f of None \<Rightarrow> [] | Some e \<Rightarrow> [e]))"

text \<open>
  Without colours (\<^verbatim>\<open>--color never\<close>, \<^verbatim>\<open>NO_COLOR\<close>, a pipe) no page has an escape character of its own: if
  none of the reply's texts has one, neither the report of \<^verbatim>\<open>status\<close>, nor that of \<^verbatim>\<open>flows\<close>, nor that of any
  other command has one.
\<close>

lemma pages_without_colours:
  assumes "\<not> th_color th" and "\<forall>t \<in> set (reply_texts r). escape_char \<notin> set t"
  shows "escape_char \<notin> set (status_view th now r) \<union> set (flows_view th r) \<union> set (action th r)"
proof -
  have e: "no_escape th s \<longleftrightarrow> escape_char \<notin> set s" for s using assms(1) by (simp add: no_escape_def)
  have m: "no_escape th (resp_message r)"
    and s: "resp_status r = Some st \<Longrightarrow> list_all (no_escape th) (status_texts st)"
    and f: "resp_flows r = Some f \<Longrightarrow> list_all (no_escape th) (map fr_peer (accelerated f))"
      "resp_flows r = Some f \<Longrightarrow> source_error f = Some x \<Longrightarrow> no_escape th x" for st f x
    using assms(2) by (auto simp: e reply_texts_def list_all_iff)
  have l: "no_escape th ''ACCELERATED TRAFFIC''" "no_escape th ''ACCELERATING''" by (simp_all add: no_escape_def)
  have "no_escape th (status_view th now r)"
    using m s plain.ok_status_lines l(2) by (auto simp: status_view_def split: option.split)
  moreover have "list_all (no_escape th) (flows_lines th st (case resp_flows r of None \<Rightarrow> no_flows | Some f \<Rightarrow> f))"
    if "resp_status r = Some st" for st
    using s [OF that] f l by (intro plain.ok_flows_lines) (auto simp: no_flows_def split: option.splits)
  then have "no_escape th (flows_view th r)" using m by (auto simp: flows_view_def split: option.split)
  moreover have "no_escape th (action th r)"
    by (rule plain.ok_action) (use m plain.texts_ok(5) [OF s] in auto)
  ultimately show ?thesis by (simp add: e)
qed

text \<open>
  No warning of the status report is cut: without colours, the words of the lines that show it are
  the warning's mark followed by the words of the warning, in their order.
\<close>

lemma warnings_shown_whole:
  assumes "\<not> th_color th" and "resp_status r = Some st" and "w \<in> set (status_warnings th st)"
  shows "\<exists>a ls b. status_view th now r = a @ page_text ls @ b
    \<and> concat (map split_whitespace ls) = mark_glyph (th_unicode th) Warn # split_whitespace w"
proof -
  obtain us vs where ws: "status_warnings th st = us @ w # vs" using assms(3) by (metis split_list)
  then have "\<exists>p q. status_attention th st = p @ attention_lines th w @ q"
    unfolding status_attention_def Let_def ws by (simp flip: append_assoc) blast
  moreover have "\<exists>p. status_lines th now st = p @ status_attention th st"
    unfolding status_lines_def by (simp flip: append_assoc)
  ultimately obtain p q where "status_lines th now st = p @ attention_lines th w @ q" by (metis append_assoc)
  from page_text_part [OF this, of th] obtain a b where "status_view th now r = a @ page_text (attention_lines th w) @ b"
    using assms(2) by (auto simp: status_view_def)
  with warning_lines [OF assms(1)] show ?thesis by blast
qed

section \<open>A reply\<close>

text \<open>A host whose default something switched back to \<^verbatim>\<open>bbr\<close>.\<close>

definition example_status :: runtime_status where
  "example_status =
     \<lparr>rst_version = ''0.5.2'', rst_enabled = True, rst_generation = 3, rst_modules = [Pacing], rst_fallback_cc = ''cubic'',
      rst_active_flows = 7, rst_tc_stats = None, rst_metrics = None, rst_metrics_recent = None,
      rst_rack_tuning = (rack_tuning shipped_config, rack_tuning shipped_config),
      rst_rack_rto = (rack_rto_disabled, None, None), rst_retransmit_dscp = (retransmit_dscp_disabled, None, None),
      rst_redundancy = (redundancy_disabled, False, None), rst_module_tuning = from_config shipped_config,
      rst_capabilities = \<lparr>kernel_release = ''6.12.63'', cap_btf = True, cap_bpffs = True, cap_cgroup_v2 = True,
        fq_available = True, struct_ops = True, rack_reo_hook = False, fallback_cc_available = True, cap_notes = []\<rparr>,
      rst_guard = \<lparr>gs_armed = True, gs_interval_s = 10, gs_qdisc = False, gs_checks = 0, gs_cc_restored = 0,
        gs_default_qdisc_restored = 0, gs_interface_qdisc_replaced = 0, gs_last_correction = None,
        gs_last_correction_unix_s = None, gs_last_error = None,
        gs_live = \<lparr>gl_tcp_congestion_control = ''bbr'', gl_default_qdisc = ''fq'', gl_interface = None,
          gl_interface_qdisc = None, gl_devices = []\<rparr>, gs_notes = []\<rparr>,
      rst_uptime_s = 60, rst_attached_s = Some 50, rst_draining = False, rst_cgroup_path = None\<rparr>"

definition example_reply :: reply where
  "example_reply = \<lparr>resp_ok = True, resp_message = ''status'', resp_status = Some example_status,
     resp_wants_flows = False, resp_flows = None\<rparr>"

definition plain_theme :: theme where
  "plain_theme = \<lparr>th_color = False, th_unicode = False, th_width = 80, th_sudo = True\<rparr>"

lemma example_texts: "status_texts example_status = [''0.5.2'', ''cubic'', ''6.12.63'', ''/sys/fs/cgroup/skyline-speeder'', ''bbr'', ''fq'']"
  by (simp add: status_texts_def example_status_def cgroup_def List.map_filter_def)

theorem status_tells_takeover_witness:
  "\<not> contains_str (status_view plain_theme None example_reply) ''ACCELERATING''"
  using status_tells_takeover [of example_reply example_status plain_theme None]
  by (simp add: example_texts) (simp add: example_reply_def example_status_def SKYLINE_CC_NAME_def)

end
