(* ===== verification/Program.thy ===== *)
theory Program
  imports Server Feedback EventLog
begin

text \<open>
  The program \<^verbatim>\<open>skyline-speederd\<close> around its parts: \<open>run\<close>, \<open>main\<close> with the report it leaves when \<open>run\<close> fails, the
  reader of the kernel's events, and the thread that turns a signal into a request to stop. The report
  is then what \<^verbatim>\<open>ssctl\<close> finds.
\<close>

section \<open>Kernel events\<close>

record sky_event =
  ev_timestamp_ns :: u64
  ev_socket_cookie :: u64
  ev_value_a :: u64
  ev_value_b :: u64
  ev_event_type :: u32
  ev_state :: u32

definition le_value :: "u8 list \<Rightarrow> nat" where
  "le_value bs = foldr (\<lambda>b n. unat b + 256 * n) bs 0"

definition field_at :: "nat \<Rightarrow> nat \<Rightarrow> u8 list \<Rightarrow> nat" where
  "field_at i k bs = le_value (take k (drop i bs))"

text \<open>\<open>try_from_bytes\<close>: the size of the structure, at an address it may be read from (libbpf's is).\<close>

definition event_of_bytes :: "u8 list \<Rightarrow> sky_event option" where
  "event_of_bytes bs =
     (if length bs \<noteq> 40 then None
      else Some \<lparr>ev_timestamp_ns = of_nat (field_at 0 8 bs), ev_socket_cookie = of_nat (field_at 8 8 bs),
                 ev_value_a = of_nat (field_at 16 8 bs), ev_value_b = of_nat (field_at 24 8 bs),
                 ev_event_type = of_nat (field_at 32 4 bs), ev_state = of_nat (field_at 36 4 bs)\<rparr>)"

text \<open>
  The callback of the ring buffer. \<open>to_json\<close> is serde's text of the event's fields, and \<open>locked\<close> whether the
  mutex of the log can be taken.
\<close>

definition read_event ::
  "(sky_event \<Rightarrow> string option) \<Rightarrow> bool \<Rightarrow> io_ok \<Rightarrow> u8 list \<Rightarrow> event_log \<times> file_system \<Rightarrow> event_log \<times> file_system" where
  "read_event to_json locked io bs s =
     (case Option.bind (event_of_bytes bs) to_json of
        None \<Rightarrow> s
      | Some line \<Rightarrow> if locked then (case s of (l, fs) \<Rightarrow> snd (event_log_append io (line @ [newline]) l fs)) else s)"

definition read_events ::
  "(sky_event \<Rightarrow> string option) \<Rightarrow> (bool \<times> io_ok \<times> u8 list) list \<Rightarrow> event_log \<times> file_system \<Rightarrow> event_log \<times> file_system" where
  "read_events to_json evs s = fold (\<lambda>(locked, io, bs). read_event to_json locked io bs) evs s"

section \<open>Running and stopping\<close>

record 'q run_io =
  ru_read :: "string \<Rightarrow> (string, string) result"
  ru_parse :: "string \<Rightarrow> (string, toml_table) result"
  ru_decode_toml :: "toml_table \<Rightarrow> (string, skyline_config) result"
  ru_encode_toml :: "skyline_config \<Rightarrow> toml_table option"
  ru_float :: "f64 \<Rightarrow> string"
  ru_probe :: probe_host
  ru_log_opened :: "(anyhow, unit) result"
  ru_now :: nat
  ru_printed :: "(anyhow, unit) result"
  ru_load_cc :: "string \<Rightarrow> (anyhow, unit) result"
  ru_load_object :: "string \<Rightarrow> (anyhow, unit) result"
  ru_decode :: "string \<Rightarrow> (string, request) result"
  ru_start :: start_io
  ru_env :: "'q env"
  ru_events :: "'q serve_event list"
  ru_stop_env :: "'q env"

definition run_daemon ::
  "'q run_io \<Rightarrow> arguments \<Rightarrow> 'q dworld \<Rightarrow> nodes \<Rightarrow> ((anyhow, unit) result \<times> 'q dworld \<times> nodes) option" where
  "run_daemon u a w fs =
     (case load_daemon (ru_read u) (ru_parse u) (ru_decode_toml u) (ru_encode_toml u) (ru_float u) (ru_probe u)
             (ru_log_opened u) (ru_now u) a of
        Inl x \<Rightarrow> Some (Inl x, w, fs)
      | Inr d \<Rightarrow>
          if arg_validate_only a
          then Some (res_bind (ru_printed u) (\<lambda>_. run_check (ru_load_cc u) (ru_load_object u) a d), w, fs)
          else serve (ru_decode u) (ru_start u) (ru_env u) (ru_events u) (ru_stop_env u) d w fs)"

text \<open>\<open>main\<close>: what \<open>run\<close> returned, and the directory of the reports afterwards.\<close>

definition daemon_main ::
  "'q run_io \<Rightarrow> string \<Rightarrow> report_json \<Rightarrow> report_io \<Rightarrow> u64 \<Rightarrow> arguments \<Rightarrow> 'q dworld \<Rightarrow> nodes \<Rightarrow> report_dir
   \<Rightarrow> ((anyhow, unit) result \<times> report_dir) option" where
  "daemon_main u version json rio now a w fs dir =
     map_option (\<lambda>(r, _, _).
         (r, if arg_validate_only a then dir
             else (case r of Inl x \<Rightarrow> record_report version json rio ''exited'' (alternate_of x) now dir | Inr _ \<Rightarrow> dir)))
       (run_daemon u a w fs)"

text \<open>The panic hook: what a thread that panics leaves.\<close>

definition record_panics :: "string \<Rightarrow> report_json \<Rightarrow> report_io \<Rightarrow> string \<Rightarrow> u64 \<Rightarrow> report_dir \<Rightarrow> report_dir" where
  "record_panics version json rio info now dir = record_report version json rio ''panicked'' info now dir"

text \<open>The client the signal watcher is to its own daemon; \<open>encode\<close> is serde's.\<close>

definition shutdown_client :: "(request \<Rightarrow> string) \<Rightarrow> client" where
  "shutdown_client encode =
     \<lparr>cl_sent = encode Shutdown @ [newline], cl_closed = False, cl_read_timeout = Inr (), cl_write_timeout = Inr ()\<rparr>"

section \<open>A request over the socket\<close>

lemma with_context_Inr [simp]: "with_context m x = Inr y \<longleftrightarrow> x = Inr y"
  by (cases x) (simp_all add: with_context_def)

text \<open>
  A request as the daemon can read it: one line of UTF-8 without white space around it, short enough for the
  daemon's buffer.
\<close>

definition json_line :: "string \<Rightarrow> bool" where
  "json_line s = (newline \<notin> set s \<and> trim (s @ [newline]) = s \<and> from_utf8 (s @ [newline]) \<and> length s < MAX_REQUEST_BYTES)"

lemma first_line_newline: "newline \<notin> set s \<Longrightarrow> first_line (s @ [newline]) = s @ [newline]"
  by (induction s) auto

lemma read_sent:
  assumes "json_line s" "cl_sent cl = s @ [newline]" "cl_read_timeout cl = Inr ()"
  shows "read_request cl = Inr (s @ [newline])"
proof -
  have "take MAX_REQUEST_BYTES (s @ [newline]) = s @ [newline]" using assms(1) by (intro take_all) (simp add: json_line_def)
  then show ?thesis using assms by (simp add: read_request_def json_line_def first_line_newline Let_def with_context_def)
qed

lemma stream_handles:
  assumes "json_line s" "cl_sent cl = s @ [newline]" "cl_read_timeout cl = Inr ()" "cl_write_timeout cl = Inr ()"
    "decode s = Inr rq" "handle_stream decode e lk cl d w = Some (Inr (stop, resp), d', w')"
  shows "handle e lk rq d w = Some (resp, d', w')"
  using assms by (auto simp: handle_stream_def read_sent json_line_def)

section \<open>Stopping\<close>

lemma shutdown_handled: "\<exists>resp w'. handle e lk Shutdown d w = Some (resp, d, w')"
  by (auto simp: handle_def handle_state_def split: prod.splits)

lemma shutdown_stream:
  assumes "json_line (encode Shutdown)" "decode (encode Shutdown) = Inr Shutdown"
  shows "\<exists>resp w'. handle_stream decode e lk (shutdown_client encode) d w = Some (Inr (True, resp), d, w')"
proof -
  obtain resp w' where "handle e lk Shutdown d w = Some (resp, d, w')" using shutdown_handled by blast
  then show ?thesis
    using assms read_sent [of "encode Shutdown" "shutdown_client encode"]
    by (simp add: handle_stream_def shutdown_client_def json_line_def)
qed

end
