(* ===== verification/CliProps.thy ===== *)
theory CliProps
  imports Cli ViewProps DaemonGuarantees Program
begin

text \<open>
  What the exit status of \<^verbatim>\<open>ssctl\<close> means, what its commands send when their flags are left out, and the
  way of an \<^verbatim>\<open>ssctl enable\<close> through the socket, the daemon and back to the screen.
\<close>

section \<open>The exit status\<close>

definition out_text :: "cli_io \<Rightarrow> theme \<Rightarrow> cli_arguments \<Rightarrow> reply \<Rightarrow> string option" where
  "out_text io th args r =
     (if ca_json args then map_option (\<lambda>s. s @ [newline]) (res_ok (ci_pretty io r))
      else Some (view_render (view_of (request_of (ca_command args))) th (ci_now io) r))"

definition taken :: "cli_io \<Rightarrow> string \<Rightarrow> bool" where
  "taken io s = (case ci_stdout io s of Inr _ \<Rightarrow> True | Inl e \<Rightarrow> io_kind_of e = Some BrokenPipe)"

lemma emit_taken: "emit io s = Inr () \<longleftrightarrow> taken io s" "emit io s = Inr u \<longleftrightarrow> taken io s"
  by (auto simp: emit_def taken_def with_context_def split: sum.splits)

lemma show_reply_Inr:
  "show_reply io th (ca_json args) (view_of (request_of (ca_command args))) r = Inr (out, err)
   \<Longrightarrow> out_text io th args r = Some out \<and> taken io out"
  by (auto simp: show_reply_def out_text_def Let_def res_bind_def res_ok_def emit_taken split: sum.splits if_splits)

lemma show_reply_ex:
  "out_text io th args r = Some out \<Longrightarrow> taken io out
   \<Longrightarrow> \<exists>err. show_reply io th (ca_json args) (view_of (request_of (ca_command args))) r = Inr (out, err)"
  by (auto simp: show_reply_def out_text_def Let_def res_bind_def res_ok_def split: sum.splits if_splits)
     (auto simp: emit_taken [symmetric])

lemma fetch_reply_Inr:
  "fetch_reply io rq = Inr r \<longleftrightarrow>
     ci_send io (ci_encode io rq @ [newline]) = Inr () \<and> (\<exists>line. ci_line io = Inr line \<and> ci_decode io (trim line) = Inr r)"
  by (auto simp: fetch_reply_def res_bind_def split: sum.splits)

lemma run_cli_zero:
  "ce_code (finish_cli io (run_cli io th args)) = 0 \<longleftrightarrow>
     ci_connect io = Inr () \<and> (\<exists>r out. fetch_reply io (request_of (ca_command args)) = Inr r \<and> resp_ok r
        \<and> out_text io th args r = Some out \<and> taken io out)" (is "?l \<longleftrightarrow> ?r")
proof
  assume ?r
  then obtain r out where c: "ci_connect io = Inr ()" "fetch_reply io (request_of (ca_command args)) = Inr r" "resp_ok r"
    "out_text io th args r = Some out" "taken io out" by blast
  obtain err where "show_reply io th (ca_json args) (view_of (request_of (ca_command args))) r = Inr (out, err)"
    using show_reply_ex [OF c(4,5)] by blast
  with c show ?l by (simp add: run_cli_def finish_cli_def with_context_def Let_def)
next
  assume ?l
  then show ?r
    by (auto simp: run_cli_def finish_cli_def with_context_def Let_def res_bind_def split: sum.splits if_splits)
       (blast dest: show_reply_Inr)+
qed

text \<open>
  C38. The exit status of \<^verbatim>\<open>ssctl\<close> is 0 exactly when the daemon was reached, took the request, answered it with
  a reply that decodes and says it succeeded, and the output was written or its reader had closed the
  pipe; and no panic ended the offer of a report.
\<close>

theorem exit_status_exact:
  "fst (ssctl_main io oi args) = 0 \<longleftrightarrow>
     snd (snd (ssctl_main io oi args)) \<noteq> None \<and> ci_connect io = Inr ()
     \<and> ci_send io (ci_encode io (request_of (ca_command args)) @ [newline]) = Inr ()
     \<and> (\<exists>line r out. ci_line io = Inr line \<and> ci_decode io (trim line) = Inr r \<and> resp_ok r
          \<and> out_text io (theme_detect (oi_terminal oi) (ca_color args)) args r = Some out
          \<and> (case ci_stdout io out of Inr _ \<Rightarrow> True | Inl e \<Rightarrow> io_kind_of e = Some BrokenPipe))"
proof -
  let ?th = "theme_detect (oi_terminal oi) (ca_color args)"
  have "fst (ssctl_main io oi args) = 0 \<longleftrightarrow>
      snd (snd (ssctl_main io oi args)) \<noteq> None \<and> ce_code (finish_cli io (run_cli io ?th args)) = 0"
    by (simp add: ssctl_main_def Let_def)
  then show ?thesis unfolding run_cli_zero fetch_reply_Inr taken_def by blast
qed

section \<open>Flags left out\<close>

lemma module_defaults_shipped: "request_of (CmdSetModuleConfig module_flag_defaults) = SetModuleConfig (from_config shipped_config)"
  by (simp add: request_of_def module_tuning_of_def module_flag_defaults_def from_config_def shipped_config_def)

lemma redundancy_defaults_shipped: "request_of redundancy_flag_defaults = SetRedundancy redundancy_default"
  by (simp add: request_of_def redundancy_flag_defaults_def redundancy_default_def)

lemma finite_flag_exact: "finite_flag s = Inr v \<longleftrightarrow> parse_f64 s = Some v \<and> is_finite v"
  by (auto simp: finite_flag_def split: option.splits if_splits)

section \<open>From the shell to the kernel and back\<close>

lemma handle_status:
  assumes "handle e lk rq d w = Some (resp, d', w')"
  obtains st where "resp_status resp = Some st" "rst_enabled st \<longleftrightarrow> d_runtime d' \<noteq> None"
    "default_cc_of st = (case congestion_control (system_host (env_kernel e)) (dw_sys w') of Inr c \<Rightarrow> c | Inl _ \<Rightarrow> [])"
  using assms that
  by (fastforce simp: handle_def daemon_status_def guard_status_of_def guard_live_of_def default_cc_of_def split: prod.splits)

lemma action_shows_state:
  assumes "resp_status r = Some st" "carrying_traffic st"
  shows "contains_str (action th r) ''accelerating''"
proof -
  obtain a b where "action_state th st = [a @ ''accelerating'' @ b]"
  proof -
    have "\<exists>a b. green th ''accelerating'' = a @ ''accelerating'' @ b"
      by (auto simp: green_def paint_def intro: exI [of _ "[]"] exI [of _ "escape_char # ''[32m''"])
    then obtain a b where "green th ''accelerating'' = a @ ''accelerating'' @ b" by blast
    then show thesis using assms(2) that [of "''   '' @ mark_text th Info @ '' '' @ a"] by (simp add: action_state_def)
  qed
  then have "action th r = (page_text (action_message th (resp_ok r) (resp_message r)) @ a) @ ''accelerating''
      @ (b @ newline # page_text (page_blank @ [sponsor th]))"
    using assms(1) by (simp add: action_def page_finish_def page_text_def)
  then show ?thesis unfolding contains_str_iff by blast
qed

text \<open>
  C3. When \<^verbatim>\<open>ssctl enable\<close> exits with 0, the host is taken over: a daemon that served it has registered
  \<^verbatim>\<open>skyline_cc\<close> and armed the guard, the kernel's default congestion control is \<^verbatim>\<open>skyline_cc\<close>, the modules are the
  ones asked for, and the screen said so. (The request crosses the socket as one line that decodes to
  itself, and the reply read is the daemon's.)
\<close>

theorem enable_end_to_end:
  assumes "serving d w" and "ca_command args = CmdEnable ms all_off"
    and "json_line (ci_encode io (request_of (ca_command args)))"
    and "decode (ci_encode io (request_of (ca_command args))) = Inr (request_of (ca_command args))"
    and "cl_sent cl = ci_encode io (request_of (ca_command args)) @ [newline]"
    and "cl_read_timeout cl = Inr ()" and "cl_write_timeout cl = Inr ()"
    and "handle_stream decode e lk cl d w = Some (Inr (stop, resp), d', w')"
    and "ci_line io = Inr line" and "ci_decode io (trim line) = Inr r" and "response.truncate r = resp"
    and "fst (ssctl_main io oi args) = 0"
  shows "accelerating d' \<and> armed (d_guard d') \<and> dw_registered w'
    \<and> read_sysctl CONGESTION_CONTROL_SYSCTL (dw_sys w') = Inr SKYLINE_CC_NAME
    \<and> enabled_modules (d_config d')
        = (if all_off then [] else case ms of Some m \<Rightarrow> m | None \<Rightarrow> enabled_modules (d_config d))
    \<and> (ca_json args \<or> (\<exists>out. out_text io (theme_detect (oi_terminal oi) (ca_color args)) args r = Some out
          \<and> contains_str out ''accelerating''))"
proof -
  let ?th = "theme_detect (oi_terminal oi) (ca_color args)"
  let ?ms = "if all_off then Some [] else ms"
  have rq: "request_of (ca_command args) = Enable ?ms" using assms(2) by (simp add: request_of_def)
  have h: "handle e lk (Enable ?ms) d w = Some (resp, d', w')"
    using stream_handles [OF assms(3,5,6,7,4,8)] unfolding rq .
  have "ce_code (finish_cli io (run_cli io ?th args)) = 0"
    using assms(12) by (simp add: ssctl_main_def Let_def split: if_splits)
  then have okr: "resp_ok r" using assms(9,10) by (auto simp: run_cli_zero fetch_reply_Inr)
  then have ok: "resp_ok resp" using assms(11) by (auto simp: response.defs)
  note eff = enable_effect [OF assms(1) h ok]
  from handle_status [OF h] obtain st where st: "resp_status resp = Some st" "rst_enabled st \<longleftrightarrow> d_runtime d' \<noteq> None"
    "default_cc_of st = (case congestion_control (system_host (env_kernel e)) (dw_sys w') of Inr c \<Rightarrow> c | Inl _ \<Rightarrow> [])" .
  have "carrying_traffic st" using eff st by (auto simp: carrying_traffic_def system_host_def trim_cc)
  moreover have "resp_status r = Some st" using st(1) assms(11) by (auto simp: response.defs)
  ultimately have "contains_str (action ?th r) ''accelerating''" by (rule action_shows_state [rotated])
  then have "ca_json args \<or> (\<exists>out. out_text io ?th args r = Some out \<and> contains_str out ''accelerating'')"
    by (simp add: out_text_def rq view_of_def view_render_def)
  with eff show ?thesis by (auto split: if_splits)
qed

section \<open>An enable that works\<close>

definition example_io :: "reply \<Rightarrow> cli_io" where
  "example_io r =
     \<lparr>ci_connect = Inr (), ci_encode = (\<lambda>_. ''{}''), ci_send = (\<lambda>_. Inr ()), ci_line = Inr ''{}'', ci_decode = (\<lambda>_. Inr r),
      ci_pretty = (\<lambda>_. Inr ''{}''), ci_stdout = (\<lambda>_. Inr ()), ci_stderr_tty = False, ci_now = None, ci_debug = (\<lambda>_. [])\<rparr>"

definition example_arguments :: cli_arguments where
  "example_arguments = \<lparr>ca_socket = ''/run/skyline-speeder/speeder.sock'', ca_json = False, ca_color = Auto,
     ca_command = CmdEnable None False\<rparr>"

definition enable_client :: client where
  "enable_client = \<lparr>cl_sent = ''{}'' @ [newline], cl_closed = False, cl_read_timeout = Inr (), cl_write_timeout = Inr ()\<rparr>"

text \<open>A user who is not root, who is never asked.\<close>

lemma not_root_exit: "\<not> oi_root oi \<Longrightarrow> fst (ssctl_main io oi args) = ce_code (finish_cli io (run_cli io (theme_detect (oi_terminal oi) (ca_color args)) args))"
  by (simp add: ssctl_main_def Let_def feedback_detect_def feedback_mode_of_def make_offer_def offer_unreachable_def split: offered.split)

lemma example_exit:
  assumes "\<not> oi_root oi" "resp_ok r"
  shows "fst (ssctl_main (example_io r) oi example_arguments) = 0"
  unfolding not_root_exit [OF assms(1)] run_cli_zero fetch_reply_Inr
  using assms(2) by (simp add: example_io_def example_arguments_def out_text_def taken_def)

theorem enable_end_to_end_witness:
  "\<exists>d w d' w'. after [] d w \<and> after ''e'' d' w' \<and> armed (d_guard d') \<and> dw_registered w'"
proof -
  obtain d w resp d' w' where a: "after [] d w" and h: "handle calm_env no_lookups (Enable None) d w = Some (resp, d', w')"
    and ok: "resp_ok resp" and b: "after ''e'' d' w'" by (metis example_enabled)
  define r where "r = response.extend resp \<lparr>resp_flows = None\<rparr>"
  have r: "resp_ok r" "response.truncate r = resp" using ok by (simp_all add: r_def response.defs)
  have args: "ca_command example_arguments = CmdEnable None False" by (simp add: example_arguments_def)
  have rq: "request_of (ca_command example_arguments) = Enable None" by (simp add: request_of_def args)
  have enc: "ci_encode (example_io r) q = ''{}''" for q by (simp add: example_io_def)
  have io: "ci_line (example_io r) = Inr ''{}''" "ci_decode (example_io r) (trim ''{}'') = Inr r" by (simp_all add: example_io_def)
  have cl: "cl_sent enable_client = ''{}'' @ [newline]" "cl_read_timeout enable_client = Inr ()" "cl_write_timeout enable_client = Inr ()"
    by (simp_all add: enable_client_def)
  have j: "json_line ''{}''"
    by (simp add: json_line_def trim_def is_whitespace_def from_utf8_def MAX_REQUEST_BYTES_def)
  have s: "handle_stream (\<lambda>_. Inr (Enable None)) calm_env no_lookups enable_client d w = Some (Inr (False, resp), d', w')"
    using h read_sent [OF j cl(1,2)] by (simp add: handle_stream_def cl)
  obtain oi :: offer_io where oi: "\<not> oi_root oi" by (metis offer_io.select_convs(5))
  have "armed (d_guard d') \<and> dw_registered w'"
    using enable_end_to_end [where decode = "\<lambda>_. Inr (Enable None)" and io = "example_io r", OF after_serving [OF a] args, unfolded enc rq,
        OF j refl cl s io r(2) example_exit [OF oi r(1)]] by blast
  with a b show ?thesis by blast
qed

end
