(* ===== verification/ProgramProps.thy ===== *)
theory ProgramProps
  imports Program DaemonGuarantees
begin

text \<open>
  How the program ends: a signal stops the daemon whatever it did before, and a daemon that stops on an
  error leaves a report that \<^verbatim>\<open>ssctl\<close> finds. The events the reader takes from the kernel keep the log within its
  cap.
\<close>

lemma serve_loop_append:
  "serve_loop decode evs d w = Some (False, d', w') \<Longrightarrow> serve_loop decode (evs @ more_evs) d w = serve_loop decode more_evs d' w'"
  by (induction decode evs d w rule: serve_loop.induct) (auto split: option.splits prod.splits if_splits)

lemma drop_keeps_sysctls: "read_sysctl p (dw_sys (drop_daemon e d w)) = read_sysctl p (dw_sys w)"
  by (simp add: drop_daemon_def drop_bpf_runtime_def split: sum.split)

text \<open>
  C32. A signal ends the daemon: whatever requests it served, ticks of the guard it ran and changes of
  other programs it met before, when the watcher's connection is accepted, \<open>serve\<close> returns without an
  error, the socket file is gone, and the host's default congestion control is what it was.
\<close>

theorem signal_stops_daemon:
  assumes "json_line (encode Shutdown)" and "decode (encode Shutdown) = Inr Shutdown"
    and "serve_start io e d w fs = (Inr d1, w1, fs1)" and "serve_loop decode evs d1 w1 = Some (False, d2, w2)"
  shows "\<exists>w'. serve decode io e (evs @ Connects e2 lk (shutdown_client encode) # later) e_stop d w fs
      = Some (Inr (), w', fs1(rt_socket_path (runtime_table (d_config d)) := None))
    \<and> read_sysctl CONGESTION_CONTROL_SYSCTL (dw_sys w') = read_sysctl CONGESTION_CONTROL_SYSCTL (dw_sys w2)"
proof -
  obtain resp w3 where h: "handle_stream decode e2 lk (shutdown_client encode) d2 w2 = Some (Inr (True, resp), d2, w3)"
    using shutdown_stream [of encode decode, OF assms(1,2)] by blast
  have "serve decode io e (evs @ Connects e2 lk (shutdown_client encode) # later) e_stop d w fs
      = Some (Inr (), drop_daemon e_stop d2 w3, fs1(rt_socket_path (runtime_table (d_config d)) := None))"
    by (simp add: serve_def assms(3) serve_loop_append [OF assms(4)] h)
  moreover have "handle e2 lk Shutdown d2 w2 = Some (resp, d2, w3)"
    using stream_handles [of "encode Shutdown", OF assms(1) _ _ _ assms(2) h] by (simp add: shutdown_client_def)
  then have "read_sysctl CONGESTION_CONTROL_SYSCTL (dw_sys w3) = read_sysctl CONGESTION_CONTROL_SYSCTL (dw_sys w2)"
    by (rule handle_cases) (auto simp: handle_state_def dest: same_host_cc)
  ultimately show ?thesis by (simp add: drop_keeps_sysctls)
qed

text \<open>
  C33. A daemon that stops on an error is not lost: with the directory of the reports in order, with room
  in it and no report of that failure yet, the error \<open>run\<close> returned is afterwards among the reports that
  \<^verbatim>\<open>ssctl\<close> finds and offers, with its message, the version and the time.
\<close>

theorem stopped_daemon_reported:
  assumes "\<forall>report. \<exists>bytes. rj_encode json report = Inr bytes \<and> rj_decode json bytes = Some report"
    and "\<not> arg_validate_only a" and "run_daemon u a w fs = Some (Inl x, w', fs')"
    and "dir (report_path ''exited'' (alternate_of x)) = None" and "waiting_reports all_well dir < DAEMON_REPORTS_MAX"
    and "report_path ''exited'' (alternate_of x) \<in> set entries"
  shows "\<exists>dir'. daemon_main u version json all_well now a w fs dir = Some (Inl x, dir')
    \<and> (report_path ''exited'' (alternate_of x),
        \<lparr>dr_version = version, dr_kind = ''exited'', dr_message = alternate_of x, dr_first_seen = now, dr_last_seen = now,
         dr_count = 1\<rparr>) \<in> set (recorded json True (\<lambda>_. True) entries dir')"
proof -
  let ?path = "report_path ''exited'' (alternate_of x)"
  let ?r = "\<lparr>dr_version = version, dr_kind = ''exited'', dr_message = alternate_of x, dr_first_seen = now, dr_last_seen = now, dr_count = 1\<rparr>"
  obtain bytes where b: "rj_encode json ?r = Inr bytes" "rj_decode json bytes = Some ?r" using assms(1) by blast
  have "next_report version json all_well dir ?path ''exited'' (alternate_of x) now = Inr (Some ?r)"
    using assms(4,5) by (simp add: next_report_def all_well_def)
  from record_well [OF this b(1)]
  have "daemon_main u version json all_well now a w fs dir
      = Some (Inl x, dir(?path \<mapsto> bytes, report_stage ''exited'' (alternate_of x) := None))"
    using assms(2,3) by (simp add: daemon_main_def)
  moreover have "is_report ?path" by (simp add: report_path_def report_names)
  then have "(?path, ?r) \<in> set (recorded json True (\<lambda>_. True) entries (dir(?path \<mapsto> bytes, report_stage ''exited'' (alternate_of x) := None)))"
    using assms(6) b(2) not_sym [OF stage_not_path]
    by (auto simp: recorded_def map_filter_def image_iff intro!: bexI [of _ ?path])
  ultimately show ?thesis by blast
qed

text \<open>The reader does to the log what a sequence of appends of whole lines does.\<close>

definition event_append :: "(sky_event \<Rightarrow> string option) \<Rightarrow> bool \<times> io_ok \<times> u8 list \<Rightarrow> log_op option" where
  "event_append to_json = (\<lambda>(locked, io, bs).
     if locked then map_option (\<lambda>line. Append io (line @ [newline])) (Option.bind (event_of_bytes bs) to_json) else None)"

lemma read_events_appends: "read_events to_json evs s = log_run (List.map_filter (event_append to_json) evs) s"
proof (induction evs arbitrary: s)
  case (Cons ev evs)
  obtain locked io bs where ev: "ev = (locked, io, bs)" by (metis prod_cases3)
  obtain l fs where s: "s = (l, fs)" by (cases s)
  show ?case
    using Cons by (cases "Option.bind (event_of_bytes bs) to_json")
      (auto simp: ev s read_events_def read_event_def event_append_def log_run_def)
qed (simp add: read_events_def log_run_def)

section \<open>Examples\<close>

definition stop_decode :: "string \<Rightarrow> (string, request) result" where
  "stop_decode s = (if s = ''s'' then Inr Shutdown else example_decode s)"

theorem signal_stops_daemon_witness:
  "\<exists>d w fs1 w'. serve stop_decode calm_start calm_env [Connects calm_env no_lookups (shutdown_client (\<lambda>_. ''s''))] calm_env d w Map.empty
     = Some (Inr (), w', fs1(rt_socket_path (runtime_table (d_config d)) := None))"
proof -
  obtain d0 d1 w1 fs1 where s: "serve_start calm_start calm_env d0 calm_world Map.empty = (Inr d1, w1, fs1)"
    using example_start by (metis after_def)
  have "json_line ''s''" "stop_decode ''s'' = Inr Shutdown"
    by (simp_all add: json_line_def trim_def is_whitespace_def from_utf8_def MAX_REQUEST_BYTES_def stop_decode_def)
  from signal_stops_daemon [where encode = "\<lambda>_. ''s''" and decode = stop_decode and evs = "[]" and later = "[]", OF this s, of d1 w1 calm_env no_lookups calm_env]
  show ?thesis by auto
qed

definition missing_config :: "unit run_io" where
  "missing_config =
     \<lparr>ru_read = (\<lambda>_. Inl ''No such file or directory (os error 2)''), ru_parse = (\<lambda>_. Inr []), ru_decode_toml = (\<lambda>_. Inr shipped_config),
      ru_encode_toml = (\<lambda>_. Some []), ru_float = (\<lambda>_. []), ru_probe = capable_host, ru_log_opened = Inr (), ru_now = 0,
      ru_printed = Inr (), ru_load_cc = (\<lambda>_. Inr ()), ru_load_object = (\<lambda>_. Inr ()), ru_decode = example_decode,
      ru_start = calm_start, ru_env = calm_env, ru_events = [], ru_stop_env = calm_env\<rparr>"

theorem stopped_daemon_reported_witness:
  "\<exists>x dir'. daemon_main missing_config ''0.5.2'' plain_json all_well 7
       \<lparr>arg_config = ''speeder.toml'', arg_validate_only = False, arg_verify_bpf = False\<rparr> calm_world Map.empty Map.empty
     = Some (Inl x, dir') \<and> map fst (recorded plain_json True (\<lambda>_. True) [report_path ''exited'' (alternate_of x)] dir')
         = [report_path ''exited'' (alternate_of x)]"
proof -
  let ?a = "\<lparr>arg_config = ''speeder.toml'', arg_validate_only = False, arg_verify_bpf = False\<rparr>"
  obtain x where r: "run_daemon missing_config ?a calm_world Map.empty = Some (Inl x, calm_world, Map.empty)"
    by (simp add: run_daemon_def load_daemon_def config_load_def missing_config_def)
  have room: "waiting_reports all_well Map.empty < DAEMON_REPORTS_MAX" by (simp add: waiting_reports_def DAEMON_REPORTS_MAX_def)
  from stopped_daemon_reported [OF _ _ r, of plain_json Map.empty "[report_path ''exited'' (alternate_of x)]" "''0.5.2''" 7] room plain_codec
  obtain dir' rep where d: "daemon_main missing_config ''0.5.2'' plain_json all_well 7 ?a calm_world Map.empty Map.empty = Some (Inl x, dir')"
    and m: "(report_path ''exited'' (alternate_of x), rep) \<in> set (recorded plain_json True (\<lambda>_. True) [report_path ''exited'' (alternate_of x)] dir')"
    by auto
  from m have l: "map fst (recorded plain_json True (\<lambda>_. True) [report_path ''exited'' (alternate_of x)] dir') = [report_path ''exited'' (alternate_of x)]"
    by (auto simp: recorded_def List.map_filter_def split: if_splits)
  show ?thesis by (intro exI [of _ x] exI [of _ dir'] conjI d l)
qed

end
