(* ===== verification/Spec2Isabelle.thy ===== *)
theory Spec2Isabelle
  imports CongLoss Policy PacketTc ConfigKeys EventLog Caps DaemonGuarantees ServerProps Publish Flows Reports SealProps FeedbackProps CliProps ProgramProps
begin

text \<open>
  \<^bold>\<open>Skyline Speeder.\<close> A Linux host accelerates its TCP connections with \<open>skyline_cc\<close>, a congestion
  control written in BPF. A daemon, \<^verbatim>\<open>skyline-speederd\<close>, loads and registers it, keeps the host set
  up for it and takes requests from \<^verbatim>\<open>ssctl\<close> over a Unix socket. This development is about the Rust
  code under \<^verbatim>\<open>src/crates\<close> and the three BPF programs under \<^verbatim>\<open>src/bpf\<close> it drives: the library \<^verbatim>\<open>skyline-common\<close> (configuration, kernel images, protocol
  types), the daemon (\<^verbatim>\<open>main.rs\<close>, \<^verbatim>\<open>guard.rs\<close>, \<^verbatim>\<open>flows.rs\<close>, \<^verbatim>\<open>reports.rs\<close>), \<^verbatim>\<open>ssctl\<close> (\<^verbatim>\<open>main.rs\<close>, \<^verbatim>\<open>view.rs\<close>,
  \<^verbatim>\<open>style.rs\<close>, \<^verbatim>\<open>feedback.rs\<close>), the congestion controller (\<^verbatim>\<open>skyline_cc.bpf.c\<close>), the policy program
  (\<^verbatim>\<open>skyline_policy.bpf.c\<close>) and the egress program (\<^verbatim>\<open>skyline_tc.bpf.c\<close>).

  \<^bold>\<open>How the parts interact.\<close> The configuration file is parsed and validated
  (\<open>SkylineConfig::load\<close>); the daemon probes the kernel (\<open>probe_capabilities\<close>) and serves requests
  one at a time. \<open>Enable\<close> loads the BPF objects, publishes the kernel image of the configuration
  into their maps, writes \<open>skyline_cc\<close> into the congestion-control sysctl and arms the guard; a
  background thread of the guard puts the sysctls and the qdiscs back when something else changed
  them; a sampler thread reads the counters; \<open>Drain\<close> disarms the guard, hands new connections to
  the fallback and unregisters \<open>skyline_cc\<close> once no connection uses it. Running connections copy the
  published configuration while the daemon may be replacing it; on every ACK the controller updates
  its model of the path and sets window and pacing rate from it and the configuration, the policy
  program tunes the connection's timeouts, and the egress program marks retransmissions and copies
  the first flight. A daemon that stops on an error leaves
  a report; \<^verbatim>\<open>ssctl\<close> sends a request, shows the reply as a page, exits with a status, and may offer to
  send such a report, scrubbed, after asking.

  \<^bold>\<open>Theories, in the order they build on each other.\<close>

  \<^item> \<open>Prelude\<close>, \<open>Text\<close>, \<open>Floats\<close>: widths and result types, the list and word lemmas the components
    share; Rust's \<open>split\<close>, \<open>trim\<close>, \<open>parse\<close> and the display of numbers; binary64 numbers as
    rationals with rounding written out (comparison, the arithmetic the code does, \<open>as u32\<close>).

  \<^item> \<open>Config\<close>, \<open>Validate\<close>, \<open>Tuning\<close>, \<open>ConfigKeys\<close> (\<^verbatim>\<open>skyline-common/src/lib.rs\<close>): every table of the
    configuration as a record, the images written into BPF maps, \<open>SkylineConfig::validate\<close> with its
    checks in order, the tuning snapshot, the feature mask, loading and the unknown-key notes. An
    accepted configuration gives an image within the bounds the BPF code relies on, and the gain it
    computes with that image does not wrap.

  \<^item> \<open>Metrics\<close> (\<^verbatim>\<open>lib.rs\<close>, \<^verbatim>\<open>main.rs\<close>): per-CPU counters summed with wrap-around, the sampler's bounded
    history and the recent window, equal to the window over the unbounded history.

  \<^item> \<open>Qdisc\<close>, \<open>Guard\<close>, \<open>GuardProps\<close>, \<open>Host\<close>, \<open>GuardLock\<close> (\<^verbatim>\<open>guard.rs\<close>): the listing of \<^verbatim>\<open>tc\<close> parsed, the
    verdict on a root qdisc and the plan that replaces it; one pass of the guard over an arbitrary
    host. The interface \<open>Host\<close> is the locale \<open>guard_host\<close>, interpreted on the model of \<open>SystemHost\<close>
    over a world of files, directories and a kernel that answers \<^verbatim>\<open>tc\<close>. \<open>GuardLock\<close> has the periodic
    thread, \<open>Enable\<close> and \<open>Drain\<close> interleaving under the guard's mutex as a step relation.

  \<^item> \<open>EventLog\<close> (\<^verbatim>\<open>main.rs\<close>): the size-capped log over a file system in which every call may fail.

  \<^item> \<open>Caps\<close> (\<^verbatim>\<open>main.rs\<close>): the capability probe, the module index and the choice of the struct_ops layout.

  \<^item> \<open>Runtime\<close>, \<open>Daemon\<close> (\<^verbatim>\<open>main.rs\<close>): the three BPF objects as the contents of their maps, and every
    request of the daemon with its rollback. \<open>DaemonFrames\<close>, \<open>DaemonProps\<close>, \<open>DaemonModes\<close> and
    \<open>DaemonRuns\<close> carry the invariants over one request and over every run of the daemon, the guard's
    ticks between requests included (the step relation \<open>serving\<close>); \<open>DaemonGuarantees\<close> states what
    follows for a running daemon and has a run that enables, retunes and drains.

  \<^item> \<open>Server\<close>, \<open>ServerProps\<close> (\<^verbatim>\<open>main.rs\<close>): the socket path, request framing, the accept loop, snapshot
    files, the check mode.

  \<^item> \<open>Publish\<close> (\<^verbatim>\<open>main.rs\<close> and \<^verbatim>\<open>src/bpf/skyline_cc.bpf.c\<close>): the two-slot publication word by word
    against a connection that copies it.

  \<^item> \<open>Controller\<close>, \<open>CongControl\<close> (\<^verbatim>\<open>src/bpf/skyline_cc.bpf.c\<close>): the state of a connection, the model of the path
    and every \<open>struct_ops\<close> handler, on words of the widths of the C code. \<open>CongLaws\<close> has the invariant of a
    connection and the locale \<open>struct_op\<close>, the contract of a handler, interpreted on each of them;
    \<open>CongProps\<close> what follows over runs of the handlers on any number of sockets: well-formed state, the
    flow count \<open>Drain\<close> waits for, window and pacing rate within the limits of the configuration file,
    the end of STARTUP on evidence alone; \<open>CongMath\<close> the arithmetic against references on
    unbounded numbers, with the bounds under which nothing wraps; \<open>CongLoss\<close> two runs of the ACK handler
    that differ in everything that speaks of losses: more losses never give a smaller window or a
    lower pacing rate.

  \<^item> \<open>Policy\<close> (\<^verbatim>\<open>skyline_policy.bpf.c\<close>): the hand-over of new connections and the retransmission timeouts,
    which stay in range. \<open>PacketTc\<close> (\<^verbatim>\<open>skyline_tc.bpf.c\<close>): header parsing, marking and copying over the
    bytes of a packet; a packet is sent at most twice, and marking changes nothing but the codepoint
    and the checksum.

  \<^item> \<open>Flows\<close> (\<^verbatim>\<open>flows.rs\<close>): running \<^verbatim>\<open>ss\<close>, its listing parsed into rows, the counts and the capped report.
    \<open>Reports\<close> (\<^verbatim>\<open>reports.rs\<close>): the report of a failure, written whole or not at all, at most
    \<open>DAEMON_REPORTS_MAX\<close> of them, one per kind of failure.

  \<^item> \<open>Style\<close> (\<^verbatim>\<open>style.rs\<close>): themes, marks, bars, number formats, wrapping and padding of UTF-8 text.
    \<open>View\<close>, \<open>StatusView\<close>, \<open>FlowsView\<close> (\<^verbatim>\<open>view.rs\<close>): every page, section by section, as the lines it is put
    together from. \<open>ViewLaws\<close> has the locale \<open>page_words\<close>, the laws of a predicate on texts that pages
    keep, and \<open>ViewSections\<close> proves inside it that every section keeps such a predicate; \<open>ViewProps\<close>
    interprets it twice and states what a reader of a page can rely on.

  \<^item> \<open>Seal\<close>, \<open>SealProps\<close>, \<open>Scrub\<close>, \<open>ScrubProps\<close>, \<open>Feedback\<close>, \<open>FeedbackProps\<close> (\<^verbatim>\<open>feedback.rs\<close>): the sealed address
    of the report service (ChaCha20), the configuration given to \<^verbatim>\<open>curl\<close>, the passes that take
    addresses and names out of a text, the events, whether to ask, the question and the sending. Nothing is sent
    without consent, and what is sent has no IPv4 address left. \<open>SealScript\<close> (\<^verbatim>\<open>infra/seal-feedback-dsn.py\<close>) is the
    script that seals the address, with a ChaCha20 of its own on unbounded integers; the two
    implementations agree, and \<^verbatim>\<open>ssctl\<close> opens what the script writes.

  \<^item> \<open>Program\<close>, \<open>ProgramProps\<close> (\<^verbatim>\<open>main.rs\<close>): \<open>run\<close> and \<open>main\<close> of the daemon with the report of an error, the reader of
    kernel events, and the signal watcher. A signal stops the daemon; an error it stops on is found by
    \<^verbatim>\<open>ssctl\<close>.

  \<^item> \<open>Cli\<close>, \<open>CliProps\<close> (\<^verbatim>\<open>ssctl/src/main.rs\<close>): commands, the requests they send, the run and its exit
    status, and the way of an enable from the command line through the socket, the daemon and the
    kernel back to the screen.

  \<^bold>\<open>Parameters.\<close> What is not under \<^verbatim>\<open>src\<close> is an argument of the definitions that use it: the TOML
  parser and serde, libbpf's answers, the kernel's answers to \<^verbatim>\<open>tc\<close> and to file operations, the clock,
  what \<^verbatim>\<open>ss\<close>, \<^verbatim>\<open>journalctl\<close> and \<^verbatim>\<open>systemctl\<close> print, how \<^verbatim>\<open>curl\<close> ends, the terminal, what is typed there, and the
  text of \<open>{:?}\<close> of an \<^verbatim>\<open>anyhow\<close> error; for the BPF programs what each helper returns at each call (clock, ring,
  storage, socket options, the maps the daemon writes), the kernel's \<open>tcp_slow_start\<close>, \<open>tcp_cong_avoid_ai\<close>,
  \<open>tcp_reno_cong_avoid\<close> and \<open>tcp_reno_undo_cwnd\<close>, the checksum helper, the clone of a packet and
  whether its time can be set.
  An environment answers every call of a daemon operation, so every error path is a branch.

  \<^bold>\<open>Bounds and fuel.\<close> Counters and images keep their widths (32 and 64 bit words). Symbolic links
  are followed 40 times, as Linux does. The wait of \<open>Drain\<close> is a partial function into option, whose
  value is None when the wait never ends; that it ends is proved where the code promises it. A run
  of the server is driven by the list of what arrives, the question of \<^verbatim>\<open>ssctl\<close> by the list of what is
  typed. The guard descends at most \<open>MAX_LOWER_DEPTH\<close>
  devices, the source's own bound.

  \<^bold>\<open>Not modelled.\<close> The kernel around the BPF programs, beyond what its helpers return, and the maps'
  and programs' section annotations, which are the loader's; the owner of the socket file; command-line
  parsing, which is clap's (the constraints its attributes state are \<open>clap_accepts\<close>); white space outside
  ASCII in the texts of a page; other programs that act while the daemon handles one request, the wait of
  \<open>Drain\<close> included (between requests and beside the guard's thread they are modelled); installer, packaging and
  research scripts, but for the sealing of the address.
\<close>

end
